(* ===== verification/Prelude.thy ===== *)
theory Prelude
  imports
    Main
    "HOL-Library.Word"
    "HOL-Library.Multiset"
    "HOL-Library.Sublist"
    "HOL-Library.Char_ord"
    "HOL-Library.List_Lexorder"
    "HOL-Library.Product_Lexorder"
begin

text \<open>
  Vocabulary shared by every component: the types that stand for Python's scalars, results
  with an error branch, and the few operations of \<^verbatim>\<open>str\<close>, \<^verbatim>\<open>list\<close> and \<^verbatim>\<open>set\<close> that the
  source uses everywhere.

  \<^item> a \<^verbatim>\<open>uuid.UUID\<close> is a 128-bit word; the order of its canonical text is the
    unsigned order of the word, so \<^verbatim>\<open>sorted(..., key=str)\<close> sorts by the word;
  \<^item> a timezone-aware \<^verbatim>\<open>datetime\<close> is the number of microseconds since the epoch
    (\<open>timestamp\<close>), a \<^verbatim>\<open>timedelta\<close> a number of microseconds (\<open>duration\<close>);
  \<^item> a \<^verbatim>\<open>str\<close> is a \<open>string\<close>: its characters are the 256 code points of Latin-1;
  \<^item> an exception is the left branch of \<open>'e + 'a\<close>.
\<close>

section \<open>Scalars\<close>

type_synonym uuid = "128 word"
type_synonym timestamp = int
type_synonym duration = int
type_synonym digest = string

definition seconds :: "int \<Rightarrow> duration" where
  "seconds n = n * 1000000"

lemma seconds_le_iff [simp]: "seconds a \<le> seconds b \<longleftrightarrow> a \<le> b"
  by (simp add: seconds_def)

lemma seconds_less_iff [simp]: "seconds a < seconds b \<longleftrightarrow> a < b"
  by (simp add: seconds_def)

section \<open>Results\<close>

named_theorems result_simps

fun bind_result :: "'e + 'a \<Rightarrow> ('a \<Rightarrow> 'e + 'b) \<Rightarrow> 'e + 'b" where
  "bind_result (Inl e) f = Inl e"
| "bind_result (Inr x) f = f x"

definition succeeds :: "'e + 'a \<Rightarrow> bool" where
  "succeeds r = (case r of Inl _ \<Rightarrow> False | Inr _ \<Rightarrow> True)"

text \<open>A comprehension whose element expression may raise: the first exception wins.\<close>

fun traverse :: "('a \<Rightarrow> 'e + 'b) \<Rightarrow> 'a list \<Rightarrow> 'e + 'b list" where
  "traverse f [] = Inr []"
| "traverse f (x # xs) =
     bind_result (f x) (\<lambda>y. bind_result (traverse f xs) (\<lambda>ys. Inr (y # ys)))"

text \<open>A loop that appends to a list, and \<^verbatim>\<open>any(...)\<close> with its short circuit.\<close>

definition collect :: "('a \<Rightarrow> 'e + 'b list) \<Rightarrow> 'a list \<Rightarrow> 'e + 'b list" where
  "collect f xs = bind_result (traverse f xs) (\<lambda>yss. Inr (concat yss))"

fun any_result :: "('a \<Rightarrow> 'e + bool) \<Rightarrow> 'a list \<Rightarrow> 'e + bool" where
  "any_result f [] = Inr False"
| "any_result f (x # xs) = bind_result (f x) (\<lambda>b. if b then Inr True else any_result f xs)"

lemma bind_result_Inr_iff [result_simps]:
  "bind_result r f = Inr y \<longleftrightarrow> (\<exists>x. r = Inr x \<and> f x = Inr y)"
  by (cases r) auto

lemma bind_result_Inl_iff [result_simps]:
  "bind_result r f = Inl e \<longleftrightarrow> r = Inl e \<or> (\<exists>x. r = Inr x \<and> f x = Inl e)"
  by (cases r) auto

lemma succeeds_simps [simp]: "succeeds (Inr x)" "\<not> succeeds (Inl e)"
  by (simp_all add: succeeds_def)

lemma succeeds_iff: "succeeds r \<longleftrightarrow> (\<exists>x. r = Inr x)"
  by (cases r) auto

lemma collect_Nil: "collect f [] = Inr []"
  by (simp add: collect_def)

lemma collect_Cons:
  "collect f (x # xs) = bind_result (f x) (\<lambda>ys. bind_result (collect f xs) (\<lambda>zs. Inr (ys @ zs)))"
  by (cases "f x"; cases "traverse f xs") (simp_all add: collect_def)

lemma collect_Inr_Nil_iff: "collect f xs = Inr [] \<longleftrightarrow> (\<forall>x\<in>set xs. f x = Inr [])"
  by (induction xs) (auto simp: collect_Nil collect_Cons result_simps)

lemma any_result_Inr_False_iff: "any_result f xs = Inr False \<longleftrightarrow> (\<forall>x\<in>set xs. f x = Inr False)"
  by (induction xs) (auto simp: result_simps)

lemma traverse_Inr_length: "traverse f xs = Inr ys \<Longrightarrow> length ys = length xs"
  by (induction xs arbitrary: ys) (auto simp: result_simps)

lemma traverse_Inr_list_all2:
  "traverse f xs = Inr ys \<longleftrightarrow> list_all2 (\<lambda>x y. f x = Inr y) xs ys"
  by (induction xs arbitrary: ys) (auto simp: result_simps list_all2_Cons1)

lemma traverse_Inr_set:
  "traverse f xs = Inr ys \<Longrightarrow> y \<in> set ys \<Longrightarrow> \<exists>x\<in>set xs. f x = Inr y"
  by (induction xs arbitrary: ys) (auto simp: result_simps)

lemma traverse_Inr_map:
  "traverse f xs = Inr ys \<Longrightarrow> (\<And>x y. f x = Inr y \<Longrightarrow> g y = h x) \<Longrightarrow> map g ys = map h xs"
  by (induction xs arbitrary: ys) (auto simp: result_simps)

section \<open>Python's str\<close>

definition is_space_char :: "char \<Rightarrow> bool" where
  "is_space_char c \<longleftrightarrow>
     (let n = of_char c :: nat in (9 \<le> n \<and> n \<le> 13) \<or> (28 \<le> n \<and> n \<le> 32) \<or> n = 133 \<or> n = 160)"

text \<open>\<^verbatim>\<open>s.strip()\<close>, \<^verbatim>\<open>s.lower()\<close> on ASCII letters, \<^verbatim>\<open>s.startswith(p)\<close>, \<^verbatim>\<open>s.endswith(p)\<close>.\<close>

definition strip_by :: "(char \<Rightarrow> bool) \<Rightarrow> string \<Rightarrow> string" where
  "strip_by p s = rev (dropWhile p (rev (dropWhile p s)))"

definition strip :: "string \<Rightarrow> string" where
  "strip s = strip_by is_space_char s"

definition lower_char :: "char \<Rightarrow> char" where
  "lower_char c =
     (let n = of_char c :: nat in if 65 \<le> n \<and> n \<le> 90 then char_of (n + 32) else c)"

definition lower :: "string \<Rightarrow> string" where
  "lower s = map lower_char s"

definition starts_with :: "string \<Rightarrow> string \<Rightarrow> bool" where
  "starts_with s p = prefix p s"

definition ends_with :: "string \<Rightarrow> string \<Rightarrow> bool" where
  "ends_with s p = suffix p s"

text \<open>\<^verbatim>\<open>needle in s\<close> for strings.\<close>

fun contains_text :: "string \<Rightarrow> string \<Rightarrow> bool" where
  "contains_text [] p = (p = [])"
| "contains_text (c # cs) p = (prefix p (c # cs) \<or> contains_text cs p)"

lemma contains_text_iff: "contains_text s p \<longleftrightarrow> sublist p s"
  by (induction s p rule: contains_text.induct) (auto simp: sublist_Cons_right)

lemma strip_by_idem: "strip_by p (strip_by p s) = strip_by p s"
proof -
  let ?a = "dropWhile p s"
  let ?t = "rev (dropWhile p (rev ?a))"
  have hd_a: "?a \<noteq> [] \<Longrightarrow> \<not> p (hd ?a)"
    by (rule hd_dropWhile)
  have pre: "prefix ?t ?a"
    using suffix_dropWhile [of p "rev ?a"] by (simp add: suffix_to_prefix)
  have "dropWhile p ?t = ?t"
  proof (cases ?t)
    case (Cons c cs)
    from pre have "\<exists>zs. ?a = (c # cs) @ zs" unfolding Cons prefix_def .
    then obtain zs where zs: "?a = (c # cs) @ zs" ..
    have a: "hd ?a = c" "?a \<noteq> []" unfolding zs by simp_all
    from hd_a [OF a(2)] a(1) have "\<not> p c" by blast
    then show ?thesis unfolding Cons by simp
  next
    case Nil
    show ?thesis unfolding Nil by simp
  qed
  then show ?thesis
    by (simp add: strip_by_def dropWhile_idem)
qed

lemma strip_by_split: "\<exists>a b. s = a @ strip_by p s @ b"
proof -
  have "s = takeWhile p s @ dropWhile p s" by simp
  moreover have "dropWhile p s = strip_by p s @ rev (takeWhile p (rev (dropWhile p s)))"
    unfolding strip_by_def by (metis rev_append rev_rev_ident takeWhile_dropWhile_id)
  ultimately show ?thesis by metis
qed

lemma strip_by_id:
  assumes "s = [] \<or> \<not> p (hd s) \<and> \<not> p (last s)"
  shows "strip_by p s = s"
proof (cases s)
  case (Cons c cs)
  with assms have "dropWhile p s = s" and l: "\<not> p (last s)" by auto
  moreover have "dropWhile p (rev s) = rev s"
    using l by (auto simp: dropWhile_eq_self_iff hd_rev)
  ultimately show ?thesis by (simp add: strip_by_def)
qed (simp add: strip_by_def)

lemma strip_by_ends:
  assumes "strip_by p s \<noteq> []"
  shows "\<not> p (hd (strip_by p s)) \<and> \<not> p (last (strip_by p s))"
proof
  let ?t = "dropWhile p (rev (dropWhile p s))"
  have ne: "?t \<noteq> []" using assms by (simp add: strip_by_def)
  show "\<not> p (last (strip_by p s))"
    using hd_dropWhile [OF ne] by (simp add: strip_by_def last_rev)
  from dropWhile_eq_drop [of p "rev (dropWhile p s)"] obtain n
    where "strip_by p s = rev (drop n (rev (dropWhile p s)))" unfolding strip_by_def by blast
  then have pre: "prefix (strip_by p s) (dropWhile p s)"
    by (simp add: drop_rev take_is_prefix)
  then obtain zs where zs: "dropWhile p s = strip_by p s @ zs" by (auto simp: prefix_def)
  with assms have "dropWhile p s \<noteq> []" "hd (dropWhile p s) = hd (strip_by p s)" by auto
  with hd_dropWhile [of p s] show "\<not> p (hd (strip_by p s))" by metis
qed

section \<open>Python's list and set\<close>

text \<open>
  \<^verbatim>\<open>sorted({...})\<close>: the distinct elements in increasing order. \<^verbatim>\<open>sorted(xs, key=f)\<close> is
  stable and is \<open>sort_key\<close>.
\<close>

definition sorted_unique :: "'a::linorder list \<Rightarrow> 'a list" where
  "sorted_unique xs = sort (remdups xs)"

lemma set_sorted_unique [simp]: "set (sorted_unique xs) = set xs"
  by (simp add: sorted_unique_def)

lemma sorted_sorted_unique [simp]: "sorted (sorted_unique xs)"
  by (simp add: sorted_unique_def)

lemma distinct_sorted_unique [simp]: "distinct (sorted_unique xs)"
  by (simp add: sorted_unique_def)

lemma sorted_unique_cong: "set xs = set ys \<Longrightarrow> sorted_unique xs = sorted_unique ys"
  by (intro sorted_distinct_set_unique) simp_all

lemma sorted_unique_id: "sorted xs \<Longrightarrow> distinct xs \<Longrightarrow> sorted_unique xs = xs"
  by (simp add: sorted_unique_def distinct_remdups_id sorted_sort_id)

lemma sorted_unique_idem [simp]: "sorted_unique (sorted_unique xs) = sorted_unique xs"
  by (rule sorted_unique_id) simp_all

lemma sorted_unique_Nil_iff [simp]: "sorted_unique xs = [] \<longleftrightarrow> xs = []"
  using set_sorted_unique [of xs] by (metis set_empty2)

text \<open>\<^verbatim>\<open>len(xs) != len(set(xs))\<close>, the source's test for a repeated element.\<close>

definition has_duplicates :: "'a list \<Rightarrow> bool" where
  "has_duplicates xs \<longleftrightarrow> length xs \<noteq> length (remdups xs)"

lemma has_duplicates_iff [simp]: "has_duplicates xs \<longleftrightarrow> \<not> distinct xs"
  by (simp add: has_duplicates_def length_remdups_card_conv)
     (metis card_distinct distinct_card)

text \<open>\<^verbatim>\<open>set(xs).issubset(ys)\<close> and \<^verbatim>\<open>set(xs) & set(ys)\<close> as a condition.\<close>

definition subset_of :: "'a list \<Rightarrow> 'a list \<Rightarrow> bool" where
  "subset_of xs ys \<longleftrightarrow> list_all (\<lambda>x. x \<in> set ys) xs"

lemma subset_of_iff [simp]: "subset_of xs ys \<longleftrightarrow> set xs \<subseteq> set ys"
  by (auto simp: subset_of_def list_all_iff)

definition meets :: "'a list \<Rightarrow> 'a list \<Rightarrow> bool" where
  "meets xs ys \<longleftrightarrow> list_ex (\<lambda>x. x \<in> set ys) xs"

lemma meets_iff [simp]: "meets xs ys \<longleftrightarrow> set xs \<inter> set ys \<noteq> {}"
  by (auto simp: meets_def list_ex_iff)

text \<open>\<^verbatim>\<open>next((x for x in xs if p(x)), None)\<close> is \<open>List.find\<close>.\<close>

lemma find_Some_D: "List.find p xs = Some x \<Longrightarrow> x \<in> set xs \<and> p x"
  by (induction xs) (auto split: if_splits)

lemma find_None_D: "List.find p xs = None \<Longrightarrow> x \<in> set xs \<Longrightarrow> \<not> p x"
  by (auto simp: find_None_iff)

text \<open>The rows of a table that satisfy a condition, updated in place.\<close>

definition alter :: "('a \<Rightarrow> bool) \<Rightarrow> ('a \<Rightarrow> 'a) \<Rightarrow> 'a list \<Rightarrow> 'a list" where
  "alter p f xs = map (\<lambda>x. if p x then f x else x) xs"

lemma set_alter: "set (alter p f xs) = (\<lambda>x. if p x then f x else x) ` set xs"
  by (simp add: alter_def)

lemma length_alter [simp]: "length (alter p f xs) = length xs"
  by (simp add: alter_def)

lemma map_alter_same: "(\<And>x. p x \<Longrightarrow> g (f x) = g x) \<Longrightarrow> map g (alter p f xs) = map g xs"
  by (simp add: alter_def)

lemma alter_none: "(\<And>x. x \<in> set xs \<Longrightarrow> \<not> p x) \<Longrightarrow> alter p f xs = xs"
  by (induction xs) (auto simp: alter_def)

lemma alter_alter:
  "(\<And>x. x \<in> set xs \<Longrightarrow> p x \<Longrightarrow> p (g x) \<and> f (g x) = h x) \<Longrightarrow>
   alter p f (alter p g xs) = alter p h xs"
  by (simp add: alter_def)

lemma alter_id: "(\<And>x. x \<in> set xs \<Longrightarrow> p x \<Longrightarrow> f x = x) \<Longrightarrow> alter p f xs = xs"
  by (induction xs) (auto simp: alter_def)

text \<open>\<^verbatim>\<open>SELECT max(...)\<close> with \<^verbatim>\<open>or 0\<close>.\<close>

fun max_or_zero :: "int list \<Rightarrow> int" where
  "max_or_zero [] = 0"
| "max_or_zero [n] = n"
| "max_or_zero (n # m # ns) = max n (max_or_zero (m # ns))"

text \<open>Rows are identified by their key.\<close>

lemma distinct_of_key: "distinct (map key xs) \<Longrightarrow> distinct xs"
  by (simp add: distinct_map)

lemma distinct_key_eq:
  "distinct (map key xs) \<Longrightarrow> x \<in> set xs \<Longrightarrow> y \<in> set xs \<Longrightarrow> key x = key y \<Longrightarrow> x = y"
  by (simp add: distinct_map inj_on_def)

text \<open>\<^verbatim>\<open>ORDER BY key LIMIT 1\<close>.\<close>

definition first_by :: "('a \<Rightarrow> 'k::linorder) \<Rightarrow> 'a list \<Rightarrow> 'a option" where
  "first_by key xs = (case sort_key key xs of [] \<Rightarrow> None | x # _ \<Rightarrow> Some x)"

lemma first_by_Some:
  assumes "first_by key xs = Some x"
  shows "x \<in> set xs \<and> (\<forall>y\<in>set xs. key x \<le> key y)"
proof (cases "sort_key key xs")
  case (Cons z zs)
  then have z: "x = z" using assms by (simp add: first_by_def)
  have s: "set xs = set (z # zs)" using Cons set_sort [of key xs] by metis
  have "sorted (map key (z # zs))" using Cons sorted_sort_key [of key xs] by metis
  then have "\<forall>y\<in>set zs. key z \<le> key y" by simp
  then show ?thesis unfolding z s by simp
qed (use assms in \<open>simp add: first_by_def\<close>)

lemma first_by_None: "first_by key xs = None \<longleftrightarrow> xs = []"
proof
  assume "first_by key xs = None"
  then have "sort_key key xs = []" by (simp add: first_by_def split: list.splits)
  then have "length (sort_key key xs) = 0" by simp
  then show "xs = []" unfolding length_sort by simp
qed (simp add: first_by_def)

lemma first_by_exists:
  assumes "x \<in> set xs"
  shows "\<exists>y. first_by key xs = Some y \<and> y \<in> set xs \<and> key y \<le> key x"
proof (cases "first_by key xs")
  case None
  then have "xs = []" by (simp only: first_by_None)
  with assms show ?thesis by simp
next
  case (Some y)
  with first_by_Some [OF Some] assms show ?thesis by blast
qed

lemma take_sort_key:
  assumes "distinct xs"
  shows "distinct (take n (sort_key key xs)) \<and> set (take n (sort_key key xs)) \<subseteq> set xs"
proof -
  have m: "mset (sort_key key xs) = mset xs" by simp
  have "distinct (sort_key key xs)"
    using mset_eq_imp_distinct_iff [OF m] assms by blast
  moreover have "set (take n (sort_key key xs)) \<subseteq> set (sort_key key xs)"
    by (rule set_take_subset)
  ultimately show ?thesis using mset_eq_setD [OF m] by simp
qed

lemma length_filter_out:
  assumes "distinct xs" and "distinct ys" and "set ys \<subseteq> set xs"
  shows "length (filter (\<lambda>x. x \<notin> set ys) xs) = length xs - length ys"
proof -
  have "set (filter (\<lambda>x. x \<in> set ys) xs) = set ys" using assms(3) by auto
  then have "length (filter (\<lambda>x. x \<in> set ys) xs) = length ys"
    using distinct_card [OF distinct_filter [OF assms(1)]] distinct_card [OF assms(2)] by metis
  then show ?thesis using sum_length_filter_compl [of "\<lambda>x. x \<in> set ys" xs] by linarith
qed

end
