(* ===== verification/Machine.thy ===== *)
theory Machine
  imports Prelude
begin

text \<open>
  The contract the platform's lifecycle state machines share. A lifecycle is a relation
  \<open>legal\<close> between states; a run is a list of states visited one legal step at a time.
  Three locales state what a lifecycle may promise:

  \<^item> \<open>lifecycle\<close>: terminal states have no successor;
  \<^item> \<open>staged_lifecycle\<close>: progress is measured by a stage, a step either does not raise the
    stage or raises it by one and then lands in the state that is the milestone of the new
    stage, so no run can skip a milestone;
  \<^item> \<open>ranked_lifecycle\<close>: every step raises a bounded rank, so runs are short and never
    return to a state.
\<close>

fun legal_run :: "('s \<Rightarrow> 's \<Rightarrow> bool) \<Rightarrow> 's \<Rightarrow> 's list \<Rightarrow> bool" where
  "legal_run legal s [] \<longleftrightarrow> True"
| "legal_run legal s (t # ts) \<longleftrightarrow> legal s t \<and> legal_run legal t ts"

inductive reaches :: "('s \<Rightarrow> 's \<Rightarrow> bool) \<Rightarrow> 's \<Rightarrow> 's \<Rightarrow> bool" for legal where
  stay: "reaches legal s s"
| go: "reaches legal s t \<Longrightarrow> legal t u \<Longrightarrow> reaches legal s u"

lemma path_append: "legal_run legal s (ts @ us) \<longleftrightarrow> legal_run legal s ts \<and> legal_run legal (last (s # ts)) us"
  by (induction ts arbitrary: s) auto

lemma path_imp_reaches: "legal_run legal s ts \<Longrightarrow> reaches legal s (last (s # ts))"
proof (induction ts rule: rev_induct)
  case Nil
  then show ?case by (simp add: reaches.stay)
next
  case (snoc t ts)
  then have "reaches legal s (last (s # ts))" and "legal (last (s # ts)) t"
    by (simp_all add: path_append)
  then show ?case by (auto intro: reaches.go)
qed

lemma reaches_imp_path: "reaches legal s t \<Longrightarrow> \<exists>ts. legal_run legal s ts \<and> last (s # ts) = t"
proof (induction rule: reaches.induct)
  case (stay s)
  have "legal_run legal s [] \<and> last (s # []) = s" by simp
  then show ?case by blast
next
  case (go s t u)
  then obtain ts where "legal_run legal s ts" and "last (s # ts) = t" by blast
  with go.hyps(2) have "legal_run legal s (ts @ [u]) \<and> last (s # ts @ [u]) = u"
    by (simp add: path_append)
  then show ?case by blast
qed

section \<open>Terminal states\<close>

locale lifecycle =
  fixes legal :: "'s \<Rightarrow> 's \<Rightarrow> bool"
    and terminal :: "'s \<Rightarrow> bool"
  assumes terminal_final: "terminal s \<Longrightarrow> \<not> legal s t"
begin

lemma path_from_terminal: "terminal s \<Longrightarrow> legal_run legal s ts \<Longrightarrow> ts = []"
  by (cases ts) (auto simp: terminal_final)

lemma terminal_only_last:
  assumes "legal_run legal s ts" and "i < length ts" and "terminal (ts ! i)"
  shows "Suc i = length ts"
proof -
  have ts: "ts = take (Suc i) ts @ drop (Suc i) ts" by simp
  from assms(2) have last: "last (s # take (Suc i) ts) = ts ! i"
    by (simp add: take_Suc_conv_app_nth)
  from assms(1) ts have "legal_run legal (last (s # take (Suc i) ts)) (drop (Suc i) ts)"
    by (metis path_append)
  with last assms(3) have "drop (Suc i) ts = []"
    by (auto dest: path_from_terminal)
  with assms(2) show ?thesis by simp
qed

lemma reaches_from_terminal: "reaches legal s t \<Longrightarrow> terminal s \<Longrightarrow> t = s"
proof (induction rule: reaches.induct)
  case (go s t u)
  then show ?case using terminal_final by blast
qed simp

end

section \<open>Milestones\<close>

locale staged_lifecycle = lifecycle legal terminal
  for legal :: "'s \<Rightarrow> 's \<Rightarrow> bool" and terminal :: "'s \<Rightarrow> bool" +
  fixes stage :: "'s \<Rightarrow> nat"
    and milestone :: "nat \<Rightarrow> 's"
  assumes step_stage:
    "legal s t \<Longrightarrow> stage t \<le> stage s \<or> (stage t = Suc (stage s) \<and> milestone (stage t) = t)"
begin

lemma milestones_visited:
  "legal_run legal s ts \<Longrightarrow> subseq (map milestone [Suc (stage s)..<Suc (stage (last (s # ts)))]) ts"
proof (induction ts arbitrary: s)
  case Nil
  then show ?case by simp
next
  case (Cons t ts)
  let ?j = "stage (last (t # ts))"
  have IH: "subseq (map milestone [Suc (stage t)..<Suc ?j]) ts"
    using Cons by simp
  have lst: "last (s # t # ts) = last (t # ts)" by simp
  from Cons.prems have "legal s t" by simp
  then consider "stage t \<le> stage s" | "stage t = Suc (stage s)" "milestone (stage t) = t"
    using step_stage by blast
  then show ?case
  proof cases
    case 1
    have "suffix [Suc (stage s)..<Suc ?j] [Suc (stage t)..<Suc ?j]"
    proof (cases "stage s \<le> ?j")
      case True
      then have "[Suc (stage t)..<Suc ?j] = [Suc (stage t)..<Suc (stage s)] @ [Suc (stage s)..<Suc ?j]"
        using 1 by (metis Suc_le_mono le_Suc_ex upt_add_eq_append)
      then show ?thesis by (auto simp: suffix_def)
    next
      case False
      then show ?thesis by simp
    qed
    then have "subseq (map milestone [Suc (stage s)..<Suc ?j]) (map milestone [Suc (stage t)..<Suc ?j])"
      by (intro subseq_map) (auto simp: suffix_imp_subseq)
    from this IH have "subseq (map milestone [Suc (stage s)..<Suc ?j]) ts"
      by (rule subseq_order.trans)
    then show ?thesis unfolding lst by (rule list_emb_Cons)
  next
    case 2
    show ?thesis
    proof (cases "stage s < ?j")
      case True
      then have "[Suc (stage s)..<Suc ?j] = stage t # [Suc (stage t)..<Suc ?j]"
        using 2 by (simp add: upt_conv_Cons)
      with IH 2 show ?thesis unfolding lst by simp
    next
      case False
      then show ?thesis unfolding lst by simp
    qed
  qed
qed

lemma milestone_on_path:
  assumes "legal_run legal s ts" and "stage s < i" and "i \<le> stage (last (s # ts))"
  shows "milestone i \<in> set ts"
proof -
  have "milestone i \<in> set (map milestone [Suc (stage s)..<Suc (stage (last (s # ts)))])"
    using assms(2,3) by (auto simp del: upt_Suc)
  with milestones_visited [OF assms(1)] show ?thesis
    by (elim list_emb_set) auto
qed

end

section \<open>Bounded runs\<close>

locale ranked_lifecycle = lifecycle legal terminal
  for legal :: "'s \<Rightarrow> 's \<Rightarrow> bool" and terminal :: "'s \<Rightarrow> bool" +
  fixes rank :: "'s \<Rightarrow> nat"
    and top :: nat
  assumes step_rank: "legal s t \<Longrightarrow> rank s < rank t"
    and rank_le_top: "rank s \<le> top"
begin

lemma path_length_rank: "legal_run legal s ts \<Longrightarrow> length ts + rank s \<le> rank (last (s # ts))"
proof (induction ts arbitrary: s)
  case (Cons t ts)
  then have "rank s < rank t" and "length ts + rank t \<le> rank (last (t # ts))"
    by (simp_all add: step_rank)
  then show ?case by simp
qed simp

lemma path_length_bound: "legal_run legal s ts \<Longrightarrow> length ts \<le> top - rank s"
  using path_length_rank [of s ts] rank_le_top [of "last (s # ts)"] by linarith

lemma no_return: "legal_run legal s ts \<Longrightarrow> s \<notin> set ts"
proof
  assume p: "legal_run legal s ts" and "s \<in> set ts"
  then obtain as bs where "ts = as @ s # bs" by (meson split_list)
  with p have "legal_run legal s (as @ [s])" by (simp add: path_append)
  from path_length_rank [OF this] show False by simp
qed

lemma path_distinct: "legal_run legal s ts \<Longrightarrow> distinct (s # ts)"
proof (induction ts arbitrary: s)
  case (Cons t ts)
  then have "distinct (t # ts)" by fastforce
  moreover have "s \<notin> set (t # ts)" using Cons.prems by (rule no_return)
  ultimately show ?case by simp
qed simp

end

end
