(* ===== verification/Workflow.thy ===== *)
theory Workflow
  imports Machine
begin

text \<open>
  The end-to-end delivery workflow of a project: \<^verbatim>\<open>domain/workflow/enums.py\<close> (its states, steps and
  events), \<^verbatim>\<open>domain/workflow/state_machine.py\<close> (the classification of a transition as standard,
  auto-approved, failure or cancellation, and the policy evidence recorded with it).
  \<open>hash_json\<close>, the SHA-256 of the canonical JSON of a value, is a parameter.
\<close>

section \<open>States, steps and events\<close>

datatype WorkflowState =
    PROJECT_CREATED
  | REQUIREMENTS_RUNNING
  | WAITING_REQUIREMENTS_APPROVAL
  | ARCHITECTURE_RUNNING
  | WAITING_ARCHITECTURE_APPROVAL
  | PLANNING_RUNNING
  | WAITING_WORK_PACKAGE_APPROVAL
  | EXECUTION_RUNNING
  | PATCH_REVIEW_RUNNING
  | WAITING_INTEGRATION_APPROVAL
  | INTEGRATING
  | COMPLETED
  | CANCELLING
  | CANCELLED
  | FAILED
  | MANUAL_INTERVENTION

datatype WorkflowStepName =
    REQUIREMENTS | ARCHITECTURE | PLANNING | EXECUTION | REVIEW | INTEGRATION | COMPLETENESS

datatype WorkflowEventName =
    EVENT_STARTED | EVENT_RELINKED | EVENT_TRANSITIONED | EVENT_CANCELLED | EVENT_FAILED
  | EVENT_COMPLETED

definition TERMINAL_STATES :: "WorkflowState list" where
  "TERMINAL_STATES = [COMPLETED, CANCELLED, FAILED]"

datatype WorkflowTransitionKind =
    STANDARD | VERSIONED_AUTO_APPROVAL | FAILURE | CANCELLATION

datatype workflow_error = IllegalWorkflowTransition WorkflowState WorkflowState

record WorkflowTransitionDecision =
  wd_previous :: WorkflowState
  wd_current :: WorkflowState
  wd_kind :: WorkflowTransitionKind
  wd_requires_policy_evidence :: bool

definition event_name :: "WorkflowTransitionDecision \<Rightarrow> WorkflowEventName" where
  "event_name d =
     (if wd_current d = COMPLETED then EVENT_COMPLETED
      else if wd_current d = FAILED then EVENT_FAILED
      else if wd_current d = CANCELLED then EVENT_CANCELLED
      else EVENT_TRANSITIONED)"

text \<open>
  The evidence dictionary: the six keys it always has, and \<^verbatim>\<open>auto_approval\<close>, present for an
  auto-approved transition only: the policy document together with its hash.
\<close>

record auto_approval_policy =
  ap_policy_name :: string
  ap_policy_version :: string
  ap_phase :: "WorkflowStepName option"
  ap_risk_class :: string
  ap_from_state :: WorkflowState
  ap_to_state :: WorkflowState

record policy_evidence_document =
  pe_event_name :: WorkflowEventName
  pe_transition_kind :: WorkflowTransitionKind
  pe_requires_policy_evidence :: bool
  pe_from_state :: WorkflowState
  pe_to_state :: WorkflowState
  pe_phase :: "WorkflowStepName option"
  pe_auto_approval :: "(auto_approval_policy \<times> digest) option"

definition policy_evidence ::
  "(auto_approval_policy \<Rightarrow> digest) \<Rightarrow> WorkflowTransitionDecision \<Rightarrow> WorkflowStepName option
   \<Rightarrow> policy_evidence_document" where
  "policy_evidence hash_json d step =
     (let policy = \<lparr>ap_policy_name = ''workflow-phase-auto-approval'',
                    ap_policy_version = ''1.0'',
                    ap_phase = step,
                    ap_risk_class = ''low'',
                    ap_from_state = wd_previous d,
                    ap_to_state = wd_current d\<rparr>
      in \<lparr>pe_event_name = event_name d,
          pe_transition_kind = wd_kind d,
          pe_requires_policy_evidence = wd_requires_policy_evidence d,
          pe_from_state = wd_previous d,
          pe_to_state = wd_current d,
          pe_phase = step,
          pe_auto_approval =
            (if wd_kind d = VERSIONED_AUTO_APPROVAL then Some (policy, hash_json policy)
             else None)\<rparr>)"

section \<open>The transition tables\<close>

definition AUTO_APPROVAL_TRANSITIONS :: "(WorkflowState \<times> WorkflowState) list" where
  "AUTO_APPROVAL_TRANSITIONS =
     [(REQUIREMENTS_RUNNING, ARCHITECTURE_RUNNING),
      (ARCHITECTURE_RUNNING, PLANNING_RUNNING),
      (PLANNING_RUNNING, EXECUTION_RUNNING)]"

text \<open>\<^verbatim>\<open>LEGAL_TRANSITIONS.get(previous, frozenset())\<close>.\<close>

fun LEGAL_TRANSITIONS :: "WorkflowState \<Rightarrow> WorkflowState list" where
  "LEGAL_TRANSITIONS PROJECT_CREATED = [REQUIREMENTS_RUNNING]"
| "LEGAL_TRANSITIONS REQUIREMENTS_RUNNING =
     [WAITING_REQUIREMENTS_APPROVAL, ARCHITECTURE_RUNNING, FAILED]"
| "LEGAL_TRANSITIONS WAITING_REQUIREMENTS_APPROVAL = [ARCHITECTURE_RUNNING, FAILED]"
| "LEGAL_TRANSITIONS ARCHITECTURE_RUNNING =
     [WAITING_ARCHITECTURE_APPROVAL, PLANNING_RUNNING, FAILED]"
| "LEGAL_TRANSITIONS WAITING_ARCHITECTURE_APPROVAL = [PLANNING_RUNNING, FAILED]"
| "LEGAL_TRANSITIONS PLANNING_RUNNING =
     [WAITING_WORK_PACKAGE_APPROVAL, EXECUTION_RUNNING, FAILED]"
| "LEGAL_TRANSITIONS WAITING_WORK_PACKAGE_APPROVAL = [EXECUTION_RUNNING, FAILED]"
| "LEGAL_TRANSITIONS EXECUTION_RUNNING = [PATCH_REVIEW_RUNNING, FAILED]"
| "LEGAL_TRANSITIONS PATCH_REVIEW_RUNNING = [WAITING_INTEGRATION_APPROVAL, FAILED]"
| "LEGAL_TRANSITIONS WAITING_INTEGRATION_APPROVAL = [INTEGRATING, FAILED]"
| "LEGAL_TRANSITIONS INTEGRATING = [COMPLETED, MANUAL_INTERVENTION, FAILED]"
| "LEGAL_TRANSITIONS MANUAL_INTERVENTION = [INTEGRATING, FAILED]"
| "LEGAL_TRANSITIONS _ = []"

definition classify ::
  "WorkflowState \<Rightarrow> WorkflowState \<Rightarrow> workflow_error + WorkflowTransitionDecision" where
  "classify previous current =
     (let decide = (\<lambda>kind evidence.
            \<lparr>wd_previous = previous, wd_current = current, wd_kind = kind,
             wd_requires_policy_evidence = evidence\<rparr>)
      in if current = CANCELLING \<and> previous \<notin> {COMPLETED, CANCELLED, FAILED}
         then Inr (decide CANCELLATION False)
         else if previous = CANCELLING \<and> current = CANCELLED
         then Inr (decide CANCELLATION False)
         else if current = FAILED \<and> previous \<notin> {COMPLETED, CANCELLED, FAILED}
         then Inr (decide FAILURE False)
         else if (previous, current) \<in> set AUTO_APPROVAL_TRANSITIONS
         then Inr (decide VERSIONED_AUTO_APPROVAL True)
         else if current \<in> set (LEGAL_TRANSITIONS previous)
         then Inr (decide STANDARD False)
         else Inl (IllegalWorkflowTransition previous current))"

definition require_transition ::
  "WorkflowState \<Rightarrow> WorkflowState \<Rightarrow> workflow_error + unit" where
  "require_transition previous current =
     bind_result (classify previous current) (\<lambda>_. Inr ())"

section \<open>The workflow as a lifecycle\<close>

definition workflow_step :: "WorkflowState \<Rightarrow> WorkflowState \<Rightarrow> bool" where
  "workflow_step s t \<longleftrightarrow> succeeds (require_transition s t)"

definition workflow_terminal :: "WorkflowState \<Rightarrow> bool" where
  "workflow_terminal s \<longleftrightarrow> s \<in> set TERMINAL_STATES"

text \<open>
  The delivery stage a state belongs to, and the state that opens each stage. A waiting
  state is in the stage whose result it waits to have approved; the cancelled and failed
  branches fall back to stage 0.
\<close>

fun workflow_stage :: "WorkflowState \<Rightarrow> nat" where
  "workflow_stage REQUIREMENTS_RUNNING = 1"
| "workflow_stage WAITING_REQUIREMENTS_APPROVAL = 1"
| "workflow_stage ARCHITECTURE_RUNNING = 2"
| "workflow_stage WAITING_ARCHITECTURE_APPROVAL = 2"
| "workflow_stage PLANNING_RUNNING = 3"
| "workflow_stage WAITING_WORK_PACKAGE_APPROVAL = 3"
| "workflow_stage EXECUTION_RUNNING = 4"
| "workflow_stage PATCH_REVIEW_RUNNING = 5"
| "workflow_stage WAITING_INTEGRATION_APPROVAL = 6"
| "workflow_stage INTEGRATING = 7"
| "workflow_stage MANUAL_INTERVENTION = 7"
| "workflow_stage COMPLETED = 8"
| "workflow_stage _ = 0"

definition workflow_milestones :: "WorkflowState list" where
  "workflow_milestones =
     [PROJECT_CREATED, REQUIREMENTS_RUNNING, ARCHITECTURE_RUNNING, PLANNING_RUNNING,
      EXECUTION_RUNNING, PATCH_REVIEW_RUNNING, WAITING_INTEGRATION_APPROVAL, INTEGRATING,
      COMPLETED]"

lemma workflow_step_iff:
  "workflow_step s t \<longleftrightarrow>
     s \<notin> {COMPLETED, CANCELLED, FAILED} \<and>
     (t \<in> {CANCELLING, FAILED} \<or> (s = CANCELLING \<and> t = CANCELLED) \<or> t \<in> set (LEGAL_TRANSITIONS s))"
  by (cases s) (auto simp: workflow_step_def require_transition_def classify_def Let_def
      AUTO_APPROVAL_TRANSITIONS_def)

lemma workflow_terminal_iff: "workflow_terminal s \<longleftrightarrow> s \<in> {COMPLETED, CANCELLED, FAILED}"
  by (auto simp: workflow_terminal_def TERMINAL_STATES_def)

interpretation wf: staged_lifecycle workflow_step workflow_terminal workflow_stage
  "\<lambda>i. workflow_milestones ! i"
proof unfold_locales
  show "\<not> workflow_step s t" if "workflow_terminal s" for s t
    using that by (auto simp: workflow_terminal_def TERMINAL_STATES_def workflow_step_iff)
  show "workflow_stage t \<le> workflow_stage s \<or>
      (workflow_stage t = Suc (workflow_stage s) \<and> workflow_milestones ! workflow_stage t = t)"
    if "workflow_step s t" for s t
    using that by (cases s) (auto simp: workflow_step_iff workflow_milestones_def)
qed

lemma workflow_milestones_upt:
  "map ((!) workflow_milestones) [Suc 0..<9] =
     [REQUIREMENTS_RUNNING, ARCHITECTURE_RUNNING, PLANNING_RUNNING, EXECUTION_RUNNING,
      PATCH_REVIEW_RUNNING, WAITING_INTEGRATION_APPROVAL, INTEGRATING, COMPLETED]"
  by (simp add: workflow_milestones_def upt_conv_Cons)

lemma classify_Inr_D:
  assumes "classify s t = Inr d"
  shows "wd_previous d = s \<and> wd_current d = t \<and>
    wd_kind d = (if (s, t) \<in> set AUTO_APPROVAL_TRANSITIONS then VERSIONED_AUTO_APPROVAL
      else if t \<in> {CANCELLING, CANCELLED} then CANCELLATION
      else if t = FAILED then FAILURE else STANDARD) \<and>
    wd_requires_policy_evidence d = (wd_kind d = VERSIONED_AUTO_APPROVAL)"
  using assms
  by (cases s; cases t; simp add: classify_def AUTO_APPROVAL_TRANSITIONS_def; elim subst; simp)

section \<open>Properties\<close>

text \<open>
  No delivery workflow completes by skipping a phase. Every run of accepted transitions
  from \<open>PROJECT_CREATED\<close> to \<open>COMPLETED\<close> visits requirements, architecture, planning,
  execution, patch review, the wait for integration approval and integration, in this order.
\<close>
theorem completion_visits_every_phase:
  assumes "legal_run workflow_step PROJECT_CREATED ss"
    and "last (PROJECT_CREATED # ss) = COMPLETED"
  shows "subseq [REQUIREMENTS_RUNNING, ARCHITECTURE_RUNNING, PLANNING_RUNNING, EXECUTION_RUNNING,
      PATCH_REVIEW_RUNNING, WAITING_INTEGRATION_APPROVAL, INTEGRATING, COMPLETED] ss"
proof -
  have "Suc (workflow_stage (last (PROJECT_CREATED # ss))) = 9"
    unfolding assms(2) by simp
  then show ?thesis
    using wf.milestones_visited [OF assms(1)] workflow_milestones_upt by (simp del: upt_Suc)
qed

theorem completion_visits_every_phase_witness:
  "\<exists>ss. legal_run workflow_step PROJECT_CREATED ss \<and> last (PROJECT_CREATED # ss) = COMPLETED \<and>
     subseq [REQUIREMENTS_RUNNING, ARCHITECTURE_RUNNING, PLANNING_RUNNING, EXECUTION_RUNNING,
      PATCH_REVIEW_RUNNING, WAITING_INTEGRATION_APPROVAL, INTEGRATING, COMPLETED] ss"
proof -
  let ?ss = "[REQUIREMENTS_RUNNING, WAITING_REQUIREMENTS_APPROVAL, ARCHITECTURE_RUNNING,
    PLANNING_RUNNING, EXECUTION_RUNNING, PATCH_REVIEW_RUNNING, WAITING_INTEGRATION_APPROVAL,
    INTEGRATING, MANUAL_INTERVENTION, INTEGRATING, COMPLETED]"
  have p: "legal_run workflow_step PROJECT_CREATED ?ss" by (simp add: workflow_step_iff)
  have l: "last (PROJECT_CREATED # ?ss) = COMPLETED" by simp
  show ?thesis using p l completion_visits_every_phase [OF p l] by blast
qed

text \<open>
  A run never leaves a terminal state, and every state that is not terminal can still be
  stopped: it may fail in one step, and be cancelled in two steps through \<open>CANCELLING\<close>.
\<close>
theorem terminal_iff_unstoppable:
  "(workflow_terminal s \<longleftrightarrow> \<not> legal_run workflow_step s [FAILED]) \<and>
   (workflow_terminal s \<longleftrightarrow> \<not> legal_run workflow_step s [CANCELLING, CANCELLED]) \<and>
   (workflow_terminal s \<longleftrightarrow> {ts. legal_run workflow_step s ts} = {[]})"
proof -
  have fails: "workflow_terminal s \<longleftrightarrow> \<not> legal_run workflow_step s [FAILED]"
    by (cases s) (simp_all add: workflow_terminal_iff workflow_step_iff)
  moreover have "workflow_terminal s \<longleftrightarrow> \<not> legal_run workflow_step s [CANCELLING, CANCELLED]"
    by (cases s) (simp_all add: workflow_terminal_iff workflow_step_iff)
  moreover have "workflow_terminal s \<longleftrightarrow> {ts. legal_run workflow_step s ts} = {[]}"
  proof
    show "{ts. legal_run workflow_step s ts} = {[]}" if "workflow_terminal s"
    proof -
      have "ts = []" if "legal_run workflow_step s ts" for ts
        using wf.path_from_terminal [OF \<open>workflow_terminal s\<close> that] .
      moreover have "legal_run workflow_step s []" by simp
      ultimately show ?thesis by blast
    qed
    show "workflow_terminal s" if "{ts. legal_run workflow_step s ts} = {[]}"
    proof -
      have "\<not> legal_run workflow_step s [FAILED]" using that by blast
      with fails show ?thesis by blast
    qed
  qed
  ultimately show ?thesis by (intro conjI)
qed

text \<open>
  A phase may be left without its human approval state only by one of the three versioned
  auto-approvals, and the evidence recorded for a transition carries the hash-bound
  auto-approval policy, naming both end states, exactly when the transition is one of them.
\<close>
theorem auto_approval_always_evidenced:
  assumes "classify s t = Inr d"
  shows "(pe_auto_approval (policy_evidence hash_json d step) \<noteq> None \<longleftrightarrow>
           (s, t) \<in> {(REQUIREMENTS_RUNNING, ARCHITECTURE_RUNNING),
                     (ARCHITECTURE_RUNNING, PLANNING_RUNNING),
                     (PLANNING_RUNNING, EXECUTION_RUNNING)}) \<and>
    wd_requires_policy_evidence d =
      (pe_auto_approval (policy_evidence hash_json d step) \<noteq> None) \<and>
    (\<forall>p h. pe_auto_approval (policy_evidence hash_json d step) = Some (p, h) \<longrightarrow>
       h = hash_json p \<and> ap_from_state p = s \<and> ap_to_state p = t \<and> ap_phase p = step)"
  using classify_Inr_D [OF assms]
  by (simp add: policy_evidence_def Let_def AUTO_APPROVAL_TRANSITIONS_def)

theorem auto_approval_always_evidenced_witness:
  "\<exists>d. classify PLANNING_RUNNING EXECUTION_RUNNING = Inr d \<and>
     pe_auto_approval (policy_evidence (\<lambda>_. ''ab'') d (Some PLANNING)) \<noteq> None"
proof -
  let ?d = "\<lparr>wd_previous = PLANNING_RUNNING, wd_current = EXECUTION_RUNNING,
    wd_kind = VERSIONED_AUTO_APPROVAL, wd_requires_policy_evidence = True\<rparr>"
  have c: "classify PLANNING_RUNNING EXECUTION_RUNNING = Inr ?d"
    by (simp add: classify_def AUTO_APPROVAL_TRANSITIONS_def)
  show ?thesis
    using c auto_approval_always_evidenced [OF c, of "\<lambda>_. ''ab''" "Some PLANNING"] by auto
qed

end
