(* ===== verification/Py_Text.thy ===== *)
theory Py_Text
  imports Prelude
begin

text \<open>
  The parts of Python's text handling the source relies on when it validates identifiers:
  \<^verbatim>\<open>str.replace\<close>, \<^verbatim>\<open>int(text, base)\<close>, \<^verbatim>\<open>uuid.UUID(text)\<close>, \<^verbatim>\<open>str(uuid)\<close>, UTF-8 encoding,
  and \<^verbatim>\<open>pathlib.PurePosixPath\<close>. Everything is executable. (Python's limit of 4300 digits for
  \<^verbatim>\<open>int\<close> in base 10 is not modelled.)
\<close>

section \<open>Replacement, encoding\<close>

fun replace_fuel :: "nat \<Rightarrow> string \<Rightarrow> string \<Rightarrow> string \<Rightarrow> string" where
  "replace_fuel 0 old new s = s"
| "replace_fuel (Suc n) old new [] = []"
| "replace_fuel (Suc n) old new (c # cs) =
     (if prefix old (c # cs) then new @ replace_fuel n old new (drop (length old) (c # cs))
      else c # replace_fuel n old new cs)"

definition replace_text :: "string \<Rightarrow> string \<Rightarrow> string \<Rightarrow> string" where
  "replace_text old new s = replace_fuel (length s) old new s"

definition remove_char :: "char \<Rightarrow> string \<Rightarrow> string" where
  "remove_char c s = filter (\<lambda>d. d \<noteq> c) s"

definition replace_char :: "char \<Rightarrow> char \<Rightarrow> string \<Rightarrow> string" where
  "replace_char a b s = map (\<lambda>c. if c = a then b else c) s"

fun join_with :: "string \<Rightarrow> string list \<Rightarrow> string" where
  "join_with sep [] = []"
| "join_with sep [x] = x"
| "join_with sep (x # y # xs) = x @ sep @ join_with sep (y # xs)"

fun split_on :: "char \<Rightarrow> string \<Rightarrow> string list" where
  "split_on sep [] = [[]]"
| "split_on sep (c # cs) =
     (if c = sep then [] # split_on sep cs
      else (case split_on sep cs of [] \<Rightarrow> [[c]] | w # ws \<Rightarrow> (c # w) # ws))"

text \<open>\<^verbatim>\<open>s.split(sep, 1)\<close> when \<^verbatim>\<open>sep\<close> occurs in \<^verbatim>\<open>s\<close>.\<close>

fun split_once :: "string \<Rightarrow> string \<Rightarrow> (string \<times> string) option" where
  "split_once sep [] = None"
| "split_once sep (c # cs) =
     (if prefix sep (c # cs) then Some ([], drop (length sep) (c # cs))
      else map_option (\<lambda>(a, b). (c # a, b)) (split_once sep cs))"

definition upper_char :: "char \<Rightarrow> char" where
  "upper_char c =
     (let n = of_char c :: nat in if 97 \<le> n \<and> n \<le> 122 then char_of (n - 32) else c)"

definition upper :: "string \<Rightarrow> string" where
  "upper s = map upper_char s"

definition is_ascii :: "string \<Rightarrow> bool" where
  "is_ascii s \<longleftrightarrow> list_all (\<lambda>c. (of_char c :: nat) < 128) s"

definition utf8_char :: "char \<Rightarrow> string" where
  "utf8_char c =
     (let n = of_char c :: nat
      in if n < 128 then [c] else [char_of (192 + n div 64), char_of (128 + n mod 64)])"

definition utf8 :: "string \<Rightarrow> string" where
  "utf8 s = concat (map utf8_char s)"

section \<open>Integers from text\<close>

definition digit_value :: "int \<Rightarrow> char \<Rightarrow> int option" where
  "digit_value base c =
     (let n = of_char c :: int;
          v = (if 48 \<le> n \<and> n \<le> 57 then n - 48
               else if 97 \<le> n \<and> n \<le> 122 then n - 87
               else if 65 \<le> n \<and> n \<le> 90 then n - 55
               else base)
      in if v < base then Some v else None)"

text \<open>
  Digits with single underscores between them; the flag says whether the last character was
  a digit, so a leading, doubled or trailing underscore is refused.
\<close>

fun int_digits :: "int \<Rightarrow> bool \<Rightarrow> int \<Rightarrow> string \<Rightarrow> int option" where
  "int_digits base after_digit acc [] = (if after_digit then Some acc else None)"
| "int_digits base after_digit acc (c # cs) =
     (if c = CHR ''_'' then (if after_digit then int_digits base False acc cs else None)
      else (case digit_value base c of
              None \<Rightarrow> None
            | Some d \<Rightarrow> int_digits base True (acc * base + d) cs))"

definition int_magnitude :: "int \<Rightarrow> string \<Rightarrow> int option" where
  "int_magnitude base s =
     (if base = 16 \<and> (prefix ''0x'' s \<or> prefix ''0X'' s)
      then (case drop 2 s of
              [] \<Rightarrow> None
            | c # cs \<Rightarrow> int_digits base False 0 (if c = CHR ''_'' then cs else c # cs))
      else int_digits base False 0 s)"

definition py_int :: "int \<Rightarrow> string \<Rightarrow> int option" where
  "py_int base text =
     (case strip text of
        [] \<Rightarrow> None
      | c # cs \<Rightarrow>
          if c = CHR ''-'' then map_option uminus (int_magnitude base cs)
          else if c = CHR ''+'' then (int_magnitude base cs)
          else (int_magnitude base (c # cs)))"

section \<open>UUIDs\<close>

definition py_uuid :: "string \<Rightarrow> uuid option" where
  "py_uuid text =
     (let hex = remove_char (CHR ''-'')
                  (strip_by (\<lambda>c. c = CHR ''{'' \<or> c = CHR ''}'')
                    (replace_text ''uuid:'' [] (replace_text ''urn:'' [] text)))
      in if length hex \<noteq> 32 then None
         else (case py_int 16 hex of
                 None \<Rightarrow> None
               | Some n \<Rightarrow> if 0 \<le> n \<and> n < 2 ^ 128 then Some (word_of_int n) else None))"

definition hex_digit :: "int \<Rightarrow> char" where
  "hex_digit n = (if n < 10 then char_of (48 + n) else char_of (87 + n))"

fun hex_text :: "nat \<Rightarrow> int \<Rightarrow> string" where
  "hex_text 0 n = []"
| "hex_text (Suc k) n = hex_text k (n div 16) @ [hex_digit (n mod 16)]"

definition uuid_text :: "uuid \<Rightarrow> string" where
  "uuid_text u =
     (let h = hex_text 32 (uint u)
      in take 8 h @ ''-'' @ take 4 (drop 8 h) @ ''-'' @ take 4 (drop 12 h) @ ''-'' @
         take 4 (drop 16 h) @ ''-'' @ drop 20 h)"

section \<open>PurePosixPath\<close>

text \<open>
  A parsed POSIX path: whether it is absolute, and its parts below the root. \<^verbatim>\<open>PurePosixPath\<close>
  drops empty and \<open>.\<close> components and keeps \<open>..\<close>. (A path starting with exactly two slashes has
  the distinct root \<^verbatim>\<open>//\<close> in Python; it is absolute like any other here.)
\<close>

record posix_path =
  pp_absolute :: bool
  pp_parts :: "string list"

definition posix_path :: "string \<Rightarrow> posix_path" where
  "posix_path s =
     \<lparr>pp_absolute = prefix ''/'' s,
      pp_parts = filter (\<lambda>w. w \<noteq> [] \<and> w \<noteq> ''.'') (split_on (CHR ''/'') s)\<rparr>"

text \<open>\<^verbatim>\<open>str(path)\<close>, \<^verbatim>\<open>candidate == root or root in candidate.parents\<close>.\<close>

definition path_text :: "posix_path \<Rightarrow> string" where
  "path_text p =
     (if pp_absolute p then ''/'' @ join_with ''/'' (pp_parts p)
      else if pp_parts p = [] then ''.'' else join_with ''/'' (pp_parts p))"

definition path_within :: "posix_path \<Rightarrow> posix_path \<Rightarrow> bool" where
  "path_within root candidate \<longleftrightarrow>
     pp_absolute root = pp_absolute candidate \<and> prefix (pp_parts root) (pp_parts candidate)"

lemma path_within_refl [simp]: "path_within p p"
  by (simp add: path_within_def)

lemma path_within_trans: "path_within a b \<Longrightarrow> path_within b c \<Longrightarrow> path_within a c"
  by (auto simp: path_within_def intro: prefix_order.trans)

lemma split_on_nonempty [simp]: "split_on c s \<noteq> []"
  by (induction s) (auto split: list.splits)

lemma split_on_no_sep: "c \<notin> set s \<Longrightarrow> split_on c s = [s]"
  by (induction s) auto

lemma split_on_append: "c \<notin> set w \<Longrightarrow> split_on c (w @ c # s) = w # split_on c s"
  by (induction w) auto

lemma split_on_parts_no_sep: "w \<in> set (split_on c s) \<Longrightarrow> c \<notin> set w"
  by (induction s arbitrary: w) (auto split: if_splits list.splits)

lemma split_on_join:
  "ws \<noteq> [] \<Longrightarrow> \<forall>w\<in>set ws. c \<notin> set w \<Longrightarrow> split_on c (join_with [c] ws) = ws"
proof (induction "[c]" ws rule: join_with.induct)
  case (3 x y xs)
  then show ?case by (simp add: split_on_append)
qed (simp_all add: split_on_no_sep)

lemma join_split_on: "join_with [c] (split_on c s) = s"
proof (induction s)
  case (Cons d s)
  then show ?case
    by (cases "split_on c s"; cases "tl (split_on c s)") auto
qed simp

definition canonical_parts :: "string list \<Rightarrow> bool" where
  "canonical_parts ws \<longleftrightarrow> list_all (\<lambda>w. w \<noteq> [] \<and> w \<noteq> ''.'' \<and> CHR ''/'' \<notin> set w) ws"

lemma canonical_posix_path: "canonical_parts (pp_parts (posix_path s))"
  by (auto simp: canonical_parts_def posix_path_def list_all_iff dest: split_on_parts_no_sep)

lemma filter_canonical:
  "canonical_parts ws \<Longrightarrow> filter (\<lambda>w. w \<noteq> [] \<and> w \<noteq> ''.'') ws = ws"
  by (auto simp: canonical_parts_def list_all_iff filter_id_conv)

lemma posix_path_join:
  assumes "canonical_parts ws" and "ws \<noteq> []"
  shows "posix_path (join_with ''/'' ws) = \<lparr>pp_absolute = False, pp_parts = ws\<rparr>"
proof -
  have sp: "split_on (CHR ''/'') (join_with ''/'' ws) = ws"
    using assms by (intro split_on_join) (auto simp: canonical_parts_def list_all_iff)
  obtain w us where ws: "ws = w # us" using assms(2) by (cases ws) auto
  then have "w \<noteq> []" and "CHR ''/'' \<notin> set w"
    using assms(1) by (auto simp: canonical_parts_def)
  then have "\<not> prefix ''/'' (join_with ''/'' ws)"
    unfolding ws by (cases w; cases us) (auto simp: prefix_def)
  then show ?thesis
    using sp filter_canonical [OF assms(1)] by (simp add: posix_path_def)
qed

text \<open>Printing a relative path and parsing it again gives the path back.\<close>

lemma posix_path_round_trip:
  assumes "\<not> pp_absolute (posix_path s)"
  shows "posix_path (path_text (posix_path s)) = posix_path s"
proof (cases "pp_parts (posix_path s) = []")
  case True
  then have "posix_path s = \<lparr>pp_absolute = False, pp_parts = []\<rparr>"
    using assms by (cases "posix_path s") simp
  then show ?thesis by (simp add: path_text_def) (simp add: posix_path_def)
next
  case False
  have "path_text (posix_path s) = join_with ''/'' (pp_parts (posix_path s))"
    using assms False by (simp add: path_text_def)
  then show ?thesis
    using posix_path_join [OF canonical_posix_path False] assms
    by (cases "posix_path s") simp
qed

end
