(* ===== verification/Json_Value.thy ===== *)
theory Json_Value
  imports Complex_Main Py_Text
begin

text \<open>
  JSON values and the Python operations on them that the components share. A dictionary is a
  list of pairs in insertion order with one pair per key. The sorted, compact text
  \<^verbatim>\<open>json.dumps\<close> writes for a value and the hexadecimal SHA-256 of bytes are the parameters of
  \<^verbatim>\<open>domain/hashing.py\<close>; components that only hash JSON values take one function from values
  to digests.
\<close>

datatype json =
    JNull
  | JBool bool
  | JInt int
  | JFloat rat
  | JText string
  | JList "json list"
  | JObject "(string \<times> json) list"

definition texts :: "string list \<Rightarrow> json" where
  "texts xs = JList (map JText xs)"

definition text_or_null :: "string option \<Rightarrow> json" where
  "text_or_null t = (case t of None \<Rightarrow> JNull | Some s \<Rightarrow> JText s)"

definition uuid_json :: "uuid \<Rightarrow> json" where
  "uuid_json u = JText (uuid_text u)"

record hashing =
  hs_canonical_json :: "json \<Rightarrow> string"
  hs_sha256 :: "string \<Rightarrow> digest"

definition hash_text :: "hashing \<Rightarrow> string \<Rightarrow> digest" where
  "hash_text hs value = hs_sha256 hs (utf8 value)"

definition hash_json :: "hashing \<Rightarrow> json \<Rightarrow> digest" where
  "hash_json hs value = hs_sha256 hs (utf8 (hs_canonical_json hs value))"

text \<open>\<^verbatim>\<open>d | {k: v}\<close>: a known key keeps its place.\<close>

fun dict_put :: "string \<Rightarrow> json \<Rightarrow> (string \<times> json) list \<Rightarrow> (string \<times> json) list" where
  "dict_put k v [] = [(k, v)]"
| "dict_put k v ((k', v') # kvs) = (if k' = k then (k, v) # kvs else (k', v') # dict_put k v kvs)"

definition dict_merge :: "(string \<times> json) list \<Rightarrow> (string \<times> json) list \<Rightarrow> (string \<times> json) list" where
  "dict_merge d kvs = fold (\<lambda>(k, v). dict_put k v) kvs d"

text \<open>Python's truth value.\<close>

fun truthy :: "json \<Rightarrow> bool" where
  "truthy JNull = False"
| "truthy (JBool b) = b"
| "truthy (JInt n) = (n \<noteq> 0)"
| "truthy (JFloat r) = (r \<noteq> 0)"
| "truthy (JText s) = (s \<noteq> [])"
| "truthy (JList xs) = (xs \<noteq> [])"
| "truthy (JObject kvs) = (kvs \<noteq> [])"

text \<open>
  \<^verbatim>\<open>int(value)\<close> of a JSON value (\<open>None\<close> when it raises), and \<^verbatim>\<open>dict(value)\<close> of an object or an
  empty container.
\<close>

fun json_int :: "json \<Rightarrow> int option" where
  "json_int (JInt n) = Some n"
| "json_int (JBool b) = Some (if b then 1 else 0)"
| "json_int (JFloat r) = Some (if r \<ge> 0 then floor r else ceiling r)"
| "json_int (JText s) = py_int 10 s"
| "json_int _ = None"

fun json_dict :: "json \<Rightarrow> (string \<times> json) list option" where
  "json_dict (JObject kvs) = Some kvs"
| "json_dict (JList []) = Some []"
| "json_dict (JText []) = Some []"
| "json_dict _ = None"

lemma map_of_dict_put: "map_of (dict_put k v d) = (map_of d)(k \<mapsto> v)"
  by (induction d) auto

lemma text_or_null_inject: "text_or_null a = text_or_null b \<longleftrightarrow> a = b"
  by (simp add: text_or_null_def split: option.splits)

end
