(* ===== verification/Workflow_Context.thy ===== *)
theory Workflow_Context
  imports Workflow Json_Value "HOL-Library.AList"
begin

text \<open>
  \<^verbatim>\<open>domain/workflow/context.py\<close>, the evidence a delivery workflow collects, and
  \<^verbatim>\<open>application/workflow/completeness.py\<close>, the check that it is complete and consistent before
  the workflow completes. A dictionary is an association list without repeated keys; \<open>put\<close>
  stores in it. The order in which JSONB returns keys is not modelled.
\<close>

section \<open>Texts of the enumerations\<close>

fun state_text :: "WorkflowState \<Rightarrow> string" where
  "state_text PROJECT_CREATED = ''project_created''"
| "state_text REQUIREMENTS_RUNNING = ''requirements_running''"
| "state_text WAITING_REQUIREMENTS_APPROVAL = ''waiting_requirements_approval''"
| "state_text ARCHITECTURE_RUNNING = ''architecture_running''"
| "state_text WAITING_ARCHITECTURE_APPROVAL = ''waiting_architecture_approval''"
| "state_text PLANNING_RUNNING = ''planning_running''"
| "state_text WAITING_WORK_PACKAGE_APPROVAL = ''waiting_work_package_approval''"
| "state_text EXECUTION_RUNNING = ''execution_running''"
| "state_text PATCH_REVIEW_RUNNING = ''patch_review_running''"
| "state_text WAITING_INTEGRATION_APPROVAL = ''waiting_integration_approval''"
| "state_text INTEGRATING = ''integrating''"
| "state_text COMPLETED = ''completed''"
| "state_text CANCELLING = ''cancelling''"
| "state_text CANCELLED = ''cancelled''"
| "state_text FAILED = ''failed''"
| "state_text MANUAL_INTERVENTION = ''manual_intervention''"

fun step_text :: "WorkflowStepName \<Rightarrow> string" where
  "step_text REQUIREMENTS = ''requirements''"
| "step_text ARCHITECTURE = ''architecture''"
| "step_text PLANNING = ''planning''"
| "step_text EXECUTION = ''execution''"
| "step_text REVIEW = ''review''"
| "step_text INTEGRATION = ''integration''"
| "step_text COMPLETENESS = ''completeness''"

fun event_text :: "WorkflowEventName \<Rightarrow> string" where
  "event_text EVENT_STARTED = ''workflow.started''"
| "event_text EVENT_RELINKED = ''workflow.relinked''"
| "event_text EVENT_TRANSITIONED = ''workflow.transitioned''"
| "event_text EVENT_CANCELLED = ''workflow.cancelled''"
| "event_text EVENT_FAILED = ''workflow.failed''"
| "event_text EVENT_COMPLETED = ''workflow.completed''"

section \<open>The context\<close>

abbreviation put :: "string \<Rightarrow> 'v \<Rightarrow> (string \<times> 'v) list \<Rightarrow> (string \<times> 'v) list" where
  "put \<equiv> AList.update"

definition put_all :: "(string \<times> 'v) list \<Rightarrow> (string \<times> 'v) list \<Rightarrow> (string \<times> 'v) list" where
  "put_all new d = fold (\<lambda>(k, v). put k v) new d"

record WorkflowContext =
  wx_workflow_id :: uuid
  wx_project_id :: uuid
  wx_current_state :: WorkflowState
  wx_correlation_id :: uuid
  wx_actor_id :: string
  wx_permissions :: "string list"
  wx_artifact_ids :: "(string \<times> uuid) list"
  wx_artifact_hashes :: "(string \<times> string) list"
  wx_approval_ids :: "(string \<times> uuid) list"
  wx_run_ids :: "(string \<times> uuid) list"
  wx_evidence_links :: "(string \<times> string) list"
  wx_execution_id :: "uuid option"
  wx_review_id :: "uuid option"
  wx_integration_attempt_id :: "uuid option"
  wx_commit_id :: "string option"
  wx_audit_ids :: "uuid list"
  wx_cancellation_requested :: bool
  wx_metadata :: "(string \<times> json) list"

definition new_context ::
  "uuid \<Rightarrow> uuid \<Rightarrow> WorkflowState \<Rightarrow> uuid \<Rightarrow> string \<Rightarrow> WorkflowContext" where
  "new_context workflow_id project_id state correlation_id actor_id =
     \<lparr>wx_workflow_id = workflow_id, wx_project_id = project_id, wx_current_state = state,
      wx_correlation_id = correlation_id, wx_actor_id = actor_id, wx_permissions = [],
      wx_artifact_ids = [], wx_artifact_hashes = [], wx_approval_ids = [], wx_run_ids = [],
      wx_evidence_links = [], wx_execution_id = None, wx_review_id = None,
      wx_integration_attempt_id = None, wx_commit_id = None, wx_audit_ids = [],
      wx_cancellation_requested = False, wx_metadata = []\<rparr>"

definition uuid_or_null :: "uuid option \<Rightarrow> json" where
  "uuid_or_null u = text_or_null (map_option uuid_text u)"

definition ids_json :: "(string \<times> uuid) list \<Rightarrow> json" where
  "ids_json d = JObject (map (\<lambda>(k, u). (k, uuid_json u)) d)"

definition links_json :: "(string \<times> string) list \<Rightarrow> json" where
  "links_json d = JObject (map (\<lambda>(k, t). (k, JText t)) d)"

text \<open>\<^verbatim>\<open>model_dump(mode="json")\<close>.\<close>

definition context_json :: "WorkflowContext \<Rightarrow> json" where
  "context_json c = JObject
     [(''schema_version'', JText ''1.0''), (''workflow_id'', uuid_json (wx_workflow_id c)),
      (''project_id'', uuid_json (wx_project_id c)),
      (''current_state'', JText (state_text (wx_current_state c))),
      (''correlation_id'', uuid_json (wx_correlation_id c)),
      (''actor_id'', JText (wx_actor_id c)), (''permissions'', texts (wx_permissions c)),
      (''artifact_ids'', ids_json (wx_artifact_ids c)),
      (''artifact_hashes'', links_json (wx_artifact_hashes c)),
      (''approval_ids'', ids_json (wx_approval_ids c)), (''run_ids'', ids_json (wx_run_ids c)),
      (''evidence_links'', links_json (wx_evidence_links c)),
      (''execution_id'', uuid_or_null (wx_execution_id c)),
      (''review_id'', uuid_or_null (wx_review_id c)),
      (''integration_attempt_id'', uuid_or_null (wx_integration_attempt_id c)),
      (''commit_id'', text_or_null (wx_commit_id c)),
      (''audit_ids'', JList (map uuid_json (wx_audit_ids c))),
      (''cancellation_requested'', JBool (wx_cancellation_requested c)),
      (''metadata'', JObject (wx_metadata c))]"

definition content_hash :: "hashing \<Rightarrow> WorkflowContext \<Rightarrow> digest" where
  "content_hash hs c = hash_json hs (context_json c)"

section \<open>Completeness\<close>

record CompletenessResult =
  cr_complete :: bool
  cr_missing :: "string list"

definition MANDATORY_ARTIFACTS :: "string list" where
  "MANDATORY_ARTIFACTS =
     [''manifest'', ''requirements'', ''architecture'', ''work_package'', ''patch'', ''review'']"

definition MANDATORY_APPROVALS :: "string list" where
  "MANDATORY_APPROVALS = [''requirements'', ''architecture'', ''work_package'', ''integration'']"

definition MANDATORY_EVIDENCE_LINKS :: "string list" where
  "MANDATORY_EVIDENCE_LINKS =
     [''execution:approval_id'', ''execution:work_package_id'', ''execution:patch_artifact_id'',
      ''execution:patch_sha256'', ''execution:status'', ''review:execution_id'',
      ''review:work_package_id'', ''review:patch_artifact_id'', ''review:report_artifact_id'',
      ''review:expected_patch_sha256'', ''review:actual_patch_sha256'', ''review:status'',
      ''integration:execution_id'', ''integration:approval_id'', ''integration:project_id'',
      ''integration:expected_patch_sha256'', ''integration:expected_base_commit_sha'',
      ''integration:expected_base_tree_sha'', ''integration:actual_base_commit_sha'',
      ''integration:actual_base_tree_sha'', ''integration:resulting_tree_sha'',
      ''integration:status'', ''commit:integration_attempt_id'', ''commit:sha'',
      ''commit:tree_sha'', ''commit:parent_commit_sha'', ''commit:remote_verified'']"

definition link :: "WorkflowContext \<Rightarrow> string \<Rightarrow> string option" where
  "link c key = map_of (wx_evidence_links c) key"

definition missing_hash :: "string \<Rightarrow> string option \<Rightarrow> string list" where
  "missing_hash name value = (case value of
     None \<Rightarrow> [''artifact_hash:'' @ name]
   | Some h \<Rightarrow> if length h \<noteq> 64 then [''artifact_hash:'' @ name @ '':invalid''] else [])"

definition expect_link :: "WorkflowContext \<Rightarrow> string \<Rightarrow> string option \<Rightarrow> string list" where
  "expect_link c key expected = (case link c key of
     None \<Rightarrow> []
   | Some value \<Rightarrow>
       if expected \<noteq> None \<and> expected \<noteq> Some value
       then [''evidence_link:'' @ key @ '':mismatch''] else [])"

definition expect_equal :: "WorkflowContext \<Rightarrow> string \<Rightarrow> string \<Rightarrow> string list" where
  "expect_equal c left_key right_key = (case (link c left_key, link c right_key) of
     (Some left, Some right) \<Rightarrow>
       if left \<noteq> right then [''evidence_link:'' @ left_key @ '':mismatch:'' @ right_key] else []
   | _ \<Rightarrow> [])"

definition expect_value :: "WorkflowContext \<Rightarrow> string \<Rightarrow> string \<Rightarrow> string list" where
  "expect_value c key expected = (case link c key of
     None \<Rightarrow> []
   | Some value \<Rightarrow>
       if value \<noteq> expected then [''evidence_link:'' @ key @ '':mismatch''] else [])"

definition absent :: "string \<Rightarrow> 'a option \<Rightarrow> string list" where
  "absent name value = (if value = None then [name] else [])"

definition verify_completeness :: "WorkflowContext \<Rightarrow> CompletenessResult" where
  "verify_completeness c =
     (let artifact = map_of (wx_artifact_ids c); approval = map_of (wx_approval_ids c);
          id = map_option uuid_text;
          missing = concat
            [map (\<lambda>name. ''artifact:'' @ name)
               (filter (\<lambda>name. artifact name = None) MANDATORY_ARTIFACTS),
             concat (map (\<lambda>name. missing_hash name (map_of (wx_artifact_hashes c) name))
               MANDATORY_ARTIFACTS),
             map (\<lambda>name. ''approval:'' @ name)
               (filter (\<lambda>name. approval name = None) MANDATORY_APPROVALS),
             map (\<lambda>name. ''evidence_link:'' @ name)
               (filter (\<lambda>name. link c name = None) MANDATORY_EVIDENCE_LINKS),
             absent ''execution'' (wx_execution_id c), absent ''review'' (wx_review_id c),
             absent ''integration_attempt'' (wx_integration_attempt_id c),
             absent ''commit'' (wx_commit_id c),
             expect_link c ''review:execution_id'' (id (wx_execution_id c)),
             expect_link c ''execution:approval_id'' (id (approval ''work_package'')),
             expect_link c ''execution:patch_artifact_id'' (id (artifact ''patch'')),
             expect_link c ''review:patch_artifact_id'' (id (artifact ''patch'')),
             expect_link c ''review:report_artifact_id'' (id (artifact ''review'')),
             expect_link c ''integration:execution_id'' (id (wx_execution_id c)),
             expect_link c ''integration:project_id'' (Some (uuid_text (wx_project_id c))),
             expect_link c ''integration:approval_id'' (id (approval ''integration'')),
             expect_link c ''commit:integration_attempt_id'' (id (wx_integration_attempt_id c)),
             expect_equal c ''execution:work_package_id'' ''review:work_package_id'',
             expect_equal c ''execution:patch_sha256'' ''review:expected_patch_sha256'',
             expect_equal c ''review:expected_patch_sha256'' ''review:actual_patch_sha256'',
             expect_equal c ''review:actual_patch_sha256'' ''integration:expected_patch_sha256'',
             expect_equal c ''integration:expected_base_commit_sha''
               ''integration:actual_base_commit_sha'',
             expect_equal c ''integration:expected_base_tree_sha''
               ''integration:actual_base_tree_sha'',
             expect_equal c ''integration:resulting_tree_sha'' ''commit:tree_sha'',
             expect_equal c ''integration:actual_base_commit_sha'' ''commit:parent_commit_sha'',
             (if link c ''commit:remote_verified'' \<noteq> Some ''true''
              then [''evidence_link:commit:remote_verified:mismatch''] else []),
             expect_link c ''commit:sha'' (wx_commit_id c),
             expect_value c ''execution:status'' ''succeeded'',
             expect_value c ''review:status'' ''accepted'',
             expect_value c ''integration:status'' ''integrated'']
      in \<lparr>cr_complete = (missing = []), cr_missing = missing\<rparr>)"

section \<open>What completeness means\<close>

text \<open>The named links are present and all equal.\<close>

definition agree :: "WorkflowContext \<Rightarrow> string list \<Rightarrow> bool" where
  "agree c keys \<longleftrightarrow> (\<exists>v. \<forall>k\<in>set keys. link c k = Some v)"

text \<open>The evidence of a delivery: one work package, one patch, one tree, one parent commit.\<close>

definition bound_evidence :: "WorkflowContext \<Rightarrow> bool" where
  "bound_evidence c \<longleftrightarrow>
     (\<forall>name\<in>set MANDATORY_ARTIFACTS. map_of (wx_artifact_ids c) name \<noteq> None \<and>
        (\<exists>h. map_of (wx_artifact_hashes c) name = Some h \<and> length h = 64)) \<and>
     (\<forall>name\<in>set MANDATORY_APPROVALS. map_of (wx_approval_ids c) name \<noteq> None) \<and>
     wx_execution_id c \<noteq> None \<and> wx_review_id c \<noteq> None \<and> wx_integration_attempt_id c \<noteq> None \<and>
     wx_commit_id c \<noteq> None \<and>
     link c ''execution:status'' = Some ''succeeded'' \<and>
     link c ''review:status'' = Some ''accepted'' \<and>
     link c ''integration:status'' = Some ''integrated'' \<and>
     link c ''commit:remote_verified'' = Some ''true'' \<and>
     link c ''commit:sha'' = wx_commit_id c \<and>
     link c ''review:execution_id'' = map_option uuid_text (wx_execution_id c) \<and>
     link c ''integration:execution_id'' = map_option uuid_text (wx_execution_id c) \<and>
     link c ''integration:project_id'' = Some (uuid_text (wx_project_id c)) \<and>
     link c ''commit:integration_attempt_id'' = map_option uuid_text (wx_integration_attempt_id c) \<and>
     link c ''execution:approval_id'' =
       map_option uuid_text (map_of (wx_approval_ids c) ''work_package'') \<and>
     link c ''integration:approval_id'' =
       map_option uuid_text (map_of (wx_approval_ids c) ''integration'') \<and>
     link c ''execution:patch_artifact_id'' =
       map_option uuid_text (map_of (wx_artifact_ids c) ''patch'') \<and>
     link c ''review:patch_artifact_id'' =
       map_option uuid_text (map_of (wx_artifact_ids c) ''patch'') \<and>
     link c ''review:report_artifact_id'' =
       map_option uuid_text (map_of (wx_artifact_ids c) ''review'') \<and>
     agree c [''execution:work_package_id'', ''review:work_package_id''] \<and>
     agree c [''execution:patch_sha256'', ''review:expected_patch_sha256'',
       ''review:actual_patch_sha256'', ''integration:expected_patch_sha256''] \<and>
     agree c [''integration:resulting_tree_sha'', ''commit:tree_sha''] \<and>
     agree c [''integration:expected_base_commit_sha'', ''integration:actual_base_commit_sha'',
       ''commit:parent_commit_sha''] \<and>
     agree c [''integration:expected_base_tree_sha'', ''integration:actual_base_tree_sha'']"

lemma agree_single [simp]: "agree c [k] \<longleftrightarrow> link c k \<noteq> None"
  by (auto simp: agree_def)

lemma agree_more [simp]: "agree c (a # b # ks) \<longleftrightarrow> link c a = link c b \<and> agree c (b # ks)"
  by (auto simp: agree_def)

lemma missing_hash_Nil: "missing_hash name v = [] \<longleftrightarrow> (\<exists>h. v = Some h \<and> length h = 64)"
  by (auto simp: missing_hash_def split: option.split)

lemma expect_link_Nil:
  "link c key \<noteq> None \<Longrightarrow> e \<noteq> None \<Longrightarrow> expect_link c key e = [] \<longleftrightarrow> link c key = e"
  by (auto simp: expect_link_def split: option.split)

lemma expect_equal_Nil:
  "link c l \<noteq> None \<Longrightarrow> link c r \<noteq> None \<Longrightarrow> expect_equal c l r = [] \<longleftrightarrow> link c l = link c r"
  by (auto simp: expect_equal_def split: option.split)

lemma expect_value_Nil: "link c key \<noteq> None \<Longrightarrow> expect_value c key v = [] \<longleftrightarrow> link c key = Some v"
  by (auto simp: expect_value_def split: option.split)

lemma absent_Nil: "absent name v = [] \<longleftrightarrow> v \<noteq> None"
  by (simp add: absent_def)

lemma complete_iff_checks:
  "cr_complete (verify_completeness c) \<longleftrightarrow>
     (\<forall>name\<in>set MANDATORY_ARTIFACTS. map_of (wx_artifact_ids c) name \<noteq> None) \<and>
     (\<forall>name\<in>set MANDATORY_ARTIFACTS. missing_hash name (map_of (wx_artifact_hashes c) name) = []) \<and>
     (\<forall>name\<in>set MANDATORY_APPROVALS. map_of (wx_approval_ids c) name \<noteq> None) \<and>
     (\<forall>name\<in>set MANDATORY_EVIDENCE_LINKS. link c name \<noteq> None) \<and>
     wx_execution_id c \<noteq> None \<and> wx_review_id c \<noteq> None \<and> wx_integration_attempt_id c \<noteq> None \<and>
     wx_commit_id c \<noteq> None \<and>
     expect_link c ''review:execution_id'' (map_option uuid_text (wx_execution_id c)) = [] \<and>
     expect_link c ''execution:approval_id'' (map_option uuid_text (map_of (wx_approval_ids c) ''work_package'')) = [] \<and>
     expect_link c ''execution:patch_artifact_id'' (map_option uuid_text (map_of (wx_artifact_ids c) ''patch'')) = [] \<and>
     expect_link c ''review:patch_artifact_id'' (map_option uuid_text (map_of (wx_artifact_ids c) ''patch'')) = [] \<and>
     expect_link c ''review:report_artifact_id'' (map_option uuid_text (map_of (wx_artifact_ids c) ''review'')) = [] \<and>
     expect_link c ''integration:execution_id'' (map_option uuid_text (wx_execution_id c)) = [] \<and>
     expect_link c ''integration:project_id'' (Some (uuid_text (wx_project_id c))) = [] \<and>
     expect_link c ''integration:approval_id'' (map_option uuid_text (map_of (wx_approval_ids c) ''integration'')) = [] \<and>
     expect_link c ''commit:integration_attempt_id'' (map_option uuid_text (wx_integration_attempt_id c)) = [] \<and>
     expect_equal c ''execution:work_package_id'' ''review:work_package_id'' = [] \<and>
     expect_equal c ''execution:patch_sha256'' ''review:expected_patch_sha256'' = [] \<and>
     expect_equal c ''review:expected_patch_sha256'' ''review:actual_patch_sha256'' = [] \<and>
     expect_equal c ''review:actual_patch_sha256'' ''integration:expected_patch_sha256'' = [] \<and>
     expect_equal c ''integration:expected_base_commit_sha'' ''integration:actual_base_commit_sha'' = [] \<and>
     expect_equal c ''integration:expected_base_tree_sha'' ''integration:actual_base_tree_sha'' = [] \<and>
     expect_equal c ''integration:resulting_tree_sha'' ''commit:tree_sha'' = [] \<and>
     expect_equal c ''integration:actual_base_commit_sha'' ''commit:parent_commit_sha'' = [] \<and>
     link c ''commit:remote_verified'' = Some ''true'' \<and>
     expect_link c ''commit:sha'' (wx_commit_id c) = [] \<and>
     expect_value c ''execution:status'' ''succeeded'' = [] \<and>
     expect_value c ''review:status'' ''accepted'' = [] \<and>
     expect_value c ''integration:status'' ''integrated'' = []"
  unfolding verify_completeness_def Let_def CompletenessResult.simps
  by (simp add: filter_empty_conv absent_Nil)

text \<open>Every mandatory link is one of those the evidence names.\<close>

lemma bound_links:
  assumes "bound_evidence c"
  shows "\<forall>name\<in>set MANDATORY_EVIDENCE_LINKS. link c name \<noteq> None"
  using assms unfolding bound_evidence_def MANDATORY_EVIDENCE_LINKS_def MANDATORY_APPROVALS_def
    MANDATORY_ARTIFACTS_def
  by (elim conjE exE) simp

theorem verify_completeness_iff: "cr_complete (verify_completeness c) \<longleftrightarrow> bound_evidence c"
proof (cases "\<forall>name\<in>set MANDATORY_EVIDENCE_LINKS. link c name \<noteq> None")
  case False
  then show ?thesis using bound_links complete_iff_checks by blast
next
  case True
  note present = this [unfolded MANDATORY_EVIDENCE_LINKS_def, simplified]
  show ?thesis
  proof (cases "(\<forall>name\<in>set MANDATORY_ARTIFACTS. map_of (wx_artifact_ids c) name \<noteq> None) \<and>
      (\<forall>name\<in>set MANDATORY_APPROVALS. map_of (wx_approval_ids c) name \<noteq> None) \<and>
      wx_execution_id c \<noteq> None \<and> wx_review_id c \<noteq> None \<and> wx_integration_attempt_id c \<noteq> None \<and>
      wx_commit_id c \<noteq> None")
    case False
    then show ?thesis unfolding complete_iff_checks bound_evidence_def by blast
  next
    case True
    then have "map_of (wx_approval_ids c) ''work_package'' \<noteq> None"
      "map_of (wx_artifact_ids c) ''patch'' \<noteq> None" "map_of (wx_artifact_ids c) ''review'' \<noteq> None"
      "map_of (wx_approval_ids c) ''integration'' \<noteq> None"
      unfolding MANDATORY_ARTIFACTS_def MANDATORY_APPROVALS_def by simp_all
    then show ?thesis
      using True \<open>\<forall>name\<in>set MANDATORY_EVIDENCE_LINKS. link c name \<noteq> None\<close> present
      unfolding complete_iff_checks bound_evidence_def
      by (simp add: missing_hash_Nil expect_link_Nil expect_equal_Nil expect_value_Nil) blast
  qed
qed

end
