(* ===== verification/Job_Queue.thy ===== *)
theory Job_Queue
  imports Py_Text "HOL-Library.Option_ord"
begin

text \<open>
  The durable job queue: the rows of \<^verbatim>\<open>jobs\<close>, \<^verbatim>\<open>job_execution_attempts\<close>,
  \<^verbatim>\<open>worker_instances\<close> and the two columns of \<^verbatim>\<open>requirements_revision_cycles\<close> the queue
  writes, and every operation of \<^verbatim>\<open>infrastructure/jobs/repository.py\<close>,
  \<^verbatim>\<open>infrastructure/jobs/recovery.py\<close> and \<^verbatim>\<open>infrastructure/jobs/crash_safety.py\<close>.

  An operation runs in one database transaction, which an exception rolls back: it returns the
  new tables or an error and no tables. The clock reading \<open>now\<close>, the identifiers drawn with
  \<^verbatim>\<open>uuid4\<close> and the set \<open>locked\<close> of rows other transactions hold (skipped by
  \<^verbatim>\<open>SKIP LOCKED\<close>) are arguments. A payload maps keys to text. Elapsed milliseconds are exact
  quotients of the microseconds, without the rounding of \<^verbatim>\<open>float\<close>.
\<close>

section \<open>Tables\<close>

datatype JobStatus = QUEUED | LEASED | SUCCEEDED | FAILED | DEAD_LETTER | CANCELLED | RETRY_WAIT

datatype FailureClass =
  INFRASTRUCTURE | TEMPORARY_PROVIDER | VALIDATION | AUTHORIZATION | CONFIGURATION | UNKNOWN

fun failure_class_text :: "FailureClass \<Rightarrow> string" where
  "failure_class_text INFRASTRUCTURE = ''infrastructure''"
| "failure_class_text TEMPORARY_PROVIDER = ''temporary_provider''"
| "failure_class_text VALIDATION = ''validation''"
| "failure_class_text AUTHORIZATION = ''authorization''"
| "failure_class_text CONFIGURATION = ''configuration''"
| "failure_class_text UNKNOWN = ''unknown''"

record JobModel =
  jm_id :: uuid
  jm_project_id :: uuid
  jm_run_id :: "uuid option"
  jm_job_type :: string
  jm_status :: JobStatus
  jm_payload :: "string \<rightharpoonup> string"
  jm_priority :: int
  jm_attempt_count :: int
  jm_max_attempts :: int
  jm_available_at :: timestamp
  jm_lease_owner :: "string option"
  jm_lease_expires_at :: "timestamp option"
  jm_lease_token :: "uuid option"
  jm_lease_version :: int
  jm_retry_count :: int
  jm_last_failure_class :: "string option"
  jm_last_leased_at :: "timestamp option"
  jm_last_error :: "string option"
  jm_completed_at :: "timestamp option"
  jm_created_at :: timestamp

record JobExecutionAttemptModel =
  ja_id :: uuid
  ja_job_id :: uuid
  ja_attempt_number :: int
  ja_worker_id :: string
  ja_lease_token :: uuid
  ja_lease_version :: int
  ja_status :: string
  ja_started_at :: timestamp
  ja_deadline_at :: timestamp
  ja_completed_at :: "timestamp option"
  ja_queue_wait_ms :: "int option"
  ja_execution_ms :: "int option"
  ja_failure_class :: "string option"
  ja_failure_code :: "string option"
  ja_failure_message :: "string option"
  ja_retryable :: "bool option"
  ja_revision_cycle_id :: "uuid option"
  ja_repair_attempted :: bool

record WorkerInstanceModel =
  wi_worker_id :: string
  wi_profile :: string
  wi_status :: string
  wi_started_at :: timestamp
  wi_last_heartbeat_at :: timestamp
  wi_stopped_at :: "timestamp option"

record RevisionCycleModel =
  rc_id :: uuid
  rc_status :: string
  rc_completed_at :: "timestamp option"

record queue_tables =
  qt_jobs :: "JobModel list"
  qt_attempts :: "JobExecutionAttemptModel list"
  qt_workers :: "WorkerInstanceModel list"
  qt_cycles :: "RevisionCycleModel list"

datatype job_error = LeaseLostError string | JobRuntimeError string | JobValueError string

section \<open>Retry policy\<close>

record FailureDecision =
  fd_failure_class :: FailureClass
  fd_retryable :: bool
  fd_code :: string

record RetryPolicy =
  rp_base_seconds :: int
  rp_maximum_seconds :: int

text \<open>
  An exception as \<^verbatim>\<open>classify\<close> sees it: the name of its type, whether it is a
  \<^verbatim>\<open>TimeoutError\<close>, its message.
\<close>

record raised_exception =
  ex_type_name :: string
  ex_is_timeout :: bool
  ex_message :: string

definition any_in :: "string list \<Rightarrow> string \<Rightarrow> bool" where
  "any_in markers s = list_ex (\<lambda>m. contains_text s m) markers"

definition classify :: "raised_exception \<Rightarrow> FailureDecision" where
  "classify exc =
     (let name = lower (ex_type_name exc);
          message = lower (ex_message exc);
          decide = (\<lambda>c r code. \<lparr>fd_failure_class = c, fd_retryable = r, fd_code = code\<rparr>)
      in if contains_text message ''result.json''
            \<and> any_in [''no result.json'', ''missing'', ''invalid''] message
         then decide VALIDATION False ''missing_or_invalid_result_artifact''
         else if ex_is_timeout exc \<or> contains_text name ''timeout''
         then decide TEMPORARY_PROVIDER True ''execution_timeout''
         else if any_in [''connection'', ''docker'', ''database''] (name @ message)
         then decide INFRASTRUCTURE True ''infrastructure_error''
         else if any_in [''validation'', ''schema'', ''artifact''] (name @ message)
         then decide VALIDATION True ''validation_error''
         else if any_in [''permission'', ''authorization'', ''deleted''] (name @ message)
         then decide AUTHORIZATION False ''authorization_error''
         else if any_in [''configuration'', ''missing model'', ''provider''] (name @ message)
         then decide CONFIGURATION False ''configuration_error''
         else decide UNKNOWN False ''unexpected_error'')"

definition delay :: "RetryPolicy \<Rightarrow> int \<Rightarrow> duration" where
  "delay self retry_count =
     seconds (min (rp_maximum_seconds self)
                  (rp_base_seconds self * 2 ^ nat (max 0 (retry_count - 1))))"

section \<open>Repository\<close>

definition enqueue ::
  "uuid \<Rightarrow> timestamp \<Rightarrow> uuid \<Rightarrow> uuid option \<Rightarrow> string \<Rightarrow> (string \<rightharpoonup> string) \<Rightarrow> int \<Rightarrow> int
   \<Rightarrow> queue_tables \<Rightarrow> queue_tables" where
  "enqueue new_id now project_id run_id job_type payload priority max_attempts db =
     db\<lparr>qt_jobs := qt_jobs db @
       [\<lparr>jm_id = new_id, jm_project_id = project_id, jm_run_id = run_id, jm_job_type = job_type,
         jm_status = QUEUED, jm_payload = payload, jm_priority = priority, jm_attempt_count = 0,
         jm_max_attempts = max_attempts, jm_available_at = now, jm_lease_owner = None,
         jm_lease_expires_at = None, jm_lease_token = None, jm_lease_version = 0,
         jm_retry_count = 0, jm_last_failure_class = None, jm_last_leased_at = None,
         jm_last_error = None, jm_completed_at = None, jm_created_at = now\<rparr>]\<rparr>"

text \<open>\<^verbatim>\<open>s.split(marker, 1)[0]\<close>: the text before the first occurrence of a nonempty marker.\<close>

fun before_text :: "string \<Rightarrow> string \<Rightarrow> string" where
  "before_text marker [] = []"
| "before_text marker (c # cs) =
     (if prefix marker (c # cs) then [] else c # before_text marker cs)"

definition appended_marker :: string where
  "appended_marker = CHR 0x0A # ''Current Setup blocker [''"

definition truthy_text :: "string option \<Rightarrow> bool" where
  "truthy_text t \<longleftrightarrow> (case t of None \<Rightarrow> False | Some s \<Rightarrow> s \<noteq> [])"

definition block_job :: "(string \<rightharpoonup> string) \<Rightarrow> JobModel \<Rightarrow> JobModel" where
  "block_job blockers job =
     (let last_error = (case jm_last_error job of None \<Rightarrow> [] | Some e \<Rightarrow> e)
      in case blockers (jm_job_type job) of
           Some blocker \<Rightarrow>
             if truthy_text (jm_last_error job) \<and> \<not> starts_with last_error ''Setup blocker [''
             then job\<lparr>jm_last_error := Some (take 4000
                    (before_text appended_marker last_error
                       @ CHR 0x0A # ''Current '' @ blocker))\<rparr>
             else job\<lparr>jm_last_error := Some (take 4000 blocker),
                      jm_last_failure_class := Some ''configuration''\<rparr>
         | None \<Rightarrow>
             if truthy_text (jm_last_error job) \<and> starts_with last_error ''Setup blocker [''
             then job\<lparr>jm_last_error := None, jm_last_failure_class := None\<rparr>
             else if truthy_text (jm_last_error job) \<and> contains_text last_error appended_marker
             then job\<lparr>jm_last_error := Some (before_text appended_marker last_error)\<rparr>
             else job)"

definition record_setup_blockers ::
  "string list \<Rightarrow> (string \<rightharpoonup> string) \<Rightarrow> queue_tables \<Rightarrow> queue_tables" where
  "record_setup_blockers candidate_job_types blockers db =
     (if candidate_job_types = [] then db
      else db\<lparr>qt_jobs := alter (\<lambda>j. jm_job_type j \<in> set candidate_job_types
                                  \<and> (jm_status j = QUEUED \<or> jm_status j = RETRY_WAIT))
                         (block_job blockers) (qt_jobs db)\<rparr>)"

text \<open>\<^verbatim>\<open>payload.get("revision_cycle_id")\<close>, converted when it is not empty.\<close>

definition revision_cycle_of :: "JobModel \<Rightarrow> job_error + uuid option" where
  "revision_cycle_of job =
     (case jm_payload job ''revision_cycle_id'' of
        None \<Rightarrow> Inr None
      | Some t \<Rightarrow>
          if t = [] then Inr None
          else (case py_uuid t of
                  None \<Rightarrow> Inl (JobValueError ''badly formed hexadecimal UUID string'')
                | Some u \<Rightarrow> Inr (Some u)))"

definition elapsed_ms :: "timestamp \<Rightarrow> timestamp \<Rightarrow> int" where
  "elapsed_ms now start = max 0 ((now - start) div 1000)"

definition claimable :: "timestamp \<Rightarrow> string list option \<Rightarrow> JobModel \<Rightarrow> bool" where
  "claimable now allowed_job_types j \<longleftrightarrow>
     jm_available_at j \<le> now \<and> jm_attempt_count j < jm_max_attempts j \<and>
     (jm_status j = QUEUED \<or> jm_status j = RETRY_WAIT) \<and>
     jm_lease_owner j = None \<and> jm_lease_token j = None \<and> jm_lease_expires_at j = None \<and>
     (case allowed_job_types of None \<Rightarrow> True | Some ts \<Rightarrow> jm_job_type j \<in> set ts)"

definition select_claimable ::
  "timestamp \<Rightarrow> uuid list \<Rightarrow> string list option \<Rightarrow> queue_tables \<Rightarrow> JobModel option" where
  "select_claimable now locked allowed_job_types db =
     first_by (\<lambda>j. (jm_priority j, jm_created_at j))
       (filter (\<lambda>j. claimable now allowed_job_types j \<and> jm_id j \<notin> set locked) (qt_jobs db))"

definition lease_job :: "uuid \<Rightarrow> timestamp \<Rightarrow> string \<Rightarrow> duration \<Rightarrow> JobModel \<Rightarrow> JobModel" where
  "lease_job token now worker_id lease_duration j =
     j\<lparr>jm_status := LEASED, jm_lease_owner := Some worker_id,
       jm_lease_expires_at := Some (now + lease_duration), jm_lease_token := Some token,
       jm_lease_version := jm_lease_version j + 1, jm_last_leased_at := Some now,
       jm_attempt_count := jm_attempt_count j + 1\<rparr>"

definition new_attempt ::
  "uuid \<Rightarrow> uuid \<Rightarrow> timestamp \<Rightarrow> string \<Rightarrow> duration \<Rightarrow> uuid option \<Rightarrow> JobModel
   \<Rightarrow> JobExecutionAttemptModel" where
  "new_attempt attempt_id token now worker_id execution_timeout cycle job =
     \<lparr>ja_id = attempt_id, ja_job_id = jm_id job, ja_attempt_number = jm_attempt_count job,
      ja_worker_id = worker_id, ja_lease_token = token, ja_lease_version = jm_lease_version job,
      ja_status = ''running'', ja_started_at = now, ja_deadline_at = now + execution_timeout,
      ja_completed_at = None, ja_queue_wait_ms = Some (elapsed_ms now (jm_created_at job)),
      ja_execution_ms = None, ja_failure_class = None, ja_failure_code = None,
      ja_failure_message = None, ja_retryable = None, ja_revision_cycle_id = cycle,
      ja_repair_attempted = False\<rparr>"

definition claim_next ::
  "uuid \<Rightarrow> uuid \<Rightarrow> timestamp \<Rightarrow> uuid list \<Rightarrow> string \<Rightarrow> duration \<Rightarrow> string list option \<Rightarrow> duration
   \<Rightarrow> queue_tables \<Rightarrow> job_error + (JobModel option \<times> queue_tables)" where
  "claim_next token attempt_id now locked worker_id lease_duration allowed_job_types
      execution_timeout db =
     (if allowed_job_types = Some [] then Inr (None, db)
      else case select_claimable now locked allowed_job_types db of
        None \<Rightarrow> Inr (None, db)
      | Some job \<Rightarrow>
          let job' = lease_job token now worker_id lease_duration job
          in bind_result (revision_cycle_of job) (\<lambda>cycle_id.
               let db' = db\<lparr>qt_jobs := alter (\<lambda>j. jm_id j = jm_id job) (\<lambda>_. job') (qt_jobs db),
                           qt_attempts := qt_attempts db @
                             [new_attempt attempt_id token now worker_id execution_timeout
                                cycle_id job']\<rparr>
               in case cycle_id of
                    None \<Rightarrow> Inr (Some job', db')
                  | Some c \<Rightarrow>
                      (case List.find (\<lambda>r. rc_id r = c) (qt_cycles db) of
                         None \<Rightarrow> Inl (JobRuntimeError
                                   ''Revision cycle is not pending at lease acquisition'')
                       | Some cycle \<Rightarrow>
                           if rc_status cycle \<noteq> ''pending''
                           then Inl (JobRuntimeError
                                  ''Revision cycle is not pending at lease acquisition'')
                           else Inr (Some job', db'\<lparr>qt_cycles :=
                                  alter (\<lambda>r. rc_id r = c) (\<lambda>r. r\<lparr>rc_status := ''executing''\<rparr>)
                                    (qt_cycles db)\<rparr>))))"

definition fence :: "uuid \<Rightarrow> string \<Rightarrow> uuid \<Rightarrow> int \<Rightarrow> timestamp \<Rightarrow> JobModel \<Rightarrow> bool" where
  "fence job_id worker_id lease_token lease_version now j \<longleftrightarrow>
     jm_id j = job_id \<and> jm_status j = LEASED \<and> jm_lease_owner j = Some worker_id \<and>
     jm_lease_token j = Some lease_token \<and> jm_lease_version j = lease_version \<and>
     (case jm_lease_expires_at j of None \<Rightarrow> False | Some e \<Rightarrow> e > now)"

definition extend_lease ::
  "timestamp \<Rightarrow> uuid \<Rightarrow> string \<Rightarrow> uuid \<Rightarrow> int \<Rightarrow> duration \<Rightarrow> queue_tables \<Rightarrow> bool \<times> queue_tables"
where
  "extend_lease now job_id worker_id lease_token lease_version lease_duration db =
     (let p = fence job_id worker_id lease_token lease_version now
      in (length (filter p (qt_jobs db)) = 1,
          db\<lparr>qt_jobs := alter p (\<lambda>j. j\<lparr>jm_lease_expires_at := Some (now + lease_duration)\<rparr>)
                          (qt_jobs db)\<rparr>))"

definition close_attempt ::
  "string \<Rightarrow> timestamp \<Rightarrow> string option \<Rightarrow> string option \<Rightarrow> string option \<Rightarrow> bool option
   \<Rightarrow> JobExecutionAttemptModel \<Rightarrow> JobExecutionAttemptModel" where
  "close_attempt status now failure_class failure_code failure_message retryable a =
     a\<lparr>ja_status := status, ja_completed_at := Some now,
       ja_execution_ms := Some (elapsed_ms now (ja_started_at a)),
       ja_failure_class := failure_class, ja_failure_code := failure_code,
       ja_failure_message := failure_message, ja_retryable := retryable\<rparr>"

definition finish_attempt ::
  "uuid \<Rightarrow> uuid \<Rightarrow> string \<Rightarrow> timestamp \<Rightarrow> string option \<Rightarrow> string option \<Rightarrow> string option
   \<Rightarrow> bool option \<Rightarrow> queue_tables \<Rightarrow> job_error + queue_tables" where
  "finish_attempt job_id lease_token status now failure_class failure_code failure_message
      retryable db =
     (case List.find (\<lambda>a. ja_job_id a = job_id \<and> ja_lease_token a = lease_token)
             (qt_attempts db) of
        None \<Rightarrow> Inl (LeaseLostError ''Fenced execution attempt is missing'')
      | Some attempt \<Rightarrow>
          Inr (db\<lparr>qt_attempts := alter (\<lambda>a. ja_id a = ja_id attempt)
                 (close_attempt status now failure_class failure_code failure_message retryable)
                 (qt_attempts db)\<rparr>))"

definition clear_lease :: "JobModel \<Rightarrow> JobModel" where
  "clear_lease j = j\<lparr>jm_lease_owner := None, jm_lease_token := None, jm_lease_expires_at := None\<rparr>"

definition lease_lost :: "uuid \<Rightarrow> job_error" where
  "lease_lost job_id = LeaseLostError (''Lease lost for job '' @ uuid_text job_id)"

definition mark_succeeded ::
  "timestamp \<Rightarrow> uuid \<Rightarrow> string \<Rightarrow> uuid \<Rightarrow> int \<Rightarrow> queue_tables \<Rightarrow> job_error + queue_tables" where
  "mark_succeeded now job_id worker_id lease_token lease_version db =
     (let p = fence job_id worker_id lease_token lease_version now;
          db' = db\<lparr>qt_jobs := alter p (\<lambda>j. clear_lease
                      (j\<lparr>jm_status := SUCCEEDED, jm_completed_at := Some now\<rparr>)) (qt_jobs db)\<rparr>
      in if length (filter p (qt_jobs db)) \<noteq> 1 then Inl (lease_lost job_id)
         else finish_attempt job_id lease_token ''succeeded'' now None None None None db')"

text \<open>The job after a failed attempt: dead-lettered, or waiting for its retry.\<close>

definition release_failed ::
  "timestamp \<Rightarrow> string \<Rightarrow> string \<Rightarrow> bool \<Rightarrow> timestamp \<Rightarrow> JobModel \<Rightarrow> JobModel" where
  "release_failed now error failure_class give_up available_at job =
     (let job1 = clear_lease (job\<lparr>jm_last_error := Some error,
                                  jm_last_failure_class := Some failure_class\<rparr>)
      in if give_up then job1\<lparr>jm_status := DEAD_LETTER, jm_completed_at := Some now\<rparr>
         else job1\<lparr>jm_retry_count := jm_retry_count job + 1, jm_status := RETRY_WAIT,
                   jm_available_at := available_at\<rparr>)"

definition exhausted :: "JobModel \<Rightarrow> bool" where
  "exhausted job \<longleftrightarrow> jm_attempt_count job \<ge> jm_max_attempts job"

definition settle_cycle :: "timestamp \<Rightarrow> bool \<Rightarrow> RevisionCycleModel \<Rightarrow> RevisionCycleModel" where
  "settle_cycle now give_up cycle =
     cycle\<lparr>rc_status := (if give_up then ''failed'' else ''pending''),
           rc_completed_at := (if give_up then Some now else None)\<rparr>"

definition mark_failed ::
  "timestamp \<Rightarrow> uuid \<Rightarrow> string \<Rightarrow> uuid \<Rightarrow> int \<Rightarrow> string \<Rightarrow> duration \<Rightarrow> string \<Rightarrow> string \<Rightarrow> bool \<Rightarrow> string
   \<Rightarrow> queue_tables \<Rightarrow> job_error + queue_tables" where
  "mark_failed now job_id worker_id lease_token lease_version error retry_delay failure_class
      failure_code retryable attempt_status db =
     (case List.find (fence job_id worker_id lease_token lease_version now) (qt_jobs db) of
        None \<Rightarrow> Inl (lease_lost job_id)
      | Some job \<Rightarrow>
          let give_up = (\<not> retryable \<or> exhausted job);
              job' = release_failed now (take 4000 error) failure_class give_up
                       (now + retry_delay) job;
              db1 = db\<lparr>qt_jobs := alter (\<lambda>j. jm_id j = jm_id job) (\<lambda>_. job') (qt_jobs db)\<rparr>
          in bind_result
               (finish_attempt job_id lease_token attempt_status now (Some failure_class)
                  (Some failure_code) (Some (take 4000 error))
                  (Some (retryable \<and> \<not> exhausted job)) db1) (\<lambda>db2.
             bind_result (revision_cycle_of job) (\<lambda>cycle_id.
               case cycle_id of
                 None \<Rightarrow> Inr db2
               | Some c \<Rightarrow>
                   (case List.find (\<lambda>r. rc_id r = c) (qt_cycles db2) of
                      None \<Rightarrow> Inl (LeaseLostError
                                ''Revision cycle disappeared during failure finalization'')
                    | Some _ \<Rightarrow> Inr (db2\<lparr>qt_cycles := alter (\<lambda>r. rc_id r = c)
                                       (settle_cycle now give_up) (qt_cycles db2)\<rparr>)))))"

section \<open>Recovery of expired leases\<close>

record RecoverySummary =
  rs_workers_marked_offline :: nat
  rs_jobs_recovered :: nat
  rs_jobs_dead_lettered :: nat
  rs_attempts_abandoned :: nat

definition stale_worker :: "timestamp \<Rightarrow> duration \<Rightarrow> WorkerInstanceModel \<Rightarrow> bool" where
  "stale_worker now stale_after w \<longleftrightarrow>
     (wi_status w = ''online'' \<or> wi_status w = ''degraded'') \<and>
     wi_last_heartbeat_at w < now - stale_after"

definition expired :: "timestamp \<Rightarrow> JobModel \<Rightarrow> bool" where
  "expired now j \<longleftrightarrow> jm_status j = LEASED \<and>
     (case jm_lease_expires_at j of None \<Rightarrow> False | Some e \<Rightarrow> e \<le> now)"

definition lease_expired_message :: string where
  "lease_expired_message = ''Worker lease expired before completion''"

definition abandon_attempt ::
  "timestamp \<Rightarrow> bool \<Rightarrow> JobExecutionAttemptModel \<Rightarrow> JobExecutionAttemptModel" where
  "abandon_attempt now is_exhausted a =
     close_attempt ''abandoned'' now (Some (failure_class_text INFRASTRUCTURE))
       (Some ''worker_lease_expired'') (Some lease_expired_message) (Some (\<not> is_exhausted)) a"

text \<open>One iteration of the loop over the expired jobs.\<close>

definition recover_job ::
  "RetryPolicy \<Rightarrow> timestamp \<Rightarrow> JobModel \<Rightarrow> RecoverySummary \<times> queue_tables
   \<Rightarrow> job_error + (RecoverySummary \<times> queue_tables)" where
  "recover_job policy now job acc =
     (case jm_lease_token job of
        None \<Rightarrow> Inr acc
      | Some token \<Rightarrow>
          let (summary, db) = acc;
              attempt = List.find (\<lambda>a. ja_job_id a = jm_id job \<and> ja_lease_token a = token
                                     \<and> ja_status a = ''running'') (qt_attempts db);
              give_up = exhausted job;
              attempts' = (case attempt of
                             None \<Rightarrow> qt_attempts db
                           | Some a \<Rightarrow> alter (\<lambda>b. ja_id b = ja_id a) (abandon_attempt now give_up)
                                         (qt_attempts db));
              job' = release_failed now lease_expired_message
                       (failure_class_text INFRASTRUCTURE) give_up
                       (now + delay policy (jm_retry_count job + 1)) job;
              summary' = summary
                \<lparr>rs_attempts_abandoned := rs_attempts_abandoned summary
                    + (if attempt = None then 0 else 1),
                 rs_jobs_dead_lettered := rs_jobs_dead_lettered summary
                    + (if give_up then 1 else 0),
                 rs_jobs_recovered := rs_jobs_recovered summary + (if give_up then 0 else 1)\<rparr>;
              db1 = db\<lparr>qt_attempts := attempts',
                       qt_jobs := alter (\<lambda>j. jm_id j = jm_id job) (\<lambda>_. job') (qt_jobs db)\<rparr>
          in bind_result (revision_cycle_of job) (\<lambda>cycle_id.
               case cycle_id of
                 None \<Rightarrow> Inr (summary', db1)
               | Some c \<Rightarrow> Inr (summary', db1\<lparr>qt_cycles := alter (\<lambda>r. rc_id r = c)
                                               (settle_cycle now give_up) (qt_cycles db1)\<rparr>)))"

fun recover_jobs ::
  "RetryPolicy \<Rightarrow> timestamp \<Rightarrow> JobModel list \<Rightarrow> RecoverySummary \<times> queue_tables
   \<Rightarrow> job_error + (RecoverySummary \<times> queue_tables)" where
  "recover_jobs policy now [] acc = Inr acc"
| "recover_jobs policy now (job # jobs) acc =
     bind_result (recover_job policy now job acc) (recover_jobs policy now jobs)"

definition select_expired :: "timestamp \<Rightarrow> uuid list \<Rightarrow> nat \<Rightarrow> queue_tables \<Rightarrow> JobModel list" where
  "select_expired now locked limit db =
     take limit (sort_key (\<lambda>j. jm_lease_expires_at j)
       (filter (\<lambda>j. expired now j \<and> jm_id j \<notin> set locked) (qt_jobs db)))"

definition recover_expired ::
  "RetryPolicy \<Rightarrow> timestamp \<Rightarrow> uuid list \<Rightarrow> string list \<Rightarrow> duration \<Rightarrow> nat \<Rightarrow> queue_tables
   \<Rightarrow> job_error + (RecoverySummary \<times> queue_tables)" where
  "recover_expired policy now locked locked_workers stale_worker_after limit db =
     (let stale = (\<lambda>w. stale_worker now stale_worker_after w
                       \<and> wi_worker_id w \<notin> set locked_workers);
          db' = db\<lparr>qt_workers := alter stale
                     (\<lambda>w. w\<lparr>wi_status := ''offline'', wi_stopped_at := Some now\<rparr>) (qt_workers db)\<rparr>
      in recover_jobs policy now (select_expired now locked limit db')
           (\<lparr>rs_workers_marked_offline = length (filter stale (qt_workers db)),
             rs_jobs_recovered = 0, rs_jobs_dead_lettered = 0, rs_attempts_abandoned = 0\<rparr>, db'))"

section \<open>Worker registry\<close>

definition register_worker ::
  "timestamp \<Rightarrow> string \<Rightarrow> string \<Rightarrow> queue_tables \<Rightarrow> queue_tables" where
  "register_worker now worker_id profile db =
     (case List.find (\<lambda>w. wi_worker_id w = worker_id) (qt_workers db) of
        None \<Rightarrow> db\<lparr>qt_workers := qt_workers db @
                  [\<lparr>wi_worker_id = worker_id, wi_profile = profile, wi_status = ''online'',
                    wi_started_at = now, wi_last_heartbeat_at = now, wi_stopped_at = None\<rparr>]\<rparr>
      | Some _ \<Rightarrow> db\<lparr>qt_workers := alter (\<lambda>w. wi_worker_id w = worker_id)
                  (\<lambda>w. w\<lparr>wi_profile := profile, wi_status := ''online'', wi_started_at := now,
                         wi_last_heartbeat_at := now, wi_stopped_at := None\<rparr>) (qt_workers db)\<rparr>)"

definition heartbeat :: "timestamp \<Rightarrow> string \<Rightarrow> queue_tables \<Rightarrow> bool \<times> queue_tables" where
  "heartbeat now worker_id db =
     (let p = (\<lambda>w. wi_worker_id w = worker_id
                   \<and> (wi_status w = ''online'' \<or> wi_status w = ''degraded''))
      in case List.find p (qt_workers db) of
           None \<Rightarrow> (False, db)
         | Some _ \<Rightarrow> (True, db\<lparr>qt_workers := alter p (\<lambda>w. w\<lparr>wi_last_heartbeat_at := now\<rparr>)
                                              (qt_workers db)\<rparr>))"

definition stop_worker :: "timestamp \<Rightarrow> string \<Rightarrow> queue_tables \<Rightarrow> queue_tables" where
  "stop_worker now worker_id db =
     db\<lparr>qt_workers := alter (\<lambda>w. wi_worker_id w = worker_id)
          (\<lambda>w. w\<lparr>wi_status := ''offline'', wi_stopped_at := Some now\<rparr>) (qt_workers db)\<rparr>"

end
