(* ===== verification/Recovery_Domain.thy ===== *)
theory Recovery_Domain
  imports Json_Value Machine
begin

text \<open>
  \<^verbatim>\<open>domain/recovery\<close>: the vocabulary of governed rollbacks, the hashes that bind an approval
  to what was assessed, the policies, and the lifecycle of a recovery attempt. Enumeration
  members carry the names of the source; where their text enters a hash it is given by a
  \<open>_text\<close> function. \<open>py_exception\<close> collects the exceptions the recovery code raises or
  catches: \<open>exception_code_attribute\<close> is the class attribute \<^verbatim>\<open>code\<close>, \<open>exception_text\<close> is
  \<^verbatim>\<open>str(exc)\<close>.
\<close>

section \<open>Enumerations\<close>

datatype RecoveryStrategy = NO_ACTION | REVERT_COMMIT | COMPENSATING_PATCH | MANUAL_RECOVERY

fun strategy_text :: "RecoveryStrategy \<Rightarrow> string" where
  "strategy_text NO_ACTION = ''no_action''"
| "strategy_text REVERT_COMMIT = ''revert_commit''"
| "strategy_text COMPENSATING_PATCH = ''compensating_patch''"
| "strategy_text MANUAL_RECOVERY = ''manual_recovery''"

datatype RecoveryAssessmentStatus =
  PENDING | EVALUATING | REVERTIBLE | COMPENSATION_REQUIRED | MANUAL_INTERVENTION_REQUIRED
  | NO_ACTION_REQUIRED | ASSESSMENT_FAILED

datatype RollbackApprovalStatus = ACTIVE | DENIED | REVOKED | CONSUMED | EXPIRED

datatype RecoveryAttemptStatus =
  QUEUED | CLAIMED | VERIFYING_REMOTE | PREPARING_WORKSPACE | CREATING_REVERT
  | APPLYING_COMPENSATION | RUNNING_TESTS | CREATING_COMMIT | PUSHING | VERIFYING_REMOTE_RESULT
  | RECOVERED | REMOTE_STATE_CHANGED | REVERT_CONFLICT | TEST_FAILED | COMMIT_FAILED
  | PUSH_FAILED | PUSH_UNCERTAIN | REMOTE_VERIFICATION_FAILED | CANCELLED

fun status_text :: "RecoveryAttemptStatus \<Rightarrow> string" where
  "status_text QUEUED = ''queued''"
| "status_text CLAIMED = ''claimed''"
| "status_text VERIFYING_REMOTE = ''verifying_remote''"
| "status_text PREPARING_WORKSPACE = ''preparing_workspace''"
| "status_text CREATING_REVERT = ''creating_revert''"
| "status_text APPLYING_COMPENSATION = ''applying_compensation''"
| "status_text RUNNING_TESTS = ''running_tests''"
| "status_text CREATING_COMMIT = ''creating_commit''"
| "status_text PUSHING = ''pushing''"
| "status_text VERIFYING_REMOTE_RESULT = ''verifying_remote_result''"
| "status_text RECOVERED = ''recovered''"
| "status_text REMOTE_STATE_CHANGED = ''remote_state_changed''"
| "status_text REVERT_CONFLICT = ''revert_conflict''"
| "status_text TEST_FAILED = ''test_failed''"
| "status_text COMMIT_FAILED = ''commit_failed''"
| "status_text PUSH_FAILED = ''push_failed''"
| "status_text PUSH_UNCERTAIN = ''push_uncertain''"
| "status_text REMOTE_VERIFICATION_FAILED = ''remote_verification_failed''"
| "status_text CANCELLED = ''cancelled''"

datatype FailureClass =
  TRANSIENT_INFRASTRUCTURE | DETERMINISTIC_VALIDATION | CONCURRENCY_CONFLICT | AUTHORIZATION
  | INTEGRITY | EXTERNAL_SIDE_EFFECT | UNKNOWN

fun failure_class_text :: "FailureClass \<Rightarrow> string" where
  "failure_class_text TRANSIENT_INFRASTRUCTURE = ''transient_infrastructure''"
| "failure_class_text DETERMINISTIC_VALIDATION = ''deterministic_validation''"
| "failure_class_text CONCURRENCY_CONFLICT = ''concurrency_conflict''"
| "failure_class_text AUTHORIZATION = ''authorization''"
| "failure_class_text INTEGRITY = ''integrity''"
| "failure_class_text EXTERNAL_SIDE_EFFECT = ''external_side_effect''"
| "failure_class_text UNKNOWN = ''unknown''"

datatype PipelineStage =
  CLAIM | ARTIFACT_READ | SNAPSHOT | REMOTE_VERIFICATION | REVERT | TEST | COMMIT | PUSH
  | REMOTE_RESULT_VERIFICATION

fun stage_text :: "PipelineStage \<Rightarrow> string" where
  "stage_text CLAIM = ''claim''"
| "stage_text ARTIFACT_READ = ''artifact_read''"
| "stage_text SNAPSHOT = ''snapshot''"
| "stage_text REMOTE_VERIFICATION = ''remote_verification''"
| "stage_text REVERT = ''revert''"
| "stage_text TEST = ''test''"
| "stage_text COMMIT = ''commit''"
| "stage_text PUSH = ''push''"
| "stage_text REMOTE_RESULT_VERIFICATION = ''remote_result_verification''"

datatype PushReconciliation = PUSH_SUCCEEDED | NOT_PUSHED | REMOTE_DIVERGED

section \<open>Exceptions\<close>

datatype py_exception =
    InvalidRecoveryTransition string
  | RollbackRecordNotFound string
  | RecoveryAssessmentStale string
  | RollbackApprovalHumanRequired string
  | RollbackApprovalNotActive string
  | RecoveryRemoteStateChanged string
  | RecoveryHistoryInvalid string
  | RevertConflict string "string list"
  | RevertFailed string
  | RecoveryNotFoundError string
  | RecoveryAttemptStoreError string
  | TargetBranchAdvancedError string
  | PyValueError string
  | PyKeyError string
  | PyTypeError string
  | IntegrityError string
  | PendingRollbackError string
  | OtherException string "string option" string

fun exception_type_name :: "py_exception \<Rightarrow> string" where
  "exception_type_name (InvalidRecoveryTransition m) = ''InvalidRecoveryTransition''"
| "exception_type_name (RollbackRecordNotFound m) = ''RollbackRecordNotFound''"
| "exception_type_name (RecoveryAssessmentStale m) = ''RecoveryAssessmentStale''"
| "exception_type_name (RollbackApprovalHumanRequired m) = ''RollbackApprovalHumanRequired''"
| "exception_type_name (RollbackApprovalNotActive m) = ''RollbackApprovalNotActive''"
| "exception_type_name (RecoveryRemoteStateChanged m) = ''RecoveryRemoteStateChanged''"
| "exception_type_name (RecoveryHistoryInvalid m) = ''RecoveryHistoryInvalid''"
| "exception_type_name (RevertConflict m ps) = ''RevertConflict''"
| "exception_type_name (RevertFailed m) = ''RevertFailed''"
| "exception_type_name (RecoveryNotFoundError m) = ''RecoveryNotFoundError''"
| "exception_type_name (RecoveryAttemptStoreError m) = ''RecoveryAttemptStoreError''"
| "exception_type_name (TargetBranchAdvancedError m) = ''TargetBranchAdvancedError''"
| "exception_type_name (PyValueError m) = ''ValueError''"
| "exception_type_name (PyKeyError m) = ''KeyError''"
| "exception_type_name (PyTypeError m) = ''TypeError''"
| "exception_type_name (IntegrityError m) = ''IntegrityError''"
| "exception_type_name (PendingRollbackError m) = ''PendingRollbackError''"
| "exception_type_name (OtherException n c m) = n"

fun exception_code_attribute :: "py_exception \<Rightarrow> string option" where
  "exception_code_attribute (InvalidRecoveryTransition m) = Some ''INVALID_RECOVERY_TRANSITION''"
| "exception_code_attribute (RollbackRecordNotFound m) = Some ''ROLLBACK_RECORD_NOT_FOUND''"
| "exception_code_attribute (RecoveryAssessmentStale m) = Some ''RECOVERY_ASSESSMENT_STALE''"
| "exception_code_attribute (RollbackApprovalHumanRequired m) =
     Some ''ROLLBACK_APPROVAL_HUMAN_REQUIRED''"
| "exception_code_attribute (RollbackApprovalNotActive m) = Some ''ROLLBACK_APPROVAL_NOT_ACTIVE''"
| "exception_code_attribute (RecoveryRemoteStateChanged m) = Some ''RECOVERY_REMOTE_STATE_CHANGED''"
| "exception_code_attribute (RecoveryHistoryInvalid m) = Some ''RECOVERY_HISTORY_INVALID''"
| "exception_code_attribute (RevertConflict m ps) = Some ''REVERT_CONFLICT''"
| "exception_code_attribute (RevertFailed m) = Some ''REVERT_FAILED''"
| "exception_code_attribute (OtherException n c m) = c"
| "exception_code_attribute (IntegrityError m) = Some ''gkpj''"
| "exception_code_attribute (PendingRollbackError m) = Some ''7s2a''"
| "exception_code_attribute _ = None"

fun exception_text :: "py_exception \<Rightarrow> string" where
  "exception_text (InvalidRecoveryTransition m) = m"
| "exception_text (RollbackRecordNotFound m) = m"
| "exception_text (RecoveryAssessmentStale m) = m"
| "exception_text (RollbackApprovalHumanRequired m) = m"
| "exception_text (RollbackApprovalNotActive m) = m"
| "exception_text (RecoveryRemoteStateChanged m) = m"
| "exception_text (RecoveryHistoryInvalid m) = m"
| "exception_text (RevertConflict m ps) = m"
| "exception_text (RevertFailed m) = m"
| "exception_text (RecoveryNotFoundError m) = m"
| "exception_text (RecoveryAttemptStoreError m) = m"
| "exception_text (TargetBranchAdvancedError m) = m"
| "exception_text (PyValueError m) = m"
| "exception_text (PyKeyError m) = m"
| "exception_text (PyTypeError m) = m"
| "exception_text (IntegrityError m) = m"
| "exception_text (PendingRollbackError m) = m"
| "exception_text (OtherException n c m) = m"

section \<open>Entities\<close>

record ChangedPath =
  cp_path :: string
  cp_change_type :: string
  cp_old_mode :: "string option"
  cp_new_mode :: "string option"
  cp_old_path :: "string option"

definition as_dict :: "ChangedPath \<Rightarrow> (string \<times> json) list" where
  "as_dict p =
     [(''path'', JText (cp_path p)), (''change_type'', JText (cp_change_type p)),
      (''old_mode'', text_or_null (cp_old_mode p)), (''new_mode'', text_or_null (cp_new_mode p)),
      (''old_path'', text_or_null (cp_old_path p))]"

record RollbackRecord =
  rr_id :: uuid
  rr_integration_attempt_id :: uuid
  rr_integration_commit_id :: uuid
  rr_repository_id :: uuid
  rr_target_branch :: string
  rr_integration_commit_sha :: string
  rr_parent_commit_sha :: string
  rr_integration_tree_sha :: string
  rr_parent_tree_sha :: string
  rr_changed_paths :: "ChangedPath list"
  rr_changed_paths_sha256 :: digest
  rr_inverse_diff_artifact_id :: uuid
  rr_inverse_diff_sha256 :: digest
  rr_original_patch_sha256 :: digest
  rr_approved_test_commands :: "json list"
  rr_approved_test_commands_sha256 :: digest
  rr_external_side_effects_declared :: bool
  rr_database_change_detected :: bool
  rr_deployment_change_detected :: bool
  rr_recovery_policy_version :: string
  rr_rollback_binding_sha256 :: digest
  rr_created_at :: timestamp

record RecoveryFinding =
  rf_code :: string
  rf_severity :: string
  rf_message :: string

record RecoveryDecision =
  rd_strategy :: RecoveryStrategy
  rd_status :: RecoveryAssessmentStatus
  rd_risk_level :: string
  rd_direct_revert_possible :: bool
  rd_database_coordination_required :: bool
  rd_external_coordination_required :: bool
  rd_findings :: "RecoveryFinding list"

record RemoteState =
  rs_head_sha :: string
  rs_head_tree_sha :: string
  rs_integration_commit_is_ancestor :: bool

section \<open>Binding hashes\<close>

definition hash_commands :: "(json \<Rightarrow> digest) \<Rightarrow> json list \<Rightarrow> digest" where
  "hash_commands hj commands = hj (JObject [(''commands'', JList commands)])"

definition hash_changed_paths :: "(json \<Rightarrow> digest) \<Rightarrow> ChangedPath list \<Rightarrow> digest" where
  "hash_changed_paths hj paths =
     hj (JObject [(''changed_paths'', JList (map (\<lambda>p. JObject (as_dict p)) paths))])"

definition rollback_binding_hash ::
  "(json \<Rightarrow> digest) \<Rightarrow> string \<Rightarrow> string \<Rightarrow> string \<Rightarrow> string \<Rightarrow> string \<Rightarrow> digest \<Rightarrow> digest \<Rightarrow> digest \<Rightarrow>
   digest \<Rightarrow> string \<Rightarrow> digest" where
  "rollback_binding_hash hj integration_attempt_id integration_commit_sha
     parent_commit_sha integration_tree_sha parent_tree_sha changed_paths_sha256
     inverse_diff_sha256 original_patch_sha256 approved_test_commands_sha256
     recovery_policy_version =
     hj (JObject
       [(''approved_test_commands_sha256'', JText approved_test_commands_sha256),
        (''changed_paths_sha256'', JText changed_paths_sha256),
        (''integration_attempt_id'', JText integration_attempt_id),
        (''integration_commit_sha'', JText integration_commit_sha),
        (''integration_tree_sha'', JText integration_tree_sha),
        (''inverse_diff_sha256'', JText inverse_diff_sha256),
        (''original_patch_sha256'', JText original_patch_sha256),
        (''parent_commit_sha'', JText parent_commit_sha),
        (''parent_tree_sha'', JText parent_tree_sha),
        (''recovery_policy_version'', JText recovery_policy_version)])"

definition assessment_binding_hash ::
  "(json \<Rightarrow> digest) \<Rightarrow> string \<Rightarrow> string \<Rightarrow> RecoveryStrategy \<Rightarrow> string \<Rightarrow> digest \<Rightarrow> string \<Rightarrow> digest" where
  "assessment_binding_hash hj incident_id rollback_record_id strategy
     expected_remote_head_sha required_test_commands_sha256 assessment_policy_version =
     hj (JObject
       [(''assessment_policy_version'', JText assessment_policy_version),
        (''expected_remote_head_sha'', JText expected_remote_head_sha),
        (''incident_id'', JText incident_id),
        (''required_test_commands_sha256'', JText required_test_commands_sha256),
        (''rollback_record_id'', JText rollback_record_id),
        (''strategy'', JText (strategy_text strategy))])"

definition approval_binding_hash ::
  "(json \<Rightarrow> digest) \<Rightarrow> string \<Rightarrow> string \<Rightarrow> string \<Rightarrow> string \<Rightarrow> RecoveryStrategy \<Rightarrow> string \<Rightarrow> string \<Rightarrow>
   digest \<Rightarrow> string \<Rightarrow> string \<Rightarrow> digest" where
  "approval_binding_hash hj recovery_assessment_id rollback_record_id repository_id
     target_branch strategy expected_remote_head_sha integration_commit_sha
     required_test_commands_sha256 assessment_policy_version recovery_policy_version =
     hj (JObject
       [(''assessment_policy_version'', JText assessment_policy_version),
        (''expected_remote_head_sha'', JText expected_remote_head_sha),
        (''integration_commit_sha'', JText integration_commit_sha),
        (''recovery_assessment_id'', JText recovery_assessment_id),
        (''recovery_policy_version'', JText recovery_policy_version),
        (''repository_id'', JText repository_id),
        (''required_test_commands_sha256'', JText required_test_commands_sha256),
        (''rollback_record_id'', JText rollback_record_id),
        (''strategy'', JText (strategy_text strategy)),
        (''target_branch'', JText target_branch)])"

section \<open>Policies\<close>

text \<open>\<^verbatim>\<open>code.replace("_", " ").title()\<close>.\<close>

fun title_from :: "bool \<Rightarrow> string \<Rightarrow> string" where
  "title_from in_word [] = []"
| "title_from in_word (c # cs) =
     (let letter = upper_char c \<noteq> c \<or> lower_char c \<noteq> c
      in (if letter \<and> \<not> in_word then upper_char c else lower_char c) # title_from letter cs)"

definition determine :: "RollbackRecord \<Rightarrow> RemoteState \<Rightarrow> RecoveryDecision" where
  "determine rollback_record remote_state =
     (if \<not> rs_integration_commit_is_ancestor remote_state then
        \<lparr>rd_strategy = MANUAL_RECOVERY, rd_status = MANUAL_INTERVENTION_REQUIRED,
         rd_risk_level = ''critical'', rd_direct_revert_possible = False,
         rd_database_coordination_required = rr_database_change_detected rollback_record,
         rd_external_coordination_required = True,
         rd_findings = [\<lparr>rf_code = ''INTEGRATION_COMMIT_NOT_IN_HISTORY'',
           rf_severity = ''critical'',
           rf_message = ''The integration commit is not in protected-branch history.''\<rparr>]\<rparr>
      else
        (let risk_signals =
               [(rr_database_change_detected rollback_record, ''DATABASE_CHANGE_DETECTED''),
                (rr_deployment_change_detected rollback_record, ''DEPLOYMENT_CHANGE_DETECTED''),
                (rr_external_side_effects_declared rollback_record,
                 ''EXTERNAL_SIDE_EFFECTS_DECLARED'')];
             findings = map (\<lambda>(present, code). \<lparr>rf_code = code, rf_severity = ''high'',
                 rf_message = title_from False (replace_char (CHR ''_'') (CHR '' '') code)\<rparr>)
               (filter fst risk_signals)
         in if findings \<noteq> [] then
              \<lparr>rd_strategy = COMPENSATING_PATCH, rd_status = COMPENSATION_REQUIRED,
               rd_risk_level = ''high'', rd_direct_revert_possible = False,
               rd_database_coordination_required = rr_database_change_detected rollback_record,
               rd_external_coordination_required =
                 (rr_external_side_effects_declared rollback_record \<or>
                  rr_deployment_change_detected rollback_record),
               rd_findings = findings\<rparr>
            else
              \<lparr>rd_strategy = REVERT_COMMIT, rd_status = REVERTIBLE, rd_risk_level = ''medium'',
               rd_direct_revert_possible = True, rd_database_coordination_required = False,
               rd_external_coordination_required = False, rd_findings = []\<rparr>))"

definition database_prefixes :: "string list" where
  "database_prefixes = [''alembic/versions/'', ''migrations/'', ''db/migrations/'', ''schema/'']"

definition deployment_prefixes :: "string list" where
  "deployment_prefixes = [''terraform/'', ''helm/'', ''k8s/'', ''deploy/'']"

definition database_tokens :: "string list" where
  "database_tokens = [''DROP TABLE'', ''ALTER TABLE'', ''CREATE INDEX'']"

definition risk_normalize :: "string \<Rightarrow> string" where
  "risk_normalize path =
     (let candidate = posix_path path
      in if pp_absolute candidate \<or> ''..'' \<in> set (pp_parts candidate) then ''__unsafe_path__''
         else dropWhile (\<lambda>c. c = CHR ''.'' \<or> c = CHR ''/'') (path_text candidate))"

definition classify_risk :: "string list \<Rightarrow> string \<Rightarrow> bool \<Rightarrow> bool \<times> bool \<times> bool" where
  "classify_risk changed_paths patch_text external_side_effects_declared =
     (let normalized = map risk_normalize changed_paths;
          under = (\<lambda>prefixes path. list_ex (starts_with path) prefixes);
          database = list_ex (under database_prefixes) normalized \<or>
                     list_ex (contains_text (upper patch_text)) database_tokens;
          deployment = list_ex (under deployment_prefixes) normalized
      in (database, deployment, external_side_effects_declared))"

definition verify_before_execution ::
  "string \<Rightarrow> string \<Rightarrow> bool \<Rightarrow> py_exception + unit" where
  "verify_before_execution expected_remote_head_sha current_remote_head_sha
     integration_commit_is_ancestor =
     (if current_remote_head_sha \<noteq> expected_remote_head_sha
      then Inl (RecoveryRemoteStateChanged ''The target branch changed after rollback approval.'')
      else if \<not> integration_commit_is_ancestor
      then Inl (RecoveryHistoryInvalid
        ''The integration commit is no longer an ancestor of the protected branch.'')
      else Inr ())"

record RetryDecision =
  yd_automatically_retry :: bool
  yd_requires_fresh_workspace :: bool
  yd_reconcile_remote_first :: bool
  yd_reason :: string

definition decide_retry :: "PipelineStage \<Rightarrow> FailureClass \<Rightarrow> bool \<Rightarrow> bool \<Rightarrow> RetryDecision" where
  "decide_retry stage failure_class workspace_modified push_started =
     (if push_started \<or> stage \<in> set [PUSH, REMOTE_RESULT_VERIFICATION]
      then \<lparr>yd_automatically_retry = False, yd_requires_fresh_workspace = True,
            yd_reconcile_remote_first = True,
            yd_reason = ''Remote state must be reconciled first.''\<rparr>
      else
        (let safe_stage = stage \<in> set [CLAIM, ARTIFACT_READ, SNAPSHOT];
             retry = safe_stage \<and> failure_class = TRANSIENT_INFRASTRUCTURE
         in \<lparr>yd_automatically_retry = retry, yd_requires_fresh_workspace = workspace_modified,
             yd_reconcile_remote_first = False,
             yd_reason = (if retry then ''Transient pre-modification failure.''
                          else ''Failure requires assessment.'')\<rparr>))"

definition reconcile :: "string \<Rightarrow> string \<Rightarrow> string \<Rightarrow> PushReconciliation" where
  "reconcile remote_head_sha expected_commit_sha old_head_sha =
     (if remote_head_sha = expected_commit_sha then PUSH_SUCCEEDED
      else if remote_head_sha = old_head_sha then NOT_PUSHED
      else REMOTE_DIVERGED)"

section \<open>The lifecycle of an attempt\<close>

fun transitions :: "RecoveryAttemptStatus \<Rightarrow> RecoveryAttemptStatus list" where
  "transitions QUEUED = [CLAIMED, CANCELLED]"
| "transitions CLAIMED = [VERIFYING_REMOTE, CANCELLED]"
| "transitions VERIFYING_REMOTE =
     [PREPARING_WORKSPACE, REMOTE_STATE_CHANGED, REMOTE_VERIFICATION_FAILED]"
| "transitions PREPARING_WORKSPACE =
     [CREATING_REVERT, APPLYING_COMPENSATION, REMOTE_VERIFICATION_FAILED]"
| "transitions CREATING_REVERT = [RUNNING_TESTS, REVERT_CONFLICT]"
| "transitions APPLYING_COMPENSATION = [RUNNING_TESTS, REVERT_CONFLICT]"
| "transitions RUNNING_TESTS = [CREATING_COMMIT, TEST_FAILED]"
| "transitions CREATING_COMMIT = [PUSHING, COMMIT_FAILED]"
| "transitions PUSHING = [VERIFYING_REMOTE_RESULT, PUSH_FAILED, PUSH_UNCERTAIN]"
| "transitions PUSH_UNCERTAIN = [VERIFYING_REMOTE_RESULT, PUSH_FAILED, REMOTE_STATE_CHANGED]"
| "transitions VERIFYING_REMOTE_RESULT = [RECOVERED, REMOTE_VERIFICATION_FAILED]"
| "transitions _ = []"

definition can_transition :: "RecoveryAttemptStatus \<Rightarrow> RecoveryAttemptStatus \<Rightarrow> bool" where
  "can_transition current target \<longleftrightarrow> target \<in> set (transitions current)"

definition assert_recovery_transition ::
  "RecoveryAttemptStatus \<Rightarrow> RecoveryAttemptStatus \<Rightarrow> py_exception + unit" where
  "assert_recovery_transition current target =
     (if target \<notin> set (transitions current)
      then Inl (InvalidRecoveryTransition (''Cannot transition recovery from '' @
             status_text current @ '' to '' @ status_text target))
      else Inr ())"

end
