(* ===== verification/Integration_Models.thy ===== *)
theory Integration_Models
  imports Recovery_Domain
begin

text \<open>
  The values the controlled git pipelines exchange (\<^verbatim>\<open>infrastructure/integration/models.py\<close>) and
  the scope of an execution (\<^verbatim>\<open>domain/execution/policies.py\<close>). A \<^verbatim>\<open>Path\<close> is its text.
\<close>

record RepositoryPolicy =
  po_repository_id :: string
  po_remote_url :: string
  po_target_branch :: string
  po_allowed_target_branches :: "string list"
  po_integration_name :: string
  po_integration_email :: string

definition repository_policy :: "string \<Rightarrow> string \<Rightarrow> string \<Rightarrow> string list \<Rightarrow> RepositoryPolicy" where
  "repository_policy repository_id remote_url target_branch allowed =
     \<lparr>po_repository_id = repository_id, po_remote_url = remote_url,
      po_target_branch = target_branch, po_allowed_target_branches = allowed,
      po_integration_name = ''Enterprise Integration Bot'',
      po_integration_email = ''integration-bot@internal.invalid''\<rparr>"

definition validate_target :: "RepositoryPolicy \<Rightarrow> py_exception + unit" where
  "validate_target p =
     (if po_target_branch p \<notin> set (po_allowed_target_branches p)
      then Inl (PyValueError (''Target branch is not allowed: '' @ po_target_branch p))
      else if po_target_branch p = [] \<or> starts_with (po_target_branch p) ''-''
      then Inl (PyValueError ''Invalid target branch'')
      else Inr ())"

record SnapshotEvidence =
  se_path :: string
  se_remote_url :: string
  se_commit_sha :: string
  se_tree_sha :: string
  se_clean :: bool
  se_submodules_verified :: bool
  se_git_config_sha256 :: digest

record WorkspaceEvidence =
  we_changed_paths :: "string list"
  we_tree_sha :: string

record ApprovedTestCommand =
  tc_argv :: "string list"
  tc_timeout_seconds :: int
  tc_environment :: "(string \<times> json) list"

record TestRunEvidence =
  te_command_index :: int
  te_argv :: "string list"
  te_command_sha256 :: digest
  te_status :: string
  te_exit_code :: "int option"
  te_duration_ms :: int
  te_stdout :: string
  te_stderr :: string

record CandidateCommit =
  cc_commit_sha :: string
  cc_tree_sha :: string
  cc_parent_sha :: string
  cc_message :: string
  cc_author_identity :: string
  cc_committer_identity :: string

record RemoteEvidence =
  re_branch :: string
  re_commit_sha :: string
  re_tree_sha :: string
  re_parent_sha :: string

text \<open>\<^verbatim>\<open>PreparedRevert\<close> of \<^verbatim>\<open>infrastructure/recovery/revert_builder.py\<close>.\<close>

record PreparedRevert =
  pv_integration_commit_sha :: string
  pv_changed_paths :: "string list"
  pv_candidate_tree_sha :: string

record ExecutionScope =
  xs_allowed_paths :: "string list"
  xs_forbidden_paths :: "string list"

definition scope_contains :: "string \<Rightarrow> posix_path \<Rightarrow> bool" where
  "scope_contains prefix_value candidate \<longleftrightarrow>
     (let p = posix_path prefix_value
      in p = posix_path ''.'' \<or> path_within p candidate)"

definition is_allowed :: "ExecutionScope \<Rightarrow> string \<Rightarrow> py_exception + bool" where
  "is_allowed s candidate =
     (let path = posix_path candidate
      in if pp_absolute path
         then Inl (PyValueError (''Absolute paths are prohibited: '' @ candidate))
         else if ''..'' \<in> set (pp_parts path)
         then Inl (PyValueError (''Parent traversal is prohibited: '' @ candidate))
         else if list_ex (\<lambda>p. scope_contains p path) (xs_forbidden_paths s) then Inr False
         else Inr (list_ex (\<lambda>p. scope_contains p path) (xs_allowed_paths s)))"

definition DEFAULT_FORBIDDEN_PATHS :: "string list" where
  "DEFAULT_FORBIDDEN_PATHS =
     [''.git'', ''.github/workflows'', ''.env'', ''.env.local'', ''docker-compose.yml'',
      ''docker-compose.yaml'', ''compose.yml'', ''compose.yaml'', ''/etc'', ''/proc'', ''/sys'']"

end
