(* ===== verification/Audit_Chain.thy ===== *)
theory Audit_Chain
  imports Json_Value
begin

text \<open>
  The audit trail: \<^verbatim>\<open>application/audit/writer.py\<close> appends an event and a hash-chained record
  to a stream, \<^verbatim>\<open>infrastructure/audit/event_hasher.py\<close> checks a chain, and
  \<^verbatim>\<open>AuditQueryService.integrity\<close> applies the check to the stream of a project.

  The identifiers drawn with \<^verbatim>\<open>uuid4\<close> are arguments of \<open>append_event\<close>; \<open>hj\<close> is the
  parameter described in \<^theory_text>\<open>Json_Value\<close>. An operation runs on the tables of one transaction.
\<close>

section \<open>Tables\<close>

record AuditEventModel =
  ae_id :: uuid
  ae_project_id :: "uuid option"
  ae_event_type :: string
  ae_actor_type :: string
  ae_actor_id :: string
  ae_payload :: "(string \<times> json) list"

record AuditChainRecordModel =
  cr_id :: uuid
  cr_stream_id :: string
  cr_sequence :: int
  cr_event_id :: uuid
  cr_previous_hash :: "digest option"
  cr_record_hash :: digest
  cr_signature :: "string option"
  cr_signature_key_id :: "string option"
  cr_payload :: "(string \<times> json) list"

record audit_tables =
  au_events :: "AuditEventModel list"
  au_chain :: "AuditChainRecordModel list"

section \<open>The writer\<close>

definition chain_envelope ::
  "string \<Rightarrow> int \<Rightarrow> digest option \<Rightarrow> (string \<times> json) list \<Rightarrow> json" where
  "chain_envelope stream_id sequence previous_hash payload = JObject
     [(''stream_id'', JText stream_id), (''sequence'', JInt sequence),
      (''previous_hash'', text_or_null previous_hash), (''payload'', JObject payload)]"

definition canonical_chain_record_hash ::
  "(json \<Rightarrow> digest) \<Rightarrow> string \<Rightarrow> int \<Rightarrow> digest option \<Rightarrow> (string \<times> json) list \<Rightarrow> digest" where
  "canonical_chain_record_hash hj stream_id sequence previous_hash payload =
     hj (chain_envelope stream_id sequence previous_hash payload)"

definition project_stream :: "uuid \<Rightarrow> string" where
  "project_stream project_id = ''project:'' @ uuid_text project_id"

definition append_event ::
  "(json \<Rightarrow> digest) \<Rightarrow> uuid \<Rightarrow> uuid \<Rightarrow> string \<Rightarrow> uuid option \<Rightarrow> string \<Rightarrow> string \<Rightarrow> string \<Rightarrow>
   (string \<times> json) list \<Rightarrow> audit_tables \<Rightarrow> audit_tables" where
  "append_event hj event_id record_id stream_id project_id event_type actor_type actor_id
     payload t =
     (let previous = first_by (\<lambda>r. - cr_sequence r)
            (filter (\<lambda>r. cr_stream_id r = stream_id) (au_chain t));
          sequence = (case previous of None \<Rightarrow> 1 | Some r \<Rightarrow> cr_sequence r + 1);
          previous_hash = map_option cr_record_hash previous;
          chain_payload =
            [(''audit_event_id'', uuid_json event_id),
             (''project_id'', text_or_null (map_option uuid_text project_id)),
             (''event_type'', JText event_type), (''actor_type'', JText actor_type),
             (''actor_id'', JText actor_id), (''payload'', JObject payload)];
          record_hash = canonical_chain_record_hash hj stream_id sequence previous_hash
            chain_payload;
          event = \<lparr>ae_id = event_id, ae_project_id = project_id, ae_event_type = event_type,
            ae_actor_type = actor_type, ae_actor_id = actor_id,
            ae_payload = dict_merge payload
              [(''audit_chain'', JObject
                 [(''stream_id'', JText stream_id), (''sequence'', JInt sequence),
                  (''previous_hash'', text_or_null previous_hash),
                  (''record_hash'', JText record_hash)])]\<rparr>;
          chain_record = \<lparr>cr_id = record_id, cr_stream_id = stream_id, cr_sequence = sequence,
            cr_event_id = event_id, cr_previous_hash = previous_hash,
            cr_record_hash = record_hash, cr_signature = None, cr_signature_key_id = None,
            cr_payload = chain_payload\<rparr>
      in \<lparr>au_events = au_events t @ [event], au_chain = au_chain t @ [chain_record]\<rparr>)"

definition append_project_event ::
  "(json \<Rightarrow> digest) \<Rightarrow> uuid \<Rightarrow> uuid \<Rightarrow> uuid \<Rightarrow> string \<Rightarrow> string \<Rightarrow> string \<Rightarrow>
   (string \<times> json) list \<Rightarrow> audit_tables \<Rightarrow> audit_tables" where
  "append_project_event hj event_id record_id project_id event_type actor_type actor_id
     payload t =
     append_event hj event_id record_id (project_stream project_id) (Some project_id)
       event_type actor_type actor_id payload t"

section \<open>The check\<close>

text \<open>
  A record as the check reads it: the five entries of a dictionary, each of which may be
  missing; a payload that is not a dictionary is \<open>None\<close> too.
\<close>

record chain_entry =
  ce_stream_id :: "string option"
  ce_sequence :: "int option"
  ce_previous_hash :: "digest option"
  ce_record_hash :: "digest option"
  ce_payload :: "(string \<times> json) list option"

datatype chain_failure =
    record_hash_missing int
  | previous_hash_mismatch int "digest option" "digest option"
  | payload_invalid int
  | record_hash_mismatch int digest digest

fun verify_from ::
  "(json \<Rightarrow> digest) \<Rightarrow> int \<Rightarrow> digest option \<Rightarrow> chain_entry list \<Rightarrow> chain_failure list" where
  "verify_from hj expected_sequence previous_hash [] = []"
| "verify_from hj expected_sequence previous_hash (r # rs) =
     (let sequence = (case ce_sequence r of None \<Rightarrow> expected_sequence | Some s \<Rightarrow> s);
          stream_id = (case ce_stream_id r of None \<Rightarrow> [] | Some s \<Rightarrow> s);
          previous = ce_previous_hash r
      in case ce_record_hash r of
           None \<Rightarrow> record_hash_missing sequence
                   # verify_from hj (expected_sequence + 1) previous_hash rs
         | Some stored \<Rightarrow>
             if stored = [] then record_hash_missing sequence
                   # verify_from hj (expected_sequence + 1) previous_hash rs
             else
               (if previous \<noteq> previous_hash
                then [previous_hash_mismatch sequence previous_hash previous] else []) @
               (case ce_payload r of
                  None \<Rightarrow> [payload_invalid sequence]
                | Some payload \<Rightarrow>
                    (let actual = canonical_chain_record_hash hj stream_id sequence
                           previous payload
                     in if actual \<noteq> stored then [record_hash_mismatch sequence stored actual]
                        else [])) @
               verify_from hj (expected_sequence + 1) (Some stored) rs)"

definition verify_chain_records ::
  "(json \<Rightarrow> digest) \<Rightarrow> chain_entry list \<Rightarrow> chain_failure list" where
  "verify_chain_records hj records = verify_from hj 1 None records"

text \<open>The check of events that carry their own hash, the older form of the trail.\<close>

datatype event_failure = hash_missing int | event_hash_mismatch int json digest

definition dict_get :: "string \<Rightarrow> (string \<times> json) list \<Rightarrow> json" where
  "dict_get k d = (case map_of d k of None \<Rightarrow> JNull | Some v \<Rightarrow> v)"

definition canonical_event_hash ::
  "(json \<Rightarrow> digest) \<Rightarrow> (string \<times> json) list \<Rightarrow> json \<Rightarrow> digest" where
  "canonical_event_hash hash_event event previous_hash =
     hash_event (JObject [(''previous_hash'', previous_hash), (''event'', JObject event)])"

fun verify_events_from ::
  "(json \<Rightarrow> digest) \<Rightarrow> int \<Rightarrow> json \<Rightarrow> (string \<times> json) list list \<Rightarrow> event_failure list" where
  "verify_events_from hash_event sequence previous_hash [] = []"
| "verify_events_from hash_event sequence previous_hash (event # events) =
     (let stored = dict_get ''event_hash'' event
      in if \<not> truthy stored
         then hash_missing sequence # verify_events_from hash_event (sequence + 1) previous_hash events
         else
           (let actual = canonical_event_hash hash_event
                  (filter (\<lambda>(k, v). k \<noteq> ''event_hash'') event) previous_hash
            in (if JText actual \<noteq> stored then [event_hash_mismatch sequence stored actual] else []) @
               verify_events_from hash_event (sequence + 1) stored events))"

definition verify_hash_chain ::
  "(json \<Rightarrow> digest) \<Rightarrow> (string \<times> json) list list \<Rightarrow> event_failure list" where
  "verify_hash_chain hash_event events = verify_events_from hash_event 1 JNull events"

section \<open>Integrity of a project\<close>

definition list_project_chain_records :: "uuid \<Rightarrow> audit_tables \<Rightarrow> AuditChainRecordModel list" where
  "list_project_chain_records project_id t =
     sort_key cr_sequence (filter (\<lambda>r. cr_stream_id r = project_stream project_id) (au_chain t))"

definition entry_of :: "AuditChainRecordModel \<Rightarrow> chain_entry" where
  "entry_of r = \<lparr>ce_stream_id = Some (cr_stream_id r), ce_sequence = Some (cr_sequence r),
     ce_previous_hash = cr_previous_hash r, ce_record_hash = Some (cr_record_hash r),
     ce_payload = Some (cr_payload r)\<rparr>"

datatype IntegrityResponse =
    chain_integrity string nat "chain_failure list"
  | event_integrity string nat "event_failure list"

text \<open>
  The events of the older form come from the project's timeline, the argument \<open>timeline\<close>.
\<close>

definition integrity ::
  "(json \<Rightarrow> digest) \<Rightarrow> (json \<Rightarrow> digest) \<Rightarrow> uuid \<Rightarrow> (string \<times> json) list list \<Rightarrow> audit_tables \<Rightarrow>
   IntegrityResponse" where
  "integrity hj hash_event project_id timeline t =
     (let records = list_project_chain_records project_id t
      in if records \<noteq> [] then
           (let failures = verify_chain_records hj (map entry_of records)
            in chain_integrity (if failures \<noteq> [] then ''failed'' else ''verified'')
                 (length records) failures)
         else if list_ex (\<lambda>e. map_of e ''event_hash'' = None) timeline
         then event_integrity ''unsupported'' (length timeline) []
         else
           (let failures = verify_hash_chain hash_event timeline
            in event_integrity (if failures \<noteq> [] then ''failed'' else ''verified'')
                 (length timeline) failures))"

end
