(* ===== verification/Recovery_Store.thy ===== *)
theory Recovery_Store
  imports Integration_Models Audit_Chain
begin

text \<open>
  \<^verbatim>\<open>infrastructure/recovery/attempt_store.py\<close>: the durable state of controlled recovery and
  the fence that keeps a superseded worker out.

  A store serves one session: its state is the map \<open>ss_active_runs\<close> of the runs it claimed and
  whether the session waits for a rollback (\<open>ss_broken\<close>: SQLAlchemy refuses every statement
  after a flush has failed until \<^verbatim>\<open>rollback\<close> is called, which the recovery code never does).
  The database is shared. An operation returns its result or exception and the state it leaves;
  it runs atomically because it holds the row of the attempt until it commits. An exception
  raised after the fence keeps the renewed lease, which the session has written but not
  committed. A violated unique constraint undoes the operation and breaks the session.

  The readings of the clock and the identifiers an operation draws are functions of their
  number, \<open>dr_held\<close> are the rows \<^verbatim>\<open>SKIP LOCKED\<close> skips. Elapsed milliseconds are exact.
\<close>

section \<open>Tables\<close>

record ProjectModel =
  pm_id :: uuid
  pm_repository_url :: "string option"
  pm_default_branch :: string

record ArtifactModel =
  am_id :: uuid
  am_project_id :: uuid
  am_run_id :: "uuid option"
  am_artifact_type :: string
  am_media_type :: string
  am_content :: string
  am_content_hash :: digest

record RollbackRecordModel =
  rm_id :: uuid
  rm_integration_attempt_id :: uuid
  rm_integration_commit_id :: uuid
  rm_project_id :: uuid
  rm_target_branch :: string
  rm_integration_commit_sha :: string
  rm_parent_commit_sha :: string
  rm_integration_tree_sha :: string
  rm_parent_tree_sha :: string
  rm_changed_paths :: "ChangedPath list"
  rm_changed_paths_sha256 :: digest
  rm_inverse_diff_artifact_id :: uuid
  rm_inverse_diff_sha256 :: digest
  rm_original_patch_sha256 :: digest
  rm_approved_test_commands :: "(string \<times> json) list list"
  rm_approved_test_commands_sha256 :: digest
  rm_external_side_effects_declared :: bool
  rm_database_change_detected :: bool
  rm_deployment_change_detected :: bool
  rm_recovery_policy_version :: string
  rm_rollback_binding_sha256 :: digest
  rm_created_at :: timestamp

record RecoveryAssessmentModel =
  sm_id :: uuid
  sm_incident_id :: uuid
  sm_rollback_record_id :: uuid
  sm_status :: RecoveryAssessmentStatus
  sm_recommended_strategy :: RecoveryStrategy
  sm_risk_level :: string
  sm_expected_remote_head_sha :: string
  sm_integration_commit_is_ancestor :: bool
  sm_direct_revert_possible :: bool
  sm_database_coordination_required :: bool
  sm_external_coordination_required :: bool
  sm_required_test_commands :: "(string \<times> json) list list"
  sm_findings :: "json list"
  sm_assessment_policy_version :: string
  sm_assessment_binding_sha256 :: digest
  sm_assessed_by :: string
  sm_assessed_at :: timestamp

record RollbackApprovalModel =
  vm_id :: uuid
  vm_recovery_assessment_id :: uuid
  vm_rollback_record_id :: uuid
  vm_project_id :: uuid
  vm_target_branch :: string
  vm_recovery_strategy :: RecoveryStrategy
  vm_expected_remote_head_sha :: string
  vm_integration_commit_sha :: string
  vm_required_test_commands :: "(string \<times> json) list list"
  vm_required_test_commands_sha256 :: digest
  vm_approval_binding_sha256 :: digest
  vm_status :: RollbackApprovalStatus
  vm_approver_subject :: string
  vm_reason :: string
  vm_approved_at :: timestamp
  vm_consumed_at :: "timestamp option"
  vm_expires_at :: "timestamp option"

record RecoveryAttemptModel =
  at_id :: uuid
  at_rollback_approval_id :: uuid
  at_recovery_assessment_id :: uuid
  at_rollback_record_id :: uuid
  at_project_id :: uuid
  at_target_branch :: string
  at_expected_remote_head_sha :: string
  at_integration_commit_sha :: string
  at_recovery_strategy :: RecoveryStrategy
  at_status :: RecoveryAttemptStatus
  at_correlation_id :: uuid
  at_failure_class :: "FailureClass option"
  at_failure_code :: "string option"
  at_failure_message :: "string option"
  at_worker_id :: "string option"
  at_started_at :: "timestamp option"
  at_push_started_at :: "timestamp option"
  at_completed_at :: "timestamp option"

record RecoveryAttemptRunModel =
  rn_id :: uuid
  rn_recovery_attempt_id :: uuid
  rn_run_number :: int
  rn_worker_id :: string
  rn_status :: string
  rn_current_stage :: PipelineStage
  rn_claim_token_hash :: digest
  rn_claim_expires_at :: timestamp
  rn_failure_class :: "FailureClass option"
  rn_failure_code :: "string option"
  rn_started_at :: timestamp
  rn_completed_at :: "timestamp option"

record RecoveryStageExecutionModel =
  sx_id :: uuid
  sx_run_id :: uuid
  sx_stage_name :: PipelineStage
  sx_stage_attempt :: int
  sx_status :: string
  sx_input_binding_sha256 :: digest
  sx_output_binding_sha256 :: "digest option"
  sx_evidence_artifact_id :: "uuid option"
  sx_failure_code :: "string option"
  sx_started_at :: timestamp
  sx_completed_at :: "timestamp option"
  sx_duration_ms :: "int option"

record RecoveryTestRunModel =
  tm_id :: uuid
  tm_recovery_attempt_id :: uuid
  tm_command_index :: int
  tm_command :: json
  tm_status :: string
  tm_exit_code :: "int option"
  tm_stdout_artifact_id :: "uuid option"
  tm_stderr_artifact_id :: "uuid option"
  tm_duration_ms :: "int option"

record RecoveryCommitModel =
  cm_id :: uuid
  cm_recovery_attempt_id :: uuid
  cm_commit_sha :: string
  cm_tree_sha :: string
  cm_parent_commit_sha :: string
  cm_reverted_integration_commit_sha :: string
  cm_commit_message_sha256 :: digest
  cm_author_name :: string
  cm_author_email :: string

record RecoveryRemoteVerificationModel =
  vr_id :: uuid
  vr_recovery_commit_id :: uuid
  vr_remote_commit_sha :: string
  vr_remote_tree_sha :: string
  vr_remote_parent_sha :: string
  vr_integration_commit_in_history :: bool
  vr_verified_at :: timestamp

record recovery_db =
  db_projects :: "ProjectModel list"
  db_rollbacks :: "RollbackRecordModel list"
  db_assessments :: "RecoveryAssessmentModel list"
  db_approvals :: "RollbackApprovalModel list"
  db_attempts :: "RecoveryAttemptModel list"
  db_runs :: "RecoveryAttemptRunModel list"
  db_stages :: "RecoveryStageExecutionModel list"
  db_tests :: "RecoveryTestRunModel list"
  db_commits :: "RecoveryCommitModel list"
  db_remotes :: "RecoveryRemoteVerificationModel list"
  db_artifacts :: "ArtifactModel list"
  db_audit :: audit_tables

record store_session =
  ss_active_runs :: "uuid \<rightharpoonup> uuid"
  ss_broken :: bool

type_synonym store_state = "recovery_db \<times> store_session"
type_synonym 'a store_result = "(py_exception + 'a) \<times> store_state"

record draws =
  dr_uuid :: "nat \<Rightarrow> uuid"
  dr_clock :: "nat \<Rightarrow> timestamp"
  dr_held :: "uuid list"

record RecoveryCommand =
  rc_attempt_id :: uuid
  rc_project_id :: uuid
  rc_worker_id :: string
  rc_initial_status :: RecoveryAttemptStatus
  rc_policy :: RepositoryPolicy
  rc_expected_remote_head_sha :: string
  rc_integration_commit_sha :: string
  rc_rollback_record_id :: uuid
  rc_approval_id :: uuid
  rc_approval_binding_sha256 :: digest
  rc_scope :: ExecutionScope
  rc_tests :: "ApprovedTestCommand list"
  rc_commit_message :: string
  rc_commit_timestamp :: timestamp
  rc_existing_candidate :: "CandidateCommit option"

section \<open>Helpers of the store\<close>

definition CLAIM_DURATION :: duration where
  "CLAIM_DURATION = seconds 3600"

definition elapsed_ms :: "timestamp \<Rightarrow> timestamp \<Rightarrow> int" where
  "elapsed_ms now started = max 0 ((now - started) div 1000)"

definition get_row :: "('a \<Rightarrow> uuid) \<Rightarrow> uuid \<Rightarrow> 'a list \<Rightarrow> 'a option" where
  "get_row key i rows = List.find (\<lambda>r. key r = i) rows"

lemma get_row_distinct:
  assumes "distinct (map key rows)" "r \<in> set rows"
  shows "get_row key (key r) rows = Some r"
  using assms by (induction rows) (auto simp: get_row_def)

lemma find_append_Some: "List.find P xs = Some x \<Longrightarrow> List.find P (xs @ ys) = Some x"
  by (induction xs) (auto split: if_splits)

lemma get_row_SomeD: "get_row key i rows = Some r \<Longrightarrow> r \<in> set rows \<and> key r = i"
  unfolding get_row_def by (drule find_Some_D) simp

lemma get_row_append:
  "get_row key i (xs @ ys) = (case get_row key i xs of None \<Rightarrow> get_row key i ys | Some x \<Rightarrow> Some x)"
  unfolding get_row_def by (induction xs) auto

lemma get_row_single [simp]: "get_row key i [x] = (if key x = i then Some x else None)"
  by (simp add: get_row_def)

lemma get_row_alter:
  assumes "\<And>x. key (f x) = key x"
  shows "get_row key b (alter (\<lambda>x. key x = i) f rows) =
    map_option (\<lambda>x. if b = i then f x else x) (get_row key b rows)"
  unfolding get_row_def alter_def by (induction rows) (auto simp: assms)

lemma get_row_prefix:
  "get_row key i xs = Some x \<Longrightarrow> prefix xs ys \<Longrightarrow> get_row key i ys = Some x"
  unfolding get_row_def prefix_def by (auto simp: find_append_Some)

lemma get_row_fresh:
  assumes "key r \<notin> key ` set rows"
  shows "get_row key (key r) (rows @ [r]) = Some r"
  using assms by (induction rows) (auto simp: get_row_def)

definition update_attempt ::
  "uuid \<Rightarrow> (RecoveryAttemptModel \<Rightarrow> RecoveryAttemptModel) \<Rightarrow> recovery_db \<Rightarrow> recovery_db" where
  "update_attempt i f db = db\<lparr>db_attempts := alter (\<lambda>a. at_id a = i) f (db_attempts db)\<rparr>"

definition update_run ::
  "uuid \<Rightarrow> (RecoveryAttemptRunModel \<Rightarrow> RecoveryAttemptRunModel) \<Rightarrow> recovery_db \<Rightarrow> recovery_db" where
  "update_run i f db = db\<lparr>db_runs := alter (\<lambda>r. rn_id r = i) f (db_runs db)\<rparr>"

definition update_stage ::
  "uuid \<Rightarrow> (RecoveryStageExecutionModel \<Rightarrow> RecoveryStageExecutionModel) \<Rightarrow> recovery_db \<Rightarrow>
   recovery_db" where
  "update_stage i f db = db\<lparr>db_stages := alter (\<lambda>s. sx_id s = i) f (db_stages db)\<rparr>"

definition audit ::
  "hashing \<Rightarrow> uuid \<Rightarrow> uuid \<Rightarrow> RecoveryAttemptModel \<Rightarrow> string \<Rightarrow> string \<Rightarrow> (string \<times> json) list \<Rightarrow>
   recovery_db \<Rightarrow> recovery_db" where
  "audit hs event_id record_id attempt event actor payload db =
     db\<lparr>db_audit := append_project_event (hash_json hs) event_id record_id (at_project_id attempt)
          event ''recovery_worker'' actor
          (dict_merge
             [(''attempt_id'', uuid_json (at_id attempt)),
              (''correlation_id'', uuid_json (at_correlation_id attempt))] payload)
          (db_audit db)\<rparr>"

definition artifact :: "hashing \<Rightarrow> uuid \<Rightarrow> uuid \<Rightarrow> string \<Rightarrow> string \<Rightarrow> ArtifactModel" where
  "artifact hs i project_id artifact_type content =
     \<lparr>am_id = i, am_project_id = project_id, am_run_id = None, am_artifact_type = artifact_type,
      am_media_type = ''text/plain'', am_content = content,
      am_content_hash = hash_text hs content\<rparr>"

definition identity :: "string \<Rightarrow> string \<times> string" where
  "identity value =
     (if contains_text value '' <'' \<and> ends_with value ''>''
      then (case split_once '' <'' (butlast value) of
              Some (name, email) \<Rightarrow> (name, email)
            | None \<Rightarrow> (value, ''recovery-worker@internal.invalid''))
      else (value, ''recovery-worker@internal.invalid''))"

definition running_stage :: "uuid \<Rightarrow> recovery_db \<Rightarrow> RecoveryStageExecutionModel option" where
  "running_stage run_id db =
     first_by (\<lambda>s. - sx_started_at s)
       (filter (\<lambda>s. sx_run_id s = run_id \<and> sx_status s = ''running'') (db_stages db))"

definition close_stage ::
  "timestamp \<Rightarrow> uuid \<Rightarrow> string \<Rightarrow> string option \<Rightarrow> recovery_db \<Rightarrow> recovery_db" where
  "close_stage now run_id status failure_code db =
     (case running_stage run_id db of
        None \<Rightarrow> db
      | Some stage \<Rightarrow>
          update_stage (sx_id stage)
            (\<lambda>s. s\<lparr>sx_status := status, sx_failure_code := failure_code,
                   sx_completed_at := Some now,
                   sx_duration_ms := Some (elapsed_ms now (sx_started_at stage))\<rparr>) db)"

text \<open>\<^verbatim>\<open>_validate\<close>: the bindings between the five rows of an attempt.\<close>

definition commands_json :: "(string \<times> json) list list \<Rightarrow> json" where
  "commands_json commands = JObject [(''commands'', JList (map JObject commands))]"

definition validate_bindings ::
  "hashing \<Rightarrow> RecoveryAttemptModel \<Rightarrow> RollbackApprovalModel \<Rightarrow> RecoveryAssessmentModel \<Rightarrow>
   RollbackRecordModel \<Rightarrow> ProjectModel \<Rightarrow> py_exception + unit" where
  "validate_bindings hs attempt approval assessment rollback project =
     (let commands_hash = hash_json hs (commands_json (vm_required_test_commands approval));
          expected = approval_binding_hash (hash_json hs) (uuid_text (sm_id assessment))
            (uuid_text (rm_id rollback)) (uuid_text (pm_id project)) (vm_target_branch approval)
            (vm_recovery_strategy approval) (vm_expected_remote_head_sha approval)
            (vm_integration_commit_sha approval) commands_hash
            (sm_assessment_policy_version assessment) (rm_recovery_policy_version rollback)
      in if vm_status approval \<noteq> CONSUMED
         then Inl (RecoveryAttemptStoreError ''ROLLBACK_APPROVAL_NOT_CONSUMED'')
         else if at_recovery_strategy attempt \<noteq> REVERT_COMMIT
              \<or> vm_recovery_strategy approval \<noteq> REVERT_COMMIT
              \<or> \<not> sm_direct_revert_possible assessment
         then Inl (RecoveryAttemptStoreError ''RECOVERY_STRATEGY_NOT_EXECUTABLE'')
         else if at_rollback_approval_id attempt \<noteq> vm_id approval
              \<or> at_recovery_assessment_id attempt \<noteq> sm_id assessment
              \<or> at_rollback_record_id attempt \<noteq> rm_id rollback
              \<or> vm_recovery_assessment_id approval \<noteq> sm_id assessment
              \<or> vm_rollback_record_id approval \<noteq> rm_id rollback
         then Inl (RecoveryAttemptStoreError ''RECOVERY_ID_BINDING_MISMATCH'')
         else if (pm_repository_url project = None \<or> pm_repository_url project = Some [])
              \<or> at_target_branch attempt \<noteq> pm_default_branch project
              \<or> vm_target_branch approval \<noteq> at_target_branch attempt
         then Inl (RecoveryAttemptStoreError ''RECOVERY_REPOSITORY_BINDING_MISMATCH'')
         else if commands_hash \<noteq> vm_required_test_commands_sha256 approval
         then Inl (RecoveryAttemptStoreError ''RECOVERY_TEST_BINDING_MISMATCH'')
         else if expected \<noteq> vm_approval_binding_sha256 approval
              \<or> at_expected_remote_head_sha attempt \<noteq> vm_expected_remote_head_sha approval
              \<or> at_integration_commit_sha attempt \<noteq> rm_integration_commit_sha rollback
         then Inl (RecoveryAttemptStoreError ''RECOVERY_APPROVAL_BINDING_MISMATCH'')
         else Inr ())"

text \<open>
  \<^verbatim>\<open>_commands\<close>. An environment that is neither an object nor empty is refused, although Python's
  \<^verbatim>\<open>dict\<close> would also take a list of pairs.
\<close>

definition approved_command :: "(string \<times> json) list \<Rightarrow> py_exception + ApprovedTestCommand" where
  "approved_command item =
     (case map_of item ''argv'' of
        Some (JList argv) \<Rightarrow>
          if argv = [] \<or> \<not> list_all (\<lambda>v. case v of JText _ \<Rightarrow> True | _ \<Rightarrow> False) argv
          then Inl (RecoveryAttemptStoreError ''INVALID_RECOVERY_TEST_COMMAND'')
          else
            (let timeout = (case map_of item ''timeout_seconds'' of None \<Rightarrow> JInt 300 | Some v \<Rightarrow> v);
                 env = (case map_of item ''environment'' of None \<Rightarrow> JObject [] | Some v \<Rightarrow> v)
             in case json_int timeout of
                  None \<Rightarrow> Inl (case timeout of JText s \<Rightarrow> PyValueError s | _ \<Rightarrow> PyTypeError ''int'')
                | Some secs \<Rightarrow>
                    (case json_dict env of
                       None \<Rightarrow> Inl (case env of JText s \<Rightarrow> PyValueError s | _ \<Rightarrow> PyTypeError ''dict'')
                     | Some kvs \<Rightarrow>
                         Inr \<lparr>tc_argv = map (\<lambda>v. case v of JText s \<Rightarrow> s | _ \<Rightarrow> []) argv,
                              tc_timeout_seconds = secs, tc_environment = kvs\<rparr>))
      | _ \<Rightarrow> Inl (RecoveryAttemptStoreError ''INVALID_RECOVERY_TEST_COMMAND''))"

definition approved_commands ::
  "RollbackApprovalModel \<Rightarrow> py_exception + ApprovedTestCommand list" where
  "approved_commands approval = traverse approved_command (vm_required_test_commands approval)"

definition execution_scope :: "RollbackRecordModel \<Rightarrow> ExecutionScope" where
  "execution_scope rollback =
     \<lparr>xs_allowed_paths = map cp_path (rm_changed_paths rollback),
      xs_forbidden_paths = DEFAULT_FORBIDDEN_PATHS\<rparr>"

definition recovery_commit :: "uuid \<Rightarrow> recovery_db \<Rightarrow> RecoveryCommitModel option" where
  "recovery_commit attempt_id db = get_row cm_recovery_attempt_id attempt_id (db_commits db)"

definition existing_candidate :: "uuid \<Rightarrow> recovery_db \<Rightarrow> CandidateCommit option" where
  "existing_candidate attempt_id db =
     map_option (\<lambda>c. let ident = cm_author_name c @ '' <'' @ cm_author_email c @ ''>''
                     in \<lparr>cc_commit_sha = cm_commit_sha c, cc_tree_sha = cm_tree_sha c,
                         cc_parent_sha = cm_parent_commit_sha c, cc_message = [],
                         cc_author_identity = ident, cc_committer_identity = ident\<rparr>)
       (recovery_commit attempt_id db)"

definition newline :: string where
  "newline = [CHR 0x0A]"

definition commit_message :: "RecoveryAttemptModel \<Rightarrow> RecoveryAssessmentModel \<Rightarrow> string" where
  "commit_message attempt assessment =
     ''Revert controlled integration '' @ at_integration_commit_sha attempt @ newline @ newline @
     ''Recovery assessment: '' @ uuid_text (sm_id assessment) @ newline @
     ''Rollback approval: '' @ uuid_text (at_rollback_approval_id attempt) @ newline @ newline @
     ''Generated by Controlled Recovery Worker''"

section \<open>Claiming\<close>

definition latest_run :: "uuid \<Rightarrow> recovery_db \<Rightarrow> RecoveryAttemptRunModel option" where
  "latest_run attempt_id db =
     first_by (\<lambda>r. - rn_run_number r)
       (filter (\<lambda>r. rn_recovery_attempt_id r = attempt_id) (db_runs db))"

definition safe_restart_statuses :: "RecoveryAttemptStatus list" where
  "safe_restart_statuses =
     [QUEUED, CLAIMED, PREPARING_WORKSPACE, CREATING_REVERT, RUNNING_TESTS, CREATING_COMMIT]"

definition initial_status :: "RecoveryAttemptModel \<Rightarrow> py_exception + RecoveryAttemptStatus" where
  "initial_status attempt =
     (let stored_status = at_status attempt
      in if stored_status = PUSHING
            \<or> at_push_started_at attempt \<noteq> None \<and> stored_status \<noteq> RECOVERED
         then Inr PUSH_UNCERTAIN
         else if stored_status \<in> set safe_restart_statuses then Inr QUEUED
         else if stored_status = PUSH_UNCERTAIN then Inr stored_status
         else Inl (RecoveryAttemptStoreError ''RECOVERY_ATTEMPT_NOT_CLAIMABLE''))"

record claim_context =
  cx_attempt :: RecoveryAttemptModel
  cx_latest_run :: "RecoveryAttemptRunModel option"
  cx_initial_status :: RecoveryAttemptStatus
  cx_approval :: RollbackApprovalModel
  cx_assessment :: RecoveryAssessmentModel
  cx_rollback :: RollbackRecordModel
  cx_project :: ProjectModel

definition load_claim ::
  "hashing \<Rightarrow> uuid list \<Rightarrow> timestamp \<Rightarrow> uuid \<Rightarrow> recovery_db \<Rightarrow> py_exception + claim_context" where
  "load_claim hs held now attempt_id db =
     (case List.find (\<lambda>a. at_id a = attempt_id \<and> attempt_id \<notin> set held) (db_attempts db) of
        None \<Rightarrow> Inl (RecoveryAttemptStoreError ''RECOVERY_ATTEMPT_NOT_FOUND_OR_CLAIMED'')
      | Some attempt \<Rightarrow>
          (let latest = latest_run attempt_id db
           in if (case latest of None \<Rightarrow> False
                  | Some r \<Rightarrow> rn_completed_at r = None \<and> rn_claim_expires_at r > now)
              then Inl (RecoveryAttemptStoreError ''RECOVERY_ATTEMPT_ALREADY_CLAIMED'')
              else bind_result (initial_status attempt) (\<lambda>status.
                case (get_row vm_id (at_rollback_approval_id attempt) (db_approvals db),
                      get_row sm_id (at_recovery_assessment_id attempt) (db_assessments db),
                      get_row rm_id (at_rollback_record_id attempt) (db_rollbacks db),
                      get_row pm_id (at_project_id attempt) (db_projects db)) of
                  (Some approval, Some assessment, Some rollback, Some project) \<Rightarrow>
                    bind_result (validate_bindings hs attempt approval assessment rollback project)
                      (\<lambda>_. Inr \<lparr>cx_attempt = attempt, cx_latest_run = latest,
                                cx_initial_status = status, cx_approval = approval,
                                cx_assessment = assessment, cx_rollback = rollback,
                                cx_project = project\<rparr>)
                | _ \<Rightarrow> Inl (RecoveryAttemptStoreError ''RECOVERY_BINDING_MISSING''))))"

definition expire_run :: "timestamp \<Rightarrow> RecoveryAttemptRunModel option \<Rightarrow> recovery_db \<Rightarrow> recovery_db" where
  "expire_run now latest db =
     (case latest of
        None \<Rightarrow> db
      | Some r \<Rightarrow>
          if rn_completed_at r \<noteq> None then db
          else update_run (rn_id r)
            (\<lambda>r. r\<lparr>rn_status := ''expired'', rn_failure_class := Some TRANSIENT_INFRASTRUCTURE,
                   rn_failure_code := Some ''CLAIM_EXPIRED'', rn_completed_at := Some now\<rparr>) db)"

definition new_run ::
  "hashing \<Rightarrow> draws \<Rightarrow> timestamp \<Rightarrow> uuid \<Rightarrow> string \<Rightarrow> recovery_db \<Rightarrow> RecoveryAttemptRunModel" where
  "new_run hs dr now attempt_id worker_id db =
     \<lparr>rn_id = dr_uuid dr 1, rn_recovery_attempt_id = attempt_id,
      rn_run_number = max_or_zero (map rn_run_number
        (filter (\<lambda>r. rn_recovery_attempt_id r = attempt_id) (db_runs db))) + 1,
      rn_worker_id = worker_id, rn_status = ''running'', rn_current_stage = CLAIM,
      rn_claim_token_hash = hash_text hs (remove_char (CHR ''-'') (uuid_text (dr_uuid dr 0))),
      rn_claim_expires_at = now + CLAIM_DURATION, rn_failure_class = None,
      rn_failure_code = None, rn_started_at = now, rn_completed_at = None\<rparr>"

definition claim_attempt ::
  "timestamp \<Rightarrow> string \<Rightarrow> RecoveryAttemptStatus \<Rightarrow> RecoveryAttemptModel \<Rightarrow> RecoveryAttemptModel" where
  "claim_attempt now worker_id status a =
     a\<lparr>at_status := (if status = PUSH_UNCERTAIN then PUSH_UNCERTAIN else CLAIMED),
       at_worker_id := Some worker_id,
       at_started_at := (case at_started_at a of None \<Rightarrow> Some now | s \<Rightarrow> s)\<rparr>"

definition recovery_command ::
  "string \<Rightarrow> claim_context \<Rightarrow> recovery_db \<Rightarrow> py_exception + RecoveryCommand" where
  "recovery_command worker_id cx db =
     (let attempt = cx_attempt cx;
          approval = cx_approval cx;
          project = cx_project cx;
          existing = (if cx_initial_status cx = PUSH_UNCERTAIN
                      then existing_candidate (at_id attempt) db else None)
      in bind_result (approved_commands approval) (\<lambda>tests. Inr
           \<lparr>rc_attempt_id = at_id attempt, rc_project_id = at_project_id attempt,
            rc_worker_id = worker_id, rc_initial_status = cx_initial_status cx,
            rc_policy = repository_policy (uuid_text (pm_id project))
              (case pm_repository_url project of None \<Rightarrow> [] | Some url \<Rightarrow> url)
              (at_target_branch attempt) [pm_default_branch project],
            rc_expected_remote_head_sha = at_expected_remote_head_sha attempt,
            rc_integration_commit_sha = at_integration_commit_sha attempt,
            rc_rollback_record_id = rm_id (cx_rollback cx), rc_approval_id = vm_id approval,
            rc_approval_binding_sha256 = vm_approval_binding_sha256 approval,
            rc_scope = execution_scope (cx_rollback cx), rc_tests = tests,
            rc_commit_message = commit_message attempt (cx_assessment cx),
            rc_commit_timestamp = vm_approved_at approval,
            rc_existing_candidate = existing\<rparr>))"

definition broken_session :: "'a store_result \<Rightarrow> store_state \<Rightarrow> 'a store_result" where
  "broken_session r s =
     (if ss_broken (snd s)
      then (Inl (PendingRollbackError ''This Session's transaction has been rolled back''), s)
      else r)"

definition claim_and_load ::
  "hashing \<Rightarrow> draws \<Rightarrow> uuid \<Rightarrow> string \<Rightarrow> store_state \<Rightarrow> RecoveryCommand store_result" where
  "claim_and_load hs dr attempt_id worker_id s = broken_session
     (let (db, ss) = s; now = dr_clock dr 0
      in case load_claim hs (dr_held dr) now attempt_id db of
           Inl e \<Rightarrow> (Inl e, s)
         | Inr cx \<Rightarrow>
             (let run = new_run hs dr now attempt_id worker_id db;
                  status = cx_initial_status cx;
                  db = expire_run now (cx_latest_run cx) db;
                  db = db\<lparr>db_runs := db_runs db @ [run]\<rparr>;
                  db = update_attempt attempt_id (claim_attempt now worker_id status) db;
                  db = audit hs (dr_uuid dr 2) (dr_uuid dr 3) (cx_attempt cx)
                         ''recovery.attempt_claimed'' worker_id
                         [(''run_id'', uuid_json (rn_id run)),
                          (''run_number'', JInt (rn_run_number run)),
                          (''initial_status'', JText (status_text status))] db;
                  ss = ss\<lparr>ss_active_runs := (ss_active_runs ss)(attempt_id \<mapsto> rn_id run)\<rparr>
              in (recovery_command worker_id cx db, (db, ss)))) s"

section \<open>The fenced operations\<close>

definition fence_lost :: "'a store_result \<Rightarrow> bool" where
  "fence_lost r \<longleftrightarrow> fst r = Inl (RecoveryAttemptStoreError ''RECOVERY_CLAIM_FENCE_LOST'')"

definition locked ::
  "draws \<Rightarrow> RecoveryCommand \<Rightarrow> store_state \<Rightarrow>
   py_exception + (RecoveryAttemptModel \<times> RecoveryAttemptRunModel \<times> recovery_db)" where
  "locked dr command s =
     (let (db, ss) = s;
          attempt = get_row at_id (rc_attempt_id command) (db_attempts db);
          run = (case ss_active_runs ss (rc_attempt_id command) of
                   None \<Rightarrow> None
                 | Some run_id \<Rightarrow> get_row rn_id run_id (db_runs db))
      in case (attempt, run) of
           (Some attempt, Some run) \<Rightarrow>
             if rn_worker_id run \<noteq> rc_worker_id command
                \<or> rn_completed_at run \<noteq> None
                \<or> rn_claim_expires_at run \<le> dr_clock dr 0
             then Inl (RecoveryAttemptStoreError ''RECOVERY_CLAIM_FENCE_LOST'')
             else
               (let renew = (\<lambda>r. r\<lparr>rn_claim_expires_at := dr_clock dr 1 + CLAIM_DURATION\<rparr>)
                in Inr (attempt, renew run, update_run (rn_id run) renew db))
         | _ \<Rightarrow> Inl (RecoveryAttemptStoreError ''RECOVERY_CLAIM_FENCE_LOST''))"

text \<open>
  The shape of every operation: the session must be usable, the fence must hold, then the body
  runs on the rows the fence returned.
\<close>

definition fenced ::
  "draws \<Rightarrow> RecoveryCommand \<Rightarrow>
   (RecoveryAttemptModel \<Rightarrow> RecoveryAttemptRunModel \<Rightarrow> recovery_db \<Rightarrow> py_exception + recovery_db) \<Rightarrow>
   store_state \<Rightarrow> unit store_result" where
  "fenced dr command body s = broken_session
     (case locked dr command s of
        Inl e \<Rightarrow> (Inl e, s)
      | Inr (attempt, run, db) \<Rightarrow>
          (case body attempt run db of
             Inl (IntegrityError m) \<Rightarrow> (Inl (IntegrityError m), (fst s, (snd s)\<lparr>ss_broken := True\<rparr>))
           | Inl e \<Rightarrow> (Inl e, (db, snd s))
           | Inr db' \<Rightarrow> (Inr (), (db', snd s)))) s"

definition complete_previous ::
  "hashing \<Rightarrow> timestamp \<Rightarrow> uuid \<Rightarrow> (string \<times> json) list \<Rightarrow> recovery_db \<Rightarrow> recovery_db" where
  "complete_previous hs now run_id evidence db =
     (case running_stage run_id db of
        None \<Rightarrow> db
      | Some previous \<Rightarrow>
          update_stage (sx_id previous)
            (\<lambda>s. s\<lparr>sx_status := ''completed'', sx_completed_at := Some now,
                   sx_duration_ms := Some (elapsed_ms now (sx_started_at previous)),
                   sx_output_binding_sha256 :=
                     Some (hash_json hs (JObject [(''evidence'', JObject evidence)]))\<rparr>) db)"

definition new_stage ::
  "hashing \<Rightarrow> draws \<Rightarrow> timestamp \<Rightarrow> RecoveryCommand \<Rightarrow> uuid \<Rightarrow> PipelineStage \<Rightarrow> recovery_db \<Rightarrow>
   RecoveryStageExecutionModel" where
  "new_stage hs dr now command run_id stage db =
     (let stage_number = int (length (filter
            (\<lambda>s. sx_run_id s = run_id \<and> sx_stage_name s = stage) (db_stages db))) + 1
      in \<lparr>sx_id = dr_uuid dr 0, sx_run_id = run_id, sx_stage_name = stage,
          sx_stage_attempt = stage_number, sx_status = ''running'',
          sx_input_binding_sha256 = hash_json hs (JObject
            [(''approval_binding_sha256'', JText (rc_approval_binding_sha256 command)),
             (''stage'', JText (stage_text stage)), (''attempt'', JInt stage_number)]),
          sx_output_binding_sha256 = None, sx_evidence_artifact_id = None,
          sx_failure_code = None, sx_started_at = now, sx_completed_at = None,
          sx_duration_ms = None\<rparr>)"

definition transition ::
  "hashing \<Rightarrow> draws \<Rightarrow> RecoveryCommand \<Rightarrow> RecoveryAttemptStatus \<Rightarrow> PipelineStage \<Rightarrow> string \<Rightarrow>
   (string \<times> json) list \<Rightarrow> store_state \<Rightarrow> unit store_result" where
  "transition hs dr command status stage event_type evidence =
     fenced dr command (\<lambda>attempt run db.
       (let now = dr_clock dr 2;
            db = complete_previous hs now (rn_id run) evidence db;
            db = update_run (rn_id run) (\<lambda>r. r\<lparr>rn_current_stage := stage\<rparr>) db;
            db = update_attempt (at_id attempt)
                   (\<lambda>a. a\<lparr>at_push_started_at :=
                            (if stage = PUSH
                             then (case at_push_started_at a of None \<Rightarrow> Some now | p \<Rightarrow> p)
                             else at_push_started_at a),
                          at_status := status\<rparr>) db;
            db = db\<lparr>db_stages := db_stages db @ [new_stage hs dr now command (rn_id run) stage db]\<rparr>
        in Inr (audit hs (dr_uuid dr 1) (dr_uuid dr 2) attempt event_type (rc_worker_id command)
                  (dict_merge [(''run_id'', uuid_json (rn_id run))] evidence) db)))"

definition test_rows ::
  "hashing \<Rightarrow> draws \<Rightarrow> RecoveryAttemptModel \<Rightarrow> nat \<Rightarrow> TestRunEvidence \<Rightarrow>
   ArtifactModel \<times> ArtifactModel \<times> RecoveryTestRunModel" where
  "test_rows hs dr attempt i item =
     (let stdout = artifact hs (dr_uuid dr (3 * i)) (at_project_id attempt)
            ''recovery_test_stdout'' (te_stdout item);
          stderr = artifact hs (dr_uuid dr (3 * i + 1)) (at_project_id attempt)
            ''recovery_test_stderr'' (te_stderr item)
      in (stdout, stderr,
          \<lparr>tm_id = dr_uuid dr (3 * i + 2), tm_recovery_attempt_id = at_id attempt,
           tm_command_index = te_command_index item,
           tm_command = JObject [(''argv'', texts (te_argv item)),
                                 (''sha256'', JText (te_command_sha256 item))],
           tm_status = te_status item, tm_exit_code = te_exit_code item,
           tm_stdout_artifact_id = Some (am_id stdout), tm_stderr_artifact_id = Some (am_id stderr),
           tm_duration_ms = Some (te_duration_ms item)\<rparr>))"

text \<open>The unique constraint \<^verbatim>\<open>uq_recovery_test_command\<close>.\<close>

definition test_rows_unique :: "recovery_db \<Rightarrow> RecoveryTestRunModel list \<Rightarrow> bool" where
  "test_rows_unique db new \<longleftrightarrow>
     \<not> has_duplicates (map (\<lambda>r. (tm_recovery_attempt_id r, tm_command_index r)) new) \<and>
     list_all (\<lambda>r. list_all (\<lambda>q. (tm_recovery_attempt_id q, tm_command_index q) \<noteq>
                                  (tm_recovery_attempt_id r, tm_command_index r)) (db_tests db)) new"

definition json_int_or_null :: "int option \<Rightarrow> json" where
  "json_int_or_null n = (case n of None \<Rightarrow> JNull | Some n \<Rightarrow> JInt n)"

definition record_tests ::
  "hashing \<Rightarrow> draws \<Rightarrow> RecoveryCommand \<Rightarrow> TestRunEvidence list \<Rightarrow> store_state \<Rightarrow> unit store_result" where
  "record_tests hs dr command tests =
     fenced dr command (\<lambda>attempt run db.
       (let rows = map (\<lambda>(i, item). test_rows hs dr attempt i item) (enumerate 0 tests);
            new = map (\<lambda>(stdout, stderr, row). row) rows;
            n = 3 * length tests
        in if \<not> test_rows_unique db new then Inl (IntegrityError ''uq_recovery_test_command'')
           else Inr (audit hs (dr_uuid dr n) (dr_uuid dr (n + 1)) attempt
             ''recovery.tests_completed'' (rc_worker_id command)
             [(''test_runs'', JList (map (\<lambda>item. JObject
                 [(''index'', JInt (te_command_index item)), (''status'', JText (te_status item)),
                  (''exit_code'', json_int_or_null (te_exit_code item))]) tests))]
             (db\<lparr>db_artifacts := db_artifacts db @ concat (map (\<lambda>(o1, o2, _). [o1, o2]) rows),
                db_tests := db_tests db @ new\<rparr>))))"

definition record_commit ::
  "hashing \<Rightarrow> draws \<Rightarrow> RecoveryCommand \<Rightarrow> CandidateCommit \<Rightarrow> store_state \<Rightarrow> unit store_result" where
  "record_commit hs dr command candidate =
     fenced dr command (\<lambda>attempt run db.
       (case recovery_commit (at_id attempt) db of
          Some existing \<Rightarrow>
            if (cm_commit_sha existing, cm_tree_sha existing, cm_parent_commit_sha existing)
               \<noteq> (cc_commit_sha candidate, cc_tree_sha candidate, cc_parent_sha candidate)
            then Inl (RecoveryAttemptStoreError ''RECOVERY_COMMIT_REPLAY_MISMATCH'')
            else Inr db
        | None \<Rightarrow>
            (let (name, email) = identity (cc_author_identity candidate);
                 row = \<lparr>cm_id = dr_uuid dr 0, cm_recovery_attempt_id = at_id attempt,
                   cm_commit_sha = cc_commit_sha candidate, cm_tree_sha = cc_tree_sha candidate,
                   cm_parent_commit_sha = cc_parent_sha candidate,
                   cm_reverted_integration_commit_sha = rc_integration_commit_sha command,
                   cm_commit_message_sha256 = hash_text hs (cc_message candidate),
                   cm_author_name = name, cm_author_email = email\<rparr>
             in if list_ex (\<lambda>c. cm_commit_sha c = cc_commit_sha candidate) (db_commits db)
                then Inl (IntegrityError ''recovery_commits_commit_sha_key'')
                else Inr (audit hs (dr_uuid dr 1) (dr_uuid dr 2) attempt
                  ''recovery.commit_created'' (rc_worker_id command)
                  [(''commit_sha'', JText (cc_commit_sha candidate)),
                   (''tree_sha'', JText (cc_tree_sha candidate)),
                   (''parent_sha'', JText (cc_parent_sha candidate))]
                  (db\<lparr>db_commits := db_commits db @ [row]\<rparr>)))))"

definition record_remote ::
  "draws \<Rightarrow> RecoveryCommand \<Rightarrow> RemoteEvidence \<Rightarrow> store_state \<Rightarrow> unit store_result" where
  "record_remote dr command remote =
     fenced dr command (\<lambda>attempt run db.
       (case recovery_commit (at_id attempt) db of
          None \<Rightarrow> Inl (RecoveryAttemptStoreError ''RECOVERY_COMMIT_NOT_FOUND'')
        | Some commit \<Rightarrow>
            (case get_row vr_recovery_commit_id (cm_id commit) (db_remotes db) of
               None \<Rightarrow> Inr (db\<lparr>db_remotes := db_remotes db @
                 [\<lparr>vr_id = dr_uuid dr 0, vr_recovery_commit_id = cm_id commit,
                   vr_remote_commit_sha = re_commit_sha remote,
                   vr_remote_tree_sha = re_tree_sha remote,
                   vr_remote_parent_sha = re_parent_sha remote,
                   vr_integration_commit_in_history = True,
                   vr_verified_at = dr_clock dr 2\<rparr>]\<rparr>)
             | Some existing \<Rightarrow>
                 if (vr_remote_commit_sha existing, vr_remote_tree_sha existing,
                     vr_remote_parent_sha existing)
                    \<noteq> (re_commit_sha remote, re_tree_sha remote, re_parent_sha remote)
                 then Inl (RecoveryAttemptStoreError ''RECOVERY_REMOTE_REPLAY_MISMATCH'')
                 else Inr db)))"

definition record_conflict ::
  "hashing \<Rightarrow> draws \<Rightarrow> RecoveryCommand \<Rightarrow> string list \<Rightarrow> string \<Rightarrow> store_state \<Rightarrow> unit store_result" where
  "record_conflict hs dr command paths message =
     fenced dr command (\<lambda>attempt run db.
       (let content = hs_canonical_json hs (JObject
              [(''paths'', texts paths), (''message'', JText (take 2000 message))]);
            art = artifact hs (dr_uuid dr 0) (at_project_id attempt)
              ''recovery_revert_conflict'' content;
            db = db\<lparr>db_artifacts := db_artifacts db @ [art]\<rparr>
        in case first_by (\<lambda>s. - sx_stage_attempt s) (filter
                  (\<lambda>s. sx_run_id s = rn_id run \<and> sx_stage_name s = REVERT) (db_stages db)) of
             None \<Rightarrow> Inr (db\<lparr>db_stages := db_stages db @
               [\<lparr>sx_id = dr_uuid dr 1, sx_run_id = rn_id run, sx_stage_name = REVERT,
                 sx_stage_attempt = 1, sx_status = ''failed'',
                 sx_input_binding_sha256 = rc_approval_binding_sha256 command,
                 sx_output_binding_sha256 = None, sx_evidence_artifact_id = Some (am_id art),
                 sx_failure_code = Some ''REVERT_CONFLICT'', sx_started_at = dr_clock dr 2,
                 sx_completed_at = Some (dr_clock dr 3), sx_duration_ms = Some 0\<rparr>]\<rparr>)
           | Some stage \<Rightarrow> Inr (update_stage (sx_id stage)
               (\<lambda>s. s\<lparr>sx_status := ''failed'', sx_evidence_artifact_id := Some (am_id art),
                      sx_failure_code := Some ''REVERT_CONFLICT''\<rparr>) db)))"

definition fail ::
  "hashing \<Rightarrow> draws \<Rightarrow> RecoveryCommand \<Rightarrow> RecoveryAttemptStatus \<Rightarrow> FailureClass \<Rightarrow> string \<Rightarrow> string \<Rightarrow>
   store_state \<Rightarrow> unit store_result" where
  "fail hs dr command status failure_class code message =
     fenced dr command (\<lambda>attempt run db.
       (let db = update_attempt (at_id attempt)
              (\<lambda>a. a\<lparr>at_status := status, at_failure_class := Some failure_class,
                     at_failure_code := Some code, at_failure_message := Some (take 2000 message),
                     at_completed_at := (if status \<noteq> PUSH_UNCERTAIN then Some (dr_clock dr 2)
                                         else at_completed_at a)\<rparr>) db;
            db = update_run (rn_id run)
              (\<lambda>r. r\<lparr>rn_status := ''failed'', rn_failure_class := Some failure_class,
                     rn_failure_code := Some code, rn_completed_at := Some (dr_clock dr 3)\<rparr>) db;
            db = close_stage (dr_clock dr 4) (rn_id run) ''failed'' (Some code) db
        in Inr (audit hs (dr_uuid dr 0) (dr_uuid dr 1) attempt ''recovery.attempt_failed''
                  (rc_worker_id command)
                  [(''status'', JText (status_text status)),
                   (''failure_class'', JText (failure_class_text failure_class)),
                   (''failure_code'', JText code)] db)))"

definition complete ::
  "hashing \<Rightarrow> draws \<Rightarrow> RecoveryCommand \<Rightarrow> CandidateCommit \<Rightarrow> RemoteEvidence \<Rightarrow> store_state \<Rightarrow>
   unit store_result" where
  "complete hs dr command candidate remote =
     fenced dr command (\<lambda>attempt run db.
       (if (cc_commit_sha candidate, cc_tree_sha candidate, cc_parent_sha candidate)
           \<noteq> (re_commit_sha remote, re_tree_sha remote, re_parent_sha remote)
        then Inl (RecoveryAttemptStoreError ''RECOVERY_COMPLETION_BINDING_MISMATCH'')
        else
          (let db = update_attempt (at_id attempt)
                 (\<lambda>a. a\<lparr>at_status := RECOVERED, at_completed_at := Some (dr_clock dr 2)\<rparr>) db;
               db = update_run (rn_id run)
                 (\<lambda>r. r\<lparr>rn_status := ''completed'', rn_completed_at := Some (dr_clock dr 3)\<rparr>) db;
               db = close_stage (dr_clock dr 4) (rn_id run) ''completed'' None db
           in Inr (audit hs (dr_uuid dr 0) (dr_uuid dr 1) attempt ''recovery.completed''
                     (rc_worker_id command)
                     [(''commit_sha'', JText (re_commit_sha remote)),
                      (''tree_sha'', JText (re_tree_sha remote)),
                      (''parent_sha'', JText (re_parent_sha remote))] db))))"

end
