(* ===== verification/Recovery_Service.thy ===== *)
theory Recovery_Service
  imports Job_Queue Recovery_Store
begin

text \<open>
  \<^verbatim>\<open>application/recovery/service.py\<close>: how a recovery comes to be. A person reports an
  incident, assesses it, approves the rollback and orders the attempt, each in one transaction
  that also writes the audit trail; an exception rolls it back, so an operation returns its row
  and the new tables or its exception. The row a transaction locks stays as it was read until
  the commit. Rows it refers to cannot disappear: every foreign key restricts deletion.

  The answers of the three git commands are arguments of \<open>assess_from_trusted_checkout\<close>. The
  lengths of the text columns are not modelled.
\<close>

section \<open>Tables\<close>

record IntegrationAttemptModel =
  gm_id :: uuid
  gm_execution_run_id :: uuid
  gm_integration_approval_id :: uuid
  gm_attempt_number :: int
  gm_status :: string
  gm_project_id :: uuid
  gm_target_branch :: string
  gm_expected_patch_sha256 :: digest
  gm_expected_base_commit_sha :: string
  gm_expected_base_tree_sha :: string
  gm_actual_base_commit_sha :: "string option"
  gm_actual_base_tree_sha :: "string option"
  gm_resulting_tree_sha :: "string option"
  gm_failure_code :: "string option"
  gm_failure_message :: "string option"
  gm_worker_id :: "string option"
  gm_correlation_id :: uuid
  gm_started_at :: "timestamp option"
  gm_completed_at :: "timestamp option"
  gm_created_at :: timestamp

record RecoveryIncidentModel =
  im_id :: uuid
  im_integration_attempt_id :: uuid
  im_rollback_record_id :: uuid
  im_project_id :: uuid
  im_reported_by :: string
  im_severity :: string
  im_summary :: string
  im_details :: string
  im_affected_environment :: string
  im_detected_at :: timestamp
  im_external_reference :: "string option"

text \<open>
  The tables of the control plane: those of recovery, the integration attempts, the incidents
  and the job queue.
\<close>

record control_db =
  cs_recovery :: recovery_db
  cs_integrations :: "IntegrationAttemptModel list"
  cs_incidents :: "RecoveryIncidentModel list"
  cs_queue :: queue_tables

record actor =
  ac_subject :: string
  ac_type :: string
  ac_role :: string

section \<open>Helpers\<close>

definition ASSESSMENT_POLICY_VERSION :: string where
  "ASSESSMENT_POLICY_VERSION = ''recovery-assessment-v1''"

definition require_human_role :: "actor \<Rightarrow> string \<Rightarrow> py_exception + unit" where
  "require_human_role actor required_role =
     (if ac_type actor \<noteq> ''human'' \<or> ac_role actor \<noteq> required_role
      then Inl (RollbackApprovalHumanRequired (''The human '' @ required_role @ '' role is required''))
      else Inr ())"

definition service_audit ::
  "hashing \<Rightarrow> uuid \<Rightarrow> uuid \<Rightarrow> uuid \<Rightarrow> string \<Rightarrow> actor \<Rightarrow> (string \<times> json) list \<Rightarrow> recovery_db \<Rightarrow>
   recovery_db" where
  "service_audit hs event_id record_id project_id event actor payload db =
     db\<lparr>db_audit := append_project_event (hash_json hs) event_id record_id project_id event
          (ac_type actor) (ac_subject actor) payload (db_audit db)\<rparr>"

definition to_domain :: "RollbackRecordModel \<Rightarrow> RollbackRecord" where
  "to_domain m =
     \<lparr>rr_id = rm_id m, rr_integration_attempt_id = rm_integration_attempt_id m,
      rr_integration_commit_id = rm_integration_commit_id m, rr_repository_id = rm_project_id m,
      rr_target_branch = rm_target_branch m,
      rr_integration_commit_sha = rm_integration_commit_sha m,
      rr_parent_commit_sha = rm_parent_commit_sha m,
      rr_integration_tree_sha = rm_integration_tree_sha m,
      rr_parent_tree_sha = rm_parent_tree_sha m, rr_changed_paths = rm_changed_paths m,
      rr_changed_paths_sha256 = rm_changed_paths_sha256 m,
      rr_inverse_diff_artifact_id = rm_inverse_diff_artifact_id m,
      rr_inverse_diff_sha256 = rm_inverse_diff_sha256 m,
      rr_original_patch_sha256 = rm_original_patch_sha256 m,
      rr_approved_test_commands = map JObject (rm_approved_test_commands m),
      rr_approved_test_commands_sha256 = rm_approved_test_commands_sha256 m,
      rr_external_side_effects_declared = rm_external_side_effects_declared m,
      rr_database_change_detected = rm_database_change_detected m,
      rr_deployment_change_detected = rm_deployment_change_detected m,
      rr_recovery_policy_version = rm_recovery_policy_version m,
      rr_rollback_binding_sha256 = rm_rollback_binding_sha256 m, rr_created_at = rm_created_at m\<rparr>"

section \<open>Reporting an incident\<close>

record incident_request =
  ir_severity :: string
  ir_summary :: string
  ir_details :: string
  ir_affected_environment :: string
  ir_detected_at :: timestamp
  ir_external_reference :: "string option"

definition new_incident ::
  "uuid \<Rightarrow> IntegrationAttemptModel \<Rightarrow> RollbackRecordModel \<Rightarrow> actor \<Rightarrow> incident_request \<Rightarrow>
   RecoveryIncidentModel" where
  "new_incident new_id attempt rollback actor request =
     \<lparr>im_id = new_id, im_integration_attempt_id = gm_id attempt,
      im_rollback_record_id = rm_id rollback, im_project_id = gm_project_id attempt,
      im_reported_by = ac_subject actor, im_severity = ir_severity request,
      im_summary = ir_summary request, im_details = ir_details request,
      im_affected_environment = ir_affected_environment request,
      im_detected_at = ir_detected_at request,
      im_external_reference = ir_external_reference request\<rparr>"

definition create_incident ::
  "hashing \<Rightarrow> draws \<Rightarrow> uuid \<Rightarrow> actor \<Rightarrow> incident_request \<Rightarrow> control_db \<Rightarrow>
   py_exception + (RecoveryIncidentModel \<times> control_db)" where
  "create_incident hs dr integration_attempt_id actor request cs =
     bind_result (require_human_role actor ''incident_reporter'') (\<lambda>_.
     case get_row gm_id integration_attempt_id (cs_integrations cs) of
       None \<Rightarrow> Inl (RecoveryNotFoundError ''Integration attempt not found'')
     | Some attempt \<Rightarrow>
         (case get_row rm_integration_attempt_id integration_attempt_id
                 (db_rollbacks (cs_recovery cs)) of
            None \<Rightarrow> Inl (RollbackRecordNotFound ''Verified rollback metadata is required'')
          | Some rollback \<Rightarrow>
              (let incident = new_incident (dr_uuid dr 0) attempt rollback actor request
               in Inr (incident, cs\<lparr>cs_incidents := cs_incidents cs @ [incident],
                    cs_recovery := service_audit hs (dr_uuid dr 1) (dr_uuid dr 2)
                      (gm_project_id attempt) ''recovery.incident_created'' actor
                      [(''incident_id'', uuid_json (im_id incident)),
                       (''integration_attempt_id'', uuid_json (gm_id attempt)),
                       (''rollback_record_id'', uuid_json (rm_id rollback)),
                       (''severity'', JText (ir_severity request))] (cs_recovery cs)\<rparr>))))"

section \<open>Assessing it\<close>

definition finding_json :: "RecoveryFinding \<Rightarrow> json" where
  "finding_json item = JObject
     [(''code'', JText (rf_code item)), (''severity'', JText (rf_severity item)),
      (''message'', JText (rf_message item))]"

definition new_assessment ::
  "hashing \<Rightarrow> uuid \<Rightarrow> timestamp \<Rightarrow> RecoveryIncidentModel \<Rightarrow> RollbackRecordModel \<Rightarrow> string \<Rightarrow>
   RemoteState \<Rightarrow> RecoveryAssessmentModel" where
  "new_assessment hs new_id now incident rollback subject remote =
     (let decision = determine (to_domain rollback) remote;
          commands = rm_approved_test_commands rollback
      in \<lparr>sm_id = new_id, sm_incident_id = im_id incident, sm_rollback_record_id = rm_id rollback,
          sm_status = rd_status decision, sm_recommended_strategy = rd_strategy decision,
          sm_risk_level = rd_risk_level decision, sm_expected_remote_head_sha = rs_head_sha remote,
          sm_integration_commit_is_ancestor = rs_integration_commit_is_ancestor remote,
          sm_direct_revert_possible = rd_direct_revert_possible decision,
          sm_database_coordination_required = rd_database_coordination_required decision,
          sm_external_coordination_required = rd_external_coordination_required decision,
          sm_required_test_commands = commands,
          sm_findings = map finding_json (rd_findings decision),
          sm_assessment_policy_version = ASSESSMENT_POLICY_VERSION,
          sm_assessment_binding_sha256 = assessment_binding_hash (hash_json hs)
            (uuid_text (im_id incident)) (uuid_text (rm_id rollback)) (rd_strategy decision)
            (rs_head_sha remote) (hash_commands (hash_json hs) (map JObject commands))
            ASSESSMENT_POLICY_VERSION,
          sm_assessed_by = subject, sm_assessed_at = now\<rparr>)"

definition assess ::
  "hashing \<Rightarrow> draws \<Rightarrow> uuid \<Rightarrow> actor \<Rightarrow> RemoteState \<Rightarrow> control_db \<Rightarrow>
   py_exception + (RecoveryAssessmentModel \<times> control_db)" where
  "assess hs dr incident_id actor remote cs =
     bind_result (require_human_role actor ''recovery_assessor'') (\<lambda>_.
     case get_row im_id incident_id (cs_incidents cs) of
       None \<Rightarrow> Inl (RecoveryNotFoundError ''Recovery incident not found'')
     | Some incident \<Rightarrow>
         (case get_row rm_id (im_rollback_record_id incident) (db_rollbacks (cs_recovery cs)) of
            None \<Rightarrow> Inl (RollbackRecordNotFound ''Rollback record not found'')
          | Some rollback \<Rightarrow>
              (let db = cs_recovery cs;
                   assessment = new_assessment hs (dr_uuid dr 0) (dr_clock dr 0) incident rollback
                     (ac_subject actor) remote
               in Inr (assessment, cs\<lparr>cs_recovery :=
                    service_audit hs (dr_uuid dr 1) (dr_uuid dr 2) (im_project_id incident)
                      ''recovery.assessment_completed'' actor
                      [(''assessment_id'', uuid_json (sm_id assessment)),
                       (''incident_id'', uuid_json (im_id incident)),
                       (''strategy'', JText (strategy_text (sm_recommended_strategy assessment))),
                       (''binding_sha256'', JText (sm_assessment_binding_sha256 assessment))]
                      (db\<lparr>db_assessments := db_assessments db @ [assessment]\<rparr>)\<rparr>))))"

text \<open>The result of a git command: its exit code and output.\<close>

record git_result =
  gr_returncode :: int
  gr_stdout :: string

text \<open>\<^verbatim>\<open>str.split()\<close>: the words between runs of white space.\<close>

fun words_from :: "string \<Rightarrow> string \<Rightarrow> string list" where
  "words_from w [] = (if w = [] then [] else [rev w])"
| "words_from w (c # cs) =
     (if is_space_char c then (if w = [] then [] else [rev w]) @ words_from [] cs
      else words_from (c # w) cs)"

definition words :: "string \<Rightarrow> string list" where
  "words s = words_from [] s"

definition assess_from_trusted_checkout ::
  "hashing \<Rightarrow> draws \<Rightarrow> uuid \<Rightarrow> actor \<Rightarrow> git_result \<Rightarrow> git_result \<Rightarrow> git_result \<Rightarrow> control_db \<Rightarrow>
   py_exception + (RecoveryAssessmentModel \<times> control_db)" where
  "assess_from_trusted_checkout hs dr incident_id actor remote_result tree_result ancestry cs =
     (case get_row im_id incident_id (cs_incidents cs) of
        None \<Rightarrow> Inl (RecoveryNotFoundError ''Recovery incident not found'')
      | Some incident \<Rightarrow>
          (case (get_row rm_id (im_rollback_record_id incident) (db_rollbacks (cs_recovery cs)),
                 get_row pm_id (im_project_id incident) (db_projects (cs_recovery cs))) of
             (Some rollback, Some project) \<Rightarrow>
               if pm_repository_url project = None \<or> pm_repository_url project = Some []
               then Inl (RecoveryAssessmentStale ''Authoritative repository URL is unavailable'')
               else
                 (let remote_fields = words (gr_stdout remote_result)
                  in if gr_returncode remote_result \<noteq> 0 \<or> length remote_fields \<noteq> 2
                     then Inl (RecoveryAssessmentStale
                       ''Cannot inspect the authoritative branch head'')
                     else if gr_returncode tree_result \<noteq> 0 \<or> gr_returncode ancestry \<notin> {0, 1}
                     then Inl (RecoveryAssessmentStale ''Cannot verify trusted repository state'')
                     else assess hs dr incident_id actor
                       \<lparr>rs_head_sha = hd remote_fields,
                        rs_head_tree_sha = strip (gr_stdout tree_result),
                        rs_integration_commit_is_ancestor = (gr_returncode ancestry = 0)\<rparr> cs)
           | _ \<Rightarrow> Inl (RollbackRecordNotFound ''Recovery repository evidence is unavailable'')))"

section \<open>Approving the rollback\<close>

definition new_approval ::
  "hashing \<Rightarrow> uuid \<Rightarrow> timestamp \<Rightarrow> RecoveryAssessmentModel \<Rightarrow> RecoveryIncidentModel \<Rightarrow>
   RollbackRecordModel \<Rightarrow> string \<Rightarrow> string \<Rightarrow> RollbackApprovalModel" where
  "new_approval hs new_id now assessment incident rollback subject reason =
     (let commands = sm_required_test_commands assessment;
          commands_hash = hash_commands (hash_json hs) (map JObject commands)
      in \<lparr>vm_id = new_id, vm_recovery_assessment_id = sm_id assessment,
          vm_rollback_record_id = rm_id rollback, vm_project_id = im_project_id incident,
          vm_target_branch = rm_target_branch rollback,
          vm_recovery_strategy = sm_recommended_strategy assessment,
          vm_expected_remote_head_sha = sm_expected_remote_head_sha assessment,
          vm_integration_commit_sha = rm_integration_commit_sha rollback,
          vm_required_test_commands = commands,
          vm_required_test_commands_sha256 = commands_hash,
          vm_approval_binding_sha256 = approval_binding_hash (hash_json hs)
            (uuid_text (sm_id assessment)) (uuid_text (rm_id rollback))
            (uuid_text (im_project_id incident)) (rm_target_branch rollback)
            (sm_recommended_strategy assessment) (sm_expected_remote_head_sha assessment)
            (rm_integration_commit_sha rollback) commands_hash
            (sm_assessment_policy_version assessment) (rm_recovery_policy_version rollback),
          vm_status = ACTIVE, vm_approver_subject = subject, vm_reason = reason,
          vm_approved_at = now, vm_consumed_at = None, vm_expires_at = Some (now + seconds 3600)\<rparr>)"

definition approve ::
  "hashing \<Rightarrow> draws \<Rightarrow> uuid \<Rightarrow> actor \<Rightarrow> string \<Rightarrow> control_db \<Rightarrow>
   py_exception + (RollbackApprovalModel \<times> control_db)" where
  "approve hs dr assessment_id actor reason cs =
     bind_result (require_human_role actor ''rollback_approver'') (\<lambda>_.
     let db = cs_recovery cs
     in case get_row sm_id assessment_id (db_assessments db) of
          None \<Rightarrow> Inl (RecoveryNotFoundError ''Recovery assessment not found'')
        | Some assessment \<Rightarrow>
            if \<not> sm_direct_revert_possible assessment
            then Inl (RecoveryAssessmentStale ''Assessment does not authorize an automated revert'')
            else
              (case (get_row im_id (sm_incident_id assessment) (cs_incidents cs),
                     get_row rm_id (sm_rollback_record_id assessment) (db_rollbacks db)) of
                 (Some incident, Some rollback) \<Rightarrow>
                   (let approval = new_approval hs (dr_uuid dr 0) (dr_clock dr 0) assessment
                          incident rollback (ac_subject actor) reason
                    in Inr (approval, cs\<lparr>cs_recovery :=
                         service_audit hs (dr_uuid dr 1) (dr_uuid dr 2) (im_project_id incident)
                           ''recovery.rollback_approval_granted'' actor
                           [(''approval_id'', uuid_json (vm_id approval)),
                            (''assessment_id'', uuid_json (sm_id assessment)),
                            (''expected_remote_head_sha'',
                             JText (vm_expected_remote_head_sha approval)),
                            (''binding_sha256'', JText (vm_approval_binding_sha256 approval))]
                           (db\<lparr>db_approvals := db_approvals db @ [approval]\<rparr>)\<rparr>))
               | _ \<Rightarrow> Inl (RecoveryAssessmentStale ''Assessment dependencies are missing'')))"

section \<open>Ordering the attempt\<close>

definition new_recovery_attempt ::
  "uuid \<Rightarrow> uuid \<Rightarrow> RollbackApprovalModel \<Rightarrow> RecoveryAttemptModel" where
  "new_recovery_attempt new_id correlation_id approval =
     \<lparr>at_id = new_id, at_rollback_approval_id = vm_id approval,
      at_recovery_assessment_id = vm_recovery_assessment_id approval,
      at_rollback_record_id = vm_rollback_record_id approval,
      at_project_id = vm_project_id approval, at_target_branch = vm_target_branch approval,
      at_expected_remote_head_sha = vm_expected_remote_head_sha approval,
      at_integration_commit_sha = vm_integration_commit_sha approval,
      at_recovery_strategy = vm_recovery_strategy approval,
      at_status = RecoveryAttemptStatus.QUEUED, at_correlation_id = correlation_id,
      at_failure_class = None, at_failure_code = None, at_failure_message = None,
      at_worker_id = None, at_started_at = None, at_push_started_at = None,
      at_completed_at = None\<rparr>"

definition approval_inactive :: "timestamp \<Rightarrow> RollbackApprovalModel \<Rightarrow> bool" where
  "approval_inactive now approval \<longleftrightarrow>
     vm_status approval \<noteq> ACTIVE \<or>
     (case vm_expires_at approval of None \<Rightarrow> False | Some t \<Rightarrow> t \<le> now)"

definition consume :: "timestamp \<Rightarrow> RollbackApprovalModel \<Rightarrow> RollbackApprovalModel" where
  "consume now approval = approval\<lparr>vm_status := CONSUMED, vm_consumed_at := Some now\<rparr>"

definition recovery_job_payload :: "RecoveryAttemptModel \<Rightarrow> (string \<rightharpoonup> string)" where
  "recovery_job_payload attempt =
     [''recovery_attempt_id'' \<mapsto> uuid_text (at_id attempt),
      ''correlation_id'' \<mapsto> uuid_text (at_correlation_id attempt)]"

text \<open>The column \<^verbatim>\<open>rollback_approval_id\<close> of the attempts is unique.\<close>

definition create_attempt ::
  "hashing \<Rightarrow> draws \<Rightarrow> uuid \<Rightarrow> actor \<Rightarrow> control_db \<Rightarrow>
   py_exception + (RecoveryAttemptModel \<times> control_db)" where
  "create_attempt hs dr approval_id actor cs =
     bind_result (require_human_role actor ''recovery_operator'') (\<lambda>_.
     let db = cs_recovery cs; now = dr_clock dr 0
     in case get_row vm_id approval_id (db_approvals db) of
          None \<Rightarrow> Inl (RecoveryNotFoundError ''Rollback approval not found'')
        | Some approval \<Rightarrow>
            if approval_inactive now approval
            then Inl (RollbackApprovalNotActive ''Rollback approval is not active'')
            else if list_ex (\<lambda>a. at_rollback_approval_id a = approval_id) (db_attempts db)
            then Inl (IntegrityError ''recovery_attempts_rollback_approval_id_key'')
            else
              (let attempt = new_recovery_attempt (dr_uuid dr 0) (dr_uuid dr 1) approval
               in Inr (attempt,
                    cs\<lparr>cs_recovery :=
                         service_audit hs (dr_uuid dr 2) (dr_uuid dr 3) (vm_project_id approval)
                           ''recovery.attempt_created'' actor
                           [(''attempt_id'', uuid_json (at_id attempt)),
                            (''approval_id'', uuid_json (vm_id approval)),
                            (''correlation_id'', uuid_json (at_correlation_id attempt))]
                           (db\<lparr>db_attempts := db_attempts db @ [attempt],
                              db_approvals := alter (\<lambda>v. vm_id v = approval_id) (consume now)
                                (db_approvals db)\<rparr>),
                       cs_queue := enqueue (dr_uuid dr 4) (dr_clock dr 1) (vm_project_id approval)
                         None ''recover_integration'' (recovery_job_payload attempt) 40 1
                         (cs_queue cs)\<rparr>)))"

end
