(* ===== verification/Workflow_Store.thy ===== *)
theory Workflow_Store
  imports Workflow_Context Recovery_Service
begin

text \<open>
  The durable state of the delivery workflow (\<^verbatim>\<open>infrastructure/database/workflow_models.py\<close>), the
  rows of other components it reads, and \<^verbatim>\<open>application/workflow/repository.py\<close>.

  A stored context is the context itself with its hash. Of the tables of other components only
  the columns the workflow reads are modelled. Rows a query returns without \<^verbatim>\<open>ORDER BY\<close> come in
  the order of the table. New identifiers are the function \<open>ids\<close> of their number, \<open>now\<close> is the
  clock.
\<close>

section \<open>Tables\<close>

datatype ProjectStatus =
    CREATED
  | REQUIREMENTS_QUEUED | REQUIREMENTS_RUNNING | REQUIREMENTS_FAILED
  | AWAITING_REQUIREMENTS_APPROVAL | REQUIREMENTS_APPROVED | REQUIREMENTS_REJECTED
  | ARCHITECTURE_QUEUED | ARCHITECTURE_RUNNING | ARCHITECTURE_FAILED
  | AWAITING_ARCHITECTURE_APPROVAL | ARCHITECTURE_APPROVED | ARCHITECTURE_REJECTED
  | WORK_PACKAGE_QUEUED | WORK_PACKAGE_PLANNING | WORK_PACKAGE_FAILED
  | AWAITING_WORK_PACKAGE_APPROVAL | WORK_PACKAGE_APPROVED | WORK_PACKAGE_REJECTED

fun project_status_text :: "ProjectStatus \<Rightarrow> string" where
  "project_status_text CREATED = ''created''"
| "project_status_text REQUIREMENTS_QUEUED = ''requirements_queued''"
| "project_status_text ProjectStatus.REQUIREMENTS_RUNNING = ''requirements_running''"
| "project_status_text REQUIREMENTS_FAILED = ''requirements_failed''"
| "project_status_text AWAITING_REQUIREMENTS_APPROVAL = ''awaiting_requirements_approval''"
| "project_status_text REQUIREMENTS_APPROVED = ''requirements_approved''"
| "project_status_text REQUIREMENTS_REJECTED = ''requirements_rejected''"
| "project_status_text ARCHITECTURE_QUEUED = ''architecture_queued''"
| "project_status_text ProjectStatus.ARCHITECTURE_RUNNING = ''architecture_running''"
| "project_status_text ARCHITECTURE_FAILED = ''architecture_failed''"
| "project_status_text AWAITING_ARCHITECTURE_APPROVAL = ''awaiting_architecture_approval''"
| "project_status_text ARCHITECTURE_APPROVED = ''architecture_approved''"
| "project_status_text ARCHITECTURE_REJECTED = ''architecture_rejected''"
| "project_status_text WORK_PACKAGE_QUEUED = ''work_package_queued''"
| "project_status_text WORK_PACKAGE_PLANNING = ''work_package_planning''"
| "project_status_text WORK_PACKAGE_FAILED = ''work_package_failed''"
| "project_status_text AWAITING_WORK_PACKAGE_APPROVAL = ''awaiting_work_package_approval''"
| "project_status_text WORK_PACKAGE_APPROVED = ''work_package_approved''"
| "project_status_text WORK_PACKAGE_REJECTED = ''work_package_rejected''"

record ProjectModel =
  pj_id :: uuid
  pj_status :: string
  pj_manifest :: json
  pj_manifest_hash :: digest

record WorkflowInstanceModel =
  wi_id :: uuid
  wi_project_id :: uuid
  wi_definition_name :: string
  wi_workflow_version :: string
  wi_state :: WorkflowState
  wi_current_step :: "WorkflowStepName option"
  wi_context_version :: int
  wi_correlation_id :: uuid
  wi_optimistic_version :: int
  wi_cancellation_requested_at :: "timestamp option"
  wi_failure_code :: "string option"
  wi_failure_message :: "string option"
  wi_recommended_operator_action :: "string option"
  wi_completed_at :: "timestamp option"

record WorkflowContextModel =
  cw_id :: uuid
  cw_workflow_id :: uuid
  cw_version :: int
  cw_state :: WorkflowState
  cw_context :: WorkflowContext
  cw_context_hash :: digest

text \<open>\<open>None\<close> is the previous state \<^verbatim>\<open>unlinked\<close>; a relink records no policy evidence.\<close>

record WorkflowTransitionModel =
  wt_id :: uuid
  wt_workflow_id :: uuid
  wt_sequence :: int
  wt_previous_state :: "WorkflowState option"
  wt_current_state :: WorkflowState
  wt_step :: "WorkflowStepName option"
  wt_actor_type :: string
  wt_actor_id :: string
  wt_reason :: string
  wt_policy_evidence :: "policy_evidence_document option"
  wt_workflow_version :: string
  wt_correlation_id :: uuid

record WorkflowCheckpointModel =
  ck_id :: uuid
  ck_workflow_id :: uuid
  ck_step :: WorkflowStepName
  ck_step_version :: string
  ck_context_version :: int
  ck_context_hash :: digest
  ck_retry_count :: int
  ck_artifact_ids :: "string list"
  ck_status :: string

record WorkflowStepAttemptModel =
  sa_id :: uuid
  sa_workflow_id :: uuid
  sa_step :: WorkflowStepName
  sa_step_version :: string
  sa_attempt :: int
  sa_status :: string
  sa_policy :: "(string \<times> json) list"
  sa_started_at :: "timestamp option"
  sa_finished_at :: "timestamp option"

record WorkPackageModel =
  wp_id :: uuid
  wp_project_id :: uuid
  wp_status :: string
  wp_created_at :: timestamp

record ExecutionRunModel =
  xr_id :: uuid
  xr_project_id :: uuid
  xr_work_package_id :: uuid
  xr_approval_id :: uuid
  xr_status :: string
  xr_patch_artifact_id :: "uuid option"
  xr_patch_sha256 :: "string option"
  xr_created_at :: timestamp

record PatchReviewRunModel =
  pr_id :: uuid
  pr_execution_run_id :: uuid
  pr_work_package_id :: uuid
  pr_patch_artifact_id :: uuid
  pr_status :: string
  pr_expected_patch_sha256 :: string
  pr_actual_patch_sha256 :: "string option"
  pr_review_report_artifact_id :: "uuid option"
  pr_created_at :: timestamp

record IntegrationCommitModel =
  ic_id :: uuid
  ic_integration_attempt_id :: uuid
  ic_commit_sha :: string
  ic_tree_sha :: string
  ic_parent_commit_sha :: string
  ic_remote_verified :: bool

record ApprovalModel =
  ap_id :: uuid
  ap_project_id :: uuid
  ap_artifact_id :: uuid
  ap_decision :: string
  ap_reviewer :: string
  ap_comment :: "string option"

text \<open>The rows of the other components.\<close>

record platform_db =
  pd_projects :: "ProjectModel list"
  pd_packages :: "WorkPackageModel list"
  pd_executions :: "ExecutionRunModel list"
  pd_reviews :: "PatchReviewRunModel list"
  pd_integrations :: "IntegrationAttemptModel list"
  pd_commits :: "IntegrationCommitModel list"
  pd_artifacts :: "ArtifactModel list"
  pd_approvals :: "ApprovalModel list"
  pd_queue :: queue_tables
  pd_audit :: audit_tables

record workflow_db =
  wd_platform :: platform_db
  wd_workflows :: "WorkflowInstanceModel list"
  wd_contexts :: "WorkflowContextModel list"
  wd_transitions :: "WorkflowTransitionModel list"
  wd_checkpoints :: "WorkflowCheckpointModel list"
  wd_attempts :: "WorkflowStepAttemptModel list"

datatype engine_error =
    WorkflowNotFoundError string
  | WorkflowConflictError WorkflowState
  | WorkflowRuntimeError string
  | WorkflowIntegrityError string
  | IllegalTransitionError WorkflowState WorkflowState
  | ServiceError string

section \<open>Repository\<close>

definition get_workflow :: "uuid \<Rightarrow> workflow_db \<Rightarrow> engine_error + WorkflowInstanceModel" where
  "get_workflow workflow_id db = (case get_row wi_id workflow_id (wd_workflows db) of
     None \<Rightarrow> Inl (WorkflowNotFoundError (uuid_text workflow_id))
   | Some workflow \<Rightarrow> Inr workflow)"

definition context_row :: "uuid \<Rightarrow> int \<Rightarrow> workflow_db \<Rightarrow> WorkflowContextModel option" where
  "context_row workflow_id version db =
     List.find (\<lambda>c. cw_workflow_id c = workflow_id \<and> cw_version c = version) (wd_contexts db)"

definition load_context ::
  "hashing \<Rightarrow> WorkflowInstanceModel \<Rightarrow> workflow_db \<Rightarrow> engine_error + WorkflowContext" where
  "load_context hs workflow db =
     (case context_row (wi_id workflow) (wi_context_version workflow) db of
        None \<Rightarrow> Inl (WorkflowRuntimeError ''Workflow context is missing'')
      | Some row \<Rightarrow>
          if content_hash hs (cw_context row) \<noteq> cw_context_hash row
          then Inl (WorkflowRuntimeError ''Workflow context integrity check failed'')
          else Inr (cw_context row))"

definition transitions_of :: "uuid \<Rightarrow> workflow_db \<Rightarrow> WorkflowTransitionModel list" where
  "transitions_of workflow_id db = filter (\<lambda>t. wt_workflow_id t = workflow_id) (wd_transitions db)"

definition next_sequence :: "uuid \<Rightarrow> workflow_db \<Rightarrow> int" where
  "next_sequence workflow_id db = int (length (transitions_of workflow_id db)) + 1"

definition step_or_null :: "WorkflowStepName option \<Rightarrow> json" where
  "step_or_null step = text_or_null (map_option step_text step)"

definition auto_policy_json :: "auto_approval_policy \<Rightarrow> json" where
  "auto_policy_json p = JObject
     [(''policy_name'', JText (ap_policy_name p)), (''policy_version'', JText (ap_policy_version p)),
      (''phase'', step_or_null (ap_phase p)), (''risk_class'', JText (ap_risk_class p)),
      (''from_state'', JText (state_text (ap_from_state p))),
      (''to_state'', JText (state_text (ap_to_state p)))]"

text \<open>
  A flush writes the columns that the session has changed since it read the row: \<open>old\<close> is the row
  as it was read, \<open>new\<close> the object of the session. \<open>updated_at\<close> and \<open>started_at\<close> are not modelled.
\<close>

definition changed :: "'a \<Rightarrow> 'a \<Rightarrow> 'a \<Rightarrow> 'a" where
  "changed old new stored = (if new = old then stored else new)"

definition flush_columns ::
  "WorkflowInstanceModel \<Rightarrow> WorkflowInstanceModel \<Rightarrow> WorkflowInstanceModel \<Rightarrow> WorkflowInstanceModel" where
  "flush_columns old new r =
     r\<lparr>wi_state := changed (wi_state old) (wi_state new) (wi_state r),
       wi_current_step := changed (wi_current_step old) (wi_current_step new) (wi_current_step r),
       wi_context_version :=
         changed (wi_context_version old) (wi_context_version new) (wi_context_version r),
       wi_optimistic_version :=
         changed (wi_optimistic_version old) (wi_optimistic_version new) (wi_optimistic_version r),
       wi_cancellation_requested_at := changed (wi_cancellation_requested_at old)
         (wi_cancellation_requested_at new) (wi_cancellation_requested_at r),
       wi_failure_code := changed (wi_failure_code old) (wi_failure_code new) (wi_failure_code r),
       wi_failure_message :=
         changed (wi_failure_message old) (wi_failure_message new) (wi_failure_message r),
       wi_recommended_operator_action := changed (wi_recommended_operator_action old)
         (wi_recommended_operator_action new) (wi_recommended_operator_action r),
       wi_completed_at := changed (wi_completed_at old) (wi_completed_at new) (wi_completed_at r)\<rparr>"

definition save_workflow ::
  "WorkflowInstanceModel \<Rightarrow> WorkflowInstanceModel \<Rightarrow> workflow_db \<Rightarrow> workflow_db" where
  "save_workflow old new db =
     db\<lparr>wd_workflows := alter (\<lambda>r. wi_id r = wi_id old) (flush_columns old new) (wd_workflows db)\<rparr>"

record transition_request =
  tq_next_state :: WorkflowState
  tq_step :: "WorkflowStepName option"
  tq_actor_type :: string
  tq_actor_id :: string
  tq_reason :: string
  tq_checkpoint :: bool

definition moved_workflow ::
  "timestamp \<Rightarrow> transition_request \<Rightarrow> WorkflowInstanceModel \<Rightarrow> WorkflowInstanceModel" where
  "moved_workflow now tq w =
     w\<lparr>wi_state := tq_next_state tq, wi_current_step := tq_step tq,
       wi_context_version := wi_context_version w + 1,
       wi_optimistic_version := wi_optimistic_version w + 1,
       wi_completed_at := (if tq_next_state tq \<in> {WorkflowState.COMPLETED, WorkflowState.CANCELLED} then Some now
                           else wi_completed_at w)\<rparr>"

definition new_context_row ::
  "hashing \<Rightarrow> uuid \<Rightarrow> uuid \<Rightarrow> int \<Rightarrow> WorkflowContext \<Rightarrow> WorkflowContextModel" where
  "new_context_row hs i workflow_id version c =
     \<lparr>cw_id = i, cw_workflow_id = workflow_id, cw_version = version,
      cw_state = wx_current_state c, cw_context = c, cw_context_hash = content_hash hs c\<rparr>"

definition transition_row ::
  "hashing \<Rightarrow> uuid \<Rightarrow> int \<Rightarrow> WorkflowInstanceModel \<Rightarrow> WorkflowTransitionDecision \<Rightarrow>
   transition_request \<Rightarrow> WorkflowTransitionModel" where
  "transition_row hs i sequence w decision tq =
     \<lparr>wt_id = i, wt_workflow_id = wi_id w, wt_sequence = sequence,
      wt_previous_state = Some (wi_state w), wt_current_state = tq_next_state tq,
      wt_step = tq_step tq, wt_actor_type = tq_actor_type tq, wt_actor_id = tq_actor_id tq,
      wt_reason = tq_reason tq,
      wt_policy_evidence = Some (policy_evidence (\<lambda>p. hash_json hs (auto_policy_json p))
        decision (tq_step tq)),
      wt_workflow_version = wi_workflow_version w, wt_correlation_id = wi_correlation_id w\<rparr>"

definition checkpoint_rows ::
  "uuid \<Rightarrow> WorkflowInstanceModel \<Rightarrow> transition_request \<Rightarrow> WorkflowContextModel \<Rightarrow>
   WorkflowCheckpointModel list" where
  "checkpoint_rows i w tq row = (case tq_step tq of
     None \<Rightarrow> []
   | Some step \<Rightarrow>
       if tq_checkpoint tq then
         [\<lparr>ck_id = i, ck_workflow_id = wi_id w, ck_step = step, ck_step_version = ''1.0'',
           ck_context_version = cw_version row, ck_context_hash = cw_context_hash row,
           ck_retry_count = 0,
           ck_artifact_ids = map (\<lambda>(k, u). uuid_text u) (wx_artifact_ids (cw_context row)),
           ck_status = ''succeeded''\<rparr>]
       else [])"

text \<open>
  The flush of a move: a version of the context and a sequence number are unique for a workflow
  (\<^verbatim>\<open>uq_workflow_context_version\<close>, \<^verbatim>\<open>uq_workflow_transition_sequence\<close>), as are the step and the
  context version of a checkpoint.
\<close>

definition record_move ::
  "WorkflowContextModel \<Rightarrow> WorkflowTransitionModel \<Rightarrow> WorkflowCheckpointModel list \<Rightarrow> workflow_db \<Rightarrow>
   engine_error + workflow_db" where
  "record_move row moved checkpoints db =
     (if context_row (cw_workflow_id row) (cw_version row) db \<noteq> None
      then Inl (WorkflowIntegrityError ''uq_workflow_context_version'')
      else if list_ex (\<lambda>t. wt_sequence t = wt_sequence moved)
                (transitions_of (wt_workflow_id moved) db)
      then Inl (WorkflowIntegrityError ''uq_workflow_transition_sequence'')
      else if list_ex (\<lambda>k. list_ex (\<lambda>q. ck_workflow_id q = ck_workflow_id k \<and>
             ck_step q = ck_step k \<and> ck_context_version q = ck_context_version k)
           (wd_checkpoints db)) checkpoints
      then Inl (WorkflowIntegrityError ''uq_workflow_checkpoint'')
      else Inr (db\<lparr>wd_contexts := wd_contexts db @ [row],
                  wd_transitions := wd_transitions db @ [moved],
                  wd_checkpoints := wd_checkpoints db @ checkpoints\<rparr>))"

text \<open>
  \<^verbatim>\<open>append_transition\<close>. The version of the context follows the version the session has read, the
  sequence number the rows in the table.
\<close>

definition append_transition ::
  "hashing \<Rightarrow> (nat \<Rightarrow> uuid) \<Rightarrow> timestamp \<Rightarrow> transition_request \<Rightarrow> WorkflowContext \<Rightarrow>
   WorkflowInstanceModel \<Rightarrow> workflow_db \<Rightarrow>
   engine_error + (WorkflowContext \<times> WorkflowInstanceModel \<times> workflow_db)" where
  "append_transition hs ids now tq context w db =
     (case Workflow.classify (wi_state w) (tq_next_state tq) of
        Inl (IllegalWorkflowTransition s t) \<Rightarrow> Inl (IllegalTransitionError s t)
      | Inr decision \<Rightarrow>
          (let evolved = context\<lparr>wx_current_state := tq_next_state tq\<rparr>;
               row = new_context_row hs (ids 0) (wi_id w) (wi_context_version w + 1) evolved;
               moved = transition_row hs (ids 1) (next_sequence (wi_id w) db) w decision tq;
               w' = moved_workflow now tq w
           in bind_result (record_move row moved (checkpoint_rows (ids 2) w tq row) db)
                (\<lambda>db'. Inr (evolved, w', save_workflow w w' db'))))"

end
