(* ===== verification/Workflow_Engine.thy ===== *)
theory Workflow_Engine
  imports Workflow_Store
begin

text \<open>
  \<^verbatim>\<open>application/workflow/service.py\<close>: the engine that moves a delivery workflow along. Each
  operation is one transaction, except that \<open>advance\<close> may call another service, which commits
  what it queues and so releases the lock on the workflow. \<open>advance\<close> is therefore cut at the
  call: \<open>begin_advance\<close> reads and decides, \<open>finish_advance\<close> writes with the row as it was read.
  A service is a function of the rows of the platform: it fails, or returns the identifier of
  what it queued and the rows it leaves.
\<close>

section \<open>Where a project stands\<close>

record WorkflowRelinkDecision =
  rl_workflow_state :: WorkflowState
  rl_current_step :: "WorkflowStepName option"
  rl_relink_reason :: string
  rl_operator_action :: string
  rl_advance_ready :: bool
  rl_decision_already_made :: bool

definition relink_decision ::
  "WorkflowState \<Rightarrow> WorkflowStepName option \<Rightarrow> string \<Rightarrow> bool \<Rightarrow> WorkflowRelinkDecision" where
  "relink_decision state step action ready =
     \<lparr>rl_workflow_state = state, rl_current_step = step, rl_relink_reason = action,
      rl_operator_action = action, rl_advance_ready = ready, rl_decision_already_made = ready\<rparr>"

definition all_project_statuses :: "ProjectStatus list" where
  "all_project_statuses =
     [CREATED, REQUIREMENTS_QUEUED, ProjectStatus.REQUIREMENTS_RUNNING, REQUIREMENTS_FAILED,
      AWAITING_REQUIREMENTS_APPROVAL, REQUIREMENTS_APPROVED, REQUIREMENTS_REJECTED,
      ARCHITECTURE_QUEUED, ProjectStatus.ARCHITECTURE_RUNNING, ARCHITECTURE_FAILED,
      AWAITING_ARCHITECTURE_APPROVAL, ARCHITECTURE_APPROVED, ARCHITECTURE_REJECTED,
      WORK_PACKAGE_QUEUED, WORK_PACKAGE_PLANNING, WORK_PACKAGE_FAILED,
      AWAITING_WORK_PACKAGE_APPROVAL, WORK_PACKAGE_APPROVED, WORK_PACKAGE_REJECTED]"

definition project_status :: "string \<Rightarrow> ProjectStatus option" where
  "project_status t = List.find (\<lambda>s. project_status_text s = t) all_project_statuses"

fun relink_for_status :: "ProjectStatus \<Rightarrow> WorkflowRelinkDecision" where
  "relink_for_status CREATED = relink_decision PROJECT_CREATED None
     ''Start the workflow when the operator is ready to generate requirements.'' False"
| "relink_for_status REQUIREMENTS_QUEUED = relink_decision WorkflowState.REQUIREMENTS_RUNNING (Some REQUIREMENTS)
     ''Wait for requirements generation or inspect the requirements job.'' False"
| "relink_for_status ProjectStatus.REQUIREMENTS_RUNNING =
     relink_decision WorkflowState.REQUIREMENTS_RUNNING (Some REQUIREMENTS)
     ''Wait for requirements generation or inspect the requirements job.'' False"
| "relink_for_status AWAITING_REQUIREMENTS_APPROVAL =
     relink_decision WAITING_REQUIREMENTS_APPROVAL (Some REQUIREMENTS)
     ''Review requirements evidence and approve or request changes.'' False"
| "relink_for_status REQUIREMENTS_APPROVED = relink_decision WorkflowState.REQUIREMENTS_RUNNING (Some REQUIREMENTS)
     ''Requirements are approved. Advance the workflow to architecture.'' True"
| "relink_for_status REQUIREMENTS_REJECTED = relink_decision MANUAL_INTERVENTION (Some REQUIREMENTS)
     ''Requirements were rejected. Revise evidence before advancing.'' False"
| "relink_for_status REQUIREMENTS_FAILED = relink_decision WorkflowState.FAILED (Some REQUIREMENTS)
     ''Requirements work needs recovery. Review proof before retrying.'' False"
| "relink_for_status ARCHITECTURE_QUEUED = relink_decision WorkflowState.ARCHITECTURE_RUNNING (Some ARCHITECTURE)
     ''Wait for architecture generation or inspect the architecture job.'' False"
| "relink_for_status ProjectStatus.ARCHITECTURE_RUNNING =
     relink_decision WorkflowState.ARCHITECTURE_RUNNING (Some ARCHITECTURE)
     ''Wait for architecture generation or inspect the architecture job.'' False"
| "relink_for_status AWAITING_ARCHITECTURE_APPROVAL =
     relink_decision WAITING_ARCHITECTURE_APPROVAL (Some ARCHITECTURE)
     ''Review architecture evidence and approve or request changes.'' False"
| "relink_for_status ARCHITECTURE_APPROVED = relink_decision WorkflowState.ARCHITECTURE_RUNNING (Some ARCHITECTURE)
     ''Architecture is approved. Advance the workflow to work-package planning.'' True"
| "relink_for_status ARCHITECTURE_REJECTED = relink_decision MANUAL_INTERVENTION (Some ARCHITECTURE)
     ''Architecture was rejected. Revise evidence before advancing.'' False"
| "relink_for_status ARCHITECTURE_FAILED = relink_decision WorkflowState.FAILED (Some ARCHITECTURE)
     ''Architecture work needs recovery. Review proof before retrying.'' False"
| "relink_for_status WORK_PACKAGE_QUEUED = relink_decision PLANNING_RUNNING (Some PLANNING)
     ''Wait for work-package planning or inspect planning jobs.'' False"
| "relink_for_status WORK_PACKAGE_PLANNING = relink_decision PLANNING_RUNNING (Some PLANNING)
     ''Wait for work-package planning or inspect planning jobs.'' False"
| "relink_for_status AWAITING_WORK_PACKAGE_APPROVAL =
     relink_decision WAITING_WORK_PACKAGE_APPROVAL (Some PLANNING)
     ''Review work-package evidence and approve or request changes.'' False"
| "relink_for_status WORK_PACKAGE_APPROVED = relink_decision PLANNING_RUNNING (Some PLANNING)
     ''Work package is approved. Advance the workflow to execution.'' True"
| "relink_for_status WORK_PACKAGE_REJECTED = relink_decision MANUAL_INTERVENTION (Some PLANNING)
     ''Work package was rejected. Revise evidence before execution.'' False"
| "relink_for_status WORK_PACKAGE_FAILED = relink_decision WorkflowState.FAILED (Some PLANNING)
     ''Work-package planning needs recovery. Review proof before retrying.'' False"

definition workflow_relink_decision_for_project ::
  "hashing \<Rightarrow> ProjectModel \<Rightarrow> WorkflowRelinkDecision" where
  "workflow_relink_decision_for_project hs project =
     (if hash_json hs (pj_manifest project) \<noteq> pj_manifest_hash project
      then relink_decision MANUAL_INTERVENTION None
        (''Project manifest hash does not match stored content. '' @
         ''Review legacy data before running.'') False
      else case project_status (pj_status project) of
             Some status \<Rightarrow> relink_for_status status
           | None \<Rightarrow> relink_decision MANUAL_INTERVENTION None
               (''Project status is not mapped to an automatic workflow step. '' @
                ''Review before running.'') False)"

section \<open>Starting\<close>

definition VERSION :: string where
  "VERSION = ''1.0''"

definition on_platform :: "(platform_db \<Rightarrow> platform_db) \<Rightarrow> workflow_db \<Rightarrow> workflow_db" where
  "on_platform f db = db\<lparr>wd_platform := f (wd_platform db)\<rparr>"

definition engine_audit ::
  "hashing \<Rightarrow> uuid \<Rightarrow> uuid \<Rightarrow> uuid \<Rightarrow> WorkflowEventName \<Rightarrow> string \<Rightarrow> string \<Rightarrow>
   (string \<times> json) list \<Rightarrow> workflow_db \<Rightarrow> workflow_db" where
  "engine_audit hs event_id record_id project_id event actor_type actor_id payload =
     on_platform (\<lambda>p. p\<lparr>pd_audit := append_project_event (hash_json hs) event_id record_id project_id
       (event_text event) actor_type actor_id payload (pd_audit p)\<rparr>)"

definition enqueue_advance ::
  "uuid \<Rightarrow> timestamp \<Rightarrow> WorkflowInstanceModel \<Rightarrow> workflow_db \<Rightarrow> workflow_db" where
  "enqueue_advance job_id now w = on_platform (\<lambda>p. p\<lparr>pd_queue :=
     enqueue job_id now (wi_project_id w) None ''advance_workflow''
       [''workflow_id'' \<mapsto> uuid_text (wi_id w),
        ''correlation_id'' \<mapsto> uuid_text (wi_correlation_id w)] 100 3 (pd_queue p)\<rparr>)"

definition workflow_of_project :: "uuid \<Rightarrow> workflow_db \<Rightarrow> WorkflowInstanceModel option" where
  "workflow_of_project project_id db = get_row wi_project_id project_id (wd_workflows db)"

definition get_project :: "uuid \<Rightarrow> workflow_db \<Rightarrow> ProjectModel option" where
  "get_project project_id db = get_row pj_id project_id (pd_projects (wd_platform db))"

definition new_workflow ::
  "uuid \<Rightarrow> uuid \<Rightarrow> uuid \<Rightarrow> WorkflowState \<Rightarrow> WorkflowStepName option \<Rightarrow> string option \<Rightarrow>
   WorkflowInstanceModel" where
  "new_workflow workflow_id correlation_id project_id state step action =
     \<lparr>wi_id = workflow_id, wi_project_id = project_id, wi_definition_name = ''vertical_slice'',
      wi_workflow_version = VERSION, wi_state = state, wi_current_step = step,
      wi_context_version = 1, wi_correlation_id = correlation_id, wi_optimistic_version = 1,
      wi_cancellation_requested_at = None, wi_failure_code = None, wi_failure_message = None,
      wi_recommended_operator_action = action, wi_completed_at = None\<rparr>"

definition start ::
  "hashing \<Rightarrow> (nat \<Rightarrow> uuid) \<Rightarrow> timestamp \<Rightarrow> uuid \<Rightarrow> string \<Rightarrow> workflow_db \<Rightarrow>
   engine_error + (WorkflowInstanceModel \<times> workflow_db)" where
  "start hs ids now project_id actor_id db =
     (case workflow_of_project project_id db of
        Some existing \<Rightarrow> Inr (existing, db)
      | None \<Rightarrow>
          (case get_project project_id db of
             None \<Rightarrow> Inl (WorkflowNotFoundError (''Project '' @ uuid_text project_id @ '' does not exist''))
           | Some project \<Rightarrow>
               (let w = new_workflow (ids 0) (ids 1) project_id PROJECT_CREATED None None;
                    c = new_context (ids 0) project_id PROJECT_CREATED (ids 1) actor_id;
                    db = db\<lparr>wd_workflows := wd_workflows db @ [w],
                           wd_contexts := wd_contexts db @ [new_context_row hs (ids 2) (ids 0) 1 c]\<rparr>;
                    db = engine_audit hs (ids 3) (ids 4) project_id EVENT_STARTED ''human'' actor_id
                      [(''workflow_id'', uuid_json (ids 0)), (''correlation_id'', uuid_json (ids 1))] db
                in Inr (w, enqueue_advance (ids 5) now w db))))"

section \<open>Linking a project\<close>

text \<open>
  \<^verbatim>\<open>relink_project\<close> reads the workflow without a lock: \<open>existing\<close> is the row as it was read.
  The execution and the review it recovers are read when the project's work package is
  approved.
\<close>

definition recovered_execution :: "ProjectModel \<Rightarrow> platform_db \<Rightarrow> ExecutionRunModel option" where
  "recovered_execution project p =
     (if pj_status project = project_status_text WORK_PACKAGE_APPROVED
      then first_by (\<lambda>x. - xr_created_at x)
        (filter (\<lambda>x. xr_project_id x = pj_id project \<and> xr_status x = ''succeeded'') (pd_executions p))
      else None)"

definition recovered_review :: "ExecutionRunModel option \<Rightarrow> platform_db \<Rightarrow> PatchReviewRunModel option" where
  "recovered_review execution p = (case execution of
     None \<Rightarrow> None
   | Some x \<Rightarrow> first_by (\<lambda>r. - pr_created_at r)
       (filter (\<lambda>r. pr_execution_run_id r = xr_id x \<and> pr_status r = ''accepted'') (pd_reviews p)))"

definition recovered_point ::
  "WorkflowRelinkDecision \<Rightarrow> ExecutionRunModel option \<Rightarrow> PatchReviewRunModel option \<Rightarrow>
   WorkflowState \<times> WorkflowStepName option" where
  "recovered_point d execution review =
     (if execution = None then (rl_workflow_state d, rl_current_step d)
      else if review = None then (WorkflowState.EXECUTION_RUNNING, Some EXECUTION)
      else (WorkflowState.PATCH_REVIEW_RUNNING, Some REVIEW))"

definition relink_metadata ::
  "ProjectModel \<Rightarrow> WorkflowRelinkDecision \<Rightarrow> (string \<times> json) list \<Rightarrow> (string \<times> json) list" where
  "relink_metadata project d extra = [(''relink'', JObject
     ([(''project_status'', JText (pj_status project)),
       (''relink_reason'', JText (rl_relink_reason d)),
       (''advance_ready'', JBool (rl_advance_ready d)),
       (''decision_already_made'', JBool (rl_decision_already_made d))] @ extra))]"

definition relink_row ::
  "uuid \<Rightarrow> int \<Rightarrow> WorkflowInstanceModel \<Rightarrow> WorkflowState option \<Rightarrow> string \<Rightarrow> string \<Rightarrow>
   WorkflowTransitionModel" where
  "relink_row i sequence w previous actor_id reason =
     \<lparr>wt_id = i, wt_workflow_id = wi_id w, wt_sequence = sequence, wt_previous_state = previous,
      wt_current_state = wi_state w, wt_step = wi_current_step w, wt_actor_type = ''human'',
      wt_actor_id = actor_id, wt_reason = reason, wt_policy_evidence = None,
      wt_workflow_version = VERSION, wt_correlation_id = wi_correlation_id w\<rparr>"

definition relinked_workflow ::
  "WorkflowRelinkDecision \<Rightarrow> WorkflowState \<times> WorkflowStepName option \<Rightarrow> WorkflowInstanceModel \<Rightarrow>
   WorkflowInstanceModel" where
  "relinked_workflow d point w =
     w\<lparr>wi_state := fst point, wi_current_step := snd point, wi_failure_code := None,
       wi_failure_message := None, wi_recommended_operator_action := Some (rl_operator_action d),
       wi_context_version := wi_context_version w + 1,
       wi_optimistic_version := wi_optimistic_version w + 1\<rparr>"

definition relinked_context ::
  "WorkflowRelinkDecision \<Rightarrow> ExecutionRunModel option \<Rightarrow> PatchReviewRunModel option \<Rightarrow> string \<Rightarrow>
   ProjectModel \<Rightarrow> WorkflowInstanceModel \<Rightarrow> WorkflowContext" where
  "relinked_context d execution review actor_id project w =
     (new_context (wi_id w) (pj_id project) (fst (recovered_point d execution review))
        (wi_correlation_id w) actor_id)
       \<lparr>wx_metadata := relink_metadata project d
          [(''recovered_from'', JText (state_text (wi_state w))),
           (''recovered_execution_id'', uuid_or_null (map_option xr_id execution)),
           (''recovered_review_id'', uuid_or_null (map_option pr_id review))],
        wx_execution_id := map_option xr_id execution, wx_review_id := map_option pr_id review\<rparr>"

definition relink_announced ::
  "hashing \<Rightarrow> (nat \<Rightarrow> uuid) \<Rightarrow> timestamp \<Rightarrow> string \<Rightarrow> string \<Rightarrow> WorkflowRelinkDecision \<Rightarrow> bool \<Rightarrow>
   WorkflowInstanceModel \<Rightarrow> WorkflowInstanceModel \<Rightarrow> workflow_db \<Rightarrow> workflow_db" where
  "relink_announced hs ids now actor_id reason d recovered w w' db =
     (let db' = engine_audit hs (ids 2) (ids 3) (wi_project_id w) EVENT_RELINKED ''human'' actor_id
            [(''workflow_id'', uuid_json (wi_id w)), (''state'', JText (state_text (wi_state w'))),
             (''reason'', JText reason), (''recovered_from'', JText (state_text (wi_state w))),
             (''advance_ready'', JBool (rl_advance_ready d))] db
      in if rl_advance_ready d \<or> recovered then enqueue_advance (ids 4) now w db' else db')"

definition relink_existing ::
  "hashing \<Rightarrow> (nat \<Rightarrow> uuid) \<Rightarrow> timestamp \<Rightarrow> string \<Rightarrow> string \<Rightarrow> ProjectModel \<Rightarrow>
   WorkflowInstanceModel \<Rightarrow> workflow_db \<Rightarrow> engine_error + (WorkflowInstanceModel \<times> workflow_db)" where
  "relink_existing hs ids now actor_id reason project w db =
     (let d = workflow_relink_decision_for_project hs project;
          execution = recovered_execution project (wd_platform db);
          review = recovered_review execution (wd_platform db);
          w' = relinked_workflow d (recovered_point d execution review) w;
          row = new_context_row hs (ids 0) (wi_id w) (wi_context_version w')
            (relinked_context d execution review actor_id project w);
          moved = relink_row (ids 1) (next_sequence (wi_id w) db) w' (Some (wi_state w)) actor_id reason
      in bind_result (record_move row moved [] db)
           (\<lambda>db'. Inr (w', relink_announced hs ids now actor_id reason d (execution \<noteq> None) w w'
              (save_workflow w w' db'))))"

definition link_project ::
  "hashing \<Rightarrow> (nat \<Rightarrow> uuid) \<Rightarrow> string \<Rightarrow> string \<Rightarrow> ProjectModel \<Rightarrow> workflow_db \<Rightarrow>
   WorkflowInstanceModel \<times> workflow_db" where
  "link_project hs ids actor_id reason project db =
     (let d = workflow_relink_decision_for_project hs project;
          w = new_workflow (ids 0) (ids 1) (pj_id project) (rl_workflow_state d) (rl_current_step d)
                (Some (rl_operator_action d));
          c = (new_context (ids 0) (pj_id project) (rl_workflow_state d) (ids 1) actor_id)
            \<lparr>wx_metadata := relink_metadata project d []\<rparr>;
          db = db\<lparr>wd_workflows := wd_workflows db @ [w],
                 wd_contexts := wd_contexts db @ [new_context_row hs (ids 2) (ids 0) 1 c],
                 wd_transitions := wd_transitions db @ [relink_row (ids 3) 1 w None actor_id reason]\<rparr>
      in (w, engine_audit hs (ids 4) (ids 5) (pj_id project) EVENT_RELINKED ''human'' actor_id
           [(''workflow_id'', uuid_json (ids 0)), (''state'', JText (state_text (wi_state w))),
            (''reason'', JText reason), (''relink_reason'', JText (rl_relink_reason d)),
            (''advance_ready'', JBool (rl_advance_ready d)),
            (''decision_already_made'', JBool (rl_decision_already_made d))] db))"

definition relink_from ::
  "hashing \<Rightarrow> (nat \<Rightarrow> uuid) \<Rightarrow> timestamp \<Rightarrow> uuid \<Rightarrow> string \<Rightarrow> string \<Rightarrow>
   WorkflowInstanceModel option \<Rightarrow> workflow_db \<Rightarrow> engine_error + (WorkflowInstanceModel \<times> workflow_db)" where
  "relink_from hs ids now project_id actor_id reason existing db =
     (case existing of
        Some w \<Rightarrow>
          if wi_state w \<notin> {WorkflowState.FAILED, WorkflowState.EXECUTION_RUNNING} then Inr (w, db)
          else (case get_project project_id db of
                  None \<Rightarrow> Inl (WorkflowNotFoundError (''Project '' @ uuid_text project_id @ '' does not exist''))
                | Some project \<Rightarrow> relink_existing hs ids now actor_id reason project w db)
      | None \<Rightarrow>
          (case get_project project_id db of
             None \<Rightarrow> Inl (WorkflowNotFoundError (''Project '' @ uuid_text project_id @ '' does not exist''))
           | Some project \<Rightarrow>
               if workflow_of_project project_id db \<noteq> None
               then Inl (WorkflowIntegrityError ''workflow_instances.project_id'')
               else Inr (link_project hs ids actor_id reason project db)))"

definition relink_project ::
  "hashing \<Rightarrow> (nat \<Rightarrow> uuid) \<Rightarrow> timestamp \<Rightarrow> uuid \<Rightarrow> string \<Rightarrow> string \<Rightarrow> workflow_db \<Rightarrow>
   engine_error + (WorkflowInstanceModel \<times> workflow_db)" where
  "relink_project hs ids now project_id actor_id reason db =
     relink_from hs ids now project_id actor_id reason (workflow_of_project project_id db) db"

section \<open>Notification, failure, cancellation, history\<close>

definition notify :: "(nat \<Rightarrow> uuid) \<Rightarrow> timestamp \<Rightarrow> uuid \<Rightarrow> workflow_db \<Rightarrow> workflow_db" where
  "notify ids now project_id db = (case workflow_of_project project_id db of
     None \<Rightarrow> db
   | Some w \<Rightarrow> if workflow_terminal (wi_state w) then db else enqueue_advance (ids 0) now w db)"

definition engine_request ::
  "WorkflowState \<Rightarrow> WorkflowStepName option \<Rightarrow> string \<Rightarrow> bool \<Rightarrow> transition_request" where
  "engine_request state step reason checkpoint =
     \<lparr>tq_next_state = state, tq_step = step, tq_actor_type = ''system'',
      tq_actor_id = ''workflow-engine'', tq_reason = reason, tq_checkpoint = checkpoint\<rparr>"

definition dead_letter ::
  "hashing \<Rightarrow> (nat \<Rightarrow> uuid) \<Rightarrow> timestamp \<Rightarrow> uuid \<Rightarrow> string \<Rightarrow> workflow_db \<Rightarrow>
   engine_error + workflow_db" where
  "dead_letter hs ids now project_id error db = (case workflow_of_project project_id db of
     None \<Rightarrow> Inr db
   | Some w \<Rightarrow>
       if workflow_terminal (wi_state w) then Inr db
       else bind_result (load_context hs w db)
         (\<lambda>c. let w' = w\<lparr>wi_failure_code := Some ''STEP_RETRIES_EXHAUSTED'',
                       wi_failure_message := Some error,
                       wi_recommended_operator_action :=
                         Some ''Inspect the last checkpoint and retry manually''\<rparr>
            in bind_result
                 (append_transition hs ids now
                   (engine_request WorkflowState.FAILED None ''Job retry policy exhausted'' False)
                   c w' (save_workflow w w' db))
                 (\<lambda>(_, _, db'). Inr db')))"

definition cancel ::
  "hashing \<Rightarrow> (nat \<Rightarrow> uuid) \<Rightarrow> timestamp \<Rightarrow> uuid \<Rightarrow> string \<Rightarrow> string \<Rightarrow> workflow_db \<Rightarrow>
   engine_error + (WorkflowInstanceModel \<times> workflow_db)" where
  "cancel hs ids now workflow_id actor_id reason db =
     bind_result (get_workflow workflow_id db)
       (\<lambda>w. if wi_state w = WorkflowState.CANCELLED then Inr (w, db)
            else if workflow_terminal (wi_state w) then Inl (WorkflowConflictError (wi_state w))
            else bind_result (load_context hs w db) (\<lambda>c.
              bind_result
                (append_transition hs ids now
                  \<lparr>tq_next_state = WorkflowState.CANCELLING, tq_step = None, tq_actor_type = ''human'',
                   tq_actor_id = actor_id, tq_reason = reason, tq_checkpoint = False\<rparr>
                  (c\<lparr>wx_cancellation_requested := True\<rparr>) w db)
                (\<lambda>(c, w1, db). let w2 = w1\<lparr>wi_cancellation_requested_at := Some now\<rparr> in
                   bind_result
                     (append_transition hs (\<lambda>n. ids (n + 3)) now
                       (engine_request WorkflowState.CANCELLED None
                         ''Cancellation persisted; no active resource lease remains'' False)
                       c w2 (save_workflow w1 w2 db))
                     (\<lambda>(_, w3, db). Inr (w3,
                        engine_audit hs (ids 6) (ids 7) (wi_project_id w) EVENT_CANCELLED ''human''
                          actor_id
                          [(''workflow_id'', uuid_json (wi_id w)), (''reason'', JText reason),
                           (''correlation_id'', uuid_json (wi_correlation_id w))] db)))))"

definition history :: "uuid \<Rightarrow> workflow_db \<Rightarrow> engine_error + WorkflowTransitionModel list" where
  "history workflow_id db =
     bind_result (get_workflow workflow_id db)
       (\<lambda>_. Inr (sort_key wt_sequence (transitions_of workflow_id db)))"

end
