(* ===== verification/Workflow_Advance.thy ===== *)
theory Workflow_Advance
  imports Workflow_Engine
begin

text \<open>
  \<^verbatim>\<open>WorkflowService.advance\<close>: what a workflow does next is decided from its state, its context
  and the rows of the other components (\<open>plan\<close>). A plan moves the workflow, calls a service and
  then moves it, records what evidence is missing, or leaves it alone. \<open>configured\<close> tells
  whether the service was given the application settings.
\<close>

section \<open>Plans\<close>

datatype service_call =
    queue_requirements_run uuid
  | queue_architecture_run uuid
  | queue_work_package_planning uuid
  | request_execution uuid uuid string
  | request_review uuid uuid string

datatype advance_plan =
    Leave
  | Move WorkflowContext transition_request
  | Call service_call "uuid \<Rightarrow> WorkflowContext" transition_request
  | Incomplete "string list"

type_synonym services = "service_call \<Rightarrow> platform_db \<Rightarrow> engine_error + (uuid \<times> platform_db)"

definition call_service ::
  "bool \<Rightarrow> service_call \<Rightarrow> (uuid \<Rightarrow> WorkflowContext) \<Rightarrow> transition_request \<Rightarrow>
   engine_error + advance_plan" where
  "call_service configured call bound tq =
     (if \<not> configured then Inl (WorkflowRuntimeError ''Workflow advancement requires application settings'')
      else Inr (Call call bound tq))"

definition project_is :: "ProjectStatus \<Rightarrow> ProjectModel option \<Rightarrow> bool" where
  "project_is status project = (case project of
     None \<Rightarrow> False | Some p \<Rightarrow> pj_status p = project_status_text status)"

definition with_run :: "string \<Rightarrow> WorkflowContext \<Rightarrow> uuid \<Rightarrow> WorkflowContext" where
  "with_run name c run_id = c\<lparr>wx_run_ids := put name run_id (wx_run_ids c)\<rparr>"

definition with_execution :: "WorkflowContext \<Rightarrow> uuid \<Rightarrow> WorkflowContext" where
  "with_execution c execution_id = c\<lparr>wx_execution_id := Some execution_id\<rparr>"

definition with_review :: "WorkflowContext \<Rightarrow> uuid \<Rightarrow> WorkflowContext" where
  "with_review c review_id = c\<lparr>wx_review_id := Some review_id\<rparr>"

definition approved_package :: "uuid \<Rightarrow> platform_db \<Rightarrow> WorkPackageModel option" where
  "approved_package project_id p = first_by (\<lambda>k. - wp_created_at k)
     (filter (\<lambda>k. wp_project_id k = project_id \<and> wp_status k = ''approved'') (pd_packages p))"

definition plan_execution ::
  "bool \<Rightarrow> WorkflowInstanceModel \<Rightarrow> WorkflowContext \<Rightarrow> string \<Rightarrow> platform_db \<Rightarrow>
   engine_error + advance_plan" where
  "plan_execution configured w c reason p = (case approved_package (wi_project_id w) p of
     None \<Rightarrow> Inr Leave
   | Some package \<Rightarrow> call_service configured
       (request_execution (wi_project_id w) (wp_id package)
         (''workflow:'' @ uuid_text (wi_id w) @ '':execution''))
       (with_execution c)
       (engine_request WorkflowState.EXECUTION_RUNNING (Some EXECUTION) reason False))"

definition plan_review ::
  "bool \<Rightarrow> WorkflowInstanceModel \<Rightarrow> WorkflowContext \<Rightarrow> platform_db \<Rightarrow> engine_error + advance_plan" where
  "plan_review configured w c p =
     (case List.find (\<lambda>x. Some (xr_id x) = wx_execution_id c \<and> xr_status x = ''succeeded'')
        (pd_executions p) of
        None \<Rightarrow> Inr Leave
      | Some execution \<Rightarrow> call_service configured
          (request_review (wi_project_id w) (xr_id execution)
            (''workflow:'' @ uuid_text (wi_id w) @ '':review''))
          (with_review c)
          (engine_request PATCH_REVIEW_RUNNING (Some REVIEW) ''Execution and tests succeeded'' False))"

section \<open>Completion\<close>

definition type_names :: "(string \<times> string) list" where
  "type_names =
     [(''project_manifest'', ''manifest''), (''requirements_specification'', ''requirements''),
      (''architecture_specification'', ''architecture''), (''work_package'', ''work_package''),
      (''candidate-patch'', ''patch''), (''patch-review-report'', ''review'')]"

text \<open>A dictionary comprehension over the artifacts of known types: the last of a type wins.\<close>

definition by_type_name :: "(ArtifactModel \<Rightarrow> 'v) \<Rightarrow> ArtifactModel list \<Rightarrow> (string \<times> 'v) list" where
  "by_type_name value artifacts = fold
     (\<lambda>item d. case map_of type_names (am_artifact_type item) of
        None \<Rightarrow> d | Some name \<Rightarrow> put name (value item) d) artifacts []"

definition bound_approvals ::
  "(string \<times> uuid) list \<Rightarrow> ApprovalModel list \<Rightarrow> (string \<times> uuid) list \<Rightarrow> (string \<times> uuid) list" where
  "bound_approvals artifact_ids approvals d = fold
     (\<lambda>name d. case List.find (\<lambda>a. Some (ap_artifact_id a) = map_of artifact_ids name) approvals of
        None \<Rightarrow> d | Some a \<Rightarrow> put name (ap_id a) d)
     [''requirements'', ''architecture'', ''work_package''] d"

definition optional_link :: "string \<Rightarrow> string option \<Rightarrow> (string \<times> string) list" where
  "optional_link key value = (case value of None \<Rightarrow> [] | Some t \<Rightarrow> [(key, t)])"

definition execution_links :: "ExecutionRunModel \<Rightarrow> (string \<times> string) list" where
  "execution_links x =
     [(''execution:approval_id'', uuid_text (xr_approval_id x)),
      (''execution:work_package_id'', uuid_text (xr_work_package_id x)),
      (''execution:status'', xr_status x)] @
     optional_link ''execution:patch_artifact_id'' (map_option uuid_text (xr_patch_artifact_id x)) @
     optional_link ''execution:patch_sha256'' (xr_patch_sha256 x)"

definition review_links :: "PatchReviewRunModel \<Rightarrow> (string \<times> string) list" where
  "review_links r =
     [(''review:execution_id'', uuid_text (pr_execution_run_id r)),
      (''review:work_package_id'', uuid_text (pr_work_package_id r)),
      (''review:patch_artifact_id'', uuid_text (pr_patch_artifact_id r)),
      (''review:expected_patch_sha256'', pr_expected_patch_sha256 r),
      (''review:status'', pr_status r)] @
     optional_link ''review:actual_patch_sha256'' (pr_actual_patch_sha256 r) @
     optional_link ''review:report_artifact_id''
       (map_option uuid_text (pr_review_report_artifact_id r))"

definition integration_links :: "IntegrationAttemptModel \<Rightarrow> (string \<times> string) list" where
  "integration_links g =
     [(''integration:execution_id'', uuid_text (gm_execution_run_id g)),
      (''integration:approval_id'', uuid_text (gm_integration_approval_id g)),
      (''integration:project_id'', uuid_text (gm_project_id g)),
      (''integration:expected_patch_sha256'', gm_expected_patch_sha256 g),
      (''integration:expected_base_commit_sha'', gm_expected_base_commit_sha g),
      (''integration:expected_base_tree_sha'', gm_expected_base_tree_sha g),
      (''integration:status'', gm_status g)] @
     optional_link ''integration:actual_base_commit_sha'' (gm_actual_base_commit_sha g) @
     optional_link ''integration:actual_base_tree_sha'' (gm_actual_base_tree_sha g) @
     optional_link ''integration:resulting_tree_sha'' (gm_resulting_tree_sha g)"

definition commit_links :: "IntegrationCommitModel \<Rightarrow> (string \<times> string) list" where
  "commit_links k =
     [(''commit:integration_attempt_id'', uuid_text (ic_integration_attempt_id k)),
      (''commit:sha'', ic_commit_sha k), (''commit:tree_sha'', ic_tree_sha k),
      (''commit:parent_commit_sha'', ic_parent_commit_sha k),
      (''commit:remote_verified'', if ic_remote_verified k then ''true'' else ''false'')]"

definition links_of :: "('a \<Rightarrow> (string \<times> string) list) \<Rightarrow> 'a option \<Rightarrow> (string \<times> string) list" where
  "links_of f row = (case row of None \<Rightarrow> [] | Some x \<Rightarrow> f x)"

definition optional_row :: "('a \<Rightarrow> uuid) \<Rightarrow> uuid option \<Rightarrow> 'a list \<Rightarrow> 'a option" where
  "optional_row key i rows = (case i of None \<Rightarrow> None | Some i \<Rightarrow> get_row key i rows)"

definition completed_context ::
  "WorkflowInstanceModel \<Rightarrow> WorkflowContext \<Rightarrow> IntegrationCommitModel \<Rightarrow> platform_db \<Rightarrow> WorkflowContext" where
  "completed_context w c commit p =
     (let artifacts = filter (\<lambda>a. am_project_id a = wi_project_id w) (pd_artifacts p);
          artifact_ids = by_type_name am_id artifacts;
          approvals = filter (\<lambda>a. ap_project_id a = wi_project_id w) (pd_approvals p);
          approval_ids = bound_approvals artifact_ids approvals (wx_approval_ids c);
          attempt = optional_row gm_id (wx_integration_attempt_id c) (pd_integrations p);
          execution = optional_row xr_id (wx_execution_id c) (pd_executions p);
          review = optional_row pr_id (wx_review_id c) (pd_reviews p);
          approval_ids = (case attempt of None \<Rightarrow> approval_ids
            | Some g \<Rightarrow> put ''integration'' (gm_integration_approval_id g) approval_ids)
      in c\<lparr>wx_artifact_ids := artifact_ids,
           wx_artifact_hashes := by_type_name am_content_hash artifacts,
           wx_approval_ids := approval_ids,
           wx_evidence_links := put_all
             (links_of execution_links execution @ links_of review_links review @
              links_of integration_links attempt @ commit_links commit) (wx_evidence_links c),
           wx_commit_id := Some (ic_commit_sha commit)\<rparr>)"

definition plan_completion ::
  "WorkflowInstanceModel \<Rightarrow> WorkflowContext \<Rightarrow> platform_db \<Rightarrow> advance_plan" where
  "plan_completion w c p =
     (if wx_integration_attempt_id c = None then Leave
      else case List.find (\<lambda>k. Some (ic_integration_attempt_id k) = wx_integration_attempt_id c \<and>
             ic_remote_verified k) (pd_commits p) of
        None \<Rightarrow> Leave
      | Some commit \<Rightarrow>
          (let evidence = completed_context w c commit p;
               result = verify_completeness evidence
           in if cr_complete result
              then Move evidence (engine_request WorkflowState.COMPLETED (Some COMPLETENESS)
                ''All mandatory evidence and hashes are bound'' True)
              else Incomplete (cr_missing result)))"

section \<open>The decision\<close>

definition plan ::
  "bool \<Rightarrow> WorkflowInstanceModel \<Rightarrow> WorkflowContext \<Rightarrow> platform_db \<Rightarrow> engine_error + advance_plan" where
  "plan configured w c p =
     (let project = get_row pj_id (wi_project_id w) (pd_projects p);
          architecture = (\<lambda>reason. call_service configured (queue_architecture_run (wi_project_id w))
            (with_run ''architecture'' c)
            (engine_request WorkflowState.ARCHITECTURE_RUNNING (Some ARCHITECTURE) reason False));
          planning = (\<lambda>reason. call_service configured (queue_work_package_planning (wi_project_id w))
            (with_run ''planning'' c)
            (engine_request PLANNING_RUNNING (Some PLANNING) reason False))
      in case wi_state w of
        PROJECT_CREATED \<Rightarrow> call_service configured (queue_requirements_run (wi_project_id w))
          (with_run ''requirements'' c)
          (engine_request WorkflowState.REQUIREMENTS_RUNNING (Some REQUIREMENTS)
            ''Workflow execution started'' False)
      | WorkflowState.REQUIREMENTS_RUNNING \<Rightarrow>
          if project_is AWAITING_REQUIREMENTS_APPROVAL project
          then Inr (Move c (engine_request WAITING_REQUIREMENTS_APPROVAL (Some REQUIREMENTS)
            ''Requirements artifact awaits approval'' True))
          else if project_is REQUIREMENTS_APPROVED project
          then architecture ''Requirements approved by autonomy policy''
          else Inr Leave
      | WAITING_REQUIREMENTS_APPROVAL \<Rightarrow>
          if project_is REQUIREMENTS_APPROVED project then architecture ''Requirements approved''
          else Inr Leave
      | WorkflowState.ARCHITECTURE_RUNNING \<Rightarrow>
          if project_is AWAITING_ARCHITECTURE_APPROVAL project
          then Inr (Move c (engine_request WAITING_ARCHITECTURE_APPROVAL (Some ARCHITECTURE)
            ''Architecture artifact awaits approval'' True))
          else if project_is ARCHITECTURE_APPROVED project
          then planning ''Architecture approved by autonomy policy''
          else Inr Leave
      | WAITING_ARCHITECTURE_APPROVAL \<Rightarrow>
          if project_is ARCHITECTURE_APPROVED project then planning ''Architecture approved''
          else Inr Leave
      | PLANNING_RUNNING \<Rightarrow>
          if project_is AWAITING_WORK_PACKAGE_APPROVAL project
          then Inr (Move c (engine_request WAITING_WORK_PACKAGE_APPROVAL (Some PLANNING)
            ''Work package awaits approval'' True))
          else if project_is WORK_PACKAGE_APPROVED project
          then plan_execution configured w c ''Work package approved by autonomy policy'' p
          else Inr Leave
      | WAITING_WORK_PACKAGE_APPROVAL \<Rightarrow> plan_execution configured w c ''Work package approved'' p
      | WorkflowState.EXECUTION_RUNNING \<Rightarrow> plan_review configured w c p
      | PATCH_REVIEW_RUNNING \<Rightarrow>
          (case optional_row pr_id (wx_review_id c) (pd_reviews p) of
             None \<Rightarrow> Inr Leave
           | Some review \<Rightarrow>
               if pr_status review = ''accepted''
               then Inr (Move c (engine_request WAITING_INTEGRATION_APPROVAL (Some REVIEW)
                 ''Independent review accepted patch'' True))
               else Inr Leave)
      | WAITING_INTEGRATION_APPROVAL \<Rightarrow>
          (case first_by (\<lambda>g. - gm_created_at g)
             (filter (\<lambda>g. Some (gm_execution_run_id g) = wx_execution_id c) (pd_integrations p)) of
             None \<Rightarrow> Inr Leave
           | Some g \<Rightarrow> Inr (Move (c\<lparr>wx_integration_attempt_id := Some (gm_id g)\<rparr>)
               (engine_request WorkflowState.INTEGRATING (Some INTEGRATION)
                 ''Human integration approval consumed'' False)))
      | WorkflowState.INTEGRATING \<Rightarrow> Inr (plan_completion w c p)
      | _ \<Rightarrow> Inr Leave)"

section \<open>Advancing\<close>

definition begin_advance ::
  "hashing \<Rightarrow> bool \<Rightarrow> uuid \<Rightarrow> workflow_db \<Rightarrow> engine_error + (WorkflowInstanceModel \<times> advance_plan)" where
  "begin_advance hs configured workflow_id db =
     bind_result (get_workflow workflow_id db)
       (\<lambda>w. if workflow_terminal (wi_state w) \<or> wi_state w = WorkflowState.CANCELLING then Inr (w, Leave)
            else bind_result (load_context hs w db)
              (\<lambda>c. bind_result (plan configured w c (wd_platform db)) (\<lambda>next. Inr (w, next))))"

definition first_attempt :: "uuid \<Rightarrow> uuid \<Rightarrow> timestamp \<Rightarrow> WorkflowStepAttemptModel" where
  "first_attempt i workflow_id now =
     \<lparr>sa_id = i, sa_workflow_id = workflow_id, sa_step = REQUIREMENTS, sa_step_version = ''1.0'',
      sa_attempt = 1, sa_status = ''succeeded'',
      sa_policy = [(''max_attempts'', JInt 3), (''timeout_seconds'', JInt 300)],
      sa_started_at = Some now, sa_finished_at = Some now\<rparr>"

definition add_attempt :: "WorkflowStepAttemptModel \<Rightarrow> workflow_db \<Rightarrow> engine_error + workflow_db" where
  "add_attempt a db =
     (if list_ex (\<lambda>q. sa_workflow_id q = sa_workflow_id a \<and> sa_step q = sa_step a \<and>
           sa_attempt q = sa_attempt a) (wd_attempts db)
      then Inl (WorkflowIntegrityError ''uq_workflow_step_attempt'')
      else Inr (db\<lparr>wd_attempts := wd_attempts db @ [a]\<rparr>))"

definition finish_advance ::
  "hashing \<Rightarrow> (nat \<Rightarrow> uuid) \<Rightarrow> timestamp \<Rightarrow> WorkflowInstanceModel \<Rightarrow> WorkflowContext \<Rightarrow>
   transition_request \<Rightarrow> workflow_db \<Rightarrow> engine_error + (WorkflowInstanceModel \<times> workflow_db)" where
  "finish_advance hs ids now w c tq db =
     (if wi_state w = PROJECT_CREATED
      then bind_result (add_attempt (first_attempt (ids 3) (wi_id w) now) db)
        (\<lambda>db. bind_result (append_transition hs ids now tq c w db)
          (\<lambda>(_, w', db). Inr (w', engine_audit hs (ids 4) (ids 5) (wi_project_id w) EVENT_TRANSITIONED
             ''system'' ''workflow-engine''
             [(''workflow_id'', uuid_json (wi_id w)), (''state'', JText (state_text (wi_state w'))),
              (''correlation_id'', uuid_json (wi_correlation_id w))] db)))
      else bind_result (append_transition hs ids now tq c w db) (\<lambda>(_, w', db). Inr (w', db)))"

definition report_incomplete ::
  "string list \<Rightarrow> WorkflowInstanceModel \<Rightarrow> workflow_db \<Rightarrow> WorkflowInstanceModel \<times> workflow_db" where
  "report_incomplete missing w db =
     (let w' = w\<lparr>wi_failure_code := Some ''INCOMPLETE_AUDIT_EVIDENCE'',
                wi_failure_message := Some (join_with '', '' missing),
                wi_recommended_operator_action :=
                  Some ''Restore missing immutable evidence and retry completion''\<rparr>
      in (w', save_workflow w w' db))"

definition advance ::
  "hashing \<Rightarrow> services \<Rightarrow> bool \<Rightarrow> (nat \<Rightarrow> uuid) \<Rightarrow> timestamp \<Rightarrow> uuid \<Rightarrow> workflow_db \<Rightarrow>
   engine_error + (WorkflowInstanceModel \<times> workflow_db)" where
  "advance hs services configured ids now workflow_id db =
     bind_result (begin_advance hs configured workflow_id db)
       (\<lambda>(w, next). case next of
          Leave \<Rightarrow> Inr (w, db)
        | Move c tq \<Rightarrow> finish_advance hs ids now w c tq db
        | Incomplete missing \<Rightarrow> Inr (report_incomplete missing w db)
        | Call call bound tq \<Rightarrow>
            bind_result (services call (wd_platform db))
              (\<lambda>(result_id, p).
                 finish_advance hs ids now w (bound result_id) tq (db\<lparr>wd_platform := p\<rparr>)))"

end
