(* ===== verification/Workflow_History.thy ===== *)
theory Workflow_History
  imports Workflow_Advance
begin

text \<open>
  What the tables of a workflow say of it. \<open>recorded\<close>: the context versions count from one to
  the version of the workflow, each stored with its hash; the transitions are numbered in
  order, each starts where the one before ended, the last ends in the state of the workflow,
  and each is either a legal transition recorded with its policy evidence or the link of a
  project by a person. \<open>engine_inv\<close>: so for every workflow. \<open>read_earlier\<close>: a row that was read
  some time ago.
\<close>

section \<open>The record of one workflow\<close>

definition contexts_of :: "uuid \<Rightarrow> workflow_db \<Rightarrow> WorkflowContextModel list" where
  "contexts_of workflow_id db = filter (\<lambda>c. cw_workflow_id c = workflow_id) (wd_contexts db)"

definition permitted :: "WorkflowTransitionModel \<Rightarrow> bool" where
  "permitted t = (case wt_policy_evidence t of
     Some e \<Rightarrow> wt_previous_state t = Some (pe_from_state e) \<and> wt_current_state t = pe_to_state e \<and>
       workflow_step (pe_from_state e) (pe_to_state e)
   | None \<Rightarrow> wt_actor_type t = ''human'' \<and>
       wt_previous_state t \<in> {None, Some WorkflowState.FAILED, Some WorkflowState.EXECUTION_RUNNING})"

fun chained :: "WorkflowState option \<Rightarrow> WorkflowTransitionModel list \<Rightarrow> bool" where
  "chained s [] \<longleftrightarrow> True"
| "chained s (t # ts) \<longleftrightarrow>
     wt_previous_state t = s \<and> permitted t \<and> chained (Some (wt_current_state t)) ts"

definition begun :: "WorkflowContextModel list \<Rightarrow> WorkflowTransitionModel list \<Rightarrow> bool" where
  "begun cs ts \<longleftrightarrow>
     map cw_state cs = PROJECT_CREATED # map wt_current_state ts \<and> chained (Some PROJECT_CREATED) ts"

definition linked :: "WorkflowContextModel list \<Rightarrow> WorkflowTransitionModel list \<Rightarrow> bool" where
  "linked cs ts \<longleftrightarrow> map cw_state cs = map wt_current_state ts \<and> chained None ts"

definition sealed :: "hashing \<Rightarrow> WorkflowContextModel \<Rightarrow> bool" where
  "sealed hs c \<longleftrightarrow> cw_context_hash c = content_hash hs (cw_context c) \<and>
     cw_state c = wx_current_state (cw_context c)"

definition recorded ::
  "hashing \<Rightarrow> WorkflowInstanceModel \<Rightarrow> WorkflowContextModel list \<Rightarrow> WorkflowTransitionModel list \<Rightarrow> bool" where
  "recorded hs w cs ts \<longleftrightarrow>
     cs \<noteq> [] \<and> map cw_version cs = [1..int (length cs)] \<and> wi_context_version w = int (length cs) \<and>
     (\<forall>c\<in>set cs. sealed hs c) \<and> cw_state (last cs) = wi_state w \<and>
     map wt_sequence ts = [1..int (length ts)] \<and> (begun cs ts \<or> linked cs ts) \<and>
     (wi_state w = WorkflowState.COMPLETED \<longrightarrow> bound_evidence (cw_context (last cs)))"

lemma chained_snoc:
  "chained s (ts @ [t]) \<longleftrightarrow> chained s ts \<and> permitted t \<and>
     wt_previous_state t = (if ts = [] then s else Some (wt_current_state (last ts)))"
  by (induction ts arbitrary: s) auto

lemma upto_snoc: "[1..int (Suc n)] = [1..int n] @ [int n + 1]"
  using upto_rec2 [of 1 "int n + 1"] by (simp add: add.commute)

lemma recorded_ends:
  assumes "recorded hs w cs ts"
  shows "ts \<noteq> [] \<Longrightarrow> wt_current_state (last ts) = wi_state w"
    "ts = [] \<Longrightarrow> begun cs ts \<and> wi_state w = PROJECT_CREATED"
proof -
  have cs: "cs \<noteq> []" and l: "last (map cw_state cs) = wi_state w" and b: "begun cs ts \<or> linked cs ts"
    using assms by (auto simp: recorded_def last_map)
  show "wt_current_state (last ts) = wi_state w" if "ts \<noteq> []"
    using b l that by (auto simp: begun_def linked_def last_map)
  show "begun cs ts \<and> wi_state w = PROJECT_CREATED" if "ts = []"
    using b l that cs by (auto simp: begun_def linked_def)
qed

lemma recorded_snoc:
  assumes r: "recorded hs w cs ts"
    and row: "cw_version row = wi_context_version w + 1" "sealed hs row" "cw_state row = wi_state w'"
    and t: "wt_sequence t = int (length ts) + 1" "wt_previous_state t = Some (wi_state w)"
      "wt_current_state t = wi_state w'" "permitted t"
    and w': "wi_context_version w' = wi_context_version w + 1"
      "wi_state w' = WorkflowState.COMPLETED \<longrightarrow> bound_evidence (cw_context row)"
  shows "recorded hs w' (cs @ [row]) (ts @ [t])"
proof -
  have chain: "wt_previous_state t = (if ts = [] then s else Some (wt_current_state (last ts)))"
    if "s = Some PROJECT_CREATED \<or> ts \<noteq> []" for s
    using that recorded_ends [OF r] t(2) by auto
  have "begun (cs @ [row]) (ts @ [t]) \<or> linked (cs @ [row]) (ts @ [t])"
  proof (cases "begun cs ts")
    case True
    then show ?thesis using chain [of "Some PROJECT_CREATED"] t(3,4) row(3)
      by (simp add: begun_def chained_snoc)
  next
    case False
    then have "linked cs ts" "ts \<noteq> []" using r recorded_ends(2) [OF r] by (auto simp: recorded_def)
    then show ?thesis using chain [of None] t(3,4) row(3) by (simp add: linked_def chained_snoc)
  qed
  moreover have "map cw_version (cs @ [row]) = [1..int (length (cs @ [row]))]"
    "map wt_sequence (ts @ [t]) = [1..int (length (ts @ [t]))]"
    "wi_context_version w' = int (length (cs @ [row]))"
    using r row(1) t(1) w'(1) by (simp_all add: recorded_def upto_snoc del: of_nat_Suc)
  ultimately show ?thesis
    using r row(2,3) w'(2) unfolding recorded_def by (auto simp del: of_nat_Suc)
qed

text \<open>Every workflow but those linked again by a person follows the transition table.\<close>

definition never_relinked :: "WorkflowTransitionModel list \<Rightarrow> bool" where
  "never_relinked ts \<longleftrightarrow> (\<forall>t\<in>set ts. wt_policy_evidence t \<noteq> None)"

lemma chained_run:
  "chained (Some s) ts \<Longrightarrow> never_relinked ts \<Longrightarrow> legal_run workflow_step s (map wt_current_state ts)"
  by (induction ts arbitrary: s) (auto simp: never_relinked_def permitted_def)

lemma recorded_run:
  assumes r: "recorded hs w cs ts" and n: "never_relinked ts"
  shows "begun cs ts" "legal_run workflow_step PROJECT_CREATED (map wt_current_state ts)"
    "last (PROJECT_CREATED # map wt_current_state ts) = wi_state w"
proof -
  show b: "begun cs ts"
  proof (cases ts)
    case Nil
    then show ?thesis using recorded_ends(2) [OF r] by blast
  next
    case (Cons t ts')
    then have "wt_previous_state t \<noteq> None" if "linked cs ts"
      using n that by (auto simp: linked_def never_relinked_def permitted_def)
    moreover have "wt_previous_state t = None" if "linked cs ts"
      using Cons that by (simp add: linked_def)
    ultimately show ?thesis using r by (auto simp: recorded_def)
  qed
  show "legal_run workflow_step PROJECT_CREATED (map wt_current_state ts)"
    using b n by (auto simp: begun_def intro: chained_run)
  show "last (PROJECT_CREATED # map wt_current_state ts) = wi_state w"
    using recorded_ends [OF r] by (cases "ts = []") (auto simp: last_map)
qed

section \<open>The tables\<close>

definition names_context :: "workflow_db \<Rightarrow> WorkflowCheckpointModel \<Rightarrow> bool" where
  "names_context db k \<longleftrightarrow> (\<exists>c\<in>set (wd_contexts db). cw_workflow_id c = ck_workflow_id k \<and>
     cw_version c = ck_context_version k \<and> cw_context_hash c = ck_context_hash k)"

definition engine_inv :: "hashing \<Rightarrow> workflow_db \<Rightarrow> bool" where
  "engine_inv hs db \<longleftrightarrow> distinct (map wi_id (wd_workflows db)) \<and>
     cw_workflow_id ` set (wd_contexts db) \<subseteq> wi_id ` set (wd_workflows db) \<and>
     wt_workflow_id ` set (wd_transitions db) \<subseteq> wi_id ` set (wd_workflows db) \<and>
     (\<forall>k\<in>set (wd_checkpoints db). names_context db k) \<and>
     (\<forall>w\<in>set (wd_workflows db). recorded hs w (contexts_of (wi_id w) db) (transitions_of (wi_id w) db))"

definition read_earlier :: "WorkflowInstanceModel \<Rightarrow> workflow_db \<Rightarrow> bool" where
  "read_earlier w db \<longleftrightarrow> 0 < wi_context_version w \<and> (\<exists>r\<in>set (wd_workflows db). wi_id r = wi_id w \<and>
     wi_context_version w \<le> wi_context_version r \<and>
     (wi_context_version w = wi_context_version r \<longrightarrow> wi_state w = wi_state r))"

text \<open>Operations that leave the three tables alone, and those that only write other columns.\<close>

definition same_record :: "workflow_db \<Rightarrow> workflow_db \<Rightarrow> bool" where
  "same_record db db' \<longleftrightarrow>
     map (\<lambda>w. (wi_id w, wi_state w, wi_context_version w)) (wd_workflows db') =
     map (\<lambda>w. (wi_id w, wi_state w, wi_context_version w)) (wd_workflows db) \<and>
     wd_contexts db' = wd_contexts db \<and> wd_transitions db' = wd_transitions db \<and>
     wd_checkpoints db' = wd_checkpoints db"

lemma same_record_refl: "same_record db db"
  by (simp add: same_record_def)

lemma same_record_trans: "same_record a b \<Longrightarrow> same_record b c \<Longrightarrow> same_record a c"
  by (simp add: same_record_def)

lemma same_record_rows:
  assumes "same_record db db'"
  shows "w' \<in> set (wd_workflows db') \<Longrightarrow> \<exists>w\<in>set (wd_workflows db). wi_id w = wi_id w' \<and>
      wi_state w = wi_state w' \<and> wi_context_version w = wi_context_version w'"
    "w \<in> set (wd_workflows db) \<Longrightarrow> \<exists>w'\<in>set (wd_workflows db'). wi_id w = wi_id w' \<and>
      wi_state w = wi_state w' \<and> wi_context_version w = wi_context_version w'"
proof -
  have "set (map (\<lambda>w. (wi_id w, wi_state w, wi_context_version w)) (wd_workflows db')) =
      set (map (\<lambda>w. (wi_id w, wi_state w, wi_context_version w)) (wd_workflows db))"
    using assms unfolding same_record_def by metis
  then have s: "(\<lambda>w. (wi_id w, wi_state w, wi_context_version w)) ` set (wd_workflows db') =
      (\<lambda>w. (wi_id w, wi_state w, wi_context_version w)) ` set (wd_workflows db)"
    by simp
  show "\<exists>w\<in>set (wd_workflows db). wi_id w = wi_id w' \<and> wi_state w = wi_state w' \<and>
      wi_context_version w = wi_context_version w'" if "w' \<in> set (wd_workflows db')"
    using imageI [OF that, of "\<lambda>w. (wi_id w, wi_state w, wi_context_version w)"] unfolding s by auto
  show "\<exists>w'\<in>set (wd_workflows db'). wi_id w = wi_id w' \<and> wi_state w = wi_state w' \<and>
      wi_context_version w = wi_context_version w'" if "w \<in> set (wd_workflows db)"
    using imageI [OF that, of "\<lambda>w. (wi_id w, wi_state w, wi_context_version w)"] unfolding s [symmetric]
    by auto
qed

lemma same_record_ids:
  assumes "same_record db db'"
  shows "map wi_id (wd_workflows db') = map wi_id (wd_workflows db)"
proof -
  have "map fst (map (\<lambda>w. (wi_id w, wi_state w, wi_context_version w)) (wd_workflows db')) =
      map fst (map (\<lambda>w. (wi_id w, wi_state w, wi_context_version w)) (wd_workflows db))"
    using assms unfolding same_record_def by metis
  then show ?thesis by (simp add: comp_def)
qed

lemma recorded_cong:
  "recorded hs w cs ts \<Longrightarrow> wi_state w = wi_state w' \<Longrightarrow> wi_context_version w = wi_context_version w' \<Longrightarrow>
   recorded hs w' cs ts"
  by (simp add: recorded_def)

lemma engine_inv_same:
  assumes "engine_inv hs db" and s: "same_record db db'"
  shows "engine_inv hs db'"
proof -
  have i: "map wi_id (wd_workflows db') = map wi_id (wd_workflows db)" by (rule same_record_ids [OF s])
  then have "set (map wi_id (wd_workflows db')) = set (map wi_id (wd_workflows db))" by simp
  then have ii: "wi_id ` set (wd_workflows db') = wi_id ` set (wd_workflows db)" by simp
  have t: "contexts_of k db' = contexts_of k db" "transitions_of k db' = transitions_of k db" for k
    using s by (simp_all add: same_record_def contexts_of_def transitions_of_def)
  have "recorded hs w' (contexts_of (wi_id w') db) (transitions_of (wi_id w') db)"
    if w': "w' \<in> set (wd_workflows db')" for w'
  proof -
    obtain w where w: "w \<in> set (wd_workflows db)" "wi_id w = wi_id w'" "wi_state w = wi_state w'"
      "wi_context_version w = wi_context_version w'"
      using same_record_rows(1) [OF s w'] by blast
    then have "recorded hs w (contexts_of (wi_id w') db) (transitions_of (wi_id w') db)"
      using assms(1) w(1) unfolding engine_inv_def w(2) [symmetric] by blast
    then show ?thesis using w(3,4) by (rule recorded_cong)
  qed
  then show ?thesis
    using assms s unfolding engine_inv_def i ii t same_record_def names_context_def by simp
qed

lemma read_earlier_same:
  assumes "read_earlier w db" and "same_record db db'"
  shows "read_earlier w db'"
proof -
  obtain r where r: "r \<in> set (wd_workflows db)" "wi_id r = wi_id w"
    "wi_context_version w \<le> wi_context_version r"
    "wi_context_version w = wi_context_version r \<longrightarrow> wi_state w = wi_state r"
    using assms(1) by (auto simp: read_earlier_def)
  obtain r' where "r' \<in> set (wd_workflows db')" "wi_id r = wi_id r'" "wi_state r = wi_state r'"
    "wi_context_version r = wi_context_version r'"
    using same_record_rows(2) [OF assms(2) r(1)] by blast
  then have "\<exists>r\<in>set (wd_workflows db'). wi_id r = wi_id w \<and>
      wi_context_version w \<le> wi_context_version r \<and>
      (wi_context_version w = wi_context_version r \<longrightarrow> wi_state w = wi_state r)"
    using r by (intro bexI [of _ r']) auto
  then show ?thesis using assms(1) by (simp add: read_earlier_def)
qed

lemma read_now: "engine_inv hs db \<Longrightarrow> w \<in> set (wd_workflows db) \<Longrightarrow> read_earlier w db"
  by (auto simp: read_earlier_def engine_inv_def recorded_def)

lemma read_earlier_cong:
  "read_earlier w db \<Longrightarrow> wi_id w' = wi_id w \<Longrightarrow> wi_state w' = wi_state w \<Longrightarrow>
   wi_context_version w' = wi_context_version w \<Longrightarrow> read_earlier w' db"
  by (simp add: read_earlier_def)

lemma same_record_save:
  assumes "wi_state new = wi_state old" "wi_context_version new = wi_context_version old"
  shows "same_record db (save_workflow old new db)"
  using assms unfolding same_record_def save_workflow_def
  by (simp add: map_alter_same flush_columns_def changed_def)

lemma same_record_effects:
  "same_record db (db\<lparr>wd_platform := p\<rparr>)" "same_record db (on_platform f db)"
  "same_record db (engine_audit hs i j project e ty actor payload db)"
  "same_record db (enqueue_advance i now w db)"
  "same_record db (db\<lparr>wd_attempts := a\<rparr>)"
  by (simp_all add: same_record_def engine_audit_def on_platform_def enqueue_advance_def)

section \<open>A move\<close>

lemma context_row_None:
  "context_row i v db = None \<longleftrightarrow> v \<notin> cw_version ` set (contexts_of i db)"
  by (auto simp: context_row_def contexts_of_def find_None_iff)

text \<open>
  The unique version of a context: a move that is stored was made from the current row,
  however long ago it was read.
\<close>

lemma move_from_current:
  assumes inv: "engine_inv hs db" and re: "read_earlier w db"
    and fresh: "context_row (wi_id w) (wi_context_version w + 1) db = None"
  obtains r where "r \<in> set (wd_workflows db)" "wi_id r = wi_id w"
    "wi_context_version r = wi_context_version w" "wi_state r = wi_state w"
proof -
  obtain r where r: "r \<in> set (wd_workflows db)" "wi_id r = wi_id w" "0 < wi_context_version w"
    "wi_context_version w \<le> wi_context_version r"
    "wi_context_version w = wi_context_version r \<longrightarrow> wi_state w = wi_state r"
    using re by (auto simp: read_earlier_def)
  have rec: "recorded hs r (contexts_of (wi_id w) db) (transitions_of (wi_id w) db)"
    using inv r(1) unfolding engine_inv_def r(2) [symmetric] by blast
  then have "set (map cw_version (contexts_of (wi_id w) db)) = {1..wi_context_version r}"
    unfolding recorded_def by (metis set_upto)
  then have "wi_context_version w + 1 \<notin> {1..wi_context_version r}"
    using fresh by (simp add: context_row_None)
  then have "wi_context_version r = wi_context_version w" using r(3,4) by auto
  then show thesis using that r by simp
qed

definition saved_row ::
  "WorkflowInstanceModel \<Rightarrow> WorkflowInstanceModel \<Rightarrow> WorkflowInstanceModel \<Rightarrow> WorkflowInstanceModel" where
  "saved_row old new r = (if wi_id r = wi_id old then flush_columns old new r else r)"

lemma saved_workflows:
  "wd_workflows (save_workflow old new db) = map (saved_row old new) (wd_workflows db)"
  by (simp add: save_workflow_def alter_def saved_row_def)

lemma saved_row_id [simp]: "wi_id (saved_row old new r) = wi_id r"
  by (simp add: saved_row_def flush_columns_def)

definition stored_move ::
  "hashing \<Rightarrow> workflow_db \<Rightarrow> workflow_db \<Rightarrow> WorkflowInstanceModel \<Rightarrow> WorkflowInstanceModel \<Rightarrow>
   WorkflowContextModel \<Rightarrow> WorkflowTransitionModel \<Rightarrow> bool" where
  "stored_move hs db db' w w' row t \<longleftrightarrow>
     engine_inv hs db \<and> read_earlier w db \<and>
     context_row (wi_id w) (wi_context_version w + 1) db = None \<and>
     wd_workflows db' = map (saved_row w w') (wd_workflows db) \<and>
     wd_contexts db' = wd_contexts db @ [row] \<and> wd_transitions db' = wd_transitions db @ [t] \<and>
     (\<forall>k\<in>set (wd_checkpoints db'). k \<in> set (wd_checkpoints db) \<or> ck_workflow_id k = wi_id w \<and>
        ck_context_version k = cw_version row \<and> ck_context_hash k = cw_context_hash row) \<and>
     cw_workflow_id row = wi_id w \<and> cw_version row = wi_context_version w + 1 \<and>
     sealed hs row \<and> cw_state row = wi_state w' \<and>
     wt_workflow_id t = wi_id w \<and> wt_sequence t = next_sequence (wi_id w) db \<and>
     wt_previous_state t = Some (wi_state w) \<and> wt_current_state t = wi_state w' \<and> permitted t \<and>
     wi_id w' = wi_id w \<and> wi_context_version w' = wi_context_version w + 1 \<and>
     (wi_state w' = WorkflowState.COMPLETED \<longrightarrow> bound_evidence (cw_context row))"

lemma stored_moveD:
  assumes "stored_move hs db db' w w' row t"
  shows "engine_inv hs db" "read_earlier w db"
    "context_row (wi_id w) (wi_context_version w + 1) db = None"
    "wd_workflows db' = map (saved_row w w') (wd_workflows db)"
    "wd_contexts db' = wd_contexts db @ [row]" "wd_transitions db' = wd_transitions db @ [t]"
    "cw_workflow_id row = wi_id w" "cw_version row = wi_context_version w + 1"
    "sealed hs row" "cw_state row = wi_state w'"
    "wt_workflow_id t = wi_id w" "wt_sequence t = next_sequence (wi_id w) db"
    "wt_previous_state t = Some (wi_state w)" "wt_current_state t = wi_state w'" "permitted t"
    "wi_id w' = wi_id w" "wi_context_version w' = wi_context_version w + 1"
    "wi_state w' = WorkflowState.COMPLETED \<longrightarrow> bound_evidence (cw_context row)"
    "k \<in> set (wd_checkpoints db') \<Longrightarrow> k \<in> set (wd_checkpoints db) \<or> ck_workflow_id k = wi_id w \<and>
       ck_context_version k = cw_version row \<and> ck_context_hash k = cw_context_hash row"
  using assms unfolding stored_move_def by blast+

lemma moved_row:
  assumes m: "stored_move hs db db' w w' row t" and "r \<in> set (wd_workflows db)" "wi_id r = wi_id w"
  shows "wi_state r = wi_state w" "wi_context_version r = wi_context_version w"
    "wi_state (saved_row w w' r) = wi_state w'"
    "wi_context_version (saved_row w w' r) = wi_context_version w'"
proof -
  note move = stored_moveD [OF m]
  note inv = move(1) and re = move(2) and fresh = move(3) and workflows = move(4) and contexts = move(5)
    and transitions = move(6) and row = move(7-10) and t = move(11-15) and w' = move(16-18)
  obtain q where q: "q \<in> set (wd_workflows db)" "wi_id q = wi_id w"
    "wi_context_version q = wi_context_version w" "wi_state q = wi_state w"
    by (rule move_from_current [OF inv re fresh])
  have "r = q"
    using distinct_key_eq [of wi_id] inv assms(2,3) q(1,2) unfolding engine_inv_def by metis
  then show "wi_state r = wi_state w" "wi_context_version r = wi_context_version w"
    using q by simp_all
  then show "wi_state (saved_row w w' r) = wi_state w'"
    "wi_context_version (saved_row w w' r) = wi_context_version w'"
    using assms(3) by (simp_all add: saved_row_def flush_columns_def changed_def)
qed

lemma moved_row_record:
  assumes m: "stored_move hs db db' w w' row t" and r: "r \<in> set (wd_workflows db)"
  shows "recorded hs (saved_row w w' r) (contexts_of (wi_id r) db') (transitions_of (wi_id r) db')"
proof -
  note move = stored_moveD [OF m]
  note inv = move(1) and re = move(2) and fresh = move(3) and workflows = move(4) and contexts = move(5)
    and transitions = move(6) and row = move(7-10) and t = move(11-15) and w' = move(16-18)
  have rec: "recorded hs r (contexts_of (wi_id r) db) (transitions_of (wi_id r) db)"
    using inv r by (auto simp: engine_inv_def)
  show ?thesis
  proof (cases "wi_id r = wi_id w")
    case False
    then have "saved_row w w' r = r" by (simp add: saved_row_def)
    moreover have "contexts_of (wi_id r) db' = contexts_of (wi_id r) db"
      "transitions_of (wi_id r) db' = transitions_of (wi_id r) db"
      using False row(1) t(1) by (auto simp: contexts_of_def transitions_of_def contexts transitions)
    ultimately show ?thesis using rec by simp
  next
    case True
    note m = moved_row [OF m r True]
    have cs: "contexts_of (wi_id w) db' = contexts_of (wi_id w) db @ [row]"
      "transitions_of (wi_id w) db' = transitions_of (wi_id w) db @ [t]"
      using row(1) t(1) by (simp_all add: contexts_of_def transitions_of_def contexts transitions)
    show ?thesis unfolding True cs
    proof (rule recorded_snoc)
      show "recorded hs r (contexts_of (wi_id w) db) (transitions_of (wi_id w) db)"
        using rec unfolding True .
      show "wt_sequence t = int (length (transitions_of (wi_id w) db)) + 1"
        using t(2) by (simp add: next_sequence_def)
    qed (use row t w' m in simp_all)
  qed
qed

lemma ids_kept:
  assumes "stored_move hs db db' w w' row t"
  shows "wi_id ` set (wd_workflows db') = wi_id ` set (wd_workflows db)"
  by (simp add: stored_moveD(4) [OF assms] image_image)

lemma move_keeps_inv:
  assumes m: "stored_move hs db db' w w' row t"
  shows "engine_inv hs db'"
proof -
  note move = stored_moveD [OF m]
  note inv = move(1) and re = move(2) and fresh = move(3) and workflows = move(4) and contexts = move(5)
    and transitions = move(6) and row = move(7-10) and t = move(11-15) and w' = move(16-18)
  obtain q where q: "q \<in> set (wd_workflows db)" "wi_id q = wi_id w"
    by (rule move_from_current [OF inv re fresh])
  have "distinct (map wi_id (wd_workflows db'))"
    using inv by (simp add: engine_inv_def workflows comp_def)
  moreover have "\<forall>r\<in>set (wd_workflows db').
      recorded hs r (contexts_of (wi_id r) db') (transitions_of (wi_id r) db')"
    using moved_row_record [OF m] by (simp add: workflows)
  moreover have "\<forall>k\<in>set (wd_checkpoints db'). names_context db' k"
    using inv move(19) row(1) unfolding engine_inv_def names_context_def contexts by fastforce
  ultimately show ?thesis
    using inv row(1) t(1) imageI [OF q(1), of wi_id] unfolding engine_inv_def ids_kept [OF m] q(2)
    by (simp add: contexts transitions)
qed

lemma move_keeps_reads:
  assumes m: "stored_move hs db db' w w' row t" and p: "read_earlier p db"
  shows "read_earlier p db'"
proof -
  note move = stored_moveD [OF m]
  note inv = move(1) and re = move(2) and fresh = move(3) and workflows = move(4) and contexts = move(5)
    and transitions = move(6) and row = move(7-10) and t = move(11-15) and w' = move(16-18)
  obtain r where r: "r \<in> set (wd_workflows db)" "wi_id r = wi_id p"
    "wi_context_version p \<le> wi_context_version r"
    "wi_context_version p = wi_context_version r \<longrightarrow> wi_state p = wi_state r"
    using p by (auto simp: read_earlier_def)
  have "wi_context_version p \<le> wi_context_version (saved_row w w' r) \<and>
      (wi_context_version p = wi_context_version (saved_row w w' r) \<longrightarrow>
       wi_state p = wi_state (saved_row w w' r))"
  proof (cases "wi_id r = wi_id w")
    case True
    then show ?thesis using moved_row [OF m r(1) True] r(3) w'(2) by simp
  next
    case False
    then show ?thesis using r by (simp add: saved_row_def)
  qed
  then show ?thesis using p r(1,2) unfolding read_earlier_def workflows
    by (auto intro!: bexI [of _ r])
qed

lemma moved_is_current:
  assumes m: "stored_move hs db db' w w' row t"
  shows "read_earlier w' db'"
proof -
  note move = stored_moveD [OF m]
  note inv = move(1) and re = move(2) and fresh = move(3) and workflows = move(4) and contexts = move(5)
    and transitions = move(6) and row = move(7-10) and t = move(11-15) and w' = move(16-18)
  obtain q where q: "q \<in> set (wd_workflows db)" "wi_id q = wi_id w"
    by (rule move_from_current [OF inv re fresh])
  have "0 < wi_context_version w" using re by (simp add: read_earlier_def)
  then show ?thesis using moved_row [OF m q] q w' unfolding read_earlier_def workflows
    by (auto intro!: bexI [of _ q])
qed

end
