(* ===== verification/Workflow_Moves.thy ===== *)
theory Workflow_Moves
  imports Workflow_History
begin

text \<open>
  Every operation of the workflow engine keeps the record of the workflows, also when it writes a
  row that was read some time ago.
\<close>

section \<open>Operations keep the record\<close>

definition keeps :: "hashing \<Rightarrow> workflow_db \<Rightarrow> workflow_db \<Rightarrow> bool" where
  "keeps hs db db' \<longleftrightarrow> (engine_inv hs db \<longrightarrow>
     engine_inv hs db' \<and> (\<forall>p. read_earlier p db \<longrightarrow> read_earlier p db'))"

lemma keeps_refl: "keeps hs db db"
  by (simp add: keeps_def)

lemma keeps_trans: "keeps hs a b \<Longrightarrow> keeps hs b c \<Longrightarrow> keeps hs a c"
  by (simp add: keeps_def)

lemma keepsD:
  assumes "keeps hs db db'" "engine_inv hs db"
  shows "engine_inv hs db'" "read_earlier p db \<Longrightarrow> read_earlier p db'"
  using assms by (auto simp: keeps_def)

lemma keeps_same: "same_record db db' \<Longrightarrow> keeps hs db db'"
  by (simp add: keeps_def engine_inv_same read_earlier_same)

lemma keeps_move: "stored_move hs db db' w w' row t \<Longrightarrow> keeps hs db db'"
  by (simp add: keeps_def move_keeps_inv move_keeps_reads)

lemmas keeps_effects = same_record_effects [THEN keeps_same]

lemma record_move_Inr:
  assumes "record_move row t ks db = Inr db'"
  shows "context_row (cw_workflow_id row) (cw_version row) db = None"
    "db' = db\<lparr>wd_contexts := wd_contexts db @ [row], wd_transitions := wd_transitions db @ [t],
       wd_checkpoints := wd_checkpoints db @ ks\<rparr>"
  using assms unfolding record_move_def by (simp_all split: if_splits)

lemma bound_evidence_state [simp]:
  "bound_evidence (c\<lparr>wx_current_state := s\<rparr>) \<longleftrightarrow> bound_evidence c"
  by (simp add: bound_evidence_def link_def agree_def)

lemma classify_workflow_step: "Workflow.classify s t = Inr d \<Longrightarrow> workflow_step s t"
  by (simp add: workflow_step_def require_transition_def)

lemma append_transition_move:
  assumes a: "append_transition hs ids now tq c w db = Inr (c', w', db')"
    and inv: "engine_inv hs db" "read_earlier w db"
    and complete: "tq_next_state tq = WorkflowState.COMPLETED \<longrightarrow> bound_evidence c"
  shows "\<exists>row t. stored_move hs db db' w w' row t" "wi_id w' = wi_id w"
    "wi_state w' = tq_next_state tq" "c' = c\<lparr>wx_current_state := tq_next_state tq\<rparr>"
proof -
  let ?c = "c\<lparr>wx_current_state := tq_next_state tq\<rparr>"
  let ?row = "new_context_row hs (ids 0) (wi_id w) (wi_context_version w + 1) ?c"
  obtain d where d: "Workflow.classify (wi_state w) (tq_next_state tq) = Inr d"
    using a by (auto simp: append_transition_def split: sum.splits workflow_error.splits)
  let ?t = "transition_row hs (ids 1) (next_sequence (wi_id w) db) w d tq"
  obtain db1 where m: "record_move ?row ?t (checkpoint_rows (ids 2) w tq ?row) db = Inr db1"
    and r: "c' = ?c" "w' = moved_workflow now tq w" "db' = save_workflow w w' db1"
    using a by (auto simp: append_transition_def d Let_def result_simps)
  note rec = record_move_Inr [OF m]
  have ends: "wd_previous d = wi_state w" "wd_current d = tq_next_state tq"
    using classify_Inr_D [OF d] by simp_all
  have "permitted ?t"
    using classify_workflow_step [OF d]
    by (simp add: permitted_def transition_row_def policy_evidence_def Let_def ends)
  moreover have "wd_contexts db' = wd_contexts db @ [?row]" "wd_transitions db' = wd_transitions db @ [?t]"
    "wd_workflows db' = map (saved_row w w') (wd_workflows db)"
    by (simp_all add: r(3) rec(2) saved_workflows) (simp_all add: save_workflow_def)
  moreover have "\<forall>k\<in>set (wd_checkpoints db'). k \<in> set (wd_checkpoints db) \<or>
      ck_workflow_id k = wi_id w \<and> ck_context_version k = cw_version ?row \<and>
      ck_context_hash k = cw_context_hash ?row"
    by (auto simp: r(3) rec(2) save_workflow_def checkpoint_rows_def split: option.splits if_splits)
  ultimately have "stored_move hs db db' w w' ?row ?t"
    using rec(1) inv complete unfolding stored_move_def
    by (simp add: r(2) moved_workflow_def new_context_row_def transition_row_def sealed_def)
  then show "\<exists>row t. stored_move hs db db' w w' row t" by blast
  show "wi_id w' = wi_id w" "wi_state w' = tq_next_state tq" "c' = ?c"
    by (simp_all add: r moved_workflow_def)
qed

lemma append_transition_keeps:
  assumes "append_transition hs ids now tq c w db = Inr (c', w', db')"
    and "engine_inv hs db" "read_earlier w db"
    and "tq_next_state tq = WorkflowState.COMPLETED \<longrightarrow> bound_evidence c"
  shows "keeps hs db db'" "read_earlier w' db'"
proof -
  obtain row t where "stored_move hs db db' w w' row t"
    using append_transition_move(1) [OF assms] by blast
  then show "keeps hs db db'" "read_earlier w' db'" by (rule keeps_move, rule moved_is_current)
qed

lemma finish_advance_keeps:
  assumes f: "finish_advance hs ids now w c tq db = Inr (w', db')"
    and inv: "engine_inv hs db" "read_earlier w db"
    and c: "tq_next_state tq = WorkflowState.COMPLETED \<longrightarrow> bound_evidence c"
  shows "keeps hs db db'"
proof (cases "wi_state w = PROJECT_CREATED")
  case True
  then obtain db1 c2 db2 where d: "add_attempt (first_attempt (ids 3) (wi_id w) now) db = Inr db1"
    "append_transition hs ids now tq c w db1 = Inr (c2, w', db2)"
    and e: "\<exists>payload. db' = engine_audit hs (ids 4) (ids 5) (wi_project_id w) EVENT_TRANSITIONED
      ''system'' ''workflow-engine'' payload db2"
    using f by (auto simp: finish_advance_def result_simps)
  have 1: "keeps hs db db1"
    using d(1) keeps_effects(5) by (auto simp: add_attempt_def split: if_splits)
  then have 2: "keeps hs db1 db2"
    by (intro append_transition_keeps(1) [OF d(2) _ _ c]) (use keepsD inv in blast)+
  show ?thesis using e keeps_trans [OF 1 keeps_trans [OF 2 keeps_effects(3)]] by blast
next
  case False
  then obtain c2 where "append_transition hs ids now tq c w db = Inr (c2, w', db')"
    using f by (auto simp: finish_advance_def result_simps)
  then show ?thesis by (rule append_transition_keeps(1) [OF _ inv c])
qed

section \<open>What is planned\<close>

lemma plan_next:
  assumes "plan configured w c p = Inr next"
  shows "next = Move c' tq \<Longrightarrow> tq_next_state tq = WorkflowState.COMPLETED \<Longrightarrow> bound_evidence c'"
    "next = Call call bound tq \<Longrightarrow> tq_next_state tq \<noteq> WorkflowState.COMPLETED"
proof -
  show "bound_evidence c'" if "next = Move c' tq" "tq_next_state tq = WorkflowState.COMPLETED"
  proof (cases "wi_state w = WorkflowState.INTEGRATING")
    case True
    then have "plan_completion w c p = Move c' tq" using assms that(1) by (simp add: plan_def)
    then show ?thesis
      by (auto simp: plan_completion_def Let_def verify_completeness_iff split: if_splits option.splits)
  next
    case False
    then show ?thesis using assms that
      by (cases "wi_state w")
        (auto simp: plan_def Let_def call_service_def plan_execution_def plan_review_def
          engine_request_def split: if_splits option.splits)
  qed
  show "tq_next_state tq \<noteq> WorkflowState.COMPLETED" if "next = Call call bound tq"
    using assms that
    by (cases "wi_state w")
      (auto simp: plan_def Let_def call_service_def plan_execution_def plan_review_def
        plan_completion_def engine_request_def split: if_splits option.splits)
qed

lemma begin_advance_next:
  assumes b: "begin_advance hs configured i db = Inr (w, next)" and inv: "engine_inv hs db"
  shows "read_earlier w db"
    "next = Move c tq \<Longrightarrow> tq_next_state tq = WorkflowState.COMPLETED \<Longrightarrow> bound_evidence c"
    "next = Call call bound tq \<Longrightarrow> tq_next_state tq \<noteq> WorkflowState.COMPLETED"
proof -
  obtain r where g: "get_workflow i db = Inr r" and rest: "r = w \<and> (next = Leave \<or>
      (\<exists>c p. plan configured w c p = Inr next))"
    using b by (auto simp: begin_advance_def result_simps split: if_splits)
  have "w \<in> set (wd_workflows db)"
    using g rest by (auto simp: get_workflow_def get_row_def split: option.splits dest: find_Some_D)
  then show "read_earlier w db" by (rule read_now [OF inv])
  show "bound_evidence c" if "next = Move c tq" "tq_next_state tq = WorkflowState.COMPLETED"
    using rest plan_next(1) that by blast
  show "tq_next_state tq \<noteq> WorkflowState.COMPLETED" if "next = Call call bound tq"
    using rest plan_next(2) that by blast
qed

lemma report_incomplete_keeps: "keeps hs db (snd (report_incomplete missing w db))"
  by (simp add: report_incomplete_def Let_def keeps_same same_record_save)

lemma advance_keeps:
  assumes a: "advance hs services configured ids now i db = Inr (w', db')" and inv: "engine_inv hs db"
  shows "keeps hs db db'"
proof -
  obtain w "next" where b: "begin_advance hs configured i db = Inr (w, next)"
    using a by (auto simp: advance_def result_simps)
  note n = begin_advance_next [OF b inv]
  show ?thesis
  proof (cases "next")
    case Leave
    then show ?thesis using a b by (simp add: advance_def keeps_refl)
  next
    case (Move c tq)
    then show ?thesis using a b n(2)
      by (auto simp: advance_def intro: finish_advance_keeps [OF _ inv n(1)])
  next
    case (Incomplete missing)
    then show ?thesis using a b report_incomplete_keeps [of hs db missing w] by (simp add: advance_def)
  next
    case (Call call bound tq)
    then obtain k p where f: "finish_advance hs ids now w (bound k) tq (db\<lparr>wd_platform := p\<rparr>) = Inr (w', db')"
      using a b by (auto simp: advance_def result_simps)
    note p = keepsD [OF keeps_effects(1) inv]
    show ?thesis
      by (rule keeps_trans [OF keeps_effects(1) finish_advance_keeps [OF f p(1) p(2) [OF n(1)]]])
        (use n(3) [OF Call] in simp)
  qed
qed

section \<open>New workflows\<close>

lemma recorded_new:
  assumes "wi_context_version w = 1" "cw_version row = 1" "sealed hs row" "cw_state row = wi_state w"
    "wi_state w \<noteq> WorkflowState.COMPLETED"
  shows "wi_state w = PROJECT_CREATED \<Longrightarrow> recorded hs w [row] []"
    "wt_sequence t = 1 \<Longrightarrow> wt_previous_state t = None \<Longrightarrow> wt_policy_evidence t = None \<Longrightarrow>
     wt_actor_type t = ''human'' \<Longrightarrow> wt_current_state t = wi_state w \<Longrightarrow> recorded hs w [row] [t]"
  using assms by (simp_all add: recorded_def begun_def linked_def permitted_def)

lemma new_workflow_keeps:
  assumes new: "wi_id w \<notin> wi_id ` set (wd_workflows db)"
    and db': "wd_workflows db' = wd_workflows db @ [w]" "wd_contexts db' = wd_contexts db @ [row]"
      "wd_transitions db' = wd_transitions db @ ts" "wd_checkpoints db' = wd_checkpoints db"
    and own: "cw_workflow_id row = wi_id w" "\<forall>t\<in>set ts. wt_workflow_id t = wi_id w"
    and rec: "recorded hs w [row] ts"
  shows "keeps hs db db'"
proof -
  have "engine_inv hs db'" if inv: "engine_inv hs db"
  proof -
    have "wi_id w \<notin> cw_workflow_id ` set (wd_contexts db)"
      "wi_id w \<notin> wt_workflow_id ` set (wd_transitions db)"
      using inv new unfolding engine_inv_def by blast+
    then have none: "contexts_of (wi_id w) db = []" "transitions_of (wi_id w) db = []"
      by (auto simp: contexts_of_def transitions_of_def filter_empty_conv image_iff)
    have its: "contexts_of (wi_id w) db' = [row]" "transitions_of (wi_id w) db' = ts"
      using none own by (simp_all add: contexts_of_def transitions_of_def db')
    have others: "contexts_of (wi_id r) db' = contexts_of (wi_id r) db"
      "transitions_of (wi_id r) db' = transitions_of (wi_id r) db" if "r \<in> set (wd_workflows db)" for r
    proof -
      have "wi_id r \<noteq> wi_id w" using new that by (metis imageI)
      then show "contexts_of (wi_id r) db' = contexts_of (wi_id r) db"
        "transitions_of (wi_id r) db' = transitions_of (wi_id r) db"
        using own by (auto simp: contexts_of_def transitions_of_def db' filter_empty_conv)
    qed
    show ?thesis using inv new rec own unfolding engine_inv_def
      by (auto simp: db' its others names_context_def)
  qed
  moreover have "read_earlier p db'" if "read_earlier p db" for p
    using that by (auto simp: read_earlier_def db')
  ultimately show ?thesis by (simp add: keeps_def)
qed

lemma start_keeps:
  assumes s: "start hs ids now project_id actor_id db = Inr (w, db')"
    and new: "ids 0 \<notin> wi_id ` set (wd_workflows db)"
  shows "keeps hs db db'"
proof (cases "workflow_of_project project_id db")
  case (Some r)
  then show ?thesis using s by (simp add: start_def keeps_refl)
next
  case None
  let ?w = "new_workflow (ids 0) (ids 1) project_id PROJECT_CREATED None None"
  let ?row = "new_context_row hs (ids 2) (ids 0) 1
    (new_context (ids 0) project_id PROJECT_CREATED (ids 1) actor_id)"
  let ?db = "db\<lparr>wd_workflows := wd_workflows db @ [?w], wd_contexts := wd_contexts db @ [?row]\<rparr>"
  have "keeps hs db ?db"
    by (rule new_workflow_keeps [where w = ?w and row = ?row and ts = "[]"])
      (use new in \<open>simp_all add: new_workflow_def new_context_row_def new_context_def recorded_new sealed_def\<close>)
  moreover have "keeps hs ?db db'"
    using s None keeps_trans [OF keeps_effects(3) keeps_effects(4)]
    by (auto simp: start_def Let_def split: option.splits)
  ultimately show ?thesis by (rule keeps_trans)
qed

lemma relink_state_open: "rl_workflow_state (relink_for_status st) \<noteq> WorkflowState.COMPLETED"
  by (cases st) (simp_all add: relink_decision_def)

lemma relink_decision_open:
  "rl_workflow_state (workflow_relink_decision_for_project hs project) \<noteq> WorkflowState.COMPLETED"
  unfolding workflow_relink_decision_for_project_def
  by (simp add: relink_state_open relink_decision_def split: option.split)

lemma link_project_keeps:
  assumes new: "ids 0 \<notin> wi_id ` set (wd_workflows db)"
  shows "keeps hs db (snd (link_project hs ids actor_id reason project db))"
proof -
  let ?d = "workflow_relink_decision_for_project hs project"
  let ?w = "new_workflow (ids 0) (ids 1) (pj_id project) (rl_workflow_state ?d) (rl_current_step ?d)
    (Some (rl_operator_action ?d))"
  let ?row = "new_context_row hs (ids 2) (ids 0) 1 ((new_context (ids 0) (pj_id project)
    (rl_workflow_state ?d) (ids 1) actor_id)\<lparr>wx_metadata := relink_metadata project ?d []\<rparr>)"
  let ?t = "relink_row (ids 3) 1 ?w None actor_id reason"
  let ?db = "db\<lparr>wd_workflows := wd_workflows db @ [?w], wd_contexts := wd_contexts db @ [?row],
    wd_transitions := wd_transitions db @ [?t]\<rparr>"
  have "recorded hs ?w [?row] [?t]"
    using relink_decision_open
    by (intro recorded_new(2)) (simp_all add: new_workflow_def new_context_row_def new_context_def
        sealed_def relink_row_def)
  then have "keeps hs db ?db"
    by (intro new_workflow_keeps [where w = ?w and row = ?row and ts = "[?t]"])
      (use new in \<open>simp_all add: new_workflow_def new_context_row_def relink_row_def\<close>)
  then show ?thesis using keeps_trans [OF _ keeps_effects(3)] by (simp add: link_project_def Let_def)
qed

section \<open>Relinking, failure, cancellation\<close>

lemma relink_announced_keeps:
  "keeps hs db (relink_announced hs' ids now actor_id reason d recovered w w' db)"
  using keeps_effects(3) keeps_trans [OF keeps_effects(3) keeps_effects(4)]
  by (simp add: relink_announced_def Let_def)

lemma recovered_point_open:
  "fst (recovered_point (workflow_relink_decision_for_project hs project) execution review)
    \<noteq> WorkflowState.COMPLETED"
  using relink_decision_open [of hs project] by (simp add: recovered_point_def)

lemma relink_existing_keeps:
  assumes r: "relink_existing hs ids now actor_id reason project w db = Inr (w', db')"
    and state: "wi_state w \<in> {WorkflowState.FAILED, WorkflowState.EXECUTION_RUNNING}"
    and inv: "engine_inv hs db" "read_earlier w db"
  shows "keeps hs db db'"
proof -
  define d where "d = workflow_relink_decision_for_project hs project"
  define execution where "execution = recovered_execution project (wd_platform db)"
  define review where "review = recovered_review execution (wd_platform db)"
  define row where "row = new_context_row hs (ids 0) (wi_id w) (wi_context_version w')
    (relinked_context d execution review actor_id project w)"
  define t where "t = relink_row (ids 1) (next_sequence (wi_id w) db) w' (Some (wi_state w)) actor_id reason"
  obtain db1 where w': "w' = relinked_workflow d (recovered_point d execution review) w"
    and m: "record_move row t [] db = Inr db1"
    and db': "db' = relink_announced hs ids now actor_id reason d (execution \<noteq> None) w w'
      (save_workflow w w' db1)"
    using r by (auto simp: relink_existing_def Let_def result_simps row_def t_def d_def execution_def
        review_def)
  note rec = record_move_Inr [OF m]
  have "wi_state w' \<noteq> WorkflowState.COMPLETED"
    using recovered_point_open by (simp add: w' relinked_workflow_def d_def)
  moreover have "wi_id w' = wi_id w" "wi_context_version w' = wi_context_version w + 1"
    by (simp_all add: w' relinked_workflow_def)
  moreover have "cw_workflow_id row = wi_id w" "cw_version row = wi_context_version w'"
    "sealed hs row" "cw_state row = wi_state w'"
    by (simp_all add: row_def new_context_row_def sealed_def relinked_context_def new_context_def w'
        relinked_workflow_def)
  moreover have "wt_workflow_id t = wi_id w" "wt_sequence t = next_sequence (wi_id w) db"
    "wt_previous_state t = Some (wi_state w)" "wt_current_state t = wi_state w'" "permitted t"
    using state by (simp_all add: t_def relink_row_def permitted_def w' relinked_workflow_def)
  ultimately have "stored_move hs db (save_workflow w w' db1) w w' row t"
    using rec(1) inv unfolding stored_move_def saved_workflows
    by (simp add: rec(2)) (simp add: save_workflow_def)
  then show ?thesis
    unfolding db' by (rule keeps_trans [OF keeps_move relink_announced_keeps])
qed

lemma relink_from_keeps:
  assumes r: "relink_from hs ids now project_id actor_id reason existing db = Inr (w', db')"
    and new: "ids 0 \<notin> wi_id ` set (wd_workflows db)"
    and inv: "engine_inv hs db" "\<And>w. existing = Some w \<Longrightarrow> read_earlier w db"
  shows "keeps hs db db'"
proof (cases existing)
  case None
  then obtain project where "link_project hs ids actor_id reason project db = (w', db')"
    using r by (auto simp: relink_from_def split: option.splits if_splits)
  then show ?thesis using link_project_keeps [where ids = ids and db = db, OF new, of hs actor_id reason project] by simp
next
  case (Some w)
  show ?thesis
  proof (cases "wi_state w \<in> {WorkflowState.FAILED, WorkflowState.EXECUTION_RUNNING}")
    case True
    then obtain project where "relink_existing hs ids now actor_id reason project w db = Inr (w', db')"
      using r Some by (auto simp: relink_from_def split: option.splits)
    then show ?thesis using True inv(1) inv(2) [OF Some] by (rule relink_existing_keeps)
  next
    case False
    then show ?thesis using r Some by (simp add: relink_from_def keeps_refl)
  qed
qed

lemma dead_letter_keeps:
  assumes d: "dead_letter hs ids now project_id error db = Inr db'" and inv: "engine_inv hs db"
  shows "keeps hs db db'"
proof (cases "\<exists>w. workflow_of_project project_id db = Some w \<and> \<not> workflow_terminal (wi_state w)")
  case False
  then have "db' = db" using d by (auto simp: dead_letter_def split: option.splits if_splits)
  then show ?thesis by (simp add: keeps_refl)
next
  case True
  then obtain w where w: "workflow_of_project project_id db = Some w"
    "\<not> workflow_terminal (wi_state w)" by blast
  define w1 where "w1 = w\<lparr>wi_failure_code := Some ''STEP_RETRIES_EXHAUSTED'',
    wi_failure_message := Some error, wi_recommended_operator_action :=
      Some ''Inspect the last checkpoint and retry manually''\<rparr>"
  then have w1: "wi_id w1 = wi_id w" "wi_state w1 = wi_state w"
    "wi_context_version w1 = wi_context_version w" by simp_all
  obtain c c2 w2 where a: "append_transition hs ids now (engine_request WorkflowState.FAILED None
      ''Job retry policy exhausted'' False) c w1 (save_workflow w w1 db) = Inr (c2, w2, db')"
    using d w by (auto simp: dead_letter_def Let_def result_simps w1_def)
  have "w \<in> set (wd_workflows db)"
    using w(1) by (auto simp: workflow_of_project_def get_row_def dest: find_Some_D)
  then have "read_earlier w1 db" using read_earlier_cong [OF read_now [OF inv]] w1 by blast
  moreover have k: "keeps hs db (save_workflow w w1 db)"
    by (rule keeps_same, rule same_record_save) (simp_all add: w1)
  ultimately have "keeps hs (save_workflow w w1 db) db'"
    using keepsD [OF k inv] by (intro append_transition_keeps(1) [OF a]) (simp_all add: engine_request_def)
  with k show ?thesis by (rule keeps_trans)
qed

lemma cancel_keeps:
  assumes c: "cancel hs ids now workflow_id actor_id reason db = Inr (w', db')" and inv: "engine_inv hs db"
  shows "keeps hs db db'"
proof -
  obtain w where g: "get_workflow workflow_id db = Inr w"
    using c by (auto simp: cancel_def result_simps)
  have here: "w \<in> set (wd_workflows db)"
    using g by (auto simp: get_workflow_def get_row_def split: option.splits dest: find_Some_D)
  show ?thesis
  proof (cases "wi_state w = WorkflowState.CANCELLED")
    case True
    then show ?thesis using c by (simp add: cancel_def g keeps_refl)
  next
    case False
    define tq where "tq = \<lparr>tq_next_state = WorkflowState.CANCELLING, tq_step = None,
      tq_actor_type = ''human'', tq_actor_id = actor_id, tq_reason = reason, tq_checkpoint = False\<rparr>"
    define tq2 where "tq2 = engine_request WorkflowState.CANCELLED None
      ''Cancellation persisted; no active resource lease remains'' False"
    have tq: "tq_next_state tq \<noteq> WorkflowState.COMPLETED" "tq_next_state tq2 \<noteq> WorkflowState.COMPLETED"
      by (simp_all add: tq_def tq2_def engine_request_def)
    from c g False obtain x c1 w1 db1 c2 db2 payload
      where a: "append_transition hs ids now tq x w db = Inr (c1, w1, db1)"
        and b: "append_transition hs (\<lambda>n. ids (n + 3)) now tq2 c1
          (w1\<lparr>wi_cancellation_requested_at := Some now\<rparr>)
          (save_workflow w1 (w1\<lparr>wi_cancellation_requested_at := Some now\<rparr>) db1) = Inr (c2, w', db2)"
        and e: "db' = engine_audit hs (ids 6) (ids 7) (wi_project_id w) EVENT_CANCELLED ''human''
          actor_id payload db2"
      by (auto simp: cancel_def result_simps Let_def tq_def [symmetric] tq2_def [symmetric] split: if_splits)
    define w2 where "w2 = w1\<lparr>wi_cancellation_requested_at := Some now\<rparr>"
    then have w2: "wi_id w2 = wi_id w1" "wi_state w2 = wi_state w1"
      "wi_context_version w2 = wi_context_version w1" by simp_all
    note b = b [folded w2_def]
    have a1: "keeps hs db db1" "read_earlier w1 db1"
      by (rule append_transition_keeps [OF a inv read_now [OF inv here]], use tq in simp)+
    have s: "keeps hs db1 (save_workflow w1 w2 db1)"
      by (rule keeps_same, rule same_record_save) (simp_all add: w2)
    note inv1 = keepsD(1) [OF a1(1) inv]
    have r2: "read_earlier w2 db1" using read_earlier_cong [OF a1(2)] w2 by blast
    have "keeps hs (save_workflow w1 w2 db1) db2"
      by (rule append_transition_keeps(1) [OF b keepsD(1) [OF s inv1] keepsD(2) [OF s inv1 r2]])
        (use tq in simp)
    then show ?thesis unfolding e using a1(1) s keeps_effects(3) keeps_trans by metis
  qed
qed

lemma notify_keeps: "keeps hs db (notify ids now project_id db)"
  by (simp add: notify_def keeps_refl keeps_effects split: option.split)

end
