(* ===== verification/Workflow_System.thy ===== *)
theory Workflow_System
  imports Workflow_Moves
begin

text \<open>
  The workflow engine under concurrency. The state of the system is the tables and the reads
  that are waiting to be written: \<open>advance\<close> releases its lock when the service it calls commits,
  \<open>relink_project\<close> takes none. A read may be written late, never, or more than once; between,
  every other operation may run, and the rows of the other components may change in any way.
  A failed operation is rolled back and is no step. A new identifier is not the identifier of a
  workflow yet.
\<close>

section \<open>The system\<close>

datatype engine_read =
    Advancing WorkflowInstanceModel WorkflowContext transition_request
  | Relinking uuid "WorkflowInstanceModel option"

record engine_system =
  es_db :: workflow_db
  es_reads :: "engine_read list"

definition unused_id :: "uuid \<Rightarrow> workflow_db \<Rightarrow> bool" where
  "unused_id i db \<longleftrightarrow> i \<notin> set (map wi_id (wd_workflows db))"

inductive db_step :: "hashing \<Rightarrow> workflow_db \<Rightarrow> workflow_db \<Rightarrow> bool" for hs where
  platform: "db_step hs db (db\<lparr>wd_platform := p\<rparr>)"
| started: "start hs ids now project_id actor_id db = Inr (w, db') \<Longrightarrow> unused_id (ids 0) db \<Longrightarrow>
    db_step hs db db'"
| advanced: "advance hs services configured ids now i db = Inr (w, db') \<Longrightarrow> db_step hs db db'"
| cancelled: "cancel hs ids now i actor_id reason db = Inr (w, db') \<Longrightarrow> db_step hs db db'"
| dead: "dead_letter hs ids now project_id error db = Inr db' \<Longrightarrow> db_step hs db db'"
| notified: "db_step hs db (notify ids now project_id db)"

inductive engine_step :: "hashing \<Rightarrow> engine_system \<Rightarrow> engine_system \<Rightarrow> bool" for hs where
  whole: "db_step hs db db' \<Longrightarrow>
    engine_step hs \<lparr>es_db = db, es_reads = rs\<rparr> \<lparr>es_db = db', es_reads = rs\<rparr>"
| called: "begin_advance hs configured i db = Inr (w, Call call bound tq) \<Longrightarrow>
    engine_step hs \<lparr>es_db = db, es_reads = rs\<rparr>
      \<lparr>es_db = db\<lparr>wd_platform := p\<rparr>, es_reads = Advancing w (bound result_id) tq # rs\<rparr>"
| finished: "Advancing w c tq \<in> set rs \<Longrightarrow> finish_advance hs ids now w c tq db = Inr (w', db') \<Longrightarrow>
    engine_step hs \<lparr>es_db = db, es_reads = rs\<rparr> \<lparr>es_db = db', es_reads = rs\<rparr>"
| looked_up: "engine_step hs \<lparr>es_db = db, es_reads = rs\<rparr>
    \<lparr>es_db = db, es_reads = Relinking project_id (workflow_of_project project_id db) # rs\<rparr>"
| relinked: "Relinking project_id existing \<in> set rs \<Longrightarrow>
    relink_from hs ids now project_id actor_id reason existing db = Inr (w', db') \<Longrightarrow>
    unused_id (ids 0) db \<Longrightarrow>
    engine_step hs \<lparr>es_db = db, es_reads = rs\<rparr> \<lparr>es_db = db', es_reads = rs\<rparr>"

definition initial_engine :: "engine_system \<Rightarrow> bool" where
  "initial_engine s \<longleftrightarrow> wd_workflows (es_db s) = [] \<and> wd_contexts (es_db s) = [] \<and>
     wd_transitions (es_db s) = [] \<and> wd_checkpoints (es_db s) = [] \<and>
     wd_attempts (es_db s) = [] \<and> es_reads s = []"

inductive engine_reachable :: "hashing \<Rightarrow> engine_system \<Rightarrow> bool" for hs where
  initially: "initial_engine s \<Longrightarrow> engine_reachable hs s"
| later: "engine_reachable hs s \<Longrightarrow> engine_step hs s s' \<Longrightarrow> engine_reachable hs s'"

section \<open>The invariant\<close>

fun read_sound :: "workflow_db \<Rightarrow> engine_read \<Rightarrow> bool" where
  "read_sound db (Advancing w c tq) \<longleftrightarrow>
     read_earlier w db \<and> tq_next_state tq \<noteq> WorkflowState.COMPLETED"
| "read_sound db (Relinking project_id (Some w)) \<longleftrightarrow> read_earlier w db"
| "read_sound db (Relinking project_id None) \<longleftrightarrow> True"

definition system_inv :: "hashing \<Rightarrow> engine_system \<Rightarrow> bool" where
  "system_inv hs s \<longleftrightarrow> engine_inv hs (es_db s) \<and> (\<forall>r\<in>set (es_reads s). read_sound (es_db s) r)"

lemma read_sound_kept:
  assumes "keeps hs db db'" "engine_inv hs db" "read_sound db r"
  shows "read_sound db' r"
  using assms(3) keepsD(2) [OF assms(1,2)] by (induction db r rule: read_sound.induct) auto

lemma system_kept:
  assumes "keeps hs db db'" and s: "system_inv hs \<lparr>es_db = db, es_reads = rs\<rparr>"
    and r: "\<And>r. r \<in> set rs' \<Longrightarrow> r \<in> set rs \<or> read_sound db' r"
  shows "system_inv hs \<lparr>es_db = db', es_reads = rs'\<rparr>"
proof -
  have inv: "engine_inv hs db" and rs: "\<forall>r\<in>set rs. read_sound db r"
    using s by (simp_all add: system_inv_def)
  have "read_sound db' r" if "r \<in> set rs'" for r
    using r [OF that] rs read_sound_kept [OF assms(1) inv] by blast
  then show ?thesis using keepsD(1) [OF assms(1) inv] by (simp add: system_inv_def)
qed

lemma db_step_keeps: "db_step hs db db' \<Longrightarrow> engine_inv hs db \<Longrightarrow> keeps hs db db'"
proof (induction rule: db_step.induct)
  case (started ids now project_id actor_id db w db')
  then show ?case by (intro start_keeps [OF started(1)]) (simp add: unused_id_def)
qed (auto intro: keeps_effects notify_keeps advance_keeps cancel_keeps dead_letter_keeps)

lemma workflow_of_project_in:
  "workflow_of_project project_id db = Some w \<Longrightarrow> w \<in> set (wd_workflows db)"
  by (auto simp: workflow_of_project_def get_row_def dest: find_Some_D)

lemma engine_step_inv: "engine_step hs s s' \<Longrightarrow> system_inv hs s \<Longrightarrow> system_inv hs s'"
proof (induction rule: engine_step.induct)
  case (whole db db' rs)
  then have "keeps hs db db'" by (intro db_step_keeps) (auto simp: system_inv_def)
  then show ?case using whole(2) by (rule system_kept) simp
next
  case (called configured i db w call bound tq rs p result_id)
  then have inv: "engine_inv hs db" by (simp add: system_inv_def)
  note b = begin_advance_next [OF called(1) inv]
  show ?case
    by (rule system_kept [OF keeps_effects(1) called(2)])
      (use keepsD(2) [OF keeps_effects(1) inv b(1)] b(3) [OF refl] in auto)
next
  case (finished w c tq rs ids now db w' db')
  then have "engine_inv hs db" "read_sound db (Advancing w c tq)" by (auto simp: system_inv_def)
  then have "keeps hs db db'" by (intro finish_advance_keeps [OF finished(2)]) auto
  then show ?case using finished(3) by (rule system_kept) simp
next
  case (looked_up db rs project_id)
  then have inv: "engine_inv hs db" by (simp add: system_inv_def)
  have "read_sound db (Relinking project_id (workflow_of_project project_id db))"
    using read_now [OF inv workflow_of_project_in]
    by (cases "workflow_of_project project_id db") auto
  then show ?case by (intro system_kept [OF keeps_refl looked_up(1)]) auto
next
  case (relinked project_id existing rs ids now actor_id reason db w' db')
  then have "engine_inv hs db" "read_sound db (Relinking project_id existing)"
    by (auto simp: system_inv_def)
  then have "keeps hs db db'"
    by (intro relink_from_keeps [OF relinked(2)]) (use relinked(3) in \<open>auto simp: unused_id_def\<close>)
  then show ?case using relinked(4) by (rule system_kept) simp
qed

lemma engine_reachable_inv: "engine_reachable hs s \<Longrightarrow> system_inv hs s"
proof (induction rule: engine_reachable.induct)
  case (initially s)
  then show ?case by (simp add: initial_engine_def system_inv_def engine_inv_def)
qed (use engine_step_inv in blast)

lemma reachable_workflow:
  assumes "engine_reachable hs s" "w \<in> set (wd_workflows (es_db s))"
  shows "engine_inv hs (es_db s)"
    "recorded hs w (contexts_of (wi_id w) (es_db s)) (transitions_of (wi_id w) (es_db s))"
  using engine_reachable_inv [OF assms(1)] assms(2) by (auto simp: system_inv_def engine_inv_def)

section \<open>Reading the record\<close>

lemma recorded_context:
  assumes r: "recorded hs w cs ts"
  shows "List.find (\<lambda>c. cw_version c = wi_context_version w) cs = Some (last cs)"
proof -
  have cs: "cs = butlast cs @ [last cs]" and v: "map cw_version cs = [1..wi_context_version w]"
    using r by (auto simp: recorded_def)
  have "distinct (map cw_version cs)" unfolding v by simp
  moreover have l: "cw_version (last cs) = wi_context_version w"
  proof -
    have "cw_version (last cs) = last [1..wi_context_version w]"
      using r v by (metis recorded_def last_map)
    then show ?thesis using r upto_rec2 [of 1 "wi_context_version w"]
      by (auto simp: recorded_def Suc_le_eq)
  qed
  ultimately have "List.find (\<lambda>c. cw_version c = wi_context_version w) (butlast cs) = None"
    by (subst (asm) cs) (auto simp: find_None_iff image_iff)
  moreover have "List.find P (xs @ [x]) = Some x" if "List.find P xs = None" "P x" for P xs and x :: WorkflowContextModel
    using that by (induction xs) (auto split: if_splits)
  ultimately show ?thesis using l by (subst cs) blast
qed

lemma find_filter: "List.find p (filter q xs) = List.find (\<lambda>x. q x \<and> p x) xs"
  by (induction xs) auto

lemma context_row_last:
  assumes "recorded hs w (contexts_of (wi_id w) db) ts"
  shows "context_row (wi_id w) (wi_context_version w) db = Some (last (contexts_of (wi_id w) db))"
  using recorded_context [OF assms] unfolding context_row_def contexts_of_def find_filter .

lemma context_loaded:
  assumes r: "recorded hs w (contexts_of (wi_id w) db) ts"
  shows "load_context hs w db = Inr (cw_context (last (contexts_of (wi_id w) db)))"
    "wx_current_state (cw_context (last (contexts_of (wi_id w) db))) = wi_state w"
proof -
  have "sealed hs (last (contexts_of (wi_id w) db))"
    "cw_state (last (contexts_of (wi_id w) db)) = wi_state w"
    using r by (auto simp: recorded_def)
  then show "load_context hs w db = Inr (cw_context (last (contexts_of (wi_id w) db)))"
    "wx_current_state (cw_context (last (contexts_of (wi_id w) db))) = wi_state w"
    by (simp_all add: load_context_def context_row_last [OF r] sealed_def)
qed

lemma history_ordered:
  assumes "get_workflow i db = Inr w" "map wt_sequence (transitions_of i db) = [1..n]"
  shows "history i db = Inr (transitions_of i db)"
proof -
  have "sorted (map wt_sequence (transitions_of i db))" unfolding assms(2) by simp
  then have "sort_key wt_sequence (transitions_of i db) = transitions_of i db"
    by (rule sort_key_id_if_sorted)
  then show ?thesis by (simp add: history_def assms(1))
qed

lemma workflow_found:
  assumes "engine_inv hs db" "w \<in> set (wd_workflows db)"
  shows "get_workflow (wi_id w) db = Inr w"
proof -
  have "distinct (map wi_id (wd_workflows db))" using assms(1) by (simp add: engine_inv_def)
  then have "get_row wi_id (wi_id w) (wd_workflows db) = Some w"
    using assms(2) by (rule get_row_distinct)
  then show ?thesis by (simp add: get_workflow_def)
qed

section \<open>Moves are accepted\<close>

lemma upto_fresh: "0 \<le> n \<Longrightarrow> n + 1 \<notin> set [1..n::int]"
  by simp

lemma append_accepted:
  assumes inv: "engine_inv hs db" and w: "w \<in> set (wd_workflows db)"
    and legal: "workflow_step (wi_state w) (tq_next_state tq)"
  shows "\<exists>db'. append_transition hs ids now tq c w db =
     Inr (c\<lparr>wx_current_state := tq_next_state tq\<rparr>, moved_workflow now tq w, db')"
proof -
  let ?row = "new_context_row hs (ids 0) (wi_id w) (wi_context_version w + 1)
    (c\<lparr>wx_current_state := tq_next_state tq\<rparr>)"
  have rec: "recorded hs w (contexts_of (wi_id w) db) (transitions_of (wi_id w) db)"
    using inv w by (simp add: engine_inv_def)
  have versions: "set (map cw_version (contexts_of (wi_id w) db)) = {1..wi_context_version w}"
    using rec by (metis recorded_def set_upto)
  obtain d where d: "Workflow.classify (wi_state w) (tq_next_state tq) = Inr d"
    using legal by (auto simp: workflow_step_def require_transition_def succeeds_iff result_simps)
  let ?t = "transition_row hs (ids 1) (next_sequence (wi_id w) db) w d tq"
  have "context_row (wi_id w) (wi_context_version w + 1) db = None"
    unfolding context_row_None using versions by auto
  moreover have "\<not> list_ex (\<lambda>t. wt_sequence t = next_sequence (wi_id w) db) (transitions_of (wi_id w) db)"
  proof -
    have "set (map wt_sequence (transitions_of (wi_id w) db)) = {1..int (length (transitions_of (wi_id w) db))}"
      using rec by (metis recorded_def set_upto)
    then have "next_sequence (wi_id w) db \<notin> set (map wt_sequence (transitions_of (wi_id w) db))"
      by (simp add: next_sequence_def)
    then show ?thesis by (auto simp: list_ex_iff image_iff)
  qed
  moreover have "ck_context_version q \<noteq> wi_context_version w + 1"
    if q: "q \<in> set (wd_checkpoints db)" "ck_workflow_id q = wi_id w" for q
  proof -
    obtain k where "k \<in> set (wd_contexts db)" "cw_workflow_id k = wi_id w"
      "cw_version k = ck_context_version q"
      using inv q by (auto simp: engine_inv_def names_context_def)
    then have "ck_context_version q \<in> set (map cw_version (contexts_of (wi_id w) db))"
      by (simp add: contexts_of_def image_iff) metis
    then show ?thesis unfolding versions by simp
  qed
  ultimately have "\<exists>db1. record_move ?row ?t (checkpoint_rows (ids 2) w tq ?row) db = Inr db1"
    unfolding record_move_def
    by (auto simp: new_context_row_def transition_row_def checkpoint_rows_def list_ex_iff
        split: option.splits if_splits)
  then show ?thesis by (auto simp: append_transition_def d Let_def)
qed

lemma plan_legal:
  assumes "plan configured w c p = Inr next"
  shows "next = Move c' tq \<Longrightarrow> workflow_step (wi_state w) (tq_next_state tq) \<and> wi_state w \<noteq> PROJECT_CREATED"
    "next = Call call bound tq \<Longrightarrow> workflow_step (wi_state w) (tq_next_state tq)"
  using assms
  by (cases "wi_state w"; auto simp: plan_def Let_def call_service_def plan_execution_def
      plan_review_def plan_completion_def engine_request_def workflow_step_iff
      split: if_splits option.splits)+

lemma plan_configured: "succeeds (plan True w c p)"
  by (cases "wi_state w") (simp_all add: plan_def Let_def call_service_def plan_execution_def
      plan_review_def split: option.split)

lemma advance_accepted:
  assumes inv: "engine_inv hs db" and w: "w \<in> set (wd_workflows db)"
    and services: "\<And>call p. succeeds (services call p)"
    and first: "\<forall>a\<in>set (wd_attempts db). sa_workflow_id a \<noteq> wi_id w \<or> wi_state w \<noteq> PROJECT_CREATED"
  shows "\<exists>w' db'. advance hs services True ids now (wi_id w) db = Inr (w', db') \<and> wi_id w' = wi_id w \<and>
     (wi_state w' = wi_state w \<or> workflow_step (wi_state w) (wi_state w'))"
proof -
  have g: "get_workflow (wi_id w) db = Inr w" by (rule workflow_found [OF inv w])
  have rec: "recorded hs w (contexts_of (wi_id w) db) (transitions_of (wi_id w) db)"
    using inv w by (simp add: engine_inv_def)
  note loaded = context_loaded(1) [OF rec]
  let ?c = "cw_context (last (contexts_of (wi_id w) db))"
  have finish: "\<exists>db'. finish_advance hs ids now w c tq db1 = Inr (moved_workflow now tq w, db')"
    if legal: "workflow_step (wi_state w) (tq_next_state tq)" and db1: "db1 = db\<lparr>wd_platform := p\<rparr>"
    for c tq db1 p
  proof -
    have inv1: "engine_inv hs db1" and w1: "w \<in> set (wd_workflows db1)"
      using keepsD(1) [OF keeps_effects(1) inv] w by (simp_all add: db1)
    show ?thesis
    proof (cases "wi_state w = PROJECT_CREATED")
      case False
      obtain db2 where "append_transition hs ids now tq c w db1 =
          Inr (c\<lparr>wx_current_state := tq_next_state tq\<rparr>, moved_workflow now tq w, db2)"
        using append_accepted [OF inv1 w1 legal] by blast
      with False show ?thesis by (simp add: finish_advance_def)
    next
      case True
      let ?a = "first_attempt (ids 3) (wi_id w) now"
      let ?db = "db1\<lparr>wd_attempts := wd_attempts db1 @ [?a]\<rparr>"
      have "add_attempt ?a db1 = Inr ?db"
        using first True by (auto simp: add_attempt_def list_ex_iff first_attempt_def db1)
      moreover have "engine_inv hs ?db" "w \<in> set (wd_workflows ?db)"
        using keepsD(1) [OF keeps_effects(5) inv1] w1 by simp_all
      moreover obtain db2 where "append_transition hs ids now tq c w ?db =
          Inr (c\<lparr>wx_current_state := tq_next_state tq\<rparr>, moved_workflow now tq w, db2)"
        using append_accepted [OF calculation(2,3) legal] by blast
      ultimately show ?thesis using True by (simp add: finish_advance_def)
    qed
  qed
  show ?thesis
  proof (cases "workflow_terminal (wi_state w) \<or> wi_state w = WorkflowState.CANCELLING")
    case True
    then show ?thesis by (simp add: advance_def begin_advance_def g)
  next
    case False
    then obtain "next" where n: "plan True w ?c (wd_platform db) = Inr next"
      and b: "begin_advance hs True (wi_id w) db = Inr (w, next)"
      using plan_configured [of w ?c "wd_platform db"] g loaded
      by (auto simp: begin_advance_def succeeds_iff)
    show ?thesis
    proof (cases "next")
      case (Move c tq)
      have "workflow_step (wi_state w) (tq_next_state tq)" using plan_legal(1) [OF n Move] by blast
      moreover obtain db' where "finish_advance hs ids now w c tq db = Inr (moved_workflow now tq w, db')"
        using finish [OF calculation, of db "wd_platform db"] by auto
      ultimately show ?thesis by (simp add: advance_def b Move moved_workflow_def)
    next
      case (Call call bound tq)
      obtain k p where s: "services call (wd_platform db) = Inr (k, p)"
        using services [of call "wd_platform db"] by (auto simp: succeeds_iff)
      have "workflow_step (wi_state w) (tq_next_state tq)" using plan_legal(2) [OF n Call] .
      moreover obtain db' where
        "finish_advance hs ids now w (bound k) tq (db\<lparr>wd_platform := p\<rparr>) = Inr (moved_workflow now tq w, db')"
        using finish [OF calculation refl] by blast
      ultimately show ?thesis by (simp add: advance_def b Call s moved_workflow_def)
    qed (simp_all add: advance_def b report_incomplete_def Let_def)
  qed
qed

lemma changed_same [simp]: "changed x y x = y"
  by (simp add: changed_def)

lemma saved_row_moved: "saved_row w (moved_workflow now tq w) w = moved_workflow now tq w"
  by (cases w) (simp add: saved_row_def flush_columns_def moved_workflow_def)

lemma append_current:
  assumes a: "append_transition hs ids now tq c w db = Inr (c', moved_workflow now tq w, db')"
    and inv: "engine_inv hs db" "w \<in> set (wd_workflows db)"
    and c: "tq_next_state tq = WorkflowState.COMPLETED \<longrightarrow> bound_evidence c"
  shows "engine_inv hs db'" "moved_workflow now tq w \<in> set (wd_workflows db')"
proof -
  have r: "read_earlier w db" by (rule read_now [OF inv])
  show "engine_inv hs db'" by (rule keepsD(1) [OF append_transition_keeps(1) [OF a inv(1) r c] inv(1)])
  obtain row t where "stored_move hs db db' w (moved_workflow now tq w) row t"
    using append_transition_move(1) [OF a inv(1) r c] by blast
  then have "wd_workflows db' = map (saved_row w (moved_workflow now tq w)) (wd_workflows db)"
    by (rule stored_moveD(4))
  then have "saved_row w (moved_workflow now tq w) w \<in> set (wd_workflows db')"
    using inv(2) by simp
  then show "moved_workflow now tq w \<in> set (wd_workflows db')"
    unfolding saved_row_moved .
qed

lemma cancel_accepted:
  assumes inv: "engine_inv hs db" and w: "w \<in> set (wd_workflows db)"
    and live: "\<not> workflow_terminal (wi_state w)"
  shows "\<exists>w' db'. cancel hs ids now (wi_id w) actor_id reason db = Inr (w', db') \<and>
     wi_state w' = WorkflowState.CANCELLED"
proof -
  have rec: "recorded hs w (contexts_of (wi_id w) db) (transitions_of (wi_id w) db)"
    using inv w by (simp add: engine_inv_def)
  define c where "c = cw_context (last (contexts_of (wi_id w) db))"
  define tq where "tq = \<lparr>tq_next_state = WorkflowState.CANCELLING, tq_step = None,
    tq_actor_type = ''human'', tq_actor_id = actor_id, tq_reason = reason, tq_checkpoint = False\<rparr>"
  define tq2 where "tq2 = engine_request WorkflowState.CANCELLED None
    ''Cancellation persisted; no active resource lease remains'' False"
  define w1 where "w1 = moved_workflow now tq w"
  define w2 where "w2 = w1\<lparr>wi_cancellation_requested_at := Some now\<rparr>"
  have "workflow_step (wi_state w) (tq_next_state tq)"
    using live by (cases "wi_state w") (simp_all add: tq_def workflow_step_iff workflow_terminal_iff)
  then obtain c1 db1 where a: "append_transition hs ids now tq (c\<lparr>wx_cancellation_requested := True\<rparr>) w db =
      Inr (c1, w1, db1)"
    using append_accepted [OF inv w] unfolding w1_def by blast
  have here: "engine_inv hs db1" "w1 \<in> set (wd_workflows db1)"
    unfolding w1_def by (rule append_current [OF a [unfolded w1_def] inv w], simp add: tq_def)+
  have s: "same_record db1 (save_workflow w1 w2 db1)"
    by (rule same_record_save) (simp_all add: w2_def)
  have "saved_row w1 w2 w1 = w2"
    by (cases w1) (simp add: saved_row_def flush_columns_def w2_def)
  moreover have "saved_row w1 w2 w1 \<in> set (wd_workflows (save_workflow w1 w2 db1))"
    using here(2) unfolding saved_workflows by simp
  ultimately have "w2 \<in> set (wd_workflows (save_workflow w1 w2 db1))" by metis
  moreover have "workflow_step (wi_state w2) (tq_next_state tq2)"
    by (simp add: w2_def w1_def moved_workflow_def tq_def tq2_def engine_request_def workflow_step_iff)
  ultimately obtain c2 db2 where b: "append_transition hs (\<lambda>n. ids (n + 3)) now tq2 c1 w2
      (save_workflow w1 w2 db1) = Inr (c2, moved_workflow now tq2 w2, db2)"
    using append_accepted [OF engine_inv_same [OF here(1) s]] by blast
  have "wi_state w \<noteq> WorkflowState.CANCELLED" using live by (auto simp: workflow_terminal_iff)
  then show ?thesis
    using live a b context_loaded(1) [OF rec]
    by (simp add: cancel_def workflow_found [OF inv w] c_def [symmetric] tq_def [symmetric]
        tq2_def [symmetric] Let_def w2_def [symmetric])
      (simp add: moved_workflow_def tq2_def engine_request_def)
qed

end
