(* ===== verification/Workflow_Sample.thy ===== *)
theory Workflow_Sample
  imports Workflow_System
begin

text \<open>
  A delivery from the start of its workflow to its completion: the states of the workflow are
  reached one \<open>advance\<close> after another, over rows of the other components that let each pass.
\<close>

section \<open>One advance\<close>

lemma append_rows:
  assumes "append_transition hs ids now tq c w db = Inr (c', w', db')"
  shows "c' = c\<lparr>wx_current_state := tq_next_state tq\<rparr>" "w' = moved_workflow now tq w"
    "wd_workflows db' = map (saved_row w w') (wd_workflows db)"
    "wd_contexts db' = wd_contexts db @ [new_context_row hs (ids 0) (wi_id w) (wi_context_version w + 1) c']"
    "\<exists>t. wd_transitions db' = wd_transitions db @ [t] \<and> wt_policy_evidence t \<noteq> None"
proof -
  obtain d where "Workflow.classify (wi_state w) (tq_next_state tq) = Inr d"
    using assms by (auto simp: append_transition_def split: sum.splits workflow_error.splits)
  then obtain db1 where r: "c' = c\<lparr>wx_current_state := tq_next_state tq\<rparr>"
      "w' = moved_workflow now tq w" "db' = save_workflow w w' db1"
    and m: "record_move (new_context_row hs (ids 0) (wi_id w) (wi_context_version w + 1) c')
      (transition_row hs (ids 1) (next_sequence (wi_id w) db) w d tq)
      (checkpoint_rows (ids 2) w tq
        (new_context_row hs (ids 0) (wi_id w) (wi_context_version w + 1) c')) db = Inr db1"
    using assms by (auto simp: append_transition_def Let_def result_simps)
  have ev: "wt_policy_evidence (transition_row hs (ids 1) (next_sequence (wi_id w) db) w d tq) \<noteq> None"
    by (simp add: transition_row_def)
  show "c' = c\<lparr>wx_current_state := tq_next_state tq\<rparr>" "w' = moved_workflow now tq w" by (fact r)+
  show "wd_workflows db' = map (saved_row w w') (wd_workflows db)"
    "wd_contexts db' = wd_contexts db @ [new_context_row hs (ids 0) (wi_id w) (wi_context_version w + 1) c']"
    "\<exists>t. wd_transitions db' = wd_transitions db @ [t] \<and> wt_policy_evidence t \<noteq> None"
    using ev by (simp_all add: r(3) record_move_Inr(2) [OF m] saved_workflows)
      (simp_all add: save_workflow_def)
qed

lemma finish_rows:
  assumes "finish_advance hs ids now w c tq db = Inr (w', db')"
  shows "w' = moved_workflow now tq w" "wd_workflows db' = map (saved_row w w') (wd_workflows db)"
    "\<exists>i. wd_contexts db' = wd_contexts db @
       [new_context_row hs i (wi_id w) (wi_context_version w + 1) (c\<lparr>wx_current_state := tq_next_state tq\<rparr>)]"
    "\<exists>t. wd_transitions db' = wd_transitions db @ [t] \<and> wt_policy_evidence t \<noteq> None"
proof -
  obtain db0 c2 db2 where a: "append_transition hs ids now tq c w db0 = Inr (c2, w', db2)"
    and "wd_workflows db0 = wd_workflows db" "wd_contexts db0 = wd_contexts db"
      "wd_transitions db0 = wd_transitions db" "wd_workflows db2 = wd_workflows db'"
      "wd_contexts db2 = wd_contexts db'" "wd_transitions db2 = wd_transitions db'"
    using assms by (auto simp: finish_advance_def result_simps add_attempt_def engine_audit_def
        on_platform_def split: if_splits)
  then show "w' = moved_workflow now tq w" "wd_workflows db' = map (saved_row w w') (wd_workflows db)"
    "\<exists>i. wd_contexts db' = wd_contexts db @
       [new_context_row hs i (wi_id w) (wi_context_version w + 1) (c\<lparr>wx_current_state := tq_next_state tq\<rparr>)]"
    "\<exists>t. wd_transitions db' = wd_transitions db @ [t] \<and> wt_policy_evidence t \<noteq> None"
    using append_rows [OF a] by (auto intro: exI [of _ "ids 0"])
qed

definition sample_at :: "hashing \<Rightarrow> WorkflowState \<Rightarrow> WorkflowContext \<Rightarrow> bool" where
  "sample_at hs st c \<longleftrightarrow> (\<exists>s w. engine_reachable hs s \<and> wd_workflows (es_db s) = [w] \<and>
     wi_state w = st \<and> wi_id w = 1 \<and> wi_project_id w = 2 \<and> load_context hs w (es_db s) = Inr c \<and>
     (st = PROJECT_CREATED \<longrightarrow> wd_attempts (es_db s) = []) \<and>
     never_relinked (transitions_of 1 (es_db s)))"

definition planned :: "advance_plan \<Rightarrow> WorkflowContext \<Rightarrow> transition_request \<Rightarrow> bool" where
  "planned next c tq \<longleftrightarrow> next = Move c tq \<or> (\<exists>call bound. next = Call call bound tq \<and> bound 3 = c)"

lemma sample_advance:
  assumes at: "sample_at hs st c" and open_state: "\<not> workflow_terminal st" "st \<noteq> WorkflowState.CANCELLING"
    and next_plan: "\<And>w. wi_state w = st \<Longrightarrow> wi_id w = 1 \<Longrightarrow> wi_project_id w = 2 \<Longrightarrow>
      \<exists>next. plan True w c p = Inr next \<and> planned next c' tq"
  shows "sample_at hs (tq_next_state tq) (c'\<lparr>wx_current_state := tq_next_state tq\<rparr>)"
proof -
  obtain db rs w where reach: "engine_reachable hs \<lparr>es_db = db, es_reads = rs\<rparr>"
    and w: "wd_workflows db = [w]" "wi_state w = st" "wi_id w = 1" "wi_project_id w = 2"
    and loaded: "load_context hs w db = Inr c" and first: "st = PROJECT_CREATED \<longrightarrow> wd_attempts db = []"
    and kept: "never_relinked (transitions_of 1 db)"
    using at unfolding sample_at_def by (metis engine_system.cases engine_system.simps(1,2))
  define db1 where "db1 = db\<lparr>wd_platform := p\<rparr>"
  define services :: services where "services = (\<lambda>call q. Inr (3, q))"
  have reach1: "engine_reachable hs \<lparr>es_db = db1, es_reads = rs\<rparr>"
    unfolding db1_def by (rule engine_reachable.later [OF reach whole [OF platform]])
  have db1: "wd_workflows db1 = [w]" "load_context hs w db1 = Inr c" "wd_platform db1 = p"
    "wd_attempts db1 = wd_attempts db" "wd_contexts db1 = wd_contexts db"
    "wd_transitions db1 = wd_transitions db"
    using w loaded by (simp_all add: db1_def load_context_def context_row_def)
  have here: "w \<in> set (wd_workflows (es_db \<lparr>es_db = db1, es_reads = rs\<rparr>))" by (simp add: db1)
  obtain "next" where n: "plan True w c p = Inr next" "planned next c' tq"
    using next_plan w by blast
  have b: "begin_advance hs True 1 db1 = Inr (w, next)"
    using open_state n(1) w
    by (simp add: begin_advance_def get_workflow_def get_row_def db1)
  have a: "advance hs services True (\<lambda>_. 0) 0 1 db1 = finish_advance hs (\<lambda>_. 0) 0 w c' tq db1"
    using n(2) by (auto simp: planned_def advance_def b services_def)
  obtain w' db2 where f: "advance hs services True (\<lambda>_. 0) 0 (wi_id w) db1 = Inr (w', db2)"
    using advance_accepted [OF reachable_workflow(1) [OF reach1 here, simplified], of w services "\<lambda>_. 0" 0]
      first w(2,3) by (auto simp: db1 services_def)
  note f1 = f [unfolded w(3)]
  note rows = finish_rows [OF f1 [unfolded a]]
  have reach2: "engine_reachable hs \<lparr>es_db = db2, es_reads = rs\<rparr>"
    by (rule engine_reachable.later [OF reach1 whole [OF advanced [OF f]]])
  have w': "wd_workflows db2 = [w']" "wi_state w' = tq_next_state tq" "wi_id w' = 1" "wi_project_id w' = 2"
    using rows(1,2) saved_row_moved [of w 0 tq] w by (simp_all add: db1 moved_workflow_def)
  have rec: "recorded hs w' (contexts_of (wi_id w') db2) (transitions_of (wi_id w') db2)"
    using reachable_workflow(2) [OF reach2, of w'] w' by simp
  have "last (contexts_of 1 db2) \<in> {x. cw_context x = c'\<lparr>wx_current_state := tq_next_state tq\<rparr>}"
    using rows(3) w(3) by (auto simp: contexts_of_def new_context_row_def)
  then have l: "load_context hs w' db2 = Inr (c'\<lparr>wx_current_state := tq_next_state tq\<rparr>)"
    using context_loaded(1) [OF rec] by (simp add: w'(3))
  have k: "never_relinked (transitions_of 1 db2)"
    using rows(4) kept by (auto simp: transitions_of_def never_relinked_def db1)
  have "workflow_step st (tq_next_state tq)"
    using plan_legal [OF n(1)] n(2) w(2) by (auto simp: planned_def)
  then have "tq_next_state tq \<noteq> PROJECT_CREATED" by (cases st) (auto simp: workflow_step_iff)
  then show ?thesis using reach2 w' l k unfolding sample_at_def
    by (intro exI [of _ "\<lparr>es_db = db2, es_reads = rs\<rparr>"] exI [of _ w']) simp
qed

section \<open>The delivery\<close>

definition sample_text :: "char \<Rightarrow> string" where
  "sample_text c = replicate 64 c"

definition sample_deliverable :: "uuid \<Rightarrow> string \<Rightarrow> ArtifactModel" where
  "sample_deliverable i ty =
     \<lparr>am_id = i, am_project_id = 2, am_run_id = None, am_artifact_type = ty, am_media_type = ''text/plain'',
      am_content = [], am_content_hash = sample_text CHR ''a''\<rparr>"

definition sample_approval :: "uuid \<Rightarrow> uuid \<Rightarrow> ApprovalModel" where
  "sample_approval i artifact_id = \<lparr>ap_id = i, ap_project_id = 2, ap_artifact_id = artifact_id,
     ap_decision = ''approved'', ap_reviewer = ''ada'', ap_comment = None\<rparr>"

definition sample_execution :: ExecutionRunModel where
  "sample_execution = \<lparr>xr_id = 3, xr_project_id = 2, xr_work_package_id = 30, xr_approval_id = 23,
     xr_status = ''succeeded'', xr_patch_artifact_id = Some 14,
     xr_patch_sha256 = Some (sample_text CHR ''b''), xr_created_at = 1\<rparr>"

definition sample_review :: PatchReviewRunModel where
  "sample_review = \<lparr>pr_id = 3, pr_execution_run_id = 3, pr_work_package_id = 30,
     pr_patch_artifact_id = 14, pr_status = ''accepted'',
     pr_expected_patch_sha256 = sample_text CHR ''b'',
     pr_actual_patch_sha256 = Some (sample_text CHR ''b''), pr_review_report_artifact_id = Some 15,
     pr_created_at = 2\<rparr>"

definition sample_landing :: IntegrationAttemptModel where
  "sample_landing = \<lparr>gm_id = 40, gm_execution_run_id = 3, gm_integration_approval_id = 24,
     gm_attempt_number = 1, gm_status = ''integrated'', gm_project_id = 2, gm_target_branch = ''main'',
     gm_expected_patch_sha256 = sample_text CHR ''b'',
     gm_expected_base_commit_sha = ''c1'', gm_expected_base_tree_sha = ''t1'',
     gm_actual_base_commit_sha = Some ''c1'', gm_actual_base_tree_sha = Some ''t1'',
     gm_resulting_tree_sha = Some ''t2'', gm_failure_code = None, gm_failure_message = None,
     gm_worker_id = None, gm_correlation_id = 9, gm_started_at = None, gm_completed_at = None,
     gm_created_at = 3\<rparr>"

definition sample_commit :: IntegrationCommitModel where
  "sample_commit = \<lparr>ic_id = 50, ic_integration_attempt_id = 40, ic_commit_sha = ''c2'',
     ic_tree_sha = ''t2'', ic_parent_commit_sha = ''c1'', ic_remote_verified = True\<rparr>"

definition sample_platform :: "ProjectStatus \<Rightarrow> platform_db" where
  "sample_platform status =
     \<lparr>pd_projects = [\<lparr>pj_id = 2, pj_status = project_status_text status, pj_manifest = JNull,
        pj_manifest_hash = []\<rparr>],
      pd_packages = [\<lparr>wp_id = 30, wp_project_id = 2, wp_status = ''approved'', wp_created_at = 0\<rparr>],
      pd_executions = [sample_execution], pd_reviews = [sample_review],
      pd_integrations = [sample_landing], pd_commits = [sample_commit],
      pd_artifacts = [sample_deliverable 10 ''project_manifest'',
        sample_deliverable 11 ''requirements_specification'',
        sample_deliverable 12 ''architecture_specification'',
        sample_deliverable 13 ''work_package'', sample_deliverable 14 ''candidate-patch'',
        sample_deliverable 15 ''patch-review-report''],
      pd_approvals = [sample_approval 21 11, sample_approval 22 12, sample_approval 23 13],
      pd_queue = \<lparr>qt_jobs = [], qt_attempts = [], qt_workers = [], qt_cycles = []\<rparr>,
      pd_audit = \<lparr>au_events = [], au_chain = []\<rparr>\<rparr>"

definition sample_start :: engine_system where
  "sample_start = \<lparr>es_db = \<lparr>wd_platform = sample_platform CREATED, wd_workflows = [], wd_contexts = [],
     wd_transitions = [], wd_checkpoints = [], wd_attempts = []\<rparr>, es_reads = []\<rparr>"

definition sample_context :: "WorkflowState \<Rightarrow> WorkflowContext" where
  "sample_context state = new_context 1 2 state 2 ''ada''"

lemma sample_begun: "sample_at hs PROJECT_CREATED (sample_context PROJECT_CREATED)"
proof -
  let ?ids = "\<lambda>n. of_nat n + 1 :: uuid"
  let ?w = "new_workflow 1 2 2 PROJECT_CREATED None None"
  obtain db' where s: "start hs ?ids 0 2 ''ada'' (es_db sample_start) = Inr (?w, db')"
    and rows: "wd_workflows db' = [?w]" "wd_attempts db' = []" "wd_transitions db' = []"
      "wd_contexts db' = [new_context_row hs 3 1 1 (sample_context PROJECT_CREATED)]"
    by (simp add: start_def workflow_of_project_def get_row_def get_project_def sample_start_def
        sample_platform_def Let_def engine_audit_def enqueue_advance_def on_platform_def sample_context_def)
  have "engine_reachable hs sample_start"
    by (rule engine_reachable.initially) (simp add: initial_engine_def sample_start_def)
  moreover have "engine_step hs sample_start \<lparr>es_db = db', es_reads = []\<rparr>"
    using whole [OF started [OF s], of "[]"] by (simp add: sample_start_def unused_id_def)
  ultimately have "engine_reachable hs \<lparr>es_db = db', es_reads = []\<rparr>"
    by (rule engine_reachable.later)
  moreover have "load_context hs ?w db' = Inr (sample_context PROJECT_CREATED)"
    by (simp add: load_context_def context_row_def rows new_workflow_def new_context_row_def)
  ultimately show ?thesis unfolding sample_at_def
    by (intro exI [of _ "\<lparr>es_db = db', es_reads = []\<rparr>"] exI [of _ ?w])
      (simp add: rows new_workflow_def transitions_of_def never_relinked_def)
qed

text \<open>The plan of each stage, for any context that carries what the stage needs.\<close>

lemmas sample_platform_simps = sample_platform_def plan_def call_service_def project_is_def
  get_row_def plan_execution_def approved_package_def plan_review_def optional_row_def
  first_by_def sample_execution_def sample_review_def sample_landing_def planned_def Let_def

lemma sample_stages:
  assumes "sample_at hs st c" "wx_execution_id c = (if st \<in> {WorkflowState.EXECUTION_RUNNING,
      PATCH_REVIEW_RUNNING, WAITING_INTEGRATION_APPROVAL} then Some 3 else wx_execution_id c)"
    "st = PATCH_REVIEW_RUNNING \<Longrightarrow> wx_review_id c = Some 3"
  shows "st = PROJECT_CREATED \<Longrightarrow> sample_at hs WorkflowState.REQUIREMENTS_RUNNING
      ((with_run ''requirements'' c 3)\<lparr>wx_current_state := WorkflowState.REQUIREMENTS_RUNNING\<rparr>)"
    "st = WorkflowState.REQUIREMENTS_RUNNING \<Longrightarrow> sample_at hs WorkflowState.ARCHITECTURE_RUNNING
      ((with_run ''architecture'' c 3)\<lparr>wx_current_state := WorkflowState.ARCHITECTURE_RUNNING\<rparr>)"
    "st = WorkflowState.ARCHITECTURE_RUNNING \<Longrightarrow> sample_at hs PLANNING_RUNNING
      ((with_run ''planning'' c 3)\<lparr>wx_current_state := PLANNING_RUNNING\<rparr>)"
    "st = PLANNING_RUNNING \<Longrightarrow> sample_at hs WorkflowState.EXECUTION_RUNNING
      ((with_execution c 3)\<lparr>wx_current_state := WorkflowState.EXECUTION_RUNNING\<rparr>)"
    "st = WorkflowState.EXECUTION_RUNNING \<Longrightarrow> sample_at hs PATCH_REVIEW_RUNNING
      ((with_review c 3)\<lparr>wx_current_state := PATCH_REVIEW_RUNNING\<rparr>)"
    "st = PATCH_REVIEW_RUNNING \<Longrightarrow> sample_at hs WAITING_INTEGRATION_APPROVAL
      (c\<lparr>wx_current_state := WAITING_INTEGRATION_APPROVAL\<rparr>)"
    "st = WAITING_INTEGRATION_APPROVAL \<Longrightarrow> sample_at hs WorkflowState.INTEGRATING
      (c\<lparr>wx_integration_attempt_id := Some 40, wx_current_state := WorkflowState.INTEGRATING\<rparr>)"
proof -
  note go = sample_advance [OF assms(1)]
  show "sample_at hs WorkflowState.REQUIREMENTS_RUNNING
      ((with_run ''requirements'' c 3)\<lparr>wx_current_state := WorkflowState.REQUIREMENTS_RUNNING\<rparr>)"
    if "st = PROJECT_CREATED"
    using go [of "sample_platform CREATED" "with_run ''requirements'' c 3"
        "engine_request WorkflowState.REQUIREMENTS_RUNNING (Some REQUIREMENTS) ''Workflow execution started'' False"]
    by (simp add: that sample_platform_simps workflow_terminal_iff engine_request_def)
  show "sample_at hs WorkflowState.ARCHITECTURE_RUNNING
      ((with_run ''architecture'' c 3)\<lparr>wx_current_state := WorkflowState.ARCHITECTURE_RUNNING\<rparr>)"
    if "st = WorkflowState.REQUIREMENTS_RUNNING"
    using go [of "sample_platform REQUIREMENTS_APPROVED" "with_run ''architecture'' c 3"
        "engine_request WorkflowState.ARCHITECTURE_RUNNING (Some ARCHITECTURE)
          ''Requirements approved by autonomy policy'' False"]
    by (simp add: that sample_platform_simps workflow_terminal_iff engine_request_def)
  show "sample_at hs PLANNING_RUNNING
      ((with_run ''planning'' c 3)\<lparr>wx_current_state := PLANNING_RUNNING\<rparr>)"
    if "st = WorkflowState.ARCHITECTURE_RUNNING"
    using go [of "sample_platform ARCHITECTURE_APPROVED" "with_run ''planning'' c 3"
        "engine_request PLANNING_RUNNING (Some PLANNING)
          ''Architecture approved by autonomy policy'' False"]
    by (simp add: that sample_platform_simps workflow_terminal_iff engine_request_def)
  show "sample_at hs WorkflowState.EXECUTION_RUNNING
      ((with_execution c 3)\<lparr>wx_current_state := WorkflowState.EXECUTION_RUNNING\<rparr>)"
    if "st = PLANNING_RUNNING"
    using go [of "sample_platform WORK_PACKAGE_APPROVED" "with_execution c 3"
        "engine_request WorkflowState.EXECUTION_RUNNING (Some EXECUTION)
          ''Work package approved by autonomy policy'' False"]
    by (simp add: that sample_platform_simps workflow_terminal_iff engine_request_def)
  show "sample_at hs PATCH_REVIEW_RUNNING
      ((with_review c 3)\<lparr>wx_current_state := PATCH_REVIEW_RUNNING\<rparr>)"
    if "st = WorkflowState.EXECUTION_RUNNING"
    using go [of "sample_platform CREATED" "with_review c 3"
        "engine_request PATCH_REVIEW_RUNNING (Some REVIEW) ''Execution and tests succeeded'' False"]
      assms(2)
    by (simp add: that sample_platform_simps workflow_terminal_iff engine_request_def)
  show "sample_at hs WAITING_INTEGRATION_APPROVAL
      (c\<lparr>wx_current_state := WAITING_INTEGRATION_APPROVAL\<rparr>)"
    if "st = PATCH_REVIEW_RUNNING"
    using go [of "sample_platform CREATED" c
        "engine_request WAITING_INTEGRATION_APPROVAL (Some REVIEW) ''Independent review accepted patch'' True"]
      assms(3)
    by (simp add: that sample_platform_simps workflow_terminal_iff engine_request_def)
  show "sample_at hs WorkflowState.INTEGRATING
      (c\<lparr>wx_integration_attempt_id := Some 40, wx_current_state := WorkflowState.INTEGRATING\<rparr>)"
    if "st = WAITING_INTEGRATION_APPROVAL"
    using go [of "sample_platform CREATED" "c\<lparr>wx_integration_attempt_id := Some 40\<rparr>"
        "engine_request WorkflowState.INTEGRATING (Some INTEGRATION)
          ''Human integration approval consumed'' False"]
      assms(2)
    by (simp add: that sample_platform_simps workflow_terminal_iff engine_request_def)
qed

lemma sample_completion:
  assumes at: "sample_at hs WorkflowState.INTEGRATING c"
    and c: "wx_execution_id c = Some 3" "wx_review_id c = Some 3" "wx_integration_attempt_id c = Some 40"
      "wx_project_id c = 2" "wx_approval_ids c = []" "wx_evidence_links c = []"
  shows "\<exists>c'. sample_at hs WorkflowState.COMPLETED c'"
proof -
  let ?p = "sample_platform CREATED"
  have e: "bound_evidence (completed_context w c sample_commit ?p)" if "wi_project_id w = 2" for w
    using c that
    by (simp add: bound_evidence_def completed_context_def sample_platform_def Let_def by_type_name_def
        type_names_def sample_deliverable_def sample_approval_def bound_approvals_def optional_row_def
        get_row_def sample_landing_def sample_execution_def sample_review_def links_of_def
        execution_links_def review_links_def integration_links_def commit_links_def optional_link_def
        put_all_def link_def sample_commit_def MANDATORY_ARTIFACTS_def MANDATORY_APPROVALS_def
        sample_text_def)
  have found: "List.find (\<lambda>k. Some (ic_integration_attempt_id k) = wx_integration_attempt_id c \<and>
      ic_remote_verified k) (pd_commits ?p) = Some sample_commit"
    using c(3) by (simp add: sample_platform_def sample_commit_def)
  have same: "completed_context w c sample_commit ?p = completed_context v c sample_commit ?p"
    if "wi_project_id w = wi_project_id v" for w v
    by (simp add: completed_context_def that)
  obtain v :: WorkflowInstanceModel where v: "wi_project_id v = 2"
    using new_workflow_def by (metis WorkflowInstanceModel.select_convs(2))
  have "plan True w c ?p = Inr (Move (completed_context v c sample_commit ?p)
      (engine_request WorkflowState.COMPLETED (Some COMPLETENESS)
        ''All mandatory evidence and hashes are bound'' True))"
    if "wi_state w = WorkflowState.INTEGRATING" "wi_project_id w = 2" for w
  proof -
    have "plan_completion w c ?p = Move (completed_context w c sample_commit ?p)
        (engine_request WorkflowState.COMPLETED (Some COMPLETENESS)
          ''All mandatory evidence and hashes are bound'' True)"
      using e [OF that(2)] c(3) found
      by (simp add: plan_completion_def Let_def verify_completeness_iff)
    then show ?thesis using that same [of w v] v by (simp add: plan_def)
  qed
  then have "sample_at hs (tq_next_state (engine_request WorkflowState.COMPLETED (Some COMPLETENESS)
        ''All mandatory evidence and hashes are bound'' True))
      ((completed_context v c sample_commit ?p)\<lparr>wx_current_state := tq_next_state
        (engine_request WorkflowState.COMPLETED (Some COMPLETENESS)
        ''All mandatory evidence and hashes are bound'' True)\<rparr>)"
    by (intro sample_advance [OF at, where p = ?p]) (simp_all add: workflow_terminal_iff planned_def)
  then show ?thesis by (auto simp: engine_request_def)
qed

lemma sample_delivered: "\<exists>c. sample_at hs WorkflowState.COMPLETED c"
proof -
  let ?c0 = "sample_context PROJECT_CREATED"
  have f: "wx_execution_id ?c0 = None" "wx_project_id ?c0 = 2" "wx_approval_ids ?c0 = []"
    "wx_evidence_links ?c0 = []"
    by (simp_all add: sample_context_def new_context_def)
  note w = with_run_def with_execution_def with_review_def
  note s1 = sample_stages(1) [OF sample_begun, simplified]
  note s2 = sample_stages(2) [OF s1, simplified]
  note s3 = sample_stages(3) [OF s2, simplified]
  note s4 = sample_stages(4) [OF s3, simplified]
  note s5 = sample_stages(5) [OF s4, simplified w, simplified]
  note s6 = sample_stages(6) [OF s5, simplified]
  note s7 = sample_stages(7) [OF s6, simplified]
  show ?thesis by (rule sample_completion [OF s7]) (simp_all add: f)
qed

lemma sample_delivery:
  obtains s w where "engine_reachable hs s" "w \<in> set (wd_workflows (es_db s))"
    "wi_state w = WorkflowState.COMPLETED"
    "\<forall>ts. history (wi_id w) (es_db s) = Inr ts \<longrightarrow> (\<forall>t\<in>set ts. wt_policy_evidence t \<noteq> None)"
proof -
  obtain s w where r: "engine_reachable hs s" and w: "wd_workflows (es_db s) = [w]"
    "wi_state w = WorkflowState.COMPLETED" "wi_id w = 1" and n: "never_relinked (transitions_of 1 (es_db s))"
    using sample_delivered [of hs] unfolding sample_at_def by blast
  have "\<forall>ts. history (wi_id w) (es_db s) = Inr ts \<longrightarrow> (\<forall>t\<in>set ts. wt_policy_evidence t \<noteq> None)"
    using n by (auto simp: history_def result_simps w(3) never_relinked_def)
  then show thesis by (intro that [OF r _ w(2)]) (simp_all add: w(1))
qed

lemma sample_beginning:
  obtains s w where "engine_reachable hs s" "w \<in> set (wd_workflows (es_db s))"
    "wi_state w = PROJECT_CREATED" "wd_attempts (es_db s) = []"
  using sample_begun [of hs] unfolding sample_at_def by (metis list.set_intros(1))

end
