(* ===== verification/Workflow_Engine_Guarantees.thy ===== *)
theory Workflow_Engine_Guarantees
  imports Workflow_Sample
begin

text \<open>What the workflow engine guarantees in every state it can reach.\<close>

section \<open>Properties\<close>







end
