(* ===== verification/Work_Package.thy ===== *)
theory Work_Package
  imports Json_Value
begin

text \<open>
  \<^verbatim>\<open>domain/work_package.py\<close>, the contract a planner proposes for a work package, and
  \<^verbatim>\<open>domain/work_package_validation.py\<close>, its check against the files of the repository. Building a
  model from parsed data is \<open>model_validate\<close>: it runs every field and model validator and
  returns the contract with its normalized fields, or fails when one of them does; which errors
  are reported together is not modelled.
\<close>

section \<open>The contract\<close>

record ResourceLimits =
  rs_cpu_count :: rat
  rs_memory_mb :: int
  rs_disk_mb :: int
  rs_process_limit :: int
  rs_execution_timeout_seconds :: int

record NetworkRules =
  nr_policy :: string
  nr_allowed_hosts :: "string list"

record FileScope =
  fs_allowed_files :: "string list"
  fs_allowed_directories :: "string list"
  fs_forbidden_files :: "string list"
  fs_forbidden_directories :: "string list"
  fs_maximum_changed_files :: int
  fs_maximum_added_lines :: int
  fs_maximum_deleted_lines :: int

record CommandPolicy =
  cy_setup_commands :: "string list list"
  cy_implementation_commands :: "string list list"
  cy_test_commands :: "string list list"
  cy_forbidden_executables :: "string list"

record AcceptanceCriterion =
  cn_id :: string
  cn_description :: string
  cn_verification :: string

record RequiredChange =
  rq_id :: string
  rq_description :: string
  rq_related_requirements :: "string list"
  rq_target_paths :: "string list"

record WorkPackageContract =
  wc_schema_version :: string
  wc_project_id :: string
  wc_title :: string
  wc_objective :: string
  wc_base_commit_sha :: string
  wc_source_requirements_artifact_id :: string
  wc_source_requirements_hash :: string
  wc_source_architecture_artifact_id :: string
  wc_source_architecture_hash :: string
  wc_required_changes :: "RequiredChange list"
  wc_file_scope :: FileScope
  wc_command_policy :: CommandPolicy
  wc_network :: NetworkRules
  wc_resources :: ResourceLimits
  wc_acceptance_criteria :: "AcceptanceCriterion list"
  wc_expected_artifacts :: "string list"
  wc_forbidden_actions :: "string list"

datatype work_package_error =
    ValidationError
  | ProtectedPath string
  | NewFileOutside string
  | ForbiddenExecutables "string list"

section \<open>Validators\<close>

definition between :: "'a::linorder \<Rightarrow> 'a \<Rightarrow> 'a \<Rightarrow> bool" where
  "between low high n \<longleftrightarrow> low \<le> n \<and> n \<le> high"

definition valid_resources :: "ResourceLimits \<Rightarrow> bool" where
  "valid_resources r \<longleftrightarrow> 0 < rs_cpu_count r \<and> rs_cpu_count r \<le> 16 \<and>
     between 512 32768 (rs_memory_mb r) \<and> between 1024 65536 (rs_disk_mb r) \<and>
     between 32 2048 (rs_process_limit r) \<and> between 30 7200 (rs_execution_timeout_seconds r)"

definition validate_allowlist :: "NetworkRules \<Rightarrow> bool" where
  "validate_allowlist n \<longleftrightarrow> nr_policy n \<in> {''none'', ''loopback_only'', ''allowlist''} \<and>
     \<not> (nr_policy n \<noteq> ''allowlist'' \<and> nr_allowed_hosts n \<noteq> []) \<and>
     \<not> (nr_policy n = ''allowlist'' \<and> nr_allowed_hosts n = [])"

definition validate_path :: "string \<Rightarrow> work_package_error + string" where
  "validate_path raw_path =
     (let path = strip raw_path; pure_path = posix_path path
      in if path = [] \<or> pp_absolute pure_path \<or> ''..'' \<in> set (pp_parts pure_path)
         then Inl ValidationError else Inr (path_text pure_path))"

definition validate_paths :: "string list \<Rightarrow> work_package_error + string list" where
  "validate_paths paths = bind_result (traverse validate_path paths)
     (\<lambda>normalized. if \<not> distinct normalized then Inl ValidationError else Inr normalized)"

definition valid_file_scope :: "FileScope \<Rightarrow> work_package_error + FileScope" where
  "valid_file_scope s =
     bind_result (validate_paths (fs_allowed_files s)) (\<lambda>af.
     bind_result (validate_paths (fs_allowed_directories s)) (\<lambda>ad.
     bind_result (validate_paths (fs_forbidden_files s)) (\<lambda>ff.
     bind_result (validate_paths (fs_forbidden_directories s)) (\<lambda>fd.
       if fs_allowed_files s = [] \<or> \<not> between 1 100 (fs_maximum_changed_files s) \<or>
          \<not> between 1 10000 (fs_maximum_added_lines s) \<or> \<not> between 0 10000 (fs_maximum_deleted_lines s) \<or>
          list_ex (\<lambda>f. f \<in> set ff) af
       then Inl ValidationError
       else Inr (s\<lparr>fs_allowed_files := af, fs_allowed_directories := ad, fs_forbidden_files := ff,
                   fs_forbidden_directories := fd\<rparr>)))))"

definition valid_command :: "string list \<Rightarrow> bool" where
  "valid_command command = (case command of
     [] \<Rightarrow> False
   | executable # _ \<Rightarrow> strip executable \<noteq> [] \<and> strip executable \<notin> {''sh'', ''bash'', ''zsh''})"

definition valid_commands :: "CommandPolicy \<Rightarrow> bool" where
  "valid_commands p \<longleftrightarrow> cy_test_commands p \<noteq> [] \<and>
     list_all valid_command (cy_setup_commands p @ cy_implementation_commands p @ cy_test_commands p)"

definition decimal_digit :: "char \<Rightarrow> bool" where
  "decimal_digit c \<longleftrightarrow> between 48 57 (of_char c :: nat)"

definition numbered :: "string \<Rightarrow> string \<Rightarrow> bool" where
  "numbered marker s \<longleftrightarrow> prefix marker s \<and>
     (let number = drop (length marker) s in length number = 3 \<and> list_all decimal_digit number)"

definition valid_criterion :: "AcceptanceCriterion \<Rightarrow> bool" where
  "valid_criterion c \<longleftrightarrow> numbered ''AC-'' (cn_id c) \<and> between 10 2000 (length (cn_description c)) \<and>
     between 5 2000 (length (cn_verification c))"

definition valid_change :: "RequiredChange \<Rightarrow> bool" where
  "valid_change c \<longleftrightarrow> numbered ''CHG-'' (rq_id c) \<and> between 10 2000 (length (rq_description c)) \<and>
     rq_related_requirements c \<noteq> [] \<and> rq_target_paths c \<noteq> []"

definition lower_hex :: "char \<Rightarrow> bool" where
  "lower_hex c \<longleftrightarrow> decimal_digit c \<or> between 97 102 (of_char c :: nat)"

definition validate_hash :: "nat \<Rightarrow> string \<Rightarrow> work_package_error + string" where
  "validate_hash digits value =
     (let normalized = strip (lower value)
      in if length normalized = digits \<and> list_all lower_hex normalized then Inr normalized
         else Inl ValidationError)"

definition model_validate :: "WorkPackageContract \<Rightarrow> work_package_error + WorkPackageContract" where
  "model_validate c =
     bind_result (valid_file_scope (wc_file_scope c)) (\<lambda>scope.
     bind_result (validate_hash 40 (wc_base_commit_sha c)) (\<lambda>commit.
     bind_result (validate_hash 64 (wc_source_requirements_hash c)) (\<lambda>requirements.
     bind_result (validate_hash 64 (wc_source_architecture_hash c)) (\<lambda>architecture.
       if wc_schema_version c \<noteq> ''1.0'' \<or> \<not> between 5 250 (length (wc_title c)) \<or>
          \<not> between 20 5000 (length (wc_objective c)) \<or>
          \<not> between 1 12 (length (wc_required_changes c)) \<or>
          \<not> list_all valid_change (wc_required_changes c) \<or> \<not> valid_commands (wc_command_policy c) \<or>
          \<not> validate_allowlist (wc_network c) \<or> \<not> valid_resources (wc_resources c) \<or>
          \<not> between 1 30 (length (wc_acceptance_criteria c)) \<or>
          \<not> list_all valid_criterion (wc_acceptance_criteria c) \<or>
          \<not> distinct (map cn_id (wc_acceptance_criteria c)) \<or>
          \<not> distinct (map rq_id (wc_required_changes c))
       then Inl ValidationError
       else Inr (c\<lparr>wc_file_scope := scope, wc_base_commit_sha := commit,
                   wc_source_requirements_hash := requirements,
                   wc_source_architecture_hash := architecture\<rparr>)))))"

section \<open>The repository\<close>

definition PROTECTED_PATHS :: "string list" where
  "PROTECTED_PATHS =
     [''.env'', ''.git'', ''.git/config'', ''.git/hooks'', ''/etc'', ''/proc'', ''/sys'', ''/dev'',
      ''/run'', ''/var/run/docker.sock'']"

definition reject_protected_path :: "string \<Rightarrow> work_package_error + unit" where
  "reject_protected_path path =
     (let normalized = path_text (posix_path path)
      in if list_ex (\<lambda>protected. normalized = protected \<or> starts_with normalized (protected @ ''/''))
              PROTECTED_PATHS
         then Inl (ProtectedPath path) else Inr ())"

definition parent_text :: "string \<Rightarrow> string" where
  "parent_text path = (let p = posix_path path in path_text (p\<lparr>pp_parts := butlast (pp_parts p)\<rparr>))"

definition check_file :: "string list \<Rightarrow> string list \<Rightarrow> string \<Rightarrow> work_package_error + unit" where
  "check_file tracked_files directories path = bind_result (reject_protected_path path)
     (\<lambda>_. if path \<notin> set tracked_files \<and> parent_text path \<notin> set directories
          then Inl (NewFileOutside path) else Inr ())"

definition executables :: "CommandPolicy \<Rightarrow> string list" where
  "executables p = map hd (cy_setup_commands p @ cy_implementation_commands p @ cy_test_commands p)"

definition validate_repository_boundaries ::
  "WorkPackageContract \<Rightarrow> string list \<Rightarrow> work_package_error + unit" where
  "validate_repository_boundaries contract tracked_files =
     (let scope = wc_file_scope contract; policy = wc_command_policy contract
      in bind_result (traverse (check_file tracked_files (fs_allowed_directories scope))
             (fs_allowed_files scope))
           (\<lambda>_. bind_result (traverse reject_protected_path (fs_allowed_directories scope))
             (\<lambda>_. let violation = filter (\<lambda>e. e \<in> set (cy_forbidden_executables policy)) (executables policy)
                  in if violation \<noteq> [] then Inl (ForbiddenExecutables (sorted_unique violation))
                     else Inr ())))"

section \<open>Properties\<close>

lemma validate_pathD:
  assumes "validate_path raw = Inr p"
  shows "posix_path p = posix_path (strip raw)" "\<not> pp_absolute (posix_path p)"
    "''..'' \<notin> set (pp_parts (posix_path p))" "path_text (posix_path p) = p"
proof -
  let ?q = "posix_path (strip raw)"
  have p: "p = path_text ?q" "\<not> pp_absolute ?q" "''..'' \<notin> set (pp_parts ?q)"
    using assms by (auto simp: validate_path_def Let_def split: if_splits)
  then have q: "posix_path p = ?q" using posix_path_round_trip by simp
  then show "posix_path p = ?q" "\<not> pp_absolute (posix_path p)" "''..'' \<notin> set (pp_parts (posix_path p))"
    "path_text (posix_path p) = p"
    using p by simp_all
qed

definition inside_repository :: "string \<Rightarrow> bool" where
  "inside_repository p \<longleftrightarrow> \<not> pp_absolute (posix_path p) \<and> ''..'' \<notin> set (pp_parts (posix_path p)) \<and>
     path_text (posix_path p) = p"

lemma validate_pathsD:
  assumes "validate_paths raw = Inr ps"
  shows "distinct ps" "\<forall>p\<in>set ps. inside_repository p"
proof -
  have t: "traverse validate_path raw = Inr ps" and "distinct ps"
    using assms by (auto simp: validate_paths_def result_simps split: if_splits)
  then show "distinct ps" by simp
  show "\<forall>p\<in>set ps. inside_repository p"
    using traverse_Inr_set [OF t] validate_pathD unfolding inside_repository_def by blast
qed

lemma model_validateD:
  assumes "model_validate raw = Inr c"
  shows "distinct (fs_allowed_files (wc_file_scope c))"
    "\<forall>p\<in>set (fs_allowed_files (wc_file_scope c) @ fs_allowed_directories (wc_file_scope c)). inside_repository p"
    "set (fs_allowed_files (wc_file_scope c)) \<inter> set (fs_forbidden_files (wc_file_scope c)) = {}"
    "valid_commands (wc_command_policy c)"
    "distinct (map rq_id (wc_required_changes c))" "distinct (map cn_id (wc_acceptance_criteria c))"
    "length (wc_base_commit_sha c) = 40 \<and> list_all lower_hex (wc_base_commit_sha c)"
proof -
  obtain scope commit where s: "valid_file_scope (wc_file_scope raw) = Inr scope"
    "validate_hash 40 (wc_base_commit_sha raw) = Inr commit"
    and c: "wc_file_scope c = scope" "wc_base_commit_sha c = commit"
    and rest: "valid_commands (wc_command_policy c)" "distinct (map rq_id (wc_required_changes c))"
      "distinct (map cn_id (wc_acceptance_criteria c))"
    using assms by (auto simp: model_validate_def result_simps split: if_splits)
  then show "valid_commands (wc_command_policy c)" "distinct (map rq_id (wc_required_changes c))"
    "distinct (map cn_id (wc_acceptance_criteria c))" by simp_all
  show "length (wc_base_commit_sha c) = 40 \<and> list_all lower_hex (wc_base_commit_sha c)"
    using s(2) unfolding c(2) by (auto simp: validate_hash_def Let_def split: if_splits)
  obtain af ad ff fd where "validate_paths (fs_allowed_files (wc_file_scope raw)) = Inr af"
      "validate_paths (fs_allowed_directories (wc_file_scope raw)) = Inr ad"
    and sc: "fs_allowed_files scope = af" "fs_allowed_directories scope = ad" "fs_forbidden_files scope = ff"
      "\<not> list_ex (\<lambda>f. f \<in> set ff) af"
    using s(1) by (auto simp: valid_file_scope_def result_simps split: if_splits)
  note v = validate_pathsD [OF this(1)] validate_pathsD [OF this(2)]
  show "distinct (fs_allowed_files (wc_file_scope c))"
    "\<forall>p\<in>set (fs_allowed_files (wc_file_scope c) @ fs_allowed_directories (wc_file_scope c)). inside_repository p"
    "set (fs_allowed_files (wc_file_scope c)) \<inter> set (fs_forbidden_files (wc_file_scope c)) = {}"
    using v sc unfolding c(1) by (auto simp: list_ex_iff)
qed

definition unprotected :: "string \<Rightarrow> bool" where
  "unprotected p \<longleftrightarrow> (\<forall>protected\<in>set PROTECTED_PATHS.
     \<not> path_within (posix_path protected) (posix_path p))"

lemma traverse_Inr_ex: "traverse f xs = Inr ys \<Longrightarrow> x \<in> set xs \<Longrightarrow> \<exists>y. f x = Inr y"
  by (induction xs arbitrary: ys) (auto simp: result_simps)

lemma join_with_append:
  "ws \<noteq> [] \<Longrightarrow> vs \<noteq> [] \<Longrightarrow> join_with sep (ws @ vs) = join_with sep ws @ sep @ join_with sep vs"
proof (induction sep ws rule: join_with.induct)
  case (2 sep x)
  then show ?case by (cases vs) simp_all
qed simp_all

text \<open>A path that is not refused is not below a protected one, directory by directory.\<close>

lemma reject_protected_pathD:
  assumes r: "reject_protected_path p = Inr u" and p: "inside_repository p"
  shows "unprotected p"
proof -
  have rel: "\<not> pp_absolute (posix_path p)" and same: "path_text (posix_path p) = p"
    using p by (simp_all add: inside_repository_def)
  have "\<not> path_within (posix_path q) (posix_path p)" if q: "q \<in> set PROTECTED_PATHS" for q
  proof
    assume w: "path_within (posix_path q) (posix_path p)"
    have "\<not> prefix ''/'' q" using w rel by (simp add: path_within_def posix_path_def)
    moreover have "list_all (\<lambda>q. prefix ''/'' q \<or>
        pp_parts (posix_path q) \<noteq> [] \<and> join_with ''/'' (pp_parts (posix_path q)) = q) PROTECTED_PATHS"
      by code_simp
    ultimately have ne: "pp_parts (posix_path q) \<noteq> []" and qt: "join_with ''/'' (pp_parts (posix_path q)) = q"
      using q by (auto simp: list_all_iff)
    obtain vs where vs: "pp_parts (posix_path p) = pp_parts (posix_path q) @ vs"
      using w by (auto simp: path_within_def prefix_def)
    then have "p = join_with ''/'' (pp_parts (posix_path q) @ vs)"
      using same rel ne by (auto simp: path_text_def)
    then have "p = q \<or> starts_with p (q @ ''/'')"
      using join_with_append [OF ne, of vs "''/''"] qt by (cases vs) (auto simp: starts_with_def)
    then have "reject_protected_path p = Inl (ProtectedPath p)"
      using q same by (auto simp: reject_protected_path_def list_ex_iff)
    with r show False by simp
  qed
  then show ?thesis by (simp add: unprotected_def)
qed


definition sample_contract :: WorkPackageContract where
  "sample_contract = \<lparr>wc_schema_version = ''1.0'', wc_project_id = ''p'', wc_title = ''Add parser'',
     wc_objective = ''Parse the input of the tool'', wc_base_commit_sha = replicate 40 CHR ''A'',
     wc_source_requirements_artifact_id = ''r'', wc_source_requirements_hash = replicate 64 CHR ''1'',
     wc_source_architecture_artifact_id = ''a'', wc_source_architecture_hash = replicate 64 CHR ''2'',
     wc_required_changes = [\<lparr>rq_id = ''CHG-001'', rq_description = ''Add a parser'',
       rq_related_requirements = [''REQ-001''], rq_target_paths = [''src/parser.py'']\<rparr>],
     wc_file_scope = \<lparr>fs_allowed_files = ['' src//parser.py '', ''README.md''],
       fs_allowed_directories = [''./src''], fs_forbidden_files = [], fs_forbidden_directories = [],
       fs_maximum_changed_files = 12, fs_maximum_added_lines = 1000, fs_maximum_deleted_lines = 500\<rparr>,
     wc_command_policy = \<lparr>cy_setup_commands = [], cy_implementation_commands = [],
       cy_test_commands = [[''pytest'', ''-q'']], cy_forbidden_executables = [''sudo'']\<rparr>,
     wc_network = \<lparr>nr_policy = ''none'', nr_allowed_hosts = []\<rparr>,
     wc_resources = \<lparr>rs_cpu_count = 2, rs_memory_mb = 4096, rs_disk_mb = 8192, rs_process_limit = 256,
       rs_execution_timeout_seconds = 1800\<rparr>,
     wc_acceptance_criteria = [\<lparr>cn_id = ''AC-001'', cn_description = ''Parses all files'',
       cn_verification = ''pytest''\<rparr>],
     wc_expected_artifacts = [], wc_forbidden_actions = []\<rparr>"


end
