(* ===== verification/Uuid_Text.thy ===== *)
theory Uuid_Text
  imports Py_Text
begin

text \<open>
  The text of an identifier parses back to the identifier. The services store identifiers as
  text in payloads and read them again with \<^verbatim>\<open>uuid.UUID\<close>; that the rows they then load are the
  rows that were meant rests on this.
\<close>

definition hex_chars :: string where
  "hex_chars = ''0123456789abcdef''"

lemma hex_digit_values:
  "list_all (\<lambda>n. hex_digit n \<in> set hex_chars \<and> digit_value 16 (hex_digit n) = Some n) [0..15]"
  by code_simp

lemma hex_digit:
  assumes "0 \<le> n" "n < 16"
  shows "hex_digit n \<in> set hex_chars" "digit_value 16 (hex_digit n) = Some n"
  using hex_digit_values assms by (auto simp: list_all_iff)

lemma hex_chars_plain:
  "list_all (\<lambda>c. c \<notin> set ''-_+{}uxX'' \<and> \<not> is_space_char c) hex_chars"
  by code_simp

lemma hex_char:
  assumes "c \<in> set hex_chars"
  shows "c \<noteq> CHR ''-''" "c \<noteq> CHR ''_''" "c \<noteq> CHR ''+''" "c \<noteq> CHR ''{''" "c \<noteq> CHR ''}''"
    "c \<noteq> CHR ''u''" "c \<noteq> CHR ''x''" "c \<noteq> CHR ''X''" "\<not> is_space_char c"
  using hex_chars_plain assms by (auto simp: list_all_iff)

lemma length_hex_text [simp]: "length (hex_text k n) = k"
  by (induction k arbitrary: n) auto

lemma set_hex_text: "set (hex_text k n) \<subseteq> set hex_chars"
  by (induction k arbitrary: n) (auto simp: hex_digit)

lemma int_digits_snoc:
  assumes "set s \<subseteq> set hex_chars" and "d \<in> set hex_chars" and "digit_value 16 d = Some v"
  shows "int_digits 16 b acc (s @ [d]) =
    (case int_digits 16 True acc s of None \<Rightarrow> None | Some m \<Rightarrow> Some (m * 16 + v))"
  using assms(1)
proof (induction s arbitrary: b acc)
  case Nil
  then show ?case using assms hex_char(2) by simp
next
  case (Cons c s)
  then show ?case using hex_char(2) [of c] by (auto split: option.splits)
qed

lemma int_digits_hex_text:
  "0 \<le> n \<Longrightarrow> int_digits 16 True acc (hex_text k n) = Some (acc * 16 ^ k + n mod 16 ^ k)"
proof (induction k arbitrary: n acc)
  case (Suc k)
  have "int_digits 16 True acc (hex_text (Suc k) n) = Some ((acc * 16 ^ k + (n div 16) mod 16 ^ k) * 16 + n mod 16)"
    using Suc int_digits_snoc [OF set_hex_text hex_digit, of "n mod 16" True acc k "n div 16"] by simp
  moreover have "n mod 16 ^ Suc k = 16 * ((n div 16) mod 16 ^ k) + n mod 16"
    using zmod_zmult2_eq [of "16 ^ k" n 16] by simp
  ultimately show ?case by (simp add: algebra_simps)
qed simp

lemma hex_text_nonempty: "0 < k \<Longrightarrow> hex_text k n \<noteq> []"
  by (metis length_hex_text list.size(3) less_irrefl)

lemma int_digits_start:
  assumes "set s \<subseteq> set hex_chars" "s \<noteq> []"
  shows "int_digits 16 False acc s = int_digits 16 True acc s"
  using assms hex_char(2) by (cases s) auto

lemma hex_text_ends:
  assumes "0 < k"
  shows "hd (hex_text k n) \<in> set hex_chars" "last (hex_text k n) \<in> set hex_chars"
  using set_hex_text [of k n] hex_text_nonempty [OF assms, of n] by (auto simp: subset_iff)

lemma py_int_hex_text:
  assumes "0 < k" "0 \<le> n"
  shows "py_int 16 (hex_text k n) = Some (n mod 16 ^ k)"
proof -
  let ?s = "hex_text k n"
  obtain c cs where s: "?s = c # cs" using hex_text_nonempty [OF assms(1)] by (cases ?s) auto
  have in_hex: "set (c # cs) \<subseteq> set hex_chars" using set_hex_text [of k n] unfolding s .
  have "strip ?s = ?s"
    unfolding strip_def using hex_text_ends [OF assms(1)] hex_char(9) by (intro strip_by_id) blast
  moreover have "\<not> prefix ''0x'' (c # cs)" "\<not> prefix ''0X'' (c # cs)"
    using in_hex hex_char(7,8) by (cases cs; auto simp: prefix_def)+
  moreover have "int_digits 16 False 0 (c # cs) = Some (n mod 16 ^ k)"
    using int_digits_start [OF in_hex] int_digits_hex_text [OF assms(2), of 0 k] unfolding s by simp
  moreover have "c \<noteq> CHR ''-''" "c \<noteq> CHR ''+''" using in_hex hex_char(1,3) by auto
  ultimately show ?thesis
    unfolding s py_int_def by (simp add: int_magnitude_def del: int_digits.simps Cons_prefix_Cons)
qed

lemma replace_text_absent:
  assumes "c \<notin> set s"
  shows "replace_text (c # cs) new s = s"
proof -
  have "replace_fuel n (c # cs) new s = s" if "length s \<le> n" for n
    using that assms
  proof (induction s arbitrary: n)
    case Nil
    then show ?case by (cases n) simp_all
  next
    case (Cons d s)
    then obtain m where "n = Suc m" by (cases n) auto
    with Cons show ?case by (auto simp: prefix_def)
  qed
  then show ?thesis by (simp add: replace_text_def)
qed

lemma remove_dashes:
  assumes "CHR ''-'' \<notin> set h"
  shows "remove_char CHR ''-'' (take 8 h @ ''-'' @ take 4 (drop 8 h) @ ''-'' @ take 4 (drop 12 h) @ ''-'' @
    take 4 (drop 16 h) @ ''-'' @ drop 20 h) = h"
proof -
  have keep: "filter (\<lambda>d. d \<noteq> CHR ''-'') xs = xs" if "set xs \<subseteq> set h" for xs
    using that assms by (intro filter_True) auto
  have sub: "set (take i (drop j h)) \<subseteq> set h" "set (drop j h) \<subseteq> set h" "set (take i h) \<subseteq> set h" for i j
    by (meson set_drop_subset set_take_subset subset_trans)+
  have "drop 8 h = take 4 (drop 8 h) @ drop 12 h" "drop 12 h = take 4 (drop 12 h) @ drop 16 h"
    "drop 16 h = take 4 (drop 16 h) @ drop 20 h"
    using append_take_drop_id [of 4 "drop 8 h"] append_take_drop_id [of 4 "drop 12 h"]
      append_take_drop_id [of 4 "drop 16 h"] by simp_all
  then have "take 8 h @ take 4 (drop 8 h) @ take 4 (drop 12 h) @ take 4 (drop 16 h) @ drop 20 h = h"
    using append_take_drop_id [of 8 h] by metis
  then show ?thesis
    unfolding remove_char_def filter_append by (simp add: keep [OF sub(1)] keep [OF sub(2)] keep [OF sub(3)])
qed

theorem py_uuid_uuid_text [simp]: "py_uuid (uuid_text u) = Some u"
proof -
  let ?h = "hex_text 32 (uint u)"
  have hex: "set ?h \<subseteq> set hex_chars" by (rule set_hex_text)
  have chars: "c \<in> set hex_chars \<or> c = CHR ''-''" if "c \<in> set (uuid_text u)" for c
    using that hex unfolding uuid_text_def Let_def
    by (auto dest!: in_set_takeD in_set_dropD)
  then have no_u: "CHR ''u'' \<notin> set (uuid_text u)" using hex_char(6) by auto
  have no_dash: "CHR ''-'' \<notin> set ?h" using hex hex_char(1) by blast
  have "uuid_text u \<noteq> []" by (simp add: uuid_text_def Let_def)
  then have "hd (uuid_text u) \<in> set (uuid_text u)" "last (uuid_text u) \<in> set (uuid_text u)" by simp_all
  then have "strip_by (\<lambda>c. c = CHR ''{'' \<or> c = CHR ''}'') (uuid_text u) = uuid_text u"
    using chars [of "hd (uuid_text u)"] chars [of "last (uuid_text u)"] hex_char(4,5) by (intro strip_by_id) auto
  moreover have "remove_char CHR ''-'' (uuid_text u) = ?h"
    unfolding uuid_text_def Let_def by (rule remove_dashes [OF no_dash])
  moreover have "py_int 16 ?h = Some (uint u)"
  proof -
    have "uint u mod 16 ^ 32 = uint u" using uint_lt2p [of u] by simp
    then show ?thesis using py_int_hex_text [of 32 "uint u"] by simp
  qed
  moreover have "uint u < 2 ^ 128" using uint_lt2p [of u] by simp
  ultimately show ?thesis
    using replace_text_absent [OF no_u] by (simp add: py_uuid_def Let_def)
qed

end
