(* ===== verification/Project_Store.thy ===== *)
theory Project_Store
  imports Workflow_Store Work_Package Uuid_Text
begin

text \<open>
  The tables behind the delivery of a project (\<^verbatim>\<open>infrastructure/database/models.py\<close> and
  \<^verbatim>\<open>infrastructure/requirements_revision/models.py\<close>) and the helpers of
  \<^verbatim>\<open>application/project_workflow.py\<close>.

  A status is a value of its enumeration. \<^verbatim>\<open>created_at\<close> and \<^verbatim>\<open>updated_at\<close> are the clock reading of
  the transaction that writes the row; \<^verbatim>\<open>created_at\<close> is kept where a query orders by it, and rows
  with equal keys come in the order of the table. Identifiers in payloads are texts. A row of
  \<^verbatim>\<open>requirements_revision_cycles\<close> is split: the columns the job queue writes as well (its status
  and completion) are in the tables of the queue, the others here. The identifiers a transaction
  draws with \<^verbatim>\<open>uuid4\<close> are the values of \<open>ids\<close> in the order of the draws; an identifier that is in
  use violates the primary key.
\<close>

section \<open>Tables\<close>

datatype RunStatus = QUEUED | RUNNING | SUCCEEDED | FAILED

fun run_status_text :: "RunStatus \<Rightarrow> string" where
  "run_status_text QUEUED = ''queued''"
| "run_status_text RUNNING = ''running''"
| "run_status_text SUCCEEDED = ''succeeded''"
| "run_status_text FAILED = ''failed''"

datatype WorkPackageStatus =
    DRAFT | AWAITING_APPROVAL | APPROVED | REJECTED
  | EXECUTION_QUEUED | EXECUTING | EXECUTION_SUCCEEDED | EXECUTION_FAILED

type_synonym dict = "(string \<times> json) list"

record ProjectModel =
  pq_id :: uuid
  pq_name :: string
  pq_description :: string
  pq_repository_path :: string
  pq_repository_url :: "string option"
  pq_default_branch :: string
  pq_status :: ProjectStatus
  pq_manifest_hash :: digest
  pq_manifest :: dict

record CrewRunModel =
  cx_id :: uuid
  cx_project_id :: uuid
  cx_crew_name :: string
  cx_status :: RunStatus
  cx_input_payload :: dict
  cx_output_payload :: "dict option"
  cx_error_message :: "string option"
  cx_started_at :: "timestamp option"
  cx_completed_at :: "timestamp option"
  cx_created_at :: timestamp

record ArtifactModel =
  af_id :: uuid
  af_project_id :: uuid
  af_run_id :: "uuid option"
  af_artifact_type :: string
  af_media_type :: string
  af_content :: string
  af_content_hash :: digest
  af_created_at :: timestamp

record ApprovalModel =
  ay_id :: uuid
  ay_project_id :: uuid
  ay_artifact_id :: uuid
  ay_decision :: string
  ay_reviewer :: string
  ay_comment :: "string option"
  ay_created_at :: timestamp

record WorkPackageModel =
  wk_id :: uuid
  wk_project_id :: uuid
  wk_planning_run_id :: uuid
  wk_artifact_id :: "uuid option"
  wk_status :: WorkPackageStatus
  wk_title :: string
  wk_objective :: string
  wk_repository_url :: "string option"
  wk_base_commit_sha :: string
  wk_source_requirements_artifact_id :: uuid
  wk_source_requirements_hash :: digest
  wk_source_architecture_artifact_id :: uuid
  wk_source_architecture_hash :: digest
  wk_contract :: json
  wk_contract_hash :: digest
  wk_updated_at :: timestamp

record RequirementsRevisionRequestModel =
  rv_id :: uuid
  rv_project_id :: uuid
  rv_requirements_run_id :: uuid
  rv_source_artifact_id :: uuid
  rv_source_review_decision_id :: uuid
  rv_requested_by :: string
  rv_feedback_summary :: string
  rv_feedback_items :: "json list"
  rv_feedback_hash :: digest

record RequirementsRevisionCycleModel =
  cy_id :: uuid
  cy_requirements_run_id :: uuid
  cy_revision_request_id :: uuid
  cy_cycle_number :: int
  cy_resulting_artifact_id :: "uuid option"

record RequirementsArtifactLineageModel =
  ln_id :: uuid
  ln_artifact_id :: uuid
  ln_revision_cycle_id :: "uuid option"
  ln_previous_artifact_id :: "uuid option"
  ln_version :: int
  ln_revision_feedback_hash :: "digest option"

record project_db =
  pt_projects :: "ProjectModel list"
  pt_runs :: "CrewRunModel list"
  pt_artifacts :: "ArtifactModel list"
  pt_approvals :: "ApprovalModel list"
  pt_packages :: "WorkPackageModel list"
  pt_requests :: "RequirementsRevisionRequestModel list"
  pt_cycles :: "RequirementsRevisionCycleModel list"
  pt_lineage :: "RequirementsArtifactLineageModel list"
  pt_queue :: queue_tables
  pt_audit :: audit_tables

text \<open>An exception with its text; \<open>OtherError\<close> stands for those of Python and the database.\<close>

datatype project_error =
    ProjectNotFoundError string
  | InvalidProjectStateError string
  | ArtifactNotFoundError string
  | ProjectRuntimeError string
  | RequirementsRevisionError string
  | OtherError string

fun error_text :: "project_error \<Rightarrow> string" where
  "error_text (ProjectNotFoundError m) = m"
| "error_text (InvalidProjectStateError m) = m"
| "error_text (ArtifactNotFoundError m) = m"
| "error_text (ProjectRuntimeError m) = m"
| "error_text (RequirementsRevisionError m) = m"
| "error_text (OtherError m) = m"

abbreviation REQUIREMENTS_SPECIFICATION :: string where
  "REQUIREMENTS_SPECIFICATION \<equiv> ''requirements_specification''"

abbreviation ARCHITECTURE_SPECIFICATION :: string where
  "ARCHITECTURE_SPECIFICATION \<equiv> ''architecture_specification''"

abbreviation WORK_PACKAGE :: string where
  "WORK_PACKAGE \<equiv> ''work_package''"

text \<open>A result together with the tables as the call leaves them, raised exceptions included.\<close>

type_synonym 'a outcome = "(project_error + 'a) \<times> project_db"

section \<open>Rows\<close>

definition insert_row :: "('a \<Rightarrow> uuid) \<Rightarrow> 'a \<Rightarrow> 'a list \<Rightarrow> project_error + 'a list" where
  "insert_row key row rows =
     (if list_ex (\<lambda>r. key r = key row) rows
      then Inl (OtherError ''duplicate key value violates unique constraint'')
      else Inr (rows @ [row]))"

definition get_project :: "uuid \<Rightarrow> project_db \<Rightarrow> project_error + ProjectModel" where
  "get_project project_id db = (case get_row pq_id project_id (pt_projects db) of
     None \<Rightarrow> Inl (ProjectNotFoundError (uuid_text project_id))
   | Some project \<Rightarrow> Inr project)"

definition set_status :: "uuid \<Rightarrow> ProjectStatus \<Rightarrow> project_db \<Rightarrow> project_db" where
  "set_status project_id status db =
     db\<lparr>pt_projects := alter (\<lambda>p. pq_id p = project_id) (\<lambda>p. p\<lparr>pq_status := status\<rparr>) (pt_projects db)\<rparr>"

definition update_run :: "uuid \<Rightarrow> (CrewRunModel \<Rightarrow> CrewRunModel) \<Rightarrow> project_db \<Rightarrow> project_db" where
  "update_run run_id f db = db\<lparr>pt_runs := alter (\<lambda>r. cx_id r = run_id) f (pt_runs db)\<rparr>"

definition note_event ::
  "hashing \<Rightarrow> (nat \<Rightarrow> uuid) \<Rightarrow> nat \<Rightarrow> uuid \<Rightarrow> string \<Rightarrow> string \<Rightarrow> string \<Rightarrow> dict \<Rightarrow> project_db \<Rightarrow> project_db"
where
  "note_event hs ids n project_id event_type actor_type actor_id payload db =
     db\<lparr>pt_audit := append_project_event (hash_json hs) (ids n) (ids (n + 1)) project_id
          event_type actor_type actor_id payload (pt_audit db)\<rparr>"

definition add_run :: "CrewRunModel \<Rightarrow> project_db \<Rightarrow> project_error + project_db" where
  "add_run run db =
     bind_result (insert_row cx_id run (pt_runs db)) (\<lambda>runs. Inr (db\<lparr>pt_runs := runs\<rparr>))"

definition add_artifact :: "ArtifactModel \<Rightarrow> project_db \<Rightarrow> project_error + project_db" where
  "add_artifact a db =
     bind_result (insert_row af_id a (pt_artifacts db)) (\<lambda>artifacts. Inr (db\<lparr>pt_artifacts := artifacts\<rparr>))"

definition add_approval :: "ApprovalModel \<Rightarrow> project_db \<Rightarrow> project_error + project_db" where
  "add_approval approval db =
     bind_result (insert_row ay_id approval (pt_approvals db))
       (\<lambda>approvals. Inr (db\<lparr>pt_approvals := approvals\<rparr>))"

text \<open>\<^verbatim>\<open>artifact_id\<close> and \<^verbatim>\<open>contract_hash\<close> are unique.\<close>

definition add_package :: "WorkPackageModel \<Rightarrow> project_db \<Rightarrow> project_error + project_db" where
  "add_package package db =
     (if list_ex (\<lambda>w. wk_contract_hash w = wk_contract_hash package \<or>
           wk_artifact_id package \<noteq> None \<and> wk_artifact_id w = wk_artifact_id package) (pt_packages db)
      then Inl (OtherError ''duplicate key value violates unique constraint'')
      else bind_result (insert_row wk_id package (pt_packages db))
             (\<lambda>packages. Inr (db\<lparr>pt_packages := packages\<rparr>)))"

definition new_run :: "uuid \<Rightarrow> timestamp \<Rightarrow> uuid \<Rightarrow> string \<Rightarrow> dict \<Rightarrow> CrewRunModel" where
  "new_run new_id now project_id crew_name input_payload =
     \<lparr>cx_id = new_id, cx_project_id = project_id, cx_crew_name = crew_name,
      cx_status = QUEUED, cx_input_payload = input_payload, cx_output_payload = None,
      cx_error_message = None, cx_started_at = None, cx_completed_at = None, cx_created_at = now\<rparr>"

section \<open>Helpers of the service\<close>

text \<open>
  \<^verbatim>\<open>uuid.UUID(payload[key])\<close>, and \<^verbatim>\<open>uuid.UUID(str(payload.get(key)))\<close> when there is one.
\<close>

definition required_uuid :: "dict \<Rightarrow> string \<Rightarrow> project_error + uuid" where
  "required_uuid payload key = (case map_of payload key of
     None \<Rightarrow> Inl (OtherError key)
   | Some v \<Rightarrow> (case v of
       JText t \<Rightarrow> (case py_uuid t of
           None \<Rightarrow> Inl (OtherError ''badly formed hexadecimal UUID string'')
         | Some u \<Rightarrow> Inr u)
     | _ \<Rightarrow> Inl (OtherError ''badly formed hexadecimal UUID string'')))"

definition optional_uuid :: "dict \<Rightarrow> string \<Rightarrow> project_error + uuid option" where
  "optional_uuid payload key =
     (if map_of payload key = None \<or> \<not> truthy (the (map_of payload key)) then Inr None
      else bind_result (required_uuid payload key) (\<lambda>u. Inr (Some u)))"

definition required_value :: "dict \<Rightarrow> string \<Rightarrow> project_error + json" where
  "required_value payload key =
     (case map_of payload key of None \<Rightarrow> Inl (OtherError key) | Some v \<Rightarrow> Inr v)"

definition find_artifact :: "uuid \<Rightarrow> uuid \<Rightarrow> string \<Rightarrow> project_db \<Rightarrow> project_error + ArtifactModel" where
  "find_artifact artifact_id project_id artifact_type db =
     (case List.find (\<lambda>a. af_id a = artifact_id \<and> af_project_id a = project_id \<and>
             af_artifact_type a = artifact_type) (pt_artifacts db) of
        None \<Rightarrow> Inl (ArtifactNotFoundError (uuid_text artifact_id))
      | Some a \<Rightarrow> Inr a)"

definition load_artifact :: "uuid \<Rightarrow> project_db \<Rightarrow> project_error + ArtifactModel" where
  "load_artifact artifact_id db = (case get_row af_id artifact_id (pt_artifacts db) of
     None \<Rightarrow> Inl (ArtifactNotFoundError (uuid_text artifact_id)) | Some a \<Rightarrow> Inr a)"

text \<open>The approvals of an artifact of a project that approve it.\<close>

definition approvals_of :: "uuid \<Rightarrow> uuid \<Rightarrow> project_db \<Rightarrow> ApprovalModel list" where
  "approvals_of project_id artifact_id db = filter (\<lambda>y. ay_project_id y = project_id \<and>
     ay_artifact_id y = artifact_id \<and> ay_decision y = ''approved'') (pt_approvals db)"

definition auto_approves :: "ProjectModel \<Rightarrow> string \<Rightarrow> bool" where
  "auto_approves project event_type =
     (case map_of (pq_manifest project) ''autonomous_execution'' of
        Some (JObject policy) \<Rightarrow>
          map_of policy ''enabled'' = Some (JBool True) \<and>
          map_of policy ''authority'' = Some (JText ''manifest_ingestion'') \<and>
          (case map_of [(''requirements.auto_approved'', ''auto_approve_requirements''),
                        (''architecture.auto_approved'', ''auto_approve_architecture''),
                        (''work_package.auto_approved'', ''auto_approve_work_package'')] event_type of
             None \<Rightarrow> False
           | Some phase_key \<Rightarrow> map_of policy phase_key = Some (JBool True))
      | _ \<Rightarrow> False)"

definition new_approval ::
  "uuid \<Rightarrow> timestamp \<Rightarrow> uuid \<Rightarrow> uuid \<Rightarrow> string \<Rightarrow> string \<Rightarrow> string option \<Rightarrow> ApprovalModel" where
  "new_approval new_id now project_id artifact_id decision reviewer comment =
     \<lparr>ay_id = new_id, ay_project_id = project_id, ay_artifact_id = artifact_id,
      ay_decision = decision, ay_reviewer = reviewer, ay_comment = comment, ay_created_at = now\<rparr>"

definition auto_approval ::
  "uuid \<Rightarrow> timestamp \<Rightarrow> ProjectModel \<Rightarrow> uuid \<Rightarrow> string \<Rightarrow> ApprovalModel option" where
  "auto_approval new_id now project artifact_id event_type =
     (if auto_approves project event_type
      then Some (new_approval new_id now (pq_id project) artifact_id ''approved''
        ''manifest-autonomy-policy''
        (Some (''Approved automatically because the ingested manifesto enabled '' @
               ''controlled autonomous execution.'')))
      else None)"

definition append_auto_approval_event ::
  "hashing \<Rightarrow> (nat \<Rightarrow> uuid) \<Rightarrow> nat \<Rightarrow> ProjectModel \<Rightarrow> ArtifactModel \<Rightarrow> string \<Rightarrow> project_db \<Rightarrow>
   project_error + project_db" where
  "append_auto_approval_event hs ids n project a event_type db =
     (case map_of (pq_manifest project) ''autonomous_execution'' of
        Some (JObject policy) \<Rightarrow> Inr (note_event hs ids n (pq_id project) event_type ''system''
          ''manifest-autonomy-policy''
          [(''artifact_id'', uuid_json (af_id a)), (''artifact_hash'', JText (af_content_hash a)),
           (''authority'', JText ''manifest_ingestion''),
           (''mode'', case map_of policy ''mode'' of None \<Rightarrow> JText ''controlled_demo'' | Some m \<Rightarrow> m)] db)
      | _ \<Rightarrow> Inl (ProjectRuntimeError ''Auto-approval policy disappeared before audit write''))"

definition get_latest_approved_artifact ::
  "uuid \<Rightarrow> string \<Rightarrow> project_db \<Rightarrow> project_error + ArtifactModel" where
  "get_latest_approved_artifact project_id artifact_type db =
     (case first_by (\<lambda>(a, y). - ay_created_at y)
             (filter (\<lambda>(a, y). ay_artifact_id y = af_id a \<and> af_project_id a = project_id \<and>
                  af_artifact_type a = artifact_type \<and> ay_decision y = ''approved'')
               (List.product (pt_artifacts db) (pt_approvals db))) of
        None \<Rightarrow> Inl (ArtifactNotFoundError (''No approved '' @ artifact_type @ '' artifact found''))
      | Some (a, y) \<Rightarrow> Inr a)"

end
