(* ===== verification/Requirements_Revision.thy ===== *)
theory Requirements_Revision
  imports Project_Store
begin

text \<open>
  \<^verbatim>\<open>domain/requirements_revision\<close> and \<^verbatim>\<open>application/requirements_revision/service.py\<close>: a reviewer
  sends requirements back with findings, which starts a revision cycle with a run and a job of
  its own; the run that answers it completes the cycle and links its artifact to the one it
  replaces. Of the row of an execution attempt only \<^verbatim>\<open>repair_attempted\<close> is in the tables.
\<close>

section \<open>Decisions\<close>

record RequirementsReviewFinding =
  qf_requirement_id :: "string option"
  qf_category :: string
  qf_severity :: string
  qf_description :: string
  qf_requested_change :: string

record RequirementsReviewDecision =
  qd_decision :: string
  qd_summary :: string
  qd_findings :: "RequirementsReviewFinding list"

definition valid_finding :: "RequirementsReviewFinding \<Rightarrow> bool" where
  "valid_finding f \<longleftrightarrow>
     (case qf_requirement_id f of None \<Rightarrow> True | Some i \<Rightarrow> length i \<le> 100) \<and>
     qf_category f \<in> set [''missing'', ''ambiguous'', ''incorrect'', ''inconsistent'', ''unverifiable'',
       ''scope'', ''security'', ''performance'', ''compliance'', ''other''] \<and>
     qf_severity f \<in> set [''low'', ''medium'', ''high'', ''critical''] \<and>
     between 3 4000 (length (qf_description f)) \<and> between 3 4000 (length (qf_requested_change f))"

definition valid_decision :: "RequirementsReviewDecision \<Rightarrow> bool" where
  "valid_decision d \<longleftrightarrow> qd_decision d \<in> set [''approved'', ''changes_requested''] \<and>
     between 3 4000 (length (qd_summary d)) \<and> length (qd_findings d) \<le> 100 \<and>
     list_all valid_finding (qd_findings d) \<and>
     \<not> (qd_decision d = ''changes_requested'' \<and> qd_findings d = [])"

definition finding_json :: "RequirementsReviewFinding \<Rightarrow> json" where
  "finding_json f = JObject
     [(''requirement_id'', text_or_null (qf_requirement_id f)), (''category'', JText (qf_category f)),
      (''severity'', JText (qf_severity f)), (''description'', JText (qf_description f)),
      (''requested_change'', JText (qf_requested_change f))]"

record RevisionFeedback =
  fb_source_artifact_id :: uuid
  fb_source_artifact_hash :: digest
  fb_summary :: string
  fb_findings :: "json list"
  fb_feedback_hash :: digest

definition feedback_hash :: "hashing \<Rightarrow> uuid \<Rightarrow> digest \<Rightarrow> string \<Rightarrow> json list \<Rightarrow> digest" where
  "feedback_hash hs artifact_id artifact_hash summary findings = hash_json hs (JObject
     [(''source_artifact_id'', uuid_json artifact_id), (''source_artifact_hash'', JText artifact_hash),
      (''summary'', JText summary), (''findings'', JList findings)])"

definition create_feedback ::
  "hashing \<Rightarrow> uuid \<Rightarrow> digest \<Rightarrow> RequirementsReviewDecision \<Rightarrow> project_error + RevisionFeedback" where
  "create_feedback hs artifact_id artifact_hash decision =
     (if qd_decision decision \<noteq> ''changes_requested''
      then Inl (RequirementsRevisionError ''Only changes-requested decisions create revisions'')
      else let findings = map finding_json (qd_findings decision)
           in Inr \<lparr>fb_source_artifact_id = artifact_id, fb_source_artifact_hash = artifact_hash,
                fb_summary = qd_summary decision, fb_findings = findings,
                fb_feedback_hash = feedback_hash hs artifact_id artifact_hash (qd_summary decision) findings\<rparr>)"

section \<open>Requesting changes\<close>

text \<open>The two parts of the row of a cycle.\<close>

definition find_cycle :: "uuid \<Rightarrow> project_db \<Rightarrow> (RequirementsRevisionCycleModel \<times> RevisionCycleModel) option" where
  "find_cycle cycle_id db =
     (case (get_row cy_id cycle_id (pt_cycles db), get_row rc_id cycle_id (qt_cycles (pt_queue db))) of
        (Some c, Some r) \<Rightarrow> Some (c, r) | _ \<Rightarrow> None)"

definition active_cycle :: "uuid \<Rightarrow> project_db \<Rightarrow> bool" where
  "active_cycle requirements_run_id db = list_ex (\<lambda>c. cy_requirements_run_id c = requirements_run_id \<and>
     (case get_row rc_id (cy_id c) (qt_cycles (pt_queue db)) of
        None \<Rightarrow> False | Some r \<Rightarrow> rc_status r \<in> {''pending'', ''executing''})) (pt_cycles db)"

definition add_request :: "RequirementsRevisionRequestModel \<Rightarrow> project_db \<Rightarrow> project_error + project_db" where
  "add_request request db =
     (if list_ex (\<lambda>r. rv_feedback_hash r = rv_feedback_hash request) (pt_requests db)
      then Inl (OtherError ''duplicate key value violates unique constraint'')
      else bind_result (insert_row rv_id request (pt_requests db))
             (\<lambda>requests. Inr (db\<lparr>pt_requests := requests\<rparr>)))"

definition add_cycle :: "RequirementsRevisionCycleModel \<Rightarrow> project_db \<Rightarrow> project_error + project_db" where
  "add_cycle cycle db =
     (if list_ex (\<lambda>c. cy_requirements_run_id c = cy_requirements_run_id cycle \<and>
           cy_cycle_number c = cy_cycle_number cycle) (pt_cycles db)
      then Inl (OtherError ''duplicate key value violates unique constraint'')
      else bind_result (insert_row cy_id cycle (pt_cycles db)) (\<lambda>cycles.
             Inr (db\<lparr>pt_cycles := cycles, pt_queue := (pt_queue db)\<lparr>qt_cycles := qt_cycles (pt_queue db) @
               [\<lparr>rc_id = cy_id cycle, rc_status = ''pending'', rc_completed_at = None\<rparr>]\<rparr>\<rparr>)))"

definition revision_payload ::
  "ProjectModel \<Rightarrow> uuid \<Rightarrow> int \<Rightarrow> ArtifactModel \<Rightarrow> RevisionFeedback \<Rightarrow> dict" where
  "revision_payload project cycle_id cycle_number a feedback =
     [(''project_name'', JText (pq_name project)), (''project_description'', JText (pq_description project)),
      (''manifest_hash'', JText (pq_manifest_hash project)), (''revision_cycle_id'', uuid_json cycle_id),
      (''revision_cycle_number'', JInt cycle_number), (''previous_artifact_id'', uuid_json (af_id a)),
      (''previous_artifact_hash'', JText (af_content_hash a)),
      (''revision_feedback_summary'', JText (fb_summary feedback)),
      (''revision_feedback'', JList (fb_findings feedback)),
      (''revision_feedback_hash'', JText (fb_feedback_hash feedback))]"

definition request_changes ::
  "hashing \<Rightarrow> (nat \<Rightarrow> uuid) \<Rightarrow> timestamp \<Rightarrow> uuid \<Rightarrow> uuid \<Rightarrow> uuid \<Rightarrow> string \<Rightarrow> RequirementsReviewDecision \<Rightarrow>
   project_db \<Rightarrow> project_error + (RequirementsRevisionCycleModel \<times> project_db)" where
  "request_changes hs ids now project_id requirements_run_id artifact_id reviewer decision db =
     (case (get_project project_id db, find_artifact artifact_id project_id REQUIREMENTS_SPECIFICATION db) of
        (Inr project, Inr a) \<Rightarrow>
          (if af_run_id a \<noteq> Some requirements_run_id
           then Inl (RequirementsRevisionError ''Requirements artifact lineage was not found'')
           else if pq_status project \<notin> {AWAITING_REQUIREMENTS_APPROVAL, REQUIREMENTS_REJECTED}
           then Inl (RequirementsRevisionError ''Project is not awaiting requirements review'')
           else if active_cycle requirements_run_id db
           then Inl (RequirementsRevisionError ''Requirements run already has an active revision'')
           else bind_result (create_feedback hs (af_id a) (af_content_hash a) decision) (\<lambda>feedback.
             let approval = new_approval (ids 0) now project_id (af_id a) ''changes_requested'' reviewer
                   (Some (qd_summary decision));
                 request = \<lparr>rv_id = ids 1, rv_project_id = project_id,
                   rv_requirements_run_id = requirements_run_id, rv_source_artifact_id = af_id a,
                   rv_source_review_decision_id = ay_id approval, rv_requested_by = reviewer,
                   rv_feedback_summary = fb_summary feedback, rv_feedback_items = fb_findings feedback,
                   rv_feedback_hash = fb_feedback_hash feedback\<rparr>;
                 cycle_number = int (length (filter (\<lambda>c. cy_requirements_run_id c = requirements_run_id)
                   (pt_cycles db))) + 1;
                 cycle = \<lparr>cy_id = ids 2, cy_requirements_run_id = requirements_run_id,
                   cy_revision_request_id = ids 1, cy_cycle_number = cycle_number,
                   cy_resulting_artifact_id = None\<rparr>;
                 attempt = new_run (ids 3) now project_id ''requirements_crew''
                   (revision_payload project (ids 2) cycle_number a feedback)
             in bind_result (add_approval approval (set_status project_id REQUIREMENTS_QUEUED db)) (\<lambda>db1.
                bind_result (add_request request db1) (\<lambda>db2.
                bind_result (add_cycle cycle db2) (\<lambda>db3.
                bind_result (add_run attempt db3) (\<lambda>db4.
                  Inr (cycle, note_event hs ids 5 project_id ''requirements.revision.requested'' ''human'' reviewer
                    [(''source_artifact_id'', uuid_json (af_id a)),
                     (''source_review_decision_id'', uuid_json (ids 0)),
                     (''revision_request_id'', uuid_json (ids 1)), (''revision_cycle_id'', uuid_json (ids 2)),
                     (''execution_run_id'', uuid_json (ids 3)),
                     (''feedback_hash'', JText (fb_feedback_hash feedback))]
                    (db4\<lparr>pt_queue := enqueue (ids 4) now project_id (Some (ids 3)) ''run_requirements_crew''
                      [''project_id'' \<mapsto> uuid_text project_id, ''run_id'' \<mapsto> uuid_text (ids 3),
                       ''revision_cycle_id'' \<mapsto> uuid_text (ids 2)] 100 3 (pt_queue db4)\<rparr>))))))))
      | _ \<Rightarrow> Inl (RequirementsRevisionError ''Requirements artifact lineage was not found''))"

section \<open>Answering them\<close>

definition add_lineage :: "RequirementsArtifactLineageModel \<Rightarrow> project_db \<Rightarrow> project_error + project_db" where
  "add_lineage row db =
     (if list_ex (\<lambda>l. ln_artifact_id l = ln_artifact_id row) (pt_lineage db)
      then Inl (OtherError ''duplicate key value violates unique constraint'')
      else bind_result (insert_row ln_id row (pt_lineage db))
             (\<lambda>rows. Inr (db\<lparr>pt_lineage := rows\<rparr>)))"

text \<open>The latest attempt of the job of the run that belongs to the cycle.\<close>

definition note_repair :: "uuid \<Rightarrow> uuid \<Rightarrow> bool \<Rightarrow> queue_tables \<Rightarrow> queue_tables" where
  "note_repair execution_run_id cycle_id repair_attempted q =
     (case List.find (\<lambda>j. jm_run_id j = Some execution_run_id) (qt_jobs q) of
        None \<Rightarrow> q
      | Some job \<Rightarrow>
          (case first_by (\<lambda>a. - ja_attempt_number a)
                 (filter (\<lambda>a. ja_job_id a = jm_id job \<and> ja_revision_cycle_id a = Some cycle_id)
                   (qt_attempts q)) of
             None \<Rightarrow> q
           | Some attempt \<Rightarrow> q\<lparr>qt_attempts := alter (\<lambda>a. ja_id a = ja_id attempt)
               (\<lambda>a. a\<lparr>ja_repair_attempted := repair_attempted\<rparr>) (qt_attempts q)\<rparr>))"

definition current_version :: "uuid \<Rightarrow> project_db \<Rightarrow> int" where
  "current_version artifact_id db =
     (case List.find (\<lambda>l. ln_artifact_id l = artifact_id) (pt_lineage db) of
        None \<Rightarrow> 1 | Some l \<Rightarrow> if ln_version l = 0 then 1 else ln_version l)"

definition complete_cycle ::
  "uuid \<Rightarrow> timestamp \<Rightarrow> uuid \<Rightarrow> uuid \<Rightarrow> bool \<Rightarrow> project_db \<Rightarrow> project_error + project_db" where
  "complete_cycle new_id now execution_run_id artifact_id repair_attempted db =
     (case get_row cx_id execution_run_id (pt_runs db) of
        None \<Rightarrow> Inr db
      | Some run \<Rightarrow>
          bind_result (optional_uuid (cx_input_payload run) ''revision_cycle_id'') (\<lambda>cycle_id.
          case cycle_id of
            None \<Rightarrow> Inr db
          | Some cycle_id \<Rightarrow>
              (case find_cycle cycle_id db of
                 None \<Rightarrow> Inl (RequirementsRevisionError ''Revision cycle is not completable'')
               | Some (cycle, queued) \<Rightarrow>
                   (case get_row rv_id (cy_revision_request_id cycle) (pt_requests db) of
                      None \<Rightarrow> Inl (RequirementsRevisionError ''Revision cycle is not completable'')
                    | Some request \<Rightarrow>
                        if rc_status queued \<notin> {''pending'', ''executing''}
                        then Inl (RequirementsRevisionError ''Revision cycle is not completable'')
                        else
                          (let q = note_repair execution_run_id cycle_id repair_attempted (pt_queue db)
                           in add_lineage
                                \<lparr>ln_id = new_id, ln_artifact_id = artifact_id,
                                 ln_revision_cycle_id = Some cycle_id,
                                 ln_previous_artifact_id = Some (rv_source_artifact_id request),
                                 ln_version = current_version (rv_source_artifact_id request) db + 1,
                                 ln_revision_feedback_hash = Some (rv_feedback_hash request)\<rparr>
                                (db\<lparr>pt_cycles := alter (\<lambda>c. cy_id c = cycle_id)
                                      (\<lambda>c. c\<lparr>cy_resulting_artifact_id := Some artifact_id\<rparr>) (pt_cycles db),
                                    pt_queue := q\<lparr>qt_cycles := alter (\<lambda>r. rc_id r = cycle_id)
                                      (\<lambda>r. r\<lparr>rc_status := ''completed'', rc_completed_at := Some now\<rparr>)
                                      (qt_cycles q)\<rparr>\<rparr>))))))"

definition record_initial_artifact :: "uuid \<Rightarrow> uuid \<Rightarrow> project_db \<Rightarrow> project_error + project_db" where
  "record_initial_artifact new_id artifact_id db =
     (if list_ex (\<lambda>l. ln_artifact_id l = artifact_id) (pt_lineage db) then Inr db
      else add_lineage \<lparr>ln_id = new_id, ln_artifact_id = artifact_id, ln_revision_cycle_id = None,
             ln_previous_artifact_id = None, ln_version = 1, ln_revision_feedback_hash = None\<rparr> db)"

section \<open>Queries\<close>

definition list_revisions :: "uuid \<Rightarrow> project_db \<Rightarrow> RequirementsRevisionCycleModel list" where
  "list_revisions requirements_run_id db = sort_key cy_cycle_number
     (filter (\<lambda>c. cy_requirements_run_id c = requirements_run_id) (pt_cycles db))"

definition list_artifact_history :: "uuid \<Rightarrow> project_db \<Rightarrow> RequirementsArtifactLineageModel list" where
  "list_artifact_history requirements_run_id db = sort_key ln_version
     (filter (\<lambda>l. list_ex (\<lambda>a. af_id a = ln_artifact_id l \<and> af_run_id a = Some requirements_run_id)
        (pt_artifacts db)) (pt_lineage db))"

end
