(* ===== verification/Project_Workflow.thy ===== *)
theory Project_Workflow
  imports Requirements_Revision
begin

text \<open>
  \<^verbatim>\<open>application/project_workflow.py\<close>: a project from its creation over requirements and
  architecture to an approved work package. An operation of a person is one transaction and
  returns its row and the new tables, or its exception. The execution of a run is two
  transactions with the call of the crew between them: \<open>begin_..._run\<close> marks the run as running
  and returns the objects the session holds (it keeps their columns over the commit), and
  \<open>finish_..._run\<close> stores what the crew returned. Both catch every exception of their \<^verbatim>\<open>try\<close>
  block, mark the run as failed in a transaction of its own and raise it again.

  What a crew returns, what preparing or inspecting the repository returns, and their
  exceptions, are arguments: \<open>Inl\<close> the text of an exception, \<open>Inr\<close> a value.
\<close>

section \<open>Creating a project\<close>

definition set_default :: "string \<Rightarrow> json \<Rightarrow> dict \<Rightarrow> dict" where
  "set_default k v d = (if map_of d k = None then d @ [(k, v)] else d)"

definition manifest_body ::
  "uuid \<Rightarrow> string \<Rightarrow> string \<Rightarrow> string \<Rightarrow> string option \<Rightarrow> string \<Rightarrow> string \<Rightarrow> dict option \<Rightarrow> string option \<Rightarrow>
   json \<Rightarrow> dict" where
  "manifest_body project_id name description repository_path repository_url default_branch actor_id
     manifest project_type preparation =
     (let body = set_default ''schema_version'' (JText ''1.0'') (case manifest of None \<Rightarrow> [] | Some m \<Rightarrow> m);
          url = text_or_null repository_url;
          body = dict_merge body
            [(''project_id'', uuid_json project_id), (''name'', JText name),
             (''description'', JText description), (''repository_path'', JText repository_path),
             (''repository_url'', url), (''default_branch'', JText default_branch),
             (''repository'', JObject [(''path'', JText repository_path), (''url'', url),
                (''default_branch'', JText default_branch)])];
          body = (case project_type of None \<Rightarrow> body
                  | Some t \<Rightarrow> if t = [] then body else dict_put ''project_type'' (JText t) body)
      in dict_merge body
           [(''created_by'', JText actor_id), (''repository_preparation'', preparation)])"

definition create_project ::
  "hashing \<Rightarrow> (nat \<Rightarrow> uuid) \<Rightarrow> timestamp \<Rightarrow> string \<Rightarrow> string \<Rightarrow> string \<Rightarrow> string option \<Rightarrow> string \<Rightarrow> string \<Rightarrow>
   dict option \<Rightarrow> string option \<Rightarrow> string + json \<Rightarrow> project_db \<Rightarrow>
   project_error + (ProjectModel \<times> project_db)" where
  "create_project hs ids now name description repository_path repository_url default_branch actor_id
     manifest project_type preparation db =
     (case preparation of
        Inl message \<Rightarrow> Inl (OtherError message)
      | Inr prepared \<Rightarrow>
          (let body = manifest_body (ids 0) name description repository_path repository_url
                 default_branch actor_id manifest project_type prepared;
               manifest_hash = hash_json hs (JObject body);
               project = \<lparr>pq_id = ids 0, pq_name = name, pq_description = description,
                 pq_repository_path = repository_path, pq_repository_url = repository_url,
                 pq_default_branch = default_branch, pq_status = CREATED,
                 pq_manifest_hash = manifest_hash, pq_manifest = body\<rparr>;
               manifest_artifact = \<lparr>af_id = ids 1, af_project_id = ids 0, af_run_id = None,
                 af_artifact_type = ''project_manifest'', af_media_type = ''application/json'',
                 af_content = hs_canonical_json hs (JObject body), af_content_hash = manifest_hash,
                 af_created_at = now\<rparr>
           in bind_result (insert_row pq_id project (pt_projects db)) (\<lambda>projects.
              bind_result (add_artifact manifest_artifact (db\<lparr>pt_projects := projects\<rparr>)) (\<lambda>db1.
                Inr (project, note_event hs ids 2 (ids 0) ''project.created'' ''human'' actor_id
                  [(''project_id'', uuid_json (ids 0)), (''manifest_hash'', JText manifest_hash)] db1)))))"

section \<open>Parts the phases share\<close>

text \<open>A run and its job are queued, and the project waits for them.\<close>

definition enqueue_run ::
  "timestamp \<Rightarrow> CrewRunModel \<Rightarrow> ProjectStatus \<Rightarrow> uuid \<Rightarrow> string \<Rightarrow> (string \<rightharpoonup> string) \<Rightarrow> project_db \<Rightarrow>
   project_error + project_db" where
  "enqueue_run now run status job_id job_type payload db =
     bind_result (add_run run (set_status (cx_project_id run) status db)) (\<lambda>db1.
       Inr (db1\<lparr>pt_queue := enqueue job_id now (cx_project_id run) (Some (cx_id run)) job_type payload
              100 3 (pt_queue db1)\<rparr>))"

text \<open>The \<^verbatim>\<open>except\<close> block of an execution, after its rollback.\<close>

definition fail_run ::
  "hashing \<Rightarrow> (nat \<Rightarrow> uuid) \<Rightarrow> timestamp \<Rightarrow> ProjectStatus \<Rightarrow> string \<Rightarrow> string \<Rightarrow> uuid \<Rightarrow> project_error \<Rightarrow>
   project_db \<Rightarrow> 'a outcome" where
  "fail_run hs ids now status event_type actor_id run_id exc db =
     (case get_row cx_id run_id (pt_runs db) of
        None \<Rightarrow> (Inl (ProjectRuntimeError (''Crew run '' @ uuid_text run_id @ '' disappeared'')), db)
      | Some run \<Rightarrow>
          (case get_project (cx_project_id run) db of
             Inl e \<Rightarrow> (Inl e, db)
           | Inr project \<Rightarrow>
               (Inl exc, note_event hs ids 0 (pq_id project) event_type ''system'' actor_id
                  [(''run_id'', uuid_json run_id), (''error'', JText (error_text exc))]
                  (set_status (pq_id project) status
                    (update_run run_id (\<lambda>r. r\<lparr>cx_status := FAILED, cx_completed_at := Some now,
                       cx_error_message := Some (error_text exc)\<rparr>) db)))))"

definition mark_running :: "timestamp \<Rightarrow> uuid \<Rightarrow> uuid \<Rightarrow> ProjectStatus \<Rightarrow> project_db \<Rightarrow> project_db" where
  "mark_running now run_id project_id status db = set_status project_id status
     (update_run run_id (\<lambda>r. r\<lparr>cx_status := RUNNING, cx_started_at := Some now,
        cx_error_message := None\<rparr>) db)"

definition mark_succeeded :: "timestamp \<Rightarrow> uuid \<Rightarrow> dict \<Rightarrow> project_db \<Rightarrow> project_db" where
  "mark_succeeded now run_id output db = update_run run_id
     (\<lambda>r. r\<lparr>cx_status := SUCCEEDED, cx_completed_at := Some now, cx_output_payload := Some output\<rparr>) db"

text \<open>The run and its project, when the run may be executed.\<close>

definition executable_run :: "string \<Rightarrow> string \<Rightarrow> uuid \<Rightarrow> project_db \<Rightarrow> project_error + (CrewRunModel \<times> ProjectModel)"
where
  "executable_run missing refused run_id db =
     (case get_row cx_id run_id (pt_runs db) of
        None \<Rightarrow> Inl (ProjectRuntimeError missing)
      | Some run \<Rightarrow>
          if cx_status run \<notin> {QUEUED, FAILED} then Inl (InvalidProjectStateError (refused @ run_status_text (cx_status run)))
          else bind_result (get_project (cx_project_id run) db) (\<lambda>project. Inr (run, project)))"

text \<open>The project waits for a person, unless its manifest approves.\<close>

definition approval_phase ::
  "hashing \<Rightarrow> (nat \<Rightarrow> uuid) \<Rightarrow> nat \<Rightarrow> uuid \<Rightarrow> timestamp \<Rightarrow> ProjectModel \<Rightarrow> ArtifactModel \<Rightarrow> string \<Rightarrow>
   ProjectStatus \<Rightarrow> ProjectStatus \<Rightarrow> project_db \<Rightarrow> project_error + project_db" where
  "approval_phase hs ids n approval_id now project a event_type waiting approved db =
     (case auto_approval approval_id now project (af_id a) event_type of
        None \<Rightarrow> Inr (set_status (pq_id project) waiting db)
      | Some approval \<Rightarrow>
          bind_result (add_approval approval (set_status (pq_id project) approved db))
            (\<lambda>db1. append_auto_approval_event hs ids n project a event_type db1))"

definition markdown_artifact ::
  "hashing \<Rightarrow> uuid \<Rightarrow> timestamp \<Rightarrow> CrewRunModel \<Rightarrow> ProjectModel \<Rightarrow> string \<Rightarrow> string \<Rightarrow> ArtifactModel" where
  "markdown_artifact hs new_id now run project artifact_type markdown =
     \<lparr>af_id = new_id, af_project_id = pq_id project, af_run_id = Some (cx_id run),
      af_artifact_type = artifact_type, af_media_type = ''text/markdown'', af_content = markdown,
      af_content_hash = hash_text hs markdown, af_created_at = now\<rparr>"

section \<open>Requirements\<close>

definition queue_requirements_run ::
  "hashing \<Rightarrow> (nat \<Rightarrow> uuid) \<Rightarrow> timestamp \<Rightarrow> uuid \<Rightarrow> string \<Rightarrow> project_db \<Rightarrow>
   project_error + (CrewRunModel \<times> project_db)" where
  "queue_requirements_run hs ids now project_id actor_id db =
     bind_result (get_project project_id db) (\<lambda>project.
       if pq_status project \<notin> {CREATED, REQUIREMENTS_FAILED, REQUIREMENTS_REJECTED}
       then Inl (InvalidProjectStateError
         (''Cannot start requirements from state '' @ project_status_text (pq_status project)))
       else let run = new_run (ids 0) now (pq_id project) ''requirements_crew''
              [(''project_name'', JText (pq_name project)),
               (''project_description'', JText (pq_description project)),
               (''manifest_hash'', JText (pq_manifest_hash project))]
            in bind_result (enqueue_run now run REQUIREMENTS_QUEUED (ids 1) ''run_requirements_crew''
                 [''project_id'' \<mapsto> uuid_text (pq_id project), ''run_id'' \<mapsto> uuid_text (ids 0)] db) (\<lambda>db1.
                 Inr (run, note_event hs ids 2 (pq_id project) ''requirements.run.queued'' ''human'' actor_id
                   [(''run_id'', uuid_json (ids 0)), (''job_id'', uuid_json (ids 1))] db1)))"

definition begin_requirements_run ::
  "hashing \<Rightarrow> (nat \<Rightarrow> uuid) \<Rightarrow> timestamp \<Rightarrow> uuid \<Rightarrow> project_db \<Rightarrow> (CrewRunModel \<times> ProjectModel) outcome" where
  "begin_requirements_run hs ids now run_id db =
     (case executable_run (''Run '' @ uuid_text run_id @ '' does not exist'')
             ''Requirements run cannot execute from '' run_id db of
        Inl e \<Rightarrow> (Inl e, db)
      | Inr (run, project) \<Rightarrow>
          (Inr (run, project), note_event hs ids 0 (pq_id project) ''requirements.run.started'' ''system''
             ''requirements-worker'' [(''run_id'', uuid_json run_id)]
             (mark_running now run_id (pq_id project) ProjectStatus.REQUIREMENTS_RUNNING db)))"

text \<open>The artifact a revision replaces must still be there when the crew is called.\<close>

definition previous_artifact :: "CrewRunModel \<Rightarrow> project_db \<Rightarrow> project_error + ArtifactModel option" where
  "previous_artifact run db =
     bind_result (optional_uuid (cx_input_payload run) ''previous_artifact_id'') (\<lambda>i. case i of
       None \<Rightarrow> Inr None
     | Some artifact_id \<Rightarrow> bind_result (load_artifact artifact_id db) (\<lambda>a. Inr (Some a)))"

record crew_document =
  cd_markdown :: string
  cd_raw_output :: string

definition store_requirements ::
  "hashing \<Rightarrow> (nat \<Rightarrow> uuid) \<Rightarrow> timestamp \<Rightarrow> CrewRunModel \<Rightarrow> ProjectModel \<Rightarrow> string + crew_document \<Rightarrow> project_db \<Rightarrow>
   project_error + project_db" where
  "store_requirements hs ids now run project crew_result db =
     bind_result (previous_artifact run db) (\<lambda>_.
     case crew_result of
       Inl message \<Rightarrow> Inl (OtherError message)
     | Inr document \<Rightarrow>
         (let a = markdown_artifact hs (ids 0) now run project REQUIREMENTS_SPECIFICATION
                (cd_markdown document);
              revises = (case map_of (cx_input_payload run) ''revision_cycle_id'' of
                None \<Rightarrow> False | Some v \<Rightarrow> truthy v)
          in bind_result (add_artifact a db) (\<lambda>db1.
             bind_result (if revises then complete_cycle (ids 1) now (cx_id run) (af_id a) False db1
                          else record_initial_artifact (ids 1) (af_id a) db1) (\<lambda>db2.
             let db3 = mark_succeeded now (cx_id run)
                   [(''artifact_type'', JText REQUIREMENTS_SPECIFICATION),
                    (''content_hash'', JText (af_content_hash a))] db2;
                 db4 = note_event hs ids 2 (pq_id project) ''requirements.run.succeeded'' ''agent''
                   ''requirements-crew''
                   [(''run_id'', uuid_json (cx_id run)), (''artifact_id'', uuid_json (af_id a)),
                    (''content_hash'', JText (af_content_hash a))] db3;
                 db5 = note_event hs ids 4 (pq_id project) ''requirements.approval.requested'' ''system''
                   ''workflow-engine''
                   [(''run_id'', uuid_json (cx_id run)), (''artifact_id'', uuid_json (af_id a))] db4
             in approval_phase hs ids 7 (ids 6) now project a ''requirements.auto_approved''
                  AWAITING_REQUIREMENTS_APPROVAL REQUIREMENTS_APPROVED db5))))"

definition finish_requirements_run ::
  "hashing \<Rightarrow> (nat \<Rightarrow> uuid) \<Rightarrow> timestamp \<Rightarrow> CrewRunModel \<Rightarrow> ProjectModel \<Rightarrow> string + crew_document \<Rightarrow> project_db \<Rightarrow>
   unit outcome" where
  "finish_requirements_run hs ids now run project crew_result db =
     (case store_requirements hs ids now run project crew_result db of
        Inr db' \<Rightarrow> (Inr (), db')
      | Inl exc \<Rightarrow> fail_run hs ids now REQUIREMENTS_FAILED ''requirements.run.failed''
          ''requirements-worker'' (cx_id run) exc db)"

definition execute_requirements_run ::
  "hashing \<Rightarrow> (nat \<Rightarrow> uuid) \<Rightarrow> (nat \<Rightarrow> uuid) \<Rightarrow> timestamp \<Rightarrow> timestamp \<Rightarrow> uuid \<Rightarrow> string + crew_document \<Rightarrow>
   project_db \<Rightarrow> unit outcome" where
  "execute_requirements_run hs ids ids' now now' run_id crew_result db =
     (case begin_requirements_run hs ids now run_id db of
        (Inl e, db1) \<Rightarrow> (Inl e, db1)
      | (Inr (run, project), db1) \<Rightarrow> finish_requirements_run hs ids' now' run project crew_result db1)"

text \<open>A person decides on an artifact of the phase; requirements and architecture are alike.\<close>

definition decide_artifact ::
  "hashing \<Rightarrow> (nat \<Rightarrow> uuid) \<Rightarrow> timestamp \<Rightarrow> ProjectStatus \<Rightarrow> string \<Rightarrow> string \<Rightarrow> ProjectStatus \<times> string \<Rightarrow>
   ProjectStatus \<times> string \<Rightarrow> uuid \<Rightarrow> uuid \<Rightarrow> bool \<Rightarrow> string \<Rightarrow> string option \<Rightarrow> project_db \<Rightarrow>
   project_error + (ProjectModel \<times> project_db)" where
  "decide_artifact hs ids now waiting refused artifact_type approved rejected project_id artifact_id
     decision reviewer comment db =
     bind_result (get_project project_id db) (\<lambda>project.
       if pq_status project \<noteq> waiting then Inl (InvalidProjectStateError refused)
       else bind_result (find_artifact artifact_id project_id artifact_type db) (\<lambda>a.
         let (status, event_type) = (if decision then approved else rejected);
             approval = new_approval (ids 0) now (pq_id project) (af_id a)
               (if decision then ''approved'' else ''rejected'') reviewer comment
         in bind_result (add_approval approval (set_status (pq_id project) status db)) (\<lambda>db1.
              Inr (project\<lparr>pq_status := status\<rparr>, note_event hs ids 1 (pq_id project) event_type ''human'' reviewer
                [(''artifact_id'', uuid_json (af_id a)), (''artifact_hash'', JText (af_content_hash a)),
                 (''comment'', text_or_null comment)] db1))))"

definition approve_requirements ::
  "hashing \<Rightarrow> (nat \<Rightarrow> uuid) \<Rightarrow> timestamp \<Rightarrow> uuid \<Rightarrow> uuid \<Rightarrow> bool \<Rightarrow> string \<Rightarrow> string option \<Rightarrow> project_db \<Rightarrow>
   project_error + (ProjectModel \<times> project_db)" where
  "approve_requirements hs ids now =
     decide_artifact hs ids now AWAITING_REQUIREMENTS_APPROVAL
       ''Project is not awaiting requirements approval'' REQUIREMENTS_SPECIFICATION
       (REQUIREMENTS_APPROVED, ''requirements.approved'') (REQUIREMENTS_REJECTED, ''requirements.rejected'')"

end
