(* ===== verification/Project_Delivery.thy ===== *)
theory Project_Delivery
  imports Project_Workflow
begin

text \<open>
  The second half of \<^verbatim>\<open>application/project_workflow.py\<close>: the architecture of approved
  requirements, and the work package planned from both.
\<close>

section \<open>Architecture\<close>

definition latest_artifact :: "uuid \<Rightarrow> string \<Rightarrow> project_db \<Rightarrow> ArtifactModel option" where
  "latest_artifact project_id artifact_type db = first_by (\<lambda>a. - af_created_at a)
     (filter (\<lambda>a. af_project_id a = project_id \<and> af_artifact_type a = artifact_type) (pt_artifacts db))"

text \<open>The latest rejection of an architecture, with the artifact it rejects.\<close>

definition rejected_architecture :: "uuid \<Rightarrow> project_db \<Rightarrow> (ApprovalModel \<times> ArtifactModel) option" where
  "rejected_architecture project_id db = first_by (\<lambda>(y, a). - ay_created_at y)
     (filter (\<lambda>(y, a). af_id a = ay_artifact_id y \<and> ay_project_id y = project_id \<and>
          ay_decision y = ''rejected'' \<and> af_artifact_type a = ARCHITECTURE_SPECIFICATION)
       (List.product (pt_approvals db) (pt_artifacts db)))"

text \<open>\<^verbatim>\<open>comment or default\<close>.\<close>

definition comment_or :: "string \<Rightarrow> string option \<Rightarrow> string" where
  "comment_or fallback comment = (case comment of None \<Rightarrow> fallback | Some c \<Rightarrow> if c = [] then fallback else c)"

definition architecture_revision_context ::
  "ProjectModel \<Rightarrow> project_db \<Rightarrow> project_error + (string \<times> string) list" where
  "architecture_revision_context project db =
     (if pq_status project \<noteq> ARCHITECTURE_REJECTED then Inr []
      else case rejected_architecture (pq_id project) db of
        None \<Rightarrow> Inl (InvalidProjectStateError
          ''Architecture revision requires recorded rejection feedback'')
      | Some (y, a) \<Rightarrow> Inr
          [(''revision_feedback'', comment_or ''Architecture changes requested.'' (ay_comment y)),
           (''source_architecture_artifact_id'', uuid_text (af_id a)),
           (''source_architecture_artifact_hash'', af_content_hash a)])"

definition text_entries :: "(string \<times> string) list \<Rightarrow> dict" where
  "text_entries kvs = map (\<lambda>(k, v). (k, JText v)) kvs"

definition queue_architecture_run ::
  "hashing \<Rightarrow> (nat \<Rightarrow> uuid) \<Rightarrow> timestamp \<Rightarrow> uuid \<Rightarrow> string \<Rightarrow> project_db \<Rightarrow>
   project_error + (CrewRunModel \<times> project_db)" where
  "queue_architecture_run hs ids now project_id actor_id db =
     bind_result (get_project project_id db) (\<lambda>project.
       if pq_status project \<notin> {REQUIREMENTS_APPROVED, ARCHITECTURE_FAILED, ARCHITECTURE_REJECTED}
       then Inl (InvalidProjectStateError
         (''Cannot start architecture from state '' @ project_status_text (pq_status project)))
       else case latest_artifact (pq_id project) REQUIREMENTS_SPECIFICATION db of
         None \<Rightarrow> Inl (ArtifactNotFoundError ''Approved requirements artifact not found'')
       | Some requirements \<Rightarrow>
           if approvals_of (pq_id project) (af_id requirements) db = []
           then Inl (InvalidProjectStateError ''The selected requirements artifact is not approved'')
           else bind_result (architecture_revision_context project db) (\<lambda>revision_context.
             let source = [(''requirements_artifact_id'', uuid_text (af_id requirements)),
                   (''requirements_artifact_hash'', af_content_hash requirements)];
                 run = new_run (ids 0) now (pq_id project) ''architecture_crew''
                   (text_entries (source @ revision_context));
                 payload = map_of ([(''project_id'', uuid_text (pq_id project)),
                   (''run_id'', uuid_text (ids 0))] @ source @ revision_context)
             in bind_result (enqueue_run now run ARCHITECTURE_QUEUED (ids 1) ''run_architecture_crew''
                  payload db) (\<lambda>db1.
                  Inr (run, note_event hs ids 2 (pq_id project) ''architecture.run.queued'' ''human'' actor_id
                    ([(''run_id'', uuid_json (ids 0)), (''job_id'', uuid_json (ids 1))] @
                      text_entries source) db1))))"

text \<open>
  What must hold before the crew is called: the requirements the run names are intact and have
  exactly one approval; \<^verbatim>\<open>scalar_one_or_none\<close> raises when there are several.
\<close>

definition architecture_source :: "CrewRunModel \<Rightarrow> ProjectModel \<Rightarrow> project_db \<Rightarrow> hashing \<Rightarrow> project_error + ArtifactModel"
where
  "architecture_source run project db hs =
     bind_result (required_uuid (cx_input_payload run) ''requirements_artifact_id'') (\<lambda>artifact_id.
     bind_result (find_artifact artifact_id (pq_id project) REQUIREMENTS_SPECIFICATION db) (\<lambda>requirements.
     bind_result (required_value (cx_input_payload run) ''requirements_artifact_hash'') (\<lambda>expected_hash.
       if JText (hash_text hs (af_content requirements)) \<noteq> expected_hash
       then Inl (ProjectRuntimeError ''Requirements artifact integrity check failed'')
       else case approvals_of (pq_id project) (af_id requirements) db of
         [] \<Rightarrow> Inl (InvalidProjectStateError ''Architecture cannot run without approved requirements'')
       | [_] \<Rightarrow> Inr requirements
       | _ \<Rightarrow> Inl (OtherError ''Multiple rows were found when one or none was required''))))"

definition begin_architecture_run ::
  "hashing \<Rightarrow> (nat \<Rightarrow> uuid) \<Rightarrow> timestamp \<Rightarrow> uuid \<Rightarrow> project_db \<Rightarrow>
   (CrewRunModel \<times> ProjectModel \<times> ArtifactModel) outcome" where
  "begin_architecture_run hs ids now run_id db =
     (case executable_run (''Architecture run '' @ uuid_text run_id @ '' does not exist'')
             ''Architecture run cannot execute from '' run_id db of
        Inl e \<Rightarrow> (Inl e, db)
      | Inr (run, project) \<Rightarrow>
          (case architecture_source run project db hs of
             Inl exc \<Rightarrow> fail_run hs ids now ARCHITECTURE_FAILED ''architecture.run.failed''
               ''architecture-worker'' run_id exc db
           | Inr requirements \<Rightarrow>
               (Inr (run, project, requirements),
                note_event hs ids 0 (pq_id project) ''architecture.run.started'' ''system''
                  ''architecture-worker''
                  [(''run_id'', uuid_json run_id),
                   (''requirements_artifact_id'', uuid_json (af_id requirements)),
                   (''requirements_artifact_hash'', JText (af_content_hash requirements))]
                  (mark_running now run_id (pq_id project) ProjectStatus.ARCHITECTURE_RUNNING db))))"

definition store_architecture ::
  "hashing \<Rightarrow> (nat \<Rightarrow> uuid) \<Rightarrow> timestamp \<Rightarrow> CrewRunModel \<Rightarrow> ProjectModel \<Rightarrow> ArtifactModel \<Rightarrow> string + crew_document \<Rightarrow>
   project_db \<Rightarrow> project_error + project_db" where
  "store_architecture hs ids now run project requirements crew_result db =
     (case crew_result of
        Inl message \<Rightarrow> Inl (OtherError message)
      | Inr document \<Rightarrow>
          (let a = markdown_artifact hs (ids 0) now run project ARCHITECTURE_SPECIFICATION
                 (cd_markdown document);
               source = [(''requirements_artifact_id'', uuid_json (af_id requirements)),
                 (''requirements_artifact_hash'', JText (af_content_hash requirements))];
               db1 = mark_succeeded now (cx_id run)
                 [(''artifact_id'', uuid_json (af_id a)), (''artifact_type'', JText ARCHITECTURE_SPECIFICATION),
                  (''content_hash'', JText (af_content_hash a)),
                  (''source_requirements_artifact_id'', uuid_json (af_id requirements)),
                  (''source_requirements_hash'', JText (af_content_hash requirements))] db
           in bind_result (add_artifact a db1) (\<lambda>db2.
              let db3 = note_event hs ids 1 (pq_id project) ''architecture.run.succeeded'' ''agent''
                    ''architecture-crew''
                    ([(''run_id'', uuid_json (cx_id run)), (''artifact_id'', uuid_json (af_id a)),
                      (''artifact_hash'', JText (af_content_hash a))] @ source) db2;
                  db4 = note_event hs ids 3 (pq_id project) ''architecture.approval.requested'' ''system''
                    ''workflow-engine''
                    [(''artifact_id'', uuid_json (af_id a)), (''artifact_hash'', JText (af_content_hash a))] db3
              in approval_phase hs ids 6 (ids 5) now project a ''architecture.auto_approved''
                   AWAITING_ARCHITECTURE_APPROVAL ARCHITECTURE_APPROVED db4)))"

definition finish_architecture_run ::
  "hashing \<Rightarrow> (nat \<Rightarrow> uuid) \<Rightarrow> timestamp \<Rightarrow> CrewRunModel \<Rightarrow> ProjectModel \<Rightarrow> ArtifactModel \<Rightarrow> string + crew_document \<Rightarrow>
   project_db \<Rightarrow> unit outcome" where
  "finish_architecture_run hs ids now run project requirements crew_result db =
     (case store_architecture hs ids now run project requirements crew_result db of
        Inr db' \<Rightarrow> (Inr (), db')
      | Inl exc \<Rightarrow> fail_run hs ids now ARCHITECTURE_FAILED ''architecture.run.failed''
          ''architecture-worker'' (cx_id run) exc db)"

definition execute_architecture_run ::
  "hashing \<Rightarrow> (nat \<Rightarrow> uuid) \<Rightarrow> (nat \<Rightarrow> uuid) \<Rightarrow> timestamp \<Rightarrow> timestamp \<Rightarrow> uuid \<Rightarrow> string + crew_document \<Rightarrow>
   project_db \<Rightarrow> unit outcome" where
  "execute_architecture_run hs ids ids' now now' run_id crew_result db =
     (case begin_architecture_run hs ids now run_id db of
        (Inl e, db1) \<Rightarrow> (Inl e, db1)
      | (Inr (run, project, requirements), db1) \<Rightarrow>
          finish_architecture_run hs ids' now' run project requirements crew_result db1)"

definition approve_architecture ::
  "hashing \<Rightarrow> (nat \<Rightarrow> uuid) \<Rightarrow> timestamp \<Rightarrow> uuid \<Rightarrow> uuid \<Rightarrow> bool \<Rightarrow> string \<Rightarrow> string option \<Rightarrow> project_db \<Rightarrow>
   project_error + (ProjectModel \<times> project_db)" where
  "approve_architecture hs ids now =
     decide_artifact hs ids now AWAITING_ARCHITECTURE_APPROVAL
       ''Project is not awaiting architecture approval'' ARCHITECTURE_SPECIFICATION
       (ARCHITECTURE_APPROVED, ''architecture.approved'') (ARCHITECTURE_REJECTED, ''architecture.rejected'')"

section \<open>Queueing the planning of a work package\<close>

text \<open>The latest approved architecture and the requirements its run worked from.\<close>

definition planning_sources :: "hashing \<Rightarrow> ProjectModel \<Rightarrow> project_db \<Rightarrow> project_error + (ArtifactModel \<times> ArtifactModel)"
where
  "planning_sources hs project db =
     bind_result (get_latest_approved_artifact (pq_id project) ARCHITECTURE_SPECIFICATION db) (\<lambda>architecture.
     case af_run_id architecture of
       None \<Rightarrow> Inl (InvalidProjectStateError ''Architecture artifact has no source run'')
     | Some run_id \<Rightarrow>
         (case get_row cx_id run_id (pt_runs db) of
            None \<Rightarrow> Inl (InvalidProjectStateError ''Architecture source run does not exist'')
          | Some run \<Rightarrow>
              (case cx_output_payload run of
                 None \<Rightarrow> Inl (InvalidProjectStateError ''Architecture source run has no output payload'')
               | Some output \<Rightarrow>
                   bind_result (required_uuid output ''source_requirements_artifact_id'') (\<lambda>artifact_id.
                   bind_result (load_artifact artifact_id db) (\<lambda>requirements.
                     if hash_text hs (af_content requirements) \<noteq> af_content_hash requirements
                     then Inl (ProjectRuntimeError ''Requirements artifact integrity check failed'')
                     else if hash_text hs (af_content architecture) \<noteq> af_content_hash architecture
                     then Inl (ProjectRuntimeError ''Architecture artifact integrity check failed'')
                     else Inr (requirements, architecture))))))"

definition revision_keys :: "string list" where
  "revision_keys = [''revision_feedback'', ''source_work_package_id'', ''source_work_package_hash'']"

text \<open>
  After a rejection the run is told of it; after a failure it is told what the failed run was told.
\<close>

definition planning_revision_context :: "ProjectModel \<Rightarrow> project_db \<Rightarrow> project_error + dict" where
  "planning_revision_context project db =
     (if pq_status project = WORK_PACKAGE_REJECTED then
        (case first_by (\<lambda>w. - wk_updated_at w) (filter (\<lambda>w. wk_project_id w = pq_id project \<and>
                wk_status w = REJECTED) (pt_packages db)) of
           None \<Rightarrow> Inl (InvalidProjectStateError ''Work-package revision requires a rejected package'')
         | Some w \<Rightarrow>
             (case wk_artifact_id w of
                None \<Rightarrow> Inl (InvalidProjectStateError ''Work-package revision requires a rejected package'')
              | Some artifact_id \<Rightarrow>
                  (case first_by (\<lambda>y. - ay_created_at y) (filter (\<lambda>y. ay_artifact_id y = artifact_id \<and>
                          ay_decision y = ''rejected'') (pt_approvals db)) of
                     None \<Rightarrow> Inl (InvalidProjectStateError
                       ''Work-package revision requires recorded rejection feedback'')
                   | Some y \<Rightarrow> Inr
                       [(''revision_feedback'',
                           JText (comment_or ''Work-package changes requested.'' (ay_comment y))),
                        (''source_work_package_id'', uuid_json (wk_id w)),
                        (''source_work_package_hash'', JText (wk_contract_hash w))])))
      else if pq_status project = WORK_PACKAGE_FAILED then
        (case first_by (\<lambda>r. - cx_created_at r) (filter (\<lambda>r. cx_project_id r = pq_id project \<and>
                cx_crew_name r = ''work_package_planner_crew'' \<and> cx_status r = FAILED) (pt_runs db)) of
           None \<Rightarrow> Inr []
         | Some r \<Rightarrow>
             (case map_of (cx_input_payload r) ''revision_feedback'' of
                None \<Rightarrow> Inr []
              | Some v \<Rightarrow> if truthy v
                  then Inr (filter (\<lambda>(k, v). k \<in> set revision_keys) (cx_input_payload r)) else Inr []))
      else Inr [])"

definition source_entries :: "ArtifactModel \<Rightarrow> ArtifactModel \<Rightarrow> dict" where
  "source_entries requirements architecture =
     [(''requirements_artifact_id'', uuid_json (af_id requirements)),
      (''requirements_artifact_hash'', JText (af_content_hash requirements)),
      (''architecture_artifact_id'', uuid_json (af_id architecture)),
      (''architecture_artifact_hash'', JText (af_content_hash architecture))]"

definition queue_work_package_planning ::
  "hashing \<Rightarrow> (nat \<Rightarrow> uuid) \<Rightarrow> timestamp \<Rightarrow> uuid \<Rightarrow> string \<Rightarrow> project_db \<Rightarrow>
   project_error + (CrewRunModel \<times> project_db)" where
  "queue_work_package_planning hs ids now project_id actor_id db =
     bind_result (get_project project_id db) (\<lambda>project.
       if pq_status project \<notin> {ARCHITECTURE_APPROVED, WORK_PACKAGE_FAILED, WORK_PACKAGE_REJECTED}
       then Inl (InvalidProjectStateError
         (''Cannot plan work package from state '' @ project_status_text (pq_status project)))
       else bind_result (planning_sources hs project db) (\<lambda>(requirements, architecture).
         bind_result (planning_revision_context project db) (\<lambda>revision_context.
           let run = new_run (ids 0) now (pq_id project) ''work_package_planner_crew''
                 (source_entries requirements architecture @ revision_context)
           in bind_result (enqueue_run now run WORK_PACKAGE_QUEUED (ids 1) ''plan_work_package''
                [''project_id'' \<mapsto> uuid_text (pq_id project), ''run_id'' \<mapsto> uuid_text (ids 0)] db) (\<lambda>db1.
                Inr (run, note_event hs ids 2 (pq_id project) ''work_package.planning.queued'' ''human'' actor_id
                  ([(''run_id'', uuid_json (ids 0)), (''job_id'', uuid_json (ids 1))] @
                   source_entries requirements architecture) db1)))))"

end
