(* ===== verification/Project_Planning.thy ===== *)
theory Project_Planning
  imports Project_Delivery
begin

text \<open>
  The last phase of \<^verbatim>\<open>application/project_workflow.py\<close>: planning a work package and deciding on it.
  The contract the planner proposes is an argument with the fields it parses into; an answer that
  does not parse is the exception of the parser.
\<close>

section \<open>The contract as JSON\<close>

text \<open>\<^verbatim>\<open>contract.model_dump(mode="json")\<close>.\<close>

definition required_change_json :: "RequiredChange \<Rightarrow> json" where
  "required_change_json c = JObject
     [(''id'', JText (rq_id c)), (''description'', JText (rq_description c)),
      (''related_requirements'', texts (rq_related_requirements c)),
      (''target_paths'', texts (rq_target_paths c))]"

definition file_scope_json :: "FileScope \<Rightarrow> json" where
  "file_scope_json s = JObject
     [(''allowed_files'', texts (fs_allowed_files s)),
      (''allowed_directories'', texts (fs_allowed_directories s)),
      (''forbidden_files'', texts (fs_forbidden_files s)),
      (''forbidden_directories'', texts (fs_forbidden_directories s)),
      (''maximum_changed_files'', JInt (fs_maximum_changed_files s)),
      (''maximum_added_lines'', JInt (fs_maximum_added_lines s)),
      (''maximum_deleted_lines'', JInt (fs_maximum_deleted_lines s))]"

definition command_policy_json :: "CommandPolicy \<Rightarrow> json" where
  "command_policy_json p = JObject
     [(''setup_commands'', JList (map texts (cy_setup_commands p))),
      (''implementation_commands'', JList (map texts (cy_implementation_commands p))),
      (''test_commands'', JList (map texts (cy_test_commands p))),
      (''forbidden_executables'', texts (cy_forbidden_executables p))]"

definition criterion_json :: "AcceptanceCriterion \<Rightarrow> json" where
  "criterion_json c = JObject
     [(''id'', JText (cn_id c)), (''description'', JText (cn_description c)),
      (''verification'', JText (cn_verification c))]"

definition contract_json :: "WorkPackageContract \<Rightarrow> json" where
  "contract_json c = JObject
     [(''schema_version'', JText (wc_schema_version c)), (''project_id'', JText (wc_project_id c)),
      (''title'', JText (wc_title c)), (''objective'', JText (wc_objective c)),
      (''base_commit_sha'', JText (wc_base_commit_sha c)),
      (''source_requirements_artifact_id'', JText (wc_source_requirements_artifact_id c)),
      (''source_requirements_hash'', JText (wc_source_requirements_hash c)),
      (''source_architecture_artifact_id'', JText (wc_source_architecture_artifact_id c)),
      (''source_architecture_hash'', JText (wc_source_architecture_hash c)),
      (''required_changes'', JList (map required_change_json (wc_required_changes c))),
      (''file_scope'', file_scope_json (wc_file_scope c)),
      (''command_policy'', command_policy_json (wc_command_policy c)),
      (''network'', JObject [(''policy'', JText (nr_policy (wc_network c))),
         (''allowed_hosts'', texts (nr_allowed_hosts (wc_network c)))]),
      (''resources'', JObject [(''cpu_count'', JFloat (rs_cpu_count (wc_resources c))),
         (''memory_mb'', JInt (rs_memory_mb (wc_resources c))),
         (''disk_mb'', JInt (rs_disk_mb (wc_resources c))),
         (''process_limit'', JInt (rs_process_limit (wc_resources c))),
         (''execution_timeout_seconds'', JInt (rs_execution_timeout_seconds (wc_resources c)))]),
      (''acceptance_criteria'', JList (map criterion_json (wc_acceptance_criteria c))),
      (''expected_artifacts'', texts (wc_expected_artifacts c)),
      (''forbidden_actions'', texts (wc_forbidden_actions c))]"

fun work_package_error_text :: "work_package_error \<Rightarrow> string" where
  "work_package_error_text ValidationError = ''validation error for WorkPackageContract''"
| "work_package_error_text (ProtectedPath p) = ''Protected path requested: '' @ p"
| "work_package_error_text (NewFileOutside p) = ''New file is outside allowed directories: '' @ p"
| "work_package_error_text (ForbiddenExecutables es) = ''Forbidden executables requested: '' @ join_with '', '' es"

definition contract_result :: "work_package_error + 'a \<Rightarrow> project_error + 'a" where
  "contract_result r = (case r of Inl e \<Rightarrow> Inl (OtherError (work_package_error_text e)) | Inr x \<Rightarrow> Inr x)"

section \<open>Planning\<close>

record RepositorySnapshot =
  rx_commit_sha :: string
  rx_is_clean :: bool
  rx_tracked_files :: "string list"

definition planning_inputs ::
  "hashing \<Rightarrow> CrewRunModel \<Rightarrow> string + RepositorySnapshot \<Rightarrow> project_db \<Rightarrow>
   project_error + (ArtifactModel \<times> ArtifactModel \<times> RepositorySnapshot)" where
  "planning_inputs hs run inspection db =
     bind_result (required_uuid (cx_input_payload run) ''requirements_artifact_id'') (\<lambda>requirements_id.
     bind_result (required_uuid (cx_input_payload run) ''architecture_artifact_id'') (\<lambda>architecture_id.
     bind_result (load_artifact requirements_id db) (\<lambda>requirements.
     bind_result (load_artifact architecture_id db) (\<lambda>architecture.
     bind_result (required_value (cx_input_payload run) ''requirements_artifact_hash'') (\<lambda>requirements_hash.
     bind_result (required_value (cx_input_payload run) ''architecture_artifact_hash'') (\<lambda>architecture_hash.
       if JText (hash_text hs (af_content requirements)) \<noteq> requirements_hash
       then Inl (ProjectRuntimeError ''Requirements artifact integrity check failed'')
       else if JText (hash_text hs (af_content architecture)) \<noteq> architecture_hash
       then Inl (ProjectRuntimeError ''Architecture artifact integrity check failed'')
       else case inspection of
         Inl message \<Rightarrow> Inl (OtherError message)
       | Inr repository \<Rightarrow>
           if \<not> rx_is_clean repository
           then Inl (InvalidProjectStateError ''Repository must be clean before work-package planning'')
           else Inr (requirements, architecture, repository)))))))"

definition begin_work_package_planning ::
  "hashing \<Rightarrow> (nat \<Rightarrow> uuid) \<Rightarrow> timestamp \<Rightarrow> uuid \<Rightarrow> string + RepositorySnapshot \<Rightarrow> project_db \<Rightarrow>
   (CrewRunModel \<times> ProjectModel \<times> ArtifactModel \<times> ArtifactModel \<times> RepositorySnapshot) outcome" where
  "begin_work_package_planning hs ids now run_id inspection db =
     (case executable_run (''Work-package planning run '' @ uuid_text run_id @ '' does not exist'')
             ''Planning run cannot execute from '' run_id db of
        Inl e \<Rightarrow> (Inl e, db)
      | Inr (run, project) \<Rightarrow>
          (case planning_inputs hs run inspection db of
             Inl exc \<Rightarrow> fail_run hs ids now WORK_PACKAGE_FAILED ''work_package.planning.failed''
               ''work-package-worker'' run_id exc db
           | Inr (requirements, architecture, repository) \<Rightarrow>
               (Inr (run, project, requirements, architecture, repository),
                note_event hs ids 0 (pq_id project) ''work_package.planning.started'' ''system''
                  ''work-package-worker''
                  [(''run_id'', uuid_json run_id), (''base_commit_sha'', JText (rx_commit_sha repository))]
                  (mark_running now run_id (pq_id project) ProjectStatus.WORK_PACKAGE_PLANNING db))))"

text \<open>The planner cannot redirect the package: the system of record assigns its identity.\<close>

definition assign_identity ::
  "ProjectModel \<Rightarrow> ArtifactModel \<Rightarrow> ArtifactModel \<Rightarrow> RepositorySnapshot \<Rightarrow> WorkPackageContract \<Rightarrow> WorkPackageContract" where
  "assign_identity project requirements architecture repository parsed =
     parsed\<lparr>wc_project_id := uuid_text (pq_id project), wc_base_commit_sha := rx_commit_sha repository,
       wc_source_requirements_artifact_id := uuid_text (af_id requirements),
       wc_source_requirements_hash := af_content_hash requirements,
       wc_source_architecture_artifact_id := uuid_text (af_id architecture),
       wc_source_architecture_hash := af_content_hash architecture\<rparr>"

definition accepted_contract ::
  "ProjectModel \<Rightarrow> ArtifactModel \<Rightarrow> ArtifactModel \<Rightarrow> RepositorySnapshot \<Rightarrow> WorkPackageContract \<Rightarrow>
   project_error + WorkPackageContract" where
  "accepted_contract project requirements architecture repository parsed =
     bind_result (contract_result (model_validate
         (assign_identity project requirements architecture repository parsed))) (\<lambda>contract.
       if wc_project_id contract \<noteq> uuid_text (pq_id project)
       then Inl (ProjectRuntimeError ''Work package changed the project ID'')
       else if wc_base_commit_sha contract \<noteq> rx_commit_sha repository
       then Inl (ProjectRuntimeError ''Work package changed the base commit SHA'')
       else if wc_source_requirements_artifact_id contract \<noteq> uuid_text (af_id requirements)
       then Inl (ProjectRuntimeError ''Work package changed requirements artifact ID'')
       else if wc_source_requirements_hash contract \<noteq> af_content_hash requirements
       then Inl (ProjectRuntimeError ''Work package changed requirements hash'')
       else if wc_source_architecture_artifact_id contract \<noteq> uuid_text (af_id architecture)
       then Inl (ProjectRuntimeError ''Work package changed architecture artifact ID'')
       else if wc_source_architecture_hash contract \<noteq> af_content_hash architecture
       then Inl (ProjectRuntimeError ''Work package changed architecture hash'')
       else bind_result (contract_result (validate_repository_boundaries contract
              (rx_tracked_files repository))) (\<lambda>_. Inr contract))"

definition planned_package ::
  "hashing \<Rightarrow> (nat \<Rightarrow> uuid) \<Rightarrow> timestamp \<Rightarrow> CrewRunModel \<Rightarrow> ProjectModel \<Rightarrow> ArtifactModel \<Rightarrow> ArtifactModel \<Rightarrow>
   WorkPackageContract \<Rightarrow> WorkPackageStatus \<Rightarrow> WorkPackageModel" where
  "planned_package hs ids now run project requirements architecture contract status =
     \<lparr>wk_id = ids 0, wk_project_id = pq_id project, wk_planning_run_id = cx_id run,
      wk_artifact_id = Some (ids 1), wk_status = status, wk_title = wc_title contract,
      wk_objective = wc_objective contract, wk_repository_url = pq_repository_url project,
      wk_base_commit_sha = wc_base_commit_sha contract,
      wk_source_requirements_artifact_id = af_id requirements,
      wk_source_requirements_hash = af_content_hash requirements,
      wk_source_architecture_artifact_id = af_id architecture,
      wk_source_architecture_hash = af_content_hash architecture, wk_contract = contract_json contract,
      wk_contract_hash = hash_json hs (contract_json contract), wk_updated_at = now\<rparr>"

definition store_work_package ::
  "hashing \<Rightarrow> (nat \<Rightarrow> uuid) \<Rightarrow> timestamp \<Rightarrow> CrewRunModel \<Rightarrow> ProjectModel \<Rightarrow> ArtifactModel \<Rightarrow> ArtifactModel \<Rightarrow>
   RepositorySnapshot \<Rightarrow> string + WorkPackageContract \<Rightarrow> project_db \<Rightarrow> project_error + project_db" where
  "store_work_package hs ids now run project requirements architecture repository crew_result db =
     (case crew_result of
        Inl message \<Rightarrow> Inl (OtherError message)
      | Inr parsed \<Rightarrow>
          bind_result (accepted_contract project requirements architecture repository parsed) (\<lambda>contract.
          let contract_data = contract_json contract;
              contract_hash = hash_json hs contract_data;
              a = \<lparr>af_id = ids 1, af_project_id = pq_id project, af_run_id = Some (cx_id run),
                af_artifact_type = WORK_PACKAGE, af_media_type = ''application/json'',
                af_content = hs_canonical_json hs contract_data, af_content_hash = contract_hash,
                af_created_at = now\<rparr>;
              package = planned_package hs ids now run project requirements architecture contract
                (if auto_approves project ''work_package.auto_approved'' then APPROVED
                 else AWAITING_APPROVAL);
              sha = (''base_commit_sha'', JText (wc_base_commit_sha contract));
              ids_json = [(''work_package_id'', uuid_json (ids 0)), (''artifact_id'', uuid_json (ids 1)),
                (''contract_hash'', JText contract_hash)];
              db1 = mark_succeeded now (cx_id run) (ids_json @ [sha]) db
          in bind_result (add_artifact a db1) (\<lambda>db2.
             bind_result (add_package package db2) (\<lambda>db3.
             let db4 = note_event hs ids 2 (pq_id project) ''work_package.planning.succeeded'' ''agent''
                   ''work-package-planner-crew'' ([(''run_id'', uuid_json (cx_id run))] @ ids_json @ [sha]) db3;
                 db5 = note_event hs ids 4 (pq_id project) ''work_package.approval.requested'' ''system''
                   ''workflow-engine'' ids_json db4
             in approval_phase hs ids 7 (ids 6) now project a ''work_package.auto_approved''
                  AWAITING_WORK_PACKAGE_APPROVAL WORK_PACKAGE_APPROVED db5))))"

definition finish_work_package_planning ::
  "hashing \<Rightarrow> (nat \<Rightarrow> uuid) \<Rightarrow> timestamp \<Rightarrow> CrewRunModel \<Rightarrow> ProjectModel \<Rightarrow> ArtifactModel \<Rightarrow> ArtifactModel \<Rightarrow>
   RepositorySnapshot \<Rightarrow> string + WorkPackageContract \<Rightarrow> project_db \<Rightarrow> unit outcome" where
  "finish_work_package_planning hs ids now run project requirements architecture repository crew_result db =
     (case store_work_package hs ids now run project requirements architecture repository crew_result db of
        Inr db' \<Rightarrow> (Inr (), db')
      | Inl exc \<Rightarrow> fail_run hs ids now WORK_PACKAGE_FAILED ''work_package.planning.failed''
          ''work-package-worker'' (cx_id run) exc db)"

definition execute_work_package_planning ::
  "hashing \<Rightarrow> (nat \<Rightarrow> uuid) \<Rightarrow> (nat \<Rightarrow> uuid) \<Rightarrow> timestamp \<Rightarrow> timestamp \<Rightarrow> uuid \<Rightarrow> string + RepositorySnapshot \<Rightarrow>
   string + WorkPackageContract \<Rightarrow> project_db \<Rightarrow> unit outcome" where
  "execute_work_package_planning hs ids ids' now now' run_id inspection crew_result db =
     (case begin_work_package_planning hs ids now run_id inspection db of
        (Inl e, db1) \<Rightarrow> (Inl e, db1)
      | (Inr (run, project, requirements, architecture, repository), db1) \<Rightarrow>
          finish_work_package_planning hs ids' now' run project requirements architecture repository
            crew_result db1)"

section \<open>Deciding on the package\<close>

text \<open>An update that changes nothing is not sent, so \<^verbatim>\<open>updated_at\<close> stays as it is.\<close>

definition update_package :: "uuid \<Rightarrow> timestamp \<Rightarrow> WorkPackageStatus \<Rightarrow> project_db \<Rightarrow> project_db" where
  "update_package package_id now status db = db\<lparr>pt_packages := alter (\<lambda>w. wk_id w = package_id)
     (\<lambda>w. if wk_status w = status then w else w\<lparr>wk_status := status, wk_updated_at := now\<rparr>)
     (pt_packages db)\<rparr>"

definition approve_work_package ::
  "hashing \<Rightarrow> (nat \<Rightarrow> uuid) \<Rightarrow> timestamp \<Rightarrow> uuid \<Rightarrow> uuid \<Rightarrow> bool \<Rightarrow> string \<Rightarrow> string option \<Rightarrow> project_db \<Rightarrow>
   project_error + (WorkPackageModel \<times> project_db)" where
  "approve_work_package hs ids now project_id work_package_id decision reviewer comment db =
     bind_result (get_project project_id db) (\<lambda>project.
       if pq_status project \<noteq> AWAITING_WORK_PACKAGE_APPROVAL
       then Inl (InvalidProjectStateError ''Project is not awaiting work-package approval'')
       else case get_row wk_id work_package_id (pt_packages db) of
         None \<Rightarrow> Inl (ArtifactNotFoundError (uuid_text work_package_id))
       | Some package \<Rightarrow>
           if wk_project_id package \<noteq> pq_id project
           then Inl (ArtifactNotFoundError (uuid_text work_package_id))
           else case wk_artifact_id package of
             None \<Rightarrow> Inl (InvalidProjectStateError ''Work package has no immutable artifact'')
           | Some artifact_id \<Rightarrow> bind_result (load_artifact artifact_id db) (\<lambda>a.
               if hash_text hs (af_content a) \<noteq> wk_contract_hash package
               then Inl (ProjectRuntimeError ''Work-package artifact integrity check failed'')
               else let approval = new_approval (ids 0) now (pq_id project) (af_id a)
                      (if decision then ''approved'' else ''rejected'') reviewer comment;
                    status = (if decision then APPROVED else REJECTED);
                    db1 = update_package work_package_id now status (set_status (pq_id project)
                      (if decision then WORK_PACKAGE_APPROVED else WORK_PACKAGE_REJECTED) db)
                in bind_result (add_approval approval db1) (\<lambda>db2.
                     Inr (package\<lparr>wk_status := status\<rparr>, note_event hs ids 1 (pq_id project)
                       (if decision then ''work_package.approved'' else ''work_package.rejected'') ''human'' reviewer
                       [(''work_package_id'', uuid_json (wk_id package)), (''artifact_id'', uuid_json (af_id a)),
                        (''contract_hash'', JText (wk_contract_hash package)),
                        (''base_commit_sha'', JText (wk_base_commit_sha package)),
                        (''comment'', text_or_null comment)] db2))))"

end
