(* ===== verification/Project_System.thy ===== *)
theory Project_System
  imports Project_Planning
begin

text \<open>
  The delivery of projects as a system. Persons call the operations, workers execute runs: each
  execution is the session of one worker between its two transactions, with the objects it
  holds, and any number of them are under way. A worker may disappear (\<open>crash\<close>), and the job queue
  changes its own tables (\<open>queue\<close>). A worker executes a run with the operation of its crew,
  because the run and its job are queued together.
\<close>

datatype execution =
    RequirementsExecution CrewRunModel ProjectModel
  | ArchitectureExecution CrewRunModel ProjectModel ArtifactModel
  | PlanningExecution CrewRunModel ProjectModel ArtifactModel ArtifactModel RepositorySnapshot

record project_system =
  ps_db :: project_db
  ps_running :: "execution list"

definition run_of_crew :: "string \<Rightarrow> uuid \<Rightarrow> project_db \<Rightarrow> bool" where
  "run_of_crew crew run_id db \<longleftrightarrow>
     (case get_row cx_id run_id (pt_runs db) of None \<Rightarrow> False | Some run \<Rightarrow> cx_crew_name run = crew)"

inductive person_step :: "hashing \<Rightarrow> project_db \<Rightarrow> project_db \<Rightarrow> bool" for hs where
  create: "create_project hs ids now name description path url branch actor manifest type prepared db
     = Inr (project, db') \<Longrightarrow> person_step hs db db'"
| queue_requirements: "queue_requirements_run hs ids now project_id actor db = Inr (run, db') \<Longrightarrow>
     person_step hs db db'"
| decide_requirements: "approve_requirements hs ids now project_id artifact_id decision reviewer comment db
     = Inr (project, db') \<Longrightarrow> person_step hs db db'"
| revise: "request_changes hs ids now project_id run_id artifact_id reviewer review db = Inr (cycle, db') \<Longrightarrow>
     person_step hs db db'"
| queue_architecture: "queue_architecture_run hs ids now project_id actor db = Inr (run, db') \<Longrightarrow>
     person_step hs db db'"
| decide_architecture: "approve_architecture hs ids now project_id artifact_id decision reviewer comment db
     = Inr (project, db') \<Longrightarrow> person_step hs db db'"
| queue_planning: "queue_work_package_planning hs ids now project_id actor db = Inr (run, db') \<Longrightarrow>
     person_step hs db db'"
| decide_package: "approve_work_package hs ids now project_id package_id decision reviewer comment db
     = Inr (package, db') \<Longrightarrow> person_step hs db db'"

inductive project_step :: "hashing \<Rightarrow> project_system \<Rightarrow> project_system \<Rightarrow> bool" for hs where
  person: "person_step hs (ps_db s) db' \<Longrightarrow> project_step hs s (s\<lparr>ps_db := db'\<rparr>)"
| begin_requirements: "run_of_crew ''requirements_crew'' run_id (ps_db s) \<Longrightarrow>
     begin_requirements_run hs ids now run_id (ps_db s) = (Inr (run, project), db') \<Longrightarrow>
     project_step hs s \<lparr>ps_db = db', ps_running = RequirementsExecution run project # ps_running s\<rparr>"
| begin_architecture: "run_of_crew ''architecture_crew'' run_id (ps_db s) \<Longrightarrow>
     begin_architecture_run hs ids now run_id (ps_db s) = (Inr (run, project, a), db') \<Longrightarrow>
     project_step hs s \<lparr>ps_db = db', ps_running = ArchitectureExecution run project a # ps_running s\<rparr>"
| refuse_architecture: "run_of_crew ''architecture_crew'' run_id (ps_db s) \<Longrightarrow>
     begin_architecture_run hs ids now run_id (ps_db s) = (Inl e, db') \<Longrightarrow>
     project_step hs s (s\<lparr>ps_db := db'\<rparr>)"
| begin_planning: "run_of_crew ''work_package_planner_crew'' run_id (ps_db s) \<Longrightarrow>
     begin_work_package_planning hs ids now run_id inspection (ps_db s) = (Inr (run, project, r, a, repository), db') \<Longrightarrow>
     project_step hs s \<lparr>ps_db = db', ps_running = PlanningExecution run project r a repository # ps_running s\<rparr>"
| refuse_planning: "run_of_crew ''work_package_planner_crew'' run_id (ps_db s) \<Longrightarrow>
     begin_work_package_planning hs ids now run_id inspection (ps_db s) = (Inl e, db') \<Longrightarrow>
     project_step hs s (s\<lparr>ps_db := db'\<rparr>)"
| finish_requirements: "RequirementsExecution run project \<in> set (ps_running s) \<Longrightarrow>
     finish_requirements_run hs ids now run project answer (ps_db s) = (result, db') \<Longrightarrow>
     project_step hs s \<lparr>ps_db = db', ps_running = remove1 (RequirementsExecution run project) (ps_running s)\<rparr>"
| finish_architecture: "ArchitectureExecution run project a \<in> set (ps_running s) \<Longrightarrow>
     finish_architecture_run hs ids now run project a answer (ps_db s) = (result, db') \<Longrightarrow>
     project_step hs s \<lparr>ps_db = db', ps_running = remove1 (ArchitectureExecution run project a) (ps_running s)\<rparr>"
| finish_planning: "PlanningExecution run project r a repository \<in> set (ps_running s) \<Longrightarrow>
     finish_work_package_planning hs ids now run project r a repository contract (ps_db s) = (result, db') \<Longrightarrow>
     project_step hs s
       \<lparr>ps_db = db', ps_running = remove1 (PlanningExecution run project r a repository) (ps_running s)\<rparr>"
| crash: "project_step hs s (s\<lparr>ps_running := remove1 e (ps_running s)\<rparr>)"
| queue: "project_step hs s (s\<lparr>ps_db := (ps_db s)\<lparr>pt_queue := q\<rparr>\<rparr>)"

definition no_projects :: "queue_tables \<Rightarrow> project_db" where
  "no_projects q = \<lparr>pt_projects = [], pt_runs = [], pt_artifacts = [], pt_approvals = [], pt_packages = [],
     pt_requests = [], pt_cycles = [], pt_lineage = [], pt_queue = q,
     pt_audit = \<lparr>au_events = [], au_chain = []\<rparr>\<rparr>"

inductive project_reachable :: "hashing \<Rightarrow> project_system \<Rightarrow> bool" for hs where
  start: "project_reachable hs \<lparr>ps_db = no_projects q, ps_running = []\<rparr>"
| step: "project_reachable hs s \<Longrightarrow> project_step hs s s' \<Longrightarrow> project_reachable hs s'"

section \<open>What the tables keep\<close>

text \<open>Rows stay, and so do the columns that say where an artifact comes from.\<close>

definition same_run :: "CrewRunModel \<Rightarrow> CrewRunModel \<Rightarrow> bool" where
  "same_run r r' \<longleftrightarrow> cx_id r = cx_id r' \<and> cx_project_id r = cx_project_id r' \<and>
     cx_crew_name r = cx_crew_name r' \<and> cx_input_payload r = cx_input_payload r'"

definition grows :: "project_db \<Rightarrow> project_db \<Rightarrow> bool" where
  "grows db db' \<longleftrightarrow> set (pt_artifacts db) \<subseteq> set (pt_artifacts db') \<and>
     set (pt_approvals db) \<subseteq> set (pt_approvals db') \<and>
     (\<forall>r\<in>set (pt_runs db). \<exists>r'\<in>set (pt_runs db'). same_run r r')"

definition approved_by :: "project_db \<Rightarrow> uuid \<Rightarrow> bool" where
  "approved_by db i \<longleftrightarrow> (\<exists>y\<in>set (pt_approvals db). ay_artifact_id y = i \<and> ay_decision y = ''approved'')"

text \<open>An approved specification of requirements of a project.\<close>

definition approved_requirements :: "project_db \<Rightarrow> uuid \<Rightarrow> ArtifactModel \<Rightarrow> bool" where
  "approved_requirements db project_id r \<longleftrightarrow> r \<in> set (pt_artifacts db) \<and> af_project_id r = project_id \<and>
     af_artifact_type r = REQUIREMENTS_SPECIFICATION \<and> approved_by db (af_id r)"

text \<open>The run was queued to draw up an architecture of these requirements.\<close>

definition works_from :: "CrewRunModel \<Rightarrow> ArtifactModel \<Rightarrow> bool" where
  "works_from run r \<longleftrightarrow>
     required_uuid (cx_input_payload run) ''requirements_artifact_id'' = Inr (af_id r) \<and>
     map_of (cx_input_payload run) ''requirements_artifact_hash'' = Some (JText (af_content_hash r))"

text \<open>An approved architecture that a run drew up from approved requirements.\<close>

definition derived :: "project_db \<Rightarrow> uuid \<Rightarrow> ArtifactModel \<Rightarrow> ArtifactModel \<Rightarrow> bool" where
  "derived db project_id r a \<longleftrightarrow> approved_requirements db project_id r \<and>
     a \<in> set (pt_artifacts db) \<and> af_project_id a = project_id \<and>
     af_artifact_type a = ARCHITECTURE_SPECIFICATION \<and> approved_by db (af_id a) \<and>
     (\<exists>run\<in>set (pt_runs db). af_run_id a = Some (cx_id run) \<and> cx_project_id run = project_id \<and>
        works_from run r)"

lemma same_run_refl [simp]: "same_run r r"
  by (simp add: same_run_def)

lemma same_run_trans: "same_run a b \<Longrightarrow> same_run b c \<Longrightarrow> same_run a c"
  by (simp add: same_run_def)

lemma grows_refl [simp]: "grows db db"
  unfolding grows_def using same_run_refl by blast

lemma growsI:
  "set (pt_artifacts db) \<subseteq> set (pt_artifacts db') \<Longrightarrow> set (pt_approvals db) \<subseteq> set (pt_approvals db') \<Longrightarrow>
   set (pt_runs db) \<subseteq> set (pt_runs db') \<Longrightarrow> grows db db'"
  unfolding grows_def using same_run_refl by blast

lemma grows_trans: "grows a b \<Longrightarrow> grows b c \<Longrightarrow> grows a c"
  unfolding grows_def by (blast intro: same_run_trans)

lemma grows_approved_by: "grows db db' \<Longrightarrow> approved_by db i \<Longrightarrow> approved_by db' i"
  unfolding grows_def approved_by_def by blast

lemma grows_approved_requirements:
  "grows db db' \<Longrightarrow> approved_requirements db i r \<Longrightarrow> approved_requirements db' i r"
  using grows_approved_by [of db db'] unfolding grows_def approved_requirements_def by blast

lemma works_from_same: "same_run run run' \<Longrightarrow> works_from run' r = works_from run r"
  by (simp add: same_run_def works_from_def)

lemma grows_derived:
  assumes g: "grows db db'" and d: "derived db i r a"
  shows "derived db' i r a"
proof -
  obtain run where "run \<in> set (pt_runs db)" "af_run_id a = Some (cx_id run)" "cx_project_id run = i"
      "works_from run r"
    using d unfolding derived_def by blast
  moreover from this g obtain run' where "run' \<in> set (pt_runs db')" "same_run run run'"
    unfolding grows_def by blast
  moreover have "cx_id run' = cx_id run" "cx_project_id run' = cx_project_id run"
    using calculation by (simp_all add: same_run_def)
  ultimately have "\<exists>run\<in>set (pt_runs db'). af_run_id a = Some (cx_id run) \<and> cx_project_id run = i \<and> works_from run r"
    using works_from_same by metis
  moreover have "a \<in> set (pt_artifacts db')" using g d unfolding grows_def derived_def by blast
  ultimately show ?thesis
    using d grows_approved_requirements [OF g] grows_approved_by [OF g] unfolding derived_def by blast
qed

end
