(* ===== verification/Project_Provenance.thy ===== *)
theory Project_Provenance
  imports Project_System
begin

text \<open>
  Where the rows of a project come from. \<open>provenance\<close> is kept by every step: an artifact is what its
  hash says and belongs to the project of its run, the output of an architecture run names the
  approved requirements it worked from, a planning run names an approved architecture and its
  requirements, and a work package carries their identities and an accepted contract.
\<close>

section \<open>The invariant\<close>

definition artifact_ok :: "hashing \<Rightarrow> project_db \<Rightarrow> ArtifactModel \<Rightarrow> bool" where
  "artifact_ok hs db a \<longleftrightarrow> af_content_hash a = hash_text hs (af_content a) \<and>
     (\<forall>i. af_run_id a = Some i \<longrightarrow>
        (\<exists>run\<in>set (pt_runs db). cx_id run = i \<and> cx_project_id run = af_project_id a))"

definition output_ok :: "project_db \<Rightarrow> CrewRunModel \<Rightarrow> bool" where
  "output_ok db run \<longleftrightarrow> (\<forall>out i. cx_output_payload run = Some out \<longrightarrow>
     required_uuid out ''source_requirements_artifact_id'' = Inr i \<longrightarrow>
     (\<exists>r. af_id r = i \<and> approved_requirements db (cx_project_id run) r \<and> works_from run r))"

text \<open>The run was queued to plan a package from this architecture and its requirements.\<close>

definition plans_from :: "CrewRunModel \<Rightarrow> ArtifactModel \<Rightarrow> ArtifactModel \<Rightarrow> bool" where
  "plans_from run r a \<longleftrightarrow> works_from run r \<and>
     required_uuid (cx_input_payload run) ''architecture_artifact_id'' = Inr (af_id a) \<and>
     map_of (cx_input_payload run) ''architecture_artifact_hash'' = Some (JText (af_content_hash a))"

definition input_ok :: "project_db \<Rightarrow> CrewRunModel \<Rightarrow> bool" where
  "input_ok db run \<longleftrightarrow> (\<forall>i. required_uuid (cx_input_payload run) ''architecture_artifact_id'' = Inr i \<longrightarrow>
     (\<exists>r a. af_id a = i \<and> plans_from run r a \<and> derived db (cx_project_id run) r a))"

text \<open>The package follows an accepted contract over an architecture and its requirements.\<close>

definition package_follows ::
  "hashing \<Rightarrow> WorkPackageModel \<Rightarrow> ArtifactModel \<Rightarrow> ArtifactModel \<Rightarrow> WorkPackageContract \<Rightarrow> bool" where
  "package_follows hs w r a c \<longleftrightarrow>
     wk_source_requirements_artifact_id w = af_id r \<and> wk_source_requirements_hash w = af_content_hash r \<and>
     wk_source_architecture_artifact_id w = af_id a \<and> wk_source_architecture_hash w = af_content_hash a \<and>
     wk_contract w = contract_json c \<and> wk_contract_hash w = hash_json hs (contract_json c) \<and>
     wc_project_id c = uuid_text (wk_project_id w) \<and> wc_base_commit_sha c = wk_base_commit_sha w \<and>
     wc_source_requirements_artifact_id c = uuid_text (af_id r) \<and>
     wc_source_requirements_hash c = af_content_hash r \<and>
     wc_source_architecture_artifact_id c = uuid_text (af_id a) \<and>
     wc_source_architecture_hash c = af_content_hash a \<and>
     (\<exists>raw tracked_files. model_validate raw = Inr c \<and>
        validate_repository_boundaries c tracked_files = Inr ())"

text \<open>The artifact that keeps the text of the contract.\<close>

definition package_artifact :: "hashing \<Rightarrow> project_db \<Rightarrow> WorkPackageModel \<Rightarrow> bool" where
  "package_artifact hs db w \<longleftrightarrow> (\<exists>x\<in>set (pt_artifacts db). wk_artifact_id w = Some (af_id x) \<and>
     af_project_id x = wk_project_id w \<and> af_artifact_type x = WORK_PACKAGE \<and>
     af_content x = hs_canonical_json hs (wk_contract w) \<and> af_content_hash x = wk_contract_hash w)"

definition package_ok :: "hashing \<Rightarrow> project_db \<Rightarrow> WorkPackageModel \<Rightarrow> bool" where
  "package_ok hs db w \<longleftrightarrow> package_artifact hs db w \<and>
     (\<exists>r a c. derived db (wk_project_id w) r a \<and> package_follows hs w r a c)"

definition provenance :: "hashing \<Rightarrow> project_db \<Rightarrow> bool" where
  "provenance hs db \<longleftrightarrow> distinct (map af_id (pt_artifacts db)) \<and> distinct (map cx_id (pt_runs db)) \<and>
     (\<forall>a\<in>set (pt_artifacts db). artifact_ok hs db a) \<and>
     (\<forall>run\<in>set (pt_runs db). output_ok db run \<and> input_ok db run) \<and>
     (\<forall>w\<in>set (pt_packages db). package_ok hs db w)"

text \<open>The objects of an execution are rows of the tables, up to the columns others may change.\<close>

definition known_run :: "project_db \<Rightarrow> CrewRunModel \<Rightarrow> ProjectModel \<Rightarrow> bool" where
  "known_run db run project \<longleftrightarrow> pq_id project = cx_project_id run \<and>
     (\<exists>run'\<in>set (pt_runs db). same_run run run')"

fun execution_ok :: "project_db \<Rightarrow> execution \<Rightarrow> bool" where
  "execution_ok db (RequirementsExecution run project) = known_run db run project"
| "execution_ok db (ArchitectureExecution run project r) =
     (known_run db run project \<and> approved_requirements db (pq_id project) r \<and> works_from run r)"
| "execution_ok db (PlanningExecution run project r a repository) =
     (known_run db run project \<and> derived db (pq_id project) r a)"

section \<open>Growing tables\<close>

lemma grows_known_run: "grows db db' \<Longrightarrow> known_run db run project \<Longrightarrow> known_run db' run project"
  unfolding grows_def known_run_def by (blast intro: same_run_trans)

lemma grows_execution_ok: "grows db db' \<Longrightarrow> execution_ok db e \<Longrightarrow> execution_ok db' e"
  by (cases e) (simp_all add: grows_known_run grows_approved_requirements grows_derived)

lemma grows_artifact_ok:
  assumes g: "grows db db'" and a: "artifact_ok hs db a"
  shows "artifact_ok hs db' a"
proof -
  have "\<exists>run\<in>set (pt_runs db'). cx_id run = i \<and> cx_project_id run = af_project_id a"
    if i: "af_run_id a = Some i" for i
  proof -
    obtain run where r: "run \<in> set (pt_runs db)" "cx_id run = i" "cx_project_id run = af_project_id a"
      using a i unfolding artifact_ok_def by auto
    then obtain run' where "run' \<in> set (pt_runs db')" "same_run run run'" using g unfolding grows_def by blast
    then show ?thesis using r unfolding same_run_def by metis
  qed
  then show ?thesis using a unfolding artifact_ok_def by blast
qed

lemma grows_output_ok: "grows db db' \<Longrightarrow> output_ok db run \<Longrightarrow> output_ok db' run"
  unfolding output_ok_def using grows_approved_requirements by blast

lemma grows_input_ok: "grows db db' \<Longrightarrow> input_ok db run \<Longrightarrow> input_ok db' run"
  unfolding input_ok_def using grows_derived by blast

lemma grows_package_ok: "grows db db' \<Longrightarrow> package_ok hs db w \<Longrightarrow> package_ok hs db' w"
  unfolding package_ok_def package_artifact_def using grows_derived unfolding grows_def by blast

text \<open>It is enough to look at the rows that are new.\<close>

lemma provenance_grows:
  assumes p: "provenance hs db" and g: "grows db db'"
    and "distinct (map af_id (pt_artifacts db'))" "distinct (map cx_id (pt_runs db'))"
    and "\<And>a. a \<in> set (pt_artifacts db') \<Longrightarrow> a \<in> set (pt_artifacts db) \<or> artifact_ok hs db' a"
    and "\<And>run. run \<in> set (pt_runs db') \<Longrightarrow> run \<in> set (pt_runs db) \<or> output_ok db' run \<and> input_ok db' run"
    and "\<And>w. w \<in> set (pt_packages db') \<Longrightarrow> w \<in> set (pt_packages db) \<or> package_ok hs db' w"
  shows "provenance hs db'"
proof -
  have "artifact_ok hs db' a" if "a \<in> set (pt_artifacts db')" for a
    using assms(5) [OF that] p grows_artifact_ok [OF g] unfolding provenance_def by blast
  moreover have "output_ok db' run \<and> input_ok db' run" if "run \<in> set (pt_runs db')" for run
    using assms(6) [OF that] p grows_output_ok [OF g] grows_input_ok [OF g] unfolding provenance_def by blast
  moreover have "package_ok hs db' w" if "w \<in> set (pt_packages db')" for w
    using assms(7) [OF that] p grows_package_ok [OF g] unfolding provenance_def by blast
  ultimately show ?thesis using assms(3,4) unfolding provenance_def by blast
qed

section \<open>The primitive updates\<close>

lemma note_event_tables [simp]:
  "pt_projects (note_event hs ids n p t k i x db) = pt_projects db"
  "pt_runs (note_event hs ids n p t k i x db) = pt_runs db"
  "pt_artifacts (note_event hs ids n p t k i x db) = pt_artifacts db"
  "pt_approvals (note_event hs ids n p t k i x db) = pt_approvals db"
  "pt_packages (note_event hs ids n p t k i x db) = pt_packages db"
  by (simp_all add: note_event_def)

lemma set_status_tables [simp]:
  "pt_runs (set_status p t db) = pt_runs db" "pt_artifacts (set_status p t db) = pt_artifacts db"
  "pt_approvals (set_status p t db) = pt_approvals db" "pt_packages (set_status p t db) = pt_packages db"
  "pt_audit (set_status p t db) = pt_audit db"
  by (simp_all add: set_status_def)

lemma update_run_tables [simp]:
  "pt_projects (update_run i f db) = pt_projects db" "pt_artifacts (update_run i f db) = pt_artifacts db"
  "pt_approvals (update_run i f db) = pt_approvals db" "pt_packages (update_run i f db) = pt_packages db"
  "pt_audit (update_run i f db) = pt_audit db"
  by (simp_all add: update_run_def)

lemma insert_rowD:
  "insert_row key x rows = Inr rows' \<Longrightarrow> rows' = rows @ [x] \<and> key x \<notin> key ` set rows"
  by (auto simp: insert_row_def list_ex_iff split: if_splits)

text \<open>The part of the tables provenance looks at.\<close>

definition core :: "project_db \<Rightarrow> ArtifactModel list \<times> ApprovalModel list \<times> CrewRunModel list \<times> WorkPackageModel list"
where
  "core db = (pt_artifacts db, pt_approvals db, pt_runs db, pt_packages db)"

lemma core_eq: "core db' = core db \<longleftrightarrow> pt_artifacts db' = pt_artifacts db \<and>
    pt_approvals db' = pt_approvals db \<and> pt_runs db' = pt_runs db \<and> pt_packages db' = pt_packages db"
  by (simp add: core_def)

lemma core_grows: "core db' = core db \<Longrightarrow> grows db db'"
  by (rule growsI) (simp_all add: core_eq)

lemma core_provenance: "core db' = core db \<Longrightarrow> provenance hs db \<Longrightarrow> provenance hs db'"
  by (rule provenance_grows [OF _ core_grows]) (auto simp: core_eq provenance_def)

lemma core_simps [simp]:
  "core (note_event hs ids n p t k i x db) = core db" "core (set_status p s db) = core db"
  "core (db\<lparr>pt_queue := q\<rparr>) = core db"
  by (simp_all add: core_def)

text \<open>A step that keeps provenance and lets the tables grow.\<close>

definition keeps :: "hashing \<Rightarrow> project_db \<Rightarrow> project_db \<Rightarrow> bool" where
  "keeps hs db db' \<longleftrightarrow> grows db db' \<and> (provenance hs db \<longrightarrow> provenance hs db')"

lemma keeping_refl [simp]: "keeps hs db db"
  by (simp add: keeps_def)

lemma keeping_trans: "keeps hs a b \<Longrightarrow> keeps hs b c \<Longrightarrow> keeps hs a c"
  unfolding keeps_def by (blast intro: grows_trans)

lemma keeps_core: "core db' = core db \<Longrightarrow> keeps hs db db'"
  unfolding keeps_def using core_grows core_provenance by blast

lemma keeps_approval: "add_approval y db = Inr db' \<Longrightarrow> keeps hs db db'"
  unfolding keeps_def
  by (intro conjI impI; (rule provenance_grows, assumption)?)
    (auto simp: add_approval_def result_simps provenance_def dest!: insert_rowD intro!: growsI)

lemma keeps_artifact:
  assumes add: "add_artifact a db = Inr db'" and a: "artifact_ok hs db a"
  shows "keeps hs db db'"
proof -
  have db': "db' = db\<lparr>pt_artifacts := pt_artifacts db @ [a]\<rparr>" and new: "af_id a \<notin> af_id ` set (pt_artifacts db)"
    using add by (auto simp: add_artifact_def result_simps dest!: insert_rowD)
  have g: "grows db db'" by (rule growsI) (auto simp: db')
  moreover have "artifact_ok hs db' a" by (rule grows_artifact_ok [OF g a])
  moreover have "provenance hs db'" if p: "provenance hs db"
    by (rule provenance_grows [OF p g]) (use p new \<open>artifact_ok hs db' a\<close> in \<open>auto simp: db' provenance_def\<close>)
  ultimately show ?thesis unfolding keeps_def by blast
qed

lemma keeps_run:
  assumes add: "add_run run db = Inr db'" and out: "cx_output_payload run = None"
    and input: "provenance hs db \<Longrightarrow> input_ok db run"
  shows "keeps hs db db'"
proof -
  have db': "db' = db\<lparr>pt_runs := pt_runs db @ [run]\<rparr>" and new: "cx_id run \<notin> cx_id ` set (pt_runs db)"
    using add by (auto simp: add_run_def result_simps dest!: insert_rowD)
  have g: "grows db db'" by (rule growsI) (auto simp: db')
  have "provenance hs db'" if p: "provenance hs db"
  proof (rule provenance_grows [OF p g])
    show "r \<in> set (pt_runs db) \<or> output_ok db' r \<and> input_ok db' r" if "r \<in> set (pt_runs db')" for r
      using that grows_input_ok [OF g input [OF p]] out by (auto simp: db' output_ok_def)
  qed (use p new in \<open>auto simp: db' provenance_def\<close>)
  with g show ?thesis unfolding keeps_def by blast
qed

lemma keeps_update_run:
  assumes same: "\<And>r. same_run r (f r)"
    and out: "\<And>r. r \<in> set (pt_runs db) \<Longrightarrow> cx_id r = i \<Longrightarrow> provenance hs db \<Longrightarrow> output_ok db (f r)"
  shows "keeps hs db (update_run i f db)"
proof -
  let ?db = "update_run i f db"
  have ids: "map cx_id (pt_runs ?db) = map cx_id (pt_runs db)"
    using same unfolding update_run_def by (simp add: alter_def same_run_def)
  have row: "\<exists>r\<in>set (pt_runs db). r' = (if cx_id r = i then f r else r)" if "r' \<in> set (pt_runs ?db)" for r'
    using that by (auto simp: update_run_def set_alter)
  have "\<exists>r'\<in>set (pt_runs ?db). same_run r r'" if "r \<in> set (pt_runs db)" for r
    using that same same_run_refl
    by (intro bexI [of _ "if cx_id r = i then f r else r"]) (auto simp: update_run_def set_alter)
  then have g: "grows db ?db" by (simp add: grows_def)
  have "provenance hs ?db" if p: "provenance hs db"
  proof (rule provenance_grows [OF p g])
    show "r' \<in> set (pt_runs db) \<or> output_ok ?db r' \<and> input_ok ?db r'" if r': "r' \<in> set (pt_runs ?db)" for r'
    proof -
      obtain r where r: "r \<in> set (pt_runs db)" "r' = (if cx_id r = i then f r else r)" using row [OF r'] by blast
      have "input_ok db r" using p r(1) unfolding provenance_def by blast
      moreover have "input_ok db (f r) = input_ok db r"
        using same [of r] by (simp add: input_ok_def plans_from_def works_from_def same_run_def)
      ultimately show ?thesis
        using r out [OF r(1) _ p] grows_input_ok [OF g] grows_output_ok [OF g] by (cases "cx_id r = i") auto
    qed
  qed (use p ids in \<open>auto simp: provenance_def\<close>)
  with g show ?thesis unfolding keeps_def by blast
qed

lemma keeps_package:
  assumes add: "add_package w db = Inr db'" and ok: "provenance hs db \<Longrightarrow> package_ok hs db w"
  shows "keeps hs db db'"
proof -
  have db': "db' = db\<lparr>pt_packages := pt_packages db @ [w]\<rparr>"
    using add by (auto simp: add_package_def result_simps split: if_splits dest!: insert_rowD)
  have g: "grows db db'" by (rule growsI) (auto simp: db')
  have "provenance hs db'" if p: "provenance hs db"
    by (rule provenance_grows [OF p g]) (use p grows_package_ok [OF g ok [OF p]] in \<open>auto simp: db' provenance_def\<close>)
  with g show ?thesis unfolding keeps_def by blast
qed

lemma package_ok_status [simp]:
  "package_ok hs db (w\<lparr>wk_status := t, wk_updated_at := now\<rparr>) = package_ok hs db w"
  by (simp add: package_ok_def package_artifact_def package_follows_def)

lemma keeps_update_package: "keeps hs db (update_package i now t db)"
proof -
  let ?db = "update_package i now t db"
  have g: "grows db ?db" by (rule growsI) (auto simp: update_package_def)
  have "provenance hs ?db" if p: "provenance hs db"
  proof (rule provenance_grows [OF p g])
    show "w \<in> set (pt_packages db) \<or> package_ok hs ?db w" if "w \<in> set (pt_packages ?db)" for w
    proof -
      obtain v where v: "v \<in> set (pt_packages db)" "w = v \<or> w = v\<lparr>wk_status := t, wk_updated_at := now\<rparr>"
        using \<open>w \<in> set (pt_packages ?db)\<close> by (auto simp: update_package_def set_alter split: if_splits)
      have "package_ok hs ?db v" using p v(1) grows_package_ok [OF g] unfolding provenance_def by blast
      then show ?thesis using v(2) by auto
    qed
  qed (use p in \<open>auto simp: provenance_def update_package_def\<close>)
  with g show ?thesis unfolding keeps_def by blast
qed

end
