(* ===== verification/Project_Steps.thy ===== *)
theory Project_Steps
  imports Project_Provenance
begin

text \<open>
  Every operation of the delivery of a project keeps the provenance of its rows, and an execution
  begins with objects whose provenance is known.
\<close>

section \<open>Rows that are read\<close>

lemma get_projectD: "get_project i db = Inr project \<Longrightarrow> pq_id project = i \<and> project \<in> set (pt_projects db)"
  by (auto simp: get_project_def split: option.splits dest!: get_row_SomeD)

lemma load_artifactD: "load_artifact i db = Inr a \<Longrightarrow> a \<in> set (pt_artifacts db) \<and> af_id a = i"
  by (auto simp: load_artifact_def split: option.splits dest!: get_row_SomeD)

lemma find_artifactD:
  "find_artifact i p t db = Inr a \<Longrightarrow>
   a \<in> set (pt_artifacts db) \<and> af_id a = i \<and> af_project_id a = p \<and> af_artifact_type a = t"
  by (auto simp: find_artifact_def split: option.splits dest!: find_Some_D)

lemma executable_runD:
  "executable_run m n i db = Inr (run, project) \<Longrightarrow> run \<in> set (pt_runs db) \<and> cx_id run = i \<and>
   cx_status run \<in> {QUEUED, FAILED} \<and> pq_id project = cx_project_id run \<and> project \<in> set (pt_projects db)"
  by (auto simp: executable_run_def result_simps split: option.splits if_splits dest!: get_row_SomeD get_projectD)

lemma required_uuid_text [simp]:
  "map_of d k = Some (JText (uuid_text u)) \<Longrightarrow> required_uuid d k = Inr u"
  by (simp add: required_uuid_def)

lemma required_uuid_absent [simp]: "map_of d k = None \<Longrightarrow> required_uuid d k = Inl (OtherError k)"
  by (simp add: required_uuid_def)

lemma same_artifact:
  "provenance hs db \<Longrightarrow> a \<in> set (pt_artifacts db) \<Longrightarrow> b \<in> set (pt_artifacts db) \<Longrightarrow> af_id a = af_id b \<Longrightarrow> a = b"
  by (rule distinct_key_eq [of af_id "pt_artifacts db"]) (simp_all add: provenance_def)

lemma same_row_of_run:
  "provenance hs db \<Longrightarrow> r \<in> set (pt_runs db) \<Longrightarrow> s \<in> set (pt_runs db) \<Longrightarrow> cx_id r = cx_id s \<Longrightarrow> r = s"
  by (rule distinct_key_eq [of cx_id "pt_runs db"]) (simp_all add: provenance_def)

section \<open>Parts the phases share\<close>

lemma keeps_update_same:
  assumes "\<And>r. same_run r (f r)" and "\<And>r. cx_output_payload (f r) = cx_output_payload r"
  shows "keeps hs db (update_run i f db)"
proof (rule keeps_update_run [OF assms(1)])
  fix r assume "r \<in> set (pt_runs db)" "provenance hs db"
  then have "output_ok db r" unfolding provenance_def by blast
  then show "output_ok db (f r)"
    using assms(1) [of r] unfolding output_ok_def assms(2) by (simp add: works_from_def same_run_def)
qed

lemma keeps_mark_running: "keeps hs db (mark_running now run_id project_id status db)"
  unfolding mark_running_def
  by (rule keeping_trans [OF keeps_update_same keeps_core]) (simp_all add: same_run_def)

lemma keeps_fail_run:
  assumes "fail_run hs ids now status event_type actor run_id exc db = (result, db')"
  shows "keeps hs db db'"
proof -
  have "keeps hs db (note_event hs ids 0 p event_type ''system'' actor payload
      (set_status p status (update_run run_id (\<lambda>r. r\<lparr>cx_status := FAILED, cx_completed_at := Some now,
         cx_error_message := Some (error_text exc)\<rparr>) db)))" for p payload
    by (rule keeping_trans [OF keeps_update_same keeps_core]) (simp_all add: same_run_def)
  then show ?thesis using assms by (auto simp: fail_run_def split: option.splits sum.splits)
qed

lemma keeps_approval_phase:
  assumes "approval_phase hs ids n i now project a t waiting approved db = Inr db'"
  shows "keeps hs db db'"
proof (cases "auto_approval i now project (af_id a) t")
  case None
  with assms show ?thesis by (auto simp: approval_phase_def intro: keeps_core)
next
  case (Some y)
  with assms obtain db1 where y: "add_approval y (set_status (pq_id project) approved db) = Inr db1"
    and e: "append_auto_approval_event hs ids n project a t db1 = Inr db'"
    by (auto simp: approval_phase_def result_simps)
  have "core db' = core db1"
    using e by (auto simp: append_auto_approval_event_def split: option.splits json.splits)
  then show ?thesis
    by (intro keeping_trans [OF keeps_core keeping_trans [OF keeps_approval [OF y] keeps_core]]) simp_all
qed

lemma keeps_enqueue_run:
  assumes "enqueue_run now run status job_id t payload db = Inr db'" and "cx_output_payload run = None"
    and input: "provenance hs db \<Longrightarrow> input_ok db run"
  shows "keeps hs db db'"
proof -
  let ?db = "set_status (cx_project_id run) status db"
  obtain db1 where r: "add_run run ?db = Inr db1" and db': "core db' = core db1"
    using assms(1) by (auto simp: enqueue_run_def result_simps)
  have c: "core ?db = core db" by simp
  have "input_ok ?db run" if "provenance hs ?db"
    using grows_input_ok [OF core_grows [OF c] input [OF core_provenance [OF c [symmetric] that]]] .
  then have "keeps hs ?db db1" by (rule keeps_run [OF r assms(2)])
  then show ?thesis using keeps_core [OF c] keeps_core [OF db'] by (blast intro: keeping_trans)
qed

lemma keeps_decide_artifact:
  assumes "decide_artifact hs ids now w m t (s1, e1) (s2, e2) p i d k c db = Inr (project, db')"
  shows "keeps hs db db'"
proof -
  obtain y db0 db1 where "add_approval y db0 = Inr db1" "core db0 = core db" "core db' = core db1"
    using assms by (auto simp: decide_artifact_def result_simps Let_def split: if_splits prod.splits)
  then show ?thesis using keeps_approval keeps_core by (blast intro: keeping_trans)
qed

section \<open>The operations of persons\<close>

lemma no_plan: "map_of (cx_input_payload run) ''architecture_artifact_id'' = None \<Longrightarrow> input_ok db run"
  by (simp add: input_ok_def)

lemma keeps_create_project:
  assumes "create_project hs ids now n d path url b k m t prep db = Inr (project, db')"
  shows "keeps hs db db'"
proof -
  obtain a db0 db1 where a: "add_artifact a db0 = Inr db1" "core db0 = core db" "core db' = core db1"
    "af_run_id a = None" "af_content_hash a = hash_text hs (af_content a)"
    using assms by (auto simp: create_project_def result_simps Let_def hash_json_def hash_text_def core_def
      split: sum.splits)
  then have "keeps hs db0 db1" by (intro keeps_artifact) (auto simp: artifact_ok_def)
  then show ?thesis using a keeps_core by (blast intro: keeping_trans)
qed

lemma keeps_queue_requirements_run:
  assumes "queue_requirements_run hs ids now p k db = Inr (run, db')"
  shows "keeps hs db db'"
proof -
  obtain run' s j t x db1 where "enqueue_run now run' s j t x db = Inr db1" "core db' = core db1"
    "cx_output_payload run' = None" "map_of (cx_input_payload run') ''architecture_artifact_id'' = None"
    using assms by (auto simp: queue_requirements_run_def result_simps Let_def new_run_def split: if_splits)
  then show ?thesis using keeps_enqueue_run no_plan keeps_core by (blast intro: keeping_trans)
qed

lemma keeps_add_request: "add_request r db = Inr db' \<Longrightarrow> keeps hs db db'"
  by (rule keeps_core) (auto simp: add_request_def result_simps core_def split: if_splits)

lemma keeps_add_cycle: "add_cycle c db = Inr db' \<Longrightarrow> keeps hs db db'"
  by (rule keeps_core) (auto simp: add_cycle_def result_simps core_def split: if_splits)

lemma keeps_revision_rows:
  assumes "bind_result (add_approval y db) (\<lambda>db1. bind_result (add_request r db1) (\<lambda>db2.
      bind_result (add_cycle c db2) (\<lambda>db3. bind_result (add_run run db3) (\<lambda>db4. Inr (c, g db4))))) =
      Inr (cycle, db')"
    and "\<And>db. core (g db) = core db" and "cx_output_payload run = None"
    and "map_of (cx_input_payload run) ''architecture_artifact_id'' = None"
  shows "keeps hs db db'"
proof -
  obtain db1 db2 db3 db4 where "add_approval y db = Inr db1" "add_request r db1 = Inr db2"
    "add_cycle c db2 = Inr db3" and run: "add_run run db3 = Inr db4" and db': "core db' = core db4"
    using assms(1,2) by (auto simp: result_simps)
  then have "keeps hs db db3" using keeps_approval keeps_add_request keeps_add_cycle by (blast intro: keeping_trans)
  moreover have "keeps hs db3 db4" by (rule keeps_run [OF run assms(3) no_plan [OF assms(4)]])
  ultimately show ?thesis using keeps_core [OF db'] by (blast intro: keeping_trans)
qed

lemma keeps_request_changes:
  assumes "request_changes hs ids now p i x k d db = Inr (cycle, db')"
  shows "keeps hs db db'"
proof -
  obtain project a where a: "get_project p db = Inr project" "find_artifact x p REQUIREMENTS_SPECIFICATION db = Inr a"
    using assms unfolding request_changes_def by (auto split: sum.splits)
  then obtain feedback where f: "create_feedback hs (af_id a) (af_content_hash a) d = Inr feedback"
    using assms unfolding request_changes_def by (auto simp: result_simps split: if_splits)
  have "keeps hs (set_status p REQUIREMENTS_QUEUED db) db'"
    by (rule keeps_revision_rows)
      (use assms a f in \<open>simp add: request_changes_def Let_def split: if_splits\<close>,
       simp_all add: new_run_def revision_payload_def)
  then show ?thesis by (rule keeping_trans [OF keeps_core, rotated]) simp
qed

lemma keeps_queue_architecture_run:
  assumes "queue_architecture_run hs ids now p k db = Inr (run, db')"
  shows "keeps hs db db'"
proof -
  obtain project where project: "get_project p db = Inr project"
    using assms by (auto simp: queue_architecture_run_def result_simps)
  then obtain r where r: "latest_artifact (pq_id project) REQUIREMENTS_SPECIFICATION db = Some r"
    using assms by (auto simp: queue_architecture_run_def split: if_splits option.splits)
  then obtain context' where c: "architecture_revision_context project db = Inr context'"
    using assms project by (auto simp: queue_architecture_run_def result_simps split: if_splits)
  have no: "map_of (text_entries context') ''architecture_artifact_id'' = None"
    using c by (auto simp: architecture_revision_context_def text_entries_def split: if_splits option.splits)
  obtain db1 where q: "enqueue_run now run ARCHITECTURE_QUEUED (ids 1) ''run_architecture_crew''
      (map_of ([(''project_id'', uuid_text (pq_id project)), (''run_id'', uuid_text (ids 0)),
         (''requirements_artifact_id'', uuid_text (af_id r)),
         (''requirements_artifact_hash'', af_content_hash r)] @ context')) db = Inr db1"
    and run: "run = new_run (ids 0) now (pq_id project) ''architecture_crew''
      (text_entries ([(''requirements_artifact_id'', uuid_text (af_id r)),
         (''requirements_artifact_hash'', af_content_hash r)] @ context'))" and db': "core db' = core db1"
    using assms project r c
    by (auto simp: queue_architecture_run_def result_simps Let_def split: if_splits)
  have "map_of (cx_input_payload run) ''architecture_artifact_id'' = None"
    using no by (simp add: run new_run_def text_entries_def)
  then have "keeps hs db db1" by (intro keeps_enqueue_run [OF q] no_plan) (simp add: run new_run_def)
  then show ?thesis using keeps_core [OF db'] by (rule keeping_trans)
qed

section \<open>Planning\<close>

lemma product_pair: "p \<in> set (List.product xs ys) \<Longrightarrow> fst p \<in> set xs \<and> snd p \<in> set ys"
  by (cases p) auto

lemma get_latest_approved_artifactD:
  assumes "get_latest_approved_artifact p t db = Inr a"
  shows "a \<in> set (pt_artifacts db) \<and> af_project_id a = p \<and> af_artifact_type a = t \<and> approved_by db (af_id a)"
proof -
  obtain y where "first_by (\<lambda>(a, y). - ay_created_at y) (filter (\<lambda>(a, y). ay_artifact_id y = af_id a \<and>
      af_project_id a = p \<and> af_artifact_type a = t \<and> ay_decision y = ''approved'')
      (List.product (pt_artifacts db) (pt_approvals db))) = Some (a, y)"
    using assms by (auto simp: get_latest_approved_artifact_def split: option.splits)
  from first_by_Some [OF this] show ?thesis by (auto simp: approved_by_def)
qed

text \<open>The latest approved architecture was drawn up from the requirements that are loaded.\<close>

lemma planning_sources_derived:
  assumes p: "provenance hs db" and s: "planning_sources hs project db = Inr (r, a)"
  shows "derived db (pq_id project) r a"
proof -
  let ?a = "get_latest_approved_artifact (pq_id project) ARCHITECTURE_SPECIFICATION db"
  obtain b where b: "?a = Inr b" using s by (auto simp: planning_sources_def result_simps)
  then obtain i where i: "af_run_id b = Some i" using s by (cases "af_run_id b") (simp_all add: planning_sources_def)
  then obtain run where run: "get_row cx_id i (pt_runs db) = Some run"
    using b s by (cases "get_row cx_id i (pt_runs db)") (simp_all add: planning_sources_def)
  then obtain out where o1: "cx_output_payload run = Some out"
    using b i s by (cases "cx_output_payload run") (simp_all add: planning_sources_def)
  then obtain k where o2: "required_uuid out ''source_requirements_artifact_id'' = Inr k"
    and r: "load_artifact k db = Inr r" and "b = a"
    using b i run s by (auto simp: planning_sources_def result_simps split: if_splits)
  then have a: "?a = Inr a" and i: "af_run_id a = Some i" using b i by simp_all
  note out = o1 o2
  note a = get_latest_approved_artifactD [OF a] and run = get_row_SomeD [OF run] and r = load_artifactD [OF r]
  have "artifact_ok hs db a" "output_ok db run" using p a run unfolding provenance_def by blast+
  then obtain run' r' where run': "run' \<in> set (pt_runs db)" "cx_id run' = i" "cx_project_id run' = af_project_id a"
    and r': "af_id r' = k" "approved_requirements db (cx_project_id run) r'" "works_from run r'"
    using i out unfolding artifact_ok_def output_ok_def by blast
  have "run' = run" using same_row_of_run [OF p run'(1)] run run'(2) by simp
  moreover have "r' = r"
    using same_artifact [OF p, of r' r] r r'(1,2) unfolding approved_requirements_def by simp
  ultimately show ?thesis
    using a run run' r' i unfolding derived_def by auto
qed

lemma source_entries_uuid [simp]:
  "required_uuid (source_entries r a @ d) ''requirements_artifact_id'' = Inr (af_id r)"
  "required_uuid (source_entries r a @ d) ''architecture_artifact_id'' = Inr (af_id a)"
  "map_of (source_entries r a @ d) ''requirements_artifact_hash'' = Some (JText (af_content_hash r))"
  "map_of (source_entries r a @ d) ''architecture_artifact_hash'' = Some (JText (af_content_hash a))"
  by (simp_all add: source_entries_def uuid_json_def)

lemma keeps_queue_work_package_planning:
  assumes "queue_work_package_planning hs ids now p k db = Inr (run, db')"
  shows "keeps hs db db'"
proof -
  obtain project r a d db1 where project: "get_project p db = Inr project"
    and s: "planning_sources hs project db = Inr (r, a)"
    and run: "run = new_run (ids 0) now (pq_id project) ''work_package_planner_crew'' (source_entries r a @ d)"
    and q: "enqueue_run now run WORK_PACKAGE_QUEUED (ids 1) ''plan_work_package''
      [''project_id'' \<mapsto> uuid_text (pq_id project), ''run_id'' \<mapsto> uuid_text (ids 0)] db = Inr db1"
    and db': "core db' = core db1"
    using assms by (auto simp: queue_work_package_planning_def result_simps Let_def split: if_splits)
  have "plans_from run r a" "cx_project_id run = pq_id project"
    "required_uuid (cx_input_payload run) ''architecture_artifact_id'' = Inr (af_id a)"
    by (simp_all add: plans_from_def works_from_def run new_run_def del: map_of_append)
  then have "input_ok db run" if "provenance hs db"
    using planning_sources_derived [OF that s] by (auto simp: input_ok_def)
  then have "keeps hs db db1" by (intro keeps_enqueue_run [OF q]) (simp_all add: run new_run_def)
  then show ?thesis using keeps_core [OF db'] by (rule keeping_trans)
qed

lemma keeps_approve_work_package:
  assumes "approve_work_package hs ids now p i d k c db = Inr (package, db')"
  shows "keeps hs db db'"
proof -
  obtain project w artifact_id a where 1: "get_project p db = Inr project" "get_row wk_id i (pt_packages db) = Some w"
    "wk_artifact_id w = Some artifact_id" "load_artifact artifact_id db = Inr a"
    using assms by (auto simp: approve_work_package_def result_simps split: if_splits option.splits)
  obtain y t s db2 where "add_approval y (update_package i now t (set_status (pq_id project) s db)) = Inr db2"
    "core db' = core db2"
    using assms 1 by (auto simp: approve_work_package_def result_simps Let_def split: if_splits)
  then show ?thesis
    by (intro keeping_trans [OF keeps_core [of "set_status (pq_id project) s db"]
        keeping_trans [OF keeps_update_package keeping_trans [OF keeps_approval keeps_core]]]) auto
qed

section \<open>Executions\<close>

lemma executable_known: "executable_run m n i db = Inr (run, project) \<Longrightarrow> known_run db run project"
  using executable_runD same_run_refl unfolding known_run_def by blast

lemma begin_requirements_run_keeps:
  assumes "begin_requirements_run hs ids now i db = (Inr (run, project), db')"
  shows "keeps hs db db' \<and> known_run db run project"
proof -
  have "executable_run (''Run '' @ uuid_text i @ '' does not exist'') ''Requirements run cannot execute from '' i db
      = Inr (run, project)"
    and db': "core db' = core (mark_running now i (pq_id project) ProjectStatus.REQUIREMENTS_RUNNING db)"
    using assms by (auto simp: begin_requirements_run_def split: sum.splits)
  then show ?thesis
    using executable_known by (auto intro: keeping_trans [OF keeps_mark_running keeps_core [OF db']])
qed

lemma architecture_sourceD:
  assumes p: "provenance hs db" and s: "architecture_source run project db hs = Inr r"
  shows "approved_requirements db (pq_id project) r \<and> works_from run r"
proof -
  obtain i v y where i: "required_uuid (cx_input_payload run) ''requirements_artifact_id'' = Inr i"
    and r: "find_artifact i (pq_id project) REQUIREMENTS_SPECIFICATION db = Inr r"
    and v: "required_value (cx_input_payload run) ''requirements_artifact_hash'' = Inr v"
      "JText (hash_text hs (af_content r)) = v"
    and y: "approvals_of (pq_id project) (af_id r) db = [y]"
    using s by (auto simp: architecture_source_def result_simps split: if_splits list.splits)
  have "y \<in> set (approvals_of (pq_id project) (af_id r) db)" using y by simp
  then have "approved_by db (af_id r)" by (auto simp: approved_by_def approvals_of_def)
  moreover have "af_content_hash r = hash_text hs (af_content r)"
    using p find_artifactD [OF r] unfolding provenance_def artifact_ok_def by blast
  ultimately show ?thesis
    using find_artifactD [OF r] i v
    by (auto simp: approved_requirements_def works_from_def required_value_def split: option.splits)
qed

lemma begin_architecture_run_keeps:
  assumes "begin_architecture_run hs ids now i db = (Inr (run, project, r), db')"
  shows "keeps hs db db' \<and> known_run db run project \<and>
    (provenance hs db \<longrightarrow> approved_requirements db (pq_id project) r \<and> works_from run r)"
proof -
  obtain m n where "executable_run m n i db = Inr (run, project)"
    and s: "architecture_source run project db hs = Inr r"
    and db': "core db' = core (mark_running now i (pq_id project) ProjectStatus.ARCHITECTURE_RUNNING db)"
    using assms by (auto simp: begin_architecture_run_def fail_run_def split: sum.splits option.splits)
  then show ?thesis
    using executable_known architecture_sourceD [OF _ s]
    by (auto intro: keeping_trans [OF keeps_mark_running keeps_core [OF db']])
qed

lemma begin_architecture_run_refused:
  "begin_architecture_run hs ids now i db = (Inl e, db') \<Longrightarrow> keeps hs db db'"
  by (auto simp: begin_architecture_run_def split: sum.splits dest: keeps_fail_run)

lemma planning_inputsD:
  assumes p: "provenance hs db" and known: "run \<in> set (pt_runs db)"
    and s: "planning_inputs hs run inspection db = Inr (r, a, repository)"
  shows "derived db (cx_project_id run) r a"
proof -
  obtain i j where i: "required_uuid (cx_input_payload run) ''requirements_artifact_id'' = Inr i"
    and j: "required_uuid (cx_input_payload run) ''architecture_artifact_id'' = Inr j"
    and r: "load_artifact i db = Inr r" and a: "load_artifact j db = Inr a"
    using s by (auto simp: planning_inputs_def result_simps split: if_splits sum.splits)
  have "input_ok db run" using p known unfolding provenance_def by blast
  then obtain r' a' where 1: "af_id a' = j" "plans_from run r' a'" "derived db (cx_project_id run) r' a'"
    using j unfolding input_ok_def by blast
  then have "af_id r' = i" using i by (simp add: plans_from_def works_from_def)
  then have "r' = r" "a' = a"
    using 1 load_artifactD [OF r] load_artifactD [OF a] same_artifact [OF p, of r' r] same_artifact [OF p, of a' a]
    unfolding derived_def approved_requirements_def by simp_all
  with 1 show ?thesis by simp
qed

lemma begin_work_package_planning_keeps:
  assumes "begin_work_package_planning hs ids now i inspection db = (Inr (run, project, r, a, repository), db')"
  shows "keeps hs db db' \<and> known_run db run project \<and> (provenance hs db \<longrightarrow> derived db (pq_id project) r a)"
proof -
  obtain m n where e: "executable_run m n i db = Inr (run, project)"
    and s: "planning_inputs hs run inspection db = Inr (r, a, repository)"
    and db': "core db' = core (mark_running now i (pq_id project) ProjectStatus.WORK_PACKAGE_PLANNING db)"
    using assms by (auto simp: begin_work_package_planning_def fail_run_def split: sum.splits option.splits)
  then show ?thesis
    using executable_known [OF e] executable_runD [OF e] planning_inputsD [OF _ _ s]
    by (auto intro: keeping_trans [OF keeps_mark_running keeps_core [OF db']])
qed

lemma begin_work_package_planning_refused:
  "begin_work_package_planning hs ids now i inspection db = (Inl e, db') \<Longrightarrow> keeps hs db db'"
  by (auto simp: begin_work_package_planning_def split: sum.splits dest: keeps_fail_run)

lemma keeps_mark_succeeded:
  assumes "known_run db run project"
    and out: "required_uuid out ''source_requirements_artifact_id'' = Inl e \<or>
      (\<exists>r. required_uuid out ''source_requirements_artifact_id'' = Inr (af_id r) \<and>
        approved_requirements db (pq_id project) r \<and> works_from run r)"
  shows "keeps hs db (mark_succeeded now (cx_id run) out db)"
  unfolding mark_succeeded_def
proof (rule keeps_update_run)
  fix row assume row: "row \<in> set (pt_runs db)" "cx_id row = cx_id run" "provenance hs db"
  obtain run' where run': "run' \<in> set (pt_runs db)" "same_run run run'" "pq_id project = cx_project_id run"
    using assms(1) unfolding known_run_def by blast
  then have "run' = row" using same_row_of_run [OF row(3) run'(1) row(1)] row(2) by (simp add: same_run_def)
  then show "output_ok db (row\<lparr>cx_status := SUCCEEDED, cx_completed_at := Some now, cx_output_payload := Some out\<rparr>)"
    using out run' by (auto simp: output_ok_def works_from_def same_run_def)
qed (simp add: same_run_def)

lemma artifact_of_run:
  assumes "known_run db run project" and "af_content_hash a = hash_text hs (af_content a)"
    and "af_run_id a = Some (cx_id run)" and "af_project_id a = pq_id project"
  shows "artifact_ok hs db a"
proof -
  obtain run' where "run' \<in> set (pt_runs db)" "same_run run run'" "pq_id project = cx_project_id run"
    using assms(1) unfolding known_run_def by blast
  then show ?thesis using assms(2-) unfolding artifact_ok_def same_run_def by force
qed

lemma keeps_add_lineage: "add_lineage row db = Inr db' \<Longrightarrow> core db' = core db"
  by (auto simp: add_lineage_def result_simps core_def split: if_splits)

lemma keeps_complete_cycle:
  assumes s: "complete_cycle i now r a b db = Inr db'"
  shows "keeps hs db db'"
proof (cases "get_row cx_id r (pt_runs db)")
  case None
  then show ?thesis using s by (simp add: complete_cycle_def)
next
  case run: (Some run)
  then obtain c where c: "optional_uuid (cx_input_payload run) ''revision_cycle_id'' = Inr c"
    using s by (auto simp: complete_cycle_def result_simps)
  show ?thesis
  proof (cases c)
    case None
    then show ?thesis using s run c by (simp add: complete_cycle_def)
  next
    case (Some k)
    then obtain cycle queued where k: "find_cycle k db = Some (cycle, queued)"
      using s run c by (cases "find_cycle k db") (auto simp: complete_cycle_def)
    then obtain request where "get_row rv_id (cy_revision_request_id cycle) (pt_requests db) = Some request"
      using s run c Some by (cases "get_row rv_id (cy_revision_request_id cycle) (pt_requests db)")
        (simp_all add: complete_cycle_def)
    then show ?thesis
      using s run c Some k
      by (auto simp: complete_cycle_def Let_def core_def split: if_splits intro!: keeps_core dest!: keeps_add_lineage)
  qed
qed

lemma keeps_record_initial_artifact: "record_initial_artifact i a db = Inr db' \<Longrightarrow> keeps hs db db'"
  by (rule keeps_core) (auto simp: record_initial_artifact_def add_lineage_def result_simps core_def split: if_splits)

text \<open>The end every phase has: the run is done, two events are noted, and the approval is asked for.\<close>

lemma keeps_end_of_phase:
  assumes "approval_phase hs ids n i now project a t w s (note_event hs ids n1 p1 t1 k1 i1 x1
      (note_event hs ids n2 p2 t2 k2 i2 x2 db)) = Inr db'"
  shows "keeps hs db db'"
  by (rule keeping_trans [OF keeps_core keeps_approval_phase [OF assms]]) simp

lemma keeps_store_requirements:
  assumes known: "known_run db run project"
    and s: "store_requirements hs ids now run project answer db = Inr db'"
  shows "keeps hs db db'"
proof -
  obtain document where document: "answer = Inr document"
    using s by (cases answer) (auto simp: store_requirements_def result_simps)
  let ?a = "markdown_artifact hs (ids 0) now run project REQUIREMENTS_SPECIFICATION (cd_markdown document)"
  let ?out = "[(''artifact_type'', JText REQUIREMENTS_SPECIFICATION), (''content_hash'', JText (af_content_hash ?a))]"
  obtain c db1 db2 where 1: "add_artifact ?a db = Inr db1"
    and 2: "(if c then complete_cycle (ids 1) now (cx_id run) (af_id ?a) False db1
      else record_initial_artifact (ids 1) (af_id ?a) db1) = Inr db2"
    and 3: "keeps hs (mark_succeeded now (cx_id run) ?out db2) db'"
    using s unfolding document store_requirements_def Let_def
    by (auto simp only: bind_result_Inr_iff sum.case intro: keeps_end_of_phase)
  have k1: "keeps hs db db1"
    by (rule keeps_artifact [OF 1 artifact_of_run [OF known]]) (simp_all add: markdown_artifact_def)
  have k2: "keeps hs db1 db2"
    using 2 keeps_complete_cycle keeps_record_initial_artifact by (cases c) auto
  have "known_run db2 run project" using grows_known_run known k1 k2 unfolding keeps_def by blast
  then have "keeps hs db2 (mark_succeeded now (cx_id run) ?out db2)"
    by (rule keeps_mark_succeeded [where e = "OtherError ''source_requirements_artifact_id''"]) simp
  then show ?thesis using k1 k2 3 by (blast intro: keeping_trans)
qed

lemma keeps_store_architecture:
  assumes known: "known_run db run project"
    and r: "approved_requirements db (pq_id project) r" "works_from run r"
    and s: "store_architecture hs ids now run project r answer db = Inr db'"
  shows "keeps hs db db'"
proof -
  obtain document where document: "answer = Inr document"
    using s by (cases answer) (auto simp: store_architecture_def)
  let ?a = "markdown_artifact hs (ids 0) now run project ARCHITECTURE_SPECIFICATION (cd_markdown document)"
  let ?out = "[(''artifact_id'', uuid_json (af_id ?a)), (''artifact_type'', JText ARCHITECTURE_SPECIFICATION),
    (''content_hash'', JText (af_content_hash ?a)), (''source_requirements_artifact_id'', uuid_json (af_id r)),
    (''source_requirements_hash'', JText (af_content_hash r))]"
  obtain db2 where 1: "add_artifact ?a (mark_succeeded now (cx_id run) ?out db) = Inr db2"
    and 2: "keeps hs db2 db'"
    using s unfolding document store_architecture_def Let_def
    by (auto simp only: bind_result_Inr_iff sum.case intro: keeps_end_of_phase)
  have k: "keeps hs db (mark_succeeded now (cx_id run) ?out db)"
    by (rule keeps_mark_succeeded [OF known]) (use r in \<open>auto simp: uuid_json_def\<close>)
  then have "known_run (mark_succeeded now (cx_id run) ?out db) run project"
    using grows_known_run known unfolding keeps_def by blast
  then have "keeps hs (mark_succeeded now (cx_id run) ?out db) db2"
    by (intro keeps_artifact [OF 1] artifact_of_run) (simp_all add: markdown_artifact_def)
  with k 2 show ?thesis by (blast intro: keeping_trans)
qed

lemma contract_result_Inr [simp]: "contract_result x = Inr y \<longleftrightarrow> x = Inr y"
  by (auto simp: contract_result_def split: sum.splits)

lemma accepted_contractD:
  assumes "accepted_contract project r a repository parsed = Inr c"
  shows "wc_project_id c = uuid_text (pq_id project)" "wc_base_commit_sha c = rx_commit_sha repository"
    "wc_source_requirements_artifact_id c = uuid_text (af_id r)" "wc_source_requirements_hash c = af_content_hash r"
    "wc_source_architecture_artifact_id c = uuid_text (af_id a)" "wc_source_architecture_hash c = af_content_hash a"
    "\<exists>raw. model_validate raw = Inr c" "validate_repository_boundaries c (rx_tracked_files repository) = Inr ()"
  using assms by (auto simp: accepted_contract_def result_simps split: if_splits)

lemma package_follows_planned:
  assumes "accepted_contract project r a repository parsed = Inr c"
  shows "package_follows hs (planned_package hs ids now run project r a c t) r a c"
  using accepted_contractD [OF assms] unfolding package_follows_def planned_package_def by auto

lemma keeps_store_work_package:
  assumes known: "known_run db run project" and d: "derived db (pq_id project) r a"
    and s: "store_work_package hs ids now run project r a repository answer db = Inr db'"
  shows "keeps hs db db'"
proof -
  obtain parsed where parsed: "answer = Inr parsed"
    using s by (cases answer) (auto simp: store_work_package_def)
  obtain c where c: "accepted_contract project r a repository parsed = Inr c"
    using s by (auto simp: parsed store_work_package_def result_simps)
  let ?data = "contract_json c"
  let ?x = "\<lparr>af_id = ids 1, af_project_id = pq_id project, af_run_id = Some (cx_id run),
    af_artifact_type = WORK_PACKAGE, af_media_type = ''application/json'',
    af_content = hs_canonical_json hs ?data, af_content_hash = hash_json hs ?data, af_created_at = now\<rparr>"
  let ?w = "planned_package hs ids now run project r a c
    (if auto_approves project ''work_package.auto_approved'' then APPROVED else AWAITING_APPROVAL)"
  let ?out = "[(''work_package_id'', uuid_json (ids 0)), (''artifact_id'', uuid_json (ids 1)),
    (''contract_hash'', JText (hash_json hs ?data))] @ [(''base_commit_sha'', JText (wc_base_commit_sha c))]"
  let ?db1 = "mark_succeeded now (cx_id run) ?out db"
  obtain db2 db3 where 1: "add_artifact ?x ?db1 = Inr db2" and 2: "add_package ?w db2 = Inr db3"
    and 3: "keeps hs db3 db'"
    using s c unfolding parsed store_work_package_def Let_def
    by (auto simp only: bind_result.simps bind_result_Inr_iff sum.case intro: keeps_end_of_phase)
  have k1: "keeps hs db ?db1"
    by (rule keeps_mark_succeeded [OF known, where e = "OtherError ''source_requirements_artifact_id''"]) simp
  then have "known_run ?db1 run project" using grows_known_run known unfolding keeps_def by blast
  then have k2: "keeps hs ?db1 db2"
    by (intro keeps_artifact [OF 1] artifact_of_run) (simp_all add: hash_json_def hash_text_def)
  have "derived db2 (pq_id project) r a" using d k1 k2 grows_derived unfolding keeps_def by blast
  moreover have "?x \<in> set (pt_artifacts db2)" using 1 by (auto simp: add_artifact_def result_simps dest!: insert_rowD)
  then have "package_artifact hs db2 ?w"
    unfolding package_artifact_def by (intro bexI [of _ ?x]) (simp_all add: planned_package_def)
  moreover have "wk_project_id ?w = pq_id project" by (simp add: planned_package_def)
  ultimately have "package_ok hs db2 ?w"
    using package_follows_planned [OF c] unfolding package_ok_def by metis
  then have "keeps hs db2 db3" by (intro keeps_package [OF 2])
  with k1 k2 3 show ?thesis by (blast intro: keeping_trans)
qed

lemma finish_keeps:
  assumes "execution_ok db e"
  shows "e = RequirementsExecution run project \<Longrightarrow>
      finish_requirements_run hs ids now run project answer db = (result, db') \<Longrightarrow> keeps hs db db'"
    and "e = ArchitectureExecution run project r \<Longrightarrow>
      finish_architecture_run hs ids now run project r answer db = (result, db') \<Longrightarrow> keeps hs db db'"
    and "e = PlanningExecution run project r a repository \<Longrightarrow>
      finish_work_package_planning hs ids now run project r a repository contract db = (result, db') \<Longrightarrow>
      keeps hs db db'"
  using assms
  by (auto simp: finish_requirements_run_def finish_architecture_run_def finish_work_package_planning_def
      split: sum.splits dest: keeps_fail_run keeps_store_requirements keeps_store_architecture
        keeps_store_work_package)

section \<open>Every reachable state\<close>

lemma person_step_keeps: "person_step hs db db' \<Longrightarrow> keeps hs db db'"
  by (erule person_step.cases)
    (auto simp: approve_requirements_def approve_architecture_def
      dest: keeps_create_project keeps_queue_requirements_run keeps_decide_artifact keeps_request_changes
        keeps_queue_architecture_run keeps_queue_work_package_planning keeps_approve_work_package)

definition system_ok :: "hashing \<Rightarrow> project_system \<Rightarrow> bool" where
  "system_ok hs s \<longleftrightarrow> provenance hs (ps_db s) \<and> (\<forall>e\<in>set (ps_running s). execution_ok (ps_db s) e)"

lemma system_okI:
  assumes "system_ok hs s" and "keeps hs (ps_db s) (ps_db s')"
    and "\<And>e. e \<in> set (ps_running s') \<Longrightarrow> e \<in> set (ps_running s) \<or> execution_ok (ps_db s) e"
  shows "system_ok hs s'"
  using assms grows_execution_ok unfolding system_ok_def keeps_def by blast

lemma project_step_ok:
  assumes ok: "system_ok hs s" and step: "project_step hs s s'"
  shows "system_ok hs s'"
proof -
  have p: "provenance hs (ps_db s)" using ok unfolding system_ok_def by blast
  have run: "execution_ok (ps_db s) e" if "e \<in> set (ps_running s)" for e
    using ok that unfolding system_ok_def by blast
  from step show ?thesis
  proof cases
    case (person db')
    then show ?thesis using person_step_keeps by (intro system_okI [OF ok]) auto
  next
    case (begin_requirements i ids now run project db')
    then show ?thesis using begin_requirements_run_keeps by (intro system_okI [OF ok]) auto
  next
    case (begin_architecture i ids now run project a db')
    note k = begin_architecture_run_keeps [OF begin_architecture(3)]
    then show ?thesis using begin_architecture(1) p by (intro system_okI [OF ok]) auto
  next
    case (refuse_architecture i ids now e db')
    then show ?thesis using begin_architecture_run_refused by (intro system_okI [OF ok]) auto
  next
    case (begin_planning i ids now inspection run project r a repository db')
    note k = begin_work_package_planning_keeps [OF begin_planning(3)]
    then show ?thesis using begin_planning(1) p by (intro system_okI [OF ok]) auto
  next
    case (refuse_planning i ids now inspection e db')
    then show ?thesis using begin_work_package_planning_refused by (intro system_okI [OF ok]) auto
  next
    case (finish_requirements run project ids now answer result db')
    then show ?thesis
      using finish_keeps(1) [OF run] by (intro system_okI [OF ok]) (auto dest: set_remove1_subset [THEN subsetD])
  next
    case (finish_architecture run project a ids now answer result db')
    then show ?thesis
      using finish_keeps(2) [OF run] by (intro system_okI [OF ok]) (auto dest: set_remove1_subset [THEN subsetD])
  next
    case (finish_planning run project r a repository ids now contract result db')
    then show ?thesis
      using finish_keeps(3) [OF run] by (intro system_okI [OF ok]) (auto dest: set_remove1_subset [THEN subsetD])
  next
    case (crash e)
    then show ?thesis by (intro system_okI [OF ok]) (auto dest: set_remove1_subset [THEN subsetD])
  next
    case (queue q)
    then show ?thesis by (intro system_okI [OF ok]) (auto intro: keeps_core)
  qed
qed

lemma reachable_ok: "project_reachable hs s \<Longrightarrow> system_ok hs s"
proof (induction rule: project_reachable.induct)
  case (start q)
  then show ?case by (simp add: system_ok_def provenance_def no_projects_def)
qed (rule project_step_ok)

end
