(* ===== verification/Project_Authority.thy ===== *)
theory Project_Authority
  imports Project_Steps
begin

text \<open>
  No phase without its approvals, no approval without an authority. \<open>lawful\<close> is kept by every step:
  the status of a project is justified by approved artifacts, every approval has its event in the
  audit trail, made by the person who decided or by the policy the manifest of the project enables,
  and an approved work package has an approval of its artifact.
\<close>

section \<open>The invariant\<close>

definition requirements_phase :: "ProjectStatus set" where
  "requirements_phase = {CREATED, REQUIREMENTS_QUEUED, ProjectStatus.REQUIREMENTS_RUNNING, REQUIREMENTS_FAILED,
     AWAITING_REQUIREMENTS_APPROVAL, REQUIREMENTS_REJECTED}"

definition architecture_phase :: "ProjectStatus set" where
  "architecture_phase = {REQUIREMENTS_APPROVED, ARCHITECTURE_QUEUED, ProjectStatus.ARCHITECTURE_RUNNING,
     ARCHITECTURE_FAILED, AWAITING_ARCHITECTURE_APPROVAL, ARCHITECTURE_REJECTED}"

definition has_requirements :: "project_db \<Rightarrow> uuid \<Rightarrow> bool" where
  "has_requirements db i \<longleftrightarrow> (\<exists>r. approved_requirements db i r)"

definition has_architecture :: "project_db \<Rightarrow> uuid \<Rightarrow> bool" where
  "has_architecture db i \<longleftrightarrow> (\<exists>a\<in>set (pt_artifacts db). af_project_id a = i \<and>
     af_artifact_type a = ARCHITECTURE_SPECIFICATION \<and> approved_by db (af_id a))"

definition has_package :: "project_db \<Rightarrow> uuid \<Rightarrow> bool" where
  "has_package db i \<longleftrightarrow> (\<exists>w\<in>set (pt_packages db). wk_project_id w = i \<and>
     (\<exists>x. wk_artifact_id w = Some x \<and> approved_by db x))"

definition justified :: "project_db \<Rightarrow> uuid \<Rightarrow> ProjectStatus \<Rightarrow> bool" where
  "justified db i s \<longleftrightarrow> (s \<notin> requirements_phase \<longrightarrow> has_requirements db i) \<and>
     (s \<notin> requirements_phase \<union> architecture_phase \<longrightarrow> has_architecture db i) \<and>
     (s = WORK_PACKAGE_APPROVED \<longrightarrow> has_package db i)"

definition backs :: "project_db \<Rightarrow> ApprovalModel \<Rightarrow> AuditEventModel \<Rightarrow> bool" where
  "backs db y e \<longleftrightarrow> e \<in> set (au_events (pt_audit db)) \<and> ae_project_id e = Some (ay_project_id y) \<and>
     map_of (ae_payload e) ''artifact_id'' = Some (uuid_json (ay_artifact_id y)) \<and>
     (ae_actor_type e = ''human'' \<and> ae_actor_id e = ay_reviewer y \<and>
        ae_event_type e \<in> {''requirements.approved'', ''architecture.approved'', ''work_package.approved''} \<or>
      ae_actor_type e = ''system'' \<and> ae_actor_id e = ''manifest-autonomy-policy'' \<and>
        (\<exists>p\<in>set (pt_projects db). pq_id p = ay_project_id y \<and> auto_approves p (ae_event_type e)))"

definition crew_justified :: "project_db \<Rightarrow> CrewRunModel \<Rightarrow> bool" where
  "crew_justified db run \<longleftrightarrow>
     (cx_crew_name run = ''architecture_crew'' \<longrightarrow> justified db (cx_project_id run) ARCHITECTURE_QUEUED) \<and>
     (cx_crew_name run = ''work_package_planner_crew'' \<longrightarrow> justified db (cx_project_id run) WORK_PACKAGE_QUEUED)"

definition package_lawful :: "project_db \<Rightarrow> WorkPackageModel \<Rightarrow> bool" where
  "package_lawful db w \<longleftrightarrow> (wk_status w = APPROVED \<longrightarrow> (\<exists>x. wk_artifact_id w = Some x \<and> approved_by db x))"

definition approval_lawful :: "project_db \<Rightarrow> ApprovalModel \<Rightarrow> bool" where
  "approval_lawful db y \<longleftrightarrow> (ay_decision y = ''approved'' \<longrightarrow> (\<exists>e. backs db y e))"

definition lawful :: "project_db \<Rightarrow> bool" where
  "lawful db \<longleftrightarrow> (\<forall>p\<in>set (pt_projects db). justified db (pq_id p) (pq_status p)) \<and>
     (\<forall>run\<in>set (pt_runs db). crew_justified db run) \<and>
     (\<forall>w\<in>set (pt_packages db). package_lawful db w) \<and> distinct (map wk_id (pt_packages db)) \<and>
     (\<forall>y\<in>set (pt_approvals db). approval_lawful db y)"

section \<open>Growing tables\<close>

definition extends :: "project_db \<Rightarrow> project_db \<Rightarrow> bool" where
  "extends db db' \<longleftrightarrow> grows db db' \<and>
     set (au_events (pt_audit db)) \<subseteq> set (au_events (pt_audit db')) \<and>
     (\<forall>p\<in>set (pt_projects db). \<exists>p'\<in>set (pt_projects db'). pq_id p' = pq_id p \<and> pq_manifest p' = pq_manifest p) \<and>
     (\<forall>w\<in>set (pt_packages db). \<exists>w'\<in>set (pt_packages db'). wk_project_id w' = wk_project_id w \<and>
        wk_artifact_id w' = wk_artifact_id w)"

lemma extends_refl [simp]: "extends db db"
  unfolding extends_def by auto

lemma extends_trans:
  assumes "extends a b" "extends b c"
  shows "extends a c"
  unfolding extends_def
proof (intro conjI ballI)
  show "grows a c" "set (au_events (pt_audit a)) \<subseteq> set (au_events (pt_audit c))"
    using assms unfolding extends_def by (blast intro: grows_trans)+
  fix p assume "p \<in> set (pt_projects a)"
  then obtain q where q: "q \<in> set (pt_projects b)" "pq_id q = pq_id p" "pq_manifest q = pq_manifest p"
    using assms(1) unfolding extends_def by blast
  then obtain q' where "q' \<in> set (pt_projects c)" "pq_id q' = pq_id q" "pq_manifest q' = pq_manifest q"
    using assms(2) unfolding extends_def by blast
  with q show "\<exists>p'\<in>set (pt_projects c). pq_id p' = pq_id p \<and> pq_manifest p' = pq_manifest p" by auto
next
  fix w assume "w \<in> set (pt_packages a)"
  then obtain v where v: "v \<in> set (pt_packages b)" "wk_project_id v = wk_project_id w"
      "wk_artifact_id v = wk_artifact_id w"
    using assms(1) unfolding extends_def by blast
  then obtain v' where "v' \<in> set (pt_packages c)" "wk_project_id v' = wk_project_id v"
      "wk_artifact_id v' = wk_artifact_id v"
    using assms(2) unfolding extends_def by blast
  with v show "\<exists>w'\<in>set (pt_packages c). wk_project_id w' = wk_project_id w \<and> wk_artifact_id w' = wk_artifact_id w"
    by auto
qed

lemma extends_justified:
  assumes e: "extends db db'" and j: "justified db i s"
  shows "justified db' i s"
proof -
  have g: "grows db db'" using e unfolding extends_def by blast
  have "has_requirements db i \<Longrightarrow> has_requirements db' i"
    unfolding has_requirements_def using grows_approved_requirements [OF g] by blast
  moreover have "has_architecture db i \<Longrightarrow> has_architecture db' i"
    unfolding has_architecture_def using grows_approved_by [OF g] g unfolding grows_def by blast
  moreover have "has_package db' i" if package: "has_package db i"
  proof -
    obtain w x where w: "w \<in> set (pt_packages db)" "wk_project_id w = i" "wk_artifact_id w = Some x" "approved_by db x"
      using package unfolding has_package_def by blast
    then obtain w' where "w' \<in> set (pt_packages db')" "wk_project_id w' = i" "wk_artifact_id w' = Some x"
      using e unfolding extends_def by metis
    with grows_approved_by [OF g w(4)] show ?thesis unfolding has_package_def by blast
  qed
  ultimately show ?thesis using j unfolding justified_def by blast
qed

lemma auto_approves_same: "pq_manifest p' = pq_manifest p \<Longrightarrow> auto_approves p' t = auto_approves p t"
  by (simp add: auto_approves_def)

lemma extends_approval_lawful:
  assumes e: "extends db db'" and y: "approval_lawful db y"
  shows "approval_lawful db' y"
proof -
  have "backs db' y v" if v: "backs db y v" for v
  proof -
    have "\<exists>p\<in>set (pt_projects db'). pq_id p = ay_project_id y \<and> auto_approves p (ae_event_type v)"
      if "p \<in> set (pt_projects db)" "pq_id p = ay_project_id y" "auto_approves p (ae_event_type v)" for p
      using e that auto_approves_same unfolding extends_def by metis
    then show ?thesis using v e unfolding backs_def extends_def by blast
  qed
  then show ?thesis using y unfolding approval_lawful_def by blast
qed

text \<open>It is enough to look at the rows that are new or changed.\<close>

lemma lawful_extends:
  assumes l: "lawful db" and e: "extends db db'"
    and projects: "\<And>p'. p' \<in> set (pt_projects db') \<Longrightarrow> justified db' (pq_id p') (pq_status p') \<or>
      (\<exists>p\<in>set (pt_projects db). pq_id p' = pq_id p \<and> pq_status p' = pq_status p)"
    and runs: "\<And>r'. r' \<in> set (pt_runs db') \<Longrightarrow> r' \<in> set (pt_runs db) \<or> crew_justified db' r' \<or>
      (\<exists>r\<in>set (pt_runs db). same_run r r')"
    and packages: "\<And>w'. w' \<in> set (pt_packages db') \<Longrightarrow> package_lawful db' w' \<or> w' \<in> set (pt_packages db)"
    and approvals: "\<And>y. y \<in> set (pt_approvals db') \<Longrightarrow> approval_lawful db' y \<or> y \<in> set (pt_approvals db)"
    and ids: "distinct (map wk_id (pt_packages db)) \<Longrightarrow> distinct (map wk_id (pt_packages db'))"
  shows "lawful db'"
proof -
  have g: "grows db db'" using e unfolding extends_def by blast
  have "justified db' (pq_id p') (pq_status p')" if p': "p' \<in> set (pt_projects db')" for p'
    using projects [OF p'] l extends_justified [OF e] unfolding lawful_def by auto
  moreover have "crew_justified db' r'" if r': "r' \<in> set (pt_runs db')" for r'
    using runs [OF r'] l extends_justified [OF e] unfolding lawful_def crew_justified_def same_run_def by auto
  moreover have "package_lawful db' w" if w: "w \<in> set (pt_packages db')" for w
    using packages [OF w] l grows_approved_by [OF g] unfolding lawful_def package_lawful_def by blast
  moreover have "approval_lawful db' y" if y: "y \<in> set (pt_approvals db')" for y
    using approvals [OF y] l extends_approval_lawful [OF e] unfolding lawful_def by blast
  ultimately show ?thesis using l ids unfolding lawful_def by blast
qed

end
