(* ===== verification/Project_Lawful.thy ===== *)
theory Project_Lawful
  imports Project_Authority
begin

text \<open>Every operation of the delivery of a project keeps it lawful.\<close>

section \<open>The primitive updates\<close>

definition moves :: "project_db \<Rightarrow> project_db \<Rightarrow> bool" where
  "moves db db' \<longleftrightarrow> extends db db' \<and> (lawful db \<longrightarrow> lawful db')"

lemma moves_refl [simp]: "moves db db"
  by (simp add: moves_def)

lemma moves_trans: "moves a b \<Longrightarrow> moves b c \<Longrightarrow> moves a c"
  unfolding moves_def by (blast intro: extends_trans)

lemma extendsI:
  assumes "grows db db'" and "set (au_events (pt_audit db)) \<subseteq> set (au_events (pt_audit db'))"
    and "set (pt_projects db) \<subseteq> set (pt_projects db')" and "set (pt_packages db) \<subseteq> set (pt_packages db')"
  shows "extends db db'"
  using assms unfolding extends_def by blast

text \<open>The tables lawfulness looks at.\<close>

definition record_part where
  "record_part db = (core db, pt_projects db, au_events (pt_audit db))"

lemma moves_record:
  assumes "record_part db' = record_part db"
  shows "moves db db'"
proof -
  have c: "core db' = core db" and s: "pt_projects db' = pt_projects db" "au_events (pt_audit db') = au_events (pt_audit db)"
    using assms by (simp_all add: record_part_def)
  have e: "extends db db'" by (rule extendsI [OF core_grows [OF c]]) (use c s in \<open>simp_all add: core_eq\<close>)
  have "lawful db'" if l: "lawful db"
    by (rule lawful_extends [OF l e]) (use c s same_run_refl in \<open>auto simp: core_eq\<close>)
  with e show ?thesis unfolding moves_def by blast
qed

lemma note_event_audit:
  "\<exists>e. au_events (pt_audit (note_event hs ids n p t k i x db)) = au_events (pt_audit db) @ [e] \<and>
     ae_project_id e = Some p \<and> ae_event_type e = t \<and> ae_actor_type e = k \<and> ae_actor_id e = i \<and>
     (\<forall>key. key \<noteq> ''audit_chain'' \<longrightarrow> map_of (ae_payload e) key = map_of x key)"
  by (simp add: note_event_def append_project_event_def append_event_def Let_def dict_merge_def map_of_dict_put)

lemma moves_note_event: "moves db (note_event hs ids n p t k i x db)"
proof -
  let ?db = "note_event hs ids n p t k i x db"
  obtain e where "au_events (pt_audit ?db) = au_events (pt_audit db) @ [e]" using note_event_audit by blast
  then have e: "extends db ?db" by (intro extendsI core_grows) auto
  have "lawful ?db" if l: "lawful db"
    by (rule lawful_extends [OF l e]) (use same_run_refl in auto)
  with e show ?thesis unfolding moves_def by blast
qed

lemma extends_set_status: "extends db (set_status i s db)"
proof -
  let ?db = "set_status i s db"
  have "\<exists>p'\<in>set (pt_projects ?db). pq_id p' = pq_id p \<and> pq_manifest p' = pq_manifest p"
    if "p \<in> set (pt_projects db)" for p
    using that by (intro bexI [of _ "if pq_id p = i then p\<lparr>pq_status := s\<rparr> else p"]) (auto simp: set_status_def set_alter)
  then show ?thesis unfolding extends_def using core_grows [of ?db db] by auto
qed

lemma set_status_rows:
  "p' \<in> set (pt_projects (set_status i s db)) \<Longrightarrow> pq_id p' = i \<and> pq_status p' = s \<or> p' \<in> set (pt_projects db)"
  by (auto simp: set_status_def set_alter split: if_splits)

lemma moves_set_status:
  assumes "lawful db \<Longrightarrow> justified db i s"
  shows "moves db (set_status i s db)"
proof -
  let ?db = "set_status i s db"
  have e: "extends db ?db" by (rule extends_set_status)
  have "lawful ?db" if l: "lawful db"
  proof (rule lawful_extends [OF l e])
    show "justified ?db (pq_id p') (pq_status p') \<or>
        (\<exists>p\<in>set (pt_projects db). pq_id p' = pq_id p \<and> pq_status p' = pq_status p)"
      if "p' \<in> set (pt_projects ?db)" for p'
      using set_status_rows [OF that] extends_justified [OF e assms [OF l]] by auto
  qed (use same_run_refl in auto)
  with e show ?thesis unfolding moves_def by blast
qed

lemma moves_grow:
  assumes g: "grows db db'" and p: "pt_projects db' = pt_projects db" and a: "pt_audit db' = pt_audit db"
    and w: "set (pt_packages db) \<subseteq> set (pt_packages db')"
    and runs: "\<And>r'. r' \<in> set (pt_runs db') \<Longrightarrow> lawful db \<Longrightarrow> extends db db' \<Longrightarrow>
      r' \<in> set (pt_runs db) \<or> crew_justified db' r' \<or> (\<exists>r\<in>set (pt_runs db). same_run r r')"
    and packages: "\<And>w'. w' \<in> set (pt_packages db') \<Longrightarrow> w' \<in> set (pt_packages db) \<or> package_lawful db' w'"
    and approvals: "\<And>y. y \<in> set (pt_approvals db') \<Longrightarrow> y \<in> set (pt_approvals db) \<or> approval_lawful db' y"
    and ids: "distinct (map wk_id (pt_packages db)) \<Longrightarrow> distinct (map wk_id (pt_packages db'))"
  shows "moves db db'"
proof -
  have e: "extends db db'" by (rule extendsI [OF g]) (use p a w in simp_all)
  have "lawful db'" if l: "lawful db"
    by (rule lawful_extends [OF l e]) (use runs [OF _ l e] packages approvals p ids in auto)
  with e show ?thesis unfolding moves_def by blast
qed

lemma moves_update_run:
  assumes "\<And>r. same_run r (f r)"
  shows "moves db (update_run i f db)"
proof (rule moves_grow)
  show "grows db (update_run i f db)"
  proof -
    have "\<exists>r'\<in>set (pt_runs (update_run i f db)). same_run r r'" if "r \<in> set (pt_runs db)" for r
      using that assms same_run_refl
      by (intro bexI [of _ "if cx_id r = i then f r else r"]) (auto simp: update_run_def set_alter)
    then show ?thesis by (simp add: grows_def)
  qed
  show "r' \<in> set (pt_runs db) \<or> crew_justified (update_run i f db) r' \<or> (\<exists>r\<in>set (pt_runs db). same_run r r')"
    if "r' \<in> set (pt_runs (update_run i f db))" for r'
    using that assms by (auto simp: update_run_def set_alter)
qed simp_all

lemma moves_add_run:
  assumes add: "add_run run db = Inr db'" and j: "lawful db \<Longrightarrow> crew_justified db run"
  shows "moves db db'"
proof -
  have db': "db' = db\<lparr>pt_runs := pt_runs db @ [run]\<rparr>"
    using add by (auto simp: add_run_def result_simps dest!: insert_rowD)
  show ?thesis
  proof (rule moves_grow)
    show "grows db db'" by (rule growsI) (auto simp: db')
    show "r' \<in> set (pt_runs db) \<or> crew_justified db' r' \<or> (\<exists>r\<in>set (pt_runs db). same_run r r')"
      if "r' \<in> set (pt_runs db')" "lawful db" "extends db db'" for r'
      using that(1) j [OF that(2)] extends_justified [OF that(3)] same_run_refl
      by (auto simp: db' crew_justified_def)
  qed (simp_all add: db')
qed

lemma moves_add_artifact: "add_artifact a db = Inr db' \<Longrightarrow> moves db db'"
  by (rule moves_grow; (rule growsI)?)
    (use same_run_refl in \<open>auto simp: add_artifact_def result_simps dest!: insert_rowD\<close>)

lemma moves_add_package:
  assumes "add_package w db = Inr db'" and "package_lawful db' w"
  shows "moves db db'"
  by (rule moves_grow; (rule growsI)?)
    (use assms same_run_refl in \<open>auto simp: add_package_def result_simps split: if_splits dest!: insert_rowD\<close>)

lemma moves_add_approval:
  assumes "add_approval y db = Inr db'" and "ay_decision y \<noteq> ''approved''"
  shows "moves db db'"
  by (rule moves_grow; (rule growsI)?)
    (use assms same_run_refl in \<open>auto simp: add_approval_def result_simps approval_lawful_def dest!: insert_rowD\<close>)

section \<open>Approvals\<close>

text \<open>
  An approval with the status it justifies and the event that backs it; \<open>db0\<close> has the new status and
  perhaps a decided package.
\<close>

lemma moves_decision:
  assumes e0: "extends db db0"
    and p0: "\<And>p'. p' \<in> set (pt_projects db0) \<Longrightarrow> pq_id p' = i \<and> pq_status p' = s \<or> p' \<in> set (pt_projects db)"
    and ids: "distinct (map wk_id (pt_packages db)) \<Longrightarrow> distinct (map wk_id (pt_packages db0))"
    and r0: "pt_runs db0 = pt_runs db" and y0: "pt_approvals db0 = pt_approvals db"
    and w0: "\<And>w. lawful db \<Longrightarrow> w \<in> set (pt_packages db0) \<Longrightarrow> w \<in> set (pt_packages db) \<or> wk_artifact_id w = Some (ay_artifact_id y)"
    and add: "add_approval y db0 = Inr db1" and y: "ay_decision y = ''approved''" "ay_project_id y = i"
    and x: "map_of x ''artifact_id'' = Some (uuid_json (ay_artifact_id y))"
    and authority: "k = ''human'' \<and> who = ay_reviewer y \<and>
        t \<in> {''requirements.approved'', ''architecture.approved'', ''work_package.approved''} \<or>
      k = ''system'' \<and> who = ''manifest-autonomy-policy'' \<and>
        (\<exists>p\<in>set (pt_projects db). pq_id p = i \<and> auto_approves p t)"
    and j: "lawful db \<Longrightarrow> justified db1 i s"
  shows "moves db (note_event hs ids n i t k who x db1)"
proof -
  let ?db = "note_event hs ids n i t k who x db1"
  have db1: "db1 = db0\<lparr>pt_approvals := pt_approvals db0 @ [y]\<rparr>"
    using add by (auto simp: add_approval_def result_simps dest!: insert_rowD)
  obtain v where v: "au_events (pt_audit ?db) = au_events (pt_audit db1) @ [v]" "ae_project_id v = Some i"
      "ae_event_type v = t" "ae_actor_type v = k" "ae_actor_id v = who"
      "map_of (ae_payload v) ''artifact_id'' = map_of x ''artifact_id''"
    using note_event_audit [of hs ids n i t k who x db1] by auto
  have e1: "extends db0 db1" by (rule extendsI; (rule growsI)?) (auto simp: db1)
  have e2: "extends db1 ?db" by (intro extendsI core_grows) (auto simp: v)
  have e: "extends db ?db" using e0 e1 e2 by (blast intro: extends_trans)
  have "\<exists>p\<in>set (pt_projects ?db). pq_id p = i \<and> auto_approves p t"
    if "p \<in> set (pt_projects db)" "pq_id p = i" "auto_approves p t" for p
    using that e auto_approves_same unfolding extends_def by metis
  then have "backs ?db y v" using authority v y x unfolding backs_def by auto
  then have new: "approval_lawful ?db y" unfolding approval_lawful_def by blast
  have ok: "approved_by ?db (ay_artifact_id y)" using y by (auto simp: approved_by_def db1)
  have "lawful ?db" if l: "lawful db"
  proof (rule lawful_extends [OF l e])
    show "justified ?db (pq_id p') (pq_status p') \<or>
        (\<exists>p\<in>set (pt_projects db). pq_id p' = pq_id p \<and> pq_status p' = pq_status p)"
      if "p' \<in> set (pt_projects ?db)" for p'
      using p0 [of p'] that extends_justified [OF e2 j [OF l]] by (auto simp: db1)
    show "package_lawful ?db w \<or> w \<in> set (pt_packages db)" if "w \<in> set (pt_packages ?db)" for w
      using w0 [OF l, of w] that ok by (auto simp: db1 package_lawful_def)
    show "approval_lawful ?db z \<or> z \<in> set (pt_approvals db)" if "z \<in> set (pt_approvals ?db)" for z
      using that new y0 by (auto simp: db1)
  qed (use r0 ids in \<open>simp_all add: db1\<close>)
  with e show ?thesis unfolding moves_def by blast
qed

text \<open>What an approval of an artifact justifies.\<close>

lemma justifiedI:
  assumes "s \<notin> requirements_phase \<Longrightarrow> has_requirements db i"
    and "s \<notin> requirements_phase \<Longrightarrow> s \<notin> architecture_phase \<Longrightarrow> has_architecture db i"
    and "s = WORK_PACKAGE_APPROVED \<Longrightarrow> has_package db i"
  shows "justified db i s"
  using assms unfolding justified_def by blast

lemma justifiedD:
  assumes "justified db i s"
  shows "s \<notin> requirements_phase \<Longrightarrow> has_requirements db i"
    "s \<notin> requirements_phase \<Longrightarrow> s \<notin> architecture_phase \<Longrightarrow> has_architecture db i"
  using assms unfolding justified_def by blast+

lemmas phases = requirements_phase_def architecture_phase_def

lemma approved_requirementsI:
  "a \<in> set (pt_artifacts db) \<Longrightarrow> af_project_id a = i \<Longrightarrow> af_artifact_type a = REQUIREMENTS_SPECIFICATION \<Longrightarrow>
   approved_by db (af_id a) \<Longrightarrow> has_requirements db i"
  unfolding has_requirements_def approved_requirements_def by blast

lemma approved_architectureI:
  "a \<in> set (pt_artifacts db) \<Longrightarrow> af_project_id a = i \<Longrightarrow> af_artifact_type a = ARCHITECTURE_SPECIFICATION \<Longrightarrow>
   approved_by db (af_id a) \<Longrightarrow> has_architecture db i"
  unfolding has_architecture_def by blast

lemma justified_mono:
  assumes "justified db i s" and "s \<in> requirements_phase \<Longrightarrow> t \<in> requirements_phase"
    and "s \<in> architecture_phase \<Longrightarrow> t \<in> requirements_phase \<union> architecture_phase" and "t \<noteq> WORK_PACKAGE_APPROVED"
  shows "justified db i t"
  using assms unfolding justified_def by blast

lemma status_justified:
  "lawful db \<Longrightarrow> get_project p db = Inr project \<Longrightarrow> justified db (pq_id project) (pq_status project)"
  using get_projectD unfolding lawful_def by blast

text \<open>The tables after an approval was added.\<close>

lemma add_approvalD:
  "add_approval y db = Inr db' \<Longrightarrow> db' = db\<lparr>pt_approvals := pt_approvals db @ [y]\<rparr>"
  by (auto simp: add_approval_def result_simps dest!: insert_rowD)

lemma extends_add_approval: "add_approval y db = Inr db' \<Longrightarrow> extends db db'"
  by (rule extendsI; (rule growsI)?) (auto dest!: add_approvalD)

lemma decided_by:
  "add_approval y db = Inr db' \<Longrightarrow> ay_decision y = ''approved'' \<Longrightarrow> approved_by db' (ay_artifact_id y)"
  by (auto simp: approved_by_def dest!: add_approvalD)

section \<open>The operations of persons\<close>

lemma moves_decide_artifact:
  assumes op: "decide_artifact hs ids now w m t (s1, e1) (s2, e2) p i d k c db = Inr (project, db')"
    and e1: "e1 \<in> {''requirements.approved'', ''architecture.approved'', ''work_package.approved''}"
    and j1: "\<And>db' a. justified db' p w \<Longrightarrow> a \<in> set (pt_artifacts db') \<Longrightarrow> af_project_id a = p \<Longrightarrow>
      af_artifact_type a = t \<Longrightarrow> approved_by db' (af_id a) \<Longrightarrow> justified db' p s1"
    and j2: "justified db p w \<Longrightarrow> justified db p s2"
  shows "moves db db'"
proof -
  obtain pr a where pr: "get_project p db = Inr pr" "pq_status pr = w"
    and a: "find_artifact i p t db = Inr a"
    using op by (auto simp: decide_artifact_def result_simps Let_def split: if_splits prod.splits)
  have id: "pq_id pr = p" using get_projectD [OF pr(1)] by simp
  have jw: "justified db p w" if "lawful db" using status_justified [OF that pr(1)] pr(2) id by simp
  note a = find_artifactD [OF a]
  let ?y = "new_approval (ids 0) now p (af_id a) (if d then ''approved'' else ''rejected'') k c"
  let ?x = "[(''artifact_id'', uuid_json (af_id a)), (''artifact_hash'', JText (af_content_hash a)),
    (''comment'', text_or_null c)]"
  let ?s = "if d then s1 else s2"
  let ?db0 = "set_status p ?s db"
  obtain db1 where y: "add_approval ?y ?db0 = Inr db1"
    and db': "db' = note_event hs ids 1 p (if d then e1 else e2) ''human'' k ?x db1"
    using op pr a id \<open>find_artifact i p t db = Inr a\<close>
    by (auto simp: decide_artifact_def result_simps Let_def split: if_splits prod.splits)
  show ?thesis
  proof (cases d)
    case True
    have ex: "extends db db1" using extends_set_status extends_add_approval [OF y] by (blast intro: extends_trans)
    have "approved_by db1 (af_id a)" using decided_by [OF y] True by (simp add: new_approval_def)
    moreover have "a \<in> set (pt_artifacts db1)" using ex a unfolding extends_def grows_def by blast
    ultimately have "justified db1 p s1" if "lawful db"
      using j1 [OF extends_justified [OF ex jw [OF that]]] a by blast
    then show ?thesis
      unfolding db' using True e1 y
      by (intro moves_decision [OF extends_set_status set_status_rows _ _ _ _ y])
        (auto simp: new_approval_def)
  next
    case False
    have "moves db ?db0" using jw j2 False by (intro moves_set_status) auto
    moreover have "moves ?db0 db1" using False by (intro moves_add_approval [OF y]) (simp add: new_approval_def)
    ultimately show ?thesis unfolding db' using moves_note_event by (blast intro: moves_trans)
  qed
qed

lemma moves_approve_requirements:
  assumes "approve_requirements hs ids now p i d k c db = Inr (project, db')"
  shows "moves db db'"
  by (rule moves_decide_artifact [OF assms [unfolded approve_requirements_def]])
    (auto intro!: justifiedI intro: approved_requirementsI simp: phases)

lemma moves_approve_architecture:
  assumes "approve_architecture hs ids now p i d k c db = Inr (project, db')"
  shows "moves db db'"
  by (rule moves_decide_artifact [OF assms [unfolded approve_architecture_def]])
    (auto intro!: justifiedI intro: approved_architectureI dest: justifiedD(1) simp: phases)

lemma moves_enqueue_run:
  assumes q: "enqueue_run now run s job_id t payload db = Inr db'"
    and j: "lawful db \<Longrightarrow> justified db (cx_project_id run) s" "lawful db \<Longrightarrow> crew_justified db run"
  shows "moves db db'"
proof -
  let ?db = "set_status (cx_project_id run) s db"
  have m: "moves db ?db" by (rule moves_set_status [OF j(1)])
  obtain db1 where r: "add_run run ?db = Inr db1" and db': "record_part db' = record_part db1"
    using q by (auto simp: enqueue_run_def result_simps record_part_def)
  have db1: "db1 = ?db\<lparr>pt_runs := pt_runs ?db @ [run]\<rparr>"
    using r by (auto simp: add_run_def result_simps dest!: insert_rowD)
  have "extends ?db db1" by (rule extendsI; (rule growsI)?) (auto simp: db1)
  then have e: "extends db db1" using extends_set_status by (blast intro: extends_trans)
  have "lawful db1" if l: "lawful db"
  proof (rule lawful_extends [OF l e])
    show "justified db1 (pq_id p') (pq_status p') \<or>
        (\<exists>p\<in>set (pt_projects db). pq_id p' = pq_id p \<and> pq_status p' = pq_status p)"
      if "p' \<in> set (pt_projects db1)" for p'
      using set_status_rows [of p' "cx_project_id run" s db] that extends_justified [OF e j(1) [OF l]] by (auto simp: db1)
    show "r' \<in> set (pt_runs db) \<or> crew_justified db1 r' \<or> (\<exists>r\<in>set (pt_runs db). same_run r r')"
      if "r' \<in> set (pt_runs db1)" for r'
      using that j(2) [OF l] extends_justified [OF e] by (auto simp: db1 crew_justified_def)
  qed (simp_all add: db1)
  with e have "moves db db1" unfolding moves_def by blast
  then show ?thesis using moves_record [OF db'] by (blast intro: moves_trans)
qed

lemma requirements_justified: "s \<in> requirements_phase \<Longrightarrow> justified db i s"
  by (auto simp: justified_def phases)

lemma moves_create_project:
  assumes op: "create_project hs ids now n d path url b k m t prep db = Inr (project, db')"
  shows "moves db db'"
proof -
  obtain ps a db1 where p: "insert_row pq_id project (pt_projects db) = Inr ps"
    and a: "add_artifact a (db\<lparr>pt_projects := ps\<rparr>) = Inr db1"
    and m: "moves db1 db'" and s: "pq_status project = CREATED"
    using op by (auto simp: create_project_def result_simps Let_def split: sum.splits) (blast intro: moves_note_event)
  let ?db = "db\<lparr>pt_projects := ps\<rparr>"
  have ps: "ps = pt_projects db @ [project]" using insert_rowD [OF p] by blast
  have e: "extends db ?db" by (rule extendsI; (rule growsI)?) (auto simp: ps)
  have "lawful ?db" if l: "lawful db"
    by (rule lawful_extends [OF l e]) (use s in \<open>auto intro: requirements_justified simp: phases ps\<close>)
  with e have "moves db ?db" unfolding moves_def by blast
  then show ?thesis using moves_add_artifact [OF a] m by (blast intro: moves_trans)
qed

text \<open>A run that was queued, with its event.\<close>

lemma moves_queued:
  assumes q: "bind_result (enqueue_run now run s j t x db)
      (\<lambda>db1. Inr (run, note_event hs ids n p v k i y db1)) = Inr (run', db')"
    and s: "lawful db \<Longrightarrow> justified db (cx_project_id run) s"
    and crew: "cx_crew_name run = ''architecture_crew'' \<and> s = ARCHITECTURE_QUEUED \<or>
      cx_crew_name run = ''work_package_planner_crew'' \<and> s = WORK_PACKAGE_QUEUED \<or>
      cx_crew_name run = ''requirements_crew''"
  shows "moves db db'"
proof -
  obtain db1 where e: "enqueue_run now run s j t x db = Inr db1" and db': "db' = note_event hs ids n p v k i y db1"
    using q by (auto simp: result_simps)
  have "moves db db1"
    by (rule moves_enqueue_run [OF e s]) (use s crew in \<open>auto simp: crew_justified_def\<close>)
  then show ?thesis unfolding db' using moves_note_event by (blast intro: moves_trans)
qed

lemma moves_queue_requirements_run:
  assumes op: "queue_requirements_run hs ids now p k db = Inr (run, db')"
  shows "moves db db'"
proof -
  obtain project where "get_project p db = Inr project"
    "pq_status project \<in> {CREATED, REQUIREMENTS_FAILED, REQUIREMENTS_REJECTED}"
    using op by (auto simp: queue_requirements_run_def result_simps split: if_splits)
  moreover have "justified db i REQUIREMENTS_QUEUED" for i
    by (rule requirements_justified) (simp add: phases)
  ultimately show ?thesis
    using op unfolding queue_requirements_run_def Let_def
    by (auto elim!: moves_queued simp: new_run_def simp del: bind_result_Inr_iff)
qed

lemma moves_queue_architecture_run:
  assumes op: "queue_architecture_run hs ids now p k db = Inr (run, db')"
  shows "moves db db'"
proof -
  obtain project where pr: "get_project p db = Inr project"
    "pq_status project \<in> {REQUIREMENTS_APPROVED, ARCHITECTURE_FAILED, ARCHITECTURE_REJECTED}"
    using op by (auto simp: queue_architecture_run_def result_simps split: if_splits)
  then obtain r where r: "latest_artifact (pq_id project) REQUIREMENTS_SPECIFICATION db = Some r"
      "approvals_of (pq_id project) (af_id r) db \<noteq> []"
    using op by (auto simp: queue_architecture_run_def split: if_splits option.splits)
  then obtain c where c: "architecture_revision_context project db = Inr c"
    using op pr by (auto simp: queue_architecture_run_def result_simps split: if_splits)
  have j: "justified db (pq_id project) ARCHITECTURE_QUEUED" if "lawful db"
    by (rule justified_mono [OF status_justified [OF that pr(1)]]) (use pr(2) in \<open>auto simp: phases\<close>)
  show ?thesis
    by (rule moves_queued)
      (use op pr r c in \<open>simp add: queue_architecture_run_def Let_def split: if_splits\<close>,
       simp_all add: new_run_def j)
qed

lemma moves_queue_work_package_planning:
  assumes op: "queue_work_package_planning hs ids now p k db = Inr (run, db')"
  shows "moves db db'"
proof -
  obtain project where pr: "get_project p db = Inr project"
    "pq_status project \<in> {ARCHITECTURE_APPROVED, WORK_PACKAGE_FAILED, WORK_PACKAGE_REJECTED}"
    using op by (auto simp: queue_work_package_planning_def result_simps split: if_splits)
  then obtain r a c where c: "planning_sources hs project db = Inr (r, a)" "planning_revision_context project db = Inr c"
    using op by (auto simp: queue_work_package_planning_def result_simps split: if_splits)
  have j: "justified db (pq_id project) WORK_PACKAGE_QUEUED" if "lawful db"
    by (rule justified_mono [OF status_justified [OF that pr(1)]]) (use pr(2) in \<open>auto simp: phases\<close>)
  show ?thesis
    by (rule moves_queued)
      (use op pr c in \<open>simp add: queue_work_package_planning_def Let_def split: if_splits\<close>,
       simp_all add: new_run_def j)
qed

lemma moves_add_request: "add_request r db = Inr db' \<Longrightarrow> moves db db'"
  by (rule moves_record) (auto simp: add_request_def result_simps core_def record_part_def split: if_splits)

lemma moves_add_cycle: "add_cycle c db = Inr db' \<Longrightarrow> moves db db'"
  by (rule moves_record) (auto simp: add_cycle_def result_simps core_def record_part_def split: if_splits)

lemma moves_queue: "moves db (db\<lparr>pt_queue := q\<rparr>)"
  by (rule moves_record) (simp add: record_part_def)

lemma moves_revision_rows:
  assumes "bind_result (add_approval y db) (\<lambda>db1. bind_result (add_request r db1) (\<lambda>db2.
      bind_result (add_cycle c db2) (\<lambda>db3. bind_result (add_run run db3) (\<lambda>db4. Inr (c, g db4))))) =
      Inr (cycle, db')"
    and "\<And>db. moves db (g db)" and "ay_decision y \<noteq> ''approved''" and "cx_crew_name run = ''requirements_crew''"
  shows "moves db db'"
proof -
  obtain db1 db2 db3 db4 where y: "add_approval y db = Inr db1" and "add_request r db1 = Inr db2"
    "add_cycle c db2 = Inr db3" and run: "add_run run db3 = Inr db4" and db': "moves db4 db'"
    using assms(1,2) by (auto simp: result_simps)
  then have "moves db1 db3" using moves_add_request moves_add_cycle by (blast intro: moves_trans)
  moreover have "moves db db1" by (rule moves_add_approval [OF y assms(3)])
  moreover have "moves db3 db4" by (rule moves_add_run [OF run]) (simp add: crew_justified_def assms(4))
  ultimately show ?thesis using db' by (blast intro: moves_trans)
qed

lemma moves_request_changes:
  assumes op: "request_changes hs ids now p i x k d db = Inr (cycle, db')"
  shows "moves db db'"
proof -
  obtain project a where a: "get_project p db = Inr project" "find_artifact x p REQUIREMENTS_SPECIFICATION db = Inr a"
    using op unfolding request_changes_def by (auto split: sum.splits)
  then obtain feedback where f: "create_feedback hs (af_id a) (af_content_hash a) d = Inr feedback"
    using op unfolding request_changes_def by (auto simp: result_simps split: if_splits)
  have "moves (set_status p REQUIREMENTS_QUEUED db) db'"
    by (rule moves_revision_rows)
      (use op a f in \<open>simp add: request_changes_def Let_def split: if_splits\<close>,
       rule moves_trans [OF moves_queue moves_note_event], simp_all add: new_run_def new_approval_def)
  moreover have "moves db (set_status p REQUIREMENTS_QUEUED db)"
    by (rule moves_set_status) (simp add: requirements_justified phases)
  ultimately show ?thesis by (blast intro: moves_trans)
qed

section \<open>Deciding on a package\<close>

lemma update_package_rows:
  "w \<in> set (pt_packages (update_package i now s db)) \<Longrightarrow>
   \<exists>v\<in>set (pt_packages db). wk_project_id w = wk_project_id v \<and> wk_artifact_id w = wk_artifact_id v \<and>
     (w = v \<or> wk_id v = i \<and> wk_status w = s)"
  by (auto simp: update_package_def set_alter split: if_splits)

lemma extends_update_package: "extends db (update_package i now s db)"
proof -
  let ?db = "update_package i now s db"
  have g: "grows db ?db" by (rule growsI) (auto simp: update_package_def)
  have "\<exists>w'\<in>set (pt_packages ?db). wk_project_id w' = wk_project_id w \<and> wk_artifact_id w' = wk_artifact_id w"
    if "w \<in> set (pt_packages db)" for w
    using that by (intro bexI [of _ "if wk_id w = i \<and> wk_status w \<noteq> s
        then w\<lparr>wk_status := s, wk_updated_at := now\<rparr> else w"]) (auto simp: update_package_def set_alter)
  with g show ?thesis unfolding extends_def by (auto simp: update_package_def)
qed

lemma moves_approve_work_package:
  assumes op: "approve_work_package hs ids now p i d k c db = Inr (package, db')"
  shows "moves db db'"
proof -
  obtain pr w x a where pr: "get_project p db = Inr pr" "pq_status pr = AWAITING_WORK_PACKAGE_APPROVAL"
    and w: "get_row wk_id i (pt_packages db) = Some w" "wk_project_id w = pq_id pr"
    and x: "wk_artifact_id w = Some x" and a: "load_artifact x db = Inr a"
    using op by (auto simp: approve_work_package_def result_simps split: if_splits option.splits)
  have id: "pq_id pr = p" using get_projectD [OF pr(1)] by simp
  have ax: "af_id a = x" using load_artifactD [OF a] by simp
  let ?y = "new_approval (ids 0) now p x (if d then ''approved'' else ''rejected'') k c"
  let ?s = "if d then WORK_PACKAGE_APPROVED else WORK_PACKAGE_REJECTED"
  let ?db0 = "update_package i now (if d then APPROVED else REJECTED) (set_status p ?s db)"
  let ?z = "[(''work_package_id'', uuid_json (wk_id w)), (''artifact_id'', uuid_json (af_id a)),
    (''contract_hash'', JText (wk_contract_hash w)), (''base_commit_sha'', JText (wk_base_commit_sha w)),
    (''comment'', text_or_null c)]"
  obtain db1 where y: "add_approval ?y ?db0 = Inr db1"
    and db': "db' = note_event hs ids 1 p (if d then ''work_package.approved'' else ''work_package.rejected'')
      ''human'' k ?z db1"
    using op pr w x a id ax by (auto simp: approve_work_package_def result_simps Let_def split: if_splits)
  have e0: "extends db ?db0" using extends_set_status extends_update_package by (blast intro: extends_trans)
  have e: "extends db db1" using e0 extends_add_approval [OF y] by (rule extends_trans)
  have jw: "justified db p AWAITING_WORK_PACKAGE_APPROVAL" if "lawful db"
    using status_justified [OF that pr(1)] pr(2) id by simp
  have ids: "distinct (map wk_id (pt_packages ?db0))" if "distinct (map wk_id (pt_packages db))"
    using that by (simp add: update_package_def map_alter_same)
  have rows: "v \<in> set (pt_packages db) \<or> wk_artifact_id v = Some x \<and> wk_status v = (if d then APPROVED else REJECTED)"
    if l: "lawful db" and v: "v \<in> set (pt_packages ?db0)" for v
  proof -
    obtain u where u: "u \<in> set (pt_packages db)" "wk_artifact_id v = wk_artifact_id u"
      "v = u \<or> wk_id u = i \<and> wk_status v = (if d then APPROVED else REJECTED)"
      using update_package_rows [OF v] by auto
    have "u = w" if "wk_id u = i"
      by (rule distinct_key_eq [of wk_id "pt_packages db"])
        (use l u(1) get_row_SomeD [OF w(1)] that in \<open>simp_all add: lawful_def\<close>)
    then show ?thesis using u x by auto
  qed
  have p0: "pq_id q = p \<and> pq_status q = ?s \<or> q \<in> set (pt_projects db)" if "q \<in> set (pt_projects ?db0)" for q
    using that set_status_rows [of q p ?s db] by (simp add: update_package_def)
  show ?thesis
  proof (cases d)
    case True
    have "approved_by db1 x" using decided_by [OF y] True by (simp add: new_approval_def)
    then have "has_package db1 p"
      using w get_row_SomeD [OF w(1)] x id e unfolding has_package_def extends_def by metis
    then have "justified db1 p WORK_PACKAGE_APPROVED" if "lawful db"
      using extends_justified [OF e jw [OF that]] by (auto intro!: justifiedI dest: justifiedD simp: phases)
    then show ?thesis
      unfolding db' using True rows ax p0
      by (intro moves_decision [OF e0 _ ids _ _ _ y]) (auto simp: new_approval_def update_package_def)
  next
    case False
    have "lawful db1" if l: "lawful db"
    proof (rule lawful_extends [OF l e])
      show "justified db1 (pq_id q) (pq_status q) \<or> (\<exists>r\<in>set (pt_projects db). pq_id q = pq_id r \<and> pq_status q = pq_status r)"
        if "q \<in> set (pt_projects db1)" for q
        using that p0 [of q] False extends_justified [OF e jw [OF l]] add_approvalD [OF y]
        by (auto intro!: justifiedI dest: justifiedD simp: phases)
      show "package_lawful db1 v \<or> v \<in> set (pt_packages db)" if "v \<in> set (pt_packages db1)" for v
        using that rows [OF l, of v] False add_approvalD [OF y] by (auto simp: package_lawful_def)
      show "approval_lawful db1 u \<or> u \<in> set (pt_approvals db)" if "u \<in> set (pt_approvals db1)" for u
        using that False add_approvalD [OF y] by (auto simp: approval_lawful_def new_approval_def update_package_def)
    qed (use add_approvalD [OF y] ids in \<open>simp_all add: update_package_def\<close>)
    with e have "moves db db1" unfolding moves_def by blast
    then show ?thesis unfolding db' using moves_note_event by (blast intro: moves_trans)
  qed
qed

section \<open>Executions\<close>

lemma moves_fail_run:
  assumes f: "fail_run hs ids now s t k i exc db = (result, db')"
    and j: "\<And>run. run \<in> set (pt_runs db) \<Longrightarrow> cx_id run = i \<Longrightarrow> lawful db \<Longrightarrow> justified db (cx_project_id run) s"
  shows "moves db db'"
proof (cases "get_row cx_id i (pt_runs db)")
  case None
  then show ?thesis using f by (simp add: fail_run_def)
next
  case (Some run)
  let ?f = "\<lambda>r. r\<lparr>cx_status := FAILED, cx_completed_at := Some now, cx_error_message := Some (error_text exc)\<rparr>"
  let ?db = "update_run i ?f db"
  show ?thesis
  proof (cases "get_project (cx_project_id run) db")
    case (Inl e)
    then show ?thesis using f Some by (simp add: fail_run_def)
  next
    case (Inr project)
    then have id: "pq_id project = cx_project_id run" using get_projectD by blast
    have m: "moves db (set_status (cx_project_id run) s db)"
      by (rule moves_set_status) (use j get_row_SomeD [OF Some] in blast)
    have "moves (set_status (cx_project_id run) s db) (update_run i ?f (set_status (cx_project_id run) s db))"
      by (rule moves_update_run) (simp add: same_run_def)
    note m = moves_trans [OF m this]
    have eq: "update_run i ?f (set_status (cx_project_id run) s db) = set_status (cx_project_id run) s ?db"
      by (simp add: update_run_def set_status_def)
    have "db' = note_event hs ids 0 (cx_project_id run) t ''system'' k
        [(''run_id'', uuid_json i), (''error'', JText (error_text exc))] (set_status (cx_project_id run) s ?db)"
      using f Some Inr id by (simp add: fail_run_def)
    then show ?thesis using moves_trans [OF m moves_note_event] unfolding eq by simp
  qed
qed

lemma moves_mark_running:
  assumes "lawful db \<Longrightarrow> justified db i s"
  shows "moves db (mark_running now run_id i s db)"
proof -
  have "mark_running now run_id i s db = update_run run_id (\<lambda>r. r\<lparr>cx_status := RUNNING, cx_started_at := Some now,
      cx_error_message := None\<rparr>) (set_status i s db)"
    by (simp add: mark_running_def update_run_def set_status_def)
  moreover have "moves db (set_status i s db)" by (rule moves_set_status [OF assms])
  ultimately show ?thesis using moves_update_run by (auto intro: moves_trans simp: same_run_def)
qed

lemma moves_mark_succeeded: "moves db (mark_succeeded now i out db)"
  unfolding mark_succeeded_def by (rule moves_update_run) (simp add: same_run_def)

text \<open>The project an execution holds is a row, up to its status.\<close>

definition holds_project :: "project_db \<Rightarrow> ProjectModel \<Rightarrow> bool" where
  "holds_project db project \<longleftrightarrow>
     (\<exists>p\<in>set (pt_projects db). pq_id p = pq_id project \<and> pq_manifest p = pq_manifest project)"

lemma extends_holds_project: "extends db db' \<Longrightarrow> holds_project db project \<Longrightarrow> holds_project db' project"
  unfolding extends_def holds_project_def by metis

text \<open>The event of an automatic approval.\<close>

definition auto_approval_event ::
  "hashing \<Rightarrow> (nat \<Rightarrow> uuid) \<Rightarrow> nat \<Rightarrow> ProjectModel \<Rightarrow> ArtifactModel \<Rightarrow> string \<Rightarrow> dict \<Rightarrow> project_db \<Rightarrow> project_db" where
  "auto_approval_event hs ids n project a t policy db =
     note_event hs ids n (pq_id project) t ''system'' ''manifest-autonomy-policy''
       [(''artifact_id'', uuid_json (af_id a)), (''artifact_hash'', JText (af_content_hash a)),
        (''authority'', JText ''manifest_ingestion''),
        (''mode'', case map_of policy ''mode'' of None \<Rightarrow> JText ''controlled_demo'' | Some m \<Rightarrow> m)] db"

lemma approval_phase_auto:
  assumes f: "approval_phase hs ids n i now project a t waiting approved db = Inr db'"
    and auto: "auto_approves project t"
  obtains c db1 policy where
    "add_approval (new_approval i now (pq_id project) (af_id a) ''approved'' ''manifest-autonomy-policy'' c)
       (set_status (pq_id project) approved db) = Inr db1"
    "db' = auto_approval_event hs ids n project a t policy db1"
proof -
  obtain c where y: "auto_approval i now project (af_id a) t =
      Some (new_approval i now (pq_id project) (af_id a) ''approved'' ''manifest-autonomy-policy'' c)"
    using auto by (simp add: auto_approval_def)
  then obtain db1 where db1: "add_approval (new_approval i now (pq_id project) (af_id a) ''approved''
        ''manifest-autonomy-policy'' c) (set_status (pq_id project) approved db) = Inr db1"
    and e: "append_auto_approval_event hs ids n project a t db1 = Inr db'"
    using f by (auto simp: approval_phase_def result_simps)
  obtain policy where "map_of (pq_manifest project) ''autonomous_execution'' = Some (JObject policy)"
    using auto by (auto simp: auto_approves_def split: option.splits json.splits)
  then have "db' = auto_approval_event hs ids n project a t policy db1"
    using e by (simp add: append_auto_approval_event_def auto_approval_event_def)
  with db1 show thesis by (rule that)
qed

lemma approval_phase_waits:
  assumes "approval_phase hs ids n i now project a t waiting approved db = Inr db'" and "\<not> auto_approves project t"
  shows "db' = set_status (pq_id project) waiting db"
  using assms by (simp add: approval_phase_def auto_approval_def)

text \<open>
  The end of a phase from the tables \<open>db\<close>, which \<open>db0\<close> extends by at most the decided package.
\<close>

lemma moves_approval_phase:
  assumes f: "approval_phase hs ids n i now project a t waiting approved db0 = Inr db'"
    and e0: "extends db db0" and rows: "pt_projects db0 = pt_projects db" "pt_runs db0 = pt_runs db"
      "pt_approvals db0 = pt_approvals db"
    and ids: "distinct (map wk_id (pt_packages db)) \<Longrightarrow> distinct (map wk_id (pt_packages db0))"
    and w0: "\<And>w. w \<in> set (pt_packages db0) \<Longrightarrow> w \<in> set (pt_packages db) \<or>
      wk_artifact_id w = Some (af_id a) \<and> (wk_status w = APPROVED \<longrightarrow> auto_approves project t)"
    and project: "holds_project db project"
    and j1: "lawful db \<Longrightarrow> justified db (pq_id project) waiting"
    and j2: "\<And>db1. extends db0 db1 \<Longrightarrow> approved_by db1 (af_id a) \<Longrightarrow> justified db1 (pq_id project) waiting \<Longrightarrow>
      justified db1 (pq_id project) approved"
  shows "moves db db'"
proof (cases "auto_approves project t")
  case True
  obtain c db1 policy where y: "add_approval (new_approval i now (pq_id project) (af_id a) ''approved''
        ''manifest-autonomy-policy'' c) (set_status (pq_id project) approved db0) = Inr db1"
    and db': "db' = auto_approval_event hs ids n project a t policy db1"
    by (rule approval_phase_auto [OF f True])
  have e1: "extends db0 db1" using extends_set_status extends_add_approval [OF y] by (rule extends_trans)
  have e2: "extends db (set_status (pq_id project) approved db0)" using e0 extends_set_status by (rule extends_trans)
  have "approved_by db1 (af_id a)" using decided_by [OF y] by (simp add: new_approval_def)
  then have j: "justified db1 (pq_id project) approved" if "lawful db"
    using j2 [OF e1] extends_justified [OF extends_trans [OF e0 e1] j1 [OF that]] by blast
  have "\<exists>p\<in>set (pt_projects db). pq_id p = pq_id project \<and> auto_approves p t"
    using project True auto_approves_same unfolding holds_project_def by metis
  moreover have "pq_id q = pq_id project \<and> pq_status q = approved \<or> q \<in> set (pt_projects db)"
    if "q \<in> set (pt_projects (set_status (pq_id project) approved db0))" for q
    using set_status_rows [OF that] rows by simp
  ultimately show ?thesis
    unfolding db' auto_approval_event_def using rows ids w0 j
    by (intro moves_decision [OF e2 _ _ _ _ _ y]) (auto simp: new_approval_def)
next
  case False
  have db': "db' = set_status (pq_id project) waiting db0" by (rule approval_phase_waits [OF f False])
  have e: "extends db db'" unfolding db' using e0 extends_set_status by (rule extends_trans)
  have "lawful db'" if l: "lawful db"
  proof (rule lawful_extends [OF l e])
    show "justified db' (pq_id q) (pq_status q) \<or> (\<exists>r\<in>set (pt_projects db). pq_id q = pq_id r \<and> pq_status q = pq_status r)"
      if "q \<in> set (pt_projects db')" for q
      using that set_status_rows [of q "pq_id project" waiting db0] rows extends_justified [OF e j1 [OF l]]
      unfolding db' by auto
    show "package_lawful db' w \<or> w \<in> set (pt_packages db)" if "w \<in> set (pt_packages db')" for w
      using that w0 [of w] False unfolding db' by (auto simp: package_lawful_def)
  qed (use rows ids in \<open>simp_all add: db'\<close>)
  with e show ?thesis unfolding moves_def by blast
qed

lemma moves_complete_cycle:
  assumes s: "complete_cycle i now r a b db = Inr db'"
  shows "moves db db'"
proof (cases "get_row cx_id r (pt_runs db)")
  case None
  then show ?thesis using s by (simp add: complete_cycle_def)
next
  case run: (Some run)
  then obtain c where c: "optional_uuid (cx_input_payload run) ''revision_cycle_id'' = Inr c"
    using s by (auto simp: complete_cycle_def result_simps)
  show ?thesis
  proof (cases c)
    case None
    then show ?thesis using s run c by (simp add: complete_cycle_def)
  next
    case (Some k)
    then obtain cycle queued where k: "find_cycle k db = Some (cycle, queued)"
      using s run c by (cases "find_cycle k db") (auto simp: complete_cycle_def)
    then obtain request where "get_row rv_id (cy_revision_request_id cycle) (pt_requests db) = Some request"
      using s run c Some by (cases "get_row rv_id (cy_revision_request_id cycle) (pt_requests db)")
        (simp_all add: complete_cycle_def)
    then show ?thesis
      using s run c Some k
      by (intro moves_record)
        (auto simp: complete_cycle_def Let_def core_def record_part_def add_lineage_def result_simps split: if_splits)
  qed
qed

lemma moves_record_initial_artifact: "record_initial_artifact i a db = Inr db' \<Longrightarrow> moves db db'"
  by (rule moves_record)
    (auto simp: record_initial_artifact_def add_lineage_def result_simps core_def record_part_def split: if_splits)

text \<open>The events before the end of a phase.\<close>

lemma phase_tail:
  assumes "approval_phase hs ids n i now project a t w s (note_event hs ids n1 p1 t1 k1 i1 x1
      (note_event hs ids n2 p2 t2 k2 i2 x2 db)) = Inr db'"
  shows "\<exists>db3. moves db db3 \<and> approval_phase hs ids n i now project a t w s db3 = Inr db'"
  using assms moves_trans [OF moves_note_event moves_note_event] by blast

lemma moves_store_requirements:
  assumes held: "holds_project db project"
    and s: "store_requirements hs ids now run project answer db = Inr db'"
  shows "moves db db'"
proof -
  obtain document where document: "answer = Inr document"
    using s by (cases answer) (auto simp: store_requirements_def result_simps)
  let ?a = "markdown_artifact hs (ids 0) now run project REQUIREMENTS_SPECIFICATION (cd_markdown document)"
  obtain c db1 db2 out db3 where 1: "add_artifact ?a db = Inr db1"
    and 2: "(if c then complete_cycle (ids 1) now (cx_id run) (af_id ?a) False db1
      else record_initial_artifact (ids 1) (af_id ?a) db1) = Inr db2"
    and 3: "moves (mark_succeeded now (cx_id run) out db2) db3"
    and 4: "approval_phase hs ids 7 (ids 6) now project ?a ''requirements.auto_approved''
      AWAITING_REQUIREMENTS_APPROVAL REQUIREMENTS_APPROVED db3 = Inr db'"
    using s unfolding document store_requirements_def Let_def
    by (auto simp only: bind_result_Inr_iff sum.case dest!: phase_tail)
  note 3 = moves_trans [OF moves_mark_succeeded 3]
  have "moves db1 db2"
    using 2 moves_complete_cycle moves_record_initial_artifact by (cases c) auto
  then have m: "moves db db3" using moves_add_artifact [OF 1] 3 by (blast intro: moves_trans)
  have e: "extends db1 db3" using \<open>moves db1 db2\<close> 3 unfolding moves_def by (blast intro: extends_trans)
  have a1: "?a \<in> set (pt_artifacts db1)" using 1 by (auto simp: add_artifact_def result_simps dest!: insert_rowD)
  have "moves db3 db'"
  proof (rule moves_approval_phase [OF 4 extends_refl])
    show "holds_project db3 project" using m held extends_holds_project unfolding moves_def by blast
    show "justified db3 (pq_id project) AWAITING_REQUIREMENTS_APPROVAL"
      by (rule requirements_justified) (simp add: phases)
    show "justified db4 (pq_id project) REQUIREMENTS_APPROVED"
      if "extends db3 db4" "approved_by db4 (af_id ?a)" for db4
    proof -
      have "?a \<in> set (pt_artifacts db4)" using a1 e that(1) unfolding extends_def grows_def by blast
      then have "has_requirements db4 (pq_id project)"
        by (rule approved_requirementsI) (use that(2) in \<open>simp_all add: markdown_artifact_def\<close>)
      then show ?thesis by (auto intro!: justifiedI simp: phases)
    qed
  qed simp_all
  with m show ?thesis by (rule moves_trans)
qed

lemma moves_store_architecture:
  assumes held: "holds_project db project" and r: "has_requirements db (pq_id project)"
    and s: "store_architecture hs ids now run project req answer db = Inr db'"
  shows "moves db db'"
proof -
  obtain document where document: "answer = Inr document"
    using s by (cases answer) (auto simp: store_architecture_def)
  let ?a = "markdown_artifact hs (ids 0) now run project ARCHITECTURE_SPECIFICATION (cd_markdown document)"
  obtain out db2 db3 where 1: "add_artifact ?a (mark_succeeded now (cx_id run) out db) = Inr db2"
    and 3: "moves db2 db3"
    and 4: "approval_phase hs ids 6 (ids 5) now project ?a ''architecture.auto_approved''
      AWAITING_ARCHITECTURE_APPROVAL ARCHITECTURE_APPROVED db3 = Inr db'"
    using s unfolding document store_architecture_def Let_def
    by (auto simp only: bind_result_Inr_iff sum.case dest!: phase_tail)
  have 0: "moves db (mark_succeeded now (cx_id run) out db)" by (rule moves_mark_succeeded)
  have m: "moves db db3" using 0 moves_add_artifact [OF 1] 3 by (blast intro: moves_trans)
  have e: "extends db2 db3" using 3 unfolding moves_def by blast
  have a2: "?a \<in> set (pt_artifacts db2)" using 1 by (auto simp: add_artifact_def result_simps dest!: insert_rowD)
  have "justified db (pq_id project) AWAITING_ARCHITECTURE_APPROVAL" using r by (auto intro!: justifiedI simp: phases)
  then have j: "justified db3 (pq_id project) AWAITING_ARCHITECTURE_APPROVAL"
    using m extends_justified unfolding moves_def by blast
  have "moves db3 db'"
  proof (rule moves_approval_phase [OF 4 extends_refl])
    show "holds_project db3 project" using m held extends_holds_project unfolding moves_def by blast
    show "justified db4 (pq_id project) ARCHITECTURE_APPROVED"
      if "extends db3 db4" "approved_by db4 (af_id ?a)" "justified db4 (pq_id project) AWAITING_ARCHITECTURE_APPROVAL"
      for db4
    proof -
      have "?a \<in> set (pt_artifacts db4)" using a2 e that(1) unfolding extends_def grows_def by blast
      then have "has_architecture db4 (pq_id project)"
        by (rule approved_architectureI) (use that(2) in \<open>simp_all add: markdown_artifact_def\<close>)
      then show ?thesis using that(3) by (auto intro!: justifiedI dest: justifiedD(1) simp: phases)
    qed
  qed (use j in simp_all)
  with m show ?thesis by (rule moves_trans)
qed

lemma extends_package:
  "extends db db' \<Longrightarrow> w \<in> set (pt_packages db) \<Longrightarrow>
   \<exists>v\<in>set (pt_packages db'). wk_project_id v = wk_project_id w \<and> wk_artifact_id v = wk_artifact_id w"
  unfolding extends_def by blast

lemma moves_store_work_package:
  assumes held: "holds_project db project"
    and r: "has_requirements db (pq_id project)" "has_architecture db (pq_id project)"
    and s: "store_work_package hs ids now run project req arch repository answer db = Inr db'"
  shows "moves db db'"
proof -
  obtain parsed c where parsed: "answer = Inr parsed" and c: "accepted_contract project req arch repository parsed = Inr c"
    using s by (cases answer) (auto simp: store_work_package_def result_simps)
  let ?x = "\<lparr>af_id = ids 1, af_project_id = pq_id project, af_run_id = Some (cx_id run),
    af_artifact_type = WORK_PACKAGE, af_media_type = ''application/json'',
    af_content = hs_canonical_json hs (contract_json c), af_content_hash = hash_json hs (contract_json c),
    af_created_at = now\<rparr>"
  let ?w = "planned_package hs ids now run project req arch c
    (if auto_approves project ''work_package.auto_approved'' then APPROVED else AWAITING_APPROVAL)"
  obtain out db2 db3 n1 p1 t1 k1 i1 x1 n2 p2 t2 k2 i2 x2
    where 1: "add_artifact ?x (mark_succeeded now (cx_id run) out db) = Inr db2" and 2: "add_package ?w db2 = Inr db3"
    and 4: "approval_phase hs ids 7 (ids 6) now project ?x ''work_package.auto_approved''
      AWAITING_WORK_PACKAGE_APPROVAL WORK_PACKAGE_APPROVED
      (note_event hs ids n1 p1 t1 k1 i1 x1 (note_event hs ids n2 p2 t2 k2 i2 x2 db3)) = Inr db'"
    using s c unfolding parsed store_work_package_def Let_def
    by (auto simp only: bind_result.simps bind_result_Inr_iff sum.case)
  let ?db4 = "note_event hs ids n1 p1 t1 k1 i1 x1 (note_event hs ids n2 p2 t2 k2 i2 x2 db3)"
  have m: "moves db db2" using moves_mark_succeeded moves_add_artifact [OF 1] by (rule moves_trans)
  have db3: "db3 = db2\<lparr>pt_packages := pt_packages db2 @ [?w]\<rparr>" "wk_id ?w \<notin> wk_id ` set (pt_packages db2)"
    using 2 by (auto simp: add_package_def result_simps split: if_splits dest!: insert_rowD)
  have w: "wk_project_id ?w = pq_id project" "wk_artifact_id ?w = Some (ids 1)" by (simp_all add: planned_package_def)
  have st: "wk_status ?w = APPROVED \<longrightarrow> auto_approves project ''work_package.auto_approved''"
    by (simp add: planned_package_def)
  have "extends db2 db3" by (rule extendsI; (rule growsI)?) (auto simp: db3)
  moreover have "extends db3 ?db4" using moves_trans [OF moves_note_event moves_note_event] unfolding moves_def by blast
  ultimately have e4: "extends db2 ?db4" by (rule extends_trans)
  have "justified db (pq_id project) AWAITING_WORK_PACKAGE_APPROVAL" using r by (auto intro!: justifiedI simp: phases)
  then have j: "justified db2 (pq_id project) AWAITING_WORK_PACKAGE_APPROVAL"
    using m extends_justified unfolding moves_def by blast
  have w4: "?w \<in> set (pt_packages ?db4)" by (simp add: db3)
  have "moves db2 db'"
  proof (rule moves_approval_phase [OF 4 e4])
    show "holds_project db2 project" using m held extends_holds_project unfolding moves_def by blast
    show "v \<in> set (pt_packages db2) \<or> wk_artifact_id v = Some (af_id ?x) \<and>
        (wk_status v = APPROVED \<longrightarrow> auto_approves project ''work_package.auto_approved'')"
      if "v \<in> set (pt_packages ?db4)" for v
      using that w st by (auto simp: db3)
    show "justified db5 (pq_id project) WORK_PACKAGE_APPROVED"
      if e5: "extends ?db4 db5" and y5: "approved_by db5 (af_id ?x)"
        and j5: "justified db5 (pq_id project) AWAITING_WORK_PACKAGE_APPROVAL" for db5
    proof -
      obtain v where "v \<in> set (pt_packages db5)" "wk_project_id v = pq_id project" "wk_artifact_id v = Some (ids 1)"
        using extends_package [OF e5 w4] unfolding w by blast
      then have "has_package db5 (pq_id project)" using y5 unfolding has_package_def by auto
      then show ?thesis using j5 by (auto intro!: justifiedI dest: justifiedD simp: phases)
    qed
  qed (use db3 j in \<open>simp_all add: note_event_def\<close>)
  with m show ?thesis by (rule moves_trans)
qed

section \<open>Every reachable state\<close>

lemma person_step_moves: "person_step hs db db' \<Longrightarrow> moves db db'"
  by (erule person_step.cases)
    (auto dest: moves_create_project moves_queue_requirements_run moves_approve_requirements moves_request_changes
        moves_queue_architecture_run moves_approve_architecture moves_queue_work_package_planning
        moves_approve_work_package)

fun execution_project :: "execution \<Rightarrow> ProjectModel" where
  "execution_project (RequirementsExecution run project) = project"
| "execution_project (ArchitectureExecution run project r) = project"
| "execution_project (PlanningExecution run project r a repository) = project"

definition lawful_system :: "project_system \<Rightarrow> bool" where
  "lawful_system s \<longleftrightarrow> lawful (ps_db s) \<and> (\<forall>e\<in>set (ps_running s). holds_project (ps_db s) (execution_project e))"

lemma lawful_systemI:
  assumes "lawful_system s" and "moves (ps_db s) (ps_db s')"
    and "\<And>e. e \<in> set (ps_running s') \<Longrightarrow> e \<in> set (ps_running s) \<or> holds_project (ps_db s) (execution_project e)"
  shows "lawful_system s'"
  using assms extends_holds_project unfolding lawful_system_def moves_def by blast

lemma crew_status:
  assumes "lawful db" and "run_of_crew crew i db" and "run \<in> set (pt_runs db)" and "cx_id run = i"
    and "distinct (map cx_id (pt_runs db))"
  shows "crew = ''architecture_crew'' \<Longrightarrow> justified db (cx_project_id run) ARCHITECTURE_QUEUED"
    "crew = ''work_package_planner_crew'' \<Longrightarrow> justified db (cx_project_id run) WORK_PACKAGE_QUEUED"
proof -
  obtain r where r: "get_row cx_id i (pt_runs db) = Some r" "cx_crew_name r = crew"
    using assms(2) by (auto simp: run_of_crew_def split: option.splits)
  have "r = run"
    by (rule distinct_key_eq [OF assms(5)]) (use get_row_SomeD [OF r(1)] assms(3,4) in simp_all)
  then show "crew = ''architecture_crew'' \<Longrightarrow> justified db (cx_project_id run) ARCHITECTURE_QUEUED"
    "crew = ''work_package_planner_crew'' \<Longrightarrow> justified db (cx_project_id run) WORK_PACKAGE_QUEUED"
    using assms(1,3) r(2) unfolding lawful_def crew_justified_def by auto
qed

lemma executable_holds: "executable_run m n i db = Inr (run, project) \<Longrightarrow> holds_project db project"
  using executable_runD unfolding holds_project_def by blast

lemma begin_requirements_run_moves:
  assumes b: "begin_requirements_run hs ids now i db = (Inr (run, project), db')"
  shows "moves db db' \<and> holds_project db project"
proof -
  have e: "executable_run (''Run '' @ uuid_text i @ '' does not exist'') ''Requirements run cannot execute from '' i db
      = Inr (run, project)"
    and db': "db' = note_event hs ids 0 (pq_id project) ''requirements.run.started'' ''system''
      ''requirements-worker'' [(''run_id'', uuid_json i)]
      (mark_running now i (pq_id project) ProjectStatus.REQUIREMENTS_RUNNING db)"
    using b by (auto simp: begin_requirements_run_def split: sum.splits)
  have "moves db (mark_running now i (pq_id project) ProjectStatus.REQUIREMENTS_RUNNING db)"
    by (rule moves_mark_running) (simp add: requirements_justified phases)
  then show ?thesis unfolding db' using moves_note_event executable_holds [OF e] by (blast intro: moves_trans)
qed

text \<open>A status of the phase of a queued run.\<close>

lemma phase_justified:
  "justified db i ARCHITECTURE_QUEUED \<Longrightarrow> s \<in> architecture_phase \<Longrightarrow> justified db i s"
  "justified db i WORK_PACKAGE_QUEUED \<Longrightarrow> s \<noteq> WORK_PACKAGE_APPROVED \<Longrightarrow> justified db i s"
  unfolding justified_def phases by auto

lemma begin_architecture_run_moves:
  assumes crew: "run_of_crew ''architecture_crew'' i db" and ids: "distinct (map cx_id (pt_runs db))"
    and b: "begin_architecture_run hs ids now i db = (result, db')"
  shows "moves db db' \<and> (\<forall>run project r. result = Inr (run, project, r) \<longrightarrow> holds_project db project)"
proof (cases "executable_run (''Architecture run '' @ uuid_text i @ '' does not exist'')
    ''Architecture run cannot execute from '' i db")
  case (Inl e)
  then show ?thesis using b by (auto simp: begin_architecture_run_def)
next
  case (Inr x)
  then obtain run project where e: "executable_run (''Architecture run '' @ uuid_text i @ '' does not exist'')
      ''Architecture run cannot execute from '' i db = Inr (run, project)" by (cases x) auto
  have j: "justified db (cx_project_id r) s" if "lawful db" "r \<in> set (pt_runs db)" "cx_id r = i" "s \<in> architecture_phase"
    for r s
    using crew_status(1) [OF that(1) crew that(2,3) ids] phase_justified(1) that(4) by blast
  show ?thesis
  proof (cases "architecture_source run project db hs")
    case (Inl exc)
    then have "fail_run hs ids now ARCHITECTURE_FAILED ''architecture.run.failed'' ''architecture-worker'' i exc db
        = (result, db')"
      using b e by (simp add: begin_architecture_run_def)
    moreover have "result \<noteq> Inr y" for y
      using calculation by (auto simp: fail_run_def split: option.splits sum.splits)
    moreover have "moves db db'" by (rule moves_fail_run [OF calculation(1)]) (use j in \<open>auto simp: phases\<close>)
    ultimately show ?thesis by blast
  next
    case (Inr r)
    then have "moves (mark_running now i (pq_id project) ProjectStatus.ARCHITECTURE_RUNNING db) db'"
      and res: "result = Inr (run, project, r)"
      using b e by (auto simp: begin_architecture_run_def intro: moves_note_event)
    moreover have "moves db (mark_running now i (pq_id project) ProjectStatus.ARCHITECTURE_RUNNING db)"
      by (rule moves_mark_running) (use j executable_runD [OF e] in \<open>auto simp: phases\<close>)
    ultimately show ?thesis using executable_holds [OF e] by (blast intro: moves_trans)
  qed
qed

lemma begin_work_package_planning_moves:
  assumes crew: "run_of_crew ''work_package_planner_crew'' i db" and ids: "distinct (map cx_id (pt_runs db))"
    and b: "begin_work_package_planning hs ids now i inspection db = (result, db')"
  shows "moves db db' \<and> (\<forall>run project x. result = Inr (run, project, x) \<longrightarrow> holds_project db project)"
proof (cases "executable_run (''Work-package planning run '' @ uuid_text i @ '' does not exist'')
    ''Planning run cannot execute from '' i db")
  case (Inl e)
  then show ?thesis using b by (auto simp: begin_work_package_planning_def)
next
  case (Inr x)
  then obtain run project where e: "executable_run (''Work-package planning run '' @ uuid_text i @ '' does not exist'')
      ''Planning run cannot execute from '' i db = Inr (run, project)" by (cases x) auto
  have j: "justified db (cx_project_id r) s"
    if "lawful db" "r \<in> set (pt_runs db)" "cx_id r = i" "s \<noteq> WORK_PACKAGE_APPROVED" for r s
    using crew_status(2) [OF that(1) crew that(2,3) ids] phase_justified(2) that(4) by blast
  show ?thesis
  proof (cases "planning_inputs hs run inspection db")
    case (Inl exc)
    then have "fail_run hs ids now WORK_PACKAGE_FAILED ''work_package.planning.failed'' ''work-package-worker'' i exc db
        = (result, db')"
      using b e by (simp add: begin_work_package_planning_def)
    moreover have "result \<noteq> Inr y" for y
      using calculation by (auto simp: fail_run_def split: option.splits sum.splits)
    moreover have "moves db db'" by (rule moves_fail_run [OF calculation(1)]) (use j in auto)
    ultimately show ?thesis by blast
  next
    case (Inr y)
    obtain r a repository where y: "y = (r, a, repository)" by (cases y)
    have "moves (mark_running now i (pq_id project) ProjectStatus.WORK_PACKAGE_PLANNING db) db'"
      and res: "result = Inr (run, project, r, a, repository)"
      using b e Inr y by (auto simp: begin_work_package_planning_def intro: moves_note_event)
    moreover have "moves db (mark_running now i (pq_id project) ProjectStatus.WORK_PACKAGE_PLANNING db)"
      by (rule moves_mark_running) (use j executable_runD [OF e] in auto)
    ultimately show ?thesis using executable_holds [OF e] by (blast intro: moves_trans)
  qed
qed

lemma moves_finish:
  assumes ok: "execution_ok db e" and p: "provenance hs db" and held: "holds_project db (execution_project e)"
  shows "e = RequirementsExecution run project \<Longrightarrow>
      finish_requirements_run hs ids now run project answer db = (result, db') \<Longrightarrow> moves db db'"
    and "e = ArchitectureExecution run project r \<Longrightarrow>
      finish_architecture_run hs ids now run project r answer db = (result, db') \<Longrightarrow> moves db db'"
    and "e = PlanningExecution run project r a repository \<Longrightarrow>
      finish_work_package_planning hs ids now run project r a repository contract db = (result, db') \<Longrightarrow> moves db db'"
proof -
  have row: "cx_project_id row = pq_id project"
    if known: "known_run db run project" and row: "row \<in> set (pt_runs db)" "cx_id row = cx_id run" for row
  proof -
    obtain run' where "run' \<in> set (pt_runs db)" "same_run run run'" "pq_id project = cx_project_id run"
      using known unfolding known_run_def by blast
    then show ?thesis using same_row_of_run [OF p row(1), of run'] row(2) by (simp add: same_run_def)
  qed
  {
    assume e: "e = RequirementsExecution run project"
      and f: "finish_requirements_run hs ids now run project answer db = (result, db')"
    show "moves db db'"
    proof (cases "store_requirements hs ids now run project answer db")
      case (Inl exc)
      then have "fail_run hs ids now REQUIREMENTS_FAILED ''requirements.run.failed'' ''requirements-worker''
          (cx_id run) exc db = (result, db')"
        using f by (simp add: finish_requirements_run_def)
      then show ?thesis by (rule moves_fail_run) (simp add: requirements_justified requirements_phase_def)
    next
      case (Inr y)
      then show ?thesis using f moves_store_requirements held e by (auto simp: finish_requirements_run_def)
    qed
  next
    assume e: "e = ArchitectureExecution run project r"
      and f: "finish_architecture_run hs ids now run project r answer db = (result, db')"
    then have known: "known_run db run project" and req: "has_requirements db (pq_id project)"
      using ok by (auto simp: has_requirements_def)
    show "moves db db'"
    proof (cases "store_architecture hs ids now run project r answer db")
      case (Inl exc)
      then have "fail_run hs ids now ARCHITECTURE_FAILED ''architecture.run.failed'' ''architecture-worker''
          (cx_id run) exc db = (result, db')"
        using f by (simp add: finish_architecture_run_def)
      then show ?thesis
        by (rule moves_fail_run) (use row [OF known] req in \<open>auto intro!: justifiedI simp: phases\<close>)
    next
      case (Inr y)
      then show ?thesis using f moves_store_architecture held req e by (auto simp: finish_architecture_run_def)
    qed
  next
    assume e: "e = PlanningExecution run project r a repository"
      and f: "finish_work_package_planning hs ids now run project r a repository contract db = (result, db')"
    then have known: "known_run db run project" and req: "has_requirements db (pq_id project)"
      and arch: "has_architecture db (pq_id project)"
      using ok by (auto simp: has_requirements_def has_architecture_def derived_def)
    show "moves db db'"
    proof (cases "store_work_package hs ids now run project r a repository contract db")
      case (Inl exc)
      then have "fail_run hs ids now WORK_PACKAGE_FAILED ''work_package.planning.failed'' ''work-package-worker''
          (cx_id run) exc db = (result, db')"
        using f by (simp add: finish_work_package_planning_def)
      then show ?thesis
        by (rule moves_fail_run) (use row [OF known] req arch in \<open>auto intro!: justifiedI simp: phases\<close>)
    next
      case (Inr y)
      then show ?thesis using f moves_store_work_package held req arch e
        by (auto simp: finish_work_package_planning_def)
    qed
  }
qed

lemma project_step_lawful:
  assumes ok: "system_ok hs s" and l: "lawful_system s" and step: "project_step hs s s'"
  shows "lawful_system s'"
proof -
  have p: "provenance hs (ps_db s)" and ids: "distinct (map cx_id (pt_runs (ps_db s)))"
    using ok unfolding system_ok_def provenance_def by blast+
  have run: "execution_ok (ps_db s) e" "holds_project (ps_db s) (execution_project e)" if "e \<in> set (ps_running s)" for e
    using ok l that unfolding system_ok_def lawful_system_def by blast+
  note keep = set_remove1_subset [THEN subsetD]
  from step show ?thesis
  proof cases
    case (person db')
    then show ?thesis using person_step_moves by (intro lawful_systemI [OF l]) auto
  next
    case (begin_requirements i ids' now run project db')
    then show ?thesis using begin_requirements_run_moves by (intro lawful_systemI [OF l]) auto
  next
    case (begin_architecture i ids' now run project a db')
    then show ?thesis
      using begin_architecture_run_moves [OF begin_architecture(2) ids begin_architecture(3)]
      by (intro lawful_systemI [OF l]) auto
  next
    case (refuse_architecture i ids' now e db')
    then show ?thesis
      using begin_architecture_run_moves [OF refuse_architecture(2) ids refuse_architecture(3)]
      by (intro lawful_systemI [OF l]) auto
  next
    case (begin_planning i ids' now inspection run project r a repository db')
    then show ?thesis
      using begin_work_package_planning_moves [OF begin_planning(2) ids begin_planning(3)]
      by (intro lawful_systemI [OF l]) auto
  next
    case (refuse_planning i ids' now inspection e db')
    then show ?thesis
      using begin_work_package_planning_moves [OF refuse_planning(2) ids refuse_planning(3)]
      by (intro lawful_systemI [OF l]) auto
  next
    case (finish_requirements run project ids' now answer result db')
    then show ?thesis
      using moves_finish(1) [OF run(1) p run(2)] by (intro lawful_systemI [OF l]) (auto dest: keep)
  next
    case (finish_architecture run project a ids' now answer result db')
    then show ?thesis
      using moves_finish(2) [OF run(1) p run(2)] by (intro lawful_systemI [OF l]) (auto dest: keep)
  next
    case (finish_planning run project r a repository ids' now contract result db')
    then show ?thesis
      using moves_finish(3) [OF run(1) p run(2)] by (intro lawful_systemI [OF l]) (auto dest: keep)
  next
    case (crash e)
    then show ?thesis by (intro lawful_systemI [OF l]) (auto dest: keep)
  next
    case (queue q)
    then show ?thesis by (intro lawful_systemI [OF l]) (auto intro: moves_queue)
  qed
qed

lemma reachable_lawful: "project_reachable hs s \<Longrightarrow> lawful_system s"
proof (induction rule: project_reachable.induct)
  case (start q)
  then show ?case by (simp add: lawful_system_def lawful_def no_projects_def)
next
  case (step s s')
  then show ?case using project_step_lawful reachable_ok by blast
qed

end
