(* ===== verification/Project_Sample.thy ===== *)
theory Project_Sample
  imports Project_Lawful
begin

text \<open>
  A project from its creation to an approved work package, for the witnesses: its manifest
  approves the architecture and the work package, and a person approves the requirements. The
  rows of every stage are written out; the queue and the audit trail are whatever the operations
  make of them.
\<close>

section \<open>The rows\<close>

definition sample_hashing :: hashing where
  "sample_hashing = \<lparr>hs_canonical_json = (\<lambda>_. ''{}''), hs_sha256 = (\<lambda>_. replicate 64 CHR ''1'')\<rparr>"

definition sample_digest :: digest where
  "sample_digest = replicate 64 CHR ''1''"

lemma sample_hash [simp]: "hash_text sample_hashing t = sample_digest" "hash_json sample_hashing j = sample_digest"
    "hs_canonical_json sample_hashing j = ''{}''"
  by (simp_all add: sample_hashing_def sample_digest_def hash_text_def hash_json_def)

definition draws :: "uuid \<Rightarrow> uuid \<Rightarrow> uuid \<Rightarrow> nat \<Rightarrow> uuid" where
  "draws x y z n = (if n = 0 then x else if n = 1 then y else z)"

lemma draws [simp]: "draws x y z 0 = x" "draws x y z (Suc 0) = y" "draws x y z 1 = y"
    "1 < n \<Longrightarrow> draws x y z n = z"
  by (simp_all add: draws_def)

definition sample_policy :: dict where
  "sample_policy = [(''autonomous_execution'', JObject [(''enabled'', JBool True),
     (''authority'', JText ''manifest_ingestion''), (''auto_approve_architecture'', JBool True),
     (''auto_approve_work_package'', JBool True)])]"

definition sample_manifest :: dict where
  "sample_manifest = manifest_body 1 ''parser'' ''a parser'' ''/repo'' None ''main'' ''ada'' (Some sample_policy) None
     JNull"

lemma sample_manifest_policy: "map_of sample_manifest ''autonomous_execution'' = map_of sample_policy ''autonomous_execution''"
  by (simp add: sample_manifest_def manifest_body_def sample_policy_def set_default_def dict_merge_def Let_def)

definition sample_project :: "ProjectStatus \<Rightarrow> ProjectModel" where
  "sample_project s = \<lparr>pq_id = 1, pq_name = ''parser'', pq_description = ''a parser'', pq_repository_path = ''/repo'',
     pq_repository_url = None, pq_default_branch = ''main'', pq_status = s, pq_manifest_hash = sample_digest,
     pq_manifest = sample_manifest\<rparr>"

lemma sample_project_simps [simp]: "pq_id (sample_project s) = 1" "pq_status (sample_project s) = s"
    "pq_manifest (sample_project s) = sample_manifest" "(sample_project s)\<lparr>pq_status := t\<rparr> = sample_project t"
    "pq_repository_url (sample_project s) = None" "pq_name (sample_project s) = ''parser''"
    "pq_description (sample_project s) = ''a parser''" "pq_manifest_hash (sample_project s) = sample_digest"
  by (simp_all add: sample_project_def)

lemma sample_auto_approves [simp]:
    "auto_approves (sample_project s) ''requirements.auto_approved'' = False"
    "auto_approves (sample_project s) ''architecture.auto_approved''"
    "auto_approves (sample_project s) ''work_package.auto_approved''"
  by (simp_all add: auto_approves_def sample_manifest_policy) (simp_all add: sample_policy_def)

definition sample_artifact :: "uuid \<Rightarrow> uuid option \<Rightarrow> string \<Rightarrow> string \<Rightarrow> string \<Rightarrow> ArtifactModel" where
  "sample_artifact i run ty media content = \<lparr>af_id = i, af_project_id = 1, af_run_id = run, af_artifact_type = ty,
     af_media_type = media, af_content = content, af_content_hash = sample_digest, af_created_at = 0\<rparr>"

lemma sample_artifact_simps [simp]: "af_id (sample_artifact i run ty media content) = i"
    "af_project_id (sample_artifact i run ty media content) = 1"
    "af_run_id (sample_artifact i run ty media content) = run"
    "af_artifact_type (sample_artifact i run ty media content) = ty"
    "af_content_hash (sample_artifact i run ty media content) = sample_digest"
    "af_created_at (sample_artifact i run ty media content) = 0"
  by (simp_all add: sample_artifact_def)

definition sample_run :: "uuid \<Rightarrow> string \<Rightarrow> RunStatus \<Rightarrow> dict \<Rightarrow> dict option \<Rightarrow> CrewRunModel" where
  "sample_run i crew s input out = \<lparr>cx_id = i, cx_project_id = 1, cx_crew_name = crew, cx_status = s,
     cx_input_payload = input, cx_output_payload = out, cx_error_message = None,
     cx_started_at = (if s = QUEUED then None else Some 0),
     cx_completed_at = (if s = SUCCEEDED then Some 0 else None), cx_created_at = 0\<rparr>"

lemma sample_run_simps [simp]: "cx_id (sample_run i crew s input out) = i" "cx_project_id (sample_run i crew s input out) = 1"
    "cx_crew_name (sample_run i crew s input out) = crew" "cx_status (sample_run i crew s input out) = s"
    "cx_input_payload (sample_run i crew s input out) = input" "cx_output_payload (sample_run i crew s input out) = out"
    "new_run i 0 1 crew input = sample_run i crew QUEUED input None"
    "(sample_run i crew QUEUED input None)\<lparr>cx_status := RUNNING, cx_started_at := Some 0, cx_error_message := None\<rparr>
       = sample_run i crew RUNNING input None"
    "(sample_run i crew RUNNING input None)\<lparr>cx_status := SUCCEEDED, cx_completed_at := Some 0,
       cx_output_payload := Some answer\<rparr> = sample_run i crew SUCCEEDED input (Some answer)"
  by (simp_all add: sample_run_def new_run_def)


definition sample_db ::
  "ProjectStatus \<Rightarrow> CrewRunModel list \<Rightarrow> ArtifactModel list \<Rightarrow> ApprovalModel list \<Rightarrow> WorkPackageModel list \<Rightarrow>
   RequirementsArtifactLineageModel list \<Rightarrow> queue_tables \<Rightarrow> audit_tables \<Rightarrow> project_db" where
  "sample_db s runs artifacts approvals packages lineage q a = \<lparr>pt_projects = [sample_project s], pt_runs = runs,
     pt_artifacts = artifacts, pt_approvals = approvals, pt_packages = packages, pt_requests = [],
     pt_cycles = [], pt_lineage = lineage, pt_queue = q, pt_audit = a\<rparr>"

lemma sample_db_simps [simp]:
    "pt_projects (sample_db s runs artifacts approvals packages lineage q a) = [sample_project s]"
    "pt_runs (sample_db s runs artifacts approvals packages lineage q a) = runs"
    "pt_artifacts (sample_db s runs artifacts approvals packages lineage q a) = artifacts"
    "pt_approvals (sample_db s runs artifacts approvals packages lineage q a) = approvals"
    "pt_packages (sample_db s runs artifacts approvals packages lineage q a) = packages"
    "pt_lineage (sample_db s runs artifacts approvals packages lineage q a) = lineage"
    "pt_queue (sample_db s runs artifacts approvals packages lineage q a) = q"
    "pt_audit (sample_db s runs artifacts approvals packages lineage q a) = a"
    "(sample_db s runs artifacts approvals packages lineage q a)\<lparr>pt_runs := runs'\<rparr>
       = sample_db s runs' artifacts approvals packages lineage q a"
    "(sample_db s runs artifacts approvals packages lineage q a)\<lparr>pt_artifacts := artifacts'\<rparr>
       = sample_db s runs artifacts' approvals packages lineage q a"
    "(sample_db s runs artifacts approvals packages lineage q a)\<lparr>pt_approvals := approvals'\<rparr>
       = sample_db s runs artifacts approvals' packages lineage q a"
    "(sample_db s runs artifacts approvals packages lineage q a)\<lparr>pt_packages := packages'\<rparr>
       = sample_db s runs artifacts approvals packages' lineage q a"
    "(sample_db s runs artifacts approvals packages lineage q a)\<lparr>pt_lineage := lineage'\<rparr>
       = sample_db s runs artifacts approvals packages lineage' q a"
    "(sample_db s runs artifacts approvals packages lineage q a)\<lparr>pt_queue := q'\<rparr>
       = sample_db s runs artifacts approvals packages lineage q' a"
    "(sample_db s runs artifacts approvals packages lineage q a)\<lparr>pt_audit := a'\<rparr>
       = sample_db s runs artifacts approvals packages lineage q a'"
    "set_status 1 s' (sample_db s runs artifacts approvals packages lineage q a)
       = sample_db s' runs artifacts approvals packages lineage q a"
    "get_project 1 (sample_db s runs artifacts approvals packages lineage q a) = Inr (sample_project s)"
    "sample_db s runs artifacts approvals packages lineage q a
       = sample_db s runs artifacts approvals packages lineage q' a' \<longleftrightarrow> q = q' \<and> a = a'"
  by (simp_all add: sample_db_def set_status_def alter_def get_project_def get_row_def)

text \<open>The system reaches these rows, with these executions under way.\<close>

definition sample_reaches ::
  "ProjectStatus \<Rightarrow> CrewRunModel list \<Rightarrow> ArtifactModel list \<Rightarrow> ApprovalModel list \<Rightarrow> WorkPackageModel list \<Rightarrow>
   RequirementsArtifactLineageModel list \<Rightarrow> execution list \<Rightarrow> bool" where
  "sample_reaches s runs artifacts approvals packages lineage es \<longleftrightarrow> (\<exists>q a. project_reachable sample_hashing
     \<lparr>ps_db = sample_db s runs artifacts approvals packages lineage q a, ps_running = es\<rparr>)"

lemma sample_reachesI:
  assumes "sample_reaches s runs artifacts approvals packages lineage es"
    and "\<And>q a. \<exists>q' a'. project_step sample_hashing
      \<lparr>ps_db = sample_db s runs artifacts approvals packages lineage q a, ps_running = es\<rparr>
      \<lparr>ps_db = sample_db s' runs' artifacts' approvals' packages' lineage' q' a', ps_running = es'\<rparr>"
  shows "sample_reaches s' runs' artifacts' approvals' packages' lineage' es'"
  using assms project_reachable.step unfolding sample_reaches_def by blast

lemma sample_person:
  assumes "sample_reaches s runs artifacts approvals packages lineage es"
    and "\<And>q a. \<exists>q' a'. person_step sample_hashing (sample_db s runs artifacts approvals packages lineage q a)
      (sample_db s' runs' artifacts' approvals' packages' lineage' q' a')"
  shows "sample_reaches s' runs' artifacts' approvals' packages' lineage' es"
proof (rule sample_reachesI [OF assms(1)])
  fix q a
  obtain q' a' where "person_step sample_hashing (sample_db s runs artifacts approvals packages lineage q a)
      (sample_db s' runs' artifacts' approvals' packages' lineage' q' a')"
    using assms(2) by blast
  then have "project_step sample_hashing
      \<lparr>ps_db = sample_db s runs artifacts approvals packages lineage q a, ps_running = es\<rparr>
      (\<lparr>ps_db = sample_db s runs artifacts approvals packages lineage q a, ps_running = es\<rparr>
        \<lparr>ps_db := sample_db s' runs' artifacts' approvals' packages' lineage' q' a'\<rparr>)"
    by (intro project_step.person) simp
  then show "\<exists>q' a'. project_step sample_hashing
      \<lparr>ps_db = sample_db s runs artifacts approvals packages lineage q a, ps_running = es\<rparr>
      \<lparr>ps_db = sample_db s' runs' artifacts' approvals' packages' lineage' q' a', ps_running = es\<rparr>"
    by auto
qed

section \<open>The stages\<close>

lemmas sample_operations = note_event_def add_run_def add_artifact_def add_approval_def add_package_def
  insert_row_def update_run_def enqueue_run_def mark_running_def mark_succeeded_def executable_run_def
  run_of_crew_def get_row_def alter_def approval_phase_def auto_approval_def markdown_artifact_def

abbreviation (input) sample_requirements :: ArtifactModel where
  "sample_requirements \<equiv> sample_artifact 3 (Some 10) REQUIREMENTS_SPECIFICATION ''text/markdown'' ''parse''"

abbreviation (input) sample_architecture :: ArtifactModel where
  "sample_architecture \<equiv> sample_artifact 5 (Some 12) ARCHITECTURE_SPECIFICATION ''text/markdown'' ''one module''"

definition sample_manifest_artifact :: ArtifactModel where
  "sample_manifest_artifact = sample_artifact 2 None ''project_manifest'' ''application/json'' ''{}''"

lemma sample_created: "sample_reaches CREATED [] [sample_manifest_artifact] [] [] [] []"
proof -
  have "\<exists>a. create_project sample_hashing (draws 1 2 0) 0 ''parser'' ''a parser'' ''/repo'' None ''main'' ''ada''
      (Some sample_policy) None (Inr JNull) (no_projects q) =
      Inr (sample_project CREATED, sample_db CREATED [] [sample_manifest_artifact] [] [] [] q a)" for q
    by (simp add: create_project_def no_projects_def sample_operations sample_db_def sample_project_def
        sample_manifest_artifact_def sample_artifact_def sample_manifest_def Let_def)
  then obtain q a where "person_step sample_hashing (no_projects q)
      (sample_db CREATED [] [sample_manifest_artifact] [] [] [] q a)"
    using person_step.create by blast
  then have "project_step sample_hashing \<lparr>ps_db = no_projects q, ps_running = []\<rparr>
      (\<lparr>ps_db = no_projects q, ps_running = []\<rparr>\<lparr>ps_db := sample_db CREATED [] [sample_manifest_artifact] [] [] [] q a\<rparr>)"
    by (intro project_step.person) simp
  then show ?thesis
    using project_reachable.step [OF project_reachable.start] unfolding sample_reaches_def by fastforce
qed

definition sample_request :: dict where
  "sample_request = [(''project_name'', JText ''parser''), (''project_description'', JText ''a parser''),
     (''manifest_hash'', JText sample_digest)]"

lemma sample_requirements_queued:
  "sample_reaches REQUIREMENTS_QUEUED [sample_run 10 ''requirements_crew'' QUEUED sample_request None]
     [sample_manifest_artifact] [] [] [] []"
proof (rule sample_person [OF sample_created])
  fix q a
  have "\<exists>q' a'. queue_requirements_run sample_hashing (draws 10 11 0) 0 1 ''ada''
      (sample_db CREATED [] [sample_manifest_artifact] [] [] [] q a) =
      Inr (sample_run 10 ''requirements_crew'' QUEUED sample_request None,
        sample_db REQUIREMENTS_QUEUED [sample_run 10 ''requirements_crew'' QUEUED sample_request None]
          [sample_manifest_artifact] [] [] [] q' a')"
    by (simp add: queue_requirements_run_def sample_operations sample_request_def Let_def)
  then show "\<exists>q' a'. person_step sample_hashing (sample_db CREATED [] [sample_manifest_artifact] [] [] [] q a)
      (sample_db REQUIREMENTS_QUEUED [sample_run 10 ''requirements_crew'' QUEUED sample_request None]
          [sample_manifest_artifact] [] [] [] q' a')"
    using person_step.queue_requirements by blast
qed


abbreviation (input) requirements_run :: "RunStatus \<Rightarrow> dict option \<Rightarrow> CrewRunModel" where
  "requirements_run s out \<equiv> sample_run 10 ''requirements_crew'' s sample_request out"

definition requirements_output :: dict where
  "requirements_output = [(''artifact_type'', JText REQUIREMENTS_SPECIFICATION), (''content_hash'', JText sample_digest)]"

definition sample_lineage :: "RequirementsArtifactLineageModel list" where
  "sample_lineage = [\<lparr>ln_id = 4, ln_artifact_id = 3, ln_revision_cycle_id = None, ln_previous_artifact_id = None,
     ln_version = 1, ln_revision_feedback_hash = None\<rparr>]"

lemmas worker_steps =
  project_step.begin_requirements [of _ "\<lparr>ps_db = db, ps_running = es\<rparr>" for db es, simplified]
  project_step.begin_architecture [of _ "\<lparr>ps_db = db, ps_running = es\<rparr>" for db es, simplified]
  project_step.begin_planning [of _ "\<lparr>ps_db = db, ps_running = es\<rparr>" for db es, simplified]
  project_step.finish_requirements [of run project
    "\<lparr>ps_db = db, ps_running = [RequirementsExecution run project]\<rparr>" for run project db, simplified]
  project_step.finish_architecture [of run project r
    "\<lparr>ps_db = db, ps_running = [ArchitectureExecution run project r]\<rparr>" for run project r db, simplified]
  project_step.finish_planning [of run project r x repository
    "\<lparr>ps_db = db, ps_running = [PlanningExecution run project r x repository]\<rparr>"
    for run project r x repository db, simplified]

lemma sample_requirements_begun:
  "sample_reaches ProjectStatus.REQUIREMENTS_RUNNING [requirements_run RUNNING None] [sample_manifest_artifact] [] [] []
     [RequirementsExecution (requirements_run QUEUED None) (sample_project REQUIREMENTS_QUEUED)]"
proof (rule sample_reachesI [OF sample_requirements_queued])
  fix q a
  let ?db = "sample_db REQUIREMENTS_QUEUED [requirements_run QUEUED None] [sample_manifest_artifact] [] [] [] q a"
  let ?e = "RequirementsExecution (requirements_run QUEUED None) (sample_project REQUIREMENTS_QUEUED)"
  have "run_of_crew ''requirements_crew'' 10 ?db" by (simp add: sample_operations)
  moreover have "\<exists>q' a'. begin_requirements_run sample_hashing (draws 0 0 0) 0 10 ?db =
      (Inr (requirements_run QUEUED None, sample_project REQUIREMENTS_QUEUED),
       sample_db ProjectStatus.REQUIREMENTS_RUNNING [requirements_run RUNNING None] [sample_manifest_artifact]
         [] [] [] q' a')"
    by (simp add: begin_requirements_run_def sample_operations)
  ultimately show "\<exists>q' a'. project_step sample_hashing \<lparr>ps_db = ?db, ps_running = []\<rparr>
      \<lparr>ps_db = sample_db ProjectStatus.REQUIREMENTS_RUNNING [requirements_run RUNNING None]
        [sample_manifest_artifact] [] [] [] q' a', ps_running = [?e]\<rparr>"
    by (blast intro: worker_steps)
qed

lemma sample_requirements_stored:
  "sample_reaches AWAITING_REQUIREMENTS_APPROVAL [requirements_run SUCCEEDED (Some requirements_output)]
     [sample_manifest_artifact, sample_requirements] [] [] sample_lineage []"
proof (rule sample_reachesI [OF sample_requirements_begun])
  fix q a
  let ?db = "sample_db ProjectStatus.REQUIREMENTS_RUNNING [requirements_run RUNNING None] [sample_manifest_artifact]
    [] [] [] q a"
  let ?e = "RequirementsExecution (requirements_run QUEUED None) (sample_project REQUIREMENTS_QUEUED)"
  have "\<exists>q' a'. finish_requirements_run sample_hashing (draws 3 4 0) 0 (requirements_run QUEUED None)
      (sample_project REQUIREMENTS_QUEUED) (Inr \<lparr>cd_markdown = ''parse'', cd_raw_output = []\<rparr>) ?db =
      (Inr (), sample_db AWAITING_REQUIREMENTS_APPROVAL [requirements_run SUCCEEDED (Some requirements_output)]
          [sample_manifest_artifact, sample_requirements] [] [] sample_lineage q' a')"
    by (simp add: finish_requirements_run_def store_requirements_def previous_artifact_def optional_uuid_def
        sample_request_def sample_operations record_initial_artifact_def add_lineage_def requirements_output_def
        sample_lineage_def sample_manifest_artifact_def sample_artifact_def Let_def)
  then show "\<exists>q' a'. project_step sample_hashing \<lparr>ps_db = ?db, ps_running = [?e]\<rparr>
      \<lparr>ps_db = sample_db AWAITING_REQUIREMENTS_APPROVAL [requirements_run SUCCEEDED (Some requirements_output)]
          [sample_manifest_artifact, sample_requirements] [] [] sample_lineage q' a', ps_running = []\<rparr>"
    by (blast intro: worker_steps)
qed

definition human_approval :: ApprovalModel where
  "human_approval = new_approval 20 0 1 3 ''approved'' ''ada'' None"

lemma sample_requirements_approved:
  "sample_reaches REQUIREMENTS_APPROVED [requirements_run SUCCEEDED (Some requirements_output)]
     [sample_manifest_artifact, sample_requirements] [human_approval] [] sample_lineage []"
proof (rule sample_person [OF sample_requirements_stored])
  fix q a
  let ?db = "sample_db AWAITING_REQUIREMENTS_APPROVAL [requirements_run SUCCEEDED (Some requirements_output)]
    [sample_manifest_artifact, sample_requirements] [] [] sample_lineage q a"
  have "\<exists>q' a'. approve_requirements sample_hashing (draws 20 0 0) 0 1 3 True ''ada'' None ?db =
      Inr (sample_project REQUIREMENTS_APPROVED, sample_db REQUIREMENTS_APPROVED
        [requirements_run SUCCEEDED (Some requirements_output)] [sample_manifest_artifact, sample_requirements]
        [human_approval] [] sample_lineage q' a')"
    by (simp add: approve_requirements_def decide_artifact_def find_artifact_def sample_manifest_artifact_def
        sample_operations human_approval_def Let_def)
  then show "\<exists>q' a'. person_step sample_hashing ?db (sample_db REQUIREMENTS_APPROVED
        [requirements_run SUCCEEDED (Some requirements_output)] [sample_manifest_artifact, sample_requirements]
        [human_approval] [] sample_lineage q' a')"
    using person_step.decide_requirements by blast
qed

text \<open>The rows of the requirements phase stay as they are.\<close>

abbreviation (input) second_phase ::
  "ProjectStatus \<Rightarrow> CrewRunModel list \<Rightarrow> ArtifactModel list \<Rightarrow> ApprovalModel list \<Rightarrow> WorkPackageModel list \<Rightarrow>
   queue_tables \<Rightarrow> audit_tables \<Rightarrow> project_db" where
  "second_phase s runs artifacts approvals packages q a \<equiv>
     sample_db s (requirements_run SUCCEEDED (Some requirements_output) # runs)
       (sample_manifest_artifact # sample_requirements # artifacts) (human_approval # approvals) packages
       sample_lineage q a"

abbreviation (input) second_reaches ::
  "ProjectStatus \<Rightarrow> CrewRunModel list \<Rightarrow> ArtifactModel list \<Rightarrow> ApprovalModel list \<Rightarrow> WorkPackageModel list \<Rightarrow>
   execution list \<Rightarrow> bool" where
  "second_reaches s runs artifacts approvals packages es \<equiv>
     sample_reaches s (requirements_run SUCCEEDED (Some requirements_output) # runs)
       (sample_manifest_artifact # sample_requirements # artifacts) (human_approval # approvals) packages
       sample_lineage es"

definition architecture_input :: dict where
  "architecture_input = [(''requirements_artifact_id'', uuid_json 3), (''requirements_artifact_hash'', JText sample_digest)]"

definition architecture_output :: dict where
  "architecture_output = [(''artifact_id'', uuid_json 5), (''artifact_type'', JText ARCHITECTURE_SPECIFICATION),
     (''content_hash'', JText sample_digest), (''source_requirements_artifact_id'', uuid_json 3),
     (''source_requirements_hash'', JText sample_digest)]"

abbreviation (input) architecture_run :: "RunStatus \<Rightarrow> dict option \<Rightarrow> CrewRunModel" where
  "architecture_run s out \<equiv> sample_run 12 ''architecture_crew'' s architecture_input out"

lemma sample_architecture_queued:
  "second_reaches ARCHITECTURE_QUEUED [architecture_run QUEUED None] [] [] [] []"
proof (rule sample_person [OF sample_requirements_approved])
  fix q a
  let ?db = "second_phase REQUIREMENTS_APPROVED [] [] [] [] q a"
  have "\<exists>q' a'. queue_architecture_run sample_hashing (draws 12 13 0) 0 1 ''ada'' ?db =
      Inr (architecture_run QUEUED None, second_phase ARCHITECTURE_QUEUED [architecture_run QUEUED None] [] [] [] q' a')"
    by (simp add: queue_architecture_run_def latest_artifact_def first_by_def approvals_of_def
        architecture_revision_context_def text_entries_def architecture_input_def uuid_json_def
        sample_manifest_artifact_def sample_operations human_approval_def new_approval_def Let_def)
  then show "\<exists>q' a'. person_step sample_hashing ?db
      (second_phase ARCHITECTURE_QUEUED [architecture_run QUEUED None] [] [] [] q' a')"
    using person_step.queue_architecture by blast
qed

lemma sample_architecture_begun:
  "second_reaches ProjectStatus.ARCHITECTURE_RUNNING [architecture_run RUNNING None] [] [] []
     [ArchitectureExecution (architecture_run QUEUED None) (sample_project ARCHITECTURE_QUEUED) sample_requirements]"
proof (rule sample_reachesI [OF sample_architecture_queued])
  fix q a
  let ?db = "second_phase ARCHITECTURE_QUEUED [architecture_run QUEUED None] [] [] [] q a"
  let ?e = "ArchitectureExecution (architecture_run QUEUED None) (sample_project ARCHITECTURE_QUEUED) sample_requirements"
  have "run_of_crew ''architecture_crew'' 12 ?db" by (simp add: sample_operations)
  moreover have "\<exists>q' a'. begin_architecture_run sample_hashing (draws 0 0 0) 0 12 ?db =
      (Inr (architecture_run QUEUED None, sample_project ARCHITECTURE_QUEUED, sample_requirements),
       second_phase ProjectStatus.ARCHITECTURE_RUNNING [architecture_run RUNNING None] [] [] [] q' a')"
    by (simp add: begin_architecture_run_def architecture_source_def required_uuid_def required_value_def
        architecture_input_def uuid_json_def find_artifact_def approvals_of_def sample_manifest_artifact_def
        sample_operations human_approval_def new_approval_def)
  ultimately show "\<exists>q' a'. project_step sample_hashing \<lparr>ps_db = ?db, ps_running = []\<rparr>
      \<lparr>ps_db = second_phase ProjectStatus.ARCHITECTURE_RUNNING [architecture_run RUNNING None] [] [] [] q' a',
       ps_running = [?e]\<rparr>"
    by (blast intro: worker_steps)
qed

definition policy_approval :: "uuid \<Rightarrow> uuid \<Rightarrow> ApprovalModel" where
  "policy_approval i artifact_id = new_approval i 0 1 artifact_id ''approved'' ''manifest-autonomy-policy''
     (Some (''Approved automatically because the ingested manifesto enabled '' @ ''controlled autonomous execution.''))"

lemma sample_policy_event:
  "append_auto_approval_event sample_hashing ids n (sample_project s) a event_type db =
     Inr (note_event sample_hashing ids n 1 event_type ''system'' ''manifest-autonomy-policy''
       [(''artifact_id'', uuid_json (af_id a)), (''artifact_hash'', JText (af_content_hash a)),
        (''authority'', JText ''manifest_ingestion''), (''mode'', JText ''controlled_demo'')] db)"
  by (simp add: append_auto_approval_event_def sample_manifest_policy) (simp add: sample_policy_def)

lemma sample_architecture_stored:
  "second_reaches ARCHITECTURE_APPROVED [architecture_run SUCCEEDED (Some architecture_output)] [sample_architecture]
     [policy_approval 21 5] [] []"
proof (rule sample_reachesI [OF sample_architecture_begun])
  fix q a
  let ?db = "second_phase ProjectStatus.ARCHITECTURE_RUNNING [architecture_run RUNNING None] [] [] [] q a"
  let ?e = "ArchitectureExecution (architecture_run QUEUED None) (sample_project ARCHITECTURE_QUEUED) sample_requirements"
  have "\<exists>q' a'. finish_architecture_run sample_hashing (draws 5 0 21) 0 (architecture_run QUEUED None)
      (sample_project ARCHITECTURE_QUEUED) sample_requirements
      (Inr \<lparr>cd_markdown = ''one module'', cd_raw_output = []\<rparr>) ?db =
      (Inr (), second_phase ARCHITECTURE_APPROVED [architecture_run SUCCEEDED (Some architecture_output)]
        [sample_architecture] [policy_approval 21 5] [] q' a')"
    by (simp add: finish_architecture_run_def store_architecture_def sample_operations architecture_output_def
        sample_policy_event policy_approval_def human_approval_def new_approval_def sample_manifest_artifact_def
        sample_artifact_def [symmetric] Let_def)
  then show "\<exists>q' a'. project_step sample_hashing \<lparr>ps_db = ?db, ps_running = [?e]\<rparr>
      \<lparr>ps_db = second_phase ARCHITECTURE_APPROVED [architecture_run SUCCEEDED (Some architecture_output)]
        [sample_architecture] [policy_approval 21 5] [] q' a', ps_running = []\<rparr>"
    by (blast intro: worker_steps)
qed

abbreviation (input) third_phase ::
  "ProjectStatus \<Rightarrow> CrewRunModel list \<Rightarrow> ArtifactModel list \<Rightarrow> ApprovalModel list \<Rightarrow> WorkPackageModel list \<Rightarrow>
   queue_tables \<Rightarrow> audit_tables \<Rightarrow> project_db" where
  "third_phase s runs artifacts approvals packages q a \<equiv>
     second_phase s (architecture_run SUCCEEDED (Some architecture_output) # runs) (sample_architecture # artifacts)
       (policy_approval 21 5 # approvals) packages q a"

abbreviation (input) third_reaches ::
  "ProjectStatus \<Rightarrow> CrewRunModel list \<Rightarrow> ArtifactModel list \<Rightarrow> ApprovalModel list \<Rightarrow> WorkPackageModel list \<Rightarrow>
   execution list \<Rightarrow> bool" where
  "third_reaches s runs artifacts approvals packages es \<equiv>
     second_reaches s (architecture_run SUCCEEDED (Some architecture_output) # runs) (sample_architecture # artifacts)
       (policy_approval 21 5 # approvals) packages es"

abbreviation (input) planning_run :: "RunStatus \<Rightarrow> dict option \<Rightarrow> CrewRunModel" where
  "planning_run s out \<equiv> sample_run 14 ''work_package_planner_crew'' s
     (source_entries sample_requirements sample_architecture) out"

lemma sample_planning_queued:
  "third_reaches WORK_PACKAGE_QUEUED [planning_run QUEUED None] [] [] [] []"
proof (rule sample_person [OF sample_architecture_stored])
  fix q a
  let ?db = "third_phase ARCHITECTURE_APPROVED [] [] [] [] q a"
  have "get_latest_approved_artifact 1 ARCHITECTURE_SPECIFICATION ?db = Inr sample_architecture"
    by (simp add: get_latest_approved_artifact_def first_by_def policy_approval_def human_approval_def
        new_approval_def sample_manifest_artifact_def)
  then have "planning_sources sample_hashing (sample_project ARCHITECTURE_APPROVED) ?db =
      Inr (sample_requirements, sample_architecture)"
    by (simp add: planning_sources_def sample_operations architecture_output_def required_uuid_def uuid_json_def
        load_artifact_def sample_manifest_artifact_def)
  then have "\<exists>q' a'. queue_work_package_planning sample_hashing (draws 14 15 0) 0 1 ''ada'' ?db =
      Inr (planning_run QUEUED None, third_phase WORK_PACKAGE_QUEUED [planning_run QUEUED None] [] [] [] q' a')"
    by (simp add: queue_work_package_planning_def planning_revision_context_def sample_operations Let_def)
  then show "\<exists>q' a'. person_step sample_hashing ?db
      (third_phase WORK_PACKAGE_QUEUED [planning_run QUEUED None] [] [] [] q' a')"
    using person_step.queue_planning by blast
qed

definition sample_repository :: RepositorySnapshot where
  "sample_repository = \<lparr>rx_commit_sha = replicate 40 CHR ''a'', rx_is_clean = True, rx_tracked_files = [''README.md'']\<rparr>"

lemma sample_planning_begun:
  "third_reaches ProjectStatus.WORK_PACKAGE_PLANNING [planning_run RUNNING None] [] [] []
     [PlanningExecution (planning_run QUEUED None) (sample_project WORK_PACKAGE_QUEUED) sample_requirements
        sample_architecture sample_repository]"
proof (rule sample_reachesI [OF sample_planning_queued])
  fix q a
  let ?db = "third_phase WORK_PACKAGE_QUEUED [planning_run QUEUED None] [] [] [] q a"
  let ?e = "PlanningExecution (planning_run QUEUED None) (sample_project WORK_PACKAGE_QUEUED) sample_requirements
    sample_architecture sample_repository"
  have "run_of_crew ''work_package_planner_crew'' 14 ?db" by (simp add: sample_operations)
  moreover have "planning_inputs sample_hashing (planning_run QUEUED None) (Inr sample_repository) ?db =
      Inr (sample_requirements, sample_architecture, sample_repository)"
    by (simp add: planning_inputs_def required_uuid_def required_value_def source_entries_def uuid_json_def
        load_artifact_def get_row_def sample_manifest_artifact_def sample_repository_def)
  then have "\<exists>q' a'. begin_work_package_planning sample_hashing (draws 0 0 0) 0 14 (Inr sample_repository) ?db =
      (Inr (planning_run QUEUED None, sample_project WORK_PACKAGE_QUEUED, sample_requirements, sample_architecture,
         sample_repository),
       third_phase ProjectStatus.WORK_PACKAGE_PLANNING [planning_run RUNNING None] [] [] [] q' a')"
    by (simp add: begin_work_package_planning_def sample_operations)
  ultimately show "\<exists>q' a'. project_step sample_hashing \<lparr>ps_db = ?db, ps_running = []\<rparr>
      \<lparr>ps_db = third_phase ProjectStatus.WORK_PACKAGE_PLANNING [planning_run RUNNING None] [] [] [] q' a',
       ps_running = [?e]\<rparr>"
    by (blast intro: worker_steps)
qed

text \<open>The planner proposes the sample contract; its paths come out normalized and its sources fixed.\<close>

definition planned_contract :: WorkPackageContract where
  "planned_contract = sample_contract\<lparr>wc_project_id := uuid_text 1, wc_base_commit_sha := replicate 40 CHR ''a'',
     wc_source_requirements_artifact_id := uuid_text 3, wc_source_requirements_hash := sample_digest,
     wc_source_architecture_artifact_id := uuid_text 5, wc_source_architecture_hash := sample_digest,
     wc_file_scope := (wc_file_scope sample_contract)\<lparr>
       fs_allowed_files := [''src/parser.py'', ''README.md''], fs_allowed_directories := [''src'']\<rparr>\<rparr>"

lemma sample_contract_accepted:
  "accepted_contract (sample_project s) sample_requirements sample_architecture sample_repository sample_contract =
     Inr planned_contract"
proof -
  have p: "validate_path '' src//parser.py '' = Inr ''src/parser.py''" "validate_path ''README.md'' = Inr ''README.md''"
    "validate_path ''./src'' = Inr ''src''"
    by code_simp+
  have h: "validate_hash 40 (replicate 40 CHR ''a'') = Inr (replicate 40 CHR ''a'')"
    "validate_hash 64 sample_digest = Inr sample_digest"
    unfolding sample_digest_def by code_simp+
  have e: "valid_change (hd (wc_required_changes sample_contract))"
    "valid_criterion (hd (wc_acceptance_criteria sample_contract))"
    "valid_commands (wc_command_policy sample_contract)" "validate_allowlist (wc_network sample_contract)"
    by code_simp+
  have m: "model_validate (assign_identity (sample_project s) sample_requirements sample_architecture
      sample_repository sample_contract) = Inr planned_contract"
    using p h e by (simp add: model_validate_def assign_identity_def planned_contract_def sample_contract_def
        valid_file_scope_def validate_paths_def between_def valid_resources_def sample_repository_def)
  have "validate_repository_boundaries planned_contract [''README.md''] = Inr ()"
    by code_simp
  then show ?thesis
    using m by (simp add: accepted_contract_def contract_result_def planned_contract_def sample_repository_def)
qed

definition sample_package :: WorkPackageModel where
  "sample_package = planned_package sample_hashing (draws 7 6 22) 0 (planning_run QUEUED None)
     (sample_project WORK_PACKAGE_QUEUED) sample_requirements sample_architecture planned_contract APPROVED"

definition planning_output :: dict where
  "planning_output = [(''work_package_id'', uuid_json 7), (''artifact_id'', uuid_json 6),
     (''contract_hash'', JText sample_digest), (''base_commit_sha'', JText (replicate 40 CHR ''a''))]"

lemma sample_package_stored:
  "third_reaches WORK_PACKAGE_APPROVED [planning_run SUCCEEDED (Some planning_output)]
     [sample_artifact 6 (Some 14) WORK_PACKAGE ''application/json'' ''{}''] [policy_approval 22 6] [sample_package] []"
proof (rule sample_reachesI [OF sample_planning_begun])
  fix q a
  let ?db = "third_phase ProjectStatus.WORK_PACKAGE_PLANNING [planning_run RUNNING None] [] [] [] q a"
  let ?e = "PlanningExecution (planning_run QUEUED None) (sample_project WORK_PACKAGE_QUEUED) sample_requirements
    sample_architecture sample_repository"
  let ?db' = "third_phase WORK_PACKAGE_APPROVED [planning_run SUCCEEDED (Some planning_output)]
    [sample_artifact 6 (Some 14) WORK_PACKAGE ''application/json'' ''{}''] [policy_approval 22 6] [sample_package]"
  have sha: "wc_base_commit_sha planned_contract = replicate 40 CHR ''a''" by (simp add: planned_contract_def)
  have "\<exists>q' a'. finish_work_package_planning sample_hashing (draws 7 6 22) 0 (planning_run QUEUED None)
      (sample_project WORK_PACKAGE_QUEUED) sample_requirements sample_architecture sample_repository
      (Inr sample_contract) ?db = (Inr (), ?db' q' a')"
    by (simp add: finish_work_package_planning_def store_work_package_def sample_contract_accepted sample_operations
        planning_output_def sha sample_policy_event policy_approval_def human_approval_def new_approval_def
        sample_manifest_artifact_def sample_artifact_def [symmetric] sample_package_def [symmetric] Let_def)
  then show "\<exists>q' a'. project_step sample_hashing \<lparr>ps_db = ?db, ps_running = [?e]\<rparr> \<lparr>ps_db = ?db' q' a', ps_running = []\<rparr>"
    by (blast intro: worker_steps)
qed

end
