(* ===== verification/Project_Guarantees.thy ===== *)
theory Project_Guarantees
  imports Project_Sample
begin

text \<open>
  What the delivery of a project promises, over every state its system reaches, and where it
  stops. The sample of \<open>Project_Sample\<close> is the witness.
\<close>

section \<open>Where a work package comes from\<close>

text \<open>
  C3: In every reachable state each work package follows an accepted contract whose identity, commit
  and sources are those of the row; its sources are an approved architecture and the approved
  requirements that architecture was drawn up from, both intact, and the contract itself is kept as
  an artifact with its hash.
\<close>

theorem work_packages_have_provenance:
  assumes "project_reachable hs s" and "w \<in> set (pt_packages (ps_db s))"
  shows "(\<exists>r a c. derived (ps_db s) (wk_project_id w) r a \<and> package_follows hs w r a c \<and>
      af_content_hash r = hash_text hs (af_content r) \<and> af_content_hash a = hash_text hs (af_content a)) \<and>
    package_artifact hs (ps_db s) w"
proof -
  have p: "provenance hs (ps_db s)" using reachable_ok [OF assms(1)] unfolding system_ok_def by blast
  then obtain r a c where d: "derived (ps_db s) (wk_project_id w) r a" "package_follows hs w r a c"
      "package_artifact hs (ps_db s) w"
    using assms(2) unfolding provenance_def package_ok_def by blast
  moreover have "r \<in> set (pt_artifacts (ps_db s))" "a \<in> set (pt_artifacts (ps_db s))"
    using d(1) unfolding derived_def approved_requirements_def by blast+
  ultimately show ?thesis using p unfolding provenance_def artifact_ok_def by blast
qed

theorem work_packages_have_provenance_witness:
  "\<exists>s. project_reachable sample_hashing s \<and> pt_packages (ps_db s) = [sample_package] \<and>
     (\<exists>r a c. derived (ps_db s) 1 r a \<and> package_follows sample_hashing sample_package r a c)"
proof -
  obtain s where s: "project_reachable sample_hashing s" "pt_packages (ps_db s) = [sample_package]"
    using sample_package_stored unfolding sample_reaches_def by fastforce
  have "wk_project_id sample_package = 1" by (simp add: sample_package_def planned_package_def)
  then show ?thesis using work_packages_have_provenance [OF s(1), of sample_package] s by auto
qed

section \<open>What a phase and an approval rest on\<close>

text \<open>
  C4: In every reachable state a project is past its requirements only with approved requirements,
  past its architecture only with an approved architecture, and approved only with a work package
  whose artifact is approved; a work package is approved only if its artifact is.
\<close>

theorem phases_rest_on_approvals:
  assumes "project_reachable hs s" and "p \<in> set (pt_projects (ps_db s))"
  shows "(pq_status p \<notin> requirements_phase \<longrightarrow> has_requirements (ps_db s) (pq_id p)) \<and>
    (pq_status p \<notin> requirements_phase \<union> architecture_phase \<longrightarrow> has_architecture (ps_db s) (pq_id p)) \<and>
    (pq_status p = WORK_PACKAGE_APPROVED \<longrightarrow> has_package (ps_db s) (pq_id p)) \<and>
    (\<forall>w\<in>set (pt_packages (ps_db s)). wk_status w = APPROVED \<longrightarrow>
       (\<exists>x. wk_artifact_id w = Some x \<and> approved_by (ps_db s) x))"
  using reachable_lawful [OF assms(1)] assms(2)
  unfolding lawful_system_def lawful_def justified_def package_lawful_def by blast

theorem phases_rest_on_approvals_witness:
  "\<exists>s p. project_reachable sample_hashing s \<and> p \<in> set (pt_projects (ps_db s)) \<and>
     pq_status p = WORK_PACKAGE_APPROVED \<and> has_requirements (ps_db s) (pq_id p) \<and>
     has_architecture (ps_db s) (pq_id p) \<and> has_package (ps_db s) (pq_id p)"
proof -
  obtain s where s: "project_reachable sample_hashing s"
      "pt_projects (ps_db s) = [sample_project WORK_PACKAGE_APPROVED]"
    using sample_package_stored unfolding sample_reaches_def by fastforce
  have "WORK_PACKAGE_APPROVED \<notin> requirements_phase \<union> architecture_phase"
    by (simp add: requirements_phase_def architecture_phase_def)
  then show ?thesis
    using phases_rest_on_approvals [OF s(1), of "sample_project WORK_PACKAGE_APPROVED"] s
    by (intro exI [of _ s] exI [of _ "sample_project WORK_PACKAGE_APPROVED"]) simp
qed

text \<open>
  C13: Every approval of a reachable state has its event in the audit trail of its project, which
  names the artifact and was made by the person who decided, or by the policy that the manifest of
  the project enables for that phase.
\<close>

theorem approvals_have_authority:
  assumes "project_reachable hs s" and "y \<in> set (pt_approvals (ps_db s))" and "ay_decision y = ''approved''"
  shows "\<exists>e\<in>set (au_events (pt_audit (ps_db s))). ae_project_id e = Some (ay_project_id y) \<and>
    map_of (ae_payload e) ''artifact_id'' = Some (uuid_json (ay_artifact_id y)) \<and>
    (ae_actor_type e = ''human'' \<and> ae_actor_id e = ay_reviewer y \<and>
       ae_event_type e \<in> {''requirements.approved'', ''architecture.approved'', ''work_package.approved''} \<or>
     ae_actor_type e = ''system'' \<and> ae_actor_id e = ''manifest-autonomy-policy'' \<and>
       (\<exists>p\<in>set (pt_projects (ps_db s)). pq_id p = ay_project_id y \<and> auto_approves p (ae_event_type e)))"
proof -
  have "approval_lawful (ps_db s) y"
    using reachable_lawful [OF assms(1)] assms(2) unfolding lawful_system_def lawful_def by blast
  then show ?thesis using assms(3) unfolding approval_lawful_def backs_def by blast
qed

theorem approvals_have_authority_witness:
  "\<exists>s. project_reachable sample_hashing s \<and> human_approval \<in> set (pt_approvals (ps_db s)) \<and>
     (\<exists>e\<in>set (au_events (pt_audit (ps_db s))). ae_project_id e = Some 1 \<and>
        map_of (ae_payload e) ''artifact_id'' = Some (uuid_json 3) \<and>
        ae_actor_id e \<in> {''ada'', ''manifest-autonomy-policy''})"
proof -
  obtain s where s: "project_reachable sample_hashing s" "human_approval \<in> set (pt_approvals (ps_db s))"
    using sample_requirements_approved unfolding sample_reaches_def by fastforce
  have "ay_decision human_approval = ''approved''" "ay_project_id human_approval = 1"
      "ay_artifact_id human_approval = 3" "ay_reviewer human_approval = ''ada''"
    by (simp_all add: human_approval_def new_approval_def)
  then show ?thesis using approvals_have_authority [OF s] s by (intro exI [of _ s]) auto
qed

section \<open>Where a project stops\<close>

text \<open>What a person may ask of a project, and a worker of its runs.\<close>

definition refused_by_all :: "hashing \<Rightarrow> uuid \<Rightarrow> project_db \<Rightarrow> bool" where
  "refused_by_all hs i db \<longleftrightarrow> (\<forall>ids now actor artifact_id run_id decision comment review.
     (\<exists>e. queue_requirements_run hs ids now i actor db = Inl e) \<and>
     (\<exists>e. approve_requirements hs ids now i artifact_id decision actor comment db = Inl e) \<and>
     (\<exists>e. request_changes hs ids now i run_id artifact_id actor review db = Inl e) \<and>
     (\<exists>e. queue_architecture_run hs ids now i actor db = Inl e) \<and>
     (\<exists>e. approve_architecture hs ids now i artifact_id decision actor comment db = Inl e) \<and>
     (\<exists>e. queue_work_package_planning hs ids now i actor db = Inl e) \<and>
     (\<exists>e. approve_work_package hs ids now i artifact_id decision actor comment db = Inl e))"

lemma refused_by_all:
  assumes p: "get_project i db = Inr project"
    and s: "pq_status project \<notin> {CREATED, REQUIREMENTS_FAILED, REQUIREMENTS_REJECTED, AWAITING_REQUIREMENTS_APPROVAL,
      ARCHITECTURE_FAILED, ARCHITECTURE_REJECTED, AWAITING_ARCHITECTURE_APPROVAL, ARCHITECTURE_APPROVED,
      WORK_PACKAGE_FAILED, WORK_PACKAGE_REJECTED, AWAITING_WORK_PACKAGE_APPROVAL}"
    and a: "pq_status project = REQUIREMENTS_APPROVED \<Longrightarrow>
      (\<exists>r. latest_artifact i REQUIREMENTS_SPECIFICATION db = Some r \<and> approvals_of i (af_id r) db = [])"
  shows "refused_by_all hs i db"
proof -
  have i: "pq_id project = i" using p get_projectD by blast
  have "\<exists>e. queue_architecture_run hs ids now i actor db = Inl e" for ids now actor
    using p s a i by (cases "pq_status project = REQUIREMENTS_APPROVED") (auto simp: queue_architecture_run_def)
  moreover have "\<exists>e. request_changes hs ids now i run_id artifact_id actor review db = Inl e"
    for ids now run_id artifact_id actor review
    using p s by (cases "find_artifact artifact_id i REQUIREMENTS_SPECIFICATION db") (auto simp: request_changes_def)
  ultimately show ?thesis
    unfolding refused_by_all_def using p s
    by (auto simp: queue_requirements_run_def approve_requirements_def decide_artifact_def approve_architecture_def
        queue_work_package_planning_def approve_work_package_def)
qed

text \<open>
  C39: A project whose worker disappeared between the two transactions of a run stays where it is: no
  operation a person can call on it succeeds, and no worker can execute one of its runs again, so
  the retry of the job fails as well.
\<close>

theorem interrupted_run_blocks_project:
  assumes "get_project i db = Inr project"
    and "pq_status project \<in> {ProjectStatus.REQUIREMENTS_RUNNING, ProjectStatus.ARCHITECTURE_RUNNING,
      ProjectStatus.WORK_PACKAGE_PLANNING}"
    and "get_row cx_id run_id (pt_runs db) = Some run" and "cx_status run = RUNNING"
  shows "refused_by_all hs i db \<and>
    (\<forall>ids ids' now now' answer inspection contract.
       execute_requirements_run hs ids ids' now now' run_id answer db =
         (Inl (InvalidProjectStateError ''Requirements run cannot execute from running''), db) \<and>
       execute_architecture_run hs ids ids' now now' run_id answer db =
         (Inl (InvalidProjectStateError ''Architecture run cannot execute from running''), db) \<and>
       execute_work_package_planning hs ids ids' now now' run_id inspection contract db =
         (Inl (InvalidProjectStateError ''Planning run cannot execute from running''), db))"
  using refused_by_all [OF assms(1), of hs] assms
  by (auto simp: execute_requirements_run_def begin_requirements_run_def execute_architecture_run_def
      begin_architecture_run_def execute_work_package_planning_def begin_work_package_planning_def
      executable_run_def)

theorem interrupted_run_blocks_project_witness:
  "\<exists>s. project_reachable sample_hashing s \<and> ps_running s = [] \<and> refused_by_all sample_hashing 1 (ps_db s) \<and>
     (\<forall>answer. execute_requirements_run sample_hashing (draws 0 0 0) (draws 0 0 0) 0 1 10 answer (ps_db s) =
       (Inl (InvalidProjectStateError ''Requirements run cannot execute from running''), ps_db s))"
proof -
  let ?e = "RequirementsExecution (requirements_run QUEUED None) (sample_project REQUIREMENTS_QUEUED)"
  obtain q a where r: "project_reachable sample_hashing \<lparr>ps_db = sample_db ProjectStatus.REQUIREMENTS_RUNNING
      [requirements_run RUNNING None] [sample_manifest_artifact] [] [] [] q a, ps_running = [?e]\<rparr>"
    using sample_requirements_begun unfolding sample_reaches_def by blast
  let ?db = "sample_db ProjectStatus.REQUIREMENTS_RUNNING [requirements_run RUNNING None] [sample_manifest_artifact]
    [] [] [] q a"
  have "project_reachable sample_hashing \<lparr>ps_db = ?db, ps_running = []\<rparr>"
    using project_reachable.step [OF r project_step.crash [of _ _ ?e]] by simp
  moreover have "get_row cx_id 10 (pt_runs ?db) = Some (requirements_run RUNNING None)" by (simp add: get_row_def)
  ultimately show ?thesis
    using interrupted_run_blocks_project [of 1 ?db "sample_project ProjectStatus.REQUIREMENTS_RUNNING" 10
        "requirements_run RUNNING None" sample_hashing]
    by (intro exI [of _ "\<lparr>ps_db = ?db, ps_running = []\<rparr>"]) simp
qed

lemma get_project_set_status:
  "get_project i db = Inr project \<Longrightarrow> get_project i (set_status i s db) = Inr (project\<lparr>pq_status := s\<rparr>)"
proof -
  have "get_row pq_id i (alter (\<lambda>p. pq_id p = i) (\<lambda>p. p\<lparr>pq_status := s\<rparr>) rows) = Some (project\<lparr>pq_status := s\<rparr>)"
    if "get_row pq_id i rows = Some project" for rows
    using that by (induction rows) (auto simp: get_row_def alter_def split: if_splits)
  then show "get_project i db = Inr project \<Longrightarrow> ?thesis"
    by (auto simp: get_project_def set_status_def split: option.splits)
qed

text \<open>
  C40: Approving an older specification of requirements while the latest one has no approval succeeds
  and leaves the project where no operation on it succeeds: the architecture is drawn up from the
  latest specification only, and that one can no longer be decided on.
\<close>

theorem older_approval_blocks_project:
  assumes approve: "approve_requirements hs ids now i artifact_id True reviewer comment db = Inr (project, db')"
    and latest: "latest_artifact i REQUIREMENTS_SPECIFICATION db = Some r" "af_id r \<noteq> artifact_id"
      "approvals_of i (af_id r) db = []"
  shows "get_project i db' = Inr project \<and> pq_status project = REQUIREMENTS_APPROVED \<and> refused_by_all hs i db'"
proof -
  obtain p a db1 n k ty who x where p: "get_project i db = Inr p"
    and a: "find_artifact artifact_id i REQUIREMENTS_SPECIFICATION db = Inr a"
    and db1: "add_approval (new_approval (ids 0) now (pq_id p) (af_id a) ''approved'' reviewer comment)
      (set_status (pq_id p) REQUIREMENTS_APPROVED db) = Inr db1"
    and project: "project = p\<lparr>pq_status := REQUIREMENTS_APPROVED\<rparr>" and db': "db' = note_event hs ids n k ty who reviewer x db1"
    using approve by (auto simp: approve_requirements_def decide_artifact_def result_simps split: if_splits)
  have "pq_id p = i" using p get_projectD by blast
  moreover have "af_id a = artifact_id"
    using a by (auto simp: find_artifact_def find_Some_iff split: option.splits)
  ultimately have rows: "pt_projects db' = pt_projects (set_status i REQUIREMENTS_APPROVED db)"
      "pt_artifacts db' = pt_artifacts db"
      "pt_approvals db' = pt_approvals db @ [new_approval (ids 0) now i artifact_id ''approved'' reviewer comment]"
    using db1 by (auto simp: db' note_event_def add_approval_def insert_row_def set_status_def result_simps
        split: if_splits)
  have g: "get_project i db' = Inr project"
    using get_project_set_status [OF p] project by (simp add: get_project_def rows)
  have "latest_artifact i REQUIREMENTS_SPECIFICATION db' = Some r" "approvals_of i (af_id r) db' = []"
    using latest by (simp_all add: latest_artifact_def approvals_of_def rows new_approval_def)
  then show ?thesis using refused_by_all [OF g, of hs] g project by simp
qed

theorem older_approval_blocks_project_witness:
  "\<exists>q a db'. approve_requirements sample_hashing (draws 20 0 0) 0 1 30 True ''ada'' None
      (sample_db AWAITING_REQUIREMENTS_APPROVAL [] [sample_requirements,
        sample_artifact 30 None REQUIREMENTS_SPECIFICATION ''text/markdown'' ''older''] [] [] [] q a) =
      Inr (sample_project REQUIREMENTS_APPROVED, db') \<and> refused_by_all sample_hashing 1 db'"
proof -
  define q :: queue_tables where "q = \<lparr>qt_jobs = [], qt_attempts = [], qt_workers = [], qt_cycles = []\<rparr>"
  define a :: audit_tables where "a = \<lparr>au_events = [], au_chain = []\<rparr>"
  let ?db = "sample_db AWAITING_REQUIREMENTS_APPROVAL [] [sample_requirements,
    sample_artifact 30 None REQUIREMENTS_SPECIFICATION ''text/markdown'' ''older''] [] [] [] q a"
  obtain db' where d: "approve_requirements sample_hashing (draws 20 0 0) 0 1 30 True ''ada'' None ?db =
      Inr (sample_project REQUIREMENTS_APPROVED, db')"
    by (simp add: approve_requirements_def decide_artifact_def find_artifact_def sample_operations Let_def)
  have "latest_artifact 1 REQUIREMENTS_SPECIFICATION ?db = Some sample_requirements"
      "approvals_of 1 3 ?db = []"
    by (simp_all add: latest_artifact_def first_by_def approvals_of_def)
  then show ?thesis using older_approval_blocks_project [OF d, of sample_requirements] d by auto
qed

end
