(* ===== verification/Broker_Auth.thy ===== *)
theory Broker_Auth
  imports Complex_Main Py_Text
begin

text \<open>
  Request authentication of the restricted execution broker,
  \<^verbatim>\<open>infrastructure/execution_broker/auth.py\<close>: the two nonce stores (an in-process dictionary
  and an SQLite table) and the authenticator that uses one of them through the \<^verbatim>\<open>NonceStore\<close>
  protocol. Floating-point clock readings are rationals. SHA-256 and HMAC-SHA-256 are the
  parameters \<open>sha256\<close> and \<open>hmac_sha256\<close>; a \<^verbatim>\<open>bytes\<close> value is a \<open>string\<close> of its bytes.
\<close>

type_synonym clock = rat

section \<open>Nonce stores\<close>

text \<open>\<^verbatim>\<open>MemoryNonceStore\<close>: a dictionary from nonce to the time until which it is retained.\<close>

type_synonym memory_store = "uuid \<rightharpoonup> clock"

definition memory_reserve ::
  "uuid \<Rightarrow> clock \<Rightarrow> clock \<Rightarrow> memory_store \<Rightarrow> bool \<times> memory_store" where
  "memory_reserve nonce seen_at retain_until seen =
     (let seen' = (\<lambda>value. case seen value of
                            None \<Rightarrow> None
                          | Some expiry \<Rightarrow> if expiry \<ge> seen_at then Some expiry else None)
      in if seen' nonce \<noteq> None then (False, seen')
         else (True, seen'(nonce \<mapsto> retain_until)))"

text \<open>
  \<^verbatim>\<open>SqliteNonceStore\<close>: the rows of \<^verbatim>\<open>broker_nonces\<close>. The nonce column is the primary key, so an
  insert of a present nonce raises \<^verbatim>\<open>IntegrityError\<close>; the handler returns from inside the
  \<^verbatim>\<open>with connection\<close> block, which commits the deletion made before.
\<close>

record nonce_row =
  row_nonce :: uuid
  row_seen_at :: clock
  row_retain_until :: clock

type_synonym sqlite_store = "nonce_row list"

definition sqlite_reserve ::
  "uuid \<Rightarrow> clock \<Rightarrow> clock \<Rightarrow> sqlite_store \<Rightarrow> bool \<times> sqlite_store" where
  "sqlite_reserve nonce seen_at retain_until rows =
     (let kept = filter (\<lambda>r. \<not> row_retain_until r < seen_at) rows
      in if nonce \<in> set (map row_nonce kept) then (False, kept)
         else (True, kept @ [\<lparr>row_nonce = nonce, row_seen_at = seen_at,
                              row_retain_until = retain_until\<rparr>]))"

section \<open>The authenticator\<close>

datatype auth_error =
    BrokerAuthenticationError string
  | AuthValueError string
  | AuthTypeError

record BrokerAuthenticator =
  ba_secret :: string
  ba_maximum_clock_skew_seconds :: int

definition new_authenticator :: "string \<Rightarrow> int \<Rightarrow> auth_error + BrokerAuthenticator" where
  "new_authenticator secret skew =
     (if length secret < 32
      then Inl (AuthValueError ''broker HMAC secret must contain at least 32 bytes'')
      else Inr \<lparr>ba_secret = secret, ba_maximum_clock_skew_seconds = skew\<rparr>)"

record auth_request =
  ar_method :: string
  ar_path :: string
  ar_worker_id :: string
  ar_timestamp :: string
  ar_nonce :: string
  ar_signature :: string
  ar_body :: string

definition sign ::
  "(string \<Rightarrow> digest) \<Rightarrow> (string \<Rightarrow> string \<Rightarrow> digest) \<Rightarrow> string \<Rightarrow> string \<Rightarrow> string \<Rightarrow> string
   \<Rightarrow> string \<Rightarrow> string \<Rightarrow> string \<Rightarrow> digest" where
  "sign sha256 hmac_sha256 secret method path worker_id timestamp nonce body =
     (let body_digest = sha256 body;
          canonical = utf8 (join_with [char_of (10::nat)]
                        [upper method, path, worker_id, timestamp, nonce, body_digest])
      in hmac_sha256 secret canonical)"

text \<open>
  One call of \<^verbatim>\<open>authenticate\<close>: the checks in the order of the code, then the reservation of the
  nonce. \<^verbatim>\<open>hmac.compare_digest\<close> raises \<^verbatim>\<open>TypeError\<close> on a non-ASCII string.
\<close>

definition authenticate ::
  "(string \<Rightarrow> digest) \<Rightarrow> (string \<Rightarrow> string \<Rightarrow> digest)
   \<Rightarrow> (uuid \<Rightarrow> clock \<Rightarrow> clock \<Rightarrow> 's \<Rightarrow> bool \<times> 's)
   \<Rightarrow> BrokerAuthenticator \<Rightarrow> clock \<Rightarrow> auth_request \<Rightarrow> 's \<Rightarrow> (auth_error + unit) \<times> 's" where
  "authenticate sha256 hmac_sha256 reserve self now req store =
     (case (py_int 10 (ar_timestamp req), py_uuid (ar_nonce req)) of
        (Some parsed_timestamp, Some parsed_nonce) \<Rightarrow>
          (if \<bar>now - of_int parsed_timestamp\<bar> > of_int (ba_maximum_clock_skew_seconds self)
           then (Inl (BrokerAuthenticationError ''stale_request''), store)
           else if ar_worker_id req = [] \<or> length (ar_worker_id req) > 200
                   \<or> list_ex is_space_char (ar_worker_id req)
           then (Inl (BrokerAuthenticationError ''invalid_worker_id''), store)
           else
             let expected = sign sha256 hmac_sha256 (ba_secret self) (ar_method req) (ar_path req)
                   (ar_worker_id req) (ar_timestamp req) (uuid_text parsed_nonce) (ar_body req)
             in if \<not> is_ascii (ar_signature req) \<or> \<not> is_ascii expected
                then (Inl AuthTypeError, store)
                else if expected \<noteq> lower (ar_signature req)
                then (Inl (BrokerAuthenticationError ''invalid_signature''), store)
                else
                  let (reserved, store') = reserve parsed_nonce now
                        (now + of_int (max 900 (ba_maximum_clock_skew_seconds self * 2))) store
                  in if reserved then (Inr (), store')
                     else (Inl (BrokerAuthenticationError ''replayed_request''), store'))
      | _ \<Rightarrow> (Inl (BrokerAuthenticationError ''invalid_auth_headers''), store))"

text \<open>A sequence of requests, each with the clock reading at which it is handled.\<close>

fun authenticate_all ::
  "(string \<Rightarrow> digest) \<Rightarrow> (string \<Rightarrow> string \<Rightarrow> digest)
   \<Rightarrow> (uuid \<Rightarrow> clock \<Rightarrow> clock \<Rightarrow> 's \<Rightarrow> bool \<times> 's)
   \<Rightarrow> BrokerAuthenticator \<Rightarrow> (clock \<times> auth_request) list \<Rightarrow> 's \<Rightarrow> (auth_error + unit) list" where
  "authenticate_all sha256 hmac_sha256 reserve self [] store = []"
| "authenticate_all sha256 hmac_sha256 reserve self ((now, req) # reqs) store =
     (let (result, store') = authenticate sha256 hmac_sha256 reserve self now req store
      in result # authenticate_all sha256 hmac_sha256 reserve self reqs store')"

definition request_key :: "auth_request \<Rightarrow> uuid option \<times> int option" where
  "request_key req = (py_uuid (ar_nonce req), py_int 10 (ar_timestamp req))"

lemma authenticate_store_cases:
  assumes "P s" and "\<And>n until. P (snd (reserve n now until s))"
  shows "P (snd (authenticate sha hm reserve self now req s))"
  using assms by (simp add: authenticate_def Let_def split_beta split: option.split)

lemma accepted_has_key:
  "fst (authenticate sha hm reserve self now req s) = Inr () \<Longrightarrow>
   \<exists>n t. request_key req = (Some n, Some t)"
  by (auto simp: authenticate_def request_key_def split: option.splits)

lemma accepted_reserves:
  assumes "fst (authenticate sha hm reserve self now req s) = Inr ()"
    and "request_key req = (Some n, Some t)"
  defines "r \<equiv> reserve n now (now + of_int (max 900 (ba_maximum_clock_skew_seconds self * 2))) s"
  shows "fst r \<and> \<bar>now - of_int t\<bar> \<le> of_int (ba_maximum_clock_skew_seconds self)
         \<and> snd (authenticate sha hm reserve self now req s) = snd r"
  using assms(1,2) unfolding r_def
  by (simp add: authenticate_def request_key_def Let_def split_beta not_less split: if_splits)

section \<open>The interface between them\<close>

text \<open>
  What the authenticator relies on: \<open>retained\<close> reads the expiry of a nonce, \<open>reserve\<close> first
  forgets what expired before the call and then succeeds exactly when the nonce is not
  retained, recording it until the given time.
\<close>

locale nonce_store =
  fixes reserve :: "uuid \<Rightarrow> clock \<Rightarrow> clock \<Rightarrow> 's \<Rightarrow> bool \<times> 's"
    and retained :: "'s \<Rightarrow> uuid \<Rightarrow> clock option"
    and valid :: "'s \<Rightarrow> bool"
  assumes reserve_ok:
      "valid s \<Longrightarrow> fst (reserve n seen until s) \<longleftrightarrow>
         (case retained s n of None \<Rightarrow> True | Some e \<Rightarrow> e < seen)"
    and retained_reserve:
      "valid s \<Longrightarrow> retained (snd (reserve n seen until s)) m =
         (if fst (reserve n seen until s) \<and> m = n then Some until
          else case retained s m of None \<Rightarrow> None | Some e \<Rightarrow> if e < seen then None else Some e)"
    and valid_reserve: "valid s \<Longrightarrow> valid (snd (reserve n seen until s))"
begin

text \<open>
  A nonce is guarded up to a time when a reservation at any clock reading from now on and
  not after that time fails.
\<close>

definition guarded :: "'s \<Rightarrow> uuid \<Rightarrow> clock \<Rightarrow> clock \<Rightarrow> bool" where
  "guarded s n limit now \<longleftrightarrow> limit < now \<or> (\<exists>e. retained s n = Some e \<and> limit \<le> e)"

lemma guarded_reserve_fails:
  "valid s \<Longrightarrow> guarded s n limit now \<Longrightarrow> now \<le> limit \<Longrightarrow> \<not> fst (reserve n now until s)"
  by (auto simp: guarded_def reserve_ok)

lemma guarded_reserve:
  "valid s \<Longrightarrow> guarded s n limit now \<Longrightarrow> guarded (snd (reserve m now until s)) n limit now"
  by (auto simp: guarded_def retained_reserve reserve_ok split: option.splits)

lemma guarded_later: "guarded s n limit now \<Longrightarrow> now \<le> later \<Longrightarrow> guarded s n limit later"
  by (auto simp: guarded_def)

lemma reserve_guards:
  "valid s \<Longrightarrow> fst (reserve n now until s) \<Longrightarrow> limit \<le> until \<Longrightarrow>
   guarded (snd (reserve n now until s)) n limit now"
  by (auto simp: guarded_def retained_reserve)

lemma authenticate_valid:
  "valid s \<Longrightarrow> valid (snd (authenticate sha hm reserve self now req s))"
  by (rule authenticate_store_cases [where P = valid]) (simp_all add: valid_reserve)

lemma authenticate_guarded:
  assumes "valid s" and "guarded s n limit now"
  shows "guarded (snd (authenticate sha hm reserve self now req s)) n limit now"
  by (rule authenticate_store_cases [where P = "\<lambda>s. guarded s n limit now"])
     (simp_all add: assms guarded_reserve)

lemma accepted_guards:
  assumes "valid s" and "fst (authenticate sha hm reserve self now req s) = Inr ()"
    and "request_key req = (Some n, Some t)"
  shows "guarded (snd (authenticate sha hm reserve self now req s)) n
           (of_int t + of_int (ba_maximum_clock_skew_seconds self)) now"
proof -
  let ?w = "ba_maximum_clock_skew_seconds self"
  from accepted_reserves [OF assms(2,3)]
  have res: "fst (reserve n now (now + of_int (max 900 (?w * 2))) s)"
    and near: "\<bar>now - of_int t\<bar> \<le> of_int ?w"
    and store: "snd (authenticate sha hm reserve self now req s)
                = snd (reserve n now (now + of_int (max 900 (?w * 2))) s)"
    by auto
  have "(of_int (?w * 2) :: rat) \<le> of_int (max 900 (?w * 2))"
    by (simp only: of_int_le_iff max.cobounded2)
  with near have "of_int t + of_int ?w \<le> now + of_int (max 900 (?w * 2))"
    by (simp add: abs_le_iff)
  from reserve_guards [OF assms(1) res this] show ?thesis unfolding store .
qed

lemma guarded_rejects:
  assumes "valid s" and "guarded s n (of_int t + of_int (ba_maximum_clock_skew_seconds self)) now"
    and "request_key req = (Some n, Some t)"
  shows "fst (authenticate sha hm reserve self now req s) \<noteq> Inr ()"
proof
  assume "fst (authenticate sha hm reserve self now req s) = Inr ()"
  from accepted_reserves [OF this assms(3)]
  have res: "fst (reserve n now (now + of_int (max 900 (ba_maximum_clock_skew_seconds self * 2))) s)"
    and near: "\<bar>now - of_int t\<bar> \<le> of_int (ba_maximum_clock_skew_seconds self)"
    by auto
  from near have "now \<le> of_int t + of_int (ba_maximum_clock_skew_seconds self)"
    by (simp add: abs_le_iff)
  from guarded_reserve_fails [OF assms(1,2) this] res show False by blast
qed

lemma guarded_rejects_all:
  assumes "valid s" and "guarded s n (of_int t + of_int (ba_maximum_clock_skew_seconds self)) start"
    and "sorted (start # map fst reqs)" and "j < length reqs"
    and "request_key (snd (reqs ! j)) = (Some n, Some t)"
  shows "authenticate_all sha hm reserve self reqs s ! j \<noteq> Inr ()"
  using assms
proof (induction reqs arbitrary: s start j)
  case (Cons r reqs)
  obtain now req where r: "r = (now, req)" by fastforce
  let ?a = "authenticate sha hm reserve self now req s"
  from Cons.prems(3) r have "start \<le> now" and srt: "sorted (now # map fst reqs)" by simp_all
  with Cons.prems(2)
  have g: "guarded s n (of_int t + of_int (ba_maximum_clock_skew_seconds self)) now"
    by (blast intro: guarded_later)
  have step: "authenticate_all sha hm reserve self (r # reqs) s
      = fst ?a # authenticate_all sha hm reserve self reqs (snd ?a)"
    by (simp add: r split_beta Let_def)
  show ?case
  proof (cases j)
    case 0
    with Cons.prems(5) have "request_key req = (Some n, Some t)" by (simp add: r)
    from guarded_rejects [OF Cons.prems(1) g this] show ?thesis
      unfolding step by (simp add: 0)
  next
    case (Suc i)
    then show ?thesis
      using Cons.IH [OF authenticate_valid [OF Cons.prems(1)]
          authenticate_guarded [OF Cons.prems(1) g] srt, of i] Cons.prems(4,5)
      by (simp add: step)
  qed
qed simp

lemma accepted_keys_differ:
  assumes "valid s" and "sorted (map fst reqs)" and "i < j" and "j < length reqs"
    and "authenticate_all sha hm reserve self reqs s ! i = Inr ()"
    and "authenticate_all sha hm reserve self reqs s ! j = Inr ()"
  shows "request_key (snd (reqs ! i)) \<noteq> request_key (snd (reqs ! j))"
  using assms
proof (induction reqs arbitrary: s i j)
  case (Cons r reqs)
  obtain now req where r: "r = (now, req)" by fastforce
  let ?a = "authenticate sha hm reserve self now req s"
  have step: "authenticate_all sha hm reserve self (r # reqs) s
      = fst ?a # authenticate_all sha hm reserve self reqs (snd ?a)"
    by (simp add: r split_beta Let_def)
  from Cons.prems(3) obtain j' where j: "j = Suc j'" by (cases j) auto
  show ?case
  proof (cases i)
    case 0
    with Cons.prems(5) have acc: "fst ?a = Inr ()" by (simp add: step)
    then obtain n t where key: "request_key req = (Some n, Some t)"
      by (blast dest: accepted_has_key)
    have "sorted (now # map fst reqs)" using Cons.prems(2) r by simp
    from guarded_rejects_all [OF authenticate_valid [OF Cons.prems(1)]
        accepted_guards [OF Cons.prems(1) acc key] this, of j' sha hm]
    have "request_key (snd (reqs ! j')) \<noteq> (Some n, Some t)"
      using Cons.prems(4,6) by (auto simp: step j)
    with key show ?thesis by (simp add: 0 j r)
  next
    case (Suc i')
    with Cons.prems j have "i' < j'" "j' < length reqs" "sorted (map fst reqs)"
      "authenticate_all sha hm reserve self reqs (snd ?a) ! i' = Inr ()"
      "authenticate_all sha hm reserve self reqs (snd ?a) ! j' = Inr ()"
      by (auto simp: step)
    from Cons.IH [OF authenticate_valid [OF Cons.prems(1)] this(3,1,2,4,5)]
    show ?thesis by (simp add: Suc j)
  qed
qed simp

end

section \<open>Both stores keep the contract\<close>

lemma memory_retained:
  "snd (memory_reserve n seen until s) m =
     (if fst (memory_reserve n seen until s) \<and> m = n then Some until
      else case s m of None \<Rightarrow> None | Some e \<Rightarrow> if e < seen then None else Some e)"
  by (auto simp: memory_reserve_def Let_def split: option.splits)

interpretation mem: nonce_store memory_reserve "\<lambda>s n. s n" "\<lambda>s. True"
  by unfold_locales
     (simp_all add: memory_retained, auto simp: memory_reserve_def Let_def split: option.splits)

definition row_retained :: "sqlite_store \<Rightarrow> uuid \<Rightarrow> clock option" where
  "row_retained rows n = map_of (map (\<lambda>r. (row_nonce r, row_retain_until r)) rows) n"

definition unique_nonces :: "sqlite_store \<Rightarrow> bool" where
  "unique_nonces rows \<longleftrightarrow> distinct (map row_nonce rows)"

lemma row_retained_None_iff: "row_retained rows n = None \<longleftrightarrow> n \<notin> set (map row_nonce rows)"
  by (auto simp: row_retained_def map_of_eq_None_iff image_iff)

lemma row_retained_filter:
  "unique_nonces rows \<Longrightarrow>
   row_retained (filter (\<lambda>r. \<not> row_retain_until r < seen) rows) n =
     (case row_retained rows n of None \<Rightarrow> None | Some e \<Rightarrow> if e < seen then None else Some e)"
proof (induction rows)
  case (Cons r rows)
  then have u: "unique_nonces rows" and fresh: "row_nonce r \<notin> set (map row_nonce rows)"
    by (simp_all add: unique_nonces_def)
  from fresh have "row_retained rows (row_nonce r) = None"
    by (rule iffD2 [OF row_retained_None_iff])
  with Cons.IH [OF u] show ?case
    by (auto simp: row_retained_def split: option.splits)
qed (simp add: row_retained_def)

lemma row_retained_append:
  "row_retained (rows @ [r]) n =
     (case row_retained rows n of
        None \<Rightarrow> if n = row_nonce r then Some (row_retain_until r) else None
      | Some e \<Rightarrow> Some e)"
  by (auto simp: row_retained_def map_add_def split: option.splits)

lemma unique_nonces_filter: "unique_nonces rows \<Longrightarrow> unique_nonces (filter p rows)"
  by (simp add: unique_nonces_def distinct_map_filter)

lemma sqlite_ok:
  assumes "unique_nonces rows"
  shows "fst (sqlite_reserve n seen until rows) \<longleftrightarrow>
         (case row_retained rows n of None \<Rightarrow> True | Some e \<Rightarrow> e < seen)"
proof -
  let ?kept = "filter (\<lambda>r. \<not> row_retain_until r < seen) rows"
  have "fst (sqlite_reserve n seen until rows) \<longleftrightarrow> row_retained ?kept n = None"
    unfolding row_retained_None_iff by (simp add: sqlite_reserve_def Let_def)
  then show ?thesis
    unfolding row_retained_filter [OF assms] by (simp split: option.splits)
qed

lemma sqlite_retained:
  assumes "unique_nonces rows"
  shows "row_retained (snd (sqlite_reserve n seen until rows)) m =
     (if fst (sqlite_reserve n seen until rows) \<and> m = n then Some until
      else case row_retained rows m of
             None \<Rightarrow> None | Some e \<Rightarrow> if e < seen then None else Some e)"
proof -
  let ?kept = "filter (\<lambda>r. \<not> row_retain_until r < seen) rows"
  note kept = row_retained_filter [OF assms, of seen]
  show ?thesis
  proof (cases "n \<in> set (map row_nonce ?kept)")
    case True
    then have "sqlite_reserve n seen until rows = (False, ?kept)"
      by (simp add: sqlite_reserve_def Let_def)
    then show ?thesis by (simp add: kept)
  next
    case False
    then have "row_retained ?kept n = None" by (rule iffD2 [OF row_retained_None_iff])
    moreover from False have "sqlite_reserve n seen until rows
        = (True, ?kept @ [\<lparr>row_nonce = n, row_seen_at = seen, row_retain_until = until\<rparr>])"
      by (simp add: sqlite_reserve_def Let_def)
    ultimately show ?thesis
      by (auto simp: row_retained_append kept split: option.splits if_splits)
  qed
qed

lemma sqlite_unique:
  "unique_nonces rows \<Longrightarrow> unique_nonces (snd (sqlite_reserve n seen until rows))"
  using unique_nonces_filter [of rows "\<lambda>r. \<not> row_retain_until r < seen"]
  by (auto simp: sqlite_reserve_def Let_def unique_nonces_def)

interpretation sql: nonce_store sqlite_reserve row_retained unique_nonces
  by unfold_locales (simp_all add: sqlite_ok sqlite_retained sqlite_unique)

lemma sqlite_simulates_memory:
  assumes "unique_nonces rows"
  shows "memory_reserve n seen until (row_retained rows) =
         map_prod id row_retained (sqlite_reserve n seen until rows)"
proof (rule prod_eqI)
  show fst_eq: "fst (memory_reserve n seen until (row_retained rows))
      = fst (map_prod id row_retained (sqlite_reserve n seen until rows))"
    using mem.reserve_ok [where s = "row_retained rows"] sql.reserve_ok [OF assms] by simp
  show "snd (memory_reserve n seen until (row_retained rows))
      = snd (map_prod id row_retained (sqlite_reserve n seen until rows))"
    using fst_eq by (auto simp: memory_retained sqlite_retained [OF assms])
qed

lemma authenticate_simulation:
  assumes "\<And>n until. reserve_a n now until (f s) = map_prod id f (reserve_c n now until s)"
  shows "authenticate sha hm reserve_a self now req (f s) =
         map_prod id f (authenticate sha hm reserve_c self now req s)"
  by (simp add: authenticate_def Let_def split_beta assms split: option.split)

section \<open>A sample session\<close>

definition sample_authenticator :: BrokerAuthenticator where
  "sample_authenticator = \<lparr>ba_secret = replicate 32 (CHR ''k''), ba_maximum_clock_skew_seconds = 60\<rparr>"

definition sample_request :: "string \<Rightarrow> auth_request" where
  "sample_request nonce = \<lparr>ar_method = ''post'', ar_path = ''/v1/runs'', ar_worker_id = ''worker-1'',
     ar_timestamp = ''1000'', ar_nonce = nonce, ar_signature = ''AB'', ar_body = ''{}''\<rparr>"

definition sample_requests :: "(clock \<times> auth_request) list" where
  "sample_requests =
     [(1000, sample_request ''00000000-0000-0000-0000-000000000001''),
      (1010, sample_request ''00000000-0000-0000-0000-000000000001''),
      (1060, sample_request ''00000000-0000-0000-0000-000000000002'')]"

lemma sample_session:
  "authenticate_all (\<lambda>body. ''cd'') (\<lambda>key message. ''ab'') sqlite_reserve
     sample_authenticator sample_requests [] =
   [Inr (), Inl (BrokerAuthenticationError ''replayed_request''), Inr ()]"
  by code_simp

lemma sample_clock: "sorted (map fst sample_requests) \<and> length sample_requests = 3"
  by (simp add: sample_requests_def)

lemma unique_nonces_Nil [simp]: "unique_nonces []"
  by (simp add: unique_nonces_def)

section \<open>Properties\<close>

text \<open>
  C12: requests handled in the order of a clock that never runs backwards are never accepted
  twice under the same nonce and timestamp with the persistent store, whatever clock skew the
  authenticator is configured with and whatever else the requests contain: the time a nonce is
  retained outlasts the time its timestamp stays acceptable.
\<close>

theorem accepted_requests_never_replayed:
  assumes "unique_nonces rows" and "sorted (map fst reqs)" and "i < j" and "j < length reqs"
    and "authenticate_all sha256 hmac_sha256 sqlite_reserve self reqs rows ! i = Inr ()"
    and "authenticate_all sha256 hmac_sha256 sqlite_reserve self reqs rows ! j = Inr ()"
  shows "request_key (snd (reqs ! i)) \<noteq> request_key (snd (reqs ! j))"
  using assms by (rule sql.accepted_keys_differ)

theorem accepted_requests_never_replayed_witness:
  "request_key (snd (sample_requests ! 0)) \<noteq> request_key (snd (sample_requests ! 2))"
  by (rule accepted_requests_never_replayed [of "[]" sample_requests 0 2
        "\<lambda>body. ''cd''" "\<lambda>key message. ''ab''" sample_authenticator])
     (simp_all add: sample_session sample_clock)

text \<open>
  C25: the SQLite store and the in-process store are interchangeable: the same requests get the
  same answers, the dictionary holding exactly the unexpired rows of the table.
\<close>

theorem nonce_stores_agree:
  assumes "unique_nonces rows"
  shows "authenticate_all sha256 hmac_sha256 sqlite_reserve self reqs rows =
         authenticate_all sha256 hmac_sha256 memory_reserve self reqs (row_retained rows)"
  using assms
proof (induction reqs arbitrary: rows)
  case (Cons r reqs)
  obtain now req where r: "r = (now, req)" by fastforce
  have "authenticate sha256 hmac_sha256 memory_reserve self now req (row_retained rows) =
      map_prod id row_retained (authenticate sha256 hmac_sha256 sqlite_reserve self now req rows)"
    by (intro authenticate_simulation sqlite_simulates_memory Cons.prems)
  with Cons.IH [OF sql.authenticate_valid [OF Cons.prems]] show ?case
    by (simp add: r split_beta Let_def)
qed simp

theorem nonce_stores_agree_witness:
  "authenticate_all (\<lambda>body. ''cd'') (\<lambda>key message. ''ab'') memory_reserve
     sample_authenticator sample_requests (row_retained []) =
   [Inr (), Inl (BrokerAuthenticationError ''replayed_request''), Inr ()]"
  using nonce_stores_agree [of "[]" "\<lambda>body. ''cd''" "\<lambda>key message. ''ab''" sample_authenticator
      sample_requests] sample_session
  by simp

end
