(* ===== verification/Job_Leases.thy ===== *)
theory Job_Leases
  imports Job_Queue Machine
begin

text \<open>
  What the queue of \<open>Job_Queue\<close> guarantees. \<open>leases_ok\<close> is the invariant of the two tables
  \<^verbatim>\<open>jobs\<close> and \<^verbatim>\<open>job_execution_attempts\<close>; four lemmas (\<open>leases_touch\<close>, \<open>leases_release\<close>,
  \<open>leases_grant\<close>, \<open>leases_add\<close>) say which changes keep it, and every operation of the
  repository and of the recovery service is one of these changes.
\<close>

section \<open>The invariant\<close>

definition job_ok :: "JobModel \<Rightarrow> bool" where
  "job_ok j \<longleftrightarrow>
     (jm_status j = LEASED \<longleftrightarrow> jm_lease_token j \<noteq> None) \<and>
     (jm_lease_owner j = None \<longleftrightarrow> jm_lease_token j = None) \<and>
     (jm_lease_expires_at j = None \<longleftrightarrow> jm_lease_token j = None) \<and>
     (jm_completed_at j \<noteq> None \<longleftrightarrow> jm_status j = SUCCEEDED \<or> jm_status j = DEAD_LETTER) \<and>
     0 \<le> jm_retry_count j \<and>
     jm_retry_count j + (if jm_status j = LEASED then 1 else 0) \<le> jm_attempt_count j \<and>
     jm_attempt_count j \<le> max 0 (jm_max_attempts j) \<and>
     jm_lease_version j = jm_attempt_count j \<and>
     (jm_status j = LEASED \<longrightarrow> succeeds (revision_cycle_of j))"

definition attempts_of :: "uuid \<Rightarrow> JobExecutionAttemptModel list \<Rightarrow> JobExecutionAttemptModel list"
where
  "attempts_of job_id atts = filter (\<lambda>a. ja_job_id a = job_id) atts"

definition leases_ok :: "JobModel list \<Rightarrow> JobExecutionAttemptModel list \<Rightarrow> bool" where
  "leases_ok jobs atts \<longleftrightarrow>
     distinct (map jm_id jobs) \<and> distinct (map ja_id atts) \<and> distinct (map ja_lease_token atts) \<and>
     (\<forall>j\<in>set jobs. job_ok j \<and> jm_attempt_count j = int (length (attempts_of (jm_id j) atts)) \<and>
        (\<forall>t. jm_lease_token j = Some t \<longrightarrow>
           (\<exists>a\<in>set atts. ja_job_id a = jm_id j \<and> ja_lease_token a = t))) \<and>
     (\<forall>a\<in>set atts. \<exists>j\<in>set jobs. jm_id j = ja_job_id a \<and>
        (ja_status a = ''running'' \<longleftrightarrow> jm_lease_token j = Some (ja_lease_token a)))"

definition queue_ok :: "queue_tables \<Rightarrow> bool" where
  "queue_ok db \<longleftrightarrow> leases_ok (qt_jobs db) (qt_attempts db)"

lemma leases_okI:
  assumes "distinct (map jm_id jobs)" "distinct (map ja_id atts)" "distinct (map ja_lease_token atts)"
    and "\<And>j. j \<in> set jobs \<Longrightarrow> job_ok j"
    and "\<And>j. j \<in> set jobs \<Longrightarrow> jm_attempt_count j = int (length (attempts_of (jm_id j) atts))"
    and "\<And>j t. j \<in> set jobs \<Longrightarrow> jm_lease_token j = Some t \<Longrightarrow>
           \<exists>a\<in>set atts. ja_job_id a = jm_id j \<and> ja_lease_token a = t"
    and "\<And>a. a \<in> set atts \<Longrightarrow> \<exists>j\<in>set jobs. jm_id j = ja_job_id a \<and>
           (ja_status a = ''running'' \<longleftrightarrow> jm_lease_token j = Some (ja_lease_token a))"
  shows "leases_ok jobs atts"
  using assms unfolding leases_ok_def by blast

lemma leases_okD:
  assumes "leases_ok jobs atts"
  shows "distinct (map jm_id jobs)" and "distinct (map ja_id atts)"
    and "distinct (map ja_lease_token atts)"
    and "j \<in> set jobs \<Longrightarrow> job_ok j"
    and "j \<in> set jobs \<Longrightarrow> jm_attempt_count j = int (length (attempts_of (jm_id j) atts))"
    and "j \<in> set jobs \<Longrightarrow> jm_lease_token j = Some t \<Longrightarrow>
           \<exists>a\<in>set atts. ja_job_id a = jm_id j \<and> ja_lease_token a = t"
    and "a \<in> set atts \<Longrightarrow> \<exists>j\<in>set jobs. jm_id j = ja_job_id a \<and>
           (ja_status a = ''running'' \<longleftrightarrow> jm_lease_token j = Some (ja_lease_token a))"
  using assms unfolding leases_ok_def by blast+

lemma job_eq:
  "leases_ok jobs atts \<Longrightarrow> x \<in> set jobs \<Longrightarrow> y \<in> set jobs \<Longrightarrow> jm_id x = jm_id y \<Longrightarrow> x = y"
  by (blast intro: distinct_key_eq dest: leases_okD(1))

lemma attempt_eq:
  "leases_ok jobs atts \<Longrightarrow> a \<in> set atts \<Longrightarrow> b \<in> set atts \<Longrightarrow> ja_id a = ja_id b \<Longrightarrow> a = b"
  by (blast intro: distinct_key_eq dest: leases_okD(2))

lemma token_eq:
  "leases_ok jobs atts \<Longrightarrow> a \<in> set atts \<Longrightarrow> b \<in> set atts \<Longrightarrow>
   ja_lease_token a = ja_lease_token b \<Longrightarrow> a = b"
  by (blast intro: distinct_key_eq dest: leases_okD(3))

lemma running_iff_leased:
  assumes "leases_ok jobs atts" "a \<in> set atts" "j \<in> set jobs" "jm_id j = ja_job_id a"
  shows "ja_status a = ''running'' \<longleftrightarrow> jm_lease_token j = Some (ja_lease_token a)"
  using leases_okD(7) [OF assms(1,2)] job_eq [OF assms(1)] assms(3,4) by metis

lemma attempts_of_alter:
  "(\<And>a. p a \<Longrightarrow> ja_job_id (f a) = ja_job_id a) \<Longrightarrow>
   length (attempts_of i (alter p f atts)) = length (attempts_of i atts)"
  by (induction atts) (auto simp: attempts_of_def alter_def)

section \<open>Changes that keep the invariant\<close>

lemma leases_touch:
  assumes ok: "leases_ok jobs atts"
    and f: "\<And>j. j \<in> set jobs \<Longrightarrow> p j \<Longrightarrow> jm_id (f j) = jm_id j \<and> job_ok (f j) \<and>
        jm_lease_token (f j) = jm_lease_token j \<and> jm_attempt_count (f j) = jm_attempt_count j"
  shows "leases_ok (alter p f jobs) atts"
proof -
  define g where "g = (\<lambda>j. if p j then f j else j)"
  have g: "jm_id (g j) = jm_id j" "job_ok (g j)" "jm_lease_token (g j) = jm_lease_token j"
    "jm_attempt_count (g j) = jm_attempt_count j" if "j \<in> set jobs" for j
    using f [OF that] leases_okD(4) [OF ok that] by (auto simp: g_def)
  have set: "set (alter p f jobs) = g ` set jobs" by (simp add: set_alter g_def)
  have ids: "map jm_id (alter p f jobs) = map jm_id jobs"
    using g(1) by (simp add: alter_def g_def)
  show ?thesis
  proof (rule leases_okI)
    show "distinct (map jm_id (alter p f jobs))" using leases_okD(1) [OF ok] ids by simp
    show "\<exists>j\<in>set (alter p f jobs). jm_id j = ja_job_id a \<and>
        (ja_status a = ''running'' \<longleftrightarrow> jm_lease_token j = Some (ja_lease_token a))"
      if "a \<in> set atts" for a
    proof -
      from leases_okD(7) [OF ok that] obtain j where j: "j \<in> set jobs" "jm_id j = ja_job_id a"
        "ja_status a = ''running'' \<longleftrightarrow> jm_lease_token j = Some (ja_lease_token a)" by blast
      then have "g j \<in> set (alter p f jobs)" by (simp add: set)
      with j g show ?thesis by metis
    qed
  qed (use leases_okD [OF ok] g in \<open>auto simp: set\<close>)
qed

lemma leases_release:
  assumes ok: "leases_ok jobs atts" and j: "j \<in> set jobs" "jm_lease_token j = Some t"
    and a: "a \<in> set atts" "ja_job_id a = jm_id j" "ja_lease_token a = t"
    and j': "jm_id j' = jm_id j" "jm_lease_token j' = None" "job_ok j'"
      "jm_attempt_count j' = jm_attempt_count j"
    and f: "\<And>b. ja_id (f b) = ja_id b \<and> ja_job_id (f b) = ja_job_id b \<and>
              ja_lease_token (f b) = ja_lease_token b \<and> ja_status (f b) \<noteq> ''running''"
  shows "leases_ok (alter (\<lambda>x. jm_id x = jm_id j) (\<lambda>_. j') jobs)
                   (alter (\<lambda>b. ja_id b = ja_id a) f atts)"
proof -
  define g where "g = (\<lambda>x. if jm_id x = jm_id j then j' else x)"
  define h where "h = (\<lambda>b. if ja_id b = ja_id a then f b else b)"
  have sets: "set (alter (\<lambda>x. jm_id x = jm_id j) (\<lambda>_. j') jobs) = g ` set jobs"
    "set (alter (\<lambda>b. ja_id b = ja_id a) f atts) = h ` set atts"
    by (simp_all add: set_alter g_def h_def)
  have g: "g x = (if x = j then j' else x)" if "x \<in> set jobs" for x
    using job_eq [OF ok that j(1)] by (auto simp: g_def)
  have h: "h b = (if b = a then f a else b)" if "b \<in> set atts" for b
    using attempt_eq [OF ok that a(1)] by (auto simp: h_def)
  have hid: "ja_job_id (h b) = ja_job_id b" "ja_lease_token (h b) = ja_lease_token b" for b
    using f by (simp_all add: h_def)
  have gid: "jm_id (g x) = jm_id x" for x using j'(1) by (simp add: g_def)
  have cnt: "length (attempts_of i (alter (\<lambda>b. ja_id b = ja_id a) f atts))
      = length (attempts_of i atts)" for i
    using f by (intro attempts_of_alter) simp
  show ?thesis
  proof (rule leases_okI, unfold sets)
    show "distinct (map jm_id (alter (\<lambda>x. jm_id x = jm_id j) (\<lambda>_. j') jobs))"
      using leases_okD(1) [OF ok] j'(1) by (simp add: map_alter_same)
    show "distinct (map ja_id (alter (\<lambda>b. ja_id b = ja_id a) f atts))"
      using leases_okD(2) [OF ok] f by (simp add: map_alter_same)
    show "distinct (map ja_lease_token (alter (\<lambda>b. ja_id b = ja_id a) f atts))"
      using leases_okD(3) [OF ok] f by (simp add: map_alter_same)
    show "job_ok x" if "x \<in> g ` set jobs" for x
      using that g j'(3) leases_okD(4) [OF ok] by auto
    show "jm_attempt_count x
        = int (length (attempts_of (jm_id x) (alter (\<lambda>b. ja_id b = ja_id a) f atts)))"
      if "x \<in> g ` set jobs" for x
      using that g j' j(1) leases_okD(5) [OF ok] by (auto simp: cnt)
    show "\<exists>b\<in>h ` set atts. ja_job_id b = jm_id x \<and> ja_lease_token b = u"
      if "x \<in> g ` set jobs" "jm_lease_token x = Some u" for x u
    proof -
      from that(1) obtain y where y: "y \<in> set jobs" "x = g y" by blast
      with that(2) j'(2) have "x = y" using g by (auto split: if_splits)
      with leases_okD(6) [OF ok y(1)] that(2) hid show ?thesis by fastforce
    qed
    show "\<exists>x\<in>g ` set jobs. jm_id x = ja_job_id c \<and>
        (ja_status c = ''running'' \<longleftrightarrow> jm_lease_token x = Some (ja_lease_token c))"
      if "c \<in> h ` set atts" for c
    proof -
      from that obtain b where b: "b \<in> set atts" "c = h b" by blast
      from leases_okD(7) [OF ok b(1)] obtain x where x: "x \<in> set jobs" "jm_id x = ja_job_id b"
        "ja_status b = ''running'' \<longleftrightarrow> jm_lease_token x = Some (ja_lease_token b)" by blast
      have "ja_status c = ''running'' \<longleftrightarrow> jm_lease_token (g x) = Some (ja_lease_token c)"
      proof (cases "b = a")
        case True
        then have "x = j" using x(2) a(2) job_eq [OF ok x(1) j(1)] by simp
        then show ?thesis using b(2) h [OF b(1)] g [OF x(1)] True f j'(2) by simp
      next
        case False
        then have "ja_lease_token b \<noteq> t" using token_eq [OF ok b(1) a(1)] a(3) by auto
        then show ?thesis
          using b(2) h [OF b(1)] g [OF x(1)] False x(3) j(2) j'(2) by auto
      qed
      then show ?thesis using x(1,2) b(2) gid hid by (intro bexI [of _ "g x"]) auto
    qed
  qed
qed

lemma leases_grant:
  assumes ok: "leases_ok jobs atts" and j: "j \<in> set jobs" "jm_lease_token j = None"
    and j': "jm_id j' = jm_id j" "jm_lease_token j' = Some t" "job_ok j'"
      "jm_attempt_count j' = jm_attempt_count j + 1"
    and a: "ja_job_id a = jm_id j" "ja_lease_token a = t" "ja_status a = ''running''"
    and fresh: "ja_id a \<notin> ja_id ` set atts" "t \<notin> ja_lease_token ` set atts"
  shows "leases_ok (alter (\<lambda>x. jm_id x = jm_id j) (\<lambda>_. j') jobs) (atts @ [a])"
proof -
  define g where "g = (\<lambda>x. if jm_id x = jm_id j then j' else x)"
  have set: "set (alter (\<lambda>x. jm_id x = jm_id j) (\<lambda>_. j') jobs) = g ` set jobs"
    by (simp add: set_alter g_def)
  have g: "g x = (if x = j then j' else x)" if "x \<in> set jobs" for x
    using job_eq [OF ok that j(1)] by (auto simp: g_def)
  have gid: "jm_id (g x) = jm_id x" for x using j'(1) by (simp add: g_def)
  show ?thesis
  proof (rule leases_okI, unfold set)
    show "distinct (map jm_id (alter (\<lambda>x. jm_id x = jm_id j) (\<lambda>_. j') jobs))"
      using leases_okD(1) [OF ok] j'(1) by (simp add: map_alter_same)
    show "distinct (map ja_id (atts @ [a]))" "distinct (map ja_lease_token (atts @ [a]))"
      using leases_okD(2,3) [OF ok] fresh a(2) by auto
    show "job_ok x" if "x \<in> g ` set jobs" for x
      using that g j'(3) leases_okD(4) [OF ok] by auto
    show "jm_attempt_count x = int (length (attempts_of (jm_id x) (atts @ [a])))"
      if "x \<in> g ` set jobs" for x
    proof -
      from that obtain y where y: "y \<in> set jobs" "x = g y" by blast
      note cnt = leases_okD(5) [OF ok y(1)]
      show ?thesis
      proof (cases "y = j")
        case True
        then show ?thesis using y g [OF y(1)] j'(1,4) a(1) cnt by (simp add: attempts_of_def)
      next
        case False
        then have "jm_id y \<noteq> jm_id j" using job_eq [OF ok y(1) j(1)] by blast
        then show ?thesis using y g [OF y(1)] a(1) cnt False by (simp add: attempts_of_def)
      qed
    qed
    show "\<exists>b\<in>set (atts @ [a]). ja_job_id b = jm_id x \<and> ja_lease_token b = u"
      if "x \<in> g ` set jobs" "jm_lease_token x = Some u" for x u
      using that g j' a leases_okD(6) [OF ok] by (fastforce split: if_splits)
    show "\<exists>x\<in>g ` set jobs. jm_id x = ja_job_id c \<and>
        (ja_status c = ''running'' \<longleftrightarrow> jm_lease_token x = Some (ja_lease_token c))"
      if "c \<in> set (atts @ [a])" for c
    proof (cases "c = a")
      case True
      then show ?thesis using a j' j(1) g [OF j(1)] by (intro bexI [of _ "g j"]) auto
    next
      case False
      with that have c: "c \<in> set atts" by simp
      from leases_okD(7) [OF ok c] obtain x where x: "x \<in> set jobs" "jm_id x = ja_job_id c"
        "ja_status c = ''running'' \<longleftrightarrow> jm_lease_token x = Some (ja_lease_token c)" by blast
      have "ja_lease_token c \<noteq> t" using c fresh(2) by blast
      with x j(2) j'(2) have
        "ja_status c = ''running'' \<longleftrightarrow> jm_lease_token (g x) = Some (ja_lease_token c)"
        using g [OF x(1)] by auto
      with x(1,2) gid show ?thesis by (intro bexI [of _ "g x"]) auto
    qed
  qed
qed

lemma leases_add:
  assumes ok: "leases_ok jobs atts" and "jm_id j \<notin> jm_id ` set jobs" and "job_ok j"
    and "jm_attempt_count j = 0" and "jm_lease_token j = None"
  shows "leases_ok (jobs @ [j]) atts"
proof (rule leases_okI)
  have none: "attempts_of (jm_id j) atts = []"
  proof -
    have "ja_job_id a \<noteq> jm_id j" if "a \<in> set atts" for a
    proof -
      from leases_okD(7) [OF ok that] obtain x where x: "x \<in> set jobs" "jm_id x = ja_job_id a"
        by blast
      from imageI [OF x(1), of jm_id] x(2) assms(2) show ?thesis by auto
    qed
    then show ?thesis by (simp add: attempts_of_def filter_empty_conv)
  qed
  show "jm_attempt_count x = int (length (attempts_of (jm_id x) atts))"
    if "x \<in> set (jobs @ [j])" for x
    using that none assms(4) leases_okD(5) [OF ok] by auto
  show "\<exists>x\<in>set (jobs @ [j]). jm_id x = ja_job_id a \<and>
      (ja_status a = ''running'' \<longleftrightarrow> jm_lease_token x = Some (ja_lease_token a))"
    if "a \<in> set atts" for a
    using leases_okD(7) [OF ok that] by auto
qed (use leases_okD [OF ok] assms in auto)

section \<open>Every operation keeps it\<close>

lemma job_ok_leased:
  "job_ok j \<Longrightarrow> jm_status j = LEASED \<Longrightarrow> \<exists>t. jm_lease_token j = Some t"
  by (simp add: job_ok_def)

lemma job_ok_clear:
  "job_ok j \<Longrightarrow> jm_status j = LEASED \<Longrightarrow>
   job_ok (clear_lease (j\<lparr>jm_status := SUCCEEDED, jm_completed_at := Some now\<rparr>))"
  by (simp add: job_ok_def clear_lease_def)

lemma revision_cycle_of_cong:
  "jm_payload j = jm_payload k \<Longrightarrow> revision_cycle_of j = revision_cycle_of k"
  by (simp add: revision_cycle_of_def)

lemma release_failed_simps [simp]:
  "jm_id (release_failed now e c g av j) = jm_id j"
  "jm_lease_token (release_failed now e c g av j) = None"
  "jm_attempt_count (release_failed now e c g av j) = jm_attempt_count j"
  "jm_status (release_failed now e c g av j) = (if g then DEAD_LETTER else RETRY_WAIT)"
  by (simp_all add: release_failed_def clear_lease_def Let_def)

lemma job_ok_release:
  "job_ok j \<Longrightarrow> jm_status j = LEASED \<Longrightarrow> job_ok (release_failed now e c g av j)"
  by (simp add: job_ok_def release_failed_def clear_lease_def Let_def)

lemma fence_leased:
  "fence i w t v now j \<Longrightarrow> jm_status j = LEASED \<and> jm_id j = i \<and> jm_lease_token j = Some t"
  by (simp add: fence_def)

text \<open>Under unique identifiers the fence selects at most one row.\<close>

lemma fence_selects:
  assumes "distinct (map jm_id jobs)" and "j \<in> set jobs" and "fence i w t v now j"
  shows "filter (fence i w t v now) jobs = [j]"
    and "alter (fence i w t v now) f jobs = alter (\<lambda>x. jm_id x = jm_id j) (\<lambda>_. f j) jobs"
proof -
  have eq: "fence i w t v now x \<longleftrightarrow> x = j" if "x \<in> set jobs" for x
    using distinct_key_eq [OF assms(1) that assms(2)] assms(3) fence_leased by metis
  have "filter (fence i w t v now) jobs = filter (\<lambda>x. x = j) jobs"
    using eq by (intro filter_cong) auto
  also have "\<dots> = [j]"
    using assms(1,2) by (induction jobs) (auto simp: filter_empty_conv)
  finally show "filter (fence i w t v now) jobs = [j]" .
  show "alter (fence i w t v now) f jobs = alter (\<lambda>x. jm_id x = jm_id j) (\<lambda>_. f j) jobs"
    unfolding alter_def using eq distinct_key_eq [OF assms(1) _ assms(2)] assms(2)
    by (intro map_cong) auto
qed

lemma close_attempt_simps [simp]:
  "ja_id (close_attempt st now a b c r y) = ja_id y"
  "ja_job_id (close_attempt st now a b c r y) = ja_job_id y"
  "ja_lease_token (close_attempt st now a b c r y) = ja_lease_token y"
  "ja_status (close_attempt st now a b c r y) = st"
  by (simp_all add: close_attempt_def)

lemma finish_attempt_found:
  "List.find (\<lambda>a. ja_job_id a = i \<and> ja_lease_token a = t) (qt_attempts db) = Some x \<Longrightarrow>
   finish_attempt i t st now a b c r db =
     Inr (db\<lparr>qt_attempts := alter (\<lambda>y. ja_id y = ja_id x) (close_attempt st now a b c r)
                 (qt_attempts db)\<rparr>)"
  by (simp add: finish_attempt_def)

text \<open>
  Releasing a lease: the job loses it and its running attempt, the one with the token, is
  closed. Attempts that are closed already are not touched.
\<close>

definition finished_kept :: "queue_tables \<Rightarrow> queue_tables \<Rightarrow> bool" where
  "finished_kept db db' \<longleftrightarrow>
     (\<forall>a\<in>set (qt_attempts db). ja_status a \<noteq> ''running'' \<longrightarrow> a \<in> set (qt_attempts db'))"

lemma finished_kept_refl: "qt_attempts db' = qt_attempts db \<Longrightarrow> finished_kept db db'"
  by (simp add: finished_kept_def)

lemma finished_kept_alter:
  assumes "leases_ok jobs (qt_attempts db)" and "x \<in> set (qt_attempts db)"
    and "ja_status x = ''running''"
    and "qt_attempts db' = alter (\<lambda>y. ja_id y = ja_id x) f (qt_attempts db)"
  shows "finished_kept db db'"
  unfolding finished_kept_def assms(4)
proof (intro ballI impI)
  fix a assume a: "a \<in> set (qt_attempts db)" "ja_status a \<noteq> ''running''"
  with assms(3) have "ja_id a \<noteq> ja_id x" using attempt_eq [OF assms(1) a(1) assms(2)] by auto
  with a(1) show "a \<in> set (alter (\<lambda>y. ja_id y = ja_id x) f (qt_attempts db))"
    by (force simp: set_alter)
qed

lemma leased_attempt:
  assumes "leases_ok jobs atts" and "j \<in> set jobs" and "jm_lease_token j = Some t"
  shows "\<exists>x. List.find (\<lambda>a. ja_job_id a = jm_id j \<and> ja_lease_token a = t) atts = Some x \<and>
             x \<in> set atts \<and> ja_job_id x = jm_id j \<and> ja_lease_token x = t \<and>
             ja_status x = ''running''"
proof -
  from leases_okD(6) [OF assms] obtain a where a: "a \<in> set atts" "ja_job_id a = jm_id j"
    "ja_lease_token a = t" by blast
  then have "List.find (\<lambda>a. ja_job_id a = jm_id j \<and> ja_lease_token a = t) atts \<noteq> None"
    by (auto simp: find_None_iff)
  then obtain x where x: "List.find (\<lambda>a. ja_job_id a = jm_id j \<and> ja_lease_token a = t) atts = Some x"
    by blast
  then have m: "x \<in> set atts" "ja_job_id x = jm_id j" "ja_lease_token x = t"
    by (auto dest: find_Some_D)
  then have "ja_status x = ''running''"
    using running_iff_leased [OF assms(1) m(1) assms(2)] assms(3) by simp
  with x m show ?thesis by blast
qed

lemma enqueue_ok:
  "queue_ok db \<Longrightarrow> new_id \<notin> jm_id ` set (qt_jobs db) \<Longrightarrow>
   queue_ok (enqueue new_id now pid rid ty pay prio mx db)"
  unfolding queue_ok_def enqueue_def
  by simp (rule leases_add, simp_all add: job_ok_def)

lemma block_job_simps [simp]:
  "jm_id (block_job bl j) = jm_id j" "jm_lease_token (block_job bl j) = jm_lease_token j"
  "jm_attempt_count (block_job bl j) = jm_attempt_count j"
  by (simp_all add: block_job_def Let_def split: option.split)

lemma job_ok_error_updates [simp]:
  "job_ok (jm_last_error_update f j) = job_ok j"
  "job_ok (jm_last_failure_class_update f j) = job_ok j"
  by (simp_all add: job_ok_def revision_cycle_of_def)

lemma job_ok_block: "job_ok (block_job bl j) = job_ok j"
  by (simp add: block_job_def Let_def split: option.split)

lemma record_setup_blockers_ok: "queue_ok db \<Longrightarrow> queue_ok (record_setup_blockers tys bl db)"
  unfolding queue_ok_def record_setup_blockers_def
  by (auto intro!: leases_touch simp: job_ok_block dest: leases_okD(4))

lemma extend_lease_ok:
  "queue_ok db \<Longrightarrow> queue_ok (snd (extend_lease now i w t v d db))"
  unfolding queue_ok_def extend_lease_def Let_def snd_conv
  by simp (rule leases_touch,
      auto simp: fence_def job_ok_def revision_cycle_of_def dest!: leases_okD(4))

lemma leases_close:
  assumes l: "leases_ok (qt_jobs db) (qt_attempts db)"
    and j: "j \<in> set (qt_jobs db)" "jm_lease_token j = Some t"
    and x: "x \<in> set (qt_attempts db)" "ja_job_id x = jm_id j" "ja_lease_token x = t"
      "ja_status x = ''running''"
    and j': "jm_id j' = jm_id j" "jm_lease_token j' = None" "job_ok j'"
      "jm_attempt_count j' = jm_attempt_count j"
    and st: "st \<noteq> ''running''"
    and db': "qt_jobs db' = alter (\<lambda>x. jm_id x = jm_id j) (\<lambda>_. j') (qt_jobs db)"
      "qt_attempts db' = alter (\<lambda>y. ja_id y = ja_id x) (close_attempt st now a b c r)
                           (qt_attempts db)"
  shows "queue_ok db' \<and> finished_kept db db'"
proof
  show "queue_ok db'"
    unfolding queue_ok_def db' by (rule leases_release [OF l j x(1,2,3) j']) (simp add: st)
  show "finished_kept db db'" by (rule finished_kept_alter [OF l x(1,4) db'(2)])
qed

lemma mark_succeeded_spec:
  assumes ok: "queue_ok db" and run: "mark_succeeded now i w t v db = Inr db'"
  shows "queue_ok db' \<and> finished_kept db db'"
proof -
  from ok have l: "leases_ok (qt_jobs db) (qt_attempts db)" by (simp add: queue_ok_def)
  let ?p = "fence i w t v now"
  let ?f = "\<lambda>j. clear_lease (j\<lparr>jm_status := SUCCEEDED, jm_completed_at := Some now\<rparr>)"
  from run have "length (filter ?p (qt_jobs db)) = 1"
    by (simp add: mark_succeeded_def Let_def split: if_splits)
  then have "filter ?p (qt_jobs db) \<noteq> []" by auto
  then obtain j where j: "j \<in> set (qt_jobs db)" "?p j" by (auto simp: filter_empty_conv)
  from fence_leased [OF j(2)] have ld: "jm_status j = LEASED" "jm_id j = i"
    "jm_lease_token j = Some t" by auto
  from leased_attempt [OF l j(1) ld(3)] ld(2) obtain x where
    x: "List.find (\<lambda>a. ja_job_id a = i \<and> ja_lease_token a = t) (qt_attempts db) = Some x"
      "x \<in> set (qt_attempts db)" "ja_job_id x = jm_id j" "ja_lease_token x = t"
      "ja_status x = ''running''" by auto
  note sel = fence_selects [OF leases_okD(1) [OF l] j]
  have db': "qt_jobs db' = alter (\<lambda>x. jm_id x = jm_id j) (\<lambda>_. ?f j) (qt_jobs db)"
    "qt_attempts db' = alter (\<lambda>y. ja_id y = ja_id x)
       (close_attempt ''succeeded'' now None None None None) (qt_attempts db)"
    using run x(1) sel(2) [of ?f]
    by (auto simp: mark_succeeded_def Let_def sel(1) finish_attempt_def)
  show ?thesis
    by (rule leases_close [OF l j(1) ld(3) x(2,3,4,5) _ _ _ _ _ db'])
       (use job_ok_clear [OF leases_okD(4) [OF l j(1)] ld(1)] in \<open>simp_all add: clear_lease_def\<close>)
qed

lemma mark_failed_shape:
  assumes "mark_failed now i w t v e d fc code rt st db = Inr db'"
    and "List.find (fence i w t v now) (qt_jobs db) = Some j"
    and "List.find (\<lambda>a. ja_job_id a = i \<and> ja_lease_token a = t) (qt_attempts db) = Some x"
  shows "qt_jobs db' = alter (\<lambda>x. jm_id x = jm_id j)
           (\<lambda>_. release_failed now (take 4000 e) fc (\<not> rt \<or> exhausted j) (now + d) j) (qt_jobs db) \<and>
         qt_attempts db' = alter (\<lambda>y. ja_id y = ja_id x)
           (close_attempt st now (Some fc) (Some code) (Some (take 4000 e))
              (Some (rt \<and> \<not> exhausted j))) (qt_attempts db)"
proof (cases "revision_cycle_of j")
  case (Inl err)
  with assms show ?thesis by (simp add: mark_failed_def Let_def finish_attempt_found)
next
  case (Inr c)
  with assms show ?thesis
    by (cases c) (auto simp: mark_failed_def Let_def finish_attempt_found split: option.splits)
qed

lemma mark_failed_spec:
  assumes ok: "queue_ok db"
    and run: "mark_failed now i w t v e d fc code rt st db = Inr db'"
    and st: "st \<noteq> ''running''"
  shows "queue_ok db' \<and> finished_kept db db'"
proof -
  from ok have l: "leases_ok (qt_jobs db) (qt_attempts db)" by (simp add: queue_ok_def)
  from run obtain j where find: "List.find (fence i w t v now) (qt_jobs db) = Some j"
    by (auto simp: mark_failed_def split: option.splits)
  then have j: "j \<in> set (qt_jobs db)" "fence i w t v now j" by (auto dest: find_Some_D)
  from fence_leased [OF j(2)] have ld: "jm_status j = LEASED" "jm_id j = i"
    "jm_lease_token j = Some t" by auto
  from leased_attempt [OF l j(1) ld(3)] ld(2) obtain x where
    x: "List.find (\<lambda>a. ja_job_id a = i \<and> ja_lease_token a = t) (qt_attempts db) = Some x"
      "x \<in> set (qt_attempts db)" "ja_job_id x = jm_id j" "ja_lease_token x = t"
      "ja_status x = ''running''" by auto
  from mark_failed_shape [OF run find x(1)]
  show ?thesis
    by (elim conjE) (rule leases_close [OF l j(1) ld(3) x(2,3,4,5) _ _ _ _ st],
       simp_all add: job_ok_release leases_okD(4) [OF l j(1)] ld(1))
qed

lemma select_claimable_Some:
  "select_claimable now locked tys db = Some j \<Longrightarrow>
   j \<in> set (qt_jobs db) \<and> claimable now tys j \<and> jm_id j \<notin> set locked"
  unfolding select_claimable_def by (drule first_by_Some) simp

lemma job_ok_lease:
  "job_ok j \<Longrightarrow> claimable now tys j \<Longrightarrow> succeeds (revision_cycle_of j) \<Longrightarrow>
   job_ok (lease_job t now w d j)"
  by (auto simp: job_ok_def lease_job_def claimable_def revision_cycle_of_def)

lemma claim_next_shape:
  assumes "claim_next t aid now locked w d tys tmo db = Inr (r, db')"
  shows "r = None \<and> db' = db \<or>
    (\<exists>j c. select_claimable now locked tys db = Some j \<and> revision_cycle_of j = Inr c \<and>
       r = Some (lease_job t now w d j) \<and>
       qt_jobs db' = alter (\<lambda>x. jm_id x = jm_id j) (\<lambda>_. lease_job t now w d j) (qt_jobs db) \<and>
       qt_attempts db' = qt_attempts db @
         [new_attempt aid t now w tmo c (lease_job t now w d j)])"
proof (cases "tys = Some [] \<or> select_claimable now locked tys db = None")
  case True
  with assms show ?thesis by (auto simp: claim_next_def split: if_splits)
next
  case False
  then obtain j where j: "select_claimable now locked tys db = Some j" by blast
  show ?thesis
  proof (cases "revision_cycle_of j")
    case (Inl e)
    with assms False j show ?thesis by (simp add: claim_next_def Let_def)
  next
    case (Inr c)
    with assms False j show ?thesis
      by (cases c) (auto simp: claim_next_def Let_def split: option.splits if_splits)
  qed
qed

lemma claim_next_spec:
  assumes ok: "queue_ok db"
    and fresh: "t \<notin> ja_lease_token ` set (qt_attempts db)" "aid \<notin> ja_id ` set (qt_attempts db)"
    and run: "claim_next t aid now locked w d tys tmo db = Inr (r, db')"
  shows "queue_ok db' \<and> finished_kept db db'"
  using claim_next_shape [OF run]
proof (elim disjE exE conjE)
  assume "db' = db"
  with ok show ?thesis by (simp add: finished_kept_refl)
next
  fix j c
  assume sel: "select_claimable now locked tys db = Some j" and cyc: "revision_cycle_of j = Inr c"
    and db': "qt_jobs db' = alter (\<lambda>x. jm_id x = jm_id j) (\<lambda>_. lease_job t now w d j) (qt_jobs db)"
      "qt_attempts db' = qt_attempts db @ [new_attempt aid t now w tmo c (lease_job t now w d j)]"
  from ok have l: "leases_ok (qt_jobs db) (qt_attempts db)" by (simp add: queue_ok_def)
  from select_claimable_Some [OF sel] have j: "j \<in> set (qt_jobs db)" "claimable now tys j" by auto
  have "queue_ok db'"
    unfolding queue_ok_def db'
    by (rule leases_grant [OF l j(1), where t = t])
       (use j(2) fresh job_ok_lease [OF leases_okD(4) [OF l j(1)] j(2)] cyc in
         \<open>simp_all add: claimable_def lease_job_def new_attempt_def\<close>)
  then show ?thesis by (auto simp: finished_kept_def db')
qed

end
