(* ===== verification/Job_Guarantees.thy ===== *)
theory Job_Guarantees
  imports Job_Leases
begin

text \<open>
  The recovery of expired leases, the queue as a transition system over all operations, and
  the properties of the queue: its invariant, the finality of closed attempts with the fencing
  of stale leases, the budget of attempts, the choice made by \<^verbatim>\<open>claim_next\<close>, the completeness
  of recovery, the retry delays and the setup blockers.
\<close>

section \<open>Recovery\<close>

definition recovered_row :: "RetryPolicy \<Rightarrow> timestamp \<Rightarrow> JobModel \<Rightarrow> JobModel" where
  "recovered_row policy now j =
     release_failed now lease_expired_message (failure_class_text INFRASTRUCTURE) (exhausted j)
       (now + delay policy (jm_retry_count j + 1)) j"

lemma recovered_row_simps [simp]:
  "jm_id (recovered_row policy now j) = jm_id j"
  "jm_status (recovered_row policy now j) = (if exhausted j then DEAD_LETTER else RETRY_WAIT)"
  by (simp_all add: recovered_row_def)

lemma leased_attempt_running:
  assumes "leases_ok jobs atts" and "j \<in> set jobs" and "jm_lease_token j = Some t"
  shows "\<exists>x. List.find (\<lambda>a. ja_job_id a = jm_id j \<and> ja_lease_token a = t \<and> ja_status a = ''running'')
               atts = Some x \<and>
             x \<in> set atts \<and> ja_job_id x = jm_id j \<and> ja_lease_token x = t \<and>
             ja_status x = ''running''"
proof -
  from leased_attempt [OF assms] obtain a where "a \<in> set atts" "ja_job_id a = jm_id j"
    "ja_lease_token a = t" "ja_status a = ''running''" by blast
  then have "List.find (\<lambda>a. ja_job_id a = jm_id j \<and> ja_lease_token a = t
      \<and> ja_status a = ''running'') atts \<noteq> None"
    by (auto simp: find_None_iff)
  then show ?thesis by (auto dest: find_Some_D)
qed

lemma recover_job_spec:
  assumes ok: "queue_ok db" and j: "j \<in> set (qt_jobs db)" "jm_status j = LEASED"
  shows "\<exists>s' db'. recover_job policy now j (s, db) = Inr (s', db') \<and> queue_ok db' \<and>
      finished_kept db db' \<and>
      qt_jobs db' = alter (\<lambda>x. jm_id x = jm_id j) (\<lambda>_. recovered_row policy now j) (qt_jobs db) \<and>
      rs_attempts_abandoned s' = rs_attempts_abandoned s + 1 \<and>
      rs_jobs_recovered s' + rs_jobs_dead_lettered s'
        = rs_jobs_recovered s + rs_jobs_dead_lettered s + 1"
proof -
  from ok have l: "leases_ok (qt_jobs db) (qt_attempts db)" by (simp add: queue_ok_def)
  note jok = leases_okD(4) [OF l j(1)]
  from job_ok_leased [OF jok j(2)] obtain t where t: "jm_lease_token j = Some t" by blast
  from jok j(2) obtain c where c: "revision_cycle_of j = Inr c"
    by (auto simp: job_ok_def succeeds_iff)
  from leased_attempt_running [OF l j(1) t] obtain x where
    x: "List.find (\<lambda>a. ja_job_id a = jm_id j \<and> ja_lease_token a = t \<and> ja_status a = ''running'')
          (qt_attempts db) = Some x"
      "x \<in> set (qt_attempts db)" "ja_job_id x = jm_id j" "ja_lease_token x = t"
      "ja_status x = ''running''" by blast
  obtain s' db' where run: "recover_job policy now j (s, db) = Inr (s', db')"
    and db': "qt_jobs db' = alter (\<lambda>x. jm_id x = jm_id j) (\<lambda>_. recovered_row policy now j) (qt_jobs db)"
      "qt_attempts db' = alter (\<lambda>y. ja_id y = ja_id x)
         (close_attempt ''abandoned'' now (Some (failure_class_text INFRASTRUCTURE))
            (Some ''worker_lease_expired'') (Some lease_expired_message) (Some (\<not> exhausted j)))
         (qt_attempts db)"
    and s': "rs_attempts_abandoned s' = rs_attempts_abandoned s + 1"
      "rs_jobs_recovered s' + rs_jobs_dead_lettered s'
         = rs_jobs_recovered s + rs_jobs_dead_lettered s + 1"
    using t c x(1)
    by (cases c) (simp_all add: recover_job_def Let_def recovered_row_def abandon_attempt_def [abs_def])
  have "queue_ok db' \<and> finished_kept db db'"
    by (rule leases_close [OF l j(1) t x(2,3,4,5) _ _ _ _ _ db'])
       (simp_all add: recovered_row_def job_ok_release jok j(2))
  with run db' s' show ?thesis by blast
qed

lemma finished_kept_trans:
  "finished_kept a b \<Longrightarrow> finished_kept b c \<Longrightarrow> finished_kept a c"
  unfolding finished_kept_def by blast

lemma recover_jobs_spec:
  assumes "queue_ok db" and "set js \<subseteq> set (qt_jobs db)" and "distinct (map jm_id js)"
    and "\<And>j. j \<in> set js \<Longrightarrow> jm_status j = LEASED"
  shows "\<exists>s' db'. recover_jobs policy now js (s, db) = Inr (s', db') \<and> queue_ok db' \<and>
      finished_kept db db' \<and>
      qt_jobs db' = alter (\<lambda>x. jm_id x \<in> jm_id ` set js) (recovered_row policy now) (qt_jobs db) \<and>
      rs_attempts_abandoned s' = rs_attempts_abandoned s + length js \<and>
      rs_jobs_recovered s' + rs_jobs_dead_lettered s'
        = rs_jobs_recovered s + rs_jobs_dead_lettered s + length js"
  using assms
proof (induction js arbitrary: s db)
  case Nil
  then show ?case by (simp add: finished_kept_refl alter_none)
next
  case (Cons j js)
  have l: "leases_ok (qt_jobs db) (qt_attempts db)" using Cons.prems(1) by (simp add: queue_ok_def)
  have j: "j \<in> set (qt_jobs db)" "jm_status j = LEASED" using Cons.prems(2,4) by auto
  from recover_job_spec [OF Cons.prems(1) j, of policy now s] obtain s1 db1 where
    one: "recover_job policy now j (s, db) = Inr (s1, db1)" "queue_ok db1" "finished_kept db db1"
      "qt_jobs db1 = alter (\<lambda>x. jm_id x = jm_id j) (\<lambda>_. recovered_row policy now j) (qt_jobs db)"
      "rs_attempts_abandoned s1 = rs_attempts_abandoned s + 1"
      "rs_jobs_recovered s1 + rs_jobs_dead_lettered s1
         = rs_jobs_recovered s + rs_jobs_dead_lettered s + 1"
    by blast
  have ids: "jm_id j \<notin> jm_id ` set js" "distinct (map jm_id js)" using Cons.prems(3) by auto
  have sub: "set js \<subseteq> set (qt_jobs db1)"
  proof
    fix k assume k: "k \<in> set js"
    with ids(1) have "jm_id k \<noteq> jm_id j" by (metis imageI)
    moreover have "k \<in> set (qt_jobs db)" using k Cons.prems(2) by auto
    ultimately show "k \<in> set (qt_jobs db1)" by (force simp: one(4) set_alter)
  qed
  from Cons.IH [OF one(2) sub ids(2), of s1] Cons.prems(4) obtain s2 db2 where
    rest: "recover_jobs policy now js (s1, db1) = Inr (s2, db2)" "queue_ok db2"
      "finished_kept db1 db2"
      "qt_jobs db2 = alter (\<lambda>x. jm_id x \<in> jm_id ` set js) (recovered_row policy now) (qt_jobs db1)"
      "rs_attempts_abandoned s2 = rs_attempts_abandoned s1 + length js"
      "rs_jobs_recovered s2 + rs_jobs_dead_lettered s2
         = rs_jobs_recovered s1 + rs_jobs_dead_lettered s1 + length js"
    by auto
  have "alter (\<lambda>x. jm_id x \<in> jm_id ` set js) (recovered_row policy now)
          (alter (\<lambda>x. jm_id x = jm_id j) (\<lambda>_. recovered_row policy now j) (qt_jobs db))
      = alter (\<lambda>x. jm_id x \<in> jm_id ` set (j # js)) (recovered_row policy now) (qt_jobs db)"
    unfolding alter_def map_map
  proof (rule map_cong [OF refl])
    fix x assume "x \<in> set (qt_jobs db)"
    then have "jm_id x = jm_id j \<Longrightarrow> x = j" using job_eq [OF l _ j(1)] by blast
    then show "((\<lambda>x. if jm_id x \<in> jm_id ` set js then recovered_row policy now x else x) \<circ>
          (\<lambda>x. if jm_id x = jm_id j then recovered_row policy now j else x)) x
        = (if jm_id x \<in> jm_id ` set (j # js) then recovered_row policy now x else x)"
      using ids(1) by auto
  qed
  with one rest show ?case
    by (auto intro: finished_kept_trans)
qed

section \<open>The queue as a transition system\<close>

text \<open>
  A step is one committed operation with any arguments. Identifiers drawn with \<^verbatim>\<open>uuid4\<close> are
  fresh; the worker closes a failed attempt as \<^verbatim>\<open>failed\<close> or \<^verbatim>\<open>timed_out\<close>.
\<close>

inductive queue_step :: "queue_tables \<Rightarrow> queue_tables \<Rightarrow> bool" where
  enqueued: "new_id \<notin> jm_id ` set (qt_jobs db) \<Longrightarrow>
     queue_step db (enqueue new_id now pid rid ty pay prio mx db)"
| blockers_recorded: "queue_step db (record_setup_blockers tys blockers db)"
| claimed: "t \<notin> ja_lease_token ` set (qt_attempts db) \<Longrightarrow> aid \<notin> ja_id ` set (qt_attempts db) \<Longrightarrow>
     claim_next t aid now locked w d tys tmo db = Inr (r, db') \<Longrightarrow> queue_step db db'"
| extended: "queue_step db (snd (extend_lease now i w t v d db))"
| succeeded: "mark_succeeded now i w t v db = Inr db' \<Longrightarrow> queue_step db db'"
| failed: "mark_failed now i w t v e d fc code rt st db = Inr db' \<Longrightarrow>
     st = ''failed'' \<or> st = ''timed_out'' \<Longrightarrow> queue_step db db'"
| recovered: "recover_expired policy now locked locked_workers stale limit db = Inr (s, db') \<Longrightarrow>
     queue_step db db'"
| registered: "queue_step db (register_worker now w profile db)"
| beaten: "queue_step db (snd (heartbeat now w db))"
| stopped: "queue_step db (stop_worker now w db)"

definition empty_queue :: "queue_tables \<Rightarrow> bool" where
  "empty_queue db \<longleftrightarrow> qt_jobs db = [] \<and> qt_attempts db = []"

lemma select_expired_spec:
  assumes "queue_ok db"
  shows "set (select_expired now locked limit db) \<subseteq> set (qt_jobs db)"
    and "distinct (map jm_id (select_expired now locked limit db))"
    and "j \<in> set (select_expired now locked limit db) \<Longrightarrow> expired now j"
proof -
  let ?fs = "filter (\<lambda>j. expired now j \<and> jm_id j \<notin> set locked) (qt_jobs db)"
  let ?xs = "sort_key jm_lease_expires_at ?fs"
  have set: "set ?xs = set ?fs" by (rule set_sort)
  have "mset (map jm_id ?xs) = mset (map jm_id ?fs)" by simp
  moreover have "distinct (map jm_id ?fs)"
    using assms by (simp add: queue_ok_def leases_ok_def distinct_map_filter)
  ultimately have d: "distinct (map jm_id ?xs)" by (rule mset_eq_imp_distinct_iff [THEN iffD2])
  have sel: "select_expired now locked limit db = take limit ?xs"
    by (simp add: select_expired_def)
  from d show "distinct (map jm_id (select_expired now locked limit db))"
    unfolding sel take_map [symmetric] by (rule distinct_take)
  have "set (take limit ?xs) \<subseteq> set ?fs" unfolding set [symmetric] by (rule set_take_subset)
  then show "set (select_expired now locked limit db) \<subseteq> set (qt_jobs db)"
    and "j \<in> set (select_expired now locked limit db) \<Longrightarrow> expired now j"
    unfolding sel by auto
qed

lemma recover_expired_spec:
  assumes "queue_ok db"
  shows "\<exists>s' db'. recover_expired policy now locked lw stale limit db = Inr (s', db') \<and>
      queue_ok db' \<and> finished_kept db db' \<and>
      qt_jobs db' = alter (\<lambda>x. jm_id x \<in> jm_id ` set (select_expired now locked limit db))
                      (recovered_row policy now) (qt_jobs db) \<and>
      rs_attempts_abandoned s' = length (select_expired now locked limit db) \<and>
      rs_jobs_recovered s' + rs_jobs_dead_lettered s'
        = length (select_expired now locked limit db)"
proof -
  let ?st = "\<lambda>w. stale_worker now stale w \<and> wi_worker_id w \<notin> set lw"
  let ?db = "db\<lparr>qt_workers := alter ?st
                 (\<lambda>w. w\<lparr>wi_status := ''offline'', wi_stopped_at := Some now\<rparr>) (qt_workers db)\<rparr>"
  let ?s = "\<lparr>rs_workers_marked_offline = length (filter ?st (qt_workers db)),
             rs_jobs_recovered = 0, rs_jobs_dead_lettered = 0, rs_attempts_abandoned = 0\<rparr>"
  have ok: "queue_ok ?db" using assms by (simp add: queue_ok_def)
  have sel: "select_expired now locked limit ?db = select_expired now locked limit db"
    by (simp add: select_expired_def)
  have kept: "finished_kept ?db = finished_kept db" by (simp add: finished_kept_def fun_eq_iff)
  note spec = select_expired_spec [OF ok, where now = now and locked = locked and limit = limit]
  have leased: "jm_status j = LEASED" if "j \<in> set (select_expired now locked limit ?db)" for j
    using spec(3) [OF that] by (simp add: expired_def)
  from recover_jobs_spec [OF ok spec(1,2) leased, of policy now ?s]
  show ?thesis unfolding recover_expired_def Let_def sel kept by simp
qed

lemma workers_only:
  "qt_jobs db' = qt_jobs db \<Longrightarrow> qt_attempts db' = qt_attempts db \<Longrightarrow> queue_ok db \<Longrightarrow>
   queue_ok db' \<and> finished_kept db db'"
  by (simp add: queue_ok_def finished_kept_refl)

lemma queue_step_keeps:
  "queue_step db db' \<Longrightarrow> queue_ok db \<Longrightarrow> queue_ok db' \<and> finished_kept db db'"
proof (induction rule: queue_step.induct)
  case (enqueued new_id db now pid rid ty pay prio mx)
  then show ?case
    using enqueue_ok [of db new_id] by (simp add: finished_kept_refl enqueue_def)
next
  case (blockers_recorded db tys blockers)
  then show ?case
    using record_setup_blockers_ok [of db tys blockers]
    by (simp add: finished_kept_refl record_setup_blockers_def)
next
  case (extended db now i w t v d)
  then show ?case
    using extend_lease_ok [of db now i w t v d]
    by (simp add: finished_kept_refl extend_lease_def Let_def)
next
  case (failed now i w t v e d fc code rt st db db')
  then have "st \<noteq> ''running''" by auto
  with failed mark_failed_spec show ?case by blast
next
  case (recovered policy now locked lw stale limit db s db')
  then show ?case using recover_expired_spec [of db policy now locked lw stale limit] by auto
next
  case (registered db now w profile)
  then show ?case
    by (intro workers_only) (simp_all add: register_worker_def split: option.split)
next
  case (beaten db now w)
  then show ?case
    by (intro workers_only) (simp_all add: heartbeat_def Let_def split: option.split)
next
  case (stopped db now w)
  then show ?case by (intro workers_only) (simp_all add: stop_worker_def)
qed (blast dest: claim_next_spec mark_succeeded_spec)+

lemma reaches_keeps:
  "reaches queue_step db db' \<Longrightarrow> queue_ok db \<Longrightarrow> queue_ok db' \<and> finished_kept db db'"
proof (induction rule: reaches.induct)
  case (go s t u)
  then show ?case using queue_step_keeps finished_kept_trans by blast
qed (simp add: finished_kept_refl)

lemma empty_queue_ok: "empty_queue db \<Longrightarrow> queue_ok db"
  by (simp add: empty_queue_def queue_ok_def leases_ok_def)

section \<open>Setup blockers\<close>

lemma prefix_before_char:
  "c \<notin> set p \<Longrightarrow> prefix p (e @ c # r) \<Longrightarrow> prefix p e"
proof (induction e arbitrary: p)
  case Nil
  then show ?case by (cases p) auto
next
  case (Cons x xs)
  then show ?case by (cases p) auto
qed

lemma before_text_none: "\<not> contains_text e m \<Longrightarrow> before_text m e = e"
  by (induction e) auto

lemma before_text_append:
  assumes "c \<notin> set m" and "\<not> contains_text e (c # m)"
  shows "before_text (c # m) (e @ (c # m) @ r) = e"
  using assms(2)
proof (induction e)
  case (Cons x xs)
  have "\<not> prefix (c # m) (x # xs @ c # m @ r)"
    using Cons.prems prefix_before_char [OF assms(1), of xs "m @ r"] by auto
  with Cons show ?case by simp
qed simp

text \<open>
  A job whose recorded error stems from an execution: it does not look like a setup blocker and
  leaves room for one.
\<close>

definition unblocked :: "JobModel \<Rightarrow> bool" where
  "unblocked j \<longleftrightarrow>
     (case jm_last_error j of
        None \<Rightarrow> jm_last_failure_class j = None
      | Some e \<Rightarrow> e \<noteq> [] \<and> \<not> starts_with e ''Setup blocker [''
                  \<and> \<not> contains_text e appended_marker
                  \<and> length e + length appended_marker \<le> 4000)"

text \<open>Blocker texts have the form of \<^verbatim>\<open>SetupBlocker.evidence\<close>.\<close>

definition blocker_texts :: "(string \<rightharpoonup> string) \<Rightarrow> bool" where
  "blocker_texts blockers \<longleftrightarrow>
     (\<forall>ty. case blockers ty of None \<Rightarrow> True | Some b \<Rightarrow> starts_with b ''Setup blocker ['')"

lemma appended_marker_split:
  "appended_marker = CHR 0x0A # ''Current '' @ ''Setup blocker [''"
  by (simp add: appended_marker_def)

lemma blocked_error:
  assumes "\<not> contains_text e appended_marker" and "length e + length appended_marker \<le> 4000"
    and "starts_with b ''Setup blocker [''"
  defines "e' \<equiv> take 4000 (e @ CHR 0x0A # ''Current '' @ b)"
  shows "before_text appended_marker e' = e" and "contains_text e' appended_marker"
    and "\<not> starts_with e ''Setup blocker ['' \<Longrightarrow> \<not> starts_with e' ''Setup blocker [''"
proof -
  from assms(3) obtain r where b: "b = ''Setup blocker ['' @ r"
    by (auto simp: starts_with_def prefix_def)
  have split: "e @ CHR 0x0A # ''Current '' @ b = (e @ appended_marker) @ r"
    by (simp add: b appended_marker_split)
  have e': "e' = e @ appended_marker @ take (4000 - length (e @ appended_marker)) r"
    unfolding e'_def split take_append using assms(2) by simp
  then show "before_text appended_marker e' = e"
    using before_text_append [of "CHR 0x0A" "''Current Setup blocker [''" e
        "take (4000 - length (e @ appended_marker)) r"] assms(1)
    unfolding appended_marker_def by simp
  show "contains_text e' appended_marker"
    unfolding contains_text_iff e' by (simp add: sublist_appendI)
  have "e' = e @ CHR 0x0A # ''Current Setup blocker [''
                @ take (4000 - length (e @ appended_marker)) r"
    unfolding e' by (simp add: appended_marker_def)
  then show "\<not> starts_with e ''Setup blocker ['' \<Longrightarrow> \<not> starts_with e' ''Setup blocker [''"
    unfolding starts_with_def using prefix_before_char [of "CHR 0x0A" "''Setup blocker [''" e]
    by force
qed

lemma block_job_last_wins:
  assumes "unblocked j" and "blocker_texts bl1" and "blocker_texts bl2"
  shows "block_job bl2 (block_job bl1 j) = block_job bl2 j"
proof (cases "bl1 (jm_job_type j)")
  case None
  with assms(1) have "block_job bl1 j = j"
    by (auto simp: block_job_def unblocked_def truthy_text_def split: option.splits)
  then show ?thesis by simp
next
  case (Some b1)
  with assms(2) have b1: "starts_with b1 ''Setup blocker [''"
    by (auto simp: blocker_texts_def split: option.splits dest: spec [of _ "jm_job_type j"])
  show ?thesis
  proof (cases "jm_last_error j")
    case None
    have "starts_with (take 4000 b1) ''Setup blocker [''"
      using b1 by (auto simp: starts_with_def prefix_def)
    moreover from this have "take 4000 b1 \<noteq> []" by (auto simp: starts_with_def)
    ultimately show ?thesis
      using assms(1) None Some
      by (auto simp: block_job_def unblocked_def truthy_text_def Let_def split: option.splits)
  next
    case err: (Some e)
    let ?e' = "take 4000 (e @ CHR 0x0A # ''Current '' @ b1)"
    from assms(1) err have e: "e \<noteq> []" "\<not> starts_with e ''Setup blocker [''"
      "\<not> contains_text e appended_marker" "length e + length appended_marker \<le> 4000"
      by (auto simp: unblocked_def)
    note be = blocked_error [OF e(3,4) b1]
    have one: "block_job bl1 j = j\<lparr>jm_last_error := Some ?e'\<rparr>"
      using e(1,2) err Some before_text_none [OF e(3)]
      by (simp add: block_job_def truthy_text_def)
    have "?e' \<noteq> []" using be(1) e(1) by (metis before_text.simps(1))
    then show ?thesis
      unfolding one using be(1,2) be(3) [OF e(2)] e err before_text_none [OF e(3)]
      by (cases "bl2 (jm_job_type j)")
         (simp_all add: block_job_def truthy_text_def del: take_append)
  qed
qed

lemma block_job_empty: "unblocked j \<Longrightarrow> block_job Map.empty j = j"
  by (auto simp: block_job_def unblocked_def truthy_text_def split: option.splits)

lemma block_job_stable [simp]:
  "jm_job_type (block_job bl j) = jm_job_type j" "jm_status (block_job bl j) = jm_status j"
  by (simp_all add: block_job_def Let_def split: option.split)

lemma record_twice:
  assumes "\<And>j. j \<in> set (qt_jobs db) \<Longrightarrow> block_job bl2 (block_job bl1 j) = block_job bl2 j"
  shows "record_setup_blockers tys bl2 (record_setup_blockers tys bl1 db)
         = record_setup_blockers tys bl2 db"
  unfolding record_setup_blockers_def
  using assms by (simp add: alter_alter)

section \<open>Counting what recovery leaves\<close>

lemma not_expired_recovered: "\<not> expired now (recovered_row policy now j)"
  by (simp add: expired_def)

lemma select_expired_remaining:
  assumes "distinct (map jm_id jobs)" and "set sel \<subseteq> set jobs"
  shows "filter (\<lambda>j. expired now j \<and> jm_id j \<notin> L)
           (alter (\<lambda>x. jm_id x \<in> jm_id ` set sel) (recovered_row policy now) jobs)
         = filter (\<lambda>j. expired now j \<and> jm_id j \<notin> L) (filter (\<lambda>x. x \<notin> set sel) jobs)"
proof -
  have "jm_id x \<in> jm_id ` set sel \<longleftrightarrow> x \<in> set sel" if "x \<in> set jobs" for x
  proof
    assume "jm_id x \<in> jm_id ` set sel"
    then obtain y where "y \<in> set sel" "jm_id x = jm_id y" by blast
    with distinct_key_eq [OF assms(1) that, of y] assms(2) show "x \<in> set sel" by blast
  qed simp
  then have "alter (\<lambda>x. jm_id x \<in> jm_id ` set sel) (recovered_row policy now) jobs
      = alter (\<lambda>x. x \<in> set sel) (recovered_row policy now) jobs"
    by (simp add: alter_def)
  moreover have "filter (\<lambda>j. expired now j \<and> jm_id j \<notin> L)
      (alter (\<lambda>x. x \<in> set sel) (recovered_row policy now) xs)
    = filter (\<lambda>j. expired now j \<and> jm_id j \<notin> L) (filter (\<lambda>x. x \<notin> set sel) xs)" for xs
    by (induction xs) (simp_all add: alter_def not_expired_recovered)
  ultimately show ?thesis by simp
qed

lemma select_expired_length:
  assumes "queue_ok db"
  shows "length (filter (\<lambda>x. x \<notin> set (select_expired now locked limit db))
             (filter (\<lambda>j. expired now j \<and> jm_id j \<notin> set locked) (qt_jobs db)))
         = length (filter (\<lambda>j. expired now j \<and> jm_id j \<notin> set locked) (qt_jobs db))
           - length (select_expired now locked limit db)"
proof -
  let ?fs = "filter (\<lambda>j. expired now j \<and> jm_id j \<notin> set locked) (qt_jobs db)"
  have d: "distinct ?fs"
    using assms distinct_of_key [of jm_id "qt_jobs db"] by (simp add: queue_ok_def leases_ok_def)
  have sel: "select_expired now locked limit db = take limit (sort_key jm_lease_expires_at ?fs)"
    by (simp add: select_expired_def)
  show ?thesis
    unfolding sel using take_sort_key [OF d] by (intro length_filter_out d) blast+
qed

section \<open>A sample run\<close>

text \<open>One job, claimed by worker \<open>w1\<close>, failed and waiting for its retry.\<close>

definition sample_db0 :: queue_tables where
  "sample_db0 = \<lparr>qt_jobs = [], qt_attempts = [], qt_workers = [], qt_cycles = []\<rparr>"

definition sample_db1 :: queue_tables where
  "sample_db1 = enqueue 1 0 5 None ''plan'' Map.empty 100 3 sample_db0"

definition sample_db2 :: queue_tables where
  "sample_db2 = (case claim_next 7 8 10 [] ''w1'' 60 None 1800 sample_db1 of
                   Inr (_, db) \<Rightarrow> db | Inl _ \<Rightarrow> sample_db1)"

definition sample_db3 :: queue_tables where
  "sample_db3 = (case mark_failed 20 1 ''w1'' 7 1 ''boom'' 30 ''unknown'' ''x'' True ''failed''
                        sample_db2 of
                   Inr db \<Rightarrow> db | Inl _ \<Rightarrow> sample_db2)"

lemma sample_claim: "\<exists>r. claim_next 7 8 10 [] ''w1'' 60 None 1800 sample_db1 = Inr (r, sample_db2)"
  by (simp add: sample_db2_def sample_db1_def sample_db0_def enqueue_def claim_next_def
      select_claimable_def claimable_def first_by_def revision_cycle_of_def Let_def)

lemma sample_db2_eq:
  "sample_db2 = \<lparr>qt_jobs = [lease_job 7 10 ''w1'' 60 (hd (qt_jobs sample_db1))],
     qt_attempts = [new_attempt 8 7 10 ''w1'' 1800 None
                      (lease_job 7 10 ''w1'' 60 (hd (qt_jobs sample_db1)))],
     qt_workers = [], qt_cycles = []\<rparr>"
  by (simp add: sample_db2_def sample_db1_def sample_db0_def enqueue_def claim_next_def alter_def
      select_claimable_def claimable_def first_by_def revision_cycle_of_def Let_def)

lemma sample_fail:
  "mark_failed 20 1 ''w1'' 7 1 ''boom'' 30 ''unknown'' ''x'' True ''failed'' sample_db2
     = Inr sample_db3"
  by (simp add: sample_db3_def sample_db2_eq sample_db1_def sample_db0_def enqueue_def
      lease_job_def new_attempt_def mark_failed_def fence_def finish_attempt_def
      revision_cycle_of_def release_failed_def clear_lease_def Let_def)

lemma sample_reaches: "reaches queue_step sample_db0 sample_db3"
proof -
  have "queue_step sample_db0 sample_db1"
    unfolding sample_db1_def by (rule enqueued) (simp add: sample_db0_def)
  moreover from sample_claim obtain r
    where "claim_next 7 8 10 [] ''w1'' 60 None 1800 sample_db1 = Inr (r, sample_db2)" by blast
  then have "queue_step sample_db1 sample_db2"
    by (rule claimed [rotated 2]) (simp_all add: sample_db1_def sample_db0_def enqueue_def)
  moreover have "queue_step sample_db2 sample_db3"
    by (rule failed [OF sample_fail]) simp
  ultimately show ?thesis by (meson reaches.stay reaches.go)
qed

lemma sample_empty: "empty_queue sample_db0"
  by (simp add: empty_queue_def sample_db0_def)

lemma sample_db3_attempts:
  "qt_attempts sample_db3 = [close_attempt ''failed'' 20 (Some ''unknown'') (Some ''x'')
     (Some ''boom'') (Some True) (hd (qt_attempts sample_db2))]"
  using mark_failed_shape [OF sample_fail, of "hd (qt_jobs sample_db2)" "hd (qt_attempts sample_db2)"]
  by (simp add: sample_db2_eq sample_db1_def sample_db0_def enqueue_def lease_job_def
      new_attempt_def fence_def alter_def exhausted_def)

text \<open>What a claim does with the job it selected.\<close>

definition cycle_ready :: "queue_tables \<Rightarrow> JobModel \<Rightarrow> bool" where
  "cycle_ready db k \<longleftrightarrow>
     (case revision_cycle_of k of
        Inl _ \<Rightarrow> False
      | Inr None \<Rightarrow> True
      | Inr (Some c) \<Rightarrow>
          (case List.find (\<lambda>r. rc_id r = c) (qt_cycles db) of
             None \<Rightarrow> False | Some r \<Rightarrow> rc_status r = ''pending''))"

lemma claim_next_selected:
  assumes "allowed \<noteq> Some []" and "select_claimable now locked allowed db = Some k"
  shows "if cycle_ready db k
     then \<exists>db'. claim_next t aid now locked w d allowed tmo db
                  = Inr (Some (lease_job t now w d k), db')
     else \<not> succeeds (claim_next t aid now locked w d allowed tmo db)"
proof (cases "revision_cycle_of k")
  case (Inl e)
  with assms show ?thesis by (simp add: claim_next_def cycle_ready_def Let_def)
next
  case (Inr c)
  show ?thesis
  proof (cases c)
    case None
    with Inr assms show ?thesis by (simp add: claim_next_def cycle_ready_def Let_def)
  next
    case (Some u)
    with Inr assms show ?thesis
      by (cases "List.find (\<lambda>r. rc_id r = u) (qt_cycles db)")
         (simp_all add: claim_next_def cycle_ready_def Let_def)
  qed
qed

section \<open>Properties\<close>

text \<open>
  C14: In every state the queue can reach, leases and attempts agree: a job has an owner, a token
  and an expiry exactly while it is leased; each leased job has exactly the running attempt that
  carries its token; a job's lease version and attempt counter equal the number of its attempts;
  identifiers and lease tokens are unique; completion times are set exactly on finished jobs.
\<close>
theorem queue_invariant:
  assumes "empty_queue db0" and "reaches queue_step db0 db"
  shows "queue_ok db"
  using reaches_keeps [OF assms(2) empty_queue_ok [OF assms(1)]] by blast

theorem queue_invariant_witness:
  "queue_ok sample_db3 \<and> length (qt_attempts sample_db3) = 1"
  using queue_invariant [OF sample_empty sample_reaches] by (simp add: sample_db3_attempts)



text \<open>
  C19: A job never gets more attempts than it was allowed, and never two at the same time: at
  most one of its attempts is running, and one is running exactly while the job is leased.
\<close>
theorem attempts_within_budget:
  assumes "empty_queue db0" and "reaches queue_step db0 db" and "j \<in> set (qt_jobs db)"
  shows "length (attempts_of (jm_id j) (qt_attempts db)) \<le> nat (jm_max_attempts j) \<and>
    length (filter (\<lambda>a. ja_status a = ''running'') (attempts_of (jm_id j) (qt_attempts db)))
      = (if jm_status j = LEASED then 1 else 0)"
proof
  from reaches_keeps [OF assms(2) empty_queue_ok [OF assms(1)]]
  have l: "leases_ok (qt_jobs db) (qt_attempts db)" by (simp add: queue_ok_def)
  note jok = leases_okD(4) [OF l assms(3)]
  from leases_okD(5) [OF l assms(3)] jok
  show "length (attempts_of (jm_id j) (qt_attempts db)) \<le> nat (jm_max_attempts j)"
    by (auto simp: job_ok_def)
  let ?rs = "filter (\<lambda>a. ja_status a = ''running'') (attempts_of (jm_id j) (qt_attempts db))"
  have run: "ja_status a = ''running'' \<longleftrightarrow> jm_lease_token j = Some (ja_lease_token a)"
    if "a \<in> set (qt_attempts db)" "ja_job_id a = jm_id j" for a
    by (rule running_iff_leased [OF l that(1) assms(3)]) (simp add: that(2))
  have dist: "distinct ?rs"
    unfolding attempts_of_def by (intro distinct_filter distinct_of_key [OF leases_okD(2) [OF l]])
  show "length ?rs = (if jm_status j = LEASED then 1 else 0)"
  proof (cases "jm_status j = LEASED")
    case True
    then obtain t where t: "jm_lease_token j = Some t" using jok job_ok_leased by blast
    from leased_attempt [OF l assms(3) t] obtain x where
      x: "x \<in> set (qt_attempts db)" "ja_job_id x = jm_id j" "ja_lease_token x = t" by blast
    have "set ?rs = {x}"
    proof (intro equalityI subsetI)
      fix a assume "a \<in> set ?rs"
      then have a: "a \<in> set (qt_attempts db)" "ja_job_id a = jm_id j" "ja_status a = ''running''"
        by (simp_all add: attempts_of_def)
      from run [OF a(1,2)] a(3) t x(3) have "ja_lease_token a = ja_lease_token x" by simp
      with token_eq [OF l a(1) x(1)] show "a \<in> {x}" by simp
    next
      fix a assume "a \<in> {x}"
      with run [OF x(1,2)] t x show "a \<in> set ?rs" by (simp add: attempts_of_def)
    qed
    then have "card (set ?rs) = 1" by simp
    then show ?thesis unfolding distinct_card [OF dist] using True by simp
  next
    case False
    then have "jm_lease_token j = None" using jok by (simp add: job_ok_def)
    then have "?rs = []" using run by (auto simp: attempts_of_def filter_empty_conv)
    with False show ?thesis by simp
  qed
qed

theorem attempts_within_budget_witness:
  "length (attempts_of 1 (qt_attempts sample_db3)) \<le> 3 \<and> length (qt_jobs sample_db3) = 1"
proof -
  have jobs: "length (qt_jobs sample_db3) = 1 \<and> jm_id (hd (qt_jobs sample_db3)) = 1 \<and>
      jm_max_attempts (hd (qt_jobs sample_db3)) = 3"
    using mark_failed_shape [OF sample_fail, of "hd (qt_jobs sample_db2)" "hd (qt_attempts sample_db2)"]
    by (simp add: sample_db2_eq sample_db1_def sample_db0_def enqueue_def lease_job_def
        new_attempt_def fence_def alter_def exhausted_def release_failed_def clear_lease_def Let_def)
  then have "hd (qt_jobs sample_db3) \<in> set (qt_jobs sample_db3)"
    by (metis hd_in_set length_greater_0_conv less_one)
  from attempts_within_budget [OF sample_empty sample_reaches this] jobs show ?thesis by simp
qed

text \<open>
  C21: The queue is work-conserving and ordered: when a claimable, unlocked job of an allowed
  type exists, a claim leases one of least priority number and, among those, of earliest
  creation. The one exception is that the most urgent job refers to a revision cycle that is
  malformed, missing or not pending: then the claim raises, for every worker, and no job is
  leased although others are claimable.
\<close>
theorem claim_takes_most_urgent:
  assumes "allowed \<noteq> Some []" and "j \<in> set (qt_jobs db)" and "claimable now allowed j"
    and "jm_id j \<notin> set locked"
  shows "\<exists>k\<in>set (qt_jobs db). claimable now allowed k \<and> jm_id k \<notin> set locked \<and>
    (jm_priority k, jm_created_at k) \<le> (jm_priority j, jm_created_at j) \<and>
    (if cycle_ready db k
     then \<exists>db'. claim_next t aid now locked w d allowed tmo db
                  = Inr (Some (lease_job t now w d k), db')
     else \<not> succeeds (claim_next t aid now locked w d allowed tmo db))"
proof -
  let ?xs = "filter (\<lambda>j. claimable now allowed j \<and> jm_id j \<notin> set locked) (qt_jobs db)"
  have "j \<in> set ?xs" using assms(2,3,4) by simp
  from first_by_exists [OF this, of "\<lambda>j. (jm_priority j, jm_created_at j)"] obtain k where
    k: "first_by (\<lambda>j. (jm_priority j, jm_created_at j)) ?xs = Some k" and mem: "k \<in> set ?xs"
    and le: "(jm_priority k, jm_created_at k) \<le> (jm_priority j, jm_created_at j)"
    by blast
  from mem have least: "k \<in> set (qt_jobs db)" "claimable now allowed k" "jm_id k \<notin> set locked"
    by simp_all
  have sel: "select_claimable now locked allowed db = Some k"
    using k by (simp add: select_claimable_def)
  show ?thesis
    by (intro bexI [OF _ least(1)] conjI least le claim_next_selected [OF assms(1) sel])
qed

theorem claim_takes_most_urgent_witness:
  "\<exists>k\<in>set (qt_jobs sample_db1).
     if cycle_ready sample_db1 k
     then \<exists>db'. claim_next 7 8 10 [] ''w1'' 60 None 1800 sample_db1
                  = Inr (Some (lease_job 7 10 ''w1'' 60 k), db')
     else \<not> succeeds (claim_next 7 8 10 [] ''w1'' 60 None 1800 sample_db1)"
proof -
  have "hd (qt_jobs sample_db1) \<in> set (qt_jobs sample_db1)"
    "claimable 10 None (hd (qt_jobs sample_db1))"
    by (simp_all add: sample_db1_def sample_db0_def enqueue_def claimable_def)
  from claim_takes_most_urgent [of None, OF _ this, of "[]" 7 8 "''w1''" 60 1800]
  have "\<exists>k\<in>set (qt_jobs sample_db1). claimable 10 None k \<and> jm_id k \<notin> set [] \<and>
      (jm_priority k, jm_created_at k)
        \<le> (jm_priority (hd (qt_jobs sample_db1)), jm_created_at (hd (qt_jobs sample_db1))) \<and>
      (if cycle_ready sample_db1 k
       then \<exists>db'. claim_next 7 8 10 [] ''w1'' 60 None 1800 sample_db1
                    = Inr (Some (lease_job 7 10 ''w1'' 60 k), db')
       else \<not> succeeds (claim_next 7 8 10 [] ''w1'' 60 None 1800 sample_db1))"
    by simp
  then show ?thesis by (elim bexE conjE) (rule bexI)
qed

text \<open>
  C18: Recovery of expired leases never fails on a reachable queue and is complete up to its
  limit: it takes as many expired, unlocked leases as the limit allows, so after it exactly the
  excess over the limit remains; each lease taken closes one attempt as abandoned and sends its
  job back to the queue or, when its attempts are used up, to the dead letters.
\<close>
theorem recovery_is_complete:
  assumes "empty_queue db0" and "reaches queue_step db0 db"
  shows "\<exists>s db'. recover_expired policy now locked locked_workers stale limit db = Inr (s, db') \<and>
    length (filter (\<lambda>j. expired now j \<and> jm_id j \<notin> set locked) (qt_jobs db'))
      = length (filter (\<lambda>j. expired now j \<and> jm_id j \<notin> set locked) (qt_jobs db)) - limit \<and>
    rs_jobs_recovered s + rs_jobs_dead_lettered s
      = min limit (length (filter (\<lambda>j. expired now j \<and> jm_id j \<notin> set locked) (qt_jobs db))) \<and>
    rs_attempts_abandoned s = rs_jobs_recovered s + rs_jobs_dead_lettered s"
proof -
  from reaches_keeps [OF assms(2) empty_queue_ok [OF assms(1)]] have ok: "queue_ok db" by blast
  then have d: "distinct (map jm_id (qt_jobs db))" by (simp add: queue_ok_def leases_ok_def)
  let ?E = "\<lambda>j. expired now j \<and> jm_id j \<notin> set locked"
  let ?sel = "select_expired now locked limit db"
  from recover_expired_spec [OF ok, of policy now locked locked_workers stale limit]
  obtain s db' where run:
    "recover_expired policy now locked locked_workers stale limit db = Inr (s, db')"
    and jobs: "qt_jobs db' = alter (\<lambda>x. jm_id x \<in> jm_id ` set ?sel) (recovered_row policy now) (qt_jobs db)"
    and cnt: "rs_attempts_abandoned s = length ?sel"
      "rs_jobs_recovered s + rs_jobs_dead_lettered s = length ?sel" by blast
  have len: "length ?sel = min limit (length (filter ?E (qt_jobs db)))"
    by (simp add: select_expired_def)
  have "filter ?E (qt_jobs db') = filter ?E (filter (\<lambda>x. x \<notin> set ?sel) (qt_jobs db))"
    unfolding jobs by (rule select_expired_remaining [OF d select_expired_spec(1) [OF ok]])
  then have "length (filter ?E (qt_jobs db'))
      = length (filter (\<lambda>x. x \<notin> set ?sel) (filter ?E (qt_jobs db)))"
    by (simp add: conj_commute)
  also have "\<dots> = length (filter ?E (qt_jobs db)) - length ?sel"
    using select_expired_length [OF ok] .
  finally show ?thesis using run cnt len by simp
qed

theorem recovery_is_complete_witness:
  "\<exists>s db'. recover_expired \<lparr>rp_base_seconds = 1, rp_maximum_seconds = 60\<rparr> 5000 [] [] 90 100
     sample_db3 = Inr (s, db')"
  using recovery_is_complete [OF sample_empty sample_reaches] by blast

text \<open>
  Retry delays are bounded and never shrink: with non-negative settings the delay lies
  between zero and the maximum, does not decrease from one retry to a later one, and doubles
  from each retry to the next as long as the doubled value is within the maximum.
\<close>
theorem retry_delay_bounded_backoff:
  assumes "0 \<le> rp_base_seconds p" and "0 \<le> rp_maximum_seconds p" and "m \<le> n"
  shows "0 \<le> delay p m \<and> delay p m \<le> delay p n \<and> delay p n \<le> seconds (rp_maximum_seconds p) \<and>
    (if 1 \<le> n \<and> 2 * delay p n \<le> seconds (rp_maximum_seconds p)
     then delay p (n + 1) = 2 * delay p n else True)"
proof -
  have mono: "(2::int) ^ nat (max 0 (m - 1)) \<le> 2 ^ nat (max 0 (n - 1))"
    using assms(3) by (intro power_increasing) auto
  have up: "rp_base_seconds p * 2 ^ nat (max 0 (m - 1)) \<le> rp_base_seconds p * 2 ^ nat (max 0 (n - 1))"
    using mult_left_mono [OF mono assms(1)] .
  have low: "0 \<le> rp_base_seconds p * 2 ^ nat (max 0 (m - 1))" using assms(1) by simp
  have "0 \<le> delay p m"
    unfolding delay_def seconds_def using low assms(2) by simp
  moreover have "delay p m \<le> delay p n"
    unfolding delay_def seconds_le_iff using up by (rule min.mono [OF order_refl])
  moreover have "delay p n \<le> seconds (rp_maximum_seconds p)"
    unfolding delay_def seconds_le_iff by (rule min.cobounded1)
  moreover have "delay p (n + 1) = 2 * delay p n"
    if "1 \<le> n" "2 * delay p n \<le> seconds (rp_maximum_seconds p)"
  proof -
    have suc: "nat (max 0 (n + 1 - 1)) = Suc (nat (max 0 (n - 1)))" using that(1) by simp
    have "min (rp_maximum_seconds p) (2 * q) = 2 * min (rp_maximum_seconds p) q"
      if "2 * min (rp_maximum_seconds p) q \<le> rp_maximum_seconds p" for q
      using that assms(2) by (auto simp: min_def split: if_splits)
    note doubled = this [of "rp_base_seconds p * 2 ^ nat (max 0 (n - 1))"]
    have "2 * min (rp_maximum_seconds p) (rp_base_seconds p * 2 ^ nat (max 0 (n - 1)))
        \<le> rp_maximum_seconds p"
      using that(2) unfolding delay_def seconds_def by linarith
    from doubled [OF this] show ?thesis
      unfolding delay_def seconds_def suc power_Suc by (simp only: mult.left_commute mult.assoc)
  qed
  ultimately show ?thesis by simp
qed

theorem retry_delay_bounded_backoff_witness:
  "delay \<lparr>rp_base_seconds = 5, rp_maximum_seconds = 60\<rparr> 2
     \<le> delay \<lparr>rp_base_seconds = 5, rp_maximum_seconds = 60\<rparr> 4"
  using retry_delay_bounded_backoff [of "\<lparr>rp_base_seconds = 5, rp_maximum_seconds = 60\<rparr>" 2 4]
  by simp



end
