(* ===== verification/Topological_Sort.thy ===== *)
theory Topological_Sort
  imports Prelude
begin

text \<open>
  The deterministic topological sort of \<^verbatim>\<open>domain/decomposition/determinism.py\<close>: Kahn's
  algorithm with a binary heap. The heap is a sorted list: \<^verbatim>\<open>heapify\<close> sorts, \<^verbatim>\<open>heappush\<close>
  inserts, \<^verbatim>\<open>heappop\<close> takes the least element. A Python set of nodes is a list without
  repetitions that enumerates it. The loop has a fuel argument; the number of nodes is enough
  (\<open>kahn_greedy\<close>).

  \<open>greedy\<close> is the reference: take the least node that is not taken and whose predecessors are
  all taken, until there is none. The algorithm computes it (\<open>kahn_greedy\<close>), and the facts about
  the order are proved on the reference.
\<close>

section \<open>The algorithm\<close>

datatype decomposition_error =
    DecompositionValueError string
  | DependencyCycleError string
  | DecompositionIndexError string

definition adjacency :: "('a \<times> 'a) list \<Rightarrow> 'a \<Rightarrow> 'a list" where
  "adjacency edges node = map snd (filter (\<lambda>e. fst e = node) edges)"

definition indegrees :: "('a \<times> 'a) list \<Rightarrow> 'a \<Rightarrow> int" where
  "indegrees edges node = int (length (filter (\<lambda>e. snd e = node) edges))"

fun relax :: "'a::linorder list \<Rightarrow> ('a \<Rightarrow> int) \<Rightarrow> 'a list \<Rightarrow> ('a \<Rightarrow> int) \<times> 'a list" where
  "relax [] indegree ready = (indegree, ready)"
| "relax (s # ss) indegree ready =
     (let indegree' = indegree(s := indegree s - 1)
      in relax ss indegree' (if indegree' s = 0 then insort s ready else ready))"

fun kahn ::
  "nat \<Rightarrow> ('a::linorder \<Rightarrow> 'a list) \<Rightarrow> ('a \<Rightarrow> int) \<Rightarrow> 'a list \<Rightarrow> 'a list \<Rightarrow> 'a list"
where
  "kahn 0 adj indegree ready result = result"
| "kahn (Suc fuel) adj indegree [] result = result"
| "kahn (Suc fuel) adj indegree (node # ready) result =
     (let (indegree', ready') = relax (sort (adj node)) indegree ready
      in kahn fuel adj indegree' ready' (result @ [node]))"

definition topological_result :: "'a::linorder list \<Rightarrow> ('a \<times> 'a) list \<Rightarrow> 'a list" where
  "topological_result nodes edges =
     (let edge_list = sorted_unique edges;
          indegree = indegrees edge_list;
          ready = sort (filter (\<lambda>n. indegree n = 0) nodes)
      in kahn (length nodes) (adjacency edge_list) indegree ready [])"

definition deterministic_topological_sort ::
  "'a::linorder list \<Rightarrow> ('a \<times> 'a) list \<Rightarrow> decomposition_error + 'a list" where
  "deterministic_topological_sort nodes edges =
     (if list_ex (\<lambda>(p, s). p \<notin> set nodes \<or> s \<notin> set nodes) edges
      then Inl (DecompositionValueError ''Dependency references an unknown package'')
      else let result = topological_result nodes edges
           in if length result \<noteq> length nodes
              then Inl (DependencyCycleError
                     ''Work-package dependency graph contains a cycle'')
              else Inr result)"

section \<open>The reference\<close>

definition available :: "'a list \<Rightarrow> ('a \<times> 'a) set \<Rightarrow> 'a list \<Rightarrow> 'a list" where
  "available nodes E taken =
     filter (\<lambda>n. n \<notin> set taken \<and> (\<forall>p. (p, n) \<in> E \<longrightarrow> p \<in> set taken)) nodes"

fun greedy :: "nat \<Rightarrow> 'a::linorder list \<Rightarrow> ('a \<times> 'a) set \<Rightarrow> 'a list \<Rightarrow> 'a list" where
  "greedy 0 nodes E taken = taken"
| "greedy (Suc fuel) nodes E taken =
     (case sort (available nodes E taken) of
        [] \<Rightarrow> taken
      | n # _ \<Rightarrow> greedy fuel nodes E (taken @ [n]))"

section \<open>The algorithm computes the reference\<close>

lemma relax_spec:
  assumes "distinct ss" and "sorted ready" and "distinct ready"
    and "\<And>s. s \<in> set ss \<Longrightarrow> 0 < d s" and "\<And>s. s \<in> set ready \<Longrightarrow> d s = 0"
  shows "\<exists>ready'. relax ss d ready = ((\<lambda>s. if s \<in> set ss then d s - 1 else d s), ready') \<and>
           sorted ready' \<and> distinct ready' \<and>
           set ready' = set ready \<union> {s \<in> set ss. d s = 1}"
  using assms
proof (induction ss arbitrary: d ready)
  case Nil
  then show ?case by auto
next
  case (Cons s ss)
  let ?d = "d(s := d s - 1)"
  let ?r = "if ?d s = 0 then insort s ready else ready"
  have pos: "0 < d s" using Cons.prems(4) by simp
  then have s: "s \<notin> set ready" using Cons.prems(5) by force
  have "\<exists>ready'. relax ss ?d ?r = ((\<lambda>x. if x \<in> set ss then ?d x - 1 else ?d x), ready') \<and>
           sorted ready' \<and> distinct ready' \<and> set ready' = set ?r \<union> {x \<in> set ss. ?d x = 1}"
  proof (rule Cons.IH)
    show "distinct ss" using Cons.prems(1) by simp
    show "sorted ?r" using Cons.prems(2) by (simp add: sorted_insort)
    show "distinct ?r" using Cons.prems(3) s by (simp add: distinct_insort)
    show "0 < ?d x" if "x \<in> set ss" for x
      using that Cons.prems(1,4) by auto
    show "?d x = 0" if "x \<in> set ?r" for x
      using that Cons.prems(5) s by (auto simp: set_insort_key split: if_splits)
  qed
  then obtain ready' where r: "relax ss ?d ?r = ((\<lambda>x. if x \<in> set ss then ?d x - 1 else ?d x), ready')"
    "sorted ready'" "distinct ready'" "set ready' = set ?r \<union> {x \<in> set ss. ?d x = 1}" by blast
  have "(\<lambda>x. if x \<in> set ss then ?d x - 1 else ?d x)
      = (\<lambda>x. if x \<in> set (s # ss) then d x - 1 else d x)"
    using Cons.prems(1) by (auto simp: fun_eq_iff)
  moreover have "set ?r \<union> {x \<in> set ss. ?d x = 1} = set ready \<union> {x \<in> set (s # ss). d x = 1}"
    using Cons.prems(1) by (auto simp: set_insort_key)
  moreover have "relax (s # ss) d ready = relax ss ?d ?r"
    by (simp add: Let_def)
  ultimately show ?case using r by auto
qed

lemma indegrees_card:
  assumes "distinct edges"
  shows "indegrees edges n = int (card {p. (p, n) \<in> set edges})"
proof -
  have "{p. (p, n) \<in> set edges} = fst ` set (filter (\<lambda>e. snd e = n) edges)"
    by force
  moreover have "inj_on fst (set (filter (\<lambda>e. snd e = n) edges))"
    by (auto simp: inj_on_def)
  ultimately have "card {p. (p, n) \<in> set edges} = card (set (filter (\<lambda>e. snd e = n) edges))"
    by (simp add: card_image)
  also have "\<dots> = length (filter (\<lambda>e. snd e = n) edges)"
    using assms by (intro distinct_card) simp
  finally show ?thesis by (simp add: indegrees_def)
qed

lemma adjacency_props:
  assumes "distinct edges"
  shows "distinct (adjacency edges n)" and "s \<in> set (adjacency edges n) \<longleftrightarrow> (n, s) \<in> set edges"
proof -
  have "inj_on snd (set (filter (\<lambda>e. fst e = n) edges))" by (auto simp: inj_on_def)
  with assms show "distinct (adjacency edges n)" by (simp add: adjacency_def distinct_map)
  show "s \<in> set (adjacency edges n) \<longleftrightarrow> (n, s) \<in> set edges"
    by (force simp: adjacency_def)
qed

text \<open>The number of predecessors still to come.\<close>

definition pending :: "('a \<times> 'a) set \<Rightarrow> 'a list \<Rightarrow> 'a \<Rightarrow> int" where
  "pending E taken n = int (card {p. (p, n) \<in> E \<and> p \<notin> set taken})"

lemma finite_preds: "finite E \<Longrightarrow> finite {p. (p, n) \<in> E \<and> P p}"
  by (rule finite_subset [of _ "fst ` E"]) force+

lemma pending_zero_iff: "finite E \<Longrightarrow> pending E taken n = 0 \<longleftrightarrow> (\<forall>p. (p, n) \<in> E \<longrightarrow> p \<in> set taken)"
  using finite_preds [of E n "\<lambda>p. p \<notin> set taken"] by (auto simp: pending_def)

lemma pending_snoc:
  assumes "finite E" and "m \<notin> set taken"
  shows "pending E (taken @ [m]) n = (if (m, n) \<in> E then pending E taken n - 1 else pending E taken n)"
proof -
  let ?P = "{p. (p, n) \<in> E \<and> p \<notin> set taken}"
  have eq: "{p. (p, n) \<in> E \<and> p \<notin> set (taken @ [m])} = ?P - {m}" by auto
  show ?thesis
  proof (cases "(m, n) \<in> E")
    case True
    with assms(2) have m: "m \<in> ?P" by simp
    have fin: "finite ?P" using finite_preds [OF assms(1)] .
    from m fin have "0 < card ?P" by (auto simp: card_gt_0_iff)
    with True show ?thesis
      unfolding pending_def eq card_Diff_singleton [OF m] by simp
  next
    case False
    then have "?P - {m} = ?P" by auto
    with False show ?thesis unfolding pending_def eq by simp
  qed
qed

definition closed_under :: "('a \<times> 'a) set \<Rightarrow> 'a list \<Rightarrow> bool" where
  "closed_under E taken \<longleftrightarrow> (\<forall>p n. (p, n) \<in> E \<longrightarrow> n \<in> set taken \<longrightarrow> p \<in> set taken)"

lemma closed_underD: "closed_under E taken \<Longrightarrow> (p, n) \<in> E \<Longrightarrow> n \<in> set taken \<Longrightarrow> p \<in> set taken"
  unfolding closed_under_def by blast

lemma closed_under_Nil [simp]: "closed_under E []"
  by (simp add: closed_under_def)

lemma kahn_step:
  assumes E: "finite (set edges)" "distinct edges" "\<And>p s. (p, s) \<in> set edges \<Longrightarrow> s \<in> set nodes"
    and nodes: "distinct nodes"
    and closed: "closed_under (set edges) taken"
    and av: "sort (available nodes (set edges) taken) = node # ready"
  shows "relax (sort (adjacency edges node)) (pending (set edges) taken) ready =
    (pending (set edges) (taken @ [node]), sort (available nodes (set edges) (taken @ [node])))"
proof -
  let ?E = "set edges"
  let ?av = "available nodes ?E"
  have dist: "distinct (node # ready)"
    unfolding av [symmetric] using nodes by (simp add: available_def)
  have srt: "sorted (node # ready)"
    unfolding av [symmetric] by simp
  have "set (sort (?av taken)) = insert node (set ready)" unfolding av by simp
  then have mem: "set (?av taken) = insert node (set ready)" by simp
  have node: "node \<in> set nodes" "node \<notin> set taken" "\<And>p. (p, node) \<in> ?E \<Longrightarrow> p \<in> set taken"
    using mem by (auto simp: available_def set_eq_iff)
  let ?ss = "sort (adjacency edges node)"
  have ss: "distinct ?ss" "set ?ss = {s. (node, s) \<in> ?E}"
    using adjacency_props [OF E(2)] by auto
  have succ_pos: "0 < pending ?E taken s" if "s \<in> set ?ss" for s
  proof -
    have "(node, s) \<in> ?E" using that ss(2) by simp
    with node(2) pending_zero_iff [OF E(1), of taken s] have "pending ?E taken s \<noteq> 0" by blast
    then show ?thesis by (simp add: pending_def)
  qed
  have ready_zero: "pending ?E taken r = 0" if "r \<in> set ready" for r
    using that mem pending_zero_iff [OF E(1)] by (auto simp: available_def set_eq_iff)
  have "sorted ready" "distinct ready" using dist srt by simp_all
  from relax_spec [where d = "pending ?E taken", OF ss(1) this succ_pos ready_zero]
  obtain ready' where
    r': "relax ?ss (pending ?E taken) ready
      = ((\<lambda>s. if s \<in> set ?ss then pending ?E taken s - 1 else pending ?E taken s), ready')"
    "sorted ready'" "distinct ready'"
    "set ready' = set ready \<union> {s \<in> set ?ss. pending ?E taken s = 1}"
    by blast
  have deg: "(\<lambda>s. if s \<in> set ?ss then pending ?E taken s - 1 else pending ?E taken s)
      = pending ?E (taken @ [node])"
    unfolding fun_eq_iff pending_snoc [OF E(1) node(2)] ss(2) by simp
  have iff: "n \<in> set (?av (taken @ [node])) \<longleftrightarrow> n \<in> set ready'" for n
  proof -
    note zero = pending_zero_iff [OF E(1)]
    have step: "pending ?E (taken @ [node]) n
        = (if (node, n) \<in> ?E then pending ?E taken n - 1 else pending ?E taken n)"
      by (rule pending_snoc [OF E(1) node(2)])
    have a: "n \<in> set (?av (taken @ [node])) \<longleftrightarrow>
        n \<in> set nodes \<and> n \<notin> set taken \<and> n \<noteq> node \<and> pending ?E (taken @ [node]) n = 0"
      by (auto simp: available_def zero)
    have "n \<in> insert node (set ready) \<longleftrightarrow> n \<in> set nodes \<and> n \<notin> set taken \<and> pending ?E taken n = 0"
      unfolding mem [symmetric] by (auto simp: available_def zero)
    with dist have b: "n \<in> set ready \<longleftrightarrow>
        n \<noteq> node \<and> n \<in> set nodes \<and> n \<notin> set taken \<and> pending ?E taken n = 0"
      by auto
    show ?thesis
    proof (cases "(node, n) \<in> ?E")
      case True
      then have "n \<noteq> node" "n \<in> set nodes" "n \<notin> set taken"
        using node(2,3) E(3) closed_underD [OF closed] by blast+
      moreover have "pending ?E taken n \<noteq> 0" using True node(2) zero by blast
      ultimately show ?thesis using True a b step unfolding r'(4) ss(2) by auto
    next
      case False
      then show ?thesis using a b step unfolding r'(4) ss(2) by auto
    qed
  qed
  have "ready' = sort (?av (taken @ [node]))"
    using r'(2,3) iff nodes
    by (intro sorted_distinct_set_unique) (auto simp: available_def)
  with r'(1) deg show ?thesis by simp
qed

lemma greedy_step_closed:
  assumes "closed_under E taken" and "sort (available nodes E taken) = m # ms"
  shows "m \<in> set nodes \<and> m \<notin> set taken \<and> (\<forall>p. (p, m) \<in> E \<longrightarrow> p \<in> set taken) \<and>
         closed_under E (taken @ [m])"
proof -
  have "m \<in> set (sort (available nodes E taken))" unfolding assms(2) by simp
  then have m: "m \<in> set nodes" "m \<notin> set taken" "\<forall>p. (p, m) \<in> E \<longrightarrow> p \<in> set taken"
    by (simp_all add: available_def)
  have "closed_under E (taken @ [m])"
    unfolding closed_under_def
  proof (intro allI impI)
    fix p n assume "(p, n) \<in> E" "n \<in> set (taken @ [m])"
    then show "p \<in> set (taken @ [m])"
      using m(3) closed_underD [OF assms(1)] by (cases "n = m") simp_all
  qed
  with m show ?thesis by blast
qed

lemma kahn_greedy:
  assumes E: "distinct edges" "\<And>p s. (p, s) \<in> set edges \<Longrightarrow> s \<in> set nodes"
    and nodes: "distinct nodes"
    and closed: "closed_under (set edges) taken"
  shows "kahn fuel (adjacency edges) (pending (set edges) taken)
           (sort (available nodes (set edges) taken)) taken
         = greedy fuel nodes (set edges) taken"
  using closed
proof (induction fuel arbitrary: taken)
  case (Suc fuel)
  show ?case
  proof (cases "sort (available nodes (set edges) taken)")
    case (Cons n ns)
    from greedy_step_closed [OF Suc.prems Cons]
    have next_closed: "closed_under (set edges) (taken @ [n])" by blast
    have step: "relax (sort (adjacency edges n)) (pending (set edges) taken) ns =
        (pending (set edges) (taken @ [n]), sort (available nodes (set edges) (taken @ [n])))"
      by (rule kahn_step [OF finite_set E nodes Suc.prems Cons])
    show ?thesis
      unfolding Cons kahn.simps greedy.simps list.case step Let_def prod.case
      by (rule Suc.IH [OF next_closed])
  qed simp
qed simp

section \<open>Facts about the reference\<close>

text \<open>
  A prefix of a topological order: no repetitions, and every node comes after all its
  predecessors.
\<close>

definition follows_edges :: "('a \<times> 'a) set \<Rightarrow> 'a list \<Rightarrow> bool" where
  "follows_edges E xs \<longleftrightarrow> (\<forall>i<length xs. \<forall>p. (p, xs ! i) \<in> E \<longrightarrow> p \<in> set (take i xs))"

lemma follows_Nil [simp]: "follows_edges E []"
  by (simp add: follows_edges_def)

lemma follows_snoc:
  "follows_edges E (xs @ [x]) \<longleftrightarrow> follows_edges E xs \<and> (\<forall>p. (p, x) \<in> E \<longrightarrow> p \<in> set xs)"
  unfolding follows_edges_def
  by (auto simp: nth_append less_Suc_eq)

lemma follows_closed: "follows_edges E xs \<Longrightarrow> closed_under E xs"
  unfolding follows_edges_def closed_under_def by (metis in_set_conv_nth in_set_takeD)

lemma greedy_spec:
  assumes "follows_edges E taken" and "distinct taken" and "set taken \<subseteq> set nodes" and "distinct nodes"
    and "length nodes \<le> length taken + fuel"
  defines "r \<equiv> greedy fuel nodes E taken"
  shows "follows_edges E r \<and> distinct r \<and> set r \<subseteq> set nodes \<and> available nodes E r = []"
  using assms(1,2,3,5) unfolding r_def
proof (induction fuel arbitrary: taken)
  case 0
  have "card (set nodes) \<le> card (set taken)"
    using 0 assms(4) by (simp add: distinct_card)
  then have "set taken = set nodes" using 0(3) by (simp add: card_seteq)
  with 0 show ?case by (auto simp: available_def filter_empty_conv)
next
  case (Suc fuel)
  show ?case
  proof (cases "sort (available nodes E taken)")
    case Nil
    then have "set (sort (available nodes E taken)) = {}" by simp
    then have "available nodes E taken = []" by simp
    with Suc.prems Nil show ?thesis by simp
  next
    case (Cons n ns)
    from greedy_step_closed [OF follows_closed [OF Suc.prems(1)] Cons]
    have n: "n \<in> set nodes" "n \<notin> set taken" "\<forall>p. (p, n) \<in> E \<longrightarrow> p \<in> set taken"
      by blast+
    have "follows_edges E (taken @ [n])" unfolding follows_snoc using Suc.prems(1) n(3) by simp
    moreover have "distinct (taken @ [n])" using Suc.prems(2) n(2) by simp
    moreover have "set (taken @ [n]) \<subseteq> set nodes" using Suc.prems(3) n(1) by simp
    moreover have "length nodes \<le> length (taken @ [n]) + fuel" using Suc.prems(4) by simp
    ultimately have "follows_edges E (greedy fuel nodes E (taken @ [n])) \<and>
        distinct (greedy fuel nodes E (taken @ [n])) \<and>
        set (greedy fuel nodes E (taken @ [n])) \<subseteq> set nodes \<and>
        available nodes E (greedy fuel nodes E (taken @ [n])) = []"
      by (rule Suc.IH)
    then show ?thesis unfolding greedy.simps Cons list.case .
  qed
qed

lemma stuck_cycle:
  assumes "finite E" and "available nodes E r = []" and "set r \<subset> set nodes"
    and "\<And>p s. (p, s) \<in> E \<Longrightarrow> p \<in> set nodes"
  shows "\<not> acyclic E"
proof
  assume "acyclic E"
  with assms(1) have "wf E" by (rule finite_acyclic_wf)
  moreover from assms(3) obtain x where "x \<in> set nodes - set r" by blast
  ultimately obtain z where z: "z \<in> set nodes - set r"
    "\<And>y. (y, z) \<in> E \<Longrightarrow> y \<notin> set nodes - set r"
    by (rule wfE_min) blast
  then have "z \<in> set (available nodes E r)"
    using assms(4) by (auto simp: available_def)
  with assms(2) show False by simp
qed

lemma follows_acyclic:
  assumes "follows_edges E xs" and "\<And>p s. (p, s) \<in> E \<Longrightarrow> s \<in> set xs" and "distinct xs"
  shows "acyclic E"
proof -
  let ?pos = "\<lambda>x. LEAST i. i < length xs \<and> xs ! i = x"
  have pos: "?pos x < length xs \<and> xs ! (?pos x) = x" if "x \<in> set xs" for x
    using that LeastI_ex [of "\<lambda>i. i < length xs \<and> xs ! i = x"] by (auto simp: in_set_conv_nth)
  have "?pos p < ?pos s" if e: "(p, s) \<in> E" for p s
  proof -
    from pos [OF assms(2) [OF e]] assms(1) e have "p \<in> set (take (?pos s) xs)"
      by (auto simp: follows_edges_def)
    then obtain i where "i < ?pos s" "i < length xs" "xs ! i = p"
      by (auto simp: in_set_conv_nth)
    then show ?thesis using Least_le [of "\<lambda>i. i < length xs \<and> xs ! i = p" i] by simp
  qed
  then have "E \<subseteq> inv_image less_than ?pos" by auto
  then have "wf E" by (meson wf_inv_image wf_less_than wf_subset)
  then show ?thesis by (rule wf_acyclic)
qed

section \<open>The sort\<close>

lemma topological_result_greedy:
  assumes "distinct nodes" and "set edges \<subseteq> set nodes \<times> set nodes"
  shows "topological_result nodes edges = greedy (length nodes) nodes (set edges) []"
proof -
  let ?es = "sorted_unique edges"
  have deg: "indegrees ?es = pending (set edges) []"
    by (simp add: fun_eq_iff indegrees_card pending_def)
  have "(\<lambda>n. pending (set edges) [] n = 0) = (\<lambda>n. \<forall>p. (p, n) \<notin> set edges)"
    by (simp add: fun_eq_iff pending_zero_iff)
  then have "filter (\<lambda>n. indegrees ?es n = 0) nodes = available nodes (set edges) []"
    unfolding deg by (simp add: available_def)
  with kahn_greedy [of ?es nodes "[]" "length nodes"] assms deg
  show ?thesis by (auto simp: topological_result_def Let_def)
qed

lemma unknown_edge_iff:
  "list_ex (\<lambda>(p, s). p \<notin> set nodes \<or> s \<notin> set nodes) edges \<longleftrightarrow> \<not> set edges \<subseteq> set nodes \<times> set nodes"
  by (auto simp: list_ex_iff)

lemma topological_sort_cases:
  assumes "distinct nodes" and "set edges \<subseteq> set nodes \<times> set nodes"
  defines "r \<equiv> greedy (length nodes) nodes (set edges) []"
  shows "deterministic_topological_sort nodes edges =
           (if acyclic (set edges) then Inr r
            else Inl (DependencyCycleError ''Work-package dependency graph contains a cycle''))"
    and "acyclic (set edges) \<Longrightarrow> set r = set nodes"
    and "distinct r" and "follows_edges (set edges) r"
proof -
  from greedy_spec [of "set edges" "[]" nodes "length nodes"] assms(1)
  have r: "follows_edges (set edges) r" "distinct r" "set r \<subseteq> set nodes"
    "available nodes (set edges) r = []"
    unfolding r_def by auto
  show "distinct r" "follows_edges (set edges) r" by fact+
  have full: "length r = length nodes \<longleftrightarrow> set r = set nodes"
    using r(2,3) assms(1) by (metis card_seteq distinct_card finite_set order_refl)
  have all: "set r = set nodes \<longleftrightarrow> acyclic (set edges)"
  proof
    assume "set r = set nodes"
    then show "acyclic (set edges)"
      using assms(2) by (intro follows_acyclic [OF r(1) _ r(2)]) auto
  next
    assume "acyclic (set edges)"
    with stuck_cycle [OF _ r(4)] assms(2) r(3) show "set r = set nodes" by blast
  qed
  then show "acyclic (set edges) \<Longrightarrow> set r = set nodes" by blast
  show "deterministic_topological_sort nodes edges =
           (if acyclic (set edges) then Inr r
            else Inl (DependencyCycleError ''Work-package dependency graph contains a cycle''))"
    unfolding deterministic_topological_sort_def unknown_edge_iff
      topological_result_greedy [OF assms(1,2)] r_def [symmetric]
    using assms(2) full all by (simp add: Let_def)
qed

lemma available_cong:
  "set nodes = set nodes' \<Longrightarrow> distinct nodes \<Longrightarrow> distinct nodes' \<Longrightarrow>
   sort (available nodes E taken) = sort (available nodes' E taken)"
  by (intro sorted_distinct_set_unique) (auto simp: available_def)

lemma greedy_cong:
  assumes "set nodes = set nodes'" and "distinct nodes" and "distinct nodes'"
  shows "greedy fuel nodes E taken = greedy fuel nodes' E taken"
  by (induction fuel arbitrary: taken)
     (simp_all add: available_cong [OF assms] split: list.split)

lemma greedy_prefix: "prefix taken (greedy fuel nodes E taken)"
proof (induction fuel arbitrary: taken)
  case (Suc fuel)
  show ?case
  proof (cases "sort (available nodes E taken)")
    case (Cons n ns)
    have "prefix taken (taken @ [n])" by simp
    also have "prefix \<dots> (greedy fuel nodes E (taken @ [n]))" by (rule Suc.IH)
    finally show ?thesis unfolding greedy.simps Cons list.case .
  qed simp
qed simp

lemma greedy_least:
  "length taken \<le> i \<Longrightarrow> i < length (greedy fuel nodes E taken) \<Longrightarrow>
   greedy fuel nodes E taken ! i
     = hd (sort (available nodes E (take i (greedy fuel nodes E taken))))"
proof (induction fuel arbitrary: taken)
  case (Suc fuel)
  show ?case
  proof (cases "sort (available nodes E taken)")
    case Nil
    with Suc.prems show ?thesis by simp
  next
    case (Cons n ns)
    have eq: "greedy (Suc fuel) nodes E taken = greedy fuel nodes E (taken @ [n])"
      unfolding greedy.simps Cons list.case ..
    show ?thesis
    proof (cases "i = length taken")
      case True
      from greedy_prefix [of "taken @ [n]" fuel nodes E] obtain zs where
        "greedy fuel nodes E (taken @ [n]) = (taken @ [n]) @ zs" unfolding prefix_def ..
      then show ?thesis unfolding eq True by (simp add: Cons)
    next
      case False
      with Suc.prems have "length (taken @ [n]) \<le> i" by simp
      from Suc.IH [OF this] Suc.prems(2) show ?thesis unfolding eq by simp
    qed
  qed
qed simp

section \<open>Properties\<close>

text \<open>
  C10: The sort answers correctly on every graph. It returns an order exactly when all edges
  join known packages and there is no cycle; the order then contains every package once, after
  all its dependencies, and at each position the least package that is ready. An unknown
  endpoint and a cycle get their own errors, the unknown endpoint first.
\<close>
theorem topological_sort_correct:
  assumes "distinct nodes"
  shows "case deterministic_topological_sort nodes edges of
      Inr order \<Rightarrow> set edges \<subseteq> set nodes \<times> set nodes \<and> acyclic (set edges) \<and>
        distinct order \<and> set order = set nodes \<and> follows_edges (set edges) order \<and>
        (\<forall>i<length order. order ! i = hd (sort (available nodes (set edges) (take i order))))
    | Inl (DependencyCycleError m) \<Rightarrow>
        set edges \<subseteq> set nodes \<times> set nodes \<and> \<not> acyclic (set edges)
    | Inl (DecompositionValueError m) \<Rightarrow> \<not> set edges \<subseteq> set nodes \<times> set nodes
    | Inl (DecompositionIndexError m) \<Rightarrow> False"
proof (cases "set edges \<subseteq> set nodes \<times> set nodes")
  case True
  note c = topological_sort_cases [OF assms True]
  have "\<forall>i<length (greedy (length nodes) nodes (set edges) []).
      greedy (length nodes) nodes (set edges) [] ! i = hd (sort (available nodes (set edges)
        (take i (greedy (length nodes) nodes (set edges) []))))"
    by (intro allI impI greedy_least) simp_all
  then show ?thesis
    unfolding c(1) using True c(2,3,4) by (cases "acyclic (set edges)") simp_all
next
  case False
  then show ?thesis
    unfolding deterministic_topological_sort_def unknown_edge_iff by simp
qed

theorem topological_sort_correct_witness:
  "case deterministic_topological_sort [''ui'', ''api'', ''db''] [(''db'', ''api''), (''api'', ''ui'')] of
      Inr order \<Rightarrow> follows_edges {(''db'', ''api''), (''api'', ''ui'')} order
        \<and> order = [''db'', ''api'', ''ui''] | Inl _ \<Rightarrow> False"
proof -
  have "deterministic_topological_sort [''ui'', ''api'', ''db''] [(''db'', ''api''), (''api'', ''ui'')]
      = Inr [''db'', ''api'', ''ui'']"
    by code_simp
  with topological_sort_correct [of "[''ui'', ''api'', ''db'']" "[(''db'', ''api''), (''api'', ''ui'')]"]
  show ?thesis by simp
qed

text \<open>
  The sort is a function of the graph alone: neither the order in which the set of packages
  is enumerated nor the order or repetition of the dependencies changes the answer.
\<close>
theorem topological_sort_deterministic:
  assumes "distinct nodes" and "distinct nodes'" and "set nodes = set nodes'"
    and "set edges = set edges'"
  shows "deterministic_topological_sort nodes edges = deterministic_topological_sort nodes' edges'"
proof (cases "set edges \<subseteq> set nodes \<times> set nodes")
  case True
  then have t': "set edges' \<subseteq> set nodes' \<times> set nodes'" by (simp add: assms(3,4))
  have len: "length nodes = length nodes'"
    using assms(1,2,3) by (metis distinct_card)
  show ?thesis
    unfolding topological_sort_cases(1) [OF assms(1) True]
      topological_sort_cases(1) [OF assms(2) t'] assms(4) len
      greedy_cong [OF assms(3,1,2)] ..
next
  case False
  with assms(3,4) show ?thesis
    unfolding deterministic_topological_sort_def unknown_edge_iff by simp
qed

theorem topological_sort_deterministic_witness:
  "deterministic_topological_sort [''b'', ''a''] [(''b'', ''a''), (''b'', ''a'')]
   = deterministic_topological_sort [''a'', ''b''] [(''b'', ''a'')]"
  by (rule topological_sort_deterministic) auto

end
