(* ===== verification/Decomposition_Core.thy ===== *)
theory Decomposition_Core
  imports Complex_Main Topological_Sort Py_Text Machine
begin

text \<open>
  \<^verbatim>\<open>domain/decomposition/core.py\<close> and \<^verbatim>\<open>domain/decomposition/scope.py\<close>: the states of a
  decomposition run, the canonical form of package keys, texts and repository paths, the
  matching of paths against scopes, and the overlap of scopes.

  \<^verbatim>\<open>PurePosixPath.match\<close> compares the components of path and pattern from the right with
  \<^verbatim>\<open>fnmatch\<close>, whose \<open>*\<close>, \<open>?\<close> and bracket expressions are \<open>glob\<close>. (In CPython 3.12 a negated
  bracket may also match the separator; that is not modelled.)
\<close>

section \<open>States of a decomposition run\<close>

datatype DecompositionState =
    PENDING
  | REPOSITORY_INDEXING
  | REPOSITORY_INDEXED
  | CREW_RUNNING
  | CREW_COMPLETED
  | NORMALIZING
  | GRAPH_BUILDING
  | VALIDATING
  | VALIDATION_FAILED
  | AWAITING_REVIEW
  | CHANGES_REQUESTED
  | APPROVED
  | REJECTED
  | SUPERSEDED
  | FAILED

fun state_text :: "DecompositionState \<Rightarrow> string" where
  "state_text PENDING = ''pending''"
| "state_text REPOSITORY_INDEXING = ''repository_indexing''"
| "state_text REPOSITORY_INDEXED = ''repository_indexed''"
| "state_text CREW_RUNNING = ''crew_running''"
| "state_text CREW_COMPLETED = ''crew_completed''"
| "state_text NORMALIZING = ''normalizing''"
| "state_text GRAPH_BUILDING = ''graph_building''"
| "state_text VALIDATING = ''validating''"
| "state_text VALIDATION_FAILED = ''validation_failed''"
| "state_text AWAITING_REVIEW = ''awaiting_review''"
| "state_text CHANGES_REQUESTED = ''changes_requested''"
| "state_text APPROVED = ''approved''"
| "state_text REJECTED = ''rejected''"
| "state_text SUPERSEDED = ''superseded''"
| "state_text FAILED = ''failed''"

fun TRANSITIONS :: "DecompositionState \<Rightarrow> DecompositionState list" where
  "TRANSITIONS PENDING = [REPOSITORY_INDEXING]"
| "TRANSITIONS REPOSITORY_INDEXING = [REPOSITORY_INDEXED, FAILED]"
| "TRANSITIONS REPOSITORY_INDEXED = [CREW_RUNNING]"
| "TRANSITIONS CREW_RUNNING = [CREW_COMPLETED, FAILED]"
| "TRANSITIONS CREW_COMPLETED = [NORMALIZING]"
| "TRANSITIONS NORMALIZING = [GRAPH_BUILDING, VALIDATION_FAILED]"
| "TRANSITIONS GRAPH_BUILDING = [VALIDATING, VALIDATION_FAILED]"
| "TRANSITIONS VALIDATING = [AWAITING_REVIEW, VALIDATION_FAILED]"
| "TRANSITIONS AWAITING_REVIEW = [APPROVED, CHANGES_REQUESTED, REJECTED]"
| "TRANSITIONS CHANGES_REQUESTED = [CREW_RUNNING, SUPERSEDED]"
| "TRANSITIONS APPROVED = [SUPERSEDED]"
| "TRANSITIONS _ = []"

definition assert_transition ::
  "DecompositionState \<Rightarrow> DecompositionState \<Rightarrow> decomposition_error + unit" where
  "assert_transition current target =
     (if target \<notin> set (TRANSITIONS current)
      then Inl (DecompositionValueError (''Invalid decomposition transition: '' @ state_text current
                                         @ '' -> '' @ state_text target))
      else Inr ())"

record DecompositionPolicy =
  dp_version :: string
  dp_minimum_packages :: nat
  dp_maximum_packages :: nat
  dp_maximum_allowed_scopes_per_package :: nat
  dp_maximum_proposed_paths_per_package :: nat
  dp_maximum_dependencies_per_package :: nat
  dp_maximum_acceptance_criteria_per_package :: nat
  dp_maximum_test_commands_per_package :: nat
  dp_maximum_estimated_files :: int
  dp_maximum_estimated_changed_lines :: int
  dp_maximum_cpu :: rat
  dp_maximum_memory_mb :: int
  dp_maximum_pid_limit :: int
  dp_maximum_timeout_seconds :: int
  dp_allowed_executables :: "string list"
  dp_reserved_keys :: "string list"

definition default_policy :: DecompositionPolicy where
  "default_policy =
     \<lparr>dp_version = ''work-package-policy-v1'', dp_minimum_packages = 1,
      dp_maximum_packages = 50, dp_maximum_allowed_scopes_per_package = 12,
      dp_maximum_proposed_paths_per_package = 12, dp_maximum_dependencies_per_package = 8,
      dp_maximum_acceptance_criteria_per_package = 15,
      dp_maximum_test_commands_per_package = 10, dp_maximum_estimated_files = 20,
      dp_maximum_estimated_changed_lines = 800, dp_maximum_cpu = 4,
      dp_maximum_memory_mb = 4096, dp_maximum_pid_limit = 256,
      dp_maximum_timeout_seconds = 1800,
      dp_allowed_executables = [''pytest'', ''python'', ''ruff'', ''mypy'', ''alembic'', ''npm'',
        ''pnpm'', ''yarn'', ''go'', ''cargo'', ''dotnet''],
      dp_reserved_keys = [''all'', ''root'', ''system'', ''admin'']\<rparr>"

section \<open>Canonical keys, texts and paths\<close>

definition slug_char :: "char \<Rightarrow> bool" where
  "slug_char c \<longleftrightarrow> (let n = of_char c :: nat in (97 \<le> n \<and> n \<le> 122) \<or> (48 \<le> n \<and> n \<le> 57))"

text \<open>\<^verbatim>\<open>_SLUG.sub("-", s)\<close>: every maximal run of other characters becomes one hyphen.\<close>

fun slug_sub :: "bool \<Rightarrow> string \<Rightarrow> string" where
  "slug_sub in_run [] = []"
| "slug_sub in_run (c # cs) =
     (if slug_char c then c # slug_sub False cs
      else if in_run then slug_sub True cs
      else CHR ''-'' # slug_sub True cs)"

definition canonical_slug :: "string \<Rightarrow> decomposition_error + string" where
  "canonical_slug value =
     (let result = strip_by (\<lambda>c. c = CHR ''-'') (slug_sub False (lower (strip value)))
      in if result = [] then Inl (DecompositionValueError ''Canonical package key is empty'')
         else Inr result)"

definition normalize_text :: "string \<Rightarrow> string" where
  "normalize_text value =
     strip (replace_char (CHR 0x0D) (CHR 0x0A) (replace_text [CHR 0x0D, CHR 0x0A] [CHR 0x0A] value))"

definition normalize_repository_path :: "string \<Rightarrow> decomposition_error + string" where
  "normalize_repository_path value =
     (let raw = replace_char (CHR 0x5C) (CHR ''/'') (strip value)
      in if starts_with raw ''/''
         then Inl (DecompositionValueError ''Absolute repository paths are prohibited'')
         else let path = posix_path raw
         in if ''..'' \<in> set (pp_parts path)
            then Inl (DecompositionValueError ''Repository path traversal is prohibited'')
            else let normalized = path_text path
            in if normalized = [] \<or> normalized = ''.''
               then Inl (DecompositionValueError ''Repository path cannot be empty'')
               else Inr normalized)"

section \<open>Matching paths against scopes\<close>

text \<open>The rest of a bracket expression, if it is closed: its items and what follows it.\<close>

definition bracket_close :: "bool \<Rightarrow> string \<Rightarrow> string \<Rightarrow> (bool \<times> string \<times> string) option" where
  "bracket_close negated first r =
     (if CHR '']'' \<in> set r
      then Some (negated, first @ takeWhile (\<lambda>c. c \<noteq> CHR '']'') r,
                 tl (dropWhile (\<lambda>c. c \<noteq> CHR '']'') r))
      else None)"

fun bracket_first :: "bool \<Rightarrow> string \<Rightarrow> (bool \<times> string \<times> string) option" where
  "bracket_first negated [] = None"
| "bracket_first negated (c # cs) =
     (if c = CHR '']'' then bracket_close negated [c] cs else bracket_close negated [] (c # cs))"

fun glob_bracket :: "string \<Rightarrow> (bool \<times> string \<times> string) option" where
  "glob_bracket [] = None"
| "glob_bracket (c # cs) =
     (if c = CHR ''!'' then bracket_first True cs else bracket_first False (c # cs))"

fun glob_items :: "string \<Rightarrow> char \<Rightarrow> bool" where
  "glob_items (a # h # b # rest) c =
     (if h = CHR ''-'' then (a \<le> c \<and> c \<le> b) \<or> glob_items rest c
      else a = c \<or> glob_items (h # b # rest) c)"
| "glob_items cs c = (c \<in> set cs)"

lemma bracket_close_shorter:
  assumes "bracket_close neg first r = Some (n, items, rest)"
  shows "length rest < length r"
proof -
  have r: "rest = tl (dropWhile (\<lambda>c. c \<noteq> CHR '']'') r)" "r \<noteq> []"
    using assms by (auto simp: bracket_close_def split: if_splits)
  have "length (dropWhile (\<lambda>c. c \<noteq> CHR '']'') r) \<le> length r" by (rule length_dropWhile_le)
  with r show ?thesis by (cases r) auto
qed

lemma bracket_first_shorter:
  "bracket_first neg r = Some (n, items, rest) \<Longrightarrow> length rest < length r"
  by (cases r) (auto dest: bracket_close_shorter split: if_splits)

lemma glob_bracket_shorter:
  "glob_bracket ps = Some (n, items, rest) \<Longrightarrow> length rest < length ps"
  by (cases ps) (auto simp del: bracket_first.simps dest!: bracket_first_shorter split: if_splits)

function glob :: "string \<Rightarrow> string \<Rightarrow> bool" where
  "glob [] s = (s = [])"
| "glob (p # ps) s =
     (if p = CHR ''*'' then glob ps s \<or> (if s = [] then False else glob (p # ps) (tl s))
      else if s = [] then False
      else if p = CHR ''?'' then glob ps (tl s)
      else if p = CHR ''['' then
        (case glob_bracket ps of
           None \<Rightarrow> hd s = p \<and> glob ps (tl s)
         | Some (negated, items, rest) \<Rightarrow> glob_items items (hd s) \<noteq> negated \<and> glob rest (tl s))
      else hd s = p \<and> glob ps (tl s))"
  by pat_completeness auto
termination
  by (relation "measure (\<lambda>(p, s). length p + length s)")
     (auto dest!: glob_bracket_shorter)

definition pure_match :: "posix_path \<Rightarrow> posix_path \<Rightarrow> bool" where
  "pure_match path pattern \<longleftrightarrow>
     (let n = length (pp_parts pattern); m = length (pp_parts path)
      in n \<le> m \<and> list_all2 glob (pp_parts pattern) (drop (m - n) (pp_parts path)))"

definition remove_suffix :: "string \<Rightarrow> string \<Rightarrow> string" where
  "remove_suffix s p = (if ends_with s p then take (length s - length p) s else s)"

definition path_matches_scope :: "string \<Rightarrow> string \<Rightarrow> decomposition_error + bool" where
  "path_matches_scope path scope =
     bind_result (normalize_repository_path path) (\<lambda>p.
     bind_result (normalize_repository_path scope) (\<lambda>normalized_scope.
       let candidate = posix_path p
       in if ends_with normalized_scope ''/**''
          then Inr (path_within (posix_path (take (length normalized_scope - 3) normalized_scope))
                                candidate)
          else Inr (pure_match candidate (posix_path normalized_scope))))"

text \<open>The identity of a package; \<open>sha256\<close> is the hexadecimal digest, \<open>uuid5\<close> the namespaced UUID.\<close>

definition derive_package_id ::
  "(string \<Rightarrow> digest) \<Rightarrow> (uuid \<Rightarrow> string \<Rightarrow> uuid) \<Rightarrow> string \<Rightarrow> string \<Rightarrow> string \<Rightarrow> string \<Rightarrow> string
   \<Rightarrow> uuid" where
  "derive_package_id sha256 uuid5 project_id architecture_hash repository_tree_hash
      policy_version package_key =
     (let identity = join_with ''|'' [project_id, architecture_hash, repository_tree_hash,
                                      policy_version, package_key]
      in uuid5 0xed5eea9fe19e4b83b94f1220c8879491 (sha256 (utf8 identity)))"

section \<open>Scopes of scope.py\<close>

datatype scope_error = RepositoryScopeError string

definition normalize_repository_scope :: "string \<Rightarrow> scope_error + string" where
  "normalize_repository_scope value =
     (let candidate = strip (replace_char (CHR 0x5C) (CHR ''/'') value)
      in if candidate = [] \<or> starts_with candidate ''/'' \<or> starts_with candidate ''~/''
         then Inl (RepositoryScopeError ''Repository scope must be relative'')
         else let parts = pp_parts (posix_path candidate)
         in if ''..'' \<in> set parts \<or> ''.'' \<in> set parts
            then Inl (RepositoryScopeError ''Repository scope contains traversal'')
            else let normalized = path_text \<lparr>pp_absolute = False, pp_parts = parts\<rparr>
            in if normalized \<in> {''*'', ''**'', ''**/*''}
               then Inl (RepositoryScopeError ''Repository-wide wildcard is prohibited'')
               else Inr normalized)"

definition scope_literal :: "string \<Rightarrow> string" where
  "scope_literal scope = remove_suffix (remove_suffix scope ''/**'') ''/*''"

definition default_protected_paths :: "string list" where
  "default_protected_paths = [''.git'', ''.github/workflows'', ''infra/production'']"

definition validate_repository_scope ::
  "string \<Rightarrow> string list \<Rightarrow> string list \<Rightarrow> string list \<Rightarrow> scope_error + string" where
  "validate_repository_scope value indexed_paths proposed_paths protected_paths =
     bind_result (normalize_repository_scope value) (\<lambda>scope.
       let literal = scope_literal scope
       in if list_ex (\<lambda>path. literal = path \<or> starts_with literal (path @ ''/'')) protected_paths
          then Inl (RepositoryScopeError ''Repository scope is protected'')
          else if \<not> (literal \<in> set indexed_paths
                     \<or> list_ex (\<lambda>path. starts_with path (literal @ ''/'')) indexed_paths)
                  \<and> literal \<notin> set proposed_paths
          then Inl (RepositoryScopeError ''Repository scope is fabricated or absent'')
          else Inr scope)"

definition scopes_overlap :: "string \<Rightarrow> string \<Rightarrow> scope_error + bool" where
  "scopes_overlap first second =
     bind_result (normalize_repository_scope first) (\<lambda>f.
     bind_result (normalize_repository_scope second) (\<lambda>s.
       let left = scope_literal f; right = scope_literal s
       in Inr (left = right \<or> starts_with left (right @ ''/'') \<or> starts_with right (left @ ''/''))))"

end
