(* ===== verification/Decomposition.thy ===== *)
theory Decomposition
  imports Decomposition_Core Json_Value
begin

text \<open>
  \<^verbatim>\<open>domain/decomposition/schema.py\<close> and \<^verbatim>\<open>domain/decomposition/determinism.py\<close>: the candidate a
  crew proposes, its normalization, and the dependency graph of the normalized packages.

  A JSON value is a \<open>json\<close>; \<^verbatim>\<open>canonical_hash\<close> (SHA-256 of the sorted, compact JSON text), the
  hexadecimal SHA-256 of bytes and \<^verbatim>\<open>uuid.uuid5\<close> are the parameters \<open>canonical_hash\<close>,
  \<open>sha256\<close> and \<open>uuid5\<close>. A Python dictionary whose order matters is a list of pairs, a set that
  is only enumerated a list. Floats are rationals.
\<close>

section \<open>Candidates\<close>

record CandidateTestCommand =
  ct_command_key :: string
  ct_argv :: "string list"
  ct_working_directory :: string
  ct_timeout_seconds :: int

record CandidateAcceptanceCriterion =
  ca_criterion_key :: string
  ca_text :: string
  ca_verification_type :: string
  ca_command_ref :: "string option"

record CandidateExecutionPolicy =
  ce_network :: string
  ce_cpu_limit :: rat
  ce_memory_mb :: int
  ce_pid_limit :: int
  ce_timeout_seconds :: int
  ce_privileged :: bool
  ce_host_repository_write :: bool

record CandidateWorkPackage =
  cw_candidate_key :: string
  cw_title :: string
  cw_objective :: string
  cw_requirement_refs :: "string list"
  cw_architecture_refs :: "string list"
  cw_allowed_paths :: "string list"
  cw_proposed_new_paths :: "string list"
  cw_prohibited_paths :: "string list"
  cw_dependency_candidates :: "string list"
  cw_dependency_reasons :: "(string \<times> string) list"
  cw_acceptance_criteria :: "CandidateAcceptanceCriterion list"
  cw_test_commands :: "CandidateTestCommand list"
  cw_estimated_files :: int
  cw_estimated_changed_lines :: int
  cw_execution_policy :: CandidateExecutionPolicy

record CandidateDecomposition =
  cd_summary :: string
  cd_packages :: "CandidateWorkPackage list"
  cd_unresolved_questions :: "string list"
  cd_assumptions :: "string list"

text \<open>The field constraints of the schema.\<close>

definition length_between :: "nat \<Rightarrow> nat \<Rightarrow> 'a list \<Rightarrow> bool" where
  "length_between lo hi xs \<longleftrightarrow> lo \<le> length xs \<and> length xs \<le> hi"

definition valid_test_command :: "CandidateTestCommand \<Rightarrow> bool" where
  "valid_test_command c \<longleftrightarrow>
     length_between 1 100 (ct_command_key c) \<and> length_between 1 20 (ct_argv c) \<and>
     1 \<le> ct_timeout_seconds c \<and> ct_timeout_seconds c \<le> 1800"

definition valid_criterion :: "CandidateAcceptanceCriterion \<Rightarrow> bool" where
  "valid_criterion c \<longleftrightarrow>
     length_between 1 100 (ca_criterion_key c) \<and> length_between 10 500 (ca_text c) \<and>
     ca_verification_type c
       \<in> {''test'', ''static-analysis'', ''inspection'', ''migration-check'', ''contract-test''}"

definition valid_execution_policy :: "CandidateExecutionPolicy \<Rightarrow> bool" where
  "valid_execution_policy p \<longleftrightarrow>
     ce_network p \<in> {''disabled'', ''enabled''} \<and> 0 < ce_cpu_limit p \<and> 0 < ce_memory_mb p \<and>
     0 < ce_pid_limit p \<and> 0 < ce_timeout_seconds p"

definition valid_work_package :: "CandidateWorkPackage \<Rightarrow> bool" where
  "valid_work_package p \<longleftrightarrow>
     length_between 1 160 (cw_candidate_key p) \<and> length_between 1 300 (cw_title p) \<and>
     10 \<le> length (cw_objective p) \<and> distinct (map fst (cw_dependency_reasons p)) \<and>
     list_all valid_criterion (cw_acceptance_criteria p) \<and>
     list_all valid_test_command (cw_test_commands p) \<and>
     1 \<le> cw_estimated_files p \<and> 1 \<le> cw_estimated_changed_lines p \<and>
     valid_execution_policy (cw_execution_policy p)"

definition valid_candidate :: "CandidateDecomposition \<Rightarrow> bool" where
  "valid_candidate c \<longleftrightarrow>
     cd_summary c \<noteq> [] \<and> cd_packages c \<noteq> [] \<and> list_all valid_work_package (cd_packages c)"

section \<open>Normalized packages\<close>

record NormalizedCriterion =
  nr_key :: string
  nr_text :: string
  nr_verification_type :: string
  nr_command_ref :: "string option"

record NormalizedCommand =
  nm_key :: string
  nm_argv :: "string list"
  nm_working_directory :: string
  nm_timeout_seconds :: int

record NormalizedPackage =
  np_id :: string
  np_key :: string
  np_title :: string
  np_objective :: string
  np_requirement_refs :: "string list"
  np_architecture_refs :: "string list"
  np_allowed_paths :: "string list"
  np_proposed_new_paths :: "string list"
  np_prohibited_paths :: "string list"
  np_dependencies :: "string list"
  np_dependency_reasons :: "(string \<times> string) list"
  np_acceptance_criteria :: "NormalizedCriterion list"
  np_test_commands :: "NormalizedCommand list"
  np_estimated_files :: int
  np_estimated_changed_lines :: int
  np_execution_policy :: "(string \<times> json) list"
  np_package_hash :: digest

record NormalizedDecomposition =
  nd_summary :: string
  nd_packages :: "NormalizedPackage list"
  nd_assumptions :: "string list"
  nd_unresolved_questions :: "string list"
  nd_artifact_hash :: digest

section \<open>Normalization\<close>

definition criterion_json :: "NormalizedCriterion \<Rightarrow> json" where
  "criterion_json c = JObject
     [(''key'', JText (nr_key c)), (''text'', JText (nr_text c)),
      (''verification_type'', JText (nr_verification_type c)),
      (''command_ref'', text_or_null (nr_command_ref c))]"

definition command_json :: "NormalizedCommand \<Rightarrow> json" where
  "command_json c = JObject
     [(''key'', JText (nm_key c)), (''argv'', texts (nm_argv c)),
      (''working_directory'', JText (nm_working_directory c)),
      (''timeout_seconds'', JInt (nm_timeout_seconds c))]"

text \<open>\<^verbatim>\<open>model_dump(mode="json")\<close> of an execution policy, its items sorted by key.\<close>

definition execution_policy_items :: "CandidateExecutionPolicy \<Rightarrow> (string \<times> json) list" where
  "execution_policy_items p =
     [(''cpu_limit'', JFloat (ce_cpu_limit p)),
      (''host_repository_write'', JBool (ce_host_repository_write p)),
      (''memory_mb'', JInt (ce_memory_mb p)), (''network'', JText (ce_network p)),
      (''pid_limit'', JInt (ce_pid_limit p)), (''privileged'', JBool (ce_privileged p)),
      (''timeout_seconds'', JInt (ce_timeout_seconds p))]"

definition reasons_json :: "(string \<times> string) list \<Rightarrow> json" where
  "reasons_json rs = JList (map (\<lambda>(k, v). JList [JText k, JText v]) rs)"

text \<open>
  \<^verbatim>\<open>key_map.get(item, canonical_slug(item))\<close>: the default is computed, and may raise, first.
\<close>

definition mapped_key :: "(string \<rightharpoonup> string) \<Rightarrow> string \<Rightarrow> decomposition_error + string" where
  "mapped_key key_map item =
     bind_result (canonical_slug item) (\<lambda>default_key.
       Inr (case key_map item of Some key \<Rightarrow> key | None \<Rightarrow> default_key))"

definition normalize_criterion ::
  "CandidateAcceptanceCriterion \<Rightarrow> decomposition_error + NormalizedCriterion" where
  "normalize_criterion item =
     bind_result (canonical_slug (ca_criterion_key item)) (\<lambda>key.
     bind_result (case ca_command_ref item of
                    None \<Rightarrow> Inr None
                  | Some ref \<Rightarrow>
                      if ref = [] then Inr None
                      else bind_result (canonical_slug ref) (\<lambda>s. Inr (Some s))) (\<lambda>ref.
       Inr \<lparr>nr_key = key, nr_text = normalize_text (ca_text item),
            nr_verification_type = ca_verification_type item, nr_command_ref = ref\<rparr>))"

definition normalize_command ::
  "CandidateTestCommand \<Rightarrow> decomposition_error + NormalizedCommand" where
  "normalize_command item =
     bind_result (canonical_slug (ct_command_key item)) (\<lambda>key.
     bind_result (if ct_working_directory item \<noteq> ''.''
                  then normalize_repository_path (ct_working_directory item)
                  else Inr ''.'') (\<lambda>directory.
       Inr \<lparr>nm_key = key, nm_argv = map normalize_text (ct_argv item),
            nm_working_directory = directory, nm_timeout_seconds = ct_timeout_seconds item\<rparr>))"

definition normalize_paths :: "string list \<Rightarrow> decomposition_error + string list" where
  "normalize_paths xs =
     bind_result (traverse normalize_repository_path xs) (\<lambda>ys. Inr (sorted_unique ys))"

definition package_data_json :: "NormalizedPackage \<Rightarrow> json" where
  "package_data_json p = JObject
     [(''key'', JText (np_key p)), (''title'', JText (np_title p)),
      (''objective'', JText (np_objective p)),
      (''requirement_refs'', texts (np_requirement_refs p)),
      (''architecture_refs'', texts (np_architecture_refs p)),
      (''allowed_paths'', texts (np_allowed_paths p)),
      (''proposed_new_paths'', texts (np_proposed_new_paths p)),
      (''prohibited_paths'', texts (np_prohibited_paths p)),
      (''dependencies'', texts (np_dependencies p)),
      (''dependency_reasons'', reasons_json (np_dependency_reasons p)),
      (''acceptance_criteria'', JList (map criterion_json (np_acceptance_criteria p))),
      (''test_commands'', JList (map command_json (np_test_commands p))),
      (''estimated_files'', JInt (np_estimated_files p)),
      (''estimated_changed_lines'', JInt (np_estimated_changed_lines p)),
      (''execution_policy'', JObject (np_execution_policy p))]"

text \<open>\<^verbatim>\<open>asdict(item)\<close>: the same fields with the identifier, the pairs of the policy and the hash.\<close>

definition package_json :: "NormalizedPackage \<Rightarrow> json" where
  "package_json p = JObject
     [(''id'', JText (np_id p)), (''key'', JText (np_key p)), (''title'', JText (np_title p)),
      (''objective'', JText (np_objective p)),
      (''requirement_refs'', texts (np_requirement_refs p)),
      (''architecture_refs'', texts (np_architecture_refs p)),
      (''allowed_paths'', texts (np_allowed_paths p)),
      (''proposed_new_paths'', texts (np_proposed_new_paths p)),
      (''prohibited_paths'', texts (np_prohibited_paths p)),
      (''dependencies'', texts (np_dependencies p)),
      (''dependency_reasons'', reasons_json (np_dependency_reasons p)),
      (''acceptance_criteria'', JList (map criterion_json (np_acceptance_criteria p))),
      (''test_commands'', JList (map command_json (np_test_commands p))),
      (''estimated_files'', JInt (np_estimated_files p)),
      (''estimated_changed_lines'', JInt (np_estimated_changed_lines p)),
      (''execution_policy'', JList (map (\<lambda>(k, v). JList [JText k, v]) (np_execution_policy p))),
      (''package_hash'', JText (np_package_hash p))]"

text \<open>What identifies the inputs of a derivation.\<close>

record derivation =
  dv_canonical_hash :: "json \<Rightarrow> digest"
  dv_sha256 :: "string \<Rightarrow> digest"
  dv_uuid5 :: "uuid \<Rightarrow> string \<Rightarrow> uuid"
  dv_project_id :: string
  dv_architecture_hash :: string
  dv_repository_tree_hash :: string
  dv_policy :: DecompositionPolicy

definition normalize_package ::
  "derivation \<Rightarrow> (string \<rightharpoonup> string) \<Rightarrow> CandidateWorkPackage \<times> string
   \<Rightarrow> decomposition_error + NormalizedPackage" where
  "normalize_package d key_map source_key =
     (let (source, key) = source_key in
      bind_result (traverse (mapped_key key_map) (cw_dependency_candidates source)) (\<lambda>deps.
      bind_result (traverse normalize_criterion (cw_acceptance_criteria source)) (\<lambda>criteria.
      bind_result (traverse normalize_command (cw_test_commands source)) (\<lambda>commands.
      bind_result (normalize_paths (cw_allowed_paths source)) (\<lambda>allowed.
      bind_result (normalize_paths (cw_proposed_new_paths source)) (\<lambda>proposed.
      bind_result (normalize_paths (cw_prohibited_paths source)) (\<lambda>prohibited.
      bind_result (traverse (\<lambda>(k, v). bind_result (mapped_key key_map k)
                                        (\<lambda>k'. Inr (k', normalize_text v)))
                     (cw_dependency_reasons source)) (\<lambda>reasons.
        let body = \<lparr>np_id = uuid_text (derive_package_id (dv_sha256 d) (dv_uuid5 d)
                        (dv_project_id d) (dv_architecture_hash d) (dv_repository_tree_hash d)
                        (dp_version (dv_policy d)) key),
                    np_key = key,
                    np_title = normalize_text (cw_title source),
                    np_objective = normalize_text (cw_objective source),
                    np_requirement_refs = sorted_unique (cw_requirement_refs source),
                    np_architecture_refs = sorted_unique (cw_architecture_refs source),
                    np_allowed_paths = allowed,
                    np_proposed_new_paths = proposed,
                    np_prohibited_paths = prohibited,
                    np_dependencies = sorted_unique deps,
                    np_dependency_reasons = sort reasons,
                    np_acceptance_criteria = sort_key nr_key criteria,
                    np_test_commands = sort_key nm_key commands,
                    np_estimated_files = cw_estimated_files source,
                    np_estimated_changed_lines = cw_estimated_changed_lines source,
                    np_execution_policy = execution_policy_items (cw_execution_policy source),
                    np_package_hash = []\<rparr>
        in Inr (body\<lparr>np_package_hash := dv_canonical_hash d (package_data_json body)\<rparr>)))))))))"

definition artifact_json :: "NormalizedDecomposition \<Rightarrow> json" where
  "artifact_json n = JObject
     [(''summary'', JText (nd_summary n)),
      (''packages'', JList (map package_json (nd_packages n))),
      (''assumptions'', texts (nd_assumptions n)),
      (''unresolved_questions'', texts (nd_unresolved_questions n))]"

definition normalize ::
  "derivation \<Rightarrow> CandidateDecomposition \<Rightarrow> decomposition_error + NormalizedDecomposition" where
  "normalize d candidate =
     bind_result (traverse (\<lambda>p. canonical_slug (cw_candidate_key p)) (cd_packages candidate))
       (\<lambda>keys.
     if has_duplicates keys
     then Inl (DecompositionValueError ''Candidate package keys collide after normalization'')
     else
       let key_map = map_of (rev (zip (map cw_candidate_key (cd_packages candidate)) keys))
       in bind_result (traverse (normalize_package d key_map)
                         (sort_key snd (zip (cd_packages candidate) keys))) (\<lambda>packages.
            let body = \<lparr>nd_summary = normalize_text (cd_summary candidate),
                        nd_packages = packages,
                        nd_assumptions = sorted_unique (map normalize_text (cd_assumptions candidate)),
                        nd_unresolved_questions =
                          sorted_unique (map normalize_text (cd_unresolved_questions candidate)),
                        nd_artifact_hash = []\<rparr>
            in Inr (body\<lparr>nd_artifact_hash := dv_canonical_hash d (artifact_json body)\<rparr>)))"

section \<open>The dependency graph\<close>

type_synonym graph_edge = "string \<times> string \<times> string \<times> string"

record DecompositionGraph =
  dg_nodes :: "(string \<times> string \<times> string) list"
  dg_edges :: "graph_edge list"
  dg_topological_order :: "string list"
  dg_execution_groups :: "string list list"
  dg_graph_hash :: digest

definition edge_ends :: "graph_edge \<Rightarrow> string \<times> string" where
  "edge_ends e = (fst e, fst (snd e))"

definition package_edges :: "NormalizedPackage \<Rightarrow> graph_edge list" where
  "package_edges p = map (\<lambda>dependency.
       (dependency, np_key p, ''blocking'',
        case map_of (rev (np_dependency_reasons p)) dependency of
          None \<Rightarrow> ''required'' | Some reason \<Rightarrow> reason)) (np_dependencies p)"

definition ready_nodes :: "('a::linorder \<times> 'a) list \<Rightarrow> 'a list \<Rightarrow> 'a list" where
  "ready_nodes edges remaining =
     sort (filter (\<lambda>node. \<not> list_ex (\<lambda>(predecessor, successor).
                     successor = node \<and> predecessor \<in> set remaining) edges) remaining)"

text \<open>The loop \<^verbatim>\<open>while remaining\<close>; the number of packages is enough fuel.\<close>

fun execution_groups ::
  "nat \<Rightarrow> ('a::linorder \<times> 'a) list \<Rightarrow> 'a list \<Rightarrow> decomposition_error + 'a list list" where
  "execution_groups fuel edges [] = Inr []"
| "execution_groups 0 edges (r # rs) =
     Inl (DecompositionIndexError ''fuel exhausted'')"
| "execution_groups (Suc fuel) edges (r # rs) =
     (let ready = ready_nodes edges (r # rs)
      in if ready = []
         then Inl (DependencyCycleError ''Work-package dependency graph contains a cycle'')
         else bind_result (execution_groups fuel edges
                             (filter (\<lambda>n. n \<notin> set ready) (r # rs)))
                (\<lambda>groups. Inr (ready # groups)))"

definition graph_json ::
  "(string \<times> string \<times> string) list \<Rightarrow> graph_edge list \<Rightarrow> string list \<Rightarrow> string list list \<Rightarrow> json" where
  "graph_json nodes edges order groups = JObject
     [(''nodes'', JList (map (\<lambda>(a, b, c). texts [a, b, c]) nodes)),
      (''edges'', JList (map (\<lambda>(a, b, c, d). texts [a, b, c, d]) edges)),
      (''topological_order'', texts order),
      (''execution_groups'', JList (map texts groups))]"

definition build_graph ::
  "(json \<Rightarrow> digest) \<Rightarrow> NormalizedDecomposition \<Rightarrow> decomposition_error + DecompositionGraph" where
  "build_graph canonical_hash decomposition =
     (let packages = nd_packages decomposition;
          keys = remdups (map np_key packages);
          edges = sort (concat (map package_edges packages));
          pairs = map edge_ends edges
      in bind_result (deterministic_topological_sort keys pairs) (\<lambda>order.
         bind_result (execution_groups (length keys) pairs keys) (\<lambda>groups.
           let nodes = sort (map (\<lambda>p. (np_id p, np_key p, np_package_hash p)) packages)
           in Inr \<lparr>dg_nodes = nodes, dg_edges = edges, dg_topological_order = order,
                   dg_execution_groups = groups,
                   dg_graph_hash = canonical_hash (graph_json nodes edges order groups)\<rparr>)))"

end
