(* ===== verification/Decomposition_Paths.thy ===== *)
theory Decomposition_Paths
  imports Decomposition_Core
begin

text \<open>
  The canonical forms of \<open>Decomposition_Core\<close>: package keys, repository paths and scopes, the
  meaning of scope overlap, and the order in which a decomposition run passes its stages.
\<close>

section \<open>Package keys\<close>

definition slug_shape :: "string \<Rightarrow> bool" where
  "slug_shape s \<longleftrightarrow> s \<noteq> [] \<and> list_all (\<lambda>c. slug_char c \<or> c = CHR ''-'') s \<and>
     hd s \<noteq> CHR ''-'' \<and> last s \<noteq> CHR ''-'' \<and> \<not> sublist ''--'' s"

lemma slug_char_hyphen [simp]: "\<not> slug_char (CHR ''-'')"
  by (simp add: slug_char_def)

lemma slug_sub_chars: "c \<in> set (slug_sub b s) \<Longrightarrow> slug_char c \<or> c = CHR ''-''"
  by (induction s arbitrary: b) (auto split: if_splits)

lemma slug_sub_run: "slug_sub True s = [] \<or> hd (slug_sub True s) \<noteq> CHR ''-''"
  by (induction s) auto

lemma sublist_pair_Cons:
  "sublist [a, b] (x # xs) \<longleftrightarrow> (x = a \<and> xs \<noteq> [] \<and> hd xs = b) \<or> sublist [a, b] xs"
  by (cases xs) (auto simp: sublist_Cons_right)

lemma slug_sub_no_pair: "\<not> sublist ''--'' (slug_sub b s)"
proof (induction s arbitrary: b)
  case (Cons c cs)
  then show ?case
    using slug_sub_run [of cs] by (auto simp: sublist_pair_Cons)
qed simp

lemma slug_sub_id:
  "list_all (\<lambda>c. slug_char c \<or> c = CHR ''-'') s \<Longrightarrow> \<not> sublist ''--'' s \<Longrightarrow>
   (b \<longrightarrow> s = [] \<or> hd s \<noteq> CHR ''-'') \<Longrightarrow> slug_sub b s = s"
proof (induction s arbitrary: b)
  case (Cons c cs)
  then show ?case by (auto simp: sublist_pair_Cons)
qed simp

lemma slug_not_space: "slug_char c \<or> c = CHR ''-'' \<Longrightarrow> \<not> is_space_char c"
  by (auto simp: slug_char_def is_space_char_def Let_def)

lemma slug_lower: "slug_char c \<or> c = CHR ''-'' \<Longrightarrow> lower_char c = c"
  by (auto simp: slug_char_def lower_char_def Let_def)

lemma strip_no_space:
  assumes "\<And>c. c \<in> set s \<Longrightarrow> \<not> is_space_char c"
  shows "strip s = s"
  unfolding strip_def using assms by (intro strip_by_id) (metis hd_in_set last_in_set)

lemma strip_slug: "list_all (\<lambda>c. slug_char c \<or> c = CHR ''-'') s \<Longrightarrow> strip s = s"
  by (rule strip_no_space, rule slug_not_space) (simp add: list_all_iff)

lemma slug_shape_fixed: "slug_shape s \<Longrightarrow> canonical_slug s = Inr s"
proof -
  assume s: "slug_shape s"
  then have all: "list_all (\<lambda>c. slug_char c \<or> c = CHR ''-'') s" by (simp add: slug_shape_def)
  then have "lower s = s"
    unfolding lower_def by (intro map_idI slug_lower) (simp add: list_all_iff)
  moreover have "slug_sub False s = s"
    using s by (intro slug_sub_id) (simp_all add: slug_shape_def)
  moreover have "strip_by (\<lambda>c. c = CHR ''-'') s = s"
    using s by (intro strip_by_id) (simp add: slug_shape_def)
  ultimately show "canonical_slug s = Inr s"
    using s strip_slug [OF all] by (simp add: canonical_slug_def slug_shape_def)
qed

lemma canonical_slug_shape:
  assumes "canonical_slug v = Inr s"
  shows "slug_shape s"
proof -
  let ?u = "slug_sub False (lower (strip v))"
  from assms have s: "s = strip_by (\<lambda>c. c = CHR ''-'') ?u" "s \<noteq> []"
    by (auto simp: canonical_slug_def Let_def split: if_splits)
  from strip_by_split [of ?u "\<lambda>c. c = CHR ''-''"] obtain a b where ab: "?u = a @ s @ b"
    unfolding s(1) by blast
  have "set s \<subseteq> set ?u" unfolding ab by auto
  then have "list_all (\<lambda>c. slug_char c \<or> c = CHR ''-'') s"
    using slug_sub_chars by (auto simp: list_all_iff)
  moreover have "\<not> sublist ''--'' s"
  proof
    assume "sublist ''--'' s"
    then obtain x y where "s = x @ ''--'' @ y" by (auto simp: sublist_def)
    with ab have "?u = (a @ x) @ ''--'' @ (y @ b)" by simp
    then have "sublist ''--'' ?u" unfolding sublist_def by blast
    with slug_sub_no_pair show False by blast
  qed
  ultimately show ?thesis
    using s strip_by_ends [of "\<lambda>c. c = CHR ''-''" ?u] by (simp add: slug_shape_def)
qed

section \<open>Repository paths\<close>

lemma normalize_path_shape:
  assumes "normalize_repository_path v = Inr n"
  shows "\<not> pp_absolute (posix_path n) \<and> pp_parts (posix_path n) \<noteq> [] \<and>
    ''..'' \<notin> set (pp_parts (posix_path n)) \<and> n = join_with ''/'' (pp_parts (posix_path n)) \<and>
    canonical_parts (pp_parts (posix_path n))"
proof -
  let ?raw = "replace_char (CHR 0x5C) (CHR ''/'') (strip v)"
  let ?p = "posix_path ?raw"
  from assms have n: "\<not> pp_absolute ?p" "''..'' \<notin> set (pp_parts ?p)" "n = path_text ?p" "n \<noteq> ''.''"
    by (auto simp: normalize_repository_path_def Let_def posix_path_def starts_with_def
        split: if_splits)
  have rt: "posix_path n = ?p" unfolding n(3) by (rule posix_path_round_trip [OF n(1)])
  have "pp_parts ?p \<noteq> []" using n(1,3,4) by (auto simp: path_text_def)
  with n rt show ?thesis by (simp add: path_text_def canonical_posix_path)
qed

lemma replace_char_id: "a \<notin> set s \<Longrightarrow> replace_char a b s = s"
  unfolding replace_char_def by (intro map_idI) auto

lemma normalize_path_fixed:
  assumes "canonical_parts ws" and "ws \<noteq> []" and "''..'' \<notin> set ws"
    and "n = join_with ''/'' ws" and "list_all (\<lambda>c. \<not> is_space_char c \<and> c \<noteq> CHR 0x5C) n"
  shows "normalize_repository_path n = Inr n"
proof -
  have p: "posix_path n = \<lparr>pp_absolute = False, pp_parts = ws\<rparr>"
    unfolding assms(4) by (rule posix_path_join [OF assms(1,2)])
  then have "\<not> starts_with n ''/''" by (simp add: posix_path_def starts_with_def)
  moreover have "strip n = n"
    using assms(5) by (intro strip_no_space) (simp add: list_all_iff)
  moreover have "replace_char (CHR 0x5C) (CHR ''/'') n = n"
    using assms(5) by (intro replace_char_id) (auto simp: list_all_iff)
  moreover have "n \<noteq> [] \<and> n \<noteq> ''.''"
    using p assms(2) by (auto simp: posix_path_def)
  ultimately show ?thesis
    using p assms(2,3,4) by (simp add: normalize_repository_path_def Let_def path_text_def)
qed

section \<open>Literal scopes\<close>

lemma split_on_join_append:
  "us \<noteq> [] \<Longrightarrow> \<forall>w\<in>set us. c \<notin> set w \<Longrightarrow>
   split_on c (join_with [c] us @ c # r) = us @ split_on c r"
proof (induction "[c]" us rule: join_with.induct)
  case (3 x y xs)
  then show ?case by (simp add: split_on_append)
qed (simp_all add: split_on_append)

lemma join_append:
  "us \<noteq> [] \<Longrightarrow> vs \<noteq> [] \<Longrightarrow> join_with sep (us @ vs) = join_with sep us @ sep @ join_with sep vs"
proof (induction sep us rule: join_with.induct)
  case (2 sep x)
  then show ?case by (cases vs) auto
qed simp_all

text \<open>The text test \<^verbatim>\<open>left == right or left.startswith(right + "/")\<close> is containment of paths.\<close>

lemma text_within_iff:
  assumes us: "us \<noteq> []" "\<forall>w\<in>set us. CHR ''/'' \<notin> set w"
    and ws: "ws \<noteq> []" "\<forall>w\<in>set ws. CHR ''/'' \<notin> set w"
  shows "join_with ''/'' us = join_with ''/'' ws
      \<or> starts_with (join_with ''/'' ws) (join_with ''/'' us @ ''/'') \<longleftrightarrow> prefix us ws"
proof
  assume "join_with ''/'' us = join_with ''/'' ws
      \<or> starts_with (join_with ''/'' ws) (join_with ''/'' us @ ''/'')"
  then show "prefix us ws"
  proof
    assume "join_with ''/'' us = join_with ''/'' ws"
    from arg_cong [OF this, of "split_on (CHR ''/'')"] have "us = ws"
      unfolding split_on_join [OF us] split_on_join [OF ws] .
    then show ?thesis by simp
  next
    assume "starts_with (join_with ''/'' ws) (join_with ''/'' us @ ''/'')"
    then obtain r where "join_with ''/'' ws = join_with ''/'' us @ CHR ''/'' # r"
      by (auto simp: starts_with_def prefix_def)
    then have "ws = us @ split_on (CHR ''/'') r"
      using split_on_join [OF ws] split_on_join_append [OF us] by simp
    then show ?thesis by simp
  qed
next
  assume "prefix us ws"
  then obtain vs where vs: "ws = us @ vs" by (auto simp: prefix_def)
  then show "join_with ''/'' us = join_with ''/'' ws
      \<or> starts_with (join_with ''/'' ws) (join_with ''/'' us @ ''/'')"
    by (cases "vs = []") (simp_all add: us(1) join_append starts_with_def)
qed

lemma remove_suffix_canonical:
  assumes "canonical_parts ws" and "ws \<noteq> []" and "CHR ''/'' \<notin> set x" and "x \<noteq> []" and "x \<noteq> ''.''"
  shows "\<exists>us. remove_suffix (join_with ''/'' ws) (CHR ''/'' # x) = join_with ''/'' us \<and>
           us \<noteq> [] \<and> canonical_parts us"
proof (cases "ends_with (join_with ''/'' ws) (CHR ''/'' # x)")
  case True
  then obtain t where t: "join_with ''/'' ws = t @ CHR ''/'' # x"
    by (auto simp: ends_with_def suffix_def)
  have "ws = split_on (CHR ''/'') (join_with ''/'' ws)"
    using assms(1,2) by (intro split_on_join [symmetric]) (auto simp: canonical_parts_def list_all_iff)
  also have "\<dots> = split_on (CHR ''/'') t @ [x]"
  proof -
    have "split_on (CHR ''/'') (join_with ''/'' (split_on (CHR ''/'') t) @ CHR ''/'' # x)
        = split_on (CHR ''/'') t @ split_on (CHR ''/'') x"
      by (rule split_on_join_append) (auto dest: split_on_parts_no_sep)
    then show ?thesis unfolding t join_split_on split_on_no_sep [OF assms(3)] .
  qed
  finally have "canonical_parts (split_on (CHR ''/'') t)"
    using assms(1) by (simp add: canonical_parts_def)
  moreover have "remove_suffix (join_with ''/'' ws) (CHR ''/'' # x) = t"
    using True by (simp add: remove_suffix_def t)
  ultimately show ?thesis
    by (intro exI [of _ "split_on (CHR ''/'') t"]) (simp add: join_split_on)
next
  case False
  then show ?thesis using assms(1,2) by (auto simp: remove_suffix_def)
qed

lemma scope_literal_canonical:
  assumes "canonical_parts ws" and "ws \<noteq> []"
  shows "\<exists>us. scope_literal (join_with ''/'' ws) = join_with ''/'' us \<and> us \<noteq> [] \<and> canonical_parts us"
proof -
  from remove_suffix_canonical [OF assms, of "''**''"] obtain us where
    us: "remove_suffix (join_with ''/'' ws) ''/**'' = join_with ''/'' us" "us \<noteq> []" "canonical_parts us"
    by auto
  from remove_suffix_canonical [OF us(3,2), of "''*''"] show ?thesis
    by (simp add: scope_literal_def us(1))
qed

lemma normalize_scope_shape:
  assumes "normalize_repository_scope v = Inr n"
  shows "n = ''.'' \<or> (\<exists>ws. n = join_with ''/'' ws \<and> ws \<noteq> [] \<and> canonical_parts ws \<and> ''..'' \<notin> set ws)"
proof -
  let ?ws = "pp_parts (posix_path (strip (replace_char (CHR 0x5C) (CHR ''/'') v)))"
  from assms have "n = path_text \<lparr>pp_absolute = False, pp_parts = ?ws\<rparr>" "''..'' \<notin> set ?ws"
    by (auto simp: normalize_repository_scope_def Let_def split: if_splits)
  then show ?thesis
    using canonical_posix_path by (cases "?ws = []") (auto simp: path_text_def)
qed

lemma literal_posix_path:
  assumes "canonical_parts us" and "us \<noteq> []"
  shows "posix_path (join_with ''/'' us) = \<lparr>pp_absolute = False, pp_parts = us\<rparr>"
  by (rule posix_path_join [OF assms])

section \<open>Stages of a run\<close>

definition decomposition_step :: "DecompositionState \<Rightarrow> DecompositionState \<Rightarrow> bool" where
  "decomposition_step s t \<longleftrightarrow> succeeds (assert_transition s t)"

lemma decomposition_step_iff: "decomposition_step s t \<longleftrightarrow> t \<in> set (TRANSITIONS s)"
  by (simp add: decomposition_step_def assert_transition_def)

definition decomposition_terminal :: "DecompositionState \<Rightarrow> bool" where
  "decomposition_terminal s \<longleftrightarrow> TRANSITIONS s = []"

fun decomposition_stage :: "DecompositionState \<Rightarrow> nat" where
  "decomposition_stage PENDING = 0"
| "decomposition_stage REPOSITORY_INDEXING = 1"
| "decomposition_stage REPOSITORY_INDEXED = 2"
| "decomposition_stage CREW_RUNNING = 3"
| "decomposition_stage CREW_COMPLETED = 4"
| "decomposition_stage NORMALIZING = 5"
| "decomposition_stage GRAPH_BUILDING = 6"
| "decomposition_stage VALIDATING = 7"
| "decomposition_stage AWAITING_REVIEW = 8"
| "decomposition_stage APPROVED = 9"
| "decomposition_stage CHANGES_REQUESTED = 2"
| "decomposition_stage _ = 0"

definition decomposition_milestone :: "nat \<Rightarrow> DecompositionState" where
  "decomposition_milestone i =
     [PENDING, REPOSITORY_INDEXING, REPOSITORY_INDEXED, CREW_RUNNING, CREW_COMPLETED, NORMALIZING,
      GRAPH_BUILDING, VALIDATING, AWAITING_REVIEW, APPROVED] ! i"

interpretation dec: staged_lifecycle decomposition_step decomposition_terminal
  decomposition_stage decomposition_milestone
proof
  show "\<not> decomposition_step s t" if "decomposition_terminal s" for s t
    using that by (simp add: decomposition_step_iff decomposition_terminal_def)
  show "decomposition_stage t \<le> decomposition_stage s \<or>
      decomposition_stage t = Suc (decomposition_stage s) \<and>
      decomposition_milestone (decomposition_stage t) = t" if "decomposition_step s t" for s t
    using that
    by (cases s) (auto simp: decomposition_step_iff decomposition_milestone_def)
qed

section \<open>Properties\<close>

text \<open>
  Package keys have one canonical form. Whatever text it is given, \<^verbatim>\<open>canonical_slug\<close> returns
  a nonempty word of lower-case letters, digits and single inner hyphens or raises; and the
  words of this form are exactly the keys it leaves unchanged, so canonicalization is idempotent.
\<close>
theorem canonical_slug_canonical:
  "(case canonical_slug v of Inl _ \<Rightarrow> True
    | Inr s \<Rightarrow> slug_shape s \<and> canonical_slug s = Inr s) \<and>
   (canonical_slug s = Inr s \<longleftrightarrow> slug_shape s)"
  by (auto split: sum.split dest: canonical_slug_shape slug_shape_fixed)

text \<open>
  A normalized repository path stays inside the repository: it is relative, nonempty, equal
  to its components joined by slashes, and none of them is empty, a dot or two dots, whatever
  the input contained. A result without white space is a fixed point of normalization.
\<close>
theorem normalized_path_inside_repository:
  assumes "normalize_repository_path v = Inr n"
  shows "\<not> pp_absolute (posix_path n) \<and> pp_parts (posix_path n) \<noteq> [] \<and>
    ''..'' \<notin> set (pp_parts (posix_path n)) \<and> canonical_parts (pp_parts (posix_path n)) \<and>
    n = join_with ''/'' (pp_parts (posix_path n)) \<and>
    (if list_ex (\<lambda>c. is_space_char c \<or> c = CHR 0x5C) n then True
     else normalize_repository_path n = Inr n)"
proof -
  note sh = normalize_path_shape [OF assms]
  have "normalize_repository_path n = Inr n" if "\<not> list_ex (\<lambda>c. is_space_char c \<or> c = CHR 0x5C) n"
    using sh that
    by (intro normalize_path_fixed [of "pp_parts (posix_path n)"])
       (auto simp: list_ex_iff list_all_iff)
  with sh show ?thesis by simp
qed

theorem normalized_path_inside_repository_witness:
  "normalize_repository_path '' ./src//app/./main.py '' = Inr ''src/app/main.py'' \<and>
   ''..'' \<notin> set (pp_parts (posix_path ''src/app/main.py''))"
proof -
  have "normalize_repository_path '' ./src//app/./main.py '' = Inr ''src/app/main.py''"
    by code_simp
  with normalized_path_inside_repository [OF this] show ?thesis by blast
qed

text \<open>
  Overlap of scopes is containment of directories: for two accepted scopes, the overlap test
  on texts holds exactly when one scope's literal directory contains the other's as a path, and
  the test is symmetric.
\<close>
theorem scopes_overlap_iff_containment:
  assumes "normalize_repository_scope a = Inr m" and "normalize_repository_scope b = Inr n"
    and "m \<noteq> ''.''" and "n \<noteq> ''.''"
  shows "scopes_overlap a b =
      Inr (path_within (posix_path (scope_literal m)) (posix_path (scope_literal n)) \<or>
           path_within (posix_path (scope_literal n)) (posix_path (scope_literal m))) \<and>
    scopes_overlap a b = scopes_overlap b a"
proof -
  from normalize_scope_shape [OF assms(1)] assms(3) scope_literal_canonical obtain us where
    us: "scope_literal m = join_with ''/'' us" "us \<noteq> []" "canonical_parts us" by metis
  from normalize_scope_shape [OF assms(2)] assms(4) scope_literal_canonical obtain ws where
    ws: "scope_literal n = join_with ''/'' ws" "ws \<noteq> []" "canonical_parts ws" by metis
  have nosep: "\<forall>w\<in>set us. CHR ''/'' \<notin> set w" "\<forall>w\<in>set ws. CHR ''/'' \<notin> set w"
    using us(3) ws(3) by (auto simp: canonical_parts_def list_all_iff)
  note w1 = text_within_iff [OF us(2) nosep(1) ws(2) nosep(2)]
  note w2 = text_within_iff [OF ws(2) nosep(2) us(2) nosep(1)]
  have "scopes_overlap a b = Inr (prefix us ws \<or> prefix ws us)"
    using assms(1,2) w1 w2 by (auto simp: scopes_overlap_def Let_def us(1) ws(1))
  moreover have "scopes_overlap b a = Inr (prefix us ws \<or> prefix ws us)"
    using assms(1,2) w1 w2 by (auto simp: scopes_overlap_def Let_def us(1) ws(1))
  ultimately show ?thesis
    by (simp add: us(1) ws(1) literal_posix_path us(2,3) ws(2,3) path_within_def)
qed

theorem scopes_overlap_iff_containment_witness:
  "scopes_overlap ''src/app/**'' ''src/app/main.py'' = Inr True \<and>
   scopes_overlap ''src/app/**'' ''src/app/main.py'' = scopes_overlap ''src/app/main.py'' ''src/app/**''"
proof -
  have n: "normalize_repository_scope ''src/app/**'' = Inr ''src/app/**''"
    "normalize_repository_scope ''src/app/main.py'' = Inr ''src/app/main.py''"
    by code_simp+
  have "path_within (posix_path (scope_literal ''src/app/**''))
          (posix_path (scope_literal ''src/app/main.py''))"
    by code_simp
  note pw = this
  have ne: "''src/app/**'' \<noteq> ''.''" "''src/app/main.py'' \<noteq> ''.''" by simp_all
  note r = scopes_overlap_iff_containment [OF n ne]
  show ?thesis
    using conjunct2 [OF r] by (intro conjI) (simp only: conjunct1 [OF r] pw simp_thms)
qed

text \<open>
  No work-package decomposition is approved on a shortcut: every run from \<open>PENDING\<close> to
  \<open>APPROVED\<close> indexes the repository, runs the crew, normalizes, builds the graph, validates and
  waits for review, in this order, however often changes are requested on the way.
\<close>
theorem approval_visits_every_stage:
  assumes "legal_run decomposition_step PENDING ss" and "last (PENDING # ss) = APPROVED"
  shows "subseq [REPOSITORY_INDEXING, REPOSITORY_INDEXED, CREW_RUNNING, CREW_COMPLETED, NORMALIZING,
      GRAPH_BUILDING, VALIDATING, AWAITING_REVIEW, APPROVED] ss"
proof -
  have "map decomposition_milestone [Suc (decomposition_stage PENDING)..<Suc (decomposition_stage APPROVED)]
      = [REPOSITORY_INDEXING, REPOSITORY_INDEXED, CREW_RUNNING, CREW_COMPLETED, NORMALIZING,
         GRAPH_BUILDING, VALIDATING, AWAITING_REVIEW, APPROVED]"
    by code_simp
  then show ?thesis
    using dec.milestones_visited [OF assms(1)] by (simp only: assms(2))
qed

theorem approval_visits_every_stage_witness:
  "subseq [AWAITING_REVIEW, APPROVED]
     [REPOSITORY_INDEXING, REPOSITORY_INDEXED, CREW_RUNNING, CREW_COMPLETED, NORMALIZING,
      GRAPH_BUILDING, VALIDATING, AWAITING_REVIEW, CHANGES_REQUESTED, CREW_RUNNING, CREW_COMPLETED,
      NORMALIZING, GRAPH_BUILDING, VALIDATING, AWAITING_REVIEW, APPROVED]"
proof -
  have "subseq [REPOSITORY_INDEXING, REPOSITORY_INDEXED, CREW_RUNNING, CREW_COMPLETED, NORMALIZING,
      GRAPH_BUILDING, VALIDATING, AWAITING_REVIEW, APPROVED]
     [REPOSITORY_INDEXING, REPOSITORY_INDEXED, CREW_RUNNING, CREW_COMPLETED, NORMALIZING,
      GRAPH_BUILDING, VALIDATING, AWAITING_REVIEW, CHANGES_REQUESTED, CREW_RUNNING, CREW_COMPLETED,
      NORMALIZING, GRAPH_BUILDING, VALIDATING, AWAITING_REVIEW, APPROVED]"
    by (rule approval_visits_every_stage) (simp_all add: decomposition_step_iff)
  then show ?thesis by simp
qed

end
