(* ===== verification/Decomposition_Graph.thy ===== *)
theory Decomposition_Graph
  imports Decomposition Decomposition_Paths
begin

text \<open>
  Normalization does not depend on the order in which a crew lists its packages, its result is
  in canonical form, and the graph builder succeeds exactly on known, acyclic dependencies and
  then puts every package into the earliest possible execution group.
\<close>

section \<open>Execution groups\<close>

lemma ready_nodes_available:
  assumes "set edges \<subseteq> set nodes \<times> set nodes"
  shows "ready_nodes edges (filter (\<lambda>n. n \<notin> set taken) nodes)
         = sort (available nodes (set edges) taken)"
proof -
  have "(\<not> list_ex (\<lambda>(p, s). s = n \<and> p \<in> set (filter (\<lambda>n. n \<notin> set taken) nodes)) edges)
      \<longleftrightarrow> (\<forall>p. (p, n) \<in> set edges \<longrightarrow> p \<in> set taken)" for n
    using assms by (auto simp: list_ex_iff)
  then show ?thesis
    by (simp add: ready_nodes_def available_def conj_commute)
qed

lemma execution_groups_step:
  assumes "set edges \<subseteq> set nodes \<times> set nodes" and "filter (\<lambda>n. n \<notin> set taken) nodes \<noteq> []"
  defines "g \<equiv> sort (available nodes (set edges) taken)"
  shows "execution_groups (Suc fuel) edges (filter (\<lambda>n. n \<notin> set taken) nodes) =
    (if g = []
     then Inl (DependencyCycleError ''Work-package dependency graph contains a cycle'')
     else bind_result (execution_groups fuel edges (filter (\<lambda>n. n \<notin> set (taken @ g)) nodes))
            (\<lambda>groups. Inr (g # groups)))"
proof -
  obtain r rs where r: "filter (\<lambda>n. n \<notin> set taken) nodes = r # rs"
    using assms(2) by (cases "filter (\<lambda>n. n \<notin> set taken) nodes") auto
  have rn: "ready_nodes edges (r # rs) = g"
    unfolding r [symmetric] g_def by (rule ready_nodes_available [OF assms(1)])
  have "filter (\<lambda>n. n \<notin> set g) (r # rs) = filter (\<lambda>n. n \<notin> set (taken @ g)) nodes"
    unfolding r [symmetric] by (simp add: conj_commute)
  then show ?thesis unfolding r execution_groups.simps rn Let_def by simp
qed

definition group_spec :: "'a::linorder list \<Rightarrow> ('a \<times> 'a) set \<Rightarrow> 'a list \<Rightarrow> 'a list list \<Rightarrow> bool" where
  "group_spec nodes E taken gs \<longleftrightarrow>
     (\<forall>i<length gs. gs ! i \<noteq> [] \<and> gs ! i = sort (available nodes E (taken @ concat (take i gs)))) \<and>
     set nodes \<subseteq> set (taken @ concat gs)"

lemma group_spec_Cons:
  "group_spec nodes E taken (g # gs) \<longleftrightarrow>
     g \<noteq> [] \<and> g = sort (available nodes E taken) \<and> group_spec nodes E (taken @ g) gs"
proof -
  have "(\<forall>i<length (g # gs). (g # gs) ! i \<noteq> [] \<and>
          (g # gs) ! i = sort (available nodes E (taken @ concat (take i (g # gs)))))
      \<longleftrightarrow> (g \<noteq> [] \<and> g = sort (available nodes E taken)) \<and>
          (\<forall>i<length gs. gs ! i \<noteq> [] \<and>
             gs ! i = sort (available nodes E ((taken @ g) @ concat (take i gs))))"
    by (simp add: All_less_Suc2)
  then show ?thesis unfolding group_spec_def by auto
qed

lemma execution_groups_spec:
  assumes "set edges \<subseteq> set nodes \<times> set nodes"
  shows "execution_groups fuel edges (filter (\<lambda>n. n \<notin> set taken) nodes) = Inr gs \<Longrightarrow>
         group_spec nodes (set edges) taken gs"
proof (induction fuel arbitrary: taken gs)
  case 0
  show ?case
  proof (cases "filter (\<lambda>n. n \<notin> set taken) nodes")
    case Nil
    with 0 show ?thesis by (auto simp: group_spec_def filter_empty_conv)
  qed (use 0 in simp)
next
  case (Suc fuel)
  show ?case
  proof (cases "filter (\<lambda>n. n \<notin> set taken) nodes = []")
    case True
    with Suc.prems show ?thesis by (auto simp: group_spec_def filter_empty_conv)
  next
    case False
    let ?g = "sort (available nodes (set edges) taken)"
    from Suc.prems obtain hs where
      hs: "?g \<noteq> []" "gs = ?g # hs"
        "execution_groups fuel edges (filter (\<lambda>n. n \<notin> set (taken @ ?g)) nodes) = Inr hs"
      unfolding execution_groups_step [OF assms False]
      by (auto simp: result_simps split: if_splits)
    from Suc.IH [OF hs(3)] hs(1,2) show ?thesis by (simp add: group_spec_Cons)
  qed
qed

lemma execution_groups_total:
  assumes "set edges \<subseteq> set nodes \<times> set nodes" and "acyclic (set edges)"
  shows "length (filter (\<lambda>n. n \<notin> set taken) nodes) \<le> fuel \<Longrightarrow>
         succeeds (execution_groups fuel edges (filter (\<lambda>n. n \<notin> set taken) nodes))"
proof (induction fuel arbitrary: taken)
  case 0
  then show ?case by simp
next
  case (Suc fuel)
  show ?case
  proof (cases "filter (\<lambda>n. n \<notin> set taken) nodes = []")
    case False
    let ?g = "sort (available nodes (set edges) taken)"
    let ?av = "available nodes (set edges) taken"
    from False obtain x where x: "x \<in> set nodes" "x \<notin> set taken"
      by (auto simp: filter_empty_conv)
    have "?av \<noteq> []"
    proof
      assume none: "?av = []"
      let ?r = "filter (\<lambda>n. n \<in> set taken) nodes"
      have "available nodes (set edges) ?r = []"
        using none assms(1) by (auto simp: available_def filter_empty_conv)
      moreover have "set ?r \<subset> set nodes" using x by auto
      ultimately have "\<not> acyclic (set edges)"
        using assms(1) by (intro stuck_cycle [of "set edges" nodes ?r]) auto
      with assms(2) show False by blast
    qed
    then obtain y where y: "y \<in> set ?av" by (cases ?av) auto
    then have gne: "?g \<noteq> []" by (metis empty_iff list.set(1) set_sort)
    have sub: "filter (\<lambda>n. n \<notin> set (taken @ ?g)) nodes
        = filter (\<lambda>n. n \<notin> set ?g) (filter (\<lambda>n. n \<notin> set taken) nodes)"
      by (simp add: conj_commute)
    have yy: "y \<in> set (filter (\<lambda>n. n \<notin> set taken) nodes)" "y \<in> set ?g"
      using y by (auto simp: available_def)
    have "length (filter (\<lambda>n. n \<notin> set (taken @ ?g)) nodes)
        < length (filter (\<lambda>n. n \<notin> set taken) nodes)"
      unfolding sub using yy by (intro length_filter_less [of y]) auto
    with Suc.prems have "length (filter (\<lambda>n. n \<notin> set (taken @ ?g)) nodes) \<le> fuel" by linarith
    from Suc.IH [OF this] gne show ?thesis
      unfolding execution_groups_step [OF assms(1) False] by (auto simp: succeeds_iff)
  qed simp
qed

section \<open>Normalization\<close>

lemma mapped_key_slug:
  assumes "\<And>k. key_map item = Some k \<Longrightarrow> canonical_slug item = Inr k"
  shows "mapped_key key_map item = canonical_slug item"
  using assms by (cases "canonical_slug item"; cases "key_map item") (auto simp: mapped_key_def)

lemma normalize_package_key_map:
  assumes "\<And>item k. key_map item = Some k \<Longrightarrow> canonical_slug item = Inr k"
  shows "normalize_package d key_map = normalize_package d Map.empty"
proof -
  have "mapped_key key_map = mapped_key Map.empty"
  proof (rule ext)
    fix item
    have "mapped_key key_map item = canonical_slug item"
      by (rule mapped_key_slug) (rule assms)
    moreover have "mapped_key Map.empty item = canonical_slug item"
      by (rule mapped_key_slug) simp
    ultimately show "mapped_key key_map item = mapped_key Map.empty item" by simp
  qed
  then show ?thesis by (simp add: normalize_package_def [abs_def])
qed

lemma key_map_slug:
  assumes "traverse (\<lambda>p. canonical_slug (cw_candidate_key p)) ps = Inr keys"
    and "map_of (rev (zip (map cw_candidate_key ps) keys)) item = Some k"
  shows "canonical_slug item = Inr k"
proof -
  from assms(2) have "(item, k) \<in> set (zip (map cw_candidate_key ps) keys)"
    by (metis map_of_SomeD set_rev)
  moreover have "list_all2 (\<lambda>p k. canonical_slug (cw_candidate_key p) = Inr k) ps keys"
    using assms(1) by (simp add: traverse_Inr_list_all2)
  ultimately show ?thesis by (auto simp: list_all2_conv_all_nth set_zip)
qed

text \<open>The canonical key of a package whose key has one.\<close>

definition slug_of :: "CandidateWorkPackage \<Rightarrow> string" where
  "slug_of p = (case canonical_slug (cw_candidate_key p) of Inr k \<Rightarrow> k | Inl _ \<Rightarrow> [])"

lemma traverse_slugs:
  "traverse (\<lambda>p. canonical_slug (cw_candidate_key p)) ps = Inr keys \<longleftrightarrow>
     (\<forall>p\<in>set ps. succeeds (canonical_slug (cw_candidate_key p))) \<and> keys = map slug_of ps"
  by (induction ps arbitrary: keys) (auto simp: result_simps slug_of_def succeeds_iff)

lemma slug_of_shape: "succeeds (canonical_slug (cw_candidate_key p)) \<Longrightarrow> slug_shape (slug_of p)"
  by (auto simp: slug_of_def succeeds_iff dest: canonical_slug_shape)

lemma sort_zip_slugs:
  "sort_key snd (zip ps (map slug_of ps)) = map (\<lambda>p. (p, slug_of p)) (sort_key slug_of ps)"
proof -
  have "zip ps (map slug_of ps) = map (\<lambda>p. (p, slug_of p)) ps"
    by (simp add: zip_map2 zip_same_conv_map)
  moreover have "insort_key snd (x, slug_of x) (map (\<lambda>p. (p, slug_of p)) xs)
      = map (\<lambda>p. (p, slug_of p)) (insort_key slug_of x xs)" for x xs
    by (induction xs) auto
  then have "sort_key snd (map (\<lambda>p. (p, slug_of p)) xs)
      = map (\<lambda>p. (p, slug_of p)) (sort_key slug_of xs)" for xs
    by (induction xs) simp_all
  ultimately show ?thesis by simp
qed

lemma normalize_Inr_iff:
  "normalize d c = Inr n \<longleftrightarrow>
     (\<forall>p\<in>set (cd_packages c). succeeds (canonical_slug (cw_candidate_key p))) \<and>
     distinct (map slug_of (cd_packages c)) \<and>
     (\<exists>ps. traverse (normalize_package d Map.empty)
              (map (\<lambda>p. (p, slug_of p)) (sort_key slug_of (cd_packages c))) = Inr ps \<and>
        (let body = \<lparr>nd_summary = normalize_text (cd_summary c), nd_packages = ps,
                     nd_assumptions = sorted_unique (map normalize_text (cd_assumptions c)),
                     nd_unresolved_questions =
                       sorted_unique (map normalize_text (cd_unresolved_questions c)),
                     nd_artifact_hash = []\<rparr>
         in n = body\<lparr>nd_artifact_hash := dv_canonical_hash d (artifact_json body)\<rparr>))"
proof (cases "traverse (\<lambda>p. canonical_slug (cw_candidate_key p)) (cd_packages c)")
  case (Inl e)
  then have "\<not> (\<forall>p\<in>set (cd_packages c). succeeds (canonical_slug (cw_candidate_key p)))"
    using traverse_slugs [of "cd_packages c" "map slug_of (cd_packages c)"] by auto
  then show ?thesis using Inl by (simp add: normalize_def)
next
  case (Inr keys)
  then have ok: "\<forall>p\<in>set (cd_packages c). succeeds (canonical_slug (cw_candidate_key p))"
    "keys = map slug_of (cd_packages c)"
    by (simp_all add: traverse_slugs)
  have km: "normalize_package d
        (map_of (rev (zip (map cw_candidate_key (cd_packages c)) (map slug_of (cd_packages c)))))
      = normalize_package d Map.empty"
    by (rule normalize_package_key_map) (rule key_map_slug [OF Inr [unfolded ok(2)]])
  show ?thesis
    unfolding normalize_def Inr ok(2) bind_result.simps Let_def km sort_zip_slugs
    using ok(1) by (auto simp: result_simps)
qed

lemma normalize_package_key:
  "normalize_package d km (p, k) = Inr q \<Longrightarrow>
   np_key q = k \<and> sorted (np_dependencies q) \<and> distinct (np_dependencies q)"
  by (auto simp: normalize_package_def Let_def result_simps)

lemma normalize_paths_shape:
  "normalize_paths xs = Inr ys \<Longrightarrow>
   sorted ys \<and> distinct ys \<and> (\<forall>y\<in>set ys. \<exists>x. normalize_repository_path x = Inr y)"
  by (auto simp: normalize_paths_def result_simps dest: traverse_Inr_set)

lemma normalize_package_parts:
  "normalize_package d km (p, k) = Inr q \<Longrightarrow>
   (\<exists>deps. traverse (mapped_key km) (cw_dependency_candidates p) = Inr deps \<and>
           np_dependencies q = sorted_unique deps) \<and>
   normalize_paths (cw_allowed_paths p) = Inr (np_allowed_paths q) \<and>
   normalize_paths (cw_proposed_new_paths p) = Inr (np_proposed_new_paths q) \<and>
   normalize_paths (cw_prohibited_paths p) = Inr (np_prohibited_paths q)"
  by (auto simp: normalize_package_def Let_def result_simps)

lemma normalize_package_shape:
  assumes "normalize_package d Map.empty (p, k) = Inr q"
  shows "list_all slug_shape (np_dependencies q) \<and>
    list_all (\<lambda>path. \<exists>raw. normalize_repository_path raw = Inr path)
      (np_allowed_paths q @ np_proposed_new_paths q @ np_prohibited_paths q)"
proof -
  note parts = normalize_package_parts [OF assms]
  then obtain deps where deps: "traverse (mapped_key Map.empty) (cw_dependency_candidates p) = Inr deps"
    "np_dependencies q = sorted_unique deps" by blast
  have "slug_shape y" if "y \<in> set deps" for y
  proof -
    from traverse_Inr_set [OF deps(1) that] obtain x where "mapped_key Map.empty x = Inr y" by blast
    then show ?thesis by (auto simp: mapped_key_def result_simps dest: canonical_slug_shape)
  qed
  then have "list_all slug_shape (np_dependencies q)" by (simp add: deps(2) list_all_iff)
  moreover have "list_all (\<lambda>path. \<exists>raw. normalize_repository_path raw = Inr path) ys"
    if "normalize_paths xs = Inr ys" for xs ys
    using normalize_paths_shape [OF that] by (simp add: list_all_iff)
  ultimately show ?thesis using parts by (simp only: list_all_append) blast
qed

lemma normalization_form:
  assumes "normalize d c = Inr n"
  shows "sorted (map np_key (nd_packages n)) \<and> distinct (map np_key (nd_packages n)) \<and>
    list_all slug_shape (map np_key (nd_packages n)) \<and>
    list_all (\<lambda>q. sorted (np_dependencies q) \<and> distinct (np_dependencies q) \<and>
        list_all slug_shape (np_dependencies q) \<and>
        list_all (\<lambda>path. \<exists>raw. normalize_repository_path raw = Inr path)
          (np_allowed_paths q @ np_proposed_new_paths q @ np_prohibited_paths q)) (nd_packages n)"
proof -
  let ?ss = "sort_key slug_of (cd_packages c)"
  from assms obtain ps where ok: "\<forall>p\<in>set (cd_packages c). succeeds (canonical_slug (cw_candidate_key p))"
    and dist: "distinct (map slug_of (cd_packages c))"
    and tr: "traverse (normalize_package d Map.empty) (map (\<lambda>p. (p, slug_of p)) ?ss) = Inr ps"
    and n: "nd_packages n = ps"
    unfolding normalize_Inr_iff Let_def by auto
  have keys: "map np_key ps = map slug_of ?ss"
    using traverse_Inr_map [OF tr, of np_key snd] normalize_package_key
    by (force simp: comp_def)
  have "mset (map slug_of ?ss) = mset (map slug_of (cd_packages c))" by simp
  then have "distinct (map slug_of ?ss)" using dist mset_eq_imp_distinct_iff by blast
  moreover have "list_all slug_shape (map slug_of ?ss)"
    using ok by (simp add: list_all_iff slug_of_shape)
  moreover have "list_all (\<lambda>q. sorted (np_dependencies q) \<and> distinct (np_dependencies q) \<and>
        list_all slug_shape (np_dependencies q) \<and>
        list_all (\<lambda>path. \<exists>raw. normalize_repository_path raw = Inr path)
          (np_allowed_paths q @ np_proposed_new_paths q @ np_prohibited_paths q)) ps"
    unfolding list_all_iff [of _ ps]
  proof
    fix q assume "q \<in> set ps"
    from traverse_Inr_set [OF tr this] obtain p k where
      "normalize_package d Map.empty (p, k) = Inr q" by auto
    with normalize_package_key normalize_package_shape
    show "sorted (np_dependencies q) \<and> distinct (np_dependencies q) \<and>
        list_all slug_shape (np_dependencies q) \<and>
        list_all (\<lambda>path. \<exists>raw. normalize_repository_path raw = Inr path)
          (np_allowed_paths q @ np_proposed_new_paths q @ np_prohibited_paths q)" by blast
  qed
  ultimately show ?thesis using sorted_sort_key [of slug_of "cd_packages c"]
    unfolding n keys by simp
qed

section \<open>The graph builder\<close>

definition dependency_relation :: "NormalizedPackage list \<Rightarrow> (string \<times> string) set" where
  "dependency_relation packages =
     {(dependency, np_key p) |p dependency. p \<in> set packages \<and> dependency \<in> set (np_dependencies p)}"

lemma dependency_relation_edges:
  "set (map edge_ends (sort (concat (map package_edges packages)))) = dependency_relation packages"
  by (auto simp: dependency_relation_def package_edges_def edge_ends_def image_iff)

lemma build_graph_Inr:
  assumes "build_graph h n = Inr g"
  defines "keys \<equiv> remdups (map np_key (nd_packages n))"
    and "pairs \<equiv> map edge_ends (sort (concat (map package_edges (nd_packages n))))"
  shows "deterministic_topological_sort keys pairs = Inr (dg_topological_order g)"
    and "execution_groups (length keys) pairs keys = Inr (dg_execution_groups g)"
    and "dg_edges g = sort (concat (map package_edges (nd_packages n)))"
    and "dg_nodes g = sort (map (\<lambda>p. (np_id p, np_key p, np_package_hash p)) (nd_packages n))"
  using assms(1) unfolding keys_def pairs_def
  by (auto simp: build_graph_def Let_def result_simps)

lemma build_graph_Inl:
  assumes "build_graph h n = Inl e"
  defines "keys \<equiv> remdups (map np_key (nd_packages n))"
    and "pairs \<equiv> map edge_ends (sort (concat (map package_edges (nd_packages n))))"
  shows "\<not> succeeds (deterministic_topological_sort keys pairs) \<or>
         \<not> succeeds (execution_groups (length keys) pairs keys)"
  using assms(1) unfolding keys_def pairs_def
  by (cases "deterministic_topological_sort keys pairs";
      cases "execution_groups (length keys) pairs keys")
     (auto simp: build_graph_def Let_def keys_def pairs_def)

section \<open>A sample decomposition\<close>

definition sample_derivation :: derivation where
  "sample_derivation =
     \<lparr>dv_canonical_hash = (\<lambda>_. ''hash''), dv_sha256 = (\<lambda>_. ''digest''),
      dv_uuid5 = (\<lambda>_ _. 1), dv_project_id = ''p'', dv_architecture_hash = ''a'',
      dv_repository_tree_hash = ''t'', dv_policy = default_policy\<rparr>"

definition sample_package :: "string \<Rightarrow> string list \<Rightarrow> CandidateWorkPackage" where
  "sample_package key deps =
     \<lparr>cw_candidate_key = key, cw_title = ''T'', cw_objective = ''Build it well'',
      cw_requirement_refs = [''R1''], cw_architecture_refs = [''A1''],
      cw_allowed_paths = [''src/app/**''], cw_proposed_new_paths = [], cw_prohibited_paths = [],
      cw_dependency_candidates = deps, cw_dependency_reasons = map (\<lambda>d. (d, ''needs it'')) deps,
      cw_acceptance_criteria = [], cw_test_commands = [], cw_estimated_files = 1,
      cw_estimated_changed_lines = 10,
      cw_execution_policy = \<lparr>ce_network = ''disabled'', ce_cpu_limit = 1, ce_memory_mb = 512,
        ce_pid_limit = 64, ce_timeout_seconds = 60, ce_privileged = False,
        ce_host_repository_write = False\<rparr>\<rparr>"

definition sample_candidate :: CandidateDecomposition where
  "sample_candidate =
     \<lparr>cd_summary = ''S'', cd_packages = [sample_package ''Web UI'' [''API''], sample_package ''API'' []],
      cd_unresolved_questions = [], cd_assumptions = []\<rparr>"

definition sample_normalized_package ::
  "string \<Rightarrow> string list \<Rightarrow> NormalizedPackage" where
  "sample_normalized_package key deps =
     \<lparr>np_id = ''00000000-0000-0000-0000-000000000001'', np_key = key, np_title = ''T'',
      np_objective = ''Build it well'', np_requirement_refs = [''R1''],
      np_architecture_refs = [''A1''], np_allowed_paths = [''src/app/**''],
      np_proposed_new_paths = [], np_prohibited_paths = [], np_dependencies = deps,
      np_dependency_reasons = map (\<lambda>d. (d, ''needs it'')) deps, np_acceptance_criteria = [],
      np_test_commands = [], np_estimated_files = 1, np_estimated_changed_lines = 10,
      np_execution_policy =
        [(''cpu_limit'', JFloat 1), (''host_repository_write'', JBool False),
         (''memory_mb'', JInt 512), (''network'', JText ''disabled''), (''pid_limit'', JInt 64),
         (''privileged'', JBool False), (''timeout_seconds'', JInt 60)],
      np_package_hash = ''hash''\<rparr>"

definition sample_normalized :: NormalizedDecomposition where
  "sample_normalized =
     \<lparr>nd_summary = ''S'',
      nd_packages = [sample_normalized_package ''api'' [],
                     sample_normalized_package ''web-ui'' [''api'']],
      nd_assumptions = [], nd_unresolved_questions = [], nd_artifact_hash = ''hash''\<rparr>"

definition sample_graph :: DecompositionGraph where
  "sample_graph =
     \<lparr>dg_nodes = [(''00000000-0000-0000-0000-000000000001'', ''api'', ''hash''),
                  (''00000000-0000-0000-0000-000000000001'', ''web-ui'', ''hash'')],
      dg_edges = [(''api'', ''web-ui'', ''blocking'', ''needs it'')],
      dg_topological_order = [''api'', ''web-ui''],
      dg_execution_groups = [[''api''], [''web-ui'']], dg_graph_hash = ''hash''\<rparr>"

lemma sample_normalizes: "normalize sample_derivation sample_candidate = Inr sample_normalized"
  by code_simp

lemma sample_builds: "build_graph (dv_canonical_hash sample_derivation) sample_normalized = Inr sample_graph"
  by code_simp

section \<open>Properties\<close>

text \<open>
  C22: The crew's listing order is irrelevant: permuting the packages of a candidate that
  normalizes yields the same normalized decomposition, with the same package identifiers and the
  same hashes.
\<close>
theorem normalization_ignores_package_order:
  assumes "normalize d c = Inr n" and "mset (cd_packages c') = mset (cd_packages c)"
    and "cd_summary c' = cd_summary c" and "cd_assumptions c' = cd_assumptions c"
    and "cd_unresolved_questions c' = cd_unresolved_questions c"
  shows "normalize d c' = Inr n"
proof -
  from assms(1) have dist: "distinct (map slug_of (cd_packages c))"
    unfolding normalize_Inr_iff by blast
  have "mset (map slug_of (cd_packages c')) = mset (map slug_of (cd_packages c))"
    using assms(2) by simp
  then have dist': "distinct (map slug_of (cd_packages c'))"
    using dist mset_eq_imp_distinct_iff by blast
  have srt: "sort_key slug_of (cd_packages c') = sort_key slug_of (cd_packages c)"
    using dist' assms(2)
    by (intro sort_key_inj_key_eq) (simp_all add: distinct_map)
  have "set (cd_packages c') = set (cd_packages c)"
    using mset_eq_setD [OF assms(2)] .
  with assms(1) dist' show ?thesis
    unfolding normalize_Inr_iff srt assms(3,4,5) by simp
qed

theorem normalization_ignores_package_order_witness:
  "normalize sample_derivation
     (sample_candidate\<lparr>cd_packages := [sample_package ''API'' [], sample_package ''Web UI'' [''API'']]\<rparr>)
   = Inr sample_normalized"
  by (rule normalization_ignores_package_order [OF sample_normalizes])
     (simp_all add: sample_candidate_def)



text \<open>
  C17: The graph builder succeeds exactly when every dependency names a package and the
  dependencies are acyclic. Its graph then orders every package after its dependencies, and
  groups the packages for parallel execution: each group is exactly the sorted list of the
  packages not in an earlier group all of whose dependencies are in earlier groups, no group is
  empty, and together they contain every package.
\<close>
theorem graph_builder_correct:
  "case build_graph h n of
     Inr g \<Rightarrow>
       dependency_relation (nd_packages n)
         \<subseteq> np_key ` set (nd_packages n) \<times> np_key ` set (nd_packages n) \<and>
       acyclic (dependency_relation (nd_packages n)) \<and>
       distinct (dg_topological_order g) \<and>
       set (dg_topological_order g) = np_key ` set (nd_packages n) \<and>
       follows_edges (dependency_relation (nd_packages n)) (dg_topological_order g) \<and>
       group_spec (remdups (map np_key (nd_packages n))) (dependency_relation (nd_packages n)) []
         (dg_execution_groups g)
   | Inl _ \<Rightarrow>
       \<not> (dependency_relation (nd_packages n)
            \<subseteq> np_key ` set (nd_packages n) \<times> np_key ` set (nd_packages n) \<and>
          acyclic (dependency_relation (nd_packages n)))"
proof -
  let ?keys = "remdups (map np_key (nd_packages n))"
  let ?pairs = "map edge_ends (sort (concat (map package_edges (nd_packages n))))"
  let ?E = "dependency_relation (nd_packages n)"
  let ?K = "np_key ` set (nd_packages n)"
  note E = dependency_relation_edges [of "nd_packages n"]
  have K: "set ?keys = ?K" by simp
  have dk: "distinct ?keys" by simp
  have nil: "filter (\<lambda>k. k \<notin> set []) ?keys = ?keys" by simp
  show ?thesis
  proof (cases "?E \<subseteq> ?K \<times> ?K")
    case known: True
    then have sub: "set ?pairs \<subseteq> set ?keys \<times> set ?keys" unfolding E K .
    note cases = topological_sort_cases [OF dk sub, unfolded E K]
    show ?thesis
    proof (cases "build_graph h n")
      case (Inl e)
      have "\<not> acyclic ?E"
      proof
        assume ac: "acyclic ?E"
        from ac cases(1) have "succeeds (deterministic_topological_sort ?keys ?pairs)" by simp
        moreover have "succeeds (execution_groups (length ?keys) ?pairs ?keys)"
          using execution_groups_total [OF sub, of "[]" "length ?keys", unfolded E nil] ac by simp
        ultimately show False using build_graph_Inl [OF Inl] by blast
      qed
      with Inl show ?thesis by simp
    next
      case (Inr g)
      note g = build_graph_Inr [OF Inr]
      have ac: "acyclic ?E" using g(1) cases(1) by (cases "acyclic ?E") simp_all
      have ord: "dg_topological_order g = greedy (length ?keys) ?keys ?E []"
        using g(1) cases(1) ac by simp
      have "group_spec ?keys ?E [] (dg_execution_groups g)"
        using execution_groups_spec [OF sub, of "length ?keys" "[]", unfolded E nil, OF g(2)] .
      with known ac cases(2,3,4) show ?thesis unfolding Inr by (simp add: ord)
    qed
  next
    case False
    then have "\<not> set ?pairs \<subseteq> set ?keys \<times> set ?keys" unfolding E K .
    then have "\<not> succeeds (deterministic_topological_sort ?keys ?pairs)"
      unfolding deterministic_topological_sort_def unknown_edge_iff by simp
    with build_graph_Inr(1) [of h n] have "\<exists>e. build_graph h n = Inl e"
      by (cases "build_graph h n") (auto simp: succeeds_iff)
    with False show ?thesis by auto
  qed
qed

end
