(* ===== verification/Decomposition_Validation.thy ===== *)
theory Decomposition_Validation
  imports Decomposition_Graph
begin

text \<open>
  The eighteen validators of \<^verbatim>\<open>domain/decomposition/validation.py\<close> and the service that runs
  them. A validator returns its findings in the order of the code or an exception; the frozen
  sets of the context are lists.
\<close>

section \<open>Findings and context\<close>

datatype FindingSeverity = ERROR | WARNING | INFO

fun severity_text :: "FindingSeverity \<Rightarrow> string" where
  "severity_text ERROR = ''error''"
| "severity_text WARNING = ''warning''"
| "severity_text INFO = ''info''"

record ValidationFinding =
  vf_validator_code :: string
  vf_severity :: FindingSeverity
  vf_message :: string
  vf_package_key :: "string option"
  vf_path :: "string option"
  vf_evidence :: "(string \<times> string) list option"

record ValidationContext =
  vc_candidate :: CandidateDecomposition
  vc_normalized :: NormalizedDecomposition
  vc_graph :: DecompositionGraph
  vc_derivation :: derivation
  vc_approved_requirements :: "string list"
  vc_architecture_elements :: "string list"
  vc_implementable_requirements :: "string list"
  vc_implementable_architecture_elements :: "string list"
  vc_repository_paths :: "string list"
  vc_module_roots :: "string list"
  vc_protected_paths :: "string list"
  vc_requirements_approved :: bool
  vc_architecture_approved :: bool
  vc_lineage_matches :: bool
  vc_project_matches :: bool
  vc_artifacts_superseded :: bool
  vc_requested_commit :: string
  vc_snapshot_commit :: string
  vc_snapshot_tree_hash :: string
  vc_index_snapshot_matches :: bool
  vc_repository_index :: "json option"
  vc_repository_index_hash :: string

type_synonym findings = "decomposition_error + ValidationFinding list"

definition finding ::
  "string \<Rightarrow> string \<Rightarrow> string option \<Rightarrow> string option \<Rightarrow> (string \<times> string) list option
   \<Rightarrow> ValidationFinding" where
  "finding code message package file evidence =
     \<lparr>vf_validator_code = code, vf_severity = ERROR, vf_message = message,
      vf_package_key = package, vf_path = file, vf_evidence = evidence\<rparr>"

text \<open>One finding when a condition holds.\<close>

definition flag :: "bool \<Rightarrow> ValidationFinding \<Rightarrow> ValidationFinding list" where
  "flag b f = (if b then [f] else [])"

lemma flag_Nil_iff [simp]: "flag b f = [] \<longleftrightarrow> \<not> b"
  by (simp add: flag_def)

abbreviation packages_of :: "ValidationContext \<Rightarrow> NormalizedPackage list" where
  "packages_of c \<equiv> nd_packages (vc_normalized c)"

abbreviation policy_of :: "ValidationContext \<Rightarrow> DecompositionPolicy" where
  "policy_of c \<equiv> dv_policy (vc_derivation c)"

section \<open>Inputs, identity, schema and keys\<close>

definition input_approval_validator :: "ValidationContext \<Rightarrow> findings" where
  "input_approval_validator c = Inr
     (flag (\<not> vc_requirements_approved c \<or> \<not> vc_architecture_approved c)
        (finding ''DECOMP-INPUT-001'' ''Inputs must be approved'' None None None) @
      flag (\<not> vc_lineage_matches c \<or> \<not> vc_project_matches c)
        (finding ''DECOMP-INPUT-002'' ''Input lineage or project differs'' None None None) @
      flag (vc_artifacts_superseded c)
        (finding ''DECOMP-INPUT-003'' ''Superseded inputs are prohibited'' None None None))"

definition repository_identity_validator :: "ValidationContext \<Rightarrow> findings" where
  "repository_identity_validator c = Inr
     (flag (vc_requested_commit c = [] \<or> vc_requested_commit c \<noteq> vc_snapshot_commit c)
        (finding ''DECOMP-REPO-001'' ''Snapshot commit mismatch'' None None None) @
      flag (vc_snapshot_tree_hash c \<noteq> dv_repository_tree_hash (vc_derivation c))
        (finding ''DECOMP-REPO-002'' ''Repository tree hash mismatch'' None None None) @
      flag (\<not> vc_index_snapshot_matches c)
        (finding ''DECOMP-REPO-003'' ''Index does not belong to snapshot'' None None None) @
      flag (case vc_repository_index c of
              None \<Rightarrow> False
            | Some index \<Rightarrow>
                dv_canonical_hash (vc_derivation c) index \<noteq> vc_repository_index_hash c)
        (finding ''DECOMP-REPO-004'' ''Repository index hash mismatch'' None None None))"

definition schema_validator :: "ValidationContext \<Rightarrow> findings" where
  "schema_validator c =
     (let count = length (packages_of c)
      in Inr (flag (\<not> (dp_minimum_packages (policy_of c) \<le> count
                       \<and> count \<le> dp_maximum_packages (policy_of c)))
               (finding ''DECOMP-SCHEMA-001'' ''Package count violates policy'' None None None)))"

definition package_key_validator :: "ValidationContext \<Rightarrow> findings" where
  "package_key_validator c =
     (let keys = map np_key (packages_of c)
      in Inr (flag (has_duplicates keys)
                (finding ''DECOMP-KEY-001'' ''Canonical keys must be unique'' None None None) @
              concat (map (\<lambda>key. flag (length key > 160
                                       \<or> key \<in> set (dp_reserved_keys (policy_of c)))
                 (finding ''DECOMP-KEY-002'' ''Reserved or oversized key'' (Some key) None None))
                 keys)))"

section \<open>Coverage and references\<close>

definition requirement_coverage_validator :: "ValidationContext \<Rightarrow> findings" where
  "requirement_coverage_validator c =
     (let covered = concat (map np_requirement_refs (packages_of c))
      in Inr (map (\<lambda>ref. finding ''DECOMP-COVERAGE-REQ'' ''Implementable requirement is uncovered''
                           None None (Some [(''requirement'', ref)]))
           (sorted_unique (filter (\<lambda>r. r \<notin> set covered) (vc_implementable_requirements c)))))"

definition architecture_coverage_validator :: "ValidationContext \<Rightarrow> findings" where
  "architecture_coverage_validator c =
     (let covered = concat (map np_architecture_refs (packages_of c))
      in Inr (map (\<lambda>ref. finding ''DECOMP-COVERAGE-ARC'' ''Architecture element is uncovered''
                           None None (Some [(''element'', ref)]))
           (sorted_unique (filter (\<lambda>r. r \<notin> set covered)
              (vc_implementable_architecture_elements c)))))"

definition reference_integrity_validator :: "ValidationContext \<Rightarrow> findings" where
  "reference_integrity_validator c = Inr (concat (map (\<lambda>item.
     map (\<lambda>ref. finding ''DECOMP-REF-REQ'' (''Unknown requirement '' @ ref) (Some (np_key item))
                  None None)
       (sorted_unique (filter (\<lambda>r. r \<notin> set (vc_approved_requirements c))
          (np_requirement_refs item))) @
     map (\<lambda>ref. finding ''DECOMP-REF-ARC'' (''Unknown architecture element '' @ ref)
                  (Some (np_key item)) None None)
       (sorted_unique (filter (\<lambda>r. r \<notin> set (vc_architecture_elements c))
          (np_architecture_refs item))))
     (packages_of c)))"

section \<open>Paths and scopes\<close>

text \<open>\<^verbatim>\<open>path[:-3] if path.endswith("/**") else path\<close>.\<close>

definition scope_root :: "string \<Rightarrow> string" where
  "scope_root s = (if ends_with s ''/**'' then take (length s - 3) s else s)"

definition overlaps :: "string \<Rightarrow> string \<Rightarrow> decomposition_error + bool" where
  "overlaps left right =
     bind_result (path_matches_scope (scope_root left) right) (\<lambda>b.
       if b then Inr True else path_matches_scope (scope_root right) left)"

definition scope_lists :: "NormalizedPackage \<Rightarrow> string list" where
  "scope_lists p = np_allowed_paths p @ np_proposed_new_paths p"

definition check_path :: "ValidationContext \<Rightarrow> NormalizedPackage \<Rightarrow> string \<Rightarrow> findings" where
  "check_path c item p =
     (if p \<in> {''*'', ''**'', ''**/**''}
      then Inr [finding ''DECOMP-PATH-BROAD'' ''Unbounded wildcard is prohibited''
                  (Some (np_key item)) (Some p) None]
      else
        bind_result (any_result (\<lambda>protected. overlaps p protected) (vc_protected_paths c))
          (\<lambda>is_protected.
        bind_result (any_result (\<lambda>existing. path_matches_scope existing p) (vc_repository_paths c))
          (\<lambda>exists.
        bind_result (any_result (\<lambda>root. path_matches_scope (scope_root p) (root @ ''/**''))
                       (vc_module_roots c)) (\<lambda>module.
          Inr (flag is_protected (finding ''DECOMP-PATH-PROTECTED'' ''Protected path overlap''
                                   (Some (np_key item)) (Some p) None) @
               flag (\<not> exists \<and> p \<notin> set (np_proposed_new_paths item) \<and> \<not> module)
                 (finding ''DECOMP-PATH-UNKNOWN'' ''Path is outside repository index''
                    (Some (np_key item)) (Some p) None))))))"

definition repository_path_validator :: "ValidationContext \<Rightarrow> findings" where
  "repository_path_validator c =
     collect (\<lambda>item. collect (check_path c item) (scope_lists item)) (packages_of c)"

definition check_pair ::
  "(string \<times> string) list \<Rightarrow> NormalizedPackage \<Rightarrow> NormalizedPackage \<Rightarrow> string \<Rightarrow> string \<Rightarrow> findings"
where
  "check_pair edges left right first second =
     bind_result (overlaps first second) (\<lambda>b.
       Inr (flag (b \<and> (np_key left, np_key right) \<notin> set edges
                    \<and> (np_key right, np_key left) \<notin> set edges)
              (finding ''DECOMP-SCOPE-OVERLAP'' ''Unsequenced write scope overlap''
                 (Some (np_key left)) (Some first)
                 (Some [(''other_package'', np_key right), (''other_path'', second)]))))"

fun overlap_findings ::
  "(string \<times> string) list \<Rightarrow> NormalizedPackage list \<Rightarrow> findings" where
  "overlap_findings edges [] = Inr []"
| "overlap_findings edges (left # rest) =
     bind_result (collect (\<lambda>right. collect (\<lambda>first. collect (check_pair edges left right first)
                                               (scope_lists right)) (scope_lists left)) rest)
       (\<lambda>fs. bind_result (overlap_findings edges rest) (\<lambda>gs. Inr (fs @ gs)))"

definition scope_overlap_validator :: "ValidationContext \<Rightarrow> findings" where
  "scope_overlap_validator c =
     overlap_findings (map edge_ends (dg_edges (vc_graph c))) (packages_of c)"

section \<open>Dependencies and cycles\<close>

definition check_dependency :: "string list \<Rightarrow> NormalizedPackage \<Rightarrow> string \<Rightarrow> ValidationFinding list"
where
  "check_dependency keys item dependency =
     flag (dependency = np_key item \<or> dependency \<notin> set keys)
       (finding ''DECOMP-DEP-REF'' ''Invalid dependency'' (Some (np_key item)) None None) @
     flag (strip (case map_of (rev (np_dependency_reasons item)) dependency of
                    None \<Rightarrow> [] | Some reason \<Rightarrow> reason) = [])
       (finding ''DECOMP-DEP-REASON'' ''Dependency reason is required'' (Some (np_key item))
          None None)"

definition dependency_integrity_validator :: "ValidationContext \<Rightarrow> findings" where
  "dependency_integrity_validator c =
     (let keys = map np_key (packages_of c)
      in Inr (concat (map (\<lambda>item.
           flag (length (np_dependencies item) > dp_maximum_dependencies_per_package (policy_of c))
             (finding ''DECOMP-DEP-SIZE'' ''Too many dependencies'' (Some (np_key item)) None None) @
           flag (has_duplicates (np_dependencies item))
             (finding ''DECOMP-DEP-DUP'' ''Duplicate dependency'' (Some (np_key item)) None None) @
           concat (map (check_dependency keys item) (np_dependencies item))) (packages_of c))))"

definition cycle_validator :: "ValidationContext \<Rightarrow> findings" where
  "cycle_validator c =
     (case deterministic_topological_sort (remdups (map np_key (packages_of c)))
             (map edge_ends (dg_edges (vc_graph c))) of
        Inr _ \<Rightarrow> Inr []
      | Inl (DependencyCycleError m) \<Rightarrow> Inr [finding ''DECOMP-CYCLE'' m None None None]
      | Inl e \<Rightarrow> Inl e)"

section \<open>Size, cohesion, criteria, commands and execution policy\<close>

definition package_size_validator :: "ValidationContext \<Rightarrow> findings" where
  "package_size_validator c = Inr (concat (map (\<lambda>p.
     flag (length (np_allowed_paths p) > dp_maximum_allowed_scopes_per_package (policy_of c) \<or>
           length (np_proposed_new_paths p) > dp_maximum_proposed_paths_per_package (policy_of c) \<or>
           length (np_acceptance_criteria p)
             > dp_maximum_acceptance_criteria_per_package (policy_of c) \<or>
           length (np_test_commands p) > dp_maximum_test_commands_per_package (policy_of c) \<or>
           np_estimated_files p > dp_maximum_estimated_files (policy_of c) \<or>
           np_estimated_changed_lines p > dp_maximum_estimated_changed_lines (policy_of c))
       (finding ''DECOMP-SIZE'' ''Package exceeds bounded-size policy'' (Some (np_key p)) None None))
     (packages_of c)))"

text \<open>\<^verbatim>\<open>PurePosixPath(s).parts[0]\<close>, which raises on the empty path.\<close>

definition first_part :: "string \<Rightarrow> decomposition_error + string" where
  "first_part s =
     (let p = posix_path s
      in if pp_absolute p then Inr ''/''
         else case pp_parts p of
                [] \<Rightarrow> Inl (DecompositionIndexError ''tuple index out of range'')
              | w # _ \<Rightarrow> Inr w)"

definition cohesion_validator :: "ValidationContext \<Rightarrow> findings" where
  "cohesion_validator c = collect (\<lambda>p.
     bind_result (traverse (\<lambda>s. first_part (scope_root s)) (np_allowed_paths p)) (\<lambda>roots.
       Inr (flag (length (remdups roots) > 2 \<or> length (np_architecture_refs p) > 8)
              (finding ''DECOMP-COHESION'' ''Package combines unrelated areas'' (Some (np_key p))
                 None None)))) (packages_of c)"

definition VAGUE :: "string list" where
  "VAGUE = [''should work'', ''should be good'', ''architecture should be followed'',
            ''works correctly'']"

definition criterion_fails :: "string list \<Rightarrow> NormalizedCriterion \<Rightarrow> bool" where
  "criterion_fails command_keys criterion \<longleftrightarrow>
     (let vague = list_ex (\<lambda>value. contains_text (lower (nr_text criterion)) value) VAGUE;
          needs_command = nr_verification_type criterion
            \<in> {''test'', ''static-analysis'', ''contract-test'', ''migration-check''}
      in vague \<or> (needs_command \<and>
           (case nr_command_ref criterion of None \<Rightarrow> True | Some r \<Rightarrow> r \<notin> set command_keys)))"

definition acceptance_criteria_validator :: "ValidationContext \<Rightarrow> findings" where
  "acceptance_criteria_validator c = Inr (concat (map (\<lambda>p.
     concat (map (\<lambda>criterion. flag (criterion_fails (map nm_key (np_test_commands p)) criterion)
       (finding ''DECOMP-CRITERIA'' ''Criterion is vague or unverifiable'' (Some (np_key p))
          None None)) (np_acceptance_criteria p))) (packages_of c)))"

definition shell_tokens :: "string list" where
  "shell_tokens = [''|'', '';'', ''&&'', ''||'', ''>'', ''<'']"

definition test_command_validator :: "ValidationContext \<Rightarrow> findings" where
  "test_command_validator c = Inr (concat (map (\<lambda>p.
     concat (map (\<lambda>command.
       let executable = (case nm_argv command of [] \<Rightarrow> [] | a # _ \<Rightarrow> a)
       in flag (executable \<notin> set (dp_allowed_executables (policy_of c))
                \<or> meets (nm_argv command) shell_tokens)
            (finding ''DECOMP-CMD'' ''Command violates argv allowlist'' (Some (np_key p))
               None None)) (np_test_commands p))) (packages_of c)))"

text \<open>\<^verbatim>\<open>isinstance(v, int)\<close> and the value compared; a \<^verbatim>\<open>bool\<close> is an integer in Python.\<close>

fun int_value :: "json \<Rightarrow> int option" where
  "int_value (JInt n) = Some n"
| "int_value (JBool b) = Some (if b then 1 else 0)"
| "int_value _ = None"

fun number_value :: "json \<Rightarrow> rat option" where
  "number_value (JFloat r) = Some r"
| "number_value v = map_option of_int (int_value v)"

definition exceeds :: "'a::linorder option \<Rightarrow> 'a \<Rightarrow> bool" where
  "exceeds v limit \<longleftrightarrow> (case v of None \<Rightarrow> True | Some n \<Rightarrow> n > limit)"

definition execution_policy_invalid :: "DecompositionPolicy \<Rightarrow> NormalizedPackage \<Rightarrow> bool" where
  "execution_policy_invalid limits p \<longleftrightarrow>
     (let policy = map_of (rev (np_execution_policy p));
          get = (\<lambda>key. case policy key of None \<Rightarrow> JInt 0 | Some v \<Rightarrow> v)
      in policy ''network'' \<noteq> Some (JText ''disabled'') \<or>
         policy ''privileged'' = Some (JBool True) \<or>
         policy ''host_repository_write'' = Some (JBool True) \<or>
         exceeds (number_value (get ''cpu_limit'')) (dp_maximum_cpu limits) \<or>
         exceeds (int_value (get ''memory_mb'')) (dp_maximum_memory_mb limits) \<or>
         exceeds (int_value (get ''pid_limit'')) (dp_maximum_pid_limit limits) \<or>
         exceeds (int_value (get ''timeout_seconds'')) (dp_maximum_timeout_seconds limits))"

definition execution_policy_validator :: "ValidationContext \<Rightarrow> findings" where
  "execution_policy_validator c = Inr (concat (map (\<lambda>p.
     flag (execution_policy_invalid (policy_of c) p)
       (finding ''DECOMP-EXEC'' ''Execution policy exceeds platform boundary'' (Some (np_key p))
          None None)) (packages_of c)))"

section \<open>Graph completeness and determinism\<close>

definition graph_completeness_validator :: "ValidationContext \<Rightarrow> findings" where
  "graph_completeness_validator c =
     (let keys = map np_key (packages_of c);
          node_keys = map (\<lambda>(_, key, _). key) (dg_nodes (vc_graph c));
          order = dg_topological_order (vc_graph c)
      in Inr (flag (sort keys \<noteq> sort node_keys \<or> sort keys \<noteq> sort order
                    \<or> length (remdups order) \<noteq> length keys)
           (finding ''DECOMP-GRAPH'' ''Graph does not contain every package exactly once''
              None None None)))"

definition determinism_validator :: "ValidationContext \<Rightarrow> findings" where
  "determinism_validator c =
     bind_result (normalize (vc_derivation c) (vc_candidate c)) (\<lambda>again.
     bind_result (build_graph (dv_canonical_hash (vc_derivation c)) again) (\<lambda>graph.
       Inr (flag ((nd_artifact_hash again, dg_graph_hash graph, dg_topological_order graph)
                  \<noteq> (nd_artifact_hash (vc_normalized c), dg_graph_hash (vc_graph c),
                     dg_topological_order (vc_graph c)))
              (finding ''DECOMP-DETERMINISM'' ''Repeated derivation differs'' None None None))))"

section \<open>The service\<close>

definition ALL_VALIDATORS :: "(ValidationContext \<Rightarrow> findings) list" where
  "ALL_VALIDATORS =
     [input_approval_validator, repository_identity_validator, schema_validator,
      package_key_validator, requirement_coverage_validator, architecture_coverage_validator,
      reference_integrity_validator, repository_path_validator, scope_overlap_validator,
      dependency_integrity_validator, cycle_validator, package_size_validator, cohesion_validator,
      acceptance_criteria_validator, test_command_validator, execution_policy_validator,
      graph_completeness_validator, determinism_validator]"

definition finding_order :: "ValidationFinding \<Rightarrow> string \<times> string \<times> string \<times> string \<times> string"
where
  "finding_order f =
     (severity_text (vf_severity f), vf_validator_code f,
      (case vf_package_key f of None \<Rightarrow> [] | Some k \<Rightarrow> k),
      (case vf_path f of None \<Rightarrow> [] | Some p \<Rightarrow> p), vf_message f)"

definition validate ::
  "(ValidationContext \<Rightarrow> findings) list \<Rightarrow> ValidationContext \<Rightarrow> findings" where
  "validate validators context =
     bind_result (collect (\<lambda>validator. validator context) validators)
       (\<lambda>fs. Inr (sort_key finding_order fs))"

end
