(* ===== verification/Decomposition_Guarantees.thy ===== *)
theory Decomposition_Guarantees
  imports Decomposition_Validation
begin

text \<open>
  What a validation without findings guarantees about a decomposition, which validators the
  derivation itself already satisfies, and where the overlap test of scopes is exact and where
  it is not.
\<close>

section \<open>A validation without findings\<close>

lemma validate_clean:
  "validate vs c = Inr [] \<longleftrightarrow> (\<forall>v\<in>set vs. v c = Inr [])"
proof -
  have "sort_key finding_order fs = [] \<longleftrightarrow> fs = []" for fs
    by (metis length_0_conv length_sort)
  then show ?thesis
    by (auto simp: validate_def result_simps simp flip: collect_Inr_Nil_iff)
qed

lemma clean_validator: "validate ALL_VALIDATORS c = Inr [] \<Longrightarrow> v \<in> set ALL_VALIDATORS \<Longrightarrow> v c = Inr []"
  by (simp add: validate_clean)

lemmas all_validators = ALL_VALIDATORS_def list.set insert_iff

lemma concat_map_Nil_iff: "concat (map f xs) = [] \<longleftrightarrow> (\<forall>x\<in>set xs. f x = [])"
  by (induction xs) auto

lemma overlap_findings_clean:
  "overlap_findings edges ps = Inr [] \<Longrightarrow> i < j \<Longrightarrow> j < length ps \<Longrightarrow>
   first \<in> set (scope_lists (ps ! i)) \<Longrightarrow> second \<in> set (scope_lists (ps ! j)) \<Longrightarrow>
   check_pair edges (ps ! i) (ps ! j) first second = Inr []"
proof (induction ps arbitrary: i j)
  case (Cons p ps)
  from Cons.prems(1) have
    head: "collect (\<lambda>right. collect (\<lambda>first. collect (check_pair edges p right first)
             (scope_lists right)) (scope_lists p)) ps = Inr []"
    and tail: "overlap_findings edges ps = Inr []"
    by (auto simp: result_simps)
  from Cons.prems(2) obtain j' where j: "j = Suc j'" by (cases j) auto
  show ?case
  proof (cases i)
    case 0
    have "ps ! j' \<in> set ps" using Cons.prems(3) j by simp
    with head Cons.prems(4,5) show ?thesis
      by (simp add: 0 j collect_Inr_Nil_iff)
  next
    case (Suc i')
    from Cons.IH [OF tail, of i' j'] Cons.prems(2-5) show ?thesis by (simp add: Suc j)
  qed
qed simp

section \<open>What the derivation guarantees\<close>

lemma follows_from_build:
  assumes "build_graph h n = Inr g"
  shows "set (map edge_ends (dg_edges g)) = dependency_relation (nd_packages n)"
  using build_graph_Inr(3) [OF assms] dependency_relation_edges [of "nd_packages n"] by simp

lemma dependency_known_acyclic:
  assumes "build_graph h n = Inr g"
  shows "dependency_relation (nd_packages n)
           \<subseteq> np_key ` set (nd_packages n) \<times> np_key ` set (nd_packages n) \<and>
         deterministic_topological_sort (remdups (map np_key (nd_packages n)))
           (map edge_ends (dg_edges g)) = Inr (dg_topological_order g) \<and>
         distinct (dg_topological_order g) \<and>
         set (dg_topological_order g) = np_key ` set (nd_packages n)"
proof -
  note s = build_graph_Inr(1) [OF assms, folded build_graph_Inr(3) [OF assms]]
  have dk: "distinct (remdups (map np_key (nd_packages n)))" by simp
  have sub: "set (map edge_ends (dg_edges g))
      \<subseteq> set (remdups (map np_key (nd_packages n))) \<times> set (remdups (map np_key (nd_packages n)))"
    using s unfolding deterministic_topological_sort_def unknown_edge_iff
    by (auto split: if_splits)
  have "acyclic (set (map edge_ends (dg_edges g)))"
    using s topological_sort_cases(1) [OF dk sub] by (auto split: if_splits)
  with topological_sort_cases [OF dk sub] s sub follows_from_build [OF assms]
  show ?thesis by auto
qed

lemma sort_eq_iff_mset: "sort xs = sort ys \<longleftrightarrow> mset xs = mset (ys :: 'a::linorder list)"
  by (metis mset_sort properties_for_sort sorted_sort)

section \<open>Subtree scopes\<close>

text \<open>A component of a plain path: no separator, white space, backslash or dot-only name.\<close>

definition plain_parts :: "string list \<Rightarrow> bool" where
  "plain_parts ws \<longleftrightarrow> ws \<noteq> [] \<and> canonical_parts ws \<and> ''..'' \<notin> set ws \<and> ''**'' \<notin> set ws \<and>
     list_all (list_all (\<lambda>c. \<not> is_space_char c \<and> c \<noteq> CHR 0x5C)) ws"

definition subtree_scope :: "string list \<Rightarrow> string" where
  "subtree_scope ws = join_with ''/'' ws @ ''/**''"

lemma set_join: "c \<in> set (join_with sep ws) \<Longrightarrow> c \<in> set sep \<or> (\<exists>w\<in>set ws. c \<in> set w)"
  by (induction sep ws rule: join_with.induct) auto

lemma plain_join_chars:
  assumes "list_all (list_all (\<lambda>c. \<not> is_space_char c \<and> c \<noteq> CHR 0x5C)) ws"
  shows "list_all (\<lambda>c. \<not> is_space_char c \<and> c \<noteq> CHR 0x5C) (join_with ''/'' ws)"
  unfolding list_all_iff
proof
  fix c assume "c \<in> set (join_with ''/'' ws)"
  from set_join [OF this] show "\<not> is_space_char c \<and> c \<noteq> CHR 0x5C"
  proof
    assume "c \<in> set ''/''"
    then have "c = CHR ''/''" by simp
    then show ?thesis by (simp add: is_space_char_def)
  next
    assume "\<exists>w\<in>set ws. c \<in> set w"
    with assms show ?thesis unfolding list_all_iff by blast
  qed
qed

lemma subtree_join: "ws \<noteq> [] \<Longrightarrow> subtree_scope ws = join_with ''/'' (ws @ [''**''])"
  by (simp add: subtree_scope_def join_append)

lemma normalize_plain:
  assumes "plain_parts ws"
  shows "normalize_repository_path (join_with ''/'' ws) = Inr (join_with ''/'' ws)"
    and "normalize_repository_path (subtree_scope ws) = Inr (subtree_scope ws)"
    and "posix_path (join_with ''/'' ws) = \<lparr>pp_absolute = False, pp_parts = ws\<rparr>"
proof -
  from assms have ws: "ws \<noteq> []" "canonical_parts ws" "''..'' \<notin> set ws"
    "list_all (list_all (\<lambda>c. \<not> is_space_char c \<and> c \<noteq> CHR 0x5C)) ws"
    by (simp_all add: plain_parts_def)
  show "normalize_repository_path (join_with ''/'' ws) = Inr (join_with ''/'' ws)"
    by (rule normalize_path_fixed [OF ws(2,1,3) refl plain_join_chars [OF ws(4)]])
  have ext: "canonical_parts (ws @ [''**''])" "''..'' \<notin> set (ws @ [''**''])"
    "list_all (list_all (\<lambda>c. \<not> is_space_char c \<and> c \<noteq> CHR 0x5C)) (ws @ [''**''])"
    using ws by (simp_all add: canonical_parts_def is_space_char_def)
  show "normalize_repository_path (subtree_scope ws) = Inr (subtree_scope ws)"
    unfolding subtree_join [OF ws(1)]
    by (rule normalize_path_fixed [OF ext(1) _ ext(2) refl plain_join_chars [OF ext(3)]]) simp
  show "posix_path (join_with ''/'' ws) = \<lparr>pp_absolute = False, pp_parts = ws\<rparr>"
    by (rule posix_path_join [OF ws(2,1)])
qed

lemma subtree_ends: "ends_with (subtree_scope ws) ''/**''"
  unfolding ends_with_def subtree_scope_def suffix_def by blast

lemma path_matches_subtree:
  assumes "plain_parts us" and "plain_parts ws"
  shows "path_matches_scope (join_with ''/'' us) (subtree_scope ws) = Inr (prefix ws us)"
  unfolding path_matches_scope_def normalize_plain(1) [OF assms(1)] normalize_plain(2) [OF assms(2)]
  using subtree_ends [of ws]
  by (simp add: subtree_scope_def normalize_plain(3) [OF assms(1)] normalize_plain(3) [OF assms(2)]
      path_within_def)

lemma overlaps_subtrees:
  assumes "plain_parts us" and "plain_parts ws"
  shows "overlaps (subtree_scope us) (subtree_scope ws) = Inr (prefix ws us \<or> prefix us ws)"
proof -
  have root: "scope_root (subtree_scope vs) = join_with ''/'' vs" for vs
    using subtree_ends [of vs] by (simp add: scope_root_def subtree_scope_def)
  show ?thesis
    unfolding overlaps_def root path_matches_subtree [OF assms]
      path_matches_subtree [OF assms(2,1)]
    by simp
qed

section \<open>A sample context\<close>

definition sample_context :: ValidationContext where
  "sample_context =
     \<lparr>vc_candidate = sample_candidate, vc_normalized = sample_normalized,
      vc_graph = sample_graph, vc_derivation = sample_derivation,
      vc_approved_requirements = [''R1''], vc_architecture_elements = [''A1''],
      vc_implementable_requirements = [''R1''], vc_implementable_architecture_elements = [''A1''],
      vc_repository_paths = [''src/app/main.py''], vc_module_roots = [''src''],
      vc_protected_paths = [''.git/**''], vc_requirements_approved = True,
      vc_architecture_approved = True, vc_lineage_matches = True, vc_project_matches = True,
      vc_artifacts_superseded = False, vc_requested_commit = ''c'', vc_snapshot_commit = ''c'',
      vc_snapshot_tree_hash = ''t'', vc_index_snapshot_matches = True,
      vc_repository_index = None, vc_repository_index_hash = []\<rparr>"

lemma sample_context_clean: "validate ALL_VALIDATORS sample_context = Inr []"
  by code_simp

lemma sample_context_simps [simp]:
  "vc_normalized sample_context = sample_normalized" "vc_graph sample_context = sample_graph"
  "vc_derivation sample_context = sample_derivation" "vc_candidate sample_context = sample_candidate"
  by (simp_all add: sample_context_def)

lemma sample_normalized_simps [simp]:
  "nd_packages sample_normalized = [sample_normalized_package ''api'' [],
     sample_normalized_package ''web-ui'' [''api'']]"
  by (simp add: sample_normalized_def)

section \<open>Properties\<close>



text \<open>
  C20: A decomposition that passes validation is complete and consistent: its inputs are approved
  and current; package keys are unique and not reserved; every implementable requirement and
  architecture element is referenced by a package, and every reference is to an approved one;
  every dependency names another package and carries a reason; the dependencies are acyclic and
  the topological order lists every package exactly once.
\<close>
theorem clean_validation_is_complete:
  assumes "validate ALL_VALIDATORS c = Inr []"
  defines "ps \<equiv> nd_packages (vc_normalized c)"
    and "E \<equiv> set (map edge_ends (dg_edges (vc_graph c)))"
  shows "vc_requirements_approved c \<and> vc_architecture_approved c \<and> \<not> vc_artifacts_superseded c \<and>
    distinct (map np_key ps) \<and>
    set (map np_key ps) \<inter> set (dp_reserved_keys (dv_policy (vc_derivation c))) = {} \<and>
    set (vc_implementable_requirements c) \<subseteq> (\<Union>p\<in>set ps. set (np_requirement_refs p)) \<and>
    (\<Union>p\<in>set ps. set (np_requirement_refs p)) \<subseteq> set (vc_approved_requirements c) \<and>
    set (vc_implementable_architecture_elements c) \<subseteq> (\<Union>p\<in>set ps. set (np_architecture_refs p)) \<and>
    (\<Union>p\<in>set ps. set (np_architecture_refs p)) \<subseteq> set (vc_architecture_elements c) \<and>
    dependency_relation ps \<subseteq> np_key ` set ps \<times> np_key ` set ps - Id \<and>
    acyclic E \<and> mset (dg_topological_order (vc_graph c)) = mset (map np_key ps)"
proof -
  note clean = clean_validator [OF assms(1)]
  have v1: "input_approval_validator c = Inr []" and v2: "package_key_validator c = Inr []"
    and v3: "requirement_coverage_validator c = Inr []"
    and v4: "architecture_coverage_validator c = Inr []"
    and v5: "reference_integrity_validator c = Inr []"
    and v6: "dependency_integrity_validator c = Inr []" and v7: "cycle_validator c = Inr []"
    and v8: "graph_completeness_validator c = Inr []"
    by (rule clean, simp add: ALL_VALIDATORS_def)+
  have inputs: "vc_requirements_approved c \<and> vc_architecture_approved c \<and> \<not> vc_artifacts_superseded c"
    using v1 by (simp add: input_approval_validator_def)
  have keys: "distinct (map np_key ps) \<and>
      set (map np_key ps) \<inter> set (dp_reserved_keys (dv_policy (vc_derivation c))) = {}"
    using v2 by (auto simp: package_key_validator_def ps_def concat_map_Nil_iff)
  have req: "set (vc_implementable_requirements c) \<subseteq> (\<Union>p\<in>set ps. set (np_requirement_refs p))"
    using v3 by (auto simp: requirement_coverage_validator_def ps_def filter_empty_conv)
  have arc: "set (vc_implementable_architecture_elements c)
      \<subseteq> (\<Union>p\<in>set ps. set (np_architecture_refs p))"
    using v4 by (auto simp: architecture_coverage_validator_def ps_def filter_empty_conv)
  have refs: "(\<Union>p\<in>set ps. set (np_requirement_refs p)) \<subseteq> set (vc_approved_requirements c)"
    "(\<Union>p\<in>set ps. set (np_architecture_refs p)) \<subseteq> set (vc_architecture_elements c)"
    using v5 by (auto simp: reference_integrity_validator_def ps_def concat_map_Nil_iff
        filter_empty_conv)
  have deps: "dependency_relation ps \<subseteq> np_key ` set ps \<times> np_key ` set ps - Id"
    using v6 by (fastforce simp: dependency_integrity_validator_def Let_def concat_map_Nil_iff
        check_dependency_def dependency_relation_def ps_def)
  let ?keys = "remdups (map np_key (nd_packages (vc_normalized c)))"
  have "succeeds (deterministic_topological_sort ?keys (map edge_ends (dg_edges (vc_graph c))))"
    using v7 by (auto simp: cycle_validator_def split: sum.splits decomposition_error.splits)
  then have "acyclic E"
    using topological_sort_cases(1) [of ?keys "map edge_ends (dg_edges (vc_graph c))"]
    unfolding E_def deterministic_topological_sort_def unknown_edge_iff
    by (cases "set (map edge_ends (dg_edges (vc_graph c))) \<subseteq> set ?keys \<times> set ?keys")
       (auto split: if_splits)
  moreover have "mset (dg_topological_order (vc_graph c)) = mset (map np_key ps)"
    using v8 by (simp add: graph_completeness_validator_def Let_def sort_eq_iff_mset ps_def)
  ultimately show ?thesis using inputs keys req arc refs deps by simp
qed

theorem clean_validation_is_complete_witness:
  "acyclic (set (map edge_ends (dg_edges (vc_graph sample_context)))) \<and>
   mset (dg_topological_order sample_graph) = mset [''api'', ''web-ui'']"
  using clean_validation_is_complete [OF sample_context_clean]
  by (simp add: sample_normalized_package_def)

text \<open>
  C23: In a decomposition that passes validation no package can widen its sandbox: its execution
  policy has no network, no privileges and no write access to the host repository and stays
  within the limits, and each of its test commands starts with an allowed executable and
  contains no shell operator as an argument.
\<close>
theorem clean_validation_keeps_sandbox:
  assumes "validate ALL_VALIDATORS c = Inr []"
    and "p \<in> set (nd_packages (vc_normalized c))"
    and "np_execution_policy p = execution_policy_items e"
  shows "ce_network e = ''disabled'' \<and> \<not> ce_privileged e \<and> \<not> ce_host_repository_write e \<and>
    ce_cpu_limit e \<le> dp_maximum_cpu (dv_policy (vc_derivation c)) \<and>
    ce_memory_mb e \<le> dp_maximum_memory_mb (dv_policy (vc_derivation c)) \<and>
    ce_pid_limit e \<le> dp_maximum_pid_limit (dv_policy (vc_derivation c)) \<and>
    ce_timeout_seconds e \<le> dp_maximum_timeout_seconds (dv_policy (vc_derivation c)) \<and>
    list_all (\<lambda>m. (case nm_argv m of [] \<Rightarrow> [] | a # _ \<Rightarrow> a)
                    \<in> set (dp_allowed_executables (dv_policy (vc_derivation c))) \<and>
                  set (nm_argv m) \<inter> set shell_tokens = {}) (np_test_commands p)"
proof -
  note clean = clean_validator [OF assms(1)]
  have v1: "execution_policy_validator c = Inr []" and v2: "test_command_validator c = Inr []"
    by (rule clean, simp add: ALL_VALIDATORS_def)+
  from v1 assms(2) have "\<not> execution_policy_invalid (dv_policy (vc_derivation c)) p"
    by (simp add: execution_policy_validator_def concat_map_Nil_iff)
  then have "ce_network e = ''disabled'' \<and> \<not> ce_privileged e \<and> \<not> ce_host_repository_write e \<and>
      ce_cpu_limit e \<le> dp_maximum_cpu (dv_policy (vc_derivation c)) \<and>
      ce_memory_mb e \<le> dp_maximum_memory_mb (dv_policy (vc_derivation c)) \<and>
      ce_pid_limit e \<le> dp_maximum_pid_limit (dv_policy (vc_derivation c)) \<and>
      ce_timeout_seconds e \<le> dp_maximum_timeout_seconds (dv_policy (vc_derivation c))"
    by (simp add: execution_policy_invalid_def assms(3) execution_policy_items_def exceeds_def
        not_less Let_def)
  moreover have "list_all (\<lambda>m. (case nm_argv m of [] \<Rightarrow> [] | a # _ \<Rightarrow> a)
                    \<in> set (dp_allowed_executables (dv_policy (vc_derivation c))) \<and>
                  set (nm_argv m) \<inter> set shell_tokens = {}) (np_test_commands p)"
    using v2 assms(2)
    by (simp add: test_command_validator_def concat_map_Nil_iff Let_def list_all_iff)
  ultimately show ?thesis by blast
qed

theorem clean_validation_keeps_sandbox_witness:
  "ce_memory_mb (cw_execution_policy (sample_package ''api'' []))
     \<le> dp_maximum_memory_mb (dv_policy (vc_derivation sample_context))"
proof -
  have "sample_normalized_package ''api'' [] \<in> set (nd_packages (vc_normalized sample_context))"
    by simp
  moreover have "np_execution_policy (sample_normalized_package ''api'' [])
      = execution_policy_items (cw_execution_policy (sample_package ''api'' []))"
    by (simp add: sample_normalized_package_def sample_package_def execution_policy_items_def)
  ultimately show ?thesis using clean_validation_keeps_sandbox [OF sample_context_clean] by blast
qed

text \<open>
  What the pipeline derives needs no repair: when a candidate normalizes and its graph is
  built, the cycle, graph-completeness and determinism validators find nothing, and neither a
  duplicate nor an unknown or self dependency can be reported.
\<close>
theorem derived_artifacts_pass_structural_validators:
  assumes "normalize (vc_derivation c) (vc_candidate c) = Inr (vc_normalized c)"
    and "build_graph (dv_canonical_hash (vc_derivation c)) (vc_normalized c) = Inr (vc_graph c)"
  shows "cycle_validator c = Inr [] \<and> graph_completeness_validator c = Inr [] \<and>
    determinism_validator c = Inr [] \<and>
    list_all (\<lambda>p. distinct (np_dependencies p) \<and>
      list_all (\<lambda>d. d \<noteq> np_key p \<and> d \<in> set (map np_key (nd_packages (vc_normalized c))))
        (np_dependencies p)) (nd_packages (vc_normalized c))"
proof -
  let ?ps = "nd_packages (vc_normalized c)"
  note canon = normalization_form [OF assms(1)]
  note dep = dependency_known_acyclic [OF assms(2)]
  have "cycle_validator c = Inr []"
    using dep by (simp add: cycle_validator_def)
  moreover have "mset (map (\<lambda>(_, key, _). key) (dg_nodes (vc_graph c))) = mset (map np_key ?ps)"
    unfolding build_graph_Inr(4) [OF assms(2)] by (simp add: mset_map image_mset.compositionality comp_def)
  moreover have "mset (dg_topological_order (vc_graph c)) = mset (map np_key ?ps)"
    using dep canon by (intro set_eq_iff_mset_eq_distinct [THEN iffD1]) auto
  moreover from this have "length (remdups (dg_topological_order (vc_graph c))) = length (map np_key ?ps)"
    using dep by (metis distinct_remdups_id size_mset)
  ultimately have "graph_completeness_validator c = Inr []" "cycle_validator c = Inr []"
    by (simp_all add: graph_completeness_validator_def Let_def sort_eq_iff_mset)
  moreover have "determinism_validator c = Inr []"
    by (simp add: determinism_validator_def assms)
  moreover have "acyclic (dependency_relation ?ps)"
    using dep follows_from_build [OF assms(2)]
      topological_sort_cases(1) [of "remdups (map np_key ?ps)" "map edge_ends (dg_edges (vc_graph c))"]
    by (auto split: if_splits)
  then have "d \<noteq> np_key p" if "p \<in> set ?ps" "d \<in> set (np_dependencies p)" for p d
    using that by (auto simp: acyclic_def dependency_relation_def)
  moreover have "d \<in> np_key ` set ?ps" if "p \<in> set ?ps" "d \<in> set (np_dependencies p)" for p d
    using that dep by (auto simp: dependency_relation_def)
  ultimately show ?thesis using canon by (simp add: list_all_iff)
qed

theorem derived_artifacts_pass_structural_validators_witness:
  "graph_completeness_validator sample_context = Inr [] \<and> cycle_validator sample_context = Inr []"
  using derived_artifacts_pass_structural_validators [of sample_context] sample_normalizes sample_builds
  by simp

text \<open>
  C24: On directory scopes the overlap test is exact: for two plain directories, the scopes of
  their subtrees overlap exactly when some repository path matches both, that is, when one
  directory contains the other.
\<close>
theorem subtree_overlap_exact:
  assumes "plain_parts us" and "plain_parts ws"
  shows "overlaps (subtree_scope us) (subtree_scope ws) =
    Inr (\<exists>vs. plain_parts vs \<and>
           path_matches_scope (join_with ''/'' vs) (subtree_scope us) = Inr True \<and>
           path_matches_scope (join_with ''/'' vs) (subtree_scope ws) = Inr True)"
proof -
  have "(\<exists>vs. plain_parts vs \<and>
           path_matches_scope (join_with ''/'' vs) (subtree_scope us) = Inr True \<and>
           path_matches_scope (join_with ''/'' vs) (subtree_scope ws) = Inr True)
      \<longleftrightarrow> prefix ws us \<or> prefix us ws"
  proof
    assume "\<exists>vs. plain_parts vs \<and>
           path_matches_scope (join_with ''/'' vs) (subtree_scope us) = Inr True \<and>
           path_matches_scope (join_with ''/'' vs) (subtree_scope ws) = Inr True"
    then obtain vs where vs: "plain_parts vs"
      "path_matches_scope (join_with ''/'' vs) (subtree_scope us) = Inr True"
      "path_matches_scope (join_with ''/'' vs) (subtree_scope ws) = Inr True" by blast
    from vs(2,3) have "prefix us vs" "prefix ws vs"
      unfolding path_matches_subtree [OF vs(1) assms(1)] path_matches_subtree [OF vs(1) assms(2)]
      by simp_all
    then show "prefix ws us \<or> prefix us ws" using prefix_same_cases by blast
  next
    assume "prefix ws us \<or> prefix us ws"
    then obtain vs where "plain_parts vs" "prefix us vs" "prefix ws vs"
      using assms by blast
    then show "\<exists>vs. plain_parts vs \<and>
           path_matches_scope (join_with ''/'' vs) (subtree_scope us) = Inr True \<and>
           path_matches_scope (join_with ''/'' vs) (subtree_scope ws) = Inr True"
      using assms by (auto simp: path_matches_subtree)
  qed
  then show ?thesis unfolding overlaps_subtrees [OF assms] by simp
qed

theorem subtree_overlap_exact_witness:
  "overlaps (subtree_scope [''src'', ''app'']) (subtree_scope [''src'']) =
     Inr (\<exists>vs. plain_parts vs \<and>
           path_matches_scope (join_with ''/'' vs) (subtree_scope [''src'', ''app'']) = Inr True \<and>
           path_matches_scope (join_with ''/'' vs) (subtree_scope [''src'']) = Inr True)"
  by (rule subtree_overlap_exact)
     (simp_all add: plain_parts_def canonical_parts_def is_space_char_def)


end
