(* ===== verification/Audit_Guarantees.thy ===== *)
theory Audit_Guarantees
  imports Audit_Chain
begin

text \<open>
  What the audit trail promises. A stream the writer alone has written is \<open>linked\<close>: its records
  are numbered from one, each names the hash of the one before, and each hash is the hash of the
  record's contents. The check accepts exactly the linked chains whose hashes are not empty
  (\<open>verify_from_Nil_iff\<close>), and the hash of the last record determines the whole chain.
\<close>

fun linked ::
  "(json \<Rightarrow> digest) \<Rightarrow> digest option \<Rightarrow> AuditChainRecordModel list \<Rightarrow> bool" where
  "linked hj prev [] \<longleftrightarrow> True"
| "linked hj prev (r # rs) \<longleftrightarrow>
     cr_previous_hash r = prev \<and> cr_record_hash r \<noteq> [] \<and>
     cr_record_hash r = canonical_chain_record_hash hj (cr_stream_id r) (cr_sequence r)
       (cr_previous_hash r) (cr_payload r) \<and>
     linked hj (Some (cr_record_hash r)) rs"

definition head_hash :: "digest option \<Rightarrow> AuditChainRecordModel list \<Rightarrow> digest option" where
  "head_hash prev rs = (if rs = [] then prev else Some (cr_record_hash (last rs)))"

lemma linked_append:
  "linked h prev (rs @ ss) \<longleftrightarrow> linked h prev rs \<and> linked h (head_hash prev rs) ss"
  by (induction rs arbitrary: prev) (auto simp: head_hash_def)

lemma verify_from_Nil_iff: "verify_from h n prev (map entry_of rs) = [] \<longleftrightarrow> linked h prev rs"
  by (induction rs arbitrary: n prev) (auto simp: entry_of_def Let_def)

lemma verify_chain_Nil_iff: "verify_chain_records h (map entry_of rs) = [] \<longleftrightarrow> linked h None rs"
  by (simp add: verify_chain_records_def verify_from_Nil_iff)

section \<open>The writer's streams\<close>

definition of_stream :: "string \<Rightarrow> audit_tables \<Rightarrow> AuditChainRecordModel list" where
  "of_stream s t = filter (\<lambda>r. cr_stream_id r = s) (au_chain t)"

definition stream_ok :: "(json \<Rightarrow> digest) \<Rightarrow> AuditChainRecordModel list \<Rightarrow> bool" where
  "stream_ok h rs \<longleftrightarrow>
     map cr_sequence rs = map int [1..<Suc (length rs)] \<and> linked h None rs"

definition audit_ok :: "(json \<Rightarrow> digest) \<Rightarrow> audit_tables \<Rightarrow> bool" where
  "audit_ok h t \<longleftrightarrow> (\<forall>s. stream_ok h (of_stream s t))"

lemma stream_sorted:
  assumes "map cr_sequence rs = map int [1..<Suc (length rs)]"
  shows "sort_key cr_sequence rs = rs"
proof -
  have "sorted (map cr_sequence rs)" unfolding assms by (simp add: sorted_map del: upt_Suc)
  then show ?thesis by (rule sort_key_id_if_sorted)
qed

lemma previous_is_last:
  assumes "map cr_sequence rs = map int [1..<Suc (length rs)]"
  shows "first_by (\<lambda>r. - cr_sequence r) rs = (if rs = [] then None else Some (last rs))"
proof (cases "rs = []")
  case True
  then show ?thesis using first_by_None [of "\<lambda>r. - cr_sequence r" rs] by simp
next
  case False
  have seq: "cr_sequence (rs ! i) = int (Suc i)" if "i < length rs" for i
  proof -
    have "cr_sequence (rs ! i) = map cr_sequence rs ! i" using that by simp
    also have "\<dots> = int (Suc i)" unfolding assms using that by (simp del: upt_Suc)
    finally show ?thesis .
  qed
  from False obtain x where x: "x \<in> set rs" by (cases rs) auto
  obtain y where y: "first_by (\<lambda>r. - cr_sequence r) rs = Some y"
    using first_by_exists [OF x] by blast
  from first_by_Some [OF y] have "y \<in> set rs" and
    least: "\<forall>z\<in>set rs. - cr_sequence y \<le> - cr_sequence z" by auto
  then obtain i where i: "i < length rs" "y = rs ! i" by (auto simp: in_set_conv_nth)
  let ?j = "length rs - 1"
  have j: "?j < length rs" "last rs = rs ! ?j" using False by (simp_all add: last_conv_nth)
  have "cr_sequence (rs ! ?j) \<le> cr_sequence y"
    using least nth_mem [OF j(1)] by simp
  with seq [OF i(1)] seq [OF j(1)] i have "i = ?j" by simp
  with i j y False show ?thesis by simp
qed

lemma stream_ok_snoc:
  assumes "stream_ok h rs"
    and "cr_sequence r = int (Suc (length rs))"
    and "linked h (head_hash None rs) [r]"
  shows "stream_ok h (rs @ [r])"
  using assms by (auto simp: stream_ok_def linked_append)

lemma append_event_chain:
  "\<exists>r. au_chain (append_event h e c s p et act ai pl t) = au_chain t @ [r] \<and>
       cr_stream_id r = s \<and>
       cr_sequence r = (case first_by (\<lambda>r. - cr_sequence r) (of_stream s t) of
                          None \<Rightarrow> 1 | Some q \<Rightarrow> cr_sequence q + 1) \<and>
       cr_previous_hash r = map_option cr_record_hash
                              (first_by (\<lambda>r. - cr_sequence r) (of_stream s t)) \<and>
       cr_record_hash r = canonical_chain_record_hash h s (cr_sequence r)
                              (cr_previous_hash r) (cr_payload r)"
  by (simp add: append_event_def Let_def of_stream_def)

lemma append_event_ok:
  assumes ok: "audit_ok h t" and nonempty: "\<forall>v. h v \<noteq> []"
  shows "audit_ok h (append_event h e c s p et act ai pl t)"
  unfolding audit_ok_def
proof
  fix s'
  let ?rs = "of_stream s t"
  let ?t' = "append_event h e c s p et act ai pl t"
  obtain r where r: "au_chain ?t' = au_chain t @ [r]" "cr_stream_id r = s"
    "cr_sequence r = (case first_by (\<lambda>r. - cr_sequence r) ?rs of
                        None \<Rightarrow> 1 | Some q \<Rightarrow> cr_sequence q + 1)"
    "cr_previous_hash r = map_option cr_record_hash (first_by (\<lambda>r. - cr_sequence r) ?rs)"
    "cr_record_hash r = canonical_chain_record_hash h s (cr_sequence r)
                          (cr_previous_hash r) (cr_payload r)"
    using append_event_chain by blast
  show "stream_ok h (of_stream s' ?t')"
  proof (cases "s' = s")
    case False
    then have "of_stream s' ?t' = of_stream s' t" using r by (simp add: of_stream_def)
    with ok show ?thesis by (simp add: audit_ok_def)
  next
    case True
    have sok: "stream_ok h ?rs" using ok by (simp add: audit_ok_def)
    then have nums: "map cr_sequence ?rs = map int [1..<Suc (length ?rs)]"
      by (simp add: stream_ok_def)
    note prev = previous_is_last [OF nums]
    have "cr_sequence r = int (Suc (length ?rs))"
    proof (cases "?rs = []")
      case False
      then have "cr_sequence (last ?rs) = map cr_sequence ?rs ! (length ?rs - 1)"
        by (simp add: last_conv_nth)
      also have "\<dots> = int (length ?rs)" unfolding nums using False by (simp del: upt_Suc)
      finally show ?thesis using r(3) prev False by simp
    qed (use r(3) prev in simp)
    moreover have "linked h (head_hash None ?rs) [r]"
      using r(2,4,5) prev nonempty
      by (simp add: head_hash_def canonical_chain_record_hash_def)
    ultimately have "stream_ok h (?rs @ [r])" using sok by (intro stream_ok_snoc)
    moreover have "of_stream s' ?t' = ?rs @ [r]" using r True by (simp add: of_stream_def)
    ultimately show ?thesis by simp
  qed
qed

lemma audit_ok_listing:
  assumes "audit_ok h t"
  shows "list_project_chain_records p t = of_stream (project_stream p) t"
proof -
  have "stream_ok h (of_stream (project_stream p) t)" using assms by (simp add: audit_ok_def)
  then have "sort_key cr_sequence (of_stream (project_stream p) t) = of_stream (project_stream p) t"
    by (intro stream_sorted) (simp add: stream_ok_def)
  then show ?thesis by (simp add: list_project_chain_records_def of_stream_def)
qed

text \<open>The states of the trail that only the writer has touched.\<close>

inductive audit_reachable :: "(json \<Rightarrow> digest) \<Rightarrow> audit_tables \<Rightarrow> bool" for h where
  empty_trail: "audit_reachable h \<lparr>au_events = [], au_chain = []\<rparr>"
| appended: "audit_reachable h t \<Longrightarrow> audit_reachable h (append_event h e c s p et act ai pl t)"

lemma audit_reachable_ok: "audit_reachable h t \<Longrightarrow> \<forall>v. h v \<noteq> [] \<Longrightarrow> audit_ok h t"
proof (induction rule: audit_reachable.induct)
  case empty_trail
  show ?case by (simp add: audit_ok_def of_stream_def stream_ok_def)
next
  case appended
  then show ?case by (intro append_event_ok) auto
qed

text \<open>
  C16: Whatever was appended to the audit trail, and to whichever streams, the chain of every
  project is numbered without gaps from one and the integrity check of the service finds
  nothing, provided a digest is never the empty text.
\<close>

theorem written_chains_verify:
  assumes "audit_reachable hj t"
    and "\<forall>v. hj v \<noteq> []"
  shows "map cr_sequence (list_project_chain_records project_id t) =
           map int [1..<Suc (length (list_project_chain_records project_id t))] \<and>
         (list_project_chain_records project_id t \<noteq> [] \<longrightarrow>
          integrity hj hash_event project_id timeline t =
            chain_integrity ''verified'' (length (list_project_chain_records project_id t)) [])"
proof -
  let ?rs = "list_project_chain_records project_id t"
  have ok: "audit_ok hj t" by (rule audit_reachable_ok [OF assms])
  then have "stream_ok hj ?rs" by (simp add: audit_ok_listing) (simp add: audit_ok_def)
  then show ?thesis
    by (simp add: stream_ok_def integrity_def Let_def verify_chain_Nil_iff del: upt_Suc)
qed

section \<open>Tampering\<close>

definition record_contents :: "AuditChainRecordModel \<Rightarrow>
    string \<times> int \<times> digest option \<times> digest \<times> (string \<times> json) list" where
  "record_contents r =
     (cr_stream_id r, cr_sequence r, cr_previous_hash r, cr_record_hash r, cr_payload r)"

definition envelope_of :: "AuditChainRecordModel \<Rightarrow> json" where
  "envelope_of r = chain_envelope (cr_stream_id r) (cr_sequence r) (cr_previous_hash r) (cr_payload r)"

definition collision_free :: "(json \<Rightarrow> digest) \<Rightarrow> json list \<Rightarrow> bool" where
  "collision_free h vs \<longleftrightarrow> (\<forall>v\<in>set vs. \<forall>w\<in>set vs. h v = h w \<longrightarrow> v = w)"

lemma collision_free_mono: "collision_free h vs \<Longrightarrow> set ws \<subseteq> set vs \<Longrightarrow> collision_free h ws"
  unfolding collision_free_def by blast

lemma same_envelope: "envelope_of r = envelope_of q \<Longrightarrow> cr_record_hash r = cr_record_hash q \<Longrightarrow>
    record_contents r = record_contents q"
  by (simp add: envelope_of_def chain_envelope_def record_contents_def text_or_null_inject)

lemma linked_snocD:
  "linked h prev (rs @ [r]) \<Longrightarrow>
     linked h prev rs \<and> cr_previous_hash r = head_hash prev rs \<and> cr_record_hash r = h (envelope_of r)"
  by (simp add: linked_append envelope_of_def canonical_chain_record_hash_def)

lemma linked_determined:
  assumes "linked h None rs" "linked h None qs"
    and "head_hash None rs = head_hash None qs"
    and "collision_free h (map envelope_of (rs @ qs))"
  shows "map record_contents rs = map record_contents qs"
  using assms
proof (induction rs arbitrary: qs rule: rev_induct)
  case Nil
  then show ?case by (simp add: head_hash_def split: if_splits)
next
  case (snoc r rs)
  from snoc.prems(3) have "qs \<noteq> []" by (auto simp: head_hash_def)
  then obtain qs' q where qs: "qs = qs' @ [q]" by (metis append_butlast_last_id)
  note r = linked_snocD [OF snoc.prems(1)]
  note q = linked_snocD [OF snoc.prems(2) [unfolded qs]]
  from snoc.prems(3) have heads: "cr_record_hash r = cr_record_hash q"
    by (simp add: qs head_hash_def)
  have "h (envelope_of r) = h (envelope_of q)" using heads r q by argo
  moreover have "envelope_of r \<in> set (map envelope_of ((rs @ [r]) @ qs))"
    and "envelope_of q \<in> set (map envelope_of ((rs @ [r]) @ qs))" by (simp_all add: qs)
  ultimately have env: "envelope_of r = envelope_of q"
    using snoc.prems(4) unfolding collision_free_def by blast
  then have rec: "record_contents r = record_contents q" using heads by (rule same_envelope)
  then have "cr_previous_hash r = cr_previous_hash q" by (simp add: record_contents_def)
  then have "head_hash None rs = head_hash None qs'" using r q by argo
  moreover have "collision_free h (map envelope_of (rs @ qs'))"
    by (rule collision_free_mono [OF snoc.prems(4)]) (auto simp: qs)
  ultimately have "map record_contents rs = map record_contents qs'"
    using snoc.IH r q by blast
  with rec show ?case by (simp add: qs)
qed

text \<open>
  C31: The last hash pins the whole trail. Two chains that the check accepts and that end in the
  same record hash agree in every record (stream, number, link, hash and payload), unless two
  of their records are a collision of the hash: no record can be changed, dropped, inserted or
  reordered under a head hash noted elsewhere.
\<close>

theorem chain_tampering_is_detected:
  assumes "verify_chain_records hj (map entry_of rs) = []"
    and "verify_chain_records hj (map entry_of qs) = []"
    and "head_hash None rs = head_hash None qs"
    and "collision_free hj (map envelope_of (rs @ qs))"
  shows "map record_contents rs = map record_contents qs"
  using assms by (intro linked_determined) (simp_all add: verify_chain_Nil_iff)

definition sample_hash :: "json \<Rightarrow> digest" where
  "sample_hash v = (case v of JObject kvs \<Rightarrow>
     (case map_of kvs ''sequence'' of Some (JInt n) \<Rightarrow> (if n = 1 then ''h1'' else ''h2'') | _ \<Rightarrow> ''h'')
     | _ \<Rightarrow> ''h'')"

definition sample_trail :: audit_tables where
  "sample_trail =
     append_project_event sample_hash 3 4 7 ''recovery.completed'' ''worker'' ''w'' [(''k'', JInt 1)]
       (append_project_event sample_hash 1 2 7 ''recovery.claimed'' ''worker'' ''w'' []
         \<lparr>au_events = [], au_chain = []\<rparr>)"

lemma sample_trail_reachable: "audit_reachable sample_hash sample_trail"
  unfolding sample_trail_def append_project_event_def
  by (intro audit_reachable.intros)

lemma written_chains_verify_witness:
  "integrity sample_hash sample_hash 7 [] sample_trail = chain_integrity ''verified'' 2 [] \<and>
   (\<forall>v. sample_hash v \<noteq> [])"
proof -
  have ne: "\<forall>v. sample_hash v \<noteq> []"
    by (simp add: sample_hash_def split: json.splits option.splits)
  have "list_project_chain_records 7 sample_trail \<noteq> [] \<and>
      length (list_project_chain_records 7 sample_trail) = 2"
    by code_simp
  then show ?thesis
    using written_chains_verify [OF sample_trail_reachable ne, of 7 sample_hash "[]"] ne by simp
qed

lemma chain_tampering_is_detected_witness:
  "let rs = list_project_chain_records 7 sample_trail; qs = map (\<lambda>r. r\<lparr>cr_id := 99\<rparr>) rs
   in rs \<noteq> qs \<and> length rs = 2 \<and> map record_contents rs = map record_contents qs"
proof -
  let ?rs = "list_project_chain_records 7 sample_trail"
  let ?qs = "map (\<lambda>r. r\<lparr>cr_id := 99\<rparr>) ?rs"
  have l: "?rs \<noteq> ?qs \<and> length ?rs = 2" by code_simp
  have v: "verify_chain_records sample_hash (map entry_of ?rs) = []"
    and v': "verify_chain_records sample_hash (map entry_of ?qs) = []" by code_simp+
  have e: "head_hash None ?rs = head_hash None ?qs" by code_simp
  have c: "collision_free sample_hash (map envelope_of (?rs @ ?qs))" by code_simp
  show ?thesis using chain_tampering_is_detected [OF v v' e c] l unfolding Let_def by blast
qed

end
