(* ===== verification/Recovery_Lifecycle.thy ===== *)
theory Recovery_Lifecycle
  imports Recovery_Domain
begin

text \<open>
  The lifecycle of \<^verbatim>\<open>domain/recovery/state_machine.py\<close> as an instance of the contracts of
  \<^theory_text>\<open>Machine\<close>: the rank of a status grows with every transition, so runs are short and
  never return, and the stages of a successful recovery cannot be skipped.
\<close>

fun status_rank :: "RecoveryAttemptStatus \<Rightarrow> nat" where
  "status_rank QUEUED = 0"
| "status_rank CLAIMED = 1"
| "status_rank VERIFYING_REMOTE = 2"
| "status_rank PREPARING_WORKSPACE = 3"
| "status_rank CREATING_REVERT = 4"
| "status_rank APPLYING_COMPENSATION = 4"
| "status_rank RUNNING_TESTS = 5"
| "status_rank CREATING_COMMIT = 6"
| "status_rank PUSHING = 7"
| "status_rank PUSH_UNCERTAIN = 8"
| "status_rank VERIFYING_REMOTE_RESULT = 9"
| "status_rank _ = 10"

fun status_stage :: "RecoveryAttemptStatus \<Rightarrow> nat" where
  "status_stage CLAIMED = 1"
| "status_stage VERIFYING_REMOTE = 2"
| "status_stage PREPARING_WORKSPACE = 3"
| "status_stage CREATING_REVERT = 3"
| "status_stage APPLYING_COMPENSATION = 3"
| "status_stage RUNNING_TESTS = 4"
| "status_stage CREATING_COMMIT = 5"
| "status_stage PUSHING = 6"
| "status_stage PUSH_UNCERTAIN = 6"
| "status_stage VERIFYING_REMOTE_RESULT = 7"
| "status_stage RECOVERED = 8"
| "status_stage _ = 0"

definition recovery_milestones :: "RecoveryAttemptStatus list" where
  "recovery_milestones =
     [QUEUED, CLAIMED, VERIFYING_REMOTE, PREPARING_WORKSPACE, RUNNING_TESTS, CREATING_COMMIT,
      PUSHING, VERIFYING_REMOTE_RESULT, RECOVERED]"

definition final_status :: "RecoveryAttemptStatus \<Rightarrow> bool" where
  "final_status s \<longleftrightarrow> transitions s = []"

interpretation attempt: ranked_lifecycle can_transition final_status status_rank 10
proof
  fix s t
  show "final_status s \<Longrightarrow> \<not> can_transition s t"
    by (simp add: final_status_def can_transition_def)
  show "can_transition s t \<Longrightarrow> status_rank s < status_rank t"
    by (cases s) (auto simp: can_transition_def)
  show "status_rank s \<le> 10" by (cases s) simp_all
qed

interpretation success: staged_lifecycle can_transition final_status status_stage
  "\<lambda>i. recovery_milestones ! i"
proof
  fix s t
  show "can_transition s t \<Longrightarrow> status_stage t \<le> status_stage s \<or>
      status_stage t = Suc (status_stage s) \<and> recovery_milestones ! status_stage t = t"
    by (cases s) (auto simp: can_transition_def recovery_milestones_def)
qed

lemma milestones_listed: "map ((!) recovery_milestones) [Suc 0..<Suc 8] = tl recovery_milestones"
  by code_simp

text \<open>
  C30: Every run of the recovery lifecycle ends: from any status it takes at most
  10 - rank steps, never visits a status twice, and whatever started queued and ended
  recovered has verified the remote branch, prepared the workspace, run the tests, created the
  commit, pushed and verified the result, in this order.
\<close>

theorem recovery_lifecycle_terminates:
  assumes "legal_run can_transition s ts"
  shows "length ts \<le> 10 - status_rank s \<and> distinct (s # ts) \<and>
    (s = QUEUED \<longrightarrow> last (s # ts) = RECOVERED \<longrightarrow> subseq (tl recovery_milestones) ts)"
proof (intro conjI impI)
  show "length ts \<le> 10 - status_rank s" using assms by (rule attempt.path_length_bound)
  show "distinct (s # ts)" using assms by (rule attempt.path_distinct)
  assume "s = QUEUED" and "last (s # ts) = RECOVERED"
  then have "status_stage s = 0" and "status_stage (last (s # ts)) = 8" by simp_all
  with success.milestones_visited [OF assms] milestones_listed
  show "subseq (tl recovery_milestones) ts" by metis
qed

lemma recovery_lifecycle_terminates_witness:
  "let ts = [CLAIMED, VERIFYING_REMOTE, PREPARING_WORKSPACE, CREATING_REVERT, RUNNING_TESTS,
       CREATING_COMMIT, PUSHING, PUSH_UNCERTAIN, VERIFYING_REMOTE_RESULT, RECOVERED]
   in length ts \<le> 10 \<and> subseq (tl recovery_milestones) ts"
proof -
  let ?ts = "[CLAIMED, VERIFYING_REMOTE, PREPARING_WORKSPACE, CREATING_REVERT, RUNNING_TESTS,
       CREATING_COMMIT, PUSHING, PUSH_UNCERTAIN, VERIFYING_REMOTE_RESULT, RECOVERED]"
  have "legal_run can_transition QUEUED ?ts" by (simp add: can_transition_def)
  from recovery_lifecycle_terminates [OF this] show ?thesis by (simp add: Let_def)
qed

end
