(* ===== verification/Process.thy ===== *)
theory Process
  imports Prelude
begin

text \<open>
  Processes that talk to their collaborators: a process either is done, with a value or an
  exception, or asks one request and goes on with the answer. \<^verbatim>\<open>await\<close> is \<open>Ask\<close>,
  \<^verbatim>\<open>try ... except\<close> is \<open>handle\<close> and \<^verbatim>\<open>try ... finally\<close> is \<open>finally_do\<close>. \<open>wp\<close> is the weakest
  precondition of a process against a protocol, an automaton that reads the requests and their
  answers: it allows a request in a state and moves on.
\<close>

section \<open>Processes\<close>

datatype ('q, 'r, 'e, 'a) process =
    Done "'e + 'a"
  | Ask 'q "'r \<Rightarrow> ('q, 'r, 'e, 'a) process"

primrec bind_process ::
  "('q, 'r, 'e, 'a) process \<Rightarrow> ('a \<Rightarrow> ('q, 'r, 'e, 'b) process) \<Rightarrow> ('q, 'r, 'e, 'b) process" where
  "bind_process (Done r) f = (case r of Inl e \<Rightarrow> Done (Inl e) | Inr x \<Rightarrow> f x)"
| "bind_process (Ask q k) f = Ask q (\<lambda>a. bind_process (k a) f)"

primrec handle ::
  "('q, 'r, 'e, 'a) process \<Rightarrow> ('e \<Rightarrow> ('q, 'r, 'd, 'a) process) \<Rightarrow> ('q, 'r, 'd, 'a) process" where
  "handle (Done r) h = (case r of Inl e \<Rightarrow> h e | Inr x \<Rightarrow> Done (Inr x))"
| "handle (Ask q k) h = Ask q (\<lambda>a. handle (k a) h)"

primrec finally_do ::
  "('q, 'r, 'e, 'a) process \<Rightarrow> ('q, 'r, 'e, unit) process \<Rightarrow> ('q, 'r, 'e, 'a) process" where
  "finally_do (Done r) q = bind_process q (\<lambda>_. Done r)"
| "finally_do (Ask q' k) q = Ask q' (\<lambda>a. finally_do (k a) q)"

definition raise_error :: "'e \<Rightarrow> ('q, 'r, 'e, 'a) process" where
  "raise_error e = Done (Inl e)"

definition return_value :: "'a \<Rightarrow> ('q, 'r, 'e, 'a) process" where
  "return_value x = Done (Inr x)"

text \<open>
  The local variables a \<^verbatim>\<open>try\<close> block sets for the benefit of its \<^verbatim>\<open>except\<close> clauses travel with
  the exception: a part of the block runs \<open>under\<close> their values.
\<close>

definition under :: "'t \<Rightarrow> ('q, 'r, 'e, 'a) process \<Rightarrow> ('q, 'r, 'e \<times> 't, 'a) process" where
  "under tag p = handle p (\<lambda>e. raise_error (e, tag))"

section \<open>Protocols\<close>

primrec wp ::
  "('st \<Rightarrow> 'q \<Rightarrow> bool) \<Rightarrow> ('st \<Rightarrow> 'q \<Rightarrow> 'r \<Rightarrow> 'st) \<Rightarrow> ('q, 'r, 'e, 'a) process \<Rightarrow> 'st \<Rightarrow>
   ('e + 'a \<Rightarrow> 'st \<Rightarrow> bool) \<Rightarrow> bool" where
  "wp allowed next (Done r) st Q = Q r st"
| "wp allowed next (Ask q k) st Q = (allowed st q \<and> (\<forall>a. wp allowed next (k a) (next st q a) Q))"

named_theorems wp_simps

lemma wp_bind [wp_simps]:
  "wp allowed next (bind_process p f) st Q =
     wp allowed next p st (\<lambda>r st. case r of Inl e \<Rightarrow> Q (Inl e) st | Inr x \<Rightarrow> wp allowed next (f x) st Q)"
  by (induction p arbitrary: st) (auto split: sum.splits)

lemma wp_handle [wp_simps]:
  "wp allowed next (handle p h) st Q =
     wp allowed next p st (\<lambda>r st. case r of Inl e \<Rightarrow> wp allowed next (h e) st Q | Inr x \<Rightarrow> Q (Inr x) st)"
  by (induction p arbitrary: st) (auto split: sum.splits)

lemma wp_finally [wp_simps]:
  "wp allowed next (finally_do p q) st Q =
     wp allowed next p st (\<lambda>r st. wp allowed next q st
       (\<lambda>r' st. case r' of Inl e \<Rightarrow> Q (Inl e) st | Inr _ \<Rightarrow> Q r st))"
  by (induction p arbitrary: st) (auto simp: wp_bind split: sum.splits)

lemma wp_under [wp_simps]:
  "wp allowed next (under tag p) st Q =
     wp allowed next p st (\<lambda>r st. case r of Inl e \<Rightarrow> Q (Inl (e, tag)) st | Inr x \<Rightarrow> Q (Inr x) st)"
  by (simp add: under_def wp_handle raise_error_def cong: sum.case_cong)

lemma wp_raise [wp_simps]: "wp allowed next (raise_error e) st Q = Q (Inl e) st"
  by (simp add: raise_error_def)

lemma wp_return [wp_simps]: "wp allowed next (return_value x) st Q = Q (Inr x) st"
  by (simp add: return_value_def)

lemma wp_mono:
  assumes "wp allowed next p st Q"
    and "\<And>r st. Q r st \<Longrightarrow> R r st"
  shows "wp allowed next p st R"
  using assms by (induction p arbitrary: st) auto

end
