(* ===== verification/Recovery_Processor.thy ===== *)
theory Recovery_Processor
  imports Recovery_Store Process
begin

text \<open>
  \<^verbatim>\<open>application/recovery/processor.py\<close>. The processor talks to the attempt store and to seven
  collaborators that are protocols in the source; it is a \<open>process\<close>. The two local variables
  \<^verbatim>\<open>failure_status\<close> and \<^verbatim>\<open>failure_class\<close>, which the source sets before each part of the
  \<^verbatim>\<open>try\<close> block for the benefit of its \<^verbatim>\<open>except\<close> clauses, travel with the exception. Only
  \<^verbatim>\<open>Exception\<close> is modelled, not the cancellation of a task.
\<close>

section \<open>Requests\<close>

datatype request =
    claim_request uuid string
  | transition_request RecoveryCommand RecoveryAttemptStatus PipelineStage string
      "(string \<times> json) list"
  | tests_request RecoveryCommand "TestRunEvidence list"
  | commit_request RecoveryCommand CandidateCommit
  | remote_request RecoveryCommand RemoteEvidence
  | conflict_request RecoveryCommand "string list" string
  | fail_request RecoveryCommand RecoveryAttemptStatus FailureClass string string
  | complete_request RecoveryCommand CandidateCommit RemoteEvidence
  | prepare_snapshot RepositoryPolicy string
  | cleanup_snapshot SnapshotEvidence
  | prepare_revert string string
  | verify_workspace string ExecutionScope "string list"
  | make_directory string
  | run_tests string "ApprovedTestCommand list" string string
  | create_commit string RepositoryPolicy string string string timestamp
  | push_commit string RepositoryPolicy CandidateCommit string
  | verify_remote string RepositoryPolicy CandidateCommit

datatype answer =
    Raised py_exception
  | Unit_Answer
  | Command_Answer RecoveryCommand
  | Snapshot_Answer SnapshotEvidence
  | Revert_Answer PreparedRevert
  | Workspace_Answer WorkspaceEvidence
  | Tests_Answer "TestRunEvidence list"
  | Commit_Answer CandidateCommit
  | Remote_Answer RemoteEvidence

type_synonym ('e, 'a) recovery_process = "(request, answer, 'e, 'a) process"

text \<open>
  The collaborators are typed: an answer is the exception or a value of the request's type. An
  answer of another type is answered with a \<^verbatim>\<open>TypeError\<close>.
\<close>

definition answered :: "(answer \<Rightarrow> 'a option) \<Rightarrow> answer \<Rightarrow> py_exception + 'a" where
  "answered view a = (case a of
     Raised e \<Rightarrow> Inl e
   | _ \<Rightarrow> (case view a of None \<Rightarrow> Inl (PyTypeError ''answer'') | Some x \<Rightarrow> Inr x))"

definition ask :: "request \<Rightarrow> (answer \<Rightarrow> 'a option) \<Rightarrow> (py_exception, 'a) recovery_process" where
  "ask q view = Ask q (\<lambda>a. Done (answered view a))"

definition ask_unit :: "request \<Rightarrow> (py_exception, unit) recovery_process" where
  "ask_unit q = ask q (\<lambda>a. case a of Unit_Answer \<Rightarrow> Some () | _ \<Rightarrow> None)"

definition ask_command :: "request \<Rightarrow> (py_exception, RecoveryCommand) recovery_process" where
  "ask_command q = ask q (\<lambda>a. case a of Command_Answer c \<Rightarrow> Some c | _ \<Rightarrow> None)"

definition ask_snapshot :: "request \<Rightarrow> (py_exception, SnapshotEvidence) recovery_process" where
  "ask_snapshot q = ask q (\<lambda>a. case a of Snapshot_Answer s \<Rightarrow> Some s | _ \<Rightarrow> None)"

definition ask_revert :: "request \<Rightarrow> (py_exception, PreparedRevert) recovery_process" where
  "ask_revert q = ask q (\<lambda>a. case a of Revert_Answer r \<Rightarrow> Some r | _ \<Rightarrow> None)"

definition ask_workspace :: "request \<Rightarrow> (py_exception, WorkspaceEvidence) recovery_process" where
  "ask_workspace q = ask q (\<lambda>a. case a of Workspace_Answer w \<Rightarrow> Some w | _ \<Rightarrow> None)"

definition ask_tests :: "request \<Rightarrow> (py_exception, TestRunEvidence list) recovery_process" where
  "ask_tests q = ask q (\<lambda>a. case a of Tests_Answer ts \<Rightarrow> Some ts | _ \<Rightarrow> None)"

definition ask_commit :: "request \<Rightarrow> (py_exception, CandidateCommit) recovery_process" where
  "ask_commit q = ask q (\<lambda>a. case a of Commit_Answer c \<Rightarrow> Some c | _ \<Rightarrow> None)"

definition ask_remote :: "request \<Rightarrow> (py_exception, RemoteEvidence) recovery_process" where
  "ask_remote q = ask q (\<lambda>a. case a of Remote_Answer r \<Rightarrow> Some r | _ \<Rightarrow> None)"

section \<open>The processor\<close>

type_synonym failure_tag = "RecoveryAttemptStatus \<times> FailureClass"

definition exception_code :: "py_exception \<Rightarrow> string" where
  "exception_code e = take 128 (upper (case exception_code_attribute e of
     Some c \<Rightarrow> c | None \<Rightarrow> exception_type_name e))"

definition finish ::
  "RecoveryCommand \<Rightarrow> CandidateCommit \<Rightarrow> RemoteEvidence \<Rightarrow> (py_exception, unit) recovery_process" where
  "finish command candidate remote =
     bind_process (ask_unit (transition_request command VERIFYING_REMOTE_RESULT
         REMOTE_RESULT_VERIFICATION ''recovery.remote_verified''
         [(''commit_sha'', JText (re_commit_sha remote)),
          (''tree_sha'', JText (re_tree_sha remote))])) (\<lambda>_.
     bind_process (ask_unit (remote_request command remote)) (\<lambda>_.
     ask_unit (complete_request command candidate remote)))"

definition try_reconcile ::
  "string \<Rightarrow> RecoveryCommand \<Rightarrow> CandidateCommit \<Rightarrow> (py_exception, RemoteEvidence option) recovery_process" where
  "try_reconcile repository command candidate =
     handle
       (bind_process (ask_remote (verify_remote repository (rc_policy command) candidate))
          (\<lambda>remote. return_value (Some remote)))
       (\<lambda>_. return_value None)"

definition reconcile_only :: "RecoveryCommand \<Rightarrow> (py_exception, unit) recovery_process" where
  "reconcile_only command =
     (case rc_existing_candidate command of
        None \<Rightarrow> raise_error (PyValueError ''RECOVERY_COMMIT_EVIDENCE_MISSING'')
      | Some candidate \<Rightarrow>
          bind_process (ask_snapshot (prepare_snapshot (rc_policy command)
              (cc_commit_sha candidate))) (\<lambda>snapshot.
            finally_do
              (handle
                (bind_process (ask_remote (verify_remote (se_path snapshot) (rc_policy command)
                    candidate)) (\<lambda>remote.
                  finish command candidate remote))
                (\<lambda>e. bind_process (ask_unit (fail_request command PUSH_UNCERTAIN
                         CONCURRENCY_CONFLICT (exception_code e) (take 2000 (exception_text e))))
                       (\<lambda>_. raise_error e)))
              (ask_unit (cleanup_snapshot snapshot))))"

text \<open>The two \<^verbatim>\<open>except\<close> clauses of \<^verbatim>\<open>execute\<close>.\<close>

definition recovering ::
  "RecoveryCommand \<Rightarrow> (py_exception \<times> failure_tag, 'a) recovery_process \<Rightarrow> (py_exception, 'a) recovery_process" where
  "recovering command p = handle p (\<lambda>(e, failure_status, failure_class).
     case e of
       RevertConflict message paths \<Rightarrow>
         bind_process (ask_unit (conflict_request command paths message)) (\<lambda>_.
         bind_process (ask_unit (fail_request command REVERT_CONFLICT DETERMINISTIC_VALIDATION
             ''REVERT_CONFLICT'' message)) (\<lambda>_.
         raise_error e))
     | _ \<Rightarrow>
         bind_process (ask_unit (fail_request command failure_status failure_class
             (exception_code e) (take 2000 (exception_text e)))) (\<lambda>_.
         raise_error e))"

definition take_snapshot ::
  "RecoveryCommand \<Rightarrow> (py_exception \<times> failure_tag, SnapshotEvidence) recovery_process" where
  "take_snapshot command = under (REMOTE_STATE_CHANGED, CONCURRENCY_CONFLICT)
     (bind_process (ask_unit (transition_request command PREPARING_WORKSPACE SNAPSHOT
         ''recovery.snapshot_started''
         [(''expected_remote_head_sha'', JText (rc_expected_remote_head_sha command))])) (\<lambda>_.
      ask_snapshot (prepare_snapshot (rc_policy command) (rc_expected_remote_head_sha command))))"

definition build_revert ::
  "RecoveryCommand \<Rightarrow> SnapshotEvidence \<Rightarrow> (py_exception \<times> failure_tag, PreparedRevert) recovery_process" where
  "build_revert command snapshot =
     bind_process (under (REMOTE_STATE_CHANGED, CONCURRENCY_CONFLICT)
       (ask_unit (transition_request command CREATING_REVERT REVERT ''recovery.snapshot_verified''
         [(''commit_sha'', JText (se_commit_sha snapshot)),
          (''tree_sha'', JText (se_tree_sha snapshot))]))) (\<lambda>_.
     under (REVERT_CONFLICT, DETERMINISTIC_VALIDATION)
       (bind_process (ask_revert (prepare_revert (se_path snapshot)
            (rc_integration_commit_sha command))) (\<lambda>prepared.
        bind_process (ask_workspace (verify_workspace (se_path snapshot) (rc_scope command)
            (pv_changed_paths prepared))) (\<lambda>workspace.
        if we_tree_sha workspace \<noteq> pv_candidate_tree_sha prepared
        then raise_error (PyValueError ''RECOVERY_TREE_MISMATCH'')
        else return_value prepared))))"

definition test_revert ::
  "string \<Rightarrow> RecoveryCommand \<Rightarrow> SnapshotEvidence \<Rightarrow> PreparedRevert \<Rightarrow>
   (py_exception \<times> failure_tag, WorkspaceEvidence) recovery_process" where
  "test_revert temp_root command snapshot prepared = under (TEST_FAILED, DETERMINISTIC_VALIDATION)
     (let home = temp_root @ ''/home-'' @ uuid_text (rc_attempt_id command);
          temporary = temp_root @ ''/tmp-'' @ uuid_text (rc_attempt_id command)
      in bind_process (ask_unit (transition_request command RUNNING_TESTS TEST
            ''recovery.tests_started''
            [(''command_count'', JInt (int (length (rc_tests command))))])) (\<lambda>_.
         bind_process (ask_unit (make_directory temp_root)) (\<lambda>_.
         bind_process (ask_unit (make_directory home)) (\<lambda>_.
         bind_process (ask_unit (make_directory temporary)) (\<lambda>_.
         bind_process (ask_tests (run_tests (se_path snapshot) (rc_tests command) home temporary))
           (\<lambda>test_evidence.
         bind_process (ask_workspace (verify_workspace (se_path snapshot) (rc_scope command)
            (pv_changed_paths prepared))) (\<lambda>tested.
         if we_tree_sha tested \<noteq> pv_candidate_tree_sha prepared
         then raise_error (PyValueError ''RECOVERY_TEST_CHANGED_TREE'')
         else bind_process (ask_unit (tests_request command test_evidence)) (\<lambda>_.
           return_value tested))))))))"

definition commit_revert ::
  "RecoveryCommand \<Rightarrow> SnapshotEvidence \<Rightarrow> WorkspaceEvidence \<Rightarrow>
   (py_exception \<times> failure_tag, CandidateCommit) recovery_process" where
  "commit_revert command snapshot tested = under (COMMIT_FAILED, DETERMINISTIC_VALIDATION)
     (bind_process (ask_unit (transition_request command CREATING_COMMIT COMMIT
         ''recovery.commit_started'' [(''tree_sha'', JText (we_tree_sha tested))])) (\<lambda>_.
      bind_process (ask_commit (create_commit (se_path snapshot) (rc_policy command)
         (we_tree_sha tested) (rc_expected_remote_head_sha command) (rc_commit_message command)
         (rc_commit_timestamp command))) (\<lambda>candidate.
      bind_process (ask_unit (commit_request command candidate)) (\<lambda>_.
      return_value candidate))))"

text \<open>
  The push: its result is the evidence of the remote branch and the tag in force when
  \<^verbatim>\<open>_finish\<close> runs. An exception of the push other than \<^verbatim>\<open>TargetBranchAdvancedError\<close> is
  reconciled with the remote branch once.
\<close>

definition push_revert ::
  "RecoveryCommand \<Rightarrow> SnapshotEvidence \<Rightarrow> CandidateCommit \<Rightarrow>
   (py_exception \<times> failure_tag, RemoteEvidence \<times> failure_tag) recovery_process" where
  "push_revert command snapshot candidate =
     (let uncertain = (PUSH_UNCERTAIN, TRANSIENT_INFRASTRUCTURE);
          unverified = (REMOTE_VERIFICATION_FAILED, INTEGRITY);
          pushed = handle
            (bind_process (ask_unit (push_commit (se_path snapshot) (rc_policy command) candidate
                (rc_expected_remote_head_sha command))) (\<lambda>_. return_value None))
            (\<lambda>e. return_value (Some e))
      in bind_process (under uncertain (ask_unit (transition_request command PUSHING PUSH
            ''recovery.push_started'' [(''commit_sha'', JText (cc_commit_sha candidate))]))) (\<lambda>_.
         bind_process pushed (\<lambda>outcome.
           case outcome of
             Some (TargetBranchAdvancedError m) \<Rightarrow>
               raise_error (TargetBranchAdvancedError m, REMOTE_STATE_CHANGED, CONCURRENCY_CONFLICT)
           | Some e \<Rightarrow>
               bind_process (under uncertain (try_reconcile (se_path snapshot) command candidate))
                 (\<lambda>remote. case remote of
                    None \<Rightarrow> raise_error (e, uncertain)
                  | Some remote \<Rightarrow> return_value (remote, uncertain))
           | None \<Rightarrow>
               bind_process (under unverified (ask_remote (verify_remote (se_path snapshot)
                   (rc_policy command) candidate)))
                 (\<lambda>remote. return_value (remote, unverified)))))"

definition with_snapshot ::
  "string \<Rightarrow> RecoveryCommand \<Rightarrow> SnapshotEvidence \<Rightarrow> (py_exception \<times> failure_tag, unit) recovery_process" where
  "with_snapshot temp_root command snapshot =
     bind_process (build_revert command snapshot) (\<lambda>prepared.
     bind_process (test_revert temp_root command snapshot prepared) (\<lambda>tested.
     bind_process (commit_revert command snapshot tested) (\<lambda>candidate.
     bind_process (push_revert command snapshot candidate) (\<lambda>(remote, tag).
     under tag (finish command candidate remote)))))"

definition execute :: "string \<Rightarrow> uuid \<Rightarrow> string \<Rightarrow> (py_exception, unit) recovery_process" where
  "execute temp_root attempt_id worker_id =
     bind_process (ask_command (claim_request attempt_id worker_id)) (\<lambda>command.
       if rc_initial_status command = PUSH_UNCERTAIN then reconcile_only command
       else
         bind_process (recovering command (take_snapshot command)) (\<lambda>snapshot.
           finally_do (recovering command (with_snapshot temp_root command snapshot))
             (ask_unit (cleanup_snapshot snapshot))))"

end
