(* ===== verification/Recovery_System.thy ===== *)
theory Recovery_System
  imports Recovery_Processor
begin

text \<open>
  Workers that execute recoveries side by side on one database. \<open>recovery_step\<close> interleaves the
  workers one request at a time, with crashes and with the other services that write the same
  tables.
\<close>

section \<open>Answers of the right type\<close>

text \<open>
  A request that only a value of the right type answers: the process goes on with the value and
  raises otherwise.
\<close>

lemma wp_ask [wp_simps]:
  "wp allowed next (ask q view) st Q \<longleftrightarrow>
     allowed st q \<and> (\<forall>a. Q (answered view a) (next st q a))"
  by (simp add: ask_def)

lemma answered_unit [simp]:
  "answered (\<lambda>a. case a of Unit_Answer \<Rightarrow> Some () | _ \<Rightarrow> None) a = Inr u \<longleftrightarrow> a = Unit_Answer"
  by (cases a) (simp_all add: answered_def)

lemma answered_command [simp]:
  "answered (\<lambda>a. case a of Command_Answer c \<Rightarrow> Some c | _ \<Rightarrow> None) a = Inr c \<longleftrightarrow>
     a = Command_Answer c"
  by (cases a) (auto simp: answered_def)

lemma answered_snapshot [simp]:
  "answered (\<lambda>a. case a of Snapshot_Answer s \<Rightarrow> Some s | _ \<Rightarrow> None) a = Inr s \<longleftrightarrow>
     a = Snapshot_Answer s"
  by (cases a) (auto simp: answered_def)

section \<open>The system\<close>

definition unit_answer :: "unit store_result \<Rightarrow> answer \<times> store_state" where
  "unit_answer r = ((case fst r of Inl e \<Rightarrow> Raised e | Inr _ \<Rightarrow> Unit_Answer), snd r)"

text \<open>The answers of the store; the other requests go to the collaborators.\<close>

fun store_answer ::
  "hashing \<Rightarrow> draws \<Rightarrow> request \<Rightarrow> store_state \<Rightarrow> (answer \<times> store_state) option" where
  "store_answer hs dr (claim_request a w) s =
     (case claim_and_load hs dr a w s of
        (Inl e, s') \<Rightarrow> Some (Raised e, s')
      | (Inr c, s') \<Rightarrow> Some (Command_Answer c, s'))"
| "store_answer hs dr (transition_request c status stage event evidence) s =
     Some (unit_answer (transition hs dr c status stage event evidence s))"
| "store_answer hs dr (tests_request c tests) s = Some (unit_answer (record_tests hs dr c tests s))"
| "store_answer hs dr (commit_request c candidate) s =
     Some (unit_answer (record_commit hs dr c candidate s))"
| "store_answer hs dr (remote_request c remote) s =
     Some (unit_answer (record_remote dr c remote s))"
| "store_answer hs dr (conflict_request c paths message) s =
     Some (unit_answer (record_conflict hs dr c paths message s))"
| "store_answer hs dr (fail_request c status failure_class code message) s =
     Some (unit_answer (fail hs dr c status failure_class code message s))"
| "store_answer hs dr (complete_request c candidate remote) s =
     Some (unit_answer (complete hs dr c candidate remote s))"
| "store_answer hs dr _ s = None"

fun is_push :: "request \<Rightarrow> bool" where
  "is_push (push_commit repository policy candidate base) = True"
| "is_push _ = False"

record worker =
  wk_session :: store_session
  wk_attempt :: uuid
  wk_process :: "(py_exception, unit) recovery_process"

record recovery_system =
  sy_db :: recovery_db
  sy_workers :: "nat \<Rightarrow> worker"
  sy_pushed :: "uuid list"

definition new_session :: store_session where
  "new_session = \<lparr>ss_active_runs = (\<lambda>_. None), ss_broken = False\<rparr>"

text \<open>
  What the rest of the platform does to the tables meanwhile: it queues new attempts and changes
  anything that is not an attempt, a run, a commit or a verification.
\<close>

definition administered :: "recovery_db \<Rightarrow> recovery_db \<Rightarrow> bool" where
  "administered db db' \<longleftrightarrow>
     db_runs db' = db_runs db \<and> db_commits db' = db_commits db \<and> db_remotes db' = db_remotes db \<and>
     (\<exists>new. db_attempts db' = db_attempts db @ new \<and>
        (\<forall>a\<in>set new. at_status a = QUEUED \<and> at_push_started_at a = None \<and>
                      at_id a \<notin> at_id ` set (db_attempts db)) \<and> distinct (map at_id new))"

text \<open>
  One step: a worker starts an execution in its session, or its next request is answered by the
  store or by a collaborator, in any way; a push is noted in \<open>sy_pushed\<close> when it is asked for,
  whether or not it succeeds. A worker may crash at any moment. The answers of the store are the
  parameter \<open>answer_of\<close>.
\<close>

inductive recovery_step ::
  "(draws \<Rightarrow> request \<Rightarrow> store_state \<Rightarrow> (answer \<times> store_state) option) \<Rightarrow> string \<Rightarrow>
   recovery_system \<Rightarrow> recovery_system \<Rightarrow> bool" for answer_of temp_root where
  start: "sy_workers sys w = wk \<Longrightarrow> wk_process wk = Done r \<Longrightarrow>
    recovery_step answer_of temp_root sys (sys\<lparr>sy_workers := (sy_workers sys)(w :=
      wk\<lparr>wk_attempt := a, wk_process := execute temp_root a name\<rparr>)\<rparr>)"
| store: "sy_workers sys w = wk \<Longrightarrow> wk_process wk = Ask q k \<Longrightarrow>
    answer_of dr q (sy_db sys, wk_session wk) = Some (a, db', ss') \<Longrightarrow>
    dr_uuid dr 1 \<notin> rn_id ` set (db_runs (sy_db sys)) \<Longrightarrow>
    recovery_step answer_of temp_root sys (sys\<lparr>sy_db := db', sy_workers := (sy_workers sys)(w :=
      wk\<lparr>wk_session := ss', wk_process := k a\<rparr>)\<rparr>)"
| collaborator: "sy_workers sys w = wk \<Longrightarrow> wk_process wk = Ask q k \<Longrightarrow>
    (\<And>dr s. answer_of dr q s = None) \<Longrightarrow>
    recovery_step answer_of temp_root sys (sys\<lparr>sy_workers := (sy_workers sys)(w :=
      wk\<lparr>wk_process := k a\<rparr>),
      sy_pushed := (if is_push q then wk_attempt wk # sy_pushed sys else sy_pushed sys)\<rparr>)"
| crash: "sy_workers sys w = wk \<Longrightarrow>
    recovery_step answer_of temp_root sys (sys\<lparr>sy_workers := (sy_workers sys)(w :=
      wk\<lparr>wk_session := new_session, wk_process := Done (Inr ())\<rparr>)\<rparr>)"
| administration: "administered (sy_db sys) db' \<Longrightarrow>
    recovery_step answer_of temp_root sys (sys\<lparr>sy_db := db'\<rparr>)"

text \<open>The systems that start with queued attempts, no runs and idle workers.\<close>

definition initial_system :: "recovery_system \<Rightarrow> bool" where
  "initial_system sys \<longleftrightarrow>
     db_runs (sy_db sys) = [] \<and> db_commits (sy_db sys) = [] \<and> db_remotes (sy_db sys) = [] \<and>
     distinct (map at_id (db_attempts (sy_db sys))) \<and>
     (\<forall>a\<in>set (db_attempts (sy_db sys)). at_status a = QUEUED \<and> at_push_started_at a = None) \<and>
     (\<forall>w. wk_session (sy_workers sys w) = new_session \<and>
          wk_process (sy_workers sys w) = Done (Inr ())) \<and>
     sy_pushed sys = []"

inductive recovery_reachable ::
  "(draws \<Rightarrow> request \<Rightarrow> store_state \<Rightarrow> (answer \<times> store_state) option) \<Rightarrow> string \<Rightarrow>
   recovery_system \<Rightarrow> bool" for answer_of temp_root where
  initially: "initial_system sys \<Longrightarrow> recovery_reachable answer_of temp_root sys"
| later: "recovery_reachable answer_of temp_root sys \<Longrightarrow>
    recovery_step answer_of temp_root sys sys' \<Longrightarrow> recovery_reachable answer_of temp_root sys'"

end
