(* ===== verification/Recovery_Protocol.thy ===== *)
theory Recovery_Protocol
  imports Recovery_System
begin

text \<open>
  The protocol the processor keeps towards the store. The state of the automaton is the phase of
  the push (\<open>Fresh\<close>: not announced, \<open>Armed\<close>: announced and not yet made, \<open>Quiet\<close>: no push is
  allowed any more) and the hashes of the commit and of the remote evidence the store has
  accepted. \<open>execute_keeps_protocol\<close> is the one fact about the processor the system needs.
\<close>

type_synonym shas = "string \<times> string \<times> string"

definition candidate_shas :: "CandidateCommit \<Rightarrow> shas" where
  "candidate_shas c = (cc_commit_sha c, cc_tree_sha c, cc_parent_sha c)"

definition remote_shas :: "RemoteEvidence \<Rightarrow> shas" where
  "remote_shas r = (re_commit_sha r, re_tree_sha r, re_parent_sha r)"

datatype phase = Fresh | Armed | Quiet

type_synonym progress = "phase \<times> shas option \<times> shas option"

fun about :: "RecoveryCommand \<Rightarrow> request \<Rightarrow> bool" where
  "about c (claim_request a w) = False"
| "about c (transition_request c' status stage event evidence) = (c' = c)"
| "about c (tests_request c' tests) = (c' = c)"
| "about c (commit_request c' candidate) = (c' = c)"
| "about c (remote_request c' remote) = (c' = c)"
| "about c (conflict_request c' paths message) = (c' = c)"
| "about c (fail_request c' status failure_class code message) = (c' = c)"
| "about c (complete_request c' candidate remote) = (c' = c)"
| "about c _ = True"

fun arms :: "request \<Rightarrow> answer \<Rightarrow> bool" where
  "arms (transition_request c status stage event evidence) a \<longleftrightarrow> stage = PUSH \<and> a = Unit_Answer"
| "arms _ a \<longleftrightarrow> False"

fun permitted :: "progress \<Rightarrow> request \<Rightarrow> bool" where
  "permitted (ph, kc, kr) (transition_request c status stage event evidence) \<longleftrightarrow>
     status \<noteq> RECOVERED \<and> (stage = PUSH \<longrightarrow> ph = Fresh)"
| "permitted (ph, kc, kr) (fail_request c status failure_class code message) \<longleftrightarrow> status \<noteq> RECOVERED"
| "permitted (ph, kc, kr) (push_commit repository policy candidate base) \<longleftrightarrow> ph = Armed"
| "permitted (ph, kc, kr) (complete_request c candidate remote) \<longleftrightarrow>
     kc = Some (candidate_shas candidate) \<and> kr = Some (remote_shas remote)"
| "permitted _ _ \<longleftrightarrow> True"

definition allowed :: "RecoveryCommand \<Rightarrow> progress \<Rightarrow> request \<Rightarrow> bool" where
  "allowed c st q \<longleftrightarrow> about c q \<and> permitted st q"

fun progress :: "progress \<Rightarrow> request \<Rightarrow> answer \<Rightarrow> progress" where
  "progress (ph, kc, kr) (transition_request c status stage event evidence) a =
     ((if stage = PUSH then if a = Unit_Answer then Armed else Quiet else ph), kc, kr)"
| "progress (ph, kc, kr) (push_commit repository policy candidate base) a = (Quiet, kc, kr)"
| "progress (ph, kc, kr) (commit_request c candidate) a =
     (ph, (if a = Unit_Answer then Some (candidate_shas candidate) else kc), kr)"
| "progress (ph, kc, kr) (remote_request c remote) a =
     (ph, kc, (if a = Unit_Answer then Some (remote_shas remote) else kr))"
| "progress st _ a = st"

abbreviation keeps ::
  "RecoveryCommand \<Rightarrow> ('e, 'a) recovery_process \<Rightarrow> progress \<Rightarrow> ('e + 'a \<Rightarrow> progress \<Rightarrow> bool) \<Rightarrow> bool" where
  "keeps c \<equiv> wp (allowed c) progress"

text \<open>The failure status an exception carries is never \<^verbatim>\<open>RECOVERED\<close>.\<close>

definition tagged_or ::
  "('a \<Rightarrow> progress \<Rightarrow> bool) \<Rightarrow> ((py_exception \<times> failure_tag) + 'a) \<Rightarrow> progress \<Rightarrow> bool" where
  "tagged_or Q r st = (case r of Inl (e, fs, fc) \<Rightarrow> fs \<noteq> RECOVERED | Inr x \<Rightarrow> Q x st)"

definition value_or :: "('a \<Rightarrow> progress \<Rightarrow> bool) \<Rightarrow> ('e + 'a) \<Rightarrow> progress \<Rightarrow> bool" where
  "value_or Q r st = (case r of Inl e \<Rightarrow> True | Inr x \<Rightarrow> Q x st)"

lemma tagged_or_simps [simp]:
  "tagged_or Q (Inl (e, fs, fc)) st \<longleftrightarrow> fs \<noteq> RECOVERED" "tagged_or Q (Inr x) st \<longleftrightarrow> Q x st"
  by (simp_all add: tagged_or_def)

lemma value_or_simps [simp]: "value_or Q (Inl e) st" "value_or Q (Inr x) st \<longleftrightarrow> Q x st"
  by (simp_all add: value_or_def)

lemma permitted_failure: "fs \<noteq> RECOVERED \<Longrightarrow> permitted st (fail_request c fs fc code m)"
  by (cases st) simp

lemma progress_other [simp]:
  "progress st (fail_request c fs fc code m) a = st"
  "progress st (conflict_request c paths m) a = st"
  "progress st (cleanup_snapshot s) a = st"
  "progress st (prepare_snapshot po sha) a = st"
  "progress st (prepare_revert p sha) a = st"
  "progress st (verify_workspace p sc ps) a = st"
  "progress st (make_directory p) a = st"
  "progress st (run_tests p ts h t) a = st"
  "progress st (create_commit rp po t pa m tm) a = st"
  "progress st (verify_remote rp po ca) a = st"
  "progress st (tests_request c te) a = st"
  by (cases st; simp)+

lemma permitted_other [simp]:
  "permitted st (conflict_request c paths m)"
  "permitted st (cleanup_snapshot s)"
  "permitted st (prepare_snapshot po sha)"
  "permitted st (prepare_revert p sha)"
  "permitted st (verify_workspace p sc ps)"
  "permitted st (make_directory p)"
  "permitted st (run_tests p ts h t)"
  "permitted st (create_commit rp po t pa m tm)"
  "permitted st (verify_remote rp po ca)"
  "permitted st (tests_request c te)"
  "permitted st (commit_request c ca)"
  "permitted st (remote_request c rem)"
  by (cases st; simp)+

lemma keeps_ask:
  assumes "allowed c st q"
    and "\<And>a x. answered view a = Inr x \<Longrightarrow> Q x (progress st q a)"
  shows "keeps c (ask q view) st (value_or Q)"
  unfolding wp_ask
proof (intro conjI allI)
  fix a
  show "value_or Q (answered view a) (progress st q a)"
    using assms(2) [of a] by (cases "answered view a") simp_all
qed (rule assms(1))

lemma keeps_bind:
  assumes "keeps c p st (value_or Q)"
    and "\<And>x st'. Q x st' \<Longrightarrow> keeps c (f x) st' (value_or R)"
  shows "keeps c (bind_process p f) st (value_or R)"
  unfolding wp_bind
  by (rule wp_mono [OF assms(1)]) (auto simp: assms(2) value_or_def split: sum.splits)

lemma keeps_bind_tagged:
  assumes "keeps c p st (tagged_or Q)"
    and "\<And>x st'. Q x st' \<Longrightarrow> keeps c (f x) st' (tagged_or R)"
  shows "keeps c (bind_process p f) st (tagged_or R)"
  unfolding wp_bind
  by (rule wp_mono [OF assms(1)]) (auto simp: assms(2) tagged_or_def split: sum.splits)

lemma keeps_under:
  assumes "keeps c p st (value_or Q)" and "fst tag \<noteq> RECOVERED"
  shows "keeps c (under tag p) st (tagged_or Q)"
  unfolding wp_under
  using assms(2)
  by (intro wp_mono [OF assms(1)]) (cases tag; auto simp: value_or_def split: sum.splits)

lemma keeps_raise: "keeps c (raise_error e) st (value_or Q)"
  by (simp add: wp_raise)

lemma keeps_return: "Q x st \<Longrightarrow> keeps c (return_value x) st (value_or Q)"
  by (simp add: wp_return)

lemma keeps_if:
  "(b \<Longrightarrow> keeps c p st R) \<Longrightarrow> (\<not> b \<Longrightarrow> keeps c q st R) \<Longrightarrow> keeps c (if b then p else q) st R"
  by simp

text \<open>A request that leaves the state alone.\<close>

lemma keeps_still:
  assumes "about c q" and "permitted st q" and "\<And>a. progress st q a = st"
  shows "keeps c (ask q view) st (value_or (\<lambda>_ st'. st' = st))"
  by (rule keeps_ask) (simp_all add: assms allowed_def)

lemma keeps_recovering:
  assumes "keeps c p st (tagged_or Q)"
  shows "keeps c (recovering c p) st (value_or Q)"
  unfolding recovering_def wp_handle
  by (rule wp_mono [OF assms])
     (auto simp: tagged_or_def wp_simps allowed_def permitted_failure ask_unit_def
           split: sum.splits py_exception.splits)

section \<open>The parts of the processor\<close>

lemmas ask_defs = ask_unit_def ask_command_def ask_snapshot_def ask_revert_def ask_workspace_def
  ask_tests_def ask_commit_def ask_remote_def

lemma keeps_transition:
  assumes "status \<noteq> RECOVERED" and "stage \<noteq> PUSH"
  shows "keeps c (ask (transition_request c status stage event evidence) view) st
    (value_or (\<lambda>_ st'. st' = st))"
  using assms by (intro keeps_still) (cases st; simp)+

lemma keeps_finish:
  assumes "st = (ph, Some (candidate_shas candidate), kr)"
  shows "keeps c (finish c candidate remote) st (value_or (\<lambda>_ _. True))"
proof -
  have "keeps c (ask_unit (remote_request c remote)) st
      (value_or (\<lambda>_ st'. st' = (ph, Some (candidate_shas candidate), Some (remote_shas remote))))"
    unfolding ask_unit_def by (rule keeps_ask) (auto simp: allowed_def assms)
  then have "keeps c (bind_process (ask_unit (remote_request c remote))
      (\<lambda>_. ask_unit (complete_request c candidate remote))) st (value_or (\<lambda>_ _. True))"
  proof (rule keeps_bind)
    fix x st'
    assume "st' = (ph, Some (candidate_shas candidate), Some (remote_shas remote))"
    then show "keeps c (ask_unit (complete_request c candidate remote)) st' (value_or (\<lambda>_ _. True))"
      unfolding ask_unit_def by (intro keeps_ask) (simp_all add: allowed_def)
  qed
  then show ?thesis
    unfolding finish_def ask_unit_def
    by (intro keeps_bind [OF keeps_transition]) simp_all
qed

lemma keeps_try_reconcile:
  "keeps c (try_reconcile repository c candidate) st (value_or (\<lambda>_ st'. st' = st))"
  by (simp add: try_reconcile_def ask_remote_def wp_simps allowed_def split: sum.splits)


abbreviation unchanged :: "progress \<Rightarrow> 'a \<Rightarrow> progress \<Rightarrow> bool" where
  "unchanged st \<equiv> \<lambda>_ st'. st' = st"

lemma keeps_plain:
  assumes "about c q" and "permitted st q" and "\<And>a. progress st q a = st" and "st' = st"
  shows "keeps c (ask q view) st' (value_or (unchanged st))"
  using keeps_still [OF assms(1-3)] assms(4) by simp

lemma keeps_cleanup:
  assumes "keeps c p st (value_or (\<lambda>_ _. True))"
  shows "keeps c (finally_do p (ask_unit (cleanup_snapshot s))) st (value_or (\<lambda>_ _. True))"
  unfolding wp_finally
  by (rule wp_mono [OF assms])
     (auto simp: ask_unit_def wp_ask allowed_def value_or_def split: sum.splits)

lemma keeps_reconcile_only:
  assumes "\<And>candidate. rc_existing_candidate c = Some candidate \<Longrightarrow> st = (Quiet, Some (candidate_shas candidate), None)"
  shows "keeps c (reconcile_only c) st (value_or (\<lambda>_ _. True))"
proof (cases "rc_existing_candidate c")
  case None
  then show ?thesis by (simp add: reconcile_only_def keeps_raise)
next
  case (Some candidate)
  have body: "keeps c (handle (bind_process (ask_remote (verify_remote (se_path s) (rc_policy c) candidate))
        (\<lambda>remote. finish c candidate remote))
      (\<lambda>e. bind_process (ask_unit (fail_request c PUSH_UNCERTAIN CONCURRENCY_CONFLICT
              (exception_code e) (take 2000 (exception_text e)))) (\<lambda>_. raise_error e)))
      st (value_or (\<lambda>_ _. True))" for s :: SnapshotEvidence
    unfolding wp_handle
  proof (rule wp_mono)
    show "keeps c (bind_process (ask_remote (verify_remote (se_path s) (rc_policy c) candidate))
        (\<lambda>remote. finish c candidate remote)) st (value_or (\<lambda>_ _. True))"
      unfolding ask_remote_def using assms [OF Some]
      by (intro keeps_bind [OF keeps_still keeps_finish]) simp_all
  next
    fix r :: "py_exception + unit" and st'
    show "case r of Inl e \<Rightarrow> keeps c (bind_process (ask_unit (fail_request c PUSH_UNCERTAIN
            CONCURRENCY_CONFLICT (exception_code e) (take 2000 (exception_text e))))
            (\<lambda>_. raise_error e)) st' (value_or (\<lambda>_ _. True))
        | Inr x \<Rightarrow> value_or (\<lambda>_ _. True) (Inr x) st'"
      by (auto simp: ask_unit_def permitted_failure split: sum.splits
          intro!: keeps_bind [OF keeps_still] keeps_raise)
  qed
  show ?thesis
    unfolding reconcile_only_def Some option.case ask_snapshot_def
    by (intro keeps_bind [OF keeps_still]) (auto intro!: keeps_cleanup body)
qed

lemma keeps_take_snapshot: "keeps c (take_snapshot c) st (tagged_or (unchanged st))"
  unfolding take_snapshot_def ask_defs
  by (intro keeps_under keeps_bind [OF keeps_transition] keeps_plain) simp_all

lemma keeps_build_revert: "keeps c (build_revert c s) st (tagged_or (unchanged st))"
  unfolding build_revert_def ask_defs
  by (intro keeps_bind_tagged [OF keeps_under [OF keeps_transition]] keeps_under
        keeps_bind [OF keeps_plain] keeps_if keeps_raise keeps_return) simp_all

lemma keeps_test_revert: "keeps c (test_revert temp_root c s p) st (tagged_or (unchanged st))"
  unfolding test_revert_def ask_defs Let_def
  by (intro keeps_under keeps_bind [OF keeps_transition] keeps_bind [OF keeps_plain]
        keeps_if keeps_raise keeps_return) simp_all

lemma keeps_commit_revert:
  "keeps c (commit_revert c s t) (ph, kc, kr)
     (tagged_or (\<lambda>candidate st'. st' = (ph, Some (candidate_shas candidate), kr)))"
  unfolding commit_revert_def
  by (auto simp: wp_simps ask_defs allowed_def split: sum.splits)

text \<open>The push leaves the phase quiet whatever happens.\<close>

lemma keeps_push_revert:
  "keeps c (push_revert c s candidate) (Fresh, kc, kr)
     (tagged_or (\<lambda>(remote, tag) st'. fst tag \<noteq> RECOVERED \<and> (\<exists>ph. st' = (ph, kc, kr))))"
  unfolding push_revert_def Let_def
  by (auto simp: wp_simps ask_defs allowed_def try_reconcile_def
      split: sum.splits option.splits py_exception.splits)

lemma keeps_with_snapshot:
  "keeps c (with_snapshot temp_root c s) (Fresh, None, None) (tagged_or (\<lambda>_ _. True))"
proof -
  have push: "keeps c (bind_process (push_revert c s candidate)
        (\<lambda>(remote, tag). under tag (finish c candidate remote)))
      (Fresh, Some (candidate_shas candidate), None) (tagged_or (\<lambda>_ _. True))" for candidate
    by (rule keeps_bind_tagged [OF keeps_push_revert])
       (auto intro!: keeps_under keeps_finish)
  show ?thesis
    unfolding with_snapshot_def
    by (rule keeps_bind_tagged [OF keeps_build_revert], rule keeps_bind_tagged [where Q = "unchanged (Fresh, None, None)"],
        use keeps_test_revert in blast, rule keeps_bind_tagged [where Q = "\<lambda>candidate st'. st' = (Fresh, Some (candidate_shas candidate), None)"])
       (use keeps_commit_revert push in \<open>auto\<close>)
qed


section \<open>The processor\<close>

definition continuation :: "string \<Rightarrow> RecoveryCommand \<Rightarrow> (py_exception, unit) recovery_process" where
  "continuation temp_root command =
     (if rc_initial_status command = PUSH_UNCERTAIN then reconcile_only command
      else
        bind_process (recovering command (take_snapshot command)) (\<lambda>snapshot.
          finally_do (recovering command (with_snapshot temp_root command snapshot))
            (ask_unit (cleanup_snapshot snapshot))))"

lemma execute_claims:
  "execute temp_root a w = Ask (claim_request a w) (\<lambda>ans.
     case answered (\<lambda>a. case a of Command_Answer c \<Rightarrow> Some c | _ \<Rightarrow> None) ans of
       Inl e \<Rightarrow> Done (Inl e) | Inr c \<Rightarrow> continuation temp_root c)"
  by (simp add: execute_def ask_command_def ask_def continuation_def cong: sum.case_cong)

definition start_progress :: "RecoveryCommand \<Rightarrow> progress" where
  "start_progress c =
     (if rc_initial_status c = PUSH_UNCERTAIN
      then (Quiet, map_option candidate_shas (rc_existing_candidate c), None)
      else (Fresh, None, None))"

theorem execute_keeps_protocol:
  "keeps c (continuation temp_root c) (start_progress c) (value_or (\<lambda>_ _. True))"
proof (cases "rc_initial_status c = PUSH_UNCERTAIN")
  case True
  then show ?thesis
    by (simp add: continuation_def start_progress_def keeps_reconcile_only)
next
  case False
  have "keeps c (recovering c (take_snapshot c)) (Fresh, None, None)
      (value_or (unchanged (Fresh, None, None)))"
    by (rule keeps_recovering [OF keeps_take_snapshot])
  then have "keeps c (bind_process (recovering c (take_snapshot c)) (\<lambda>snapshot.
      finally_do (recovering c (with_snapshot temp_root c snapshot))
        (ask_unit (cleanup_snapshot snapshot)))) (Fresh, None, None) (value_or (\<lambda>_ _. True))"
    by (rule keeps_bind) (auto intro!: keeps_cleanup keeps_recovering keeps_with_snapshot)
  with False show ?thesis by (simp add: continuation_def start_progress_def)
qed

end
