(* ===== verification/Recovery_Views.thy ===== *)
theory Recovery_Views
  imports Recovery_Protocol
begin

text \<open>
  What the safety of recovery depends on in the tables: which runs of an attempt are open,
  whether its push was announced, and which commits and verifications are on record. The
  operations of the store only move these views forward (\<open>runs_le\<close>, \<open>log_le\<close>) or open the next
  run (\<open>claimed\<close>).
\<close>

section \<open>Views of the tables\<close>

definition run_le :: "RecoveryAttemptRunModel \<Rightarrow> RecoveryAttemptRunModel \<Rightarrow> bool" where
  "run_le r r' \<longleftrightarrow>
     rn_id r' = rn_id r \<and> rn_recovery_attempt_id r' = rn_recovery_attempt_id r \<and>
     rn_run_number r' = rn_run_number r \<and>
     (rn_completed_at r \<noteq> None \<longrightarrow> rn_completed_at r' \<noteq> None)"

definition runs_le :: "recovery_db \<Rightarrow> recovery_db \<Rightarrow> bool" where
  "runs_le db db' \<longleftrightarrow> list_all2 run_le (db_runs db) (db_runs db')"

definition unpushed :: "uuid \<Rightarrow> recovery_db \<Rightarrow> bool" where
  "unpushed a db \<longleftrightarrow> (case get_row at_id a (db_attempts db) of
     None \<Rightarrow> True | Some x \<Rightarrow> at_push_started_at x = None)"

definition same_push :: "recovery_db \<Rightarrow> recovery_db \<Rightarrow> bool" where
  "same_push db db' \<longleftrightarrow> (\<forall>a. unpushed a db' = unpushed a db)"

definition open_run :: "uuid \<Rightarrow> recovery_db \<Rightarrow> bool" where
  "open_run rid db \<longleftrightarrow> (\<exists>r\<in>set (db_runs db). rn_id r = rid \<and> rn_completed_at r = None)"

definition run_of :: "uuid \<Rightarrow> uuid \<Rightarrow> recovery_db \<Rightarrow> bool" where
  "run_of a rid db \<longleftrightarrow> (\<exists>r\<in>set (db_runs db). rn_id r = rid \<and> rn_recovery_attempt_id r = a)"

text \<open>Run numbers identify the runs of an attempt, and all but the last are completed.\<close>

definition ordered_runs :: "RecoveryAttemptRunModel \<Rightarrow> RecoveryAttemptRunModel \<Rightarrow> bool" where
  "ordered_runs r q \<longleftrightarrow> rn_recovery_attempt_id r = rn_recovery_attempt_id q \<longrightarrow>
     (rn_run_number r = rn_run_number q \<longrightarrow> rn_id r = rn_id q) \<and>
     (rn_run_number r < rn_run_number q \<longrightarrow> rn_completed_at r \<noteq> None)"

definition runs_ok :: "recovery_db \<Rightarrow> bool" where
  "runs_ok db \<longleftrightarrow> distinct (map rn_id (db_runs db)) \<and>
     (\<forall>r\<in>set (db_runs db). \<forall>q\<in>set (db_runs db). ordered_runs r q)"

text \<open>A claim closes every run of the attempt and opens a new one.\<close>

definition claimed :: "uuid \<Rightarrow> uuid \<Rightarrow> recovery_db \<Rightarrow> recovery_db \<Rightarrow> bool" where
  "claimed a rid db db' \<longleftrightarrow>
     (\<exists>rs r. db_runs db' = rs @ [r] \<and> list_all2 run_le (db_runs db) rs \<and>
        rn_id r = rid \<and> rn_recovery_attempt_id r = a \<and> rn_completed_at r = None \<and>
        (\<forall>q\<in>set rs. rn_recovery_attempt_id q = a \<longrightarrow>
           rn_completed_at q \<noteq> None \<and> rn_run_number q < rn_run_number r))"

definition recovered :: "uuid \<Rightarrow> recovery_db \<Rightarrow> bool" where
  "recovered a db \<longleftrightarrow> (\<exists>x\<in>set (db_attempts db). at_id x = a \<and> at_status x = RECOVERED)"

definition commit_shas :: "RecoveryCommitModel \<Rightarrow> shas" where
  "commit_shas c = (cm_commit_sha c, cm_tree_sha c, cm_parent_commit_sha c)"

definition verification_shas :: "RecoveryRemoteVerificationModel \<Rightarrow> shas" where
  "verification_shas v = (vr_remote_commit_sha v, vr_remote_tree_sha v, vr_remote_parent_sha v)"

definition has_commit :: "uuid \<Rightarrow> shas \<Rightarrow> recovery_db \<Rightarrow> bool" where
  "has_commit a s db \<longleftrightarrow> (\<exists>c. recovery_commit a db = Some c \<and> commit_shas c = s)"

definition has_remote :: "uuid \<Rightarrow> shas \<Rightarrow> recovery_db \<Rightarrow> bool" where
  "has_remote a s db \<longleftrightarrow>
     (\<exists>c v. recovery_commit a db = Some c \<and>
        get_row vr_recovery_commit_id (cm_id c) (db_remotes db) = Some v \<and> verification_shas v = s)"

definition log_le :: "recovery_db \<Rightarrow> recovery_db \<Rightarrow> bool" where
  "log_le db db' \<longleftrightarrow>
     prefix (db_commits db) (db_commits db') \<and> prefix (db_remotes db) (db_remotes db')"

lemma run_le_refl: "run_le r r"
  by (simp add: run_le_def)

lemma run_le_trans: "run_le p q \<Longrightarrow> run_le q r \<Longrightarrow> run_le p r"
  by (simp add: run_le_def)

lemma runs_le_refl: "runs_le db db"
  by (simp add: runs_le_def list_all2_same run_le_refl)

lemma run_le_listD:
  assumes "list_all2 run_le xs ys" and "y \<in> set ys"
  shows "\<exists>x\<in>set xs. run_le x y"
  using assms by (metis in_set_conv_nth list_all2_conv_all_nth)

lemma run_le_ids:
  "list_all2 run_le xs ys \<Longrightarrow> map rn_id ys = map rn_id xs"
  by (induction rule: list_all2_induct) (auto simp: run_le_def)

lemma open_run_back: "runs_le db db' \<Longrightarrow> open_run rid db' \<Longrightarrow> open_run rid db"
  unfolding runs_le_def open_run_def by (metis run_le_def run_le_listD)

lemma run_of_list_forward:
  assumes "list_all2 run_le xs ys" and "x \<in> set xs"
  shows "\<exists>y\<in>set ys. run_le x y"
  using assms by (metis in_set_conv_nth list_all2_conv_all_nth)

lemma run_of_le: "runs_le db db' \<Longrightarrow> run_of a rid db \<Longrightarrow> run_of a rid db'"
  unfolding runs_le_def run_of_def by (metis run_le_def run_of_list_forward)

lemma runs_ok_ids_eq:
  "runs_ok db \<Longrightarrow> r \<in> set (db_runs db) \<Longrightarrow> q \<in> set (db_runs db) \<Longrightarrow> rn_id r = rn_id q \<Longrightarrow> r = q"
  unfolding runs_ok_def by (elim conjE) (rule distinct_key_eq)

lemma ordered_runs_le: "ordered_runs x y \<Longrightarrow> run_le x r \<Longrightarrow> run_le y q \<Longrightarrow> ordered_runs r q"
  by (auto simp: ordered_runs_def run_le_def)

lemma runs_ok_list:
  assumes ok: "runs_ok db" and le: "list_all2 run_le (db_runs db) rs"
    and "r \<in> set rs" "q \<in> set rs"
  shows "ordered_runs r q"
proof -
  obtain x y where "x \<in> set (db_runs db)" "y \<in> set (db_runs db)"
    and le: "run_le x r" "run_le y q"
    using run_le_listD [OF le] assms(3,4) by blast
  with ok have "ordered_runs x y" unfolding runs_ok_def by blast
  then show ?thesis using le by (rule ordered_runs_le)
qed

lemma runs_ok_le:
  assumes "runs_ok db" and "runs_le db db'"
  shows "runs_ok db'"
proof -
  have le: "list_all2 run_le (db_runs db) (db_runs db')" using assms(2) by (simp add: runs_le_def)
  have "distinct (map rn_id (db_runs db'))"
    unfolding run_le_ids [OF le] using assms(1) by (simp add: runs_ok_def)
  moreover have "\<forall>r\<in>set (db_runs db'). \<forall>q\<in>set (db_runs db'). ordered_runs r q"
    using runs_ok_list [OF assms(1) le] by blast
  ultimately show ?thesis by (simp add: runs_ok_def)
qed

lemma claimed_runs_ok:
  assumes ok: "runs_ok db" and cl: "claimed a rid db db'" and fresh: "rid \<notin> rn_id ` set (db_runs db)"
  shows "runs_ok db'"
proof -
  obtain rs r where rs: "db_runs db' = rs @ [r]" "list_all2 run_le (db_runs db) rs"
    "rn_id r = rid" "rn_recovery_attempt_id r = a" "rn_completed_at r = None"
    and old: "\<forall>q\<in>set rs. rn_recovery_attempt_id q = a \<longrightarrow>
       rn_completed_at q \<noteq> None \<and> rn_run_number q < rn_run_number r"
    using cl unfolding claimed_def by blast
  have ids: "map rn_id rs = map rn_id (db_runs db)" by (rule run_le_ids [OF rs(2)])
  have "distinct (map rn_id rs)" unfolding ids using ok by (simp add: runs_ok_def)
  moreover have "rid \<notin> set (map rn_id rs)" unfolding ids using fresh by simp
  ultimately have "distinct (map rn_id (db_runs db'))" by (simp add: rs)
  moreover have "ordered_runs x y" if "x \<in> set (db_runs db')" "y \<in> set (db_runs db')" for x y
  proof -
    have "ordered_runs x r" if "x \<in> set rs" for x
      using old that rs(4) by (auto simp: ordered_runs_def)
    moreover have "ordered_runs r y" if "y \<in> set rs" for y
      using old that rs(4) by (fastforce simp: ordered_runs_def)
    moreover have "ordered_runs r r" by (simp add: ordered_runs_def)
    ultimately show ?thesis using that runs_ok_list [OF ok rs(2)] rs(1) by auto
  qed
  ultimately show ?thesis by (simp add: runs_ok_def)
qed

lemma claimed_open:
  assumes ok: "runs_ok db" and cl: "claimed a rid db db'"
    and "run_of b rid' db" and "open_run rid' db'" and "rid' \<noteq> rid"
  shows "b \<noteq> a \<and> open_run rid' db"
proof -
  obtain rs r where rs: "db_runs db' = rs @ [r]" "list_all2 run_le (db_runs db) rs"
    "rn_id r = rid" "\<forall>q\<in>set rs. rn_recovery_attempt_id q = a \<longrightarrow> rn_completed_at q \<noteq> None"
    using cl unfolding claimed_def by blast
  obtain q where q: "q \<in> set rs" "rn_id q = rid'" "rn_completed_at q = None"
    using assms(4,5) rs(1,3) unfolding open_run_def by auto
  obtain x where x: "x \<in> set (db_runs db)" "run_le x q" using run_le_listD [OF rs(2) q(1)] by blast
  obtain y where y: "y \<in> set (db_runs db)" "rn_id y = rid'" "rn_recovery_attempt_id y = b"
    using assms(3) unfolding run_of_def by blast
  have "x = y" using runs_ok_ids_eq [OF ok x(1) y(1)] x(2) q(2) y(2) by (simp add: run_le_def)
  then have "rn_recovery_attempt_id q = b" "rn_completed_at x = None"
    using x(2) y(3) q(3) by (auto simp: run_le_def)
  then show ?thesis using rs(4) q x y \<open>x = y\<close> unfolding open_run_def by auto
qed

lemma claimed_run_of:
  assumes "claimed a rid db db'"
  shows "run_of a rid db' \<and> (\<forall>b rid'. run_of b rid' db \<longrightarrow> run_of b rid' db')"
proof -
  obtain rs r where rs: "db_runs db' = rs @ [r]" "list_all2 run_le (db_runs db) rs"
    "rn_id r = rid" "rn_recovery_attempt_id r = a"
    using assms unfolding claimed_def by blast
  have "run_of b rid' db'" if "run_of b rid' db" for b rid'
    using that run_of_list_forward [OF rs(2)] unfolding run_of_def rs(1) by (fastforce simp: run_le_def)
  moreover have "run_of a rid db'" using rs by (simp add: run_of_def)
  ultimately show ?thesis by blast
qed

text \<open>Two open runs of one attempt are the same run.\<close>

lemma open_run_unique:
  assumes ok: "runs_ok db" and "run_of a rid db" "open_run rid db" "run_of a rid' db" "open_run rid' db"
  shows "rid = rid'"
proof -
  obtain r where r: "r \<in> set (db_runs db)" "rn_id r = rid" "rn_recovery_attempt_id r = a"
    "rn_completed_at r = None"
    using assms(2,3) runs_ok_ids_eq [OF ok] unfolding run_of_def open_run_def by metis
  obtain q where q: "q \<in> set (db_runs db)" "rn_id q = rid'" "rn_recovery_attempt_id q = a"
    "rn_completed_at q = None"
    using assms(4,5) runs_ok_ids_eq [OF ok] unfolding run_of_def open_run_def by metis
  have "ordered_runs r q" "ordered_runs q r" using ok r q unfolding runs_ok_def by blast+
  with r q show ?thesis by (simp add: ordered_runs_def)
qed

lemma has_commit_mono: "log_le db db' \<Longrightarrow> has_commit a s db \<Longrightarrow> has_commit a s db'"
  unfolding log_le_def has_commit_def recovery_commit_def by (metis get_row_prefix)

lemma has_remote_mono: "log_le db db' \<Longrightarrow> has_remote a s db \<Longrightarrow> has_remote a s db'"
  unfolding log_le_def has_remote_def recovery_commit_def by (metis get_row_prefix)

end
