(* ===== verification/Recovery_Fencing.thy ===== *)
theory Recovery_Fencing
  imports Recovery_Views
begin

text \<open>
  The contract of the attempt store, as the locale \<open>attempt_store\<close>, and what follows from it
  and from the protocol of the processor for every interleaving of workers: an attempt is pushed
  at most once, at most one worker passes the fence of an attempt, and a recovered attempt has
  its commit and the matching remote evidence on record.

  The ghost state \<open>gh\<close> gives every worker that runs a recovery its command and its progress in
  the protocol.
\<close>

fun is_claim :: "request \<Rightarrow> bool" where
  "is_claim (claim_request a w) = True"
| "is_claim _ = False"

fun for_store :: "request \<Rightarrow> bool" where
  "for_store (claim_request a w) = True"
| "for_store (transition_request c status stage event evidence) = True"
| "for_store (tests_request c tests) = True"
| "for_store (commit_request c candidate) = True"
| "for_store (remote_request c remote) = True"
| "for_store (conflict_request c paths message) = True"
| "for_store (fail_request c status failure_class code message) = True"
| "for_store (complete_request c candidate remote) = True"
| "for_store _ = False"

type_synonym ghost = "nat \<Rightarrow> (RecoveryCommand \<times> progress) option"

definition armed :: "ghost \<Rightarrow> uuid \<Rightarrow> nat set" where
  "armed gh a = {w. \<exists>c k. gh w = Some (c, Armed, k) \<and> rc_attempt_id c = a}"

definition pushes :: "recovery_system \<Rightarrow> uuid \<Rightarrow> nat" where
  "pushes sys a = count_list (sy_pushed sys) a"

definition active :: "recovery_system \<Rightarrow> nat \<Rightarrow> uuid \<rightharpoonup> uuid" where
  "active sys w = ss_active_runs (wk_session (sy_workers sys w))"

definition worker_ok :: "string \<Rightarrow> recovery_db \<Rightarrow> worker \<Rightarrow> (RecoveryCommand \<times> progress) option \<Rightarrow> bool" where
  "worker_ok temp_root db wk g = (case g of
     None \<Rightarrow> (\<exists>r. wk_process wk = Done r) \<or>
             (\<exists>name. wk_process wk = execute temp_root (wk_attempt wk) name)
   | Some (c, st) \<Rightarrow>
       rc_attempt_id c = wk_attempt wk \<and> keeps c (wk_process wk) st (\<lambda>_ _. True) \<and>
       (fst st = Fresh \<longrightarrow> (\<exists>rid. ss_active_runs (wk_session wk) (wk_attempt wk) = Some rid \<and>
          (open_run rid db \<longrightarrow> unpushed (wk_attempt wk) db))))"

definition sessions_ok :: "recovery_system \<Rightarrow> bool" where
  "sessions_ok sys \<longleftrightarrow>
     (\<forall>w a rid. active sys w a = Some rid \<longrightarrow> run_of a rid (sy_db sys)) \<and>
     (\<forall>w w' a a' rid. w \<noteq> w' \<longrightarrow> active sys w a = Some rid \<longrightarrow> active sys w' a' \<noteq> Some rid)"

definition pushes_ok :: "ghost \<Rightarrow> recovery_system \<Rightarrow> bool" where
  "pushes_ok gh sys \<longleftrightarrow>
     (\<forall>a. (unpushed a (sy_db sys) \<longrightarrow> pushes sys a = 0 \<and> armed gh a = {}) \<and>
          (pushes sys a = 0 \<and> (\<exists>w. armed gh a \<subseteq> {w}) \<or> pushes sys a = 1 \<and> armed gh a = {}))"

definition known :: "(RecoveryCommand \<times> progress) option \<Rightarrow> recovery_db \<Rightarrow> bool" where
  "known g db \<longleftrightarrow> (case g of
     None \<Rightarrow> True
   | Some (c, ph, kc, kr) \<Rightarrow>
       (case kc of None \<Rightarrow> True | Some s \<Rightarrow> has_commit (rc_attempt_id c) s db) \<and>
       (case kr of None \<Rightarrow> True | Some s \<Rightarrow> has_remote (rc_attempt_id c) s db))"

definition proven :: "uuid \<Rightarrow> recovery_db \<Rightarrow> bool" where
  "proven a db \<longleftrightarrow> (\<exists>s. has_commit a s db \<and> has_remote a s db)"

definition evidence_ok :: "ghost \<Rightarrow> recovery_db \<Rightarrow> bool" where
  "evidence_ok gh db \<longleftrightarrow> (\<forall>w. known (gh w) db) \<and> (\<forall>a. recovered a db \<longrightarrow> proven a db)"

definition recovery_inv :: "string \<Rightarrow> ghost \<Rightarrow> recovery_system \<Rightarrow> bool" where
  "recovery_inv temp_root gh sys \<longleftrightarrow>
     runs_ok (sy_db sys) \<and> sessions_ok sys \<and> pushes_ok gh sys \<and> evidence_ok gh (sy_db sys) \<and>
     (\<forall>w. worker_ok temp_root (sy_db sys) (sy_workers sys w) (gh w))"

lemma armed_upd:
  "armed (gh(w := g)) a =
     (armed gh a - {w}) \<union> (case g of Some (c, Armed, k) \<Rightarrow> if rc_attempt_id c = a then {w} else {} | _ \<Rightarrow> {})"
  by (auto simp: armed_def split: option.splits phase.splits prod.splits if_splits)

text \<open>The views a worker's assertion is about may move forward under it.\<close>

lemma worker_ok_step:
  assumes "worker_ok temp_root db wk g"
    and "\<And>rid. ss_active_runs (wk_session wk) (wk_attempt wk) = Some rid \<Longrightarrow> open_run rid db' \<Longrightarrow>
           open_run rid db \<and> (unpushed (wk_attempt wk) db \<longrightarrow> unpushed (wk_attempt wk) db')"
  shows "worker_ok temp_root db' wk g"
  using assms unfolding worker_ok_def by (fastforce split: option.splits prod.splits)

lemma known_None [simp]: "known None db"
  by (simp add: known_def)

lemma known_same: "snd st' = snd st \<Longrightarrow> known (Some (c, st')) db = known (Some (c, st)) db"
  by (cases st; cases st') (simp add: known_def)

lemma known_mono: "log_le db db' \<Longrightarrow> known g db \<Longrightarrow> known g db'"
  unfolding known_def
  by (auto split: option.splits prod.splits intro: has_commit_mono has_remote_mono)

lemma provenI: "has_commit a s db \<Longrightarrow> has_remote a s db \<Longrightarrow> proven a db"
  unfolding proven_def by blast

lemma proven_mono: "log_le db db' \<Longrightarrow> proven a db \<Longrightarrow> proven a db'"
  unfolding proven_def by (blast intro: has_commit_mono has_remote_mono)

lemma evidence_ok_step:
  assumes "evidence_ok gh db" and log: "log_le db db'"
    and "\<And>a. recovered a db' \<Longrightarrow> recovered a db \<or> proven a db'"
    and "known g db'"
  shows "evidence_ok (gh(w := g)) db'"
  unfolding evidence_ok_def
proof (intro conjI allI impI)
  fix a assume "recovered a db'"
  then show "proven a db'"
    using assms(1) assms(3) [of a] proven_mono [OF log] unfolding evidence_ok_def by blast
next
  fix v
  show "known ((gh(w := g)) v) db'"
    using assms(1,4) known_mono [OF log] unfolding evidence_ok_def by simp
qed

lemma recovery_invD:
  assumes "recovery_inv temp_root gh sys"
  shows "runs_ok (sy_db sys)" "sessions_ok sys" "pushes_ok gh sys" "evidence_ok gh (sy_db sys)"
    "worker_ok temp_root (sy_db sys) (sy_workers sys w) (gh w)"
  using assms by (simp_all add: recovery_inv_def)

lemma recovery_invI:
  assumes "runs_ok (sy_db sys)" "sessions_ok sys" "pushes_ok gh sys" "evidence_ok gh (sy_db sys)"
    "\<And>w. worker_ok temp_root (sy_db sys) (sy_workers sys w) (gh w)"
  shows "recovery_inv temp_root gh sys"
  using assms by (simp add: recovery_inv_def)

lemma log_le_refl: "log_le db db"
  by (simp add: log_le_def)

lemma pushes_ok_shrink:
  assumes "pushes_ok gh sys" and "\<And>a. armed gh' a \<subseteq> armed gh a"
    and "sy_pushed sys' = sy_pushed sys" and "\<And>a. unpushed a (sy_db sys') = unpushed a (sy_db sys)"
  shows "pushes_ok gh' sys'"
  unfolding pushes_ok_def
proof (intro allI)
  fix a
  have p: "pushes sys' a = pushes sys a" using assms(3) by (simp add: pushes_def)
  from assms(1) have a: "(unpushed a (sy_db sys) \<longrightarrow> pushes sys a = 0 \<and> armed gh a = {}) \<and>
      (pushes sys a = 0 \<and> (\<exists>w. armed gh a \<subseteq> {w}) \<or> pushes sys a = 1 \<and> armed gh a = {})"
    unfolding pushes_ok_def by blast
  show "(unpushed a (sy_db sys') \<longrightarrow> pushes sys' a = 0 \<and> armed gh' a = {}) \<and>
      (pushes sys' a = 0 \<and> (\<exists>w. armed gh' a \<subseteq> {w}) \<or> pushes sys' a = 1 \<and> armed gh' a = {})"
    using a assms(2) [of a] assms(4) [of a] p by (metis order_trans subset_empty)
qed


section \<open>The contract\<close>

locale attempt_store =
  fixes answer_of :: "draws \<Rightarrow> request \<Rightarrow> store_state \<Rightarrow> (answer \<times> store_state) option"
  assumes always_answered: "for_store q \<Longrightarrow> answer_of dr q s \<noteq> None"
    and plain_step: "answer_of dr q (db, ss) = Some (ans, db', ss') \<Longrightarrow> runs_ok db \<Longrightarrow>
      \<not> is_claim q \<Longrightarrow> \<not> arms q ans \<Longrightarrow>
      runs_le db db' \<and> same_push db db' \<and> ss_active_runs ss' = ss_active_runs ss"
    and arming_step: "answer_of dr (transition_request c status PUSH event evidence) (db, ss) =
        Some (Unit_Answer, db', ss') \<Longrightarrow> runs_ok db \<Longrightarrow>
      runs_le db db' \<and> ss_active_runs ss' = ss_active_runs ss \<and>
      (\<exists>rid. ss_active_runs ss (rc_attempt_id c) = Some rid \<and> open_run rid db) \<and>
      \<not> unpushed (rc_attempt_id c) db' \<and>
      (\<forall>b. b \<noteq> rc_attempt_id c \<longrightarrow> unpushed b db' = unpushed b db)"
    and claim_step: "answer_of dr (claim_request a name) (db, ss) = Some (ans, db', ss') \<Longrightarrow>
      runs_ok db \<Longrightarrow>
      same_push db db' \<and>
      (runs_le db db' \<and> ss_active_runs ss' = ss_active_runs ss \<and>
         (\<forall>c. ans \<noteq> Command_Answer c) \<or>
       claimed a (dr_uuid dr 1) db db' \<and>
         ss_active_runs ss' = (ss_active_runs ss)(a \<mapsto> dr_uuid dr 1) \<and>
         (\<forall>c. ans = Command_Answer c \<longrightarrow> rc_attempt_id c = a \<and>
            (rc_initial_status c \<noteq> PUSH_UNCERTAIN \<longrightarrow> unpushed a db) \<and>
            (\<forall>candidate. rc_existing_candidate c = Some candidate \<longrightarrow>
               has_commit a (candidate_shas candidate) db')))"
    and log_step: "answer_of dr q (db, ss) = Some (ans, db', ss') \<Longrightarrow> log_le db db'"
    and recovered_step: "answer_of dr q (db, ss) = Some (ans, db', ss') \<Longrightarrow> permitted st q \<Longrightarrow>
      recovered b db' \<Longrightarrow>
      recovered b db \<or> (\<exists>c candidate remote. q = complete_request c candidate remote \<and>
        b = rc_attempt_id c \<and> candidate_shas candidate = remote_shas remote)"
    and commit_step: "answer_of dr (commit_request c candidate) (db, ss) =
        Some (Unit_Answer, db', ss') \<Longrightarrow> has_commit (rc_attempt_id c) (candidate_shas candidate) db'"
    and remote_step: "answer_of dr (remote_request c remote) (db, ss) =
        Some (Unit_Answer, db', ss') \<Longrightarrow> has_remote (rc_attempt_id c) (remote_shas remote) db'"
begin

lemma active_upd:
  "active (sys\<lparr>sy_db := db, sy_workers := (sy_workers sys)(w := wk)\<rparr>) v =
     (if v = w then ss_active_runs (wk_session wk) else active sys v)"
  "active (sys\<lparr>sy_workers := (sy_workers sys)(w := wk)\<rparr>) v =
     (if v = w then ss_active_runs (wk_session wk) else active sys v)"
  "active (sys\<lparr>sy_workers := (sy_workers sys)(w := wk), sy_pushed := ps\<rparr>) v =
     (if v = w then ss_active_runs (wk_session wk) else active sys v)"
  "active (sys\<lparr>sy_db := db\<rparr>) v = active sys v"
  by (simp_all add: active_def)

text \<open>A worker starts or crashes.\<close>

lemma reset_inv:
  assumes inv: "recovery_inv temp_root gh sys"
    and wk: "worker_ok temp_root (sy_db sys) wk None"
    and act: "ss_active_runs (wk_session wk) = active sys w \<or> ss_active_runs (wk_session wk) = (\<lambda>_. None)"
  shows "recovery_inv temp_root (gh(w := None)) (sys\<lparr>sy_workers := (sy_workers sys)(w := wk)\<rparr>)"
proof -
  let ?sys' = "sys\<lparr>sy_workers := (sy_workers sys)(w := wk)\<rparr>"
  have le: "\<And>v a rid. active ?sys' v a = Some rid \<Longrightarrow> active sys v a = Some rid"
    using act by (auto simp: active_upd split: if_splits)
  show ?thesis
  proof (rule recovery_invI)
    show "sessions_ok ?sys'"
      using recovery_invD(2) [OF inv] le unfolding sessions_ok_def by simp blast
    show "pushes_ok (gh(w := None)) ?sys'"
      by (rule pushes_ok_shrink [OF recovery_invD(3) [OF inv]]) (simp_all add: armed_upd)
    show "evidence_ok (gh(w := None)) (sy_db ?sys')"
      using evidence_ok_step [OF recovery_invD(4) [OF inv] log_le_refl] by simp
    show "worker_ok temp_root (sy_db ?sys') (sy_workers ?sys' v) ((gh(w := None)) v)" for v
      using recovery_invD(5) [OF inv] wk by simp
  qed (use recovery_invD(1) [OF inv] in simp)
qed

text \<open>Another service writes the tables.\<close>

lemma administration_inv:
  assumes inv: "recovery_inv temp_root gh sys" and adm: "administered (sy_db sys) db'"
  shows "recovery_inv temp_root gh (sys\<lparr>sy_db := db'\<rparr>)"
proof -
  let ?db = "sy_db sys"
  obtain new where new: "db_attempts db' = db_attempts ?db @ new"
    "\<forall>a\<in>set new. at_status a = QUEUED \<and> at_push_started_at a = None"
    and same: "db_runs db' = db_runs ?db" "db_commits db' = db_commits ?db"
      "db_remotes db' = db_remotes ?db"
    using adm unfolding administered_def by blast
  have un: "unpushed a db' = unpushed a ?db" for a
    using new get_row_SomeD [of at_id a new]
    by (auto simp: unpushed_def get_row_append split: option.split)
  have op: "open_run rid db' = open_run rid ?db" "run_of a rid db' = run_of a rid ?db" for a rid
    using same by (simp_all add: open_run_def run_of_def)
  have rec: "recovered a db' \<Longrightarrow> recovered a ?db" for a using new by (auto simp: recovered_def)
  show ?thesis
  proof (rule recovery_invI)
    show "runs_ok (sy_db (sys\<lparr>sy_db := db'\<rparr>))"
      using recovery_invD(1) [OF inv] same by (simp add: runs_ok_def)
    show "sessions_ok (sys\<lparr>sy_db := db'\<rparr>)"
      using recovery_invD(2) [OF inv] op by (simp add: sessions_ok_def active_upd)
    show "pushes_ok gh (sys\<lparr>sy_db := db'\<rparr>)"
      by (rule pushes_ok_shrink [OF recovery_invD(3) [OF inv]]) (simp_all add: un)
    show "evidence_ok gh (sy_db (sys\<lparr>sy_db := db'\<rparr>))"
    proof -
      have log: "log_le ?db db'" using same by (simp add: log_le_def)
      have "known (gh 0) db'"
        using recovery_invD(4) [OF inv] known_mono [OF log] by (simp add: evidence_ok_def)
      from evidence_ok_step [OF recovery_invD(4) [OF inv] log _ this, of 0] rec show ?thesis
        by auto
    qed
    show "worker_ok temp_root (sy_db (sys\<lparr>sy_db := db'\<rparr>)) (sy_workers (sys\<lparr>sy_db := db'\<rparr>) w) (gh w)" for w
    proof -
      have "worker_ok temp_root db' (sy_workers sys w) (gh w)"
        by (rule worker_ok_step [OF recovery_invD(5) [OF inv]]) (simp add: un op)
      then show ?thesis by simp
    qed
  qed
qed

text \<open>
  A request other than the claim is answered: the worker runs a command, the request is about
  it, and the progress follows the protocol.
\<close>

lemma running_request:
  assumes "worker_ok temp_root db wk g" and "wk_process wk = Ask q k" and "\<not> is_claim q"
  shows "\<exists>c st. g = Some (c, st) \<and> rc_attempt_id c = wk_attempt wk \<and> about c q \<and> permitted st q \<and>
    (\<forall>a. keeps c (k a) (progress st q a) (\<lambda>_ _. True))"
proof (cases g)
  case None
  then have "is_claim q" using assms(1,2) by (auto simp: worker_ok_def execute_claims)
  with assms(3) show ?thesis by simp
next
  case (Some p)
  then show ?thesis using assms(1,2) by (cases p) (auto simp: worker_ok_def allowed_def)
qed

lemma claiming_request:
  assumes "worker_ok temp_root db wk g" and "wk_process wk = Ask (claim_request a name) k"
  shows "g = None \<and> a = wk_attempt wk \<and>
    k = (\<lambda>ans. case answered (\<lambda>a. case a of Command_Answer c \<Rightarrow> Some c | _ \<Rightarrow> None) ans of
       Inl e \<Rightarrow> Done (Inl e) | Inr c \<Rightarrow> continuation temp_root c)"
  using assms by (cases g) (auto simp: worker_ok_def execute_claims allowed_def)

lemma fresh_after: "fst (progress st q a) = Fresh \<Longrightarrow> fst st = Fresh"
  by (cases st; cases q) (auto split: if_splits)

lemma armed_after: "fst (progress st q a) = Armed \<Longrightarrow> \<not> arms q a \<Longrightarrow> fst st = Armed"
  by (cases st; cases q) (auto split: if_splits)

lemma armed_kept:
  assumes "gh w = Some (c, st)" and "fst st' = Armed \<Longrightarrow> fst st = Armed"
  shows "armed (gh(w := Some (c, st'))) a \<subseteq> armed gh a"
  using assms by (cases st; cases st') (auto simp: armed_upd armed_def split: phase.splits if_splits)

lemma collaborator_inv:
  assumes inv: "recovery_inv temp_root gh sys" and ask: "wk_process (sy_workers sys w) = Ask q k"
    and none: "\<And>dr s. answer_of dr q s = None"
  shows "\<exists>gh'. recovery_inv temp_root gh' (sys\<lparr>sy_workers := (sy_workers sys)(w :=
      (sy_workers sys w)\<lparr>wk_process := k a\<rparr>),
      sy_pushed := (if is_push q then wk_attempt (sy_workers sys w) # sy_pushed sys else sy_pushed sys)\<rparr>)"
proof -
  let ?wk = "sy_workers sys w"
  have nostore: "\<not> for_store q" using always_answered none by blast
  then have nc: "\<not> is_claim q" by (cases q) simp_all
  from running_request [OF recovery_invD(5) [OF inv] ask nc] obtain c st where
    g: "gh w = Some (c, st)" "rc_attempt_id c = wk_attempt ?wk" "about c q" "permitted st q"
    "keeps c (k a) (progress st q a) (\<lambda>_ _. True)" by blast
  let ?st' = "progress st q a"
  let ?gh' = "gh(w := Some (c, ?st'))"
  let ?sys' = "sys\<lparr>sy_workers := (sy_workers sys)(w := ?wk\<lparr>wk_process := k a\<rparr>),
      sy_pushed := (if is_push q then wk_attempt ?wk # sy_pushed sys else sy_pushed sys)\<rparr>"
  have st: "snd ?st' = snd st" and noarm: "\<not> arms q a"
    using nostore by (cases st; cases q; simp)+
  have act: "active ?sys' = active sys"
    by (rule ext) (simp add: active_upd active_def)
  show ?thesis
  proof (intro exI recovery_invI)
    show "runs_ok (sy_db ?sys')" using recovery_invD(1) [OF inv] by simp
    show "sessions_ok ?sys'"
      using recovery_invD(2) [OF inv] by (simp add: sessions_ok_def act)
    have "known (Some (c, ?st')) (sy_db sys)"
      using recovery_invD(4) [OF inv] g(1) known_same [OF st] unfolding evidence_ok_def by metis
    from evidence_ok_step [OF recovery_invD(4) [OF inv] log_le_refl _ this]
    show "evidence_ok ?gh' (sy_db ?sys')" by simp
    show "worker_ok temp_root (sy_db ?sys') (sy_workers ?sys' v) (?gh' v)" for v
    proof (cases "v = w")
      case True
      then show ?thesis
        using recovery_invD(5) [OF inv, of w] g fresh_after [of st q a]
        by (auto simp: worker_ok_def)
    qed (use recovery_invD(5) [OF inv] in simp)
    show "pushes_ok ?gh' ?sys'"
    proof (cases "is_push q")
      case False
      have "armed ?gh' b \<subseteq> armed gh b" for b
        by (rule armed_kept [where gh = gh and w = w, OF g(1)]) (rule armed_after [OF _ noarm])
      then show ?thesis
        by (rule pushes_ok_shrink [OF recovery_invD(3) [OF inv]]) (use False in simp_all)
    next
      case True
      then have "fst st = Armed" "fst ?st' = Quiet" using g(4) by (cases st; cases q; simp)+
      then have w: "w \<in> armed gh (rc_attempt_id c)" and
        shrink: "armed ?gh' b = armed gh b - {w}" for b
        using g(1) by (cases st; cases ?st'; auto simp: armed_def)+
      have p: "pushes ?sys' b = pushes sys b + (if b = rc_attempt_id c then 1 else 0)" for b
        using True g(2) by (simp add: pushes_def)
      show ?thesis
        unfolding pushes_ok_def
      proof (intro allI)
        fix b
        from recovery_invD(3) [OF inv]
        have b: "(unpushed b (sy_db sys) \<longrightarrow> pushes sys b = 0 \<and> armed gh b = {}) \<and>
          (pushes sys b = 0 \<and> (\<exists>w. armed gh b \<subseteq> {w}) \<or> pushes sys b = 1 \<and> armed gh b = {})"
          unfolding pushes_ok_def by blast
        show "(unpushed b (sy_db ?sys') \<longrightarrow> pushes ?sys' b = 0 \<and> armed ?gh' b = {}) \<and>
          (pushes ?sys' b = 0 \<and> (\<exists>w. armed ?gh' b \<subseteq> {w}) \<or> pushes ?sys' b = 1 \<and> armed ?gh' b = {})"
        proof (cases "b = rc_attempt_id c")
          case True
          with b w have "\<not> unpushed b (sy_db sys)" "pushes sys b = 0" "armed gh b \<subseteq> {w}" by auto
          then show ?thesis using True by (simp add: p shrink)
        next
          case False
          then show ?thesis using b by (simp add: p shrink) blast
        qed
      qed
    qed
  qed
qed

text \<open>The store answers a request that neither claims nor announces the push.\<close>

lemma worker_ok_continue:
  assumes "worker_ok temp_root db wk (Some (c, st))"
    and "keeps c p st' (\<lambda>_ _. True)"
    and "ss_active_runs ss = ss_active_runs (wk_session wk)"
    and "fst st' = Fresh \<Longrightarrow> fst st = Fresh"
    and "\<And>rid. open_run rid db' \<Longrightarrow> open_run rid db"
    and "fst st' = Fresh \<Longrightarrow> unpushed (wk_attempt wk) db \<Longrightarrow> unpushed (wk_attempt wk) db'"
  shows "worker_ok temp_root db' (wk\<lparr>wk_session := ss, wk_process := p\<rparr>) (Some (c, st'))"
  using assms unfolding worker_ok_def by fastforce

lemma known_after:
  assumes step: "answer_of dr q (db, ss) = Some (ans, db', ss')" and "about c q"
    and "known (Some (c, st)) db"
  shows "known (Some (c, progress st q ans)) db'"
proof -
  have old: "known (Some (c, st)) db'" using known_mono [OF log_step [OF step] assms(3)] .
  show ?thesis
  proof (cases q)
    case (commit_request c' candidate)
    then show ?thesis
      using old assms(2) step commit_step [of dr c candidate db ss db' ss']
      by (cases st) (auto simp: known_def)
  next
    case (remote_request c' remote)
    then show ?thesis
      using old assms(2) step remote_step [of dr c remote db ss db' ss']
      by (cases st) (auto simp: known_def)
  qed (use old known_same [of "progress st q ans" st c db'] in \<open>(cases st; simp)+\<close>)
qed

lemma evidence_after:
  assumes inv: "recovery_inv temp_root gh sys"
    and g: "gh w = Some (c, st)" "about c q" "permitted st q"
    and step: "answer_of dr q (sy_db sys, ss) = Some (ans, db', ss')"
  shows "evidence_ok (gh(w := Some (c, progress st q ans))) db'"
proof (rule evidence_ok_step [OF recovery_invD(4) [OF inv] log_step [OF step]])
  have old: "known (Some (c, st)) (sy_db sys)"
    using recovery_invD(4) [OF inv] g(1) unfolding evidence_ok_def by metis
  then show "known (Some (c, progress st q ans)) db'" by (rule known_after [OF step g(2)])
  fix b
  assume "recovered b db'"
  from recovered_step [OF step g(3) this] show "recovered b (sy_db sys) \<or> proven b db'"
  proof (elim disjE exE conjE)
    fix c' candidate remote
    assume q: "q = complete_request c' candidate remote" "b = rc_attempt_id c'"
      "candidate_shas candidate = remote_shas remote"
    then have "proven b (sy_db sys)"
      using old g(2,3) by (cases st) (auto simp: known_def intro: provenI)
    then show ?thesis using proven_mono [OF log_step [OF step]] by blast
  qed simp
qed

lemma sessions_ok_le:
  assumes "sessions_ok sys" and "runs_le (sy_db sys) (sy_db sys')" and "active sys' = active sys"
  shows "sessions_ok sys'"
  using assms run_of_le unfolding sessions_ok_def by metis

lemma active_same:
  assumes "ss_active_runs ss = active sys w"
  shows "active (sys\<lparr>sy_db := db, sy_workers := (sy_workers sys)(w := wk\<lparr>wk_session := ss, wk_process := p\<rparr>)\<rparr>)
    = active sys"
  using assms by (intro ext) (simp add: active_upd)

lemma plain_inv:
  assumes inv: "recovery_inv temp_root gh sys" and ask: "wk_process (sy_workers sys w) = Ask q k"
    and step: "answer_of dr q (sy_db sys, wk_session (sy_workers sys w)) = Some (ans, db', ss')"
    and plain: "\<not> is_claim q" "\<not> arms q ans"
  shows "\<exists>gh'. recovery_inv temp_root gh' (sys\<lparr>sy_db := db', sy_workers := (sy_workers sys)(w :=
      (sy_workers sys w)\<lparr>wk_session := ss', wk_process := k ans\<rparr>)\<rparr>)"
proof -
  let ?wk = "sy_workers sys w"
  let ?sys' = "sys\<lparr>sy_db := db', sy_workers := (sy_workers sys)(w :=
      ?wk\<lparr>wk_session := ss', wk_process := k ans\<rparr>)\<rparr>"
  from running_request [OF recovery_invD(5) [OF inv] ask plain(1)] obtain c st where
    g: "gh w = Some (c, st)" "rc_attempt_id c = wk_attempt ?wk" "about c q" "permitted st q"
    "keeps c (k ans) (progress st q ans) (\<lambda>_ _. True)" by blast
  have le: "runs_le (sy_db sys) db'" and un: "\<And>b. unpushed b db' = unpushed b (sy_db sys)"
    and act: "ss_active_runs ss' = active sys w"
    using plain_step [OF step recovery_invD(1) [OF inv] plain]
    by (simp_all add: same_push_def active_def)
  let ?gh' = "gh(w := Some (c, progress st q ans))"
  show ?thesis
  proof (intro exI recovery_invI)
    show "runs_ok (sy_db ?sys')" using runs_ok_le [OF recovery_invD(1) [OF inv] le] by simp
    show "sessions_ok ?sys'"
      by (rule sessions_ok_le [OF recovery_invD(2) [OF inv]]) (simp_all add: le active_same [OF act])
    show "evidence_ok ?gh' (sy_db ?sys')"
      using evidence_after [OF inv g(1,3,4) step] by simp
    have "armed ?gh' b \<subseteq> armed gh b" for b
      by (rule armed_kept [where gh = gh and w = w, OF g(1)]) (rule armed_after [OF _ plain(2)])
    then show "pushes_ok ?gh' ?sys'"
      by (rule pushes_ok_shrink [OF recovery_invD(3) [OF inv]]) (simp_all add: un)
    show "worker_ok temp_root (sy_db ?sys') (sy_workers ?sys' v) (?gh' v)" for v
    proof (cases "v = w")
      case True
      have "worker_ok temp_root (sy_db sys) ?wk (Some (c, st))"
        using recovery_invD(5) [OF inv, of w] g(1) by simp
      from worker_ok_continue [OF this g(5), of ss' db'] act un open_run_back [OF le] fresh_after True
      show ?thesis by (simp add: active_def)
    next
      case False
      have "worker_ok temp_root db' (sy_workers sys v) (gh v)"
        by (rule worker_ok_step [OF recovery_invD(5) [OF inv]]) (simp add: un open_run_back [OF le])
      with False show ?thesis by simp
    qed
  qed
qed

text \<open>The store accepts the announcement of the push: the worker is the only one armed.\<close>

lemma arming_inv:
  assumes inv: "recovery_inv temp_root gh sys"
    and ask: "wk_process (sy_workers sys w) = Ask (transition_request c status PUSH event evidence) k"
    and step: "answer_of dr (transition_request c status PUSH event evidence)
      (sy_db sys, wk_session (sy_workers sys w)) = Some (Unit_Answer, db', ss')"
  shows "\<exists>gh'. recovery_inv temp_root gh' (sys\<lparr>sy_db := db', sy_workers := (sy_workers sys)(w :=
      (sy_workers sys w)\<lparr>wk_session := ss', wk_process := k Unit_Answer\<rparr>)\<rparr>)"
proof -
  let ?q = "transition_request c status PUSH event evidence"
  let ?wk = "sy_workers sys w"
  let ?a = "rc_attempt_id c"
  let ?sys' = "sys\<lparr>sy_db := db', sy_workers := (sy_workers sys)(w :=
      ?wk\<lparr>wk_session := ss', wk_process := k Unit_Answer\<rparr>)\<rparr>"
  have nc: "\<not> is_claim ?q" by simp
  from running_request [OF recovery_invD(5) [OF inv] ask nc] obtain c' st where
    g': "gh w = Some (c', st)" "rc_attempt_id c' = wk_attempt ?wk" "about c' ?q" "permitted st ?q"
    "keeps c' (k Unit_Answer) (progress st ?q Unit_Answer) (\<lambda>_ _. True)" by blast
  then have "c' = c" by simp
  note g = g' [unfolded this]
  have fresh: "fst st = Fresh" using g(4) by (cases st) simp
  let ?st' = "progress st ?q Unit_Answer"
  let ?gh' = "gh(w := Some (c, ?st'))"
  have st': "fst ?st' = Armed" by (cases st) simp
  obtain rid where le: "runs_le (sy_db sys) db'" and act: "ss_active_runs ss' = active sys w"
    and rid: "active sys w ?a = Some rid" "open_run rid (sy_db sys)"
    and pushed: "\<not> unpushed ?a db'"
    and others: "\<And>b. b \<noteq> ?a \<Longrightarrow> unpushed b db' = unpushed b (sy_db sys)"
    using arming_step [OF step recovery_invD(1) [OF inv]] by (auto simp: active_def)
  have un: "unpushed ?a (sy_db sys)"
    using recovery_invD(5) [OF inv, of w] g fresh rid by (auto simp: worker_ok_def active_def)
  have zero: "pushes sys ?a = 0" "armed gh ?a = {}"
    using recovery_invD(3) [OF inv] un unfolding pushes_ok_def by blast+
  have armed': "armed ?gh' b = (if b = ?a then {w} else armed gh b)" for b
    using zero(2) st' fresh g(1) by (cases st; cases ?st'; auto simp: armed_def split: if_splits)
  show ?thesis
  proof (intro exI recovery_invI)
    show "runs_ok (sy_db ?sys')" using runs_ok_le [OF recovery_invD(1) [OF inv] le] by simp
    show "sessions_ok ?sys'"
      by (rule sessions_ok_le [OF recovery_invD(2) [OF inv]]) (simp_all add: le active_same [OF act])
    show "evidence_ok ?gh' (sy_db ?sys')"
      using evidence_after [OF inv g(1,3,4) step] by simp
    show "pushes_ok ?gh' ?sys'"
      unfolding pushes_ok_def
    proof (intro allI)
      fix b
      have p: "pushes ?sys' x = pushes sys x" for x by (simp add: pushes_def)
      from recovery_invD(3) [OF inv]
      have b: "(unpushed b (sy_db sys) \<longrightarrow> pushes sys b = 0 \<and> armed gh b = {}) \<and>
        (pushes sys b = 0 \<and> (\<exists>w. armed gh b \<subseteq> {w}) \<or> pushes sys b = 1 \<and> armed gh b = {})"
        unfolding pushes_ok_def by blast
      show "(unpushed b (sy_db ?sys') \<longrightarrow> pushes ?sys' b = 0 \<and> armed ?gh' b = {}) \<and>
        (pushes ?sys' b = 0 \<and> (\<exists>w. armed ?gh' b \<subseteq> {w}) \<or> pushes ?sys' b = 1 \<and> armed ?gh' b = {})"
        using b pushed others [of b] zero by (cases "b = ?a") (auto simp: p armed')
    qed
    show "worker_ok temp_root (sy_db ?sys') (sy_workers ?sys' v) (?gh' v)" for v
    proof (cases "v = w")
      case True
      have "worker_ok temp_root (sy_db sys) ?wk (Some (c, st))"
        using recovery_invD(5) [OF inv, of w] g(1) by simp
      from worker_ok_continue [OF this g(5), of ss' db'] act st' open_run_back [OF le] True
      show ?thesis by (simp add: active_def)
    next
      case False
      have "worker_ok temp_root db' (sy_workers sys v) (gh v)"
      proof (rule worker_ok_step [OF recovery_invD(5) [OF inv]])
        fix rid'
        assume r': "ss_active_runs (wk_session (sy_workers sys v)) (wk_attempt (sy_workers sys v)) =
            Some rid'" "open_run rid' db'"
        then have op: "open_run rid' (sy_db sys)" using open_run_back [OF le] by blast
        have av: "active sys v (wk_attempt (sy_workers sys v)) = Some rid'" using r' by (simp add: active_def)
        have "wk_attempt (sy_workers sys v) \<noteq> ?a"
        proof
          assume "wk_attempt (sy_workers sys v) = ?a"
          with av rid recovery_invD(2) [OF inv]
          have "run_of ?a rid' (sy_db sys)" "run_of ?a rid (sy_db sys)"
            unfolding sessions_ok_def by metis+
          with op rid have "rid = rid'"
            using open_run_unique [OF recovery_invD(1) [OF inv]] by blast
          with av rid False recovery_invD(2) [OF inv] show False
            unfolding sessions_ok_def by metis
        qed
        with op others show "open_run rid' (sy_db sys) \<and>
            (unpushed (wk_attempt (sy_workers sys v)) (sy_db sys) \<longrightarrow>
             unpushed (wk_attempt (sy_workers sys v)) db')" by simp
      qed
      with False show ?thesis by simp
    qed
  qed
qed

text \<open>A claim, successful or not.\<close>

lemma claim_inv:
  assumes inv: "recovery_inv temp_root gh sys"
    and ask: "wk_process (sy_workers sys w) = Ask (claim_request a name) k"
    and step: "answer_of dr (claim_request a name) (sy_db sys, wk_session (sy_workers sys w)) =
      Some (ans, db', ss')"
    and fresh: "dr_uuid dr 1 \<notin> rn_id ` set (db_runs (sy_db sys))"
  shows "\<exists>gh'. recovery_inv temp_root gh' (sys\<lparr>sy_db := db', sy_workers := (sy_workers sys)(w :=
      (sy_workers sys w)\<lparr>wk_session := ss', wk_process := k ans\<rparr>)\<rparr>)"
proof -
  let ?wk = "sy_workers sys w"
  let ?rid = "dr_uuid dr 1"
  let ?wk' = "?wk\<lparr>wk_session := ss', wk_process := k ans\<rparr>"
  let ?sys' = "sys\<lparr>sy_db := db', sy_workers := (sy_workers sys)(w := ?wk')\<rparr>"
  let ?g = "case ans of Command_Answer c \<Rightarrow> Some (c, start_progress c) | _ \<Rightarrow> None"
  let ?gh' = "gh(w := ?g)"
  note cl = claiming_request [OF recovery_invD(5) [OF inv] ask]
  have un: "\<And>b. unpushed b db' = unpushed b (sy_db sys)"
    and cases: "runs_le (sy_db sys) db' \<and> ss_active_runs ss' = active sys w \<and>
         (\<forall>c. ans \<noteq> Command_Answer c) \<or>
       claimed a ?rid (sy_db sys) db' \<and> ss_active_runs ss' = (active sys w)(a \<mapsto> ?rid) \<and>
         (\<forall>c. ans = Command_Answer c \<longrightarrow> rc_attempt_id c = a \<and>
            (rc_initial_status c \<noteq> PUSH_UNCERTAIN \<longrightarrow> unpushed a (sy_db sys)) \<and>
            (\<forall>candidate. rc_existing_candidate c = Some candidate \<longrightarrow>
               has_commit a (candidate_shas candidate) db'))"
    using claim_step [OF step recovery_invD(1) [OF inv]]
    by (simp_all add: same_push_def active_def)
  have notnew: "active sys v b = Some r \<Longrightarrow> r \<noteq> ?rid \<and> run_of b r (sy_db sys)" for v b r
  proof -
    assume "active sys v b = Some r"
    then have r: "run_of b r (sy_db sys)"
      using recovery_invD(2) [OF inv] unfolding sessions_ok_def by blast
    then have "r \<in> rn_id ` set (db_runs (sy_db sys))" by (auto simp: run_of_def)
    with r fresh show ?thesis by blast
  qed
  have noarm: "armed ?gh' b \<subseteq> armed gh b" for b
    by (auto simp: armed_upd start_progress_def split: answer.splits)
  have rec: "recovered b db' \<Longrightarrow> recovered b (sy_db sys)" for b
    using recovered_step [OF step, of "(Quiet, None, None)"] by auto
  show ?thesis
  proof (intro exI recovery_invI)
    show "runs_ok (sy_db ?sys')"
      using cases runs_ok_le [OF recovery_invD(1) [OF inv]]
        claimed_runs_ok [OF recovery_invD(1) [OF inv] _ fresh] by auto
    show "sessions_ok ?sys'"
      using cases
    proof (elim disjE conjE)
      assume "runs_le (sy_db sys) db'" "ss_active_runs ss' = active sys w"
      then show ?thesis
        by (intro sessions_ok_le [OF recovery_invD(2) [OF inv]]) (simp_all add: active_same)
    next
      assume c: "claimed a ?rid (sy_db sys) db'" "ss_active_runs ss' = (active sys w)(a \<mapsto> ?rid)"
      have act: "active ?sys' v b = Some r \<Longrightarrow>
          active sys v b = Some r \<or> v = w \<and> b = a \<and> r = ?rid" for v b r
        using c(2) by (auto simp: active_upd split: if_splits)
      show ?thesis
        unfolding sessions_ok_def
      proof (intro conjI allI impI)
        fix v b r assume "active ?sys' v b = Some r"
        from act [OF this] show "run_of b r (sy_db ?sys')"
          using notnew claimed_run_of [OF c(1)] by auto
      next
        fix v v' b b' r assume "v \<noteq> v'" "active ?sys' v b = Some r"
        then show "active ?sys' v' b' \<noteq> Some r"
          using act notnew recovery_invD(2) [OF inv] unfolding sessions_ok_def by metis
      qed
    qed
    have "known ?g db'"
      using cases by (auto simp: known_def start_progress_def split: answer.splits option.splits)
    then show "evidence_ok ?gh' (sy_db ?sys')"
      using evidence_ok_step [OF recovery_invD(4) [OF inv] log_step [OF step]] rec by simp
    show "pushes_ok ?gh' ?sys'"
      by (rule pushes_ok_shrink [OF recovery_invD(3) [OF inv] noarm]) (simp_all add: un)
    show "worker_ok temp_root (sy_db ?sys') (sy_workers ?sys' v) (?gh' v)" for v
    proof (cases "v = w")
      case True
      have "worker_ok temp_root db' ?wk' ?g"
      proof (cases "\<exists>c. ans = Command_Answer c")
        case False
        then show ?thesis using cl
          by (cases ans) (auto simp: worker_ok_def answered_def)
      next
        case True
        then obtain c where c: "ans = Command_Answer c" ..
        then have k: "k ans = continuation temp_root c" using cl by (simp add: answered_def)
        have "keeps c (continuation temp_root c) (start_progress c) (\<lambda>_ _. True)"
          by (rule wp_mono [OF execute_keeps_protocol]) simp
        then show ?thesis
          using c k cases cl un by (auto simp: worker_ok_def start_progress_def)
      qed
      with True show ?thesis by simp
    next
      case False
      have "worker_ok temp_root db' (sy_workers sys v) (gh v)"
      proof (rule worker_ok_step [OF recovery_invD(5) [OF inv]])
        fix r
        assume "ss_active_runs (wk_session (sy_workers sys v)) (wk_attempt (sy_workers sys v)) = Some r"
          and op: "open_run r db'"
        then have r: "r \<noteq> ?rid" "run_of (wk_attempt (sy_workers sys v)) r (sy_db sys)"
          using notnew by (auto simp: active_def)
        have "open_run r (sy_db sys)"
          using cases open_run_back op claimed_open [OF recovery_invD(1) [OF inv] _ r(2) op r(1)] by blast
        then show "open_run r (sy_db sys) \<and> (unpushed (wk_attempt (sy_workers sys v)) (sy_db sys) \<longrightarrow>
            unpushed (wk_attempt (sy_workers sys v)) db')" by (simp add: un)
      qed
      with False show ?thesis by simp
    qed
  qed
qed

section \<open>Every reachable system\<close>

theorem initial_inv:
  assumes "initial_system sys"
  shows "recovery_inv temp_root (\<lambda>_. None) sys"
proof (rule recovery_invI)
  note init = assms [unfolded initial_system_def]
  show "runs_ok (sy_db sys)" using init by (simp add: runs_ok_def)
  show "sessions_ok sys" using init by (simp add: sessions_ok_def active_def new_session_def)
  show "pushes_ok (\<lambda>_. None) sys" using init by (simp add: pushes_ok_def armed_def pushes_def)
  show "evidence_ok (\<lambda>_. None) (sy_db sys)"
    using init by (fastforce simp: evidence_ok_def recovered_def)
  show "worker_ok temp_root (sy_db sys) (sy_workers sys w) None" for w
    using init by (auto simp: worker_ok_def)
qed

theorem step_inv:
  assumes "recovery_step answer_of temp_root sys sys'" and "recovery_inv temp_root gh sys"
  shows "\<exists>gh'. recovery_inv temp_root gh' sys'"
  using assms
proof (cases rule: recovery_step.cases)
  case (start w wk r a name)
  have "recovery_inv temp_root (gh(w := None)) sys'"
    unfolding start(1) by (rule reset_inv [OF assms(2)]) (use start in \<open>auto simp: worker_ok_def active_def\<close>)
  then show ?thesis by blast
next
  case (store w wk q k dr a db' ss')
  show ?thesis
  proof (cases "is_claim q \<or> arms q a")
    case False
    with plain_inv [OF assms(2)] store show ?thesis by blast
  next
    case True
    then show ?thesis
    proof
      assume "is_claim q"
      then obtain b name where "q = claim_request b name" by (cases q) simp_all
      with claim_inv [OF assms(2)] store show ?thesis by blast
    next
      assume "arms q a"
      then obtain c status event evidence where
        "q = transition_request c status PUSH event evidence" "a = Unit_Answer"
        by (cases q) simp_all
      with arming_inv [OF assms(2)] store show ?thesis by blast
    qed
  qed
next
  case (collaborator w wk q k a)
  with collaborator_inv [OF assms(2)] show ?thesis by blast
next
  case (crash w wk)
  have "recovery_inv temp_root (gh(w := None)) sys'"
    unfolding crash(1)
    by (rule reset_inv [OF assms(2)]) (auto simp: worker_ok_def new_session_def)
  then show ?thesis by blast
next
  case (administration db')
  with administration_inv [OF assms(2)] show ?thesis by blast
qed

theorem reachable_inv:
  "recovery_reachable answer_of temp_root sys \<Longrightarrow> \<exists>gh. recovery_inv temp_root gh sys"
proof (induction rule: recovery_reachable.induct)
  case initially
  then show ?case using initial_inv by blast
next
  case later
  then show ?case using step_inv by blast
qed

theorem pushed_once:
  assumes "recovery_reachable answer_of temp_root sys"
  shows "count_list (sy_pushed sys) a \<le> 1"
proof -
  obtain gh where "recovery_inv temp_root gh sys" using reachable_inv [OF assms] ..
  from recovery_invD(3) [OF this] show ?thesis unfolding pushes_ok_def pushes_def by (metis le_numeral_extra(4) zero_le)
qed

theorem fence_exclusive:
  assumes "recovery_reachable answer_of temp_root sys"
    and "active sys w a = Some rid" "open_run rid (sy_db sys)"
    and "active sys w' a = Some rid'" "open_run rid' (sy_db sys)"
  shows "w = w'"
proof (rule ccontr)
  assume ne: "w \<noteq> w'"
  obtain gh where inv: "recovery_inv temp_root gh sys" using reachable_inv [OF assms(1)] ..
  from recovery_invD(2) [OF inv] have "run_of a rid (sy_db sys)" "run_of a rid' (sy_db sys)"
    using assms(2,4) unfolding sessions_ok_def by blast+
  then have "rid = rid'" using open_run_unique [OF recovery_invD(1) [OF inv]] assms(3,5) by blast
  with ne assms(2,4) recovery_invD(2) [OF inv] show False unfolding sessions_ok_def by blast
qed

theorem recovered_proven:
  assumes "recovery_reachable answer_of temp_root sys" and "recovered a (sy_db sys)"
  shows "proven a (sy_db sys)"
  using reachable_inv [OF assms(1)] recovery_invD(4) assms(2) unfolding evidence_ok_def by blast

end

end
