(* ===== verification/Recovery_Contract.thy ===== *)
theory Recovery_Contract
  imports Recovery_Fencing
begin

text \<open>
  The SQL attempt store keeps the contract \<open>attempt_store\<close>. \<open>tidy\<close> steps move the views forward
  and leave the pushes alone, \<open>calm\<close> steps moreover recover nothing; the updates the operations
  are made of are calm, and \<open>fenced_tidy\<close> and \<open>fenced_calm\<close> lift this to the operations.
\<close>

definition tidy :: "recovery_db \<Rightarrow> recovery_db \<Rightarrow> bool" where
  "tidy db db' \<longleftrightarrow> runs_le db db' \<and> same_push db db' \<and> log_le db db'"

definition calm :: "recovery_db \<Rightarrow> recovery_db \<Rightarrow> bool" where
  "calm db db' \<longleftrightarrow> tidy db db' \<and> (\<forall>a. recovered a db' \<longrightarrow> recovered a db)"

named_theorems calm_steps

lemma runs_le_trans: "runs_le a b \<Longrightarrow> runs_le b c \<Longrightarrow> runs_le a c"
  unfolding runs_le_def using list_all2_trans [of run_le run_le run_le] run_le_trans by blast

lemma tidy_refl: "tidy db db"
  by (simp add: tidy_def runs_le_refl same_push_def log_le_refl)

lemma log_le_trans: "log_le a b \<Longrightarrow> log_le b c \<Longrightarrow> log_le a c"
  unfolding log_le_def by (blast intro: prefix_order.trans)

lemma tidy_trans: "tidy a b \<Longrightarrow> tidy b c \<Longrightarrow> tidy a c"
  unfolding tidy_def same_push_def log_le_def
  by (auto intro: runs_le_trans prefix_order.trans)

lemma calm_refl: "calm db db"
  by (simp add: calm_def tidy_refl)

lemma calm_trans: "calm a b \<Longrightarrow> calm b c \<Longrightarrow> calm a c"
  unfolding calm_def using tidy_trans by blast

lemma calm_tidy: "calm a b \<Longrightarrow> tidy a b"
  by (simp add: calm_def)

lemma calm_tables:
  assumes le: "runs_le db db'"
    and same: "db_attempts db' = db_attempts db" "db_commits db' = db_commits db"
      "db_remotes db' = db_remotes db"
  shows "calm db db'"
  unfolding calm_def tidy_def
proof (intro conjI allI impI)
  show "same_push db db'" unfolding same_push_def unpushed_def same by blast
  show "log_le db db'" unfolding log_le_def same by simp
  show "recovered a db' \<Longrightarrow> recovered a db" for a unfolding recovered_def same .
qed (rule le)

lemma calm_same_tables:
  assumes "db_runs db' = db_runs db" "db_attempts db' = db_attempts db"
    "db_commits db' = db_commits db" "db_remotes db' = db_remotes db"
  shows "calm db db'"
  by (rule calm_tables) (use assms runs_le_refl [of db] in \<open>simp_all add: runs_le_def\<close>)

lemma runs_le_update_run:
  assumes "\<And>r. run_le r (f r)"
  shows "runs_le db (update_run i f db)"
proof -
  have "list_all2 run_le rows (alter (\<lambda>r. rn_id r = i) f rows)" for rows
    by (induction rows) (use assms run_le_refl in \<open>simp_all add: alter_def\<close>)
  then show ?thesis by (simp add: runs_le_def update_run_def)
qed

lemma calm_update_run [calm_steps]:
  assumes "\<And>r. run_le r (f r)"
  shows "calm db (update_run i f db)"
  by (rule calm_tables [OF runs_le_update_run]) (simp_all add: update_run_def assms)

text \<open>An update of an attempt, seen by the views: only the row it is for changes.\<close>

lemma update_attempt_tables [simp]:
  "db_runs (update_attempt i f db) = db_runs db"
  "db_commits (update_attempt i f db) = db_commits db"
  "db_remotes (update_attempt i f db) = db_remotes db"
  by (simp_all add: update_attempt_def)

lemma update_attempt_rows:
  "db_attempts (update_attempt i f db) = alter (\<lambda>a. at_id a = i) f (db_attempts db)"
  by (simp add: update_attempt_def)

lemma unpushed_update_attempt:
  assumes "\<And>a. at_id (f a) = at_id a"
    and "b \<noteq> i \<or> (\<forall>a. at_push_started_at (f a) = at_push_started_at a)"
  shows "unpushed b (update_attempt i f db) = unpushed b db"
  unfolding unpushed_def update_attempt_rows
  using assms by (auto simp: get_row_alter split: option.splits)

lemma recovered_update_attempt:
  assumes "recovered b (update_attempt i f db)" and "\<And>a. at_id (f a) = at_id a"
    and "b \<noteq> i \<or> (\<forall>a. at_status (f a) \<noteq> RECOVERED)"
  shows "recovered b db"
proof -
  obtain y where y: "y \<in> set (alter (\<lambda>a. at_id a = i) f (db_attempts db))"
    "at_id y = b" "at_status y = RECOVERED"
    using assms(1) unfolding recovered_def update_attempt_rows by blast
  then obtain x where x: "x \<in> set (db_attempts db)" "y = (if at_id x = i then f x else x)"
    by (auto simp: set_alter)
  have "at_id x \<noteq> i" using x(2) y(2,3) assms(2,3) by auto
  then show ?thesis using x y unfolding recovered_def by auto
qed

lemma tidyI:
  assumes "runs_le db db'" "\<And>a. unpushed a db' = unpushed a db" "log_le db db'"
  shows "tidy db db'"
  using assms unfolding tidy_def same_push_def by blast

lemma tidy_update_attempt:
  assumes "\<And>a. at_id (f a) = at_id a" "\<And>a. at_push_started_at (f a) = at_push_started_at a"
  shows "tidy db (update_attempt i f db)"
proof (rule tidyI)
  show "unpushed a (update_attempt i f db) = unpushed a db" for a
    by (rule unpushed_update_attempt) (simp_all add: assms)
qed (use runs_le_refl [of db] in \<open>simp_all add: runs_le_def log_le_def\<close>)

lemma calm_update_attempt:
  assumes "\<And>a. at_id (f a) = at_id a" "\<And>a. at_push_started_at (f a) = at_push_started_at a"
    "\<And>a. at_status (f a) \<noteq> RECOVERED"
  shows "calm db (update_attempt i f db)"
  unfolding calm_def
proof (intro conjI allI impI)
  show "tidy db (update_attempt i f db)" by (rule tidy_update_attempt) (simp_all add: assms)
  show "recovered a db" if "recovered a (update_attempt i f db)" for a
    using that by (rule recovered_update_attempt) (simp_all add: assms)
qed

lemma calm_update_stage [calm_steps]: "calm db (update_stage i f db)"
  by (rule calm_same_tables) (simp_all add: update_stage_def)

lemma calm_audit [calm_steps]: "calm db (audit hs e r a ev w p db)"
  by (rule calm_same_tables) (simp_all add: audit_def)

lemma calm_close_stage [calm_steps]: "calm db (close_stage now i s c db)"
  by (auto simp: close_stage_def intro: calm_refl calm_update_stage split: option.split)

lemma calm_complete_previous [calm_steps]: "calm db (complete_previous hs now i ev db)"
  by (auto simp: complete_previous_def intro: calm_refl calm_update_stage split: option.split)

section \<open>The fence\<close>

lemma locked_Inr:
  assumes "locked dr c (db, ss) = Inr (attempt, run, db1)"
  shows "get_row at_id (rc_attempt_id c) (db_attempts db) = Some attempt \<and>
    (\<exists>rid. ss_active_runs ss (rc_attempt_id c) = Some rid \<and> open_run rid db \<and> rn_id run = rid) \<and>
    calm db db1 \<and> db_attempts db1 = db_attempts db \<and> db_commits db1 = db_commits db \<and>
    db_remotes db1 = db_remotes db"
proof -
  from assms obtain rid old where
    a: "get_row at_id (rc_attempt_id c) (db_attempts db) = Some attempt"
    and r: "ss_active_runs ss (rc_attempt_id c) = Some rid" "get_row rn_id rid (db_runs db) = Some old"
    "rn_completed_at old = None"
    and run: "run = old\<lparr>rn_claim_expires_at := dr_clock dr 1 + CLAIM_DURATION\<rparr>"
    and db1: "db1 = update_run (rn_id old)
      (\<lambda>r. r\<lparr>rn_claim_expires_at := dr_clock dr 1 + CLAIM_DURATION\<rparr>) db"
    by (auto simp: locked_def Let_def split: option.splits if_splits)
  have "open_run rid db" using get_row_SomeD [OF r(2)] r(3) unfolding open_run_def by blast
  moreover have "calm db db1" unfolding db1 by (rule calm_update_run) (simp add: run_le_def)
  ultimately show ?thesis
    using a r run get_row_SomeD [OF r(2)] by (simp add: db1 update_run_def)
qed

lemma locked_attempt:
  assumes "locked dr c (db, ss) = Inr (attempt, run, db1)"
  shows "at_id attempt = rc_attempt_id c"
  by (rule conjunct2 [OF get_row_SomeD [OF conjunct1 [OF locked_Inr [OF assms]]]])

text \<open>The outcomes of a fenced operation.\<close>

lemma fenced_outcome:
  assumes "fenced dr c body (db, ss) = (r, db', ss')"
  shows "(\<exists>e. r = Inl e) \<and> db' = db \<and> ss_active_runs ss' = ss_active_runs ss \<or>
    (\<exists>e attempt run. r = Inl e \<and> locked dr c (db, ss) = Inr (attempt, run, db') \<and> ss' = ss) \<or>
    (\<exists>attempt run db1. r = Inr () \<and> locked dr c (db, ss) = Inr (attempt, run, db1) \<and>
       body attempt run db1 = Inr db' \<and> ss' = ss)"
proof (cases "ss_broken ss")
  case True
  then show ?thesis using assms unfolding fenced_def broken_session_def by auto
next
  case False
  show ?thesis
  proof (cases "locked dr c (db, ss)")
    case (Inl e)
    then show ?thesis using assms False unfolding fenced_def broken_session_def by auto
  next
    case (Inr p)
    obtain attempt run db1 where p: "p = (attempt, run, db1)" by (cases p) auto
    show ?thesis
    proof (cases "body attempt run db1")
      case (Inl e)
      then show ?thesis
        using assms False \<open>locked dr c (db, ss) = Inr p\<close> p
        by (cases e) (simp_all add: fenced_def broken_session_def, auto)
    next
      case (Inr db2)
      then show ?thesis
        using assms False \<open>locked dr c (db, ss) = Inr p\<close> p
        by (simp add: fenced_def broken_session_def)
    qed
  qed
qed

lemma fenced_cases:
  assumes "fenced dr c body (db, ss) = (r, db', ss')"
  obtains (refused) e where "r = Inl e" "db' = db" "ss_active_runs ss' = ss_active_runs ss"
  | (failed) e attempt run where "r = Inl e" "locked dr c (db, ss) = Inr (attempt, run, db')" "ss' = ss"
  | (ran) attempt run db1 where "r = Inr ()" "locked dr c (db, ss) = Inr (attempt, run, db1)"
      "body attempt run db1 = Inr db'" "ss' = ss"
  using fenced_outcome [OF assms] by blast

lemma fenced_tidy:
  assumes "fenced dr c body (db, ss) = (r, db', ss')"
    and "\<And>attempt run db db'. body attempt run db = Inr db' \<Longrightarrow> tidy db db'"
  shows "tidy db db' \<and> ss_active_runs ss' = ss_active_runs ss"
  using assms(1)
proof (cases rule: fenced_cases)
  case (ran attempt run db1)
  then show ?thesis using assms(2) locked_Inr [OF ran(2)] calm_tidy tidy_trans by blast
qed (use locked_Inr calm_tidy tidy_refl in \<open>blast+\<close>)

lemma fenced_calm:
  assumes "fenced dr c body (db, ss) = (r, db', ss')"
    and "\<And>attempt run db db'. body attempt run db = Inr db' \<Longrightarrow> calm db db'"
  shows "calm db db' \<and> ss_active_runs ss' = ss_active_runs ss"
  using assms(1)
proof (cases rule: fenced_cases)
  case (ran attempt run db1)
  then show ?thesis using assms(2) locked_Inr [OF ran(2)] calm_trans by blast
qed (use locked_Inr calm_refl in \<open>blast+\<close>)

section \<open>The bodies of the operations\<close>

lemma calm_add_stages [calm_steps]: "calm db (db\<lparr>db_stages := st\<rparr>)"
  by (rule calm_same_tables) simp_all

lemma calm_add_tests [calm_steps]: "calm db (db\<lparr>db_artifacts := ar, db_tests := te\<rparr>)"
  by (rule calm_same_tables) simp_all

lemma calm_add_artifacts [calm_steps]: "calm db (db\<lparr>db_artifacts := ar\<rparr>)"
  by (rule calm_same_tables) simp_all

lemma calm_log:
  assumes le: "runs_le db db'" and same: "db_attempts db' = db_attempts db" and log: "log_le db db'"
  shows "calm db db'"
  unfolding calm_def tidy_def
proof (intro conjI allI impI)
  show "same_push db db'" unfolding same_push_def unpushed_def same by blast
  show "recovered a db' \<Longrightarrow> recovered a db" for a unfolding recovered_def same .
qed (rule le log)+

lemma calm_add_commits [calm_steps]: "calm db (db\<lparr>db_commits := db_commits db @ cs\<rparr>)"
  by (rule calm_log) (use runs_le_refl [of db] in \<open>simp_all add: log_le_def runs_le_def\<close>)

lemma calm_add_remotes [calm_steps]: "calm db (db\<lparr>db_remotes := db_remotes db @ rs\<rparr>)"
  by (rule calm_log) (use runs_le_refl [of db] in \<open>simp_all add: log_le_def runs_le_def\<close>)

lemma record_tests_calm:
  assumes "record_tests hs dr c tests (db, ss) = (r, db', ss')"
  shows "calm db db' \<and> ss_active_runs ss' = ss_active_runs ss"
  using assms unfolding record_tests_def
  by (rule fenced_calm)
    (auto simp: Let_def split: if_splits intro: calm_trans [OF calm_add_tests calm_audit])

lemma record_commit_calm:
  assumes "record_commit hs dr c candidate (db, ss) = (r, db', ss')"
  shows "calm db db' \<and> ss_active_runs ss' = ss_active_runs ss"
  using assms unfolding record_commit_def
  by (rule fenced_calm)
    (auto simp: Let_def split: if_splits option.splits prod.splits
      intro: calm_refl calm_trans [OF calm_add_commits calm_audit])

lemma record_remote_calm:
  assumes "record_remote dr c remote (db, ss) = (r, db', ss')"
  shows "calm db db' \<and> ss_active_runs ss' = ss_active_runs ss"
  using assms unfolding record_remote_def
  by (rule fenced_calm)
    (auto split: if_splits option.splits intro: calm_refl calm_add_remotes)

lemma record_conflict_calm:
  assumes "record_conflict hs dr c paths m (db, ss) = (r, db', ss')"
  shows "calm db db' \<and> ss_active_runs ss' = ss_active_runs ss"
  using assms unfolding record_conflict_def
  by (rule fenced_calm)
    (auto simp: Let_def split: option.splits intro: calm_trans [OF calm_add_artifacts]
      calm_update_stage calm_same_tables)

text \<open>\<open>fail\<close> and \<open>complete\<close> end alike: the run, its stage and the audit are closed.\<close>

lemma if_Inl_InrD: "(if b then Inl e else Inr x) = Inr y \<Longrightarrow> \<not> b \<and> Inr x = (Inr y :: 'e + 'a)"
  by (simp split: if_splits)

lemma closing_calm:
  assumes "\<And>r. run_le r (g r)"
  shows "calm db (audit hs x y a ev w p (close_stage t j s code (update_run i g db)))"
  by (rule calm_trans [OF calm_update_run calm_trans [OF calm_close_stage calm_audit]]) (rule assms)

lemma closing_tidy:
  assumes "\<And>r. run_le r (g r)"
    and "\<And>a. at_id (f a) = at_id a" "\<And>a. at_push_started_at (f a) = at_push_started_at a"
  shows "tidy db (audit hs x y a ev w p
    (close_stage t j s code (update_run i g (update_attempt k f db))))"
  by (rule tidy_trans [OF tidy_update_attempt calm_tidy [OF closing_calm]]) (rule assms)+

lemma closing_recovered:
  assumes "recovered b (audit hs x y a ev w p
      (close_stage t j s code (update_run i g (update_attempt k f db))))"
    and "\<And>r. run_le r (g r)" and "\<And>a. at_id (f a) = at_id a"
    and "b \<noteq> k \<or> (\<forall>a. at_status (f a) \<noteq> RECOVERED)"
  shows "recovered b db"
proof -
  have "recovered b (update_attempt k f db)"
    using closing_calm [OF assms(2)] assms(1) unfolding calm_def by blast
  then show ?thesis by (rule recovered_update_attempt) (rule assms(3,4))+
qed

lemma fail_tidy:
  assumes "fail hs dr c status fc code m (db, ss) = (r, db', ss')"
  shows "tidy db db' \<and> ss_active_runs ss' = ss_active_runs ss"
  using assms unfolding fail_def Let_def
  by (rule fenced_tidy) (erule Inr_inject [THEN subst], rule closing_tidy, simp_all add: run_le_def)

lemma fail_recovered:
  assumes "fail hs dr c status fc code m (db, ss) = (r, db', ss')" and "status \<noteq> RECOVERED"
    and "recovered b db'"
  shows "recovered b db"
proof -
  have "calm db db' \<and> ss_active_runs ss' = ss_active_runs ss"
    using assms(1) unfolding fail_def Let_def
    by (rule fenced_calm) (erule Inr_inject [THEN subst],
      rule calm_trans [OF calm_update_attempt closing_calm], use assms(2) in \<open>simp_all add: run_le_def\<close>)
  then show ?thesis using assms(3) unfolding calm_def by blast
qed

lemma complete_tidy:
  assumes "complete hs dr c candidate remote (db, ss) = (r, db', ss')"
  shows "tidy db db' \<and> ss_active_runs ss' = ss_active_runs ss"
  using assms unfolding complete_def Let_def
  by (rule fenced_tidy) (drule if_Inl_InrD, elim conjE, erule Inr_inject [THEN subst],
    rule closing_tidy, simp_all add: run_le_def)

lemma complete_recovered:
  assumes "complete hs dr c candidate remote (db, ss) = (r, db', ss')" and "recovered b db'"
  shows "recovered b db \<or> b = rc_attempt_id c \<and> candidate_shas candidate = remote_shas remote"
  using assms(1) [unfolded complete_def Let_def]
proof (cases rule: fenced_cases)
  case refused
  then show ?thesis using assms(2) by simp
next
  case (failed e attempt run)
  then show ?thesis using assms(2) locked_Inr unfolding calm_def by blast
next
  case (ran attempt run db1)
  note i = locked_attempt [OF ran(2)]
  have "recovered b db1" if "b \<noteq> rc_attempt_id c"
    using assms(2) unfolding Inr_inject [OF conjunct2 [OF if_Inl_InrD [OF ran(3)]], symmetric]
    by (rule closing_recovered) (simp_all add: run_le_def i that)
  moreover have "candidate_shas candidate = remote_shas remote"
    using ran(3) by (auto simp: candidate_shas_def remote_shas_def split: if_splits)
  ultimately show ?thesis using locked_Inr [OF ran(2)] unfolding calm_def by blast
qed

text \<open>The three parts of the body of \<open>transition\<close>.\<close>

definition moved_run ::
  "hashing \<Rightarrow> draws \<Rightarrow> PipelineStage \<Rightarrow> (string \<times> json) list \<Rightarrow> RecoveryAttemptRunModel \<Rightarrow> recovery_db \<Rightarrow>
   recovery_db" where
  "moved_run hs dr stage evidence run db =
     update_run (rn_id run) (\<lambda>r. r\<lparr>rn_current_stage := stage\<rparr>)
       (complete_previous hs (dr_clock dr 2) (rn_id run) evidence db)"

definition moved_attempt ::
  "draws \<Rightarrow> RecoveryAttemptStatus \<Rightarrow> PipelineStage \<Rightarrow> RecoveryAttemptModel \<Rightarrow> RecoveryAttemptModel" where
  "moved_attempt dr status stage a =
     a\<lparr>at_push_started_at := (if stage = PUSH
         then (case at_push_started_at a of None \<Rightarrow> Some (dr_clock dr 2) | p \<Rightarrow> p)
         else at_push_started_at a), at_status := status\<rparr>"

definition noted_move ::
  "hashing \<Rightarrow> draws \<Rightarrow> RecoveryCommand \<Rightarrow> PipelineStage \<Rightarrow> string \<Rightarrow> (string \<times> json) list \<Rightarrow>
   RecoveryAttemptModel \<Rightarrow> RecoveryAttemptRunModel \<Rightarrow> recovery_db \<Rightarrow> recovery_db" where
  "noted_move hs dr c stage event evidence attempt run db =
     audit hs (dr_uuid dr 1) (dr_uuid dr 2) attempt event (rc_worker_id c)
       (dict_merge [(''run_id'', uuid_json (rn_id run))] evidence)
       (db\<lparr>db_stages := db_stages db @ [new_stage hs dr (dr_clock dr 2) c (rn_id run) stage db]\<rparr>)"

lemma transition_parts:
  "transition hs dr c status stage event evidence =
     fenced dr c (\<lambda>attempt run db. Inr (noted_move hs dr c stage event evidence attempt run
       (update_attempt (at_id attempt) (moved_attempt dr status stage)
         (moved_run hs dr stage evidence run db))))"
  by (simp add: transition_def noted_move_def moved_run_def moved_attempt_def [abs_def] Let_def)

lemma moved_run_calm: "calm db (moved_run hs dr stage evidence run db)"
  unfolding moved_run_def
  by (rule calm_trans [OF calm_complete_previous calm_update_run]) (simp add: run_le_def)

lemma noted_move_calm: "calm db (noted_move hs dr c stage event evidence attempt run db)"
  unfolding noted_move_def by (rule calm_trans [OF calm_add_stages calm_audit])

lemma moved_attempt_simps [simp]:
  "at_id (moved_attempt dr status stage a) = at_id a"
  "at_status (moved_attempt dr status stage a) = status"
  "stage \<noteq> PUSH \<Longrightarrow> at_push_started_at (moved_attempt dr status stage a) = at_push_started_at a"
  "at_push_started_at (moved_attempt dr status PUSH a) \<noteq> None"
  by (simp_all add: moved_attempt_def split: option.split)

lemma transition_tidy:
  assumes "transition hs dr c status stage event evidence (db, ss) = (r, db', ss')"
    and "stage \<noteq> PUSH \<or> r \<noteq> Inr ()"
  shows "tidy db db' \<and> ss_active_runs ss' = ss_active_runs ss"
  using assms(1) [unfolded transition_parts]
proof (cases rule: fenced_cases)
  case (ran attempt run db1)
  then have "stage \<noteq> PUSH" using assms(2) by simp
  then have "tidy db1 db'"
    using ran(3) by (auto intro: tidy_trans [OF calm_tidy [OF moved_run_calm]
      tidy_trans [OF tidy_update_attempt calm_tidy [OF noted_move_calm]]])
  then show ?thesis using locked_Inr [OF ran(2)] calm_tidy tidy_trans ran by blast
qed (use locked_Inr calm_tidy tidy_refl in \<open>blast+\<close>)

lemma transition_recovered:
  assumes "transition hs dr c status stage event evidence (db, ss) = (r, db', ss')"
    and "status \<noteq> RECOVERED" and "recovered b db'"
  shows "recovered b db"
  using assms(1) [unfolded transition_parts]
proof (cases rule: fenced_cases)
  case (ran attempt run db1)
  let ?db2 = "moved_run hs dr stage evidence run db1"
  have "recovered b (update_attempt (at_id attempt) (moved_attempt dr status stage) ?db2)"
    using ran(3) assms(3) noted_move_calm unfolding calm_def by blast
  then have "recovered b ?db2"
    by (rule recovered_update_attempt) (simp_all add: assms(2))
  then have "recovered b db1" using moved_run_calm unfolding calm_def by blast
  then show ?thesis using locked_Inr [OF ran(2)] unfolding calm_def by blast
qed (use locked_Inr assms(3) in \<open>auto simp: calm_def\<close>)

text \<open>Announcing the push marks the attempt, and only it.\<close>

lemma transition_push:
  assumes "transition hs dr c status PUSH event evidence (db, ss) = (Inr (), db', ss')"
  shows "runs_le db db' \<and> log_le db db' \<and> ss_active_runs ss' = ss_active_runs ss \<and>
    (\<exists>rid. ss_active_runs ss (rc_attempt_id c) = Some rid \<and> open_run rid db) \<and>
    \<not> unpushed (rc_attempt_id c) db' \<and>
    (\<forall>b. b \<noteq> rc_attempt_id c \<longrightarrow> unpushed b db' = unpushed b db)"
  using assms [unfolded transition_parts]
proof (cases rule: fenced_cases)
  case (ran attempt run db1)
  let ?i = "rc_attempt_id c"
  let ?db2 = "moved_run hs dr PUSH evidence run db1"
  let ?db3 = "update_attempt ?i (moved_attempt dr status PUSH) ?db2"
  note lk = locked_Inr [OF ran(2)]
  note i = locked_attempt [OF ran(2)]
  have two: "calm db ?db2" using lk calm_trans moved_run_calm by blast
  have four: "calm ?db3 db'"
    using noted_move_calm [of ?db3] unfolding Inr_inject [OF ran(3), symmetric] i .
  have "runs_le ?db2 ?db3" "log_le ?db2 ?db3"
    using runs_le_refl [of ?db2] by (simp_all add: runs_le_def log_le_def)
  then have le: "runs_le db db'" "log_le db db'"
    using two four runs_le_trans log_le_trans unfolding calm_def tidy_def by blast+
  have "unpushed b db' = unpushed b db" if "b \<noteq> ?i" for b
    using two four that unpushed_update_attempt [of "moved_attempt dr status PUSH" b ?i ?db2]
    unfolding calm_def tidy_def same_push_def by simp
  moreover have "\<not> unpushed ?i db'"
  proof -
    have "db_attempts ?db2 = db_attempts db1"
      by (simp add: moved_run_def update_run_def complete_previous_def update_stage_def
        split: option.split)
    then have "get_row at_id ?i (db_attempts ?db2) = Some attempt" using lk by simp
    then have "\<not> unpushed ?i ?db3"
      by (simp add: unpushed_def update_attempt_rows get_row_alter)
    then show ?thesis using four unfolding calm_def tidy_def same_push_def by blast
  qed
  ultimately show ?thesis using le lk ran(4) by blast
qed simp_all

section \<open>The log\<close>

lemma audit_tables [simp]:
  "db_commits (audit hs x y a ev w p db) = db_commits db"
  "db_remotes (audit hs x y a ev w p db) = db_remotes db"
  "db_runs (audit hs x y a ev w p db) = db_runs db"
  "db_attempts (audit hs x y a ev w p db) = db_attempts db"
  by (simp_all add: audit_def)

lemma recorded_commit:
  assumes "record_commit hs dr c candidate (db, ss) = (Inr (), db', ss')"
  shows "has_commit (rc_attempt_id c) (candidate_shas candidate) db'"
  using assms [unfolded record_commit_def]
proof (cases rule: fenced_cases)
  case (ran attempt run db1)
  note i = locked_attempt [OF ran(2)]
  show ?thesis
  proof (cases "recovery_commit (rc_attempt_id c) db1")
    case None
    obtain name email where ne: "identity (cc_author_identity candidate) = (name, email)"
      by (cases "identity (cc_author_identity candidate)") auto
    show ?thesis
      using ran(3) None ne
      by (auto simp: i Let_def has_commit_def recovery_commit_def get_row_append
        commit_shas_def candidate_shas_def split: if_splits)
  next
    case (Some old)
    then show ?thesis
      using ran(3) by (auto simp: i has_commit_def commit_shas_def candidate_shas_def split: if_splits)
  qed
qed simp_all

lemma recorded_remote:
  assumes "record_remote dr c remote (db, ss) = (Inr (), db', ss')"
  shows "has_remote (rc_attempt_id c) (remote_shas remote) db'"
  using assms [unfolded record_remote_def]
proof (cases rule: fenced_cases)
  case (ran attempt run db1)
  note i = locked_attempt [OF ran(2)]
  obtain commit where c: "recovery_commit (rc_attempt_id c) db1 = Some commit"
    using ran(3) by (auto simp: i split: option.splits)
  show ?thesis
  proof (cases "get_row vr_recovery_commit_id (cm_id commit) (db_remotes db1)")
    case None
    then show ?thesis
      using ran(3) c
      by (auto simp: i has_remote_def recovery_commit_def get_row_append
        verification_shas_def remote_shas_def)
  next
    case (Some old)
    then show ?thesis
      using ran(3) c
      by (auto simp: i has_remote_def verification_shas_def remote_shas_def split: if_splits)
  qed
qed simp_all

section \<open>Claims\<close>

lemma load_claim_InrD:
  assumes "load_claim hs held now a db = Inr cx"
  shows "get_row at_id a (db_attempts db) = Some (cx_attempt cx)"
    "cx_latest_run cx = latest_run a db" "initial_status (cx_attempt cx) = Inr (cx_initial_status cx)"
proof -
  have free: "get_row at_id a rows = Some x"
    if "List.find (\<lambda>x. at_id x = a \<and> a \<notin> set held) rows = Some x" for rows x
    using that find_Some_D [OF that] unfolding get_row_def by simp
  obtain x where x: "List.find (\<lambda>x. at_id x = a \<and> a \<notin> set held) (db_attempts db) = Some x"
    using assms by (auto simp: load_claim_def split: option.splits)
  obtain status where st: "initial_status x = Inr status" and
    "cx_attempt cx = x" "cx_latest_run cx = latest_run a db" "cx_initial_status cx = status"
    using assms unfolding load_claim_def x
    by (auto simp: Let_def result_simps split: if_splits)
      (auto simp: result_simps split: option.splits)
  then show "get_row at_id a (db_attempts db) = Some (cx_attempt cx)"
    "cx_latest_run cx = latest_run a db" "initial_status (cx_attempt cx) = Inr (cx_initial_status cx)"
    using free [OF x] by simp_all
qed

lemma initial_status_unpushed:
  "initial_status x = Inr status \<Longrightarrow> status \<noteq> PUSH_UNCERTAIN \<Longrightarrow> at_push_started_at x = None"
  by (auto simp: initial_status_def safe_restart_statuses_def Let_def split: if_splits)

lemma recovery_command_facts:
  assumes "recovery_command w cx db = Inr c"
  shows "rc_attempt_id c = at_id (cx_attempt cx)" "rc_initial_status c = cx_initial_status cx"
    "rc_existing_candidate c = Some candidate \<Longrightarrow>
      existing_candidate (at_id (cx_attempt cx)) db = Some candidate"
  using assms by (auto simp: recovery_command_def Let_def result_simps split: if_splits)

lemma existing_candidate_commit:
  "existing_candidate a db = Some candidate \<Longrightarrow> has_commit a (candidate_shas candidate) db"
  by (auto simp: existing_candidate_def has_commit_def candidate_shas_def commit_shas_def Let_def)

text \<open>Claiming closes the open run of the attempt, which is the latest one.\<close>

lemma latest_run_open:
  assumes ok: "runs_ok db" and q: "q \<in> set (db_runs db)" "rn_recovery_attempt_id q = a"
    "rn_completed_at q = None"
  shows "latest_run a db = Some q"
proof -
  obtain l where l: "latest_run a db = Some l" "l \<in> set (db_runs db)" "rn_recovery_attempt_id l = a"
    "rn_run_number q \<le> rn_run_number l"
    using first_by_exists [of q "filter (\<lambda>r. rn_recovery_attempt_id r = a) (db_runs db)"
        "\<lambda>r. - rn_run_number r"] q
    by (auto simp: latest_run_def)
  have "ordered_runs q l" using ok q(1) l(2) unfolding runs_ok_def by blast
  then have "rn_id q = rn_id l" using q l(3,4) by (auto simp: ordered_runs_def)
  then show ?thesis using runs_ok_ids_eq [OF ok q(1) l(2)] l(1) by simp
qed

lemma expire_run_list:
  "\<exists>rs. db_runs (expire_run now latest db) = rs \<and> list_all2 run_le (db_runs db) rs"
proof (cases latest)
  case None
  then show ?thesis using runs_le_refl [of db] by (simp add: expire_run_def runs_le_def)
next
  case (Some r)
  have "runs_le db (expire_run now latest db)"
    unfolding expire_run_def Some using runs_le_refl
    by (auto intro!: runs_le_update_run simp: run_le_def)
  then show ?thesis by (simp add: runs_le_def)
qed

lemma expire_run_closes:
  assumes ok: "runs_ok db" and q: "q \<in> set (db_runs (expire_run now (latest_run a db) db))"
    "rn_recovery_attempt_id q = a"
  shows "rn_completed_at q \<noteq> None"
proof
  assume open_q: "rn_completed_at q = None"
  obtain x where x: "x \<in> set (db_runs db)" "run_le x q"
    using expire_run_list [of now "latest_run a db" db] q(1) run_le_listD by blast
  then have xa: "rn_recovery_attempt_id x = a" "rn_completed_at x = None"
    using q(2) open_q by (auto simp: run_le_def)
  have "latest_run a db = Some x" by (rule latest_run_open [OF ok x(1) xa])
  then have "q \<in> set (alter (\<lambda>r. rn_id r = rn_id x)
      (\<lambda>r. r\<lparr>rn_status := ''expired'', rn_failure_class := Some TRANSIENT_INFRASTRUCTURE,
        rn_failure_code := Some ''CLAIM_EXPIRED'', rn_completed_at := Some now\<rparr>) (db_runs db))"
    using q(1) xa(2) by (simp add: expire_run_def update_run_def)
  then show False using open_q x(2) by (auto simp: set_alter run_le_def split: if_splits)
qed

lemma max_or_zero_ge: "n \<in> set ns \<Longrightarrow> n \<le> max_or_zero ns"
  by (induction ns rule: max_or_zero.induct) auto

text \<open>The database a successful claim leaves, with the new run at the end of the runs.\<close>

lemma claim_and_load_outcome:
  assumes "claim_and_load hs dr a w (db, ss) = (r, db', ss')"
  obtains (refused) e where "r = Inl e" "db' = db" "ss_active_runs ss' = ss_active_runs ss"
  | (claimed) cx p x y ev where "load_claim hs (dr_held dr) (dr_clock dr 0) a db = Inr cx"
      "db' = audit hs x y (cx_attempt cx) ev w p
        (update_attempt a (claim_attempt (dr_clock dr 0) w (cx_initial_status cx))
          ((expire_run (dr_clock dr 0) (cx_latest_run cx) db)
             \<lparr>db_runs := db_runs (expire_run (dr_clock dr 0) (cx_latest_run cx) db) @
                [new_run hs dr (dr_clock dr 0) a w db]\<rparr>))"
      "ss_active_runs ss' = (ss_active_runs ss)(a \<mapsto> dr_uuid dr 1)" "r = recovery_command w cx db'"
proof (cases "ss_broken ss")
  case True
  then show ?thesis using assms refused by (auto simp: claim_and_load_def broken_session_def)
next
  case False
  show ?thesis
  proof (cases "load_claim hs (dr_held dr) (dr_clock dr 0) a db")
    case (Inl e)
    then show ?thesis using assms False refused
      by (auto simp: claim_and_load_def broken_session_def Let_def)
  next
    case (Inr cx)
    show ?thesis
      using assms False Inr
      by (auto simp: claim_and_load_def broken_session_def Let_def new_run_def intro!: claimed)
  qed
qed

lemma expire_run_tables [simp]:
  "db_attempts (expire_run now latest db) = db_attempts db"
  "db_commits (expire_run now latest db) = db_commits db"
  "db_remotes (expire_run now latest db) = db_remotes db"
  by (simp_all add: expire_run_def update_run_def split: option.split)

lemma claim_attempt_simps [simp]:
  "at_id (claim_attempt now w status x) = at_id x"
  "at_push_started_at (claim_attempt now w status x) = at_push_started_at x"
  "at_status (claim_attempt now w status x) \<noteq> RECOVERED"
  by (simp_all add: claim_attempt_def)

text \<open>A claim, refused or not, starts no push and recovers nothing.\<close>

lemma claim_quiet:
  assumes "claim_and_load hs dr a w (db, ss) = (r, db', ss')"
  shows "same_push db db' \<and> log_le db db' \<and> (recovered b db' \<longrightarrow> recovered b db)"
  using assms
proof (cases rule: claim_and_load_outcome)
  case (claimed cx p x y ev)
  let ?f = "claim_attempt (dr_clock dr 0) w (cx_initial_status cx)"
  define mid where "mid = (expire_run (dr_clock dr 0) (cx_latest_run cx) db)
    \<lparr>db_runs := db_runs (expire_run (dr_clock dr 0) (cx_latest_run cx) db) @
       [new_run hs dr (dr_clock dr 0) a w db]\<rparr>"
  have mid: "db_attempts mid = db_attempts db" "db_commits mid = db_commits db"
    "db_remotes mid = db_remotes db"
    by (simp_all add: mid_def)
  note db' = claimed(2) [folded mid_def]
  have "calm mid db'"
    unfolding db' by (rule calm_trans [OF calm_update_attempt calm_audit]) simp_all
  then show ?thesis
    unfolding calm_def tidy_def same_push_def unpushed_def log_le_def recovered_def mid by blast
qed (simp add: same_push_def log_le_refl)

text \<open>A claim that succeeds.\<close>

lemma claim_claims:
  assumes "claim_and_load hs dr a w (db, ss) = (r, db', ss')" and ok: "runs_ok db"
  shows "(\<exists>e. r = Inl e) \<and> runs_le db db' \<and> ss_active_runs ss' = ss_active_runs ss \<or>
    claimed a (dr_uuid dr 1) db db' \<and>
    ss_active_runs ss' = (ss_active_runs ss)(a \<mapsto> dr_uuid dr 1) \<and>
    (\<forall>c. r = Inr c \<longrightarrow> rc_attempt_id c = a \<and>
       (rc_initial_status c \<noteq> PUSH_UNCERTAIN \<longrightarrow> unpushed a db) \<and>
       (\<forall>candidate. rc_existing_candidate c = Some candidate \<longrightarrow>
          has_commit a (candidate_shas candidate) db'))"
  using assms(1)
proof (cases rule: claim_and_load_outcome)
  case refused
  then show ?thesis using runs_le_refl by blast
next
  case (claimed cx p x y ev)
  note load = load_claim_InrD [OF claimed(1)]
  let ?run = "new_run hs dr (dr_clock dr 0) a w db"
  have id: "at_id (cx_attempt cx) = a" using get_row_SomeD [OF load(1)] by simp
  obtain rs where rs: "db_runs (expire_run (dr_clock dr 0) (latest_run a db) db) = rs"
    "list_all2 run_le (db_runs db) rs"
    using expire_run_list by blast
  have runs: "db_runs db' = rs @ [?run]"
    using claimed(2) rs(1) by (simp add: load(2))
  have "rn_completed_at q \<noteq> None \<and> rn_run_number q < rn_run_number ?run"
    if q: "q \<in> set rs" "rn_recovery_attempt_id q = a" for q
  proof
    show "rn_completed_at q \<noteq> None" using expire_run_closes [OF ok] q rs(1) by blast
    obtain x where x: "x \<in> set (db_runs db)" "run_le x q" using run_le_listD [OF rs(2) q(1)] by blast
    then have "rn_run_number q \<le> max_or_zero (map rn_run_number
        (filter (\<lambda>r. rn_recovery_attempt_id r = a) (db_runs db)))"
      using q(2) by (intro max_or_zero_ge) (auto simp: run_le_def)
    then show "rn_run_number q < rn_run_number ?run" by (simp add: new_run_def)
  qed
  then have "claimed a (dr_uuid dr 1) db db'"
    unfolding claimed_def runs using rs(2)
    by (intro exI [of _ rs] exI [of _ ?run]) (simp add: new_run_def)
  moreover have "unpushed a db" if "cx_initial_status cx \<noteq> PUSH_UNCERTAIN"
    using initial_status_unpushed [OF load(3) that] load(1) by (simp add: unpushed_def)
  ultimately show ?thesis
    using claimed(3,4) recovery_command_facts existing_candidate_commit id by metis
qed

section \<open>The contract\<close>

lemma unit_answerD:
  assumes "Some (unit_answer x) = Some (ans, db', ss')"
  obtains r where "x = (r, db', ss')" "ans = Unit_Answer \<longleftrightarrow> r = Inr ()" "\<forall>c. ans \<noteq> Command_Answer c"
  using assms by (cases x) (auto simp: unit_answer_def split: sum.splits)

lemma calm_step:
  "calm db db' \<and> ss_active_runs ss' = ss_active_runs ss \<Longrightarrow>
   tidy db db' \<and> ss_active_runs ss' = ss_active_runs ss"
  using calm_tidy by blast

lemma store_tidy:
  assumes "store_answer hs dr q (db, ss) = Some (ans, db', ss')"
    and "\<not> is_claim q" "\<not> arms q ans"
  shows "tidy db db' \<and> ss_active_runs ss' = ss_active_runs ss"
proof (cases q)
  case (transition_request c status stage event evidence)
  obtain r where r: "transition hs dr c status stage event evidence (db, ss) = (r, db', ss')"
    "ans = Unit_Answer \<longleftrightarrow> r = Inr ()"
    using assms(1) unit_answerD unfolding transition_request store_answer.simps by metis
  show ?thesis
    by (rule transition_tidy [OF r(1)]) (use assms(3) r(2) in \<open>simp add: transition_request\<close>)
next
  case (tests_request c tests)
  then show ?thesis using assms(1) unit_answerD record_tests_calm calm_step
    unfolding tests_request store_answer.simps by metis
next
  case (commit_request c candidate)
  then show ?thesis using assms(1) unit_answerD record_commit_calm calm_step
    unfolding commit_request store_answer.simps by metis
next
  case (remote_request c remote)
  then show ?thesis using assms(1) unit_answerD record_remote_calm calm_step
    unfolding remote_request store_answer.simps by metis
next
  case (conflict_request c paths m)
  then show ?thesis using assms(1) unit_answerD record_conflict_calm calm_step
    unfolding conflict_request store_answer.simps by metis
next
  case (fail_request c status fc code m)
  then show ?thesis using assms(1) unit_answerD fail_tidy unfolding fail_request store_answer.simps by metis
next
  case (complete_request c candidate remote)
  then show ?thesis using assms(1) unit_answerD complete_tidy
    unfolding complete_request store_answer.simps by metis
qed (use assms in simp_all)

lemma store_push:
  assumes "store_answer hs dr (transition_request c status PUSH event evidence) (db, ss) =
    Some (Unit_Answer, db', ss')"
  shows "transition hs dr c status PUSH event evidence (db, ss) = (Inr (), db', ss')"
  using assms unit_answerD unfolding store_answer.simps by metis

lemma store_claim:
  assumes "store_answer hs dr (claim_request a w) (db, ss) = Some (ans, db', ss')"
  obtains r where "claim_and_load hs dr a w (db, ss) = (r, db', ss')"
    "\<And>c. ans = Command_Answer c \<longleftrightarrow> r = Inr c"
  using assms by (cases "claim_and_load hs dr a w (db, ss)") (auto split: sum.splits)

lemma store_log:
  assumes "store_answer hs dr q (db, ss) = Some (ans, db', ss')"
  shows "log_le db db'"
proof (cases "is_claim q \<or> arms q ans")
  case False
  then show ?thesis using store_tidy [OF assms] unfolding tidy_def by blast
next
  case True
  then consider (claim) a w where "q = claim_request a w"
    | (push) c status event evidence where
        "q = transition_request c status PUSH event evidence" "ans = Unit_Answer"
    by (cases q) auto
  then show ?thesis
  proof cases
    case claim
    then show ?thesis using assms store_claim claim_quiet by metis
  next
    case push
    then show ?thesis using assms store_push transition_push by metis
  qed
qed

lemma store_recovered:
  assumes "store_answer hs dr q (db, ss) = Some (ans, db', ss')" and ok: "permitted st q"
    and rec: "recovered b db'"
  shows "recovered b db \<or> (\<exists>c candidate remote. q = complete_request c candidate remote \<and>
    b = rc_attempt_id c \<and> candidate_shas candidate = remote_shas remote)"
proof (cases q)
  case (claim_request a w)
  then show ?thesis using assms(1) rec store_claim claim_quiet by metis
next
  case (transition_request c status stage event evidence)
  then have "status \<noteq> RECOVERED" using ok by (cases st) simp
  moreover obtain r where "transition hs dr c status stage event evidence (db, ss) = (r, db', ss')"
    using assms(1) unit_answerD unfolding transition_request store_answer.simps by metis
  ultimately show ?thesis using transition_recovered rec by blast
next
  case (tests_request c tests)
  then show ?thesis using assms(1) rec unit_answerD record_tests_calm
    unfolding tests_request store_answer.simps calm_def by metis
next
  case (commit_request c candidate)
  then show ?thesis using assms(1) rec unit_answerD record_commit_calm
    unfolding commit_request store_answer.simps calm_def by metis
next
  case (remote_request c remote)
  then show ?thesis using assms(1) rec unit_answerD record_remote_calm
    unfolding remote_request store_answer.simps calm_def by metis
next
  case (conflict_request c paths m)
  then show ?thesis using assms(1) rec unit_answerD record_conflict_calm
    unfolding conflict_request store_answer.simps calm_def by metis
next
  case (fail_request c status fc code m)
  then have "status \<noteq> RECOVERED" using ok by (cases st) simp
  moreover obtain r where "fail hs dr c status fc code m (db, ss) = (r, db', ss')"
    using assms(1) unit_answerD unfolding fail_request store_answer.simps by metis
  ultimately show ?thesis using fail_recovered rec by blast
next
  case (complete_request c candidate remote)
  moreover obtain r where "complete hs dr c candidate remote (db, ss) = (r, db', ss')"
    using assms(1) unit_answerD unfolding complete_request store_answer.simps by metis
  ultimately show ?thesis using complete_recovered rec by blast
qed (use assms in simp_all)

interpretation recovery_store: attempt_store "store_answer hs" for hs
proof unfold_locales
  show "store_answer hs dr q s \<noteq> None" if "for_store q" for dr q s
    using that by (cases q; cases s) (auto split: sum.splits prod.splits)
next
  fix dr q db ss ans db' ss'
  assume "store_answer hs dr q (db, ss) = Some (ans, db', ss')" "\<not> is_claim q" "\<not> arms q ans"
  from store_tidy [OF this]
  show "runs_le db db' \<and> same_push db db' \<and> ss_active_runs ss' = ss_active_runs ss"
    unfolding tidy_def by blast
next
  fix dr c status event evidence db ss db' ss'
  assume "store_answer hs dr (transition_request c status PUSH event evidence) (db, ss) =
    Some (Unit_Answer, db', ss')"
  from transition_push [OF store_push [OF this]]
  show "runs_le db db' \<and> ss_active_runs ss' = ss_active_runs ss \<and>
    (\<exists>rid. ss_active_runs ss (rc_attempt_id c) = Some rid \<and> open_run rid db) \<and>
    \<not> unpushed (rc_attempt_id c) db' \<and>
    (\<forall>b. b \<noteq> rc_attempt_id c \<longrightarrow> unpushed b db' = unpushed b db)"
    by blast
next
  fix dr a name db ss ans db' ss'
  assume ok: "runs_ok db"
    and "store_answer hs dr (claim_request a name) (db, ss) = Some (ans, db', ss')"
  then obtain r where r: "claim_and_load hs dr a name (db, ss) = (r, db', ss')"
    and ans: "\<And>c. ans = Command_Answer c \<longleftrightarrow> r = Inr c"
    using store_claim by metis
  show "same_push db db' \<and>
    (runs_le db db' \<and> ss_active_runs ss' = ss_active_runs ss \<and> (\<forall>c. ans \<noteq> Command_Answer c) \<or>
     claimed a (dr_uuid dr 1) db db' \<and> ss_active_runs ss' = (ss_active_runs ss)(a \<mapsto> dr_uuid dr 1) \<and>
       (\<forall>c. ans = Command_Answer c \<longrightarrow> rc_attempt_id c = a \<and>
          (rc_initial_status c \<noteq> PUSH_UNCERTAIN \<longrightarrow> unpushed a db) \<and>
          (\<forall>candidate. rc_existing_candidate c = Some candidate \<longrightarrow>
             has_commit a (candidate_shas candidate) db')))"
    using claim_claims [OF r ok] claim_quiet [OF r] ans by auto
qed (use store_log store_recovered recorded_commit recorded_remote unit_answerD in
      \<open>(simp; metis)+\<close>)

end
