(* ===== verification/Recovery_Sample.thy ===== *)
theory Recovery_Sample
  imports Recovery_Contract
begin

text \<open>
  A recovery from its first request to its last, for the witnesses: \<open>play\<close> runs the first worker
  of a system through a list of events, and every system it reaches is reachable.
\<close>

section \<open>A played history\<close>

text \<open>
  \<open>play\<close> runs the first worker through a list of events, for the witnesses: it starts, its store
  answers with the given draws, or a collaborator answers.
\<close>

datatype event = Start uuid string | Store draws | Reply answer

definition set_worker :: "worker \<Rightarrow> recovery_system \<Rightarrow> recovery_system" where
  "set_worker wk sys = sys\<lparr>sy_workers := (sy_workers sys)(0 := wk)\<rparr>"

fun happens :: "hashing \<Rightarrow> string \<Rightarrow> event \<Rightarrow> recovery_system \<Rightarrow> recovery_system option" where
  "happens hs temp_root (Start a name) sys =
     (let wk = sy_workers sys 0
      in case wk_process wk of
           Done r \<Rightarrow> Some (set_worker (wk\<lparr>wk_attempt := a, wk_process := execute temp_root a name\<rparr>) sys)
         | Ask q k \<Rightarrow> None)"
| "happens hs temp_root (Store dr) sys =
     (let wk = sy_workers sys 0
      in case wk_process wk of
           Done r \<Rightarrow> None
         | Ask q k \<Rightarrow>
             (case store_answer hs dr q (sy_db sys, wk_session wk) of
                None \<Rightarrow> None
              | Some (a, db', ss') \<Rightarrow>
                  if dr_uuid dr 1 \<in> rn_id ` set (db_runs (sy_db sys)) then None
                  else Some (sys\<lparr>sy_db := db', sy_workers := (sy_workers sys)(0 :=
                    wk\<lparr>wk_session := ss', wk_process := k a\<rparr>)\<rparr>)))"
| "happens hs temp_root (Reply a) sys =
     (let wk = sy_workers sys 0
      in case wk_process wk of
           Done r \<Rightarrow> None
         | Ask q k \<Rightarrow>
             if for_store q then None
             else Some (sys\<lparr>sy_workers := (sy_workers sys)(0 := wk\<lparr>wk_process := k a\<rparr>),
               sy_pushed := (if is_push q then wk_attempt wk # sy_pushed sys else sy_pushed sys)\<rparr>))"

primrec play :: "hashing \<Rightarrow> string \<Rightarrow> event list \<Rightarrow> recovery_system \<Rightarrow> recovery_system option" where
  "play hs temp_root [] sys = Some sys"
| "play hs temp_root (e # es) sys =
     (case happens hs temp_root e sys of None \<Rightarrow> None | Some sys' \<Rightarrow> play hs temp_root es sys')"

lemma not_for_store: "\<not> for_store q \<Longrightarrow> store_answer hs dr q s = None"
  by (cases q) simp_all

lemma happens_step:
  assumes "happens hs temp_root e sys = Some sys'"
  shows "recovery_step (store_answer hs) temp_root sys sys'"
proof (cases e)
  case (Start a name)
  then show ?thesis
    using assms by (auto simp: Let_def set_worker_def intro: recovery_step.start split: process.splits)
next
  case (Store dr)
  obtain q k where p: "wk_process (sy_workers sys 0) = Ask q k"
    using assms Store by (auto simp: Let_def split: process.splits)
  obtain a db' ss' where st: "store_answer hs dr q (sy_db sys, wk_session (sy_workers sys 0)) = Some (a, db', ss')"
    and fresh: "dr_uuid dr 1 \<notin> rn_id ` set (db_runs (sy_db sys))"
    and sys': "sys' = sys\<lparr>sy_db := db', sy_workers := (sy_workers sys)(0 :=
      (sy_workers sys 0)\<lparr>wk_session := ss', wk_process := k a\<rparr>)\<rparr>"
    using assms Store p by (auto simp: Let_def split: option.splits if_splits)
  show ?thesis unfolding sys' by (rule recovery_step.store [where w = 0 and sys = sys and dr = dr and q = q and answer_of = "store_answer hs" and k = k and wk = "sy_workers sys 0", OF refl p st fresh])
next
  case (Reply a)
  obtain q k where p: "wk_process (sy_workers sys 0) = Ask q k" and nq: "\<not> for_store q"
    and sys': "sys' = sys\<lparr>sy_workers := (sy_workers sys)(0 := (sy_workers sys 0)\<lparr>wk_process := k a\<rparr>),
      sy_pushed := (if is_push q then wk_attempt (sy_workers sys 0) # sy_pushed sys else sy_pushed sys)\<rparr>"
    using assms Reply by (auto simp: Let_def split: process.splits if_splits)
  show ?thesis
    unfolding sys'
    by (rule recovery_step.collaborator [where w = 0 and sys = sys and q = q and k = k
          and answer_of = "store_answer hs" and wk = "sy_workers sys 0",
          OF refl p not_for_store [OF nq]])
qed

lemma play_reachable:
  "recovery_reachable (store_answer hs) temp_root sys \<Longrightarrow> play hs temp_root es sys = Some sys' \<Longrightarrow>
   recovery_reachable (store_answer hs) temp_root sys'"
proof (induction es arbitrary: sys)
  case (Cons e es)
  then obtain mid where mid: "happens hs temp_root e sys = Some mid" "play hs temp_root es mid = Some sys'"
    by (auto split: option.splits)
  show ?case by (rule Cons.IH [OF recovery_reachable.later [OF Cons.prems(1) happens_step [OF mid(1)]] mid(2)])
qed simp

section \<open>A sample\<close>

definition sample_hashing :: hashing where
  "sample_hashing = \<lparr>hs_canonical_json = (\<lambda>_. ''{}''), hs_sha256 = (\<lambda>_. ''{}'')\<rparr>"

definition sample_attempt :: RecoveryAttemptModel where
  "sample_attempt = \<lparr>at_id = 1, at_rollback_approval_id = 2, at_recovery_assessment_id = 3,
     at_rollback_record_id = 4, at_project_id = 5, at_target_branch = ''main'',
     at_expected_remote_head_sha = ''head'', at_integration_commit_sha = ''bad'',
     at_recovery_strategy = REVERT_COMMIT, at_status = QUEUED, at_correlation_id = 6,
     at_failure_class = None, at_failure_code = None, at_failure_message = None,
     at_worker_id = None, at_started_at = None, at_push_started_at = None, at_completed_at = None\<rparr>"

definition sample_approval :: RollbackApprovalModel where
  "sample_approval = \<lparr>vm_id = 2, vm_recovery_assessment_id = 3, vm_rollback_record_id = 4,
     vm_project_id = 5, vm_target_branch = ''main'', vm_recovery_strategy = REVERT_COMMIT,
     vm_expected_remote_head_sha = ''head'', vm_integration_commit_sha = ''bad'',
     vm_required_test_commands = [[(''argv'', JList [JText ''pytest''])]],
     vm_required_test_commands_sha256 = ''{}'', vm_approval_binding_sha256 = ''{}'',
     vm_status = CONSUMED, vm_approver_subject = ''ann'', vm_reason = ''broken'',
     vm_approved_at = 0, vm_consumed_at = Some 0, vm_expires_at = None\<rparr>"

definition sample_assessment :: RecoveryAssessmentModel where
  "sample_assessment = \<lparr>sm_id = 3, sm_incident_id = 7, sm_rollback_record_id = 4,
     sm_status = REVERTIBLE, sm_recommended_strategy = REVERT_COMMIT, sm_risk_level = ''low'',
     sm_expected_remote_head_sha = ''head'', sm_integration_commit_is_ancestor = True,
     sm_direct_revert_possible = True, sm_database_coordination_required = False,
     sm_external_coordination_required = False, sm_required_test_commands = [],
     sm_findings = [], sm_assessment_policy_version = ''v1'', sm_assessment_binding_sha256 = ''{}'',
     sm_assessed_by = ''ann'', sm_assessed_at = 0\<rparr>"

definition sample_rollback :: RollbackRecordModel where
  "sample_rollback = \<lparr>rm_id = 4, rm_integration_attempt_id = 8, rm_integration_commit_id = 9,
     rm_project_id = 5, rm_target_branch = ''main'', rm_integration_commit_sha = ''bad'',
     rm_parent_commit_sha = ''parent'', rm_integration_tree_sha = ''tree'', rm_parent_tree_sha = ''ptree'',
     rm_changed_paths = [], rm_changed_paths_sha256 = [], rm_inverse_diff_artifact_id = 10,
     rm_inverse_diff_sha256 = [], rm_original_patch_sha256 = [], rm_approved_test_commands = [],
     rm_approved_test_commands_sha256 = [], rm_external_side_effects_declared = False,
     rm_database_change_detected = False, rm_deployment_change_detected = False,
     rm_recovery_policy_version = ''v1'', rm_rollback_binding_sha256 = [], rm_created_at = 0\<rparr>"

definition sample_recovery :: recovery_system where
  "sample_recovery = \<lparr>sy_db = \<lparr>db_projects = [\<lparr>pm_id = 5, pm_repository_url = Some ''git'', pm_default_branch = ''main''\<rparr>],
       db_rollbacks = [sample_rollback], db_assessments = [sample_assessment],
       db_approvals = [sample_approval], db_attempts = [sample_attempt], db_runs = [], db_stages = [],
       db_tests = [], db_commits = [], db_remotes = [], db_artifacts = [],
       db_audit = \<lparr>au_events = [], au_chain = []\<rparr>\<rparr>,
     sy_workers = (\<lambda>_. \<lparr>wk_session = new_session, wk_attempt = 0, wk_process = Done (Inr ())\<rparr>),
     sy_pushed = []\<rparr>"

definition sample_draws :: "nat \<Rightarrow> draws" where
  "sample_draws n = \<lparr>dr_uuid = (\<lambda>i. of_nat (100 * n + i)), dr_clock = (\<lambda>_. int n), dr_held = []\<rparr>"

definition sample_candidate :: CandidateCommit where
  "sample_candidate = \<lparr>cc_commit_sha = ''new'', cc_tree_sha = ''t'', cc_parent_sha = ''head'',
     cc_message = ''m'', cc_author_identity = ''bot'', cc_committer_identity = ''bot''\<rparr>"

definition sample_snapshot :: SnapshotEvidence where
  "sample_snapshot = \<lparr>se_path = ''/s'', se_remote_url = ''git'', se_commit_sha = ''head'',
     se_tree_sha = ''tree'', se_clean = True, se_submodules_verified = True, se_git_config_sha256 = []\<rparr>"

definition sample_workspace :: WorkspaceEvidence where
  "sample_workspace = \<lparr>we_changed_paths = [''a.py''], we_tree_sha = ''t''\<rparr>"

definition sample_tests :: "TestRunEvidence list" where
  "sample_tests = [\<lparr>te_command_index = 0, te_argv = [''pytest''], te_command_sha256 = [],
     te_status = ''passed'', te_exit_code = Some 0, te_duration_ms = 5, te_stdout = [], te_stderr = []\<rparr>]"

text \<open>The first worker executes the attempt up to its push, and to its end.\<close>

definition until_tested :: "event list" where
  "until_tested =
     [Start 1 ''w'', Store (sample_draws 1), Store (sample_draws 2),
      Reply (Snapshot_Answer sample_snapshot), Store (sample_draws 3),
      Reply (Revert_Answer \<lparr>pv_integration_commit_sha = ''bad'', pv_changed_paths = [''a.py''],
        pv_candidate_tree_sha = ''t''\<rparr>),
      Reply (Workspace_Answer sample_workspace), Store (sample_draws 4), Reply Unit_Answer,
      Reply Unit_Answer, Reply Unit_Answer, Reply (Tests_Answer sample_tests),
      Reply (Workspace_Answer sample_workspace), Store (sample_draws 5)]"

definition until_recovered :: "event list" where
  "until_recovered =
     [Store (sample_draws 6), Reply (Commit_Answer sample_candidate), Store (sample_draws 7),
      Store (sample_draws 8), Reply Unit_Answer,
      Reply (Remote_Answer \<lparr>re_branch = ''main'', re_commit_sha = ''new'', re_tree_sha = ''t'',
        re_parent_sha = ''head''\<rparr>),
      Store (sample_draws 9), Store (sample_draws 10), Store (sample_draws 11), Reply Unit_Answer]"

definition sample_run :: "event list \<Rightarrow> recovery_system" where
  "sample_run es = (case play sample_hashing ''/tmp'' es sample_recovery of
     None \<Rightarrow> sample_recovery | Some sys \<Rightarrow> sys)"

lemma sample_run_reachable: "recovery_reachable (store_answer sample_hashing) ''/tmp'' (sample_run es)"
proof -
  have "initial_system sample_recovery"
    by (simp add: initial_system_def sample_recovery_def sample_attempt_def new_session_def)
  then have "recovery_reachable (store_answer sample_hashing) ''/tmp'' sample_recovery"
    by (rule recovery_reachable.initially)
  then show ?thesis
    unfolding sample_run_def by (auto split: option.split intro: play_reachable)
qed


text \<open>Evaluation leaves the continuation of a process alone until it is asked for.\<close>

lemma weak_congs:
  "q = q' \<Longrightarrow> Ask q k = Ask q' k"
  "p = p' \<Longrightarrow> bind_process p f = bind_process p' f"
  "p = p' \<Longrightarrow> handle p h = handle p' h"
  "p = p' \<Longrightarrow> finally_do p r = finally_do p' r"
  by simp_all

lemmas store_defs = claim_and_load_def broken_session_def load_claim_def initial_status_def
  safe_restart_statuses_def latest_run_def first_by_def get_row_def validate_bindings_def
  approval_binding_hash_def hash_json_def hash_text_def new_run_def expire_run_def update_attempt_def update_run_def
  update_stage_def alter_def claim_attempt_def recovery_command_def approved_commands_def approved_command_def
  transition_def fenced_def locked_def complete_previous_def running_stage_def new_stage_def 
  record_tests_def test_rows_def test_rows_unique_def record_commit_def recovery_commit_def record_remote_def
  complete_def close_stage_def CLAIM_DURATION_def seconds_def unit_answer_def new_session_def artifact_def

lemmas process_defs = execute_def ask_defs ask_def answered_def recovering_def take_snapshot_def build_revert_def
  test_revert_def commit_revert_def push_revert_def with_snapshot_def under_def raise_error_def return_value_def
  finish_def try_reconcile_def

lemmas sample_defs = sample_run_def until_tested_def until_recovered_def sample_recovery_def sample_attempt_def sample_approval_def sample_assessment_def
  sample_rollback_def sample_draws_def sample_candidate_def sample_snapshot_def sample_workspace_def sample_tests_def
  sample_hashing_def set_worker_def Let_def





lemma bot_identity: "identity ''bot'' = (''bot'', ''recovery-worker@internal.invalid'')"
  by code_simp

text \<open>The attempts that were pushed, and the status of every attempt.\<close>

definition summary :: "recovery_system \<Rightarrow> uuid list \<times> RecoveryAttemptStatus list" where
  "summary sys = (sy_pushed sys, map at_status (db_attempts (sy_db sys)))"

lemma sample_outcome: "summary (sample_run (until_tested @ until_recovered)) = ([1], [RECOVERED])"
  by (simp add: summary_def store_defs process_defs sample_defs audit_def bot_identity cong: weak_congs)

text \<open>The claimed attempt: its worker passes the fence.\<close>

definition sample_command :: RecoveryCommand where
  "sample_command = \<lparr>rc_attempt_id = 1, rc_project_id = 5, rc_worker_id = ''w'',
     rc_initial_status = QUEUED, rc_policy = repository_policy [] [] [] [],
     rc_expected_remote_head_sha = ''head'', rc_integration_commit_sha = ''bad'',
     rc_rollback_record_id = 4, rc_approval_id = 2, rc_approval_binding_sha256 = ''{}'',
     rc_scope = execution_scope sample_rollback, rc_tests = [], rc_commit_message = [],
     rc_commit_timestamp = 0, rc_existing_candidate = None\<rparr>"

definition passes :: "RecoveryCommand \<Rightarrow> recovery_system \<Rightarrow> bool" where
  "passes c sys = (case locked (sample_draws 1) c (sy_db sys, wk_session (sy_workers sys 0)) of
     Inl e \<Rightarrow> False | Inr x \<Rightarrow> True)"

lemma sample_fence:
  "\<exists>c x. locked (sample_draws 1) c
     (sy_db (sample_run (take 2 until_tested)),
      wk_session (sy_workers (sample_run (take 2 until_tested)) 0)) = Inr x"
proof -
  have "passes sample_command (sample_run (take 2 until_tested))"
    by (simp add: passes_def sample_command_def store_defs process_defs sample_defs audit_def
        cong: weak_congs)
  then show ?thesis by (auto simp: passes_def split: sum.splits)
qed

text \<open>The tables after a crash between the tests and the push, and the next claim.\<close>

definition sample_restarted :: store_state where
  "sample_restarted =
     ((sy_db sample_recovery)
        \<lparr>db_runs := [\<lparr>rn_id = 202, rn_recovery_attempt_id = 1, rn_run_number = 2, rn_worker_id = ''w'',
           rn_status = ''running'', rn_current_stage = TEST, rn_claim_token_hash = [],
           rn_claim_expires_at = 100, rn_failure_class = None, rn_failure_code = None,
           rn_started_at = 0, rn_completed_at = None\<rparr>],
         db_tests := [\<lparr>tm_id = 300, tm_recovery_attempt_id = 1, tm_command_index = 0,
           tm_command = JNull, tm_status = ''passed'', tm_exit_code = Some 0,
           tm_stdout_artifact_id = None, tm_stderr_artifact_id = None, tm_duration_ms = Some 5\<rparr>]\<rparr>,
      \<lparr>ss_active_runs = [1 \<mapsto> 202], ss_broken = False\<rparr>)"

lemma sample_restarted_fence: "\<exists>x. locked (sample_draws 1) sample_command sample_restarted = Inr x"
  by (simp add: sample_restarted_def sample_recovery_def sample_command_def sample_attempt_def
      sample_draws_def locked_def get_row_def Let_def)

end
