(* ===== verification/Recovery_Guarantees.thy ===== *)
theory Recovery_Guarantees
  imports Recovery_Sample
begin

text \<open>
  What controlled recovery promises, for any number of workers on one database, any answers of
  the collaborators and any crashes: an attempt is pushed at most once, one worker at a time
  passes the fence of an attempt, a recovered attempt has its evidence on record, and an
  execution asks a bounded number of requests and cleans up the snapshot it took. One statement
  is about what goes wrong: an attempt that restarts after its tests were recorded cannot finish.
\<close>

section \<open>Safety\<close>

text \<open>
  C2: Whatever the interleaving of workers, crashes and answers of the collaborators, the worker
  asks the remote repository at most once to push the revert of a recovery attempt; a later
  claim only reconciles.
\<close>

theorem push_at_most_once:
  assumes "recovery_reachable (store_answer hs) temp_root sys"
  shows "count_list (sy_pushed sys) a \<le> 1"
  by (rule recovery_store.pushed_once [OF assms])

lemma push_at_most_once_witness:
  "sy_pushed (sample_run (until_tested @ until_recovered)) = [1] \<and>
   count_list (sy_pushed (sample_run (until_tested @ until_recovered))) 1 \<le> 1"
  using push_at_most_once [OF sample_run_reachable, of "until_tested @ until_recovered" 1]
    sample_outcome
  by (simp add: summary_def)

text \<open>
  C11: At any reachable moment at most one worker passes the fence of an attempt: if two sessions
  are let through by \<^verbatim>\<open>_locked\<close>, for commands of the same attempt, they are the same.
\<close>

theorem one_worker_passes_fence:
  assumes "recovery_reachable (store_answer hs) temp_root sys"
    and "locked dr c (sy_db sys, wk_session (sy_workers sys w)) = Inr x"
    and "locked dr' c' (sy_db sys, wk_session (sy_workers sys w')) = Inr x'"
    and "rc_attempt_id c = rc_attempt_id c'"
  shows "w = w'"
proof -
  obtain rid where "active sys w (rc_attempt_id c) = Some rid" "open_run rid (sy_db sys)"
    using locked_Inr [of dr c] assms(2) unfolding active_def by (cases x) blast
  moreover obtain rid' where "active sys w' (rc_attempt_id c) = Some rid'" "open_run rid' (sy_db sys)"
    using locked_Inr [of dr' c'] assms(3,4) unfolding active_def by (cases x') metis
  ultimately show ?thesis by (rule recovery_store.fence_exclusive [OF assms(1)])
qed

lemma one_worker_passes_fence_witness:
  "let sys = sample_run (take 2 until_tested); s = (sy_db sys, wk_session (sy_workers sys 0))
   in \<exists>c x. locked (sample_draws 1) c s = Inr x \<and> (0::nat) = 0"
proof -
  let ?sys = "sample_run (take 2 until_tested)"
  obtain c x where "locked (sample_draws 1) c (sy_db ?sys, wk_session (sy_workers ?sys 0)) = Inr x"
    using sample_fence by blast
  then show ?thesis
    using one_worker_passes_fence [OF sample_run_reachable] unfolding Let_def by metis
qed

text \<open>
  C9: An attempt is marked as recovered only when its commit and a remote verification of it are
  on record, and the hashes of the commit, its tree and its parent agree.
\<close>

theorem recovered_only_with_evidence:
  assumes "recovery_reachable (store_answer hs) temp_root sys"
    and "attempt \<in> set (db_attempts (sy_db sys))" and "at_status attempt = RECOVERED"
  shows "\<exists>commit remote. recovery_commit (at_id attempt) (sy_db sys) = Some commit \<and>
    get_row vr_recovery_commit_id (cm_id commit) (db_remotes (sy_db sys)) = Some remote \<and>
    vr_remote_commit_sha remote = cm_commit_sha commit \<and>
    vr_remote_tree_sha remote = cm_tree_sha commit \<and>
    vr_remote_parent_sha remote = cm_parent_commit_sha commit"
proof -
  have "recovered (at_id attempt) (sy_db sys)" using assms(2,3) unfolding recovered_def by blast
  from recovery_store.recovered_proven [OF assms(1) this]
  show ?thesis
    unfolding proven_def has_commit_def has_remote_def commit_shas_def verification_shas_def by auto
qed

lemma recovered_only_with_evidence_witness:
  "let db = sy_db (sample_run (until_tested @ until_recovered)); a = at_id (hd (db_attempts db))
   in \<exists>commit. db_attempts db \<noteq> [] \<and> recovery_commit a db = Some commit"
proof -
  let ?rows = "db_attempts (sy_db (sample_run (until_tested @ until_recovered)))"
  obtain x where x: "?rows = [x]" "at_status x = RECOVERED"
    using sample_outcome by (cases ?rows) (auto simp: summary_def)
  then show ?thesis
    using recovered_only_with_evidence [OF sample_run_reachable, of x "until_tested @ until_recovered"]
    by (auto simp: Let_def)
qed

section \<open>The restart after the tests\<close>

lemma recorded_again:
  "r \<in> set new \<Longrightarrow> q \<in> set (db_tests db) \<Longrightarrow> tm_recovery_attempt_id q = tm_recovery_attempt_id r \<Longrightarrow>
   tm_command_index q = tm_command_index r \<Longrightarrow> \<not> test_rows_unique db new"
  unfolding test_rows_unique_def list_all_iff by force

text \<open>
  C29: The tests of an attempt are recorded once. When they are recorded again, as a worker does
  that claims the attempt after a crash between the tests and the push, the database refuses the
  row, and from then on the session refuses every operation, \<^verbatim>\<open>fail\<close> included: the attempt keeps
  its status and its run stays open until the lease expires.
\<close>

theorem recorded_tests_block_restart:
  assumes "locked dr c (db, ss) = Inr (attempt, run, db1)" and "\<not> ss_broken ss"
    and "item \<in> set tests" and "old \<in> set (db_tests db)"
    and "tm_recovery_attempt_id old = rc_attempt_id c"
    and "tm_command_index old = te_command_index item"
  shows "record_tests hs dr c tests (db, ss) =
      (Inl (IntegrityError ''uq_recovery_test_command''), (db, ss\<lparr>ss_broken := True\<rparr>)) \<and>
    (\<forall>dr' q. for_store q \<longrightarrow> store_answer hs dr' q (db, ss\<lparr>ss_broken := True\<rparr>) =
       Some (Raised (PendingRollbackError ''This Session's transaction has been rolled back''),
         (db, ss\<lparr>ss_broken := True\<rparr>)))"
proof
  let ?new = "map (\<lambda>(stdout, stderr, row). row)
    (map (\<lambda>(i, item). test_rows hs dr attempt i item) (enumerate 0 tests))"
  have "item \<in> snd ` set (enumerate 0 tests)"
    using assms(3) by (metis map_snd_enumerate set_map)
  then obtain i where "(i, item) \<in> set (enumerate 0 tests)" by auto
  then have "snd (snd (test_rows hs dr attempt i item)) \<in> set ?new" by (force split: prod.splits)
  then have "\<not> test_rows_unique db1 ?new"
  proof (rule recorded_again)
    show "old \<in> set (db_tests db1)"
      using assms(1,4) by (auto simp: locked_def Let_def update_run_def split: option.splits if_splits)
  qed (use assms(5,6) locked_attempt [OF assms(1)] in \<open>simp_all add: test_rows_def Let_def\<close>)
  then show "record_tests hs dr c tests (db, ss) =
      (Inl (IntegrityError ''uq_recovery_test_command''), (db, ss\<lparr>ss_broken := True\<rparr>))"
    using assms(1,2) by (simp add: record_tests_def fenced_def broken_session_def Let_def)
  show "\<forall>dr' q. for_store q \<longrightarrow> store_answer hs dr' q (db, ss\<lparr>ss_broken := True\<rparr>) =
       Some (Raised (PendingRollbackError ''This Session's transaction has been rolled back''),
         (db, ss\<lparr>ss_broken := True\<rparr>))"
  proof (intro allI impI)
    fix dr' q assume "for_store q"
    then show "store_answer hs dr' q (db, ss\<lparr>ss_broken := True\<rparr>) =
       Some (Raised (PendingRollbackError ''This Session's transaction has been rolled back''),
         (db, ss\<lparr>ss_broken := True\<rparr>))"
      by (cases q) (simp_all add: unit_answer_def broken_session_def claim_and_load_def fenced_def
        transition_def record_tests_def record_commit_def record_remote_def record_conflict_def
        fail_def complete_def)
  qed
qed

lemma recorded_tests_block_restart_witness:
  "fst (record_tests sample_hashing (sample_draws 1) sample_command sample_tests sample_restarted) =
     Inl (IntegrityError ''uq_recovery_test_command'')"
proof -
  obtain attempt run db1 where "locked (sample_draws 1) sample_command
      (fst sample_restarted, snd sample_restarted) = Inr (attempt, run, db1)"
    using sample_restarted_fence by auto
  from recorded_tests_block_restart [OF this, of "hd sample_tests" sample_tests
      "hd (db_tests (fst sample_restarted))" sample_hashing]
  show ?thesis
    by (simp add: sample_restarted_def sample_tests_def sample_command_def)
qed

section \<open>Executions end\<close>

text \<open>The requests asked so far and the snapshots that were taken and not cleaned up.\<close>

definition tally ::
  "nat \<times> SnapshotEvidence list \<Rightarrow> request \<Rightarrow> answer \<Rightarrow> nat \<times> SnapshotEvidence list" where
  "tally st q a =
     (fst st + 1,
      case q of
        prepare_snapshot policy sha \<Rightarrow>
          (case a of Snapshot_Answer s \<Rightarrow> s # snd st | _ \<Rightarrow> snd st)
      | cleanup_snapshot s \<Rightarrow> remove1 s (snd st)
      | _ \<Rightarrow> snd st)"

fun is_snapshot :: "request \<Rightarrow> bool" where
  "is_snapshot (prepare_snapshot policy sha) = True"
| "is_snapshot (cleanup_snapshot s) = True"
| "is_snapshot q = False"

definition spent :: "nat \<Rightarrow> nat \<times> SnapshotEvidence list \<Rightarrow> nat \<times> SnapshotEvidence list \<Rightarrow> bool" where
  "spent k st st' \<longleftrightarrow> fst st' \<le> fst st + k \<and> snd st' = snd st"

abbreviation tallied ::
  "('e, 'a) recovery_process \<Rightarrow> nat \<times> SnapshotEvidence list \<Rightarrow>
   ('e + 'a \<Rightarrow> nat \<times> SnapshotEvidence list \<Rightarrow> bool) \<Rightarrow> bool" where
  "tallied \<equiv> wp (\<lambda>_ _. True) tally"

definition spends :: "nat \<Rightarrow> ('e, 'a) recovery_process \<Rightarrow> bool" where
  "spends k p \<longleftrightarrow> (\<forall>st. tallied p st (\<lambda>_ st'. spent k st st'))"

lemma spent_trans: "spent i a b \<Longrightarrow> spent j b c \<Longrightarrow> i + j \<le> k \<Longrightarrow> spent k a c"
  by (auto simp: spent_def)

lemma spent_mono: "spent i a b \<Longrightarrow> i \<le> k \<Longrightarrow> spent k a b"
  by (auto simp: spent_def)

lemma spendsD: "spends k p \<Longrightarrow> (\<And>r st'. spent k st st' \<Longrightarrow> Q r st') \<Longrightarrow> tallied p st Q"
  unfolding spends_def by (blast intro: wp_mono)

lemma spends_bind:
  assumes "spends i p" and "\<And>x. spends j (f x)" and "i + j \<le> k"
  shows "spends k (bind_process p f)"
  unfolding spends_def wp_bind
  using assms(3)
  by (auto intro!: spendsD [OF assms(1)] spendsD [OF assms(2)] split: sum.splits
      intro: spent_trans spent_mono)

lemma spends_handle:
  assumes "spends i p" and "\<And>e. spends j (h e)" and "i + j \<le> k"
  shows "spends k (handle p h)"
  unfolding spends_def wp_handle
  using assms(3)
  by (auto intro!: spendsD [OF assms(1)] spendsD [OF assms(2)] split: sum.splits
      intro: spent_trans spent_mono)

lemma spends_under: "spends k p \<Longrightarrow> spends k (under tag p)"
  unfolding under_def raise_error_def
  by (rule spends_handle [where i = k and j = 0]) (simp_all add: spends_def spent_def)

lemma spends_nothing: "spends k (raise_error e)" "spends k (return_value x)"
  by (simp_all add: spends_def wp_simps spent_def)

lemma spends_one:
  "\<not> is_snapshot q \<Longrightarrow> 1 \<le> k \<Longrightarrow> spends k (ask q view)"
  by (cases q) (simp_all add: spends_def wp_simps spent_def tally_def)

lemma spends_if: "spends k p \<Longrightarrow> spends k q \<Longrightarrow> spends k (if b then p else q)"
  by simp

lemma spends_ask:
  "\<not> is_snapshot q \<Longrightarrow> 0 < k \<Longrightarrow> (\<And>x. spends (k - 1) (f x)) \<Longrightarrow> spends k (bind_process (ask q view) f)"
  by (rule spends_bind [where i = 1 and j = "k - 1"]) (simp_all add: spends_one)

lemma spends_under_ask:
  "\<not> is_snapshot q \<Longrightarrow> 0 < k \<Longrightarrow> (\<And>x. spends (k - 1) (f x)) \<Longrightarrow>
   spends k (bind_process (under tag (ask q view)) f)"
  by (rule spends_bind [where i = 1 and j = "k - 1"]) (simp_all add: spends_one spends_under)

lemmas spends_rules = spends_ask spends_under_ask spends_under spends_if spends_nothing spends_one

lemma spends_finish: "spends 3 (finish c candidate remote)"
  unfolding finish_def ask_unit_def by (intro spends_rules) simp_all

lemma spends_build_revert: "spends 3 (build_revert c s)"
  unfolding build_revert_def ask_defs by (intro spends_rules) simp_all

lemma spends_test_revert: "spends 7 (test_revert temp_root c s p)"
  unfolding test_revert_def ask_defs Let_def by (intro spends_rules) simp_all

lemma spends_commit_revert: "spends 3 (commit_revert c s t)"
  unfolding commit_revert_def ask_defs by (intro spends_rules) simp_all

lemma spends_push_revert: "spends 3 (push_revert c s candidate)"
  unfolding spends_def push_revert_def Let_def
  by (auto simp: wp_simps ask_defs try_reconcile_def tally_def spent_def
      split: sum.splits option.splits py_exception.splits)

lemma spends_with_snapshot: "spends 19 (with_snapshot temp_root c s)"
  unfolding with_snapshot_def
  by (rule spends_bind [OF spends_build_revert spends_bind [OF spends_test_revert
        spends_bind [OF spends_commit_revert spends_bind [where j = 3, OF spends_push_revert]]]])
    (auto intro: spends_under spends_finish)

lemma spends_recovering:
  assumes "spends k p"
  shows "spends (k + 2) (recovering c p)"
  unfolding recovering_def
  by (rule spends_handle [OF assms, where j = 2])
    (auto simp: ask_unit_def intro!: spends_rules split: py_exception.split)

lemma answered_with_snapshot [simp]:
  "answered (\<lambda>a. case a of Snapshot_Answer s \<Rightarrow> Some s | _ \<Rightarrow> None) (Snapshot_Answer s) = Inr s"
  by simp

text \<open>The snapshot is taken at the end.\<close>

lemma take_snapshot_tally:
  "tallied (recovering c (take_snapshot c)) st (\<lambda>r st'. fst st' \<le> fst st + 4 \<and>
     (case r of Inl e \<Rightarrow> snd st' = snd st | Inr s \<Rightarrow> fst st' \<le> fst st + 2 \<and> snd st' = s # snd st))"
  by (auto simp: recovering_def take_snapshot_def wp_simps ask_defs tally_def
      split: sum.splits py_exception.splits answer.splits)

lemma cleaned_up:
  assumes "spends k p" and "snd st = s # taken"
  shows "tallied (finally_do p (ask_unit (cleanup_snapshot s))) st
    (\<lambda>_ st'. fst st' \<le> fst st + k + 1 \<and> snd st' = taken)"
  unfolding wp_finally
  by (rule spendsD [OF assms(1)])
    (use assms(2) in \<open>auto simp: ask_unit_def wp_ask tally_def spent_def split: sum.splits\<close>)

lemma reconcile_tally:
  "tallied (reconcile_only c) st (\<lambda>_ st'. fst st' \<le> fst st + 7 \<and> snd st' = snd st)"
proof (cases "rc_existing_candidate c")
  case None
  then show ?thesis by (simp add: reconcile_only_def wp_simps)
next
  case (Some candidate)
  let ?body = "\<lambda>s. handle
    (bind_process (ask_remote (verify_remote (se_path s) (rc_policy c) candidate))
      (\<lambda>remote. finish c candidate remote))
    (\<lambda>e. bind_process (ask_unit (fail_request c PUSH_UNCERTAIN CONCURRENCY_CONFLICT
       (exception_code e) (take 2000 (exception_text e)))) (\<lambda>_. raise_error e))"
  have body: "spends 5 (?body s)" for s
  proof (rule spends_handle [where i = 4 and j = 1])
    show "spends 4 (bind_process (ask_remote (verify_remote (se_path s) (rc_policy c) candidate))
        (\<lambda>remote. finish c candidate remote))"
      unfolding ask_remote_def
      by (rule spends_bind [where i = 1, OF spends_one spends_finish]) simp_all
    show "spends 1 (bind_process (ask_unit (fail_request c PUSH_UNCERTAIN CONCURRENCY_CONFLICT
        (exception_code e) (take 2000 (exception_text e)))) (\<lambda>_. raise_error e))" for e
      unfolding ask_unit_def by (intro spends_rules) simp_all
  qed simp
  have "tallied (finally_do (?body s) (ask_unit (cleanup_snapshot s))) (fst st + 1, s # snd st)
      (\<lambda>_ st'. fst st' \<le> fst st + 7 \<and> snd st' = snd st)" for s
    by (rule wp_mono [OF cleaned_up [OF body]]) auto
  then show ?thesis
    by (auto simp: reconcile_only_def Some wp_bind ask_snapshot_def wp_ask tally_def
        split: sum.splits answer.splits)
qed

text \<open>
  C15: An execution of a recovery ends after at most 25 requests to the store and the
  collaborators, whatever they answer, and every snapshot it was given it has asked to clean up.
\<close>

theorem execute_ends_clean:
  "wp (\<lambda>_ _. True) tally (execute temp_root a name) (0, []) (\<lambda>r st. fst st \<le> 25 \<and> snd st = [])"
proof -
  have go: "tallied (continuation temp_root c) (Suc 0, []) (\<lambda>r st. fst st \<le> 25 \<and> snd st = [])" for c
  proof (cases "rc_initial_status c = PUSH_UNCERTAIN")
    case True
    then show ?thesis
      using reconcile_tally [of c "(Suc 0, [])"] by (auto simp: continuation_def intro: wp_mono)
  next
    case False
    have "spends 21 (recovering c (with_snapshot temp_root c s))" for s
      using spends_recovering [OF spends_with_snapshot] by simp
    then have rest: "tallied (finally_do (recovering c (with_snapshot temp_root c s))
        (ask_unit (cleanup_snapshot s))) st (\<lambda>_ st'. fst st' \<le> 25 \<and> snd st' = [])"
      if "fst st \<le> 3" "snd st = [s]" for s st
      using that by (intro wp_mono [OF cleaned_up]) auto
    show ?thesis
      using False
      by (simp add: continuation_def wp_bind)
        (rule wp_mono [OF take_snapshot_tally], auto intro: rest split: sum.splits)
  qed
  show ?thesis
    using go by (simp add: execute_claims tally_def split: sum.splits)
qed

end
