(* ===== verification/Recovery_Authority.thy ===== *)
theory Recovery_Authority
  imports Recovery_Service Recovery_Contract
begin

text \<open>
  The control plane and the workers together: no recovery runs that people have not ordered.
  \<open>control_step\<close> interleaves the four operations of the service with every operation of the
  attempt store in any session and with the rest of the platform; the invariant traces each
  attempt back to its approval, assessment, incident and rollback record and to the audit events
  of the people who decided.
\<close>

section \<open>What the workers leave alone\<close>

definition same_order :: "RecoveryAttemptModel \<Rightarrow> RecoveryAttemptModel \<Rightarrow> bool" where
  "same_order a b \<longleftrightarrow>
     at_id b = at_id a \<and> at_rollback_approval_id b = at_rollback_approval_id a \<and>
     at_recovery_assessment_id b = at_recovery_assessment_id a \<and>
     at_rollback_record_id b = at_rollback_record_id a \<and> at_project_id b = at_project_id a \<and>
     at_target_branch b = at_target_branch a \<and>
     at_expected_remote_head_sha b = at_expected_remote_head_sha a \<and>
     at_integration_commit_sha b = at_integration_commit_sha a \<and>
     at_recovery_strategy b = at_recovery_strategy a"

definition events_of :: "recovery_db \<Rightarrow> AuditEventModel list" where
  "events_of db = au_events (db_audit db)"

definition works :: "recovery_db \<Rightarrow> recovery_db \<Rightarrow> bool" where
  "works db db' \<longleftrightarrow>
     db_projects db' = db_projects db \<and> db_rollbacks db' = db_rollbacks db \<and>
     db_assessments db' = db_assessments db \<and> db_approvals db' = db_approvals db \<and>
     list_all2 same_order (db_attempts db) (db_attempts db') \<and>
     prefix (events_of db) (events_of db')"

named_theorems works_steps

lemma same_order_refl [simp]: "same_order a a"
  by (simp add: same_order_def)

lemma own_order: "a \<in> A \<Longrightarrow> \<exists>b\<in>A. same_order b a"
  using same_order_refl by blast

lemma same_order_trans: "same_order a b \<Longrightarrow> same_order b c \<Longrightarrow> same_order a c"
  by (simp add: same_order_def)

lemma works_refl [works_steps]: "works db db"
  by (simp add: works_def list_all2_same)

lemma works_trans: "works a b \<Longrightarrow> works b c \<Longrightarrow> works a c"
  unfolding works_def
  by (auto intro: prefix_order.trans list_all2_trans [where ?P1.0 = same_order and ?P2.0 = same_order]
      same_order_trans)

lemma works_tables:
  assumes "db_projects db' = db_projects db" "db_rollbacks db' = db_rollbacks db"
    "db_assessments db' = db_assessments db" "db_approvals db' = db_approvals db"
    "db_attempts db' = db_attempts db" "db_audit db' = db_audit db"
  shows "works db db'"
  by (simp add: works_def events_of_def list_all2_same assms)

lemma works_update_attempt [works_steps]:
  assumes "\<And>a. same_order a (f a)"
  shows "works db (update_attempt i f db)"
proof -
  have "list_all2 same_order rows (alter (\<lambda>a. at_id a = i) f rows)" for rows
    by (induction rows) (simp_all add: alter_def assms)
  then show ?thesis by (simp add: works_def update_attempt_def events_of_def)
qed

lemma works_update_run [works_steps]: "works db (update_run i f db)"
  by (rule works_tables) (simp_all add: update_run_def)

lemma works_update_stage [works_steps]: "works db (update_stage i f db)"
  by (rule works_tables) (simp_all add: update_stage_def)

lemma works_audit [works_steps]: "works db (audit hs e r a ev w p db)"
  unfolding works_def audit_def events_of_def
  by (simp add: list_all2_same append_project_event_def append_event_def Let_def)

lemma works_close_stage [works_steps]: "works db (close_stage now i s c db)"
  by (auto simp: close_stage_def intro: works_refl works_update_stage split: option.split)

lemma works_complete_previous [works_steps]: "works db (complete_previous hs now i ev db)"
  by (auto simp: complete_previous_def intro: works_refl works_update_stage split: option.split)

lemma works_expire_run [works_steps]: "works db (expire_run now latest db)"
  by (auto simp: expire_run_def intro: works_refl works_update_run split: option.split)

lemma works_rows [works_steps]:
  "works db (db\<lparr>db_stages := st\<rparr>)" "works db (db\<lparr>db_runs := ru\<rparr>)"
  "works db (db\<lparr>db_artifacts := ar, db_tests := te\<rparr>)" "works db (db\<lparr>db_artifacts := ar\<rparr>)"
  "works db (db\<lparr>db_commits := co\<rparr>)" "works db (db\<lparr>db_remotes := re\<rparr>)"
  by (rule works_tables; simp)+

lemma locked_works:
  assumes "locked dr c (db, ss) = Inr (attempt, run, db1)"
  shows "works db db1"
  using assms
  by (auto simp: locked_def Let_def intro: works_update_run split: option.splits if_splits)

lemma fenced_works:
  assumes "fenced dr c body (db, ss) = (r, db', ss')"
    and "\<And>attempt run db db'. body attempt run db = Inr db' \<Longrightarrow> works db db'"
  shows "works db db'"
  using assms(1)
proof (cases rule: fenced_cases)
  case (ran attempt run db1)
  then show ?thesis using assms(2) locked_works works_trans by blast
qed (use locked_works works_refl in \<open>blast+\<close>)

lemma transition_works:
  assumes "transition hs dr c status stage event evidence (db, ss) = (r, db', ss')"
  shows "works db db'"
  using assms [unfolded transition_parts]
proof (rule fenced_works)
  fix attempt run db db'
  have "same_order a (moved_attempt dr status stage a)" for a
    by (simp add: moved_attempt_def same_order_def)
  then have "works db (noted_move hs dr c stage event evidence attempt run
      (update_attempt (at_id attempt) (moved_attempt dr status stage)
         (moved_run hs dr stage evidence run db)))"
    unfolding noted_move_def moved_run_def
    by (intro works_trans [OF _ works_audit] works_trans [OF _ works_rows(1)]
        works_trans [OF _ works_update_attempt] works_trans [OF _ works_update_run]
        works_complete_previous) assumption
  then show "Inr (noted_move hs dr c stage event evidence attempt run
      (update_attempt (at_id attempt) (moved_attempt dr status stage)
         (moved_run hs dr stage evidence run db))) = Inr db' \<Longrightarrow> works db db'" by simp
qed

lemma record_tests_works:
  "record_tests hs dr c tests (db, ss) = (r, db', ss') \<Longrightarrow> works db db'"
  unfolding record_tests_def
  by (erule fenced_works)
    (auto simp: Let_def intro: works_trans [OF works_rows(3) works_audit] split: if_splits)

lemma record_commit_works:
  "record_commit hs dr c candidate (db, ss) = (r, db', ss') \<Longrightarrow> works db db'"
  unfolding record_commit_def
  by (erule fenced_works)
    (auto simp: Let_def intro: works_refl works_trans [OF works_rows(5) works_audit]
      split: option.splits if_splits prod.splits)

lemma record_remote_works:
  "record_remote dr c remote (db, ss) = (r, db', ss') \<Longrightarrow> works db db'"
  unfolding record_remote_def
  by (erule fenced_works)
    (auto intro: works_refl works_rows(6) split: option.splits if_splits)

lemma record_conflict_works:
  "record_conflict hs dr c paths message (db, ss) = (r, db', ss') \<Longrightarrow> works db db'"
  unfolding record_conflict_def
  by (erule fenced_works)
    (auto simp: Let_def intro: works_trans [OF works_rows(4) works_rows(1)]
      works_trans [OF works_rows(4) works_update_stage] split: option.splits)

lemma closing_works:
  assumes "\<And>a. same_order a (f a)"
  shows "works db (audit hs e r a ev w p (close_stage now i s c (update_run j g (update_attempt k f db))))"
  by (intro works_trans [OF _ works_audit] works_trans [OF _ works_close_stage]
      works_trans [OF _ works_update_run] works_update_attempt assms)

lemma fail_works:
  "fail hs dr c status failure_class code message (db, ss) = (r, db', ss') \<Longrightarrow> works db db'"
  unfolding fail_def
  by (erule fenced_works) (auto simp: Let_def same_order_def intro!: closing_works)

lemma complete_works:
  "complete hs dr c candidate remote (db, ss) = (r, db', ss') \<Longrightarrow> works db db'"
  unfolding complete_def
  by (erule fenced_works) (auto simp: Let_def same_order_def intro!: closing_works split: if_splits)

lemma claim_works:
  assumes "claim_and_load hs dr a w (db, ss) = (r, db', ss')"
  shows "works db db'"
  using assms
proof (cases rule: claim_and_load_outcome)
  case (claimed cx p x y ev)
  have "same_order b (claim_attempt (dr_clock dr 0) w (cx_initial_status cx) b)" for b
    by (simp add: claim_attempt_def same_order_def)
  then show ?thesis
    unfolding claimed(2)
    by (intro works_trans [OF _ works_audit] works_trans [OF _ works_update_attempt]
        works_trans [OF _ works_rows(2)] works_expire_run) assumption
qed (simp add: works_refl)

text \<open>Every request to the store, from whichever session.\<close>

lemma unit_answer_state:
  assumes "unit_answer x = (ans, db', ss')"
  obtains r where "x = (r, db', ss')"
  using assms by (cases x) (auto simp: unit_answer_def)

lemma store_works:
  assumes "store_answer hs dr q (db, ss) = Some (a, db', ss')"
  shows "works db db'"
  using assms
  by (cases q) (auto elim!: unit_answer_state split: prod.splits sum.splits
      intro: transition_works record_tests_works record_commit_works record_remote_works
        record_conflict_works fail_works complete_works claim_works)

section \<open>The system\<close>

text \<open>
  A step of the service draws an identifier that its table does not hold yet. The rest of the
  platform may change anything but what recovery owns; it only adds rollback records and audit
  events.
\<close>

inductive control_step :: "hashing \<Rightarrow> control_db \<Rightarrow> control_db \<Rightarrow> bool" for hs where
  incident: "create_incident hs dr i actor request cs = Inr (x, cs') \<Longrightarrow>
    dr_uuid dr 0 \<notin> im_id ` set (cs_incidents cs) \<Longrightarrow> control_step hs cs cs'"
| assessment: "assess hs dr i actor remote cs = Inr (x, cs') \<Longrightarrow>
    dr_uuid dr 0 \<notin> sm_id ` set (db_assessments (cs_recovery cs)) \<Longrightarrow> control_step hs cs cs'"
| approval: "approve hs dr i actor reason cs = Inr (x, cs') \<Longrightarrow>
    dr_uuid dr 0 \<notin> vm_id ` set (db_approvals (cs_recovery cs)) \<Longrightarrow> control_step hs cs cs'"
| attempt: "create_attempt hs dr i actor cs = Inr (x, cs') \<Longrightarrow>
    dr_uuid dr 0 \<notin> at_id ` set (db_attempts (cs_recovery cs)) \<Longrightarrow> control_step hs cs cs'"
| work: "store_answer hs dr q (cs_recovery cs, ss) = Some (a, db', ss') \<Longrightarrow>
    control_step hs cs (cs\<lparr>cs_recovery := db'\<rparr>)"
| platform: "prefix (au_events (db_audit (cs_recovery cs))) (au_events trail) \<Longrightarrow>
    distinct (map rm_id (db_rollbacks (cs_recovery cs) @ rollbacks)) \<Longrightarrow>
    control_step hs cs (cs\<lparr>cs_integrations := integrations, cs_queue := queue,
      cs_recovery := (cs_recovery cs)\<lparr>db_projects := projects, db_artifacts := artifacts,
        db_rollbacks := db_rollbacks (cs_recovery cs) @ rollbacks, db_audit := trail\<rparr>\<rparr>)"

definition initial_control :: "control_db \<Rightarrow> bool" where
  "initial_control cs \<longleftrightarrow>
     cs_incidents cs = [] \<and> db_assessments (cs_recovery cs) = [] \<and>
     db_approvals (cs_recovery cs) = [] \<and> db_attempts (cs_recovery cs) = [] \<and>
     distinct (map rm_id (db_rollbacks (cs_recovery cs)))"

inductive control_reachable :: "hashing \<Rightarrow> control_db \<Rightarrow> bool" for hs where
  initially: "initial_control cs \<Longrightarrow> control_reachable hs cs"
| later: "control_reachable hs cs \<Longrightarrow> control_step hs cs cs' \<Longrightarrow> control_reachable hs cs'"

section \<open>The chain of authority\<close>

text \<open>A person decided: an audit event of the project names the person and the row.\<close>

definition decided_by :: "recovery_db \<Rightarrow> uuid \<Rightarrow> string \<Rightarrow> string \<Rightarrow> string \<Rightarrow> uuid \<Rightarrow> bool" where
  "decided_by db project event subject key row \<longleftrightarrow>
     (\<exists>e\<in>set (events_of db). ae_project_id e = Some project \<and> ae_event_type e = event \<and>
        ae_actor_type e = ''human'' \<and> ae_actor_id e = subject \<and>
        map_of (ae_payload e) key = Some (uuid_json row))"

definition incident_ok :: "control_db \<Rightarrow> RecoveryIncidentModel \<Rightarrow> bool" where
  "incident_ok cs i \<longleftrightarrow>
     (\<exists>r. get_row rm_id (im_rollback_record_id i) (db_rollbacks (cs_recovery cs)) = Some r \<and>
        rm_integration_attempt_id r = im_integration_attempt_id i) \<and>
     decided_by (cs_recovery cs) (im_project_id i) ''recovery.incident_created''
       (im_reported_by i) ''incident_id'' (im_id i)"

definition revertible :: "RecoveryAssessmentModel \<Rightarrow> RollbackRecordModel \<Rightarrow> bool" where
  "revertible s r \<longleftrightarrow>
     sm_recommended_strategy s = REVERT_COMMIT \<and> sm_integration_commit_is_ancestor s \<and>
     \<not> rm_database_change_detected r \<and> \<not> rm_deployment_change_detected r \<and>
     \<not> rm_external_side_effects_declared r"

definition assessment_ok :: "control_db \<Rightarrow> RecoveryAssessmentModel \<Rightarrow> bool" where
  "assessment_ok cs s \<longleftrightarrow>
     (\<exists>i r. get_row im_id (sm_incident_id s) (cs_incidents cs) = Some i \<and>
        get_row rm_id (sm_rollback_record_id s) (db_rollbacks (cs_recovery cs)) = Some r \<and>
        im_rollback_record_id i = sm_rollback_record_id s \<and>
        sm_required_test_commands s = rm_approved_test_commands r \<and>
        (sm_direct_revert_possible s \<longrightarrow> revertible s r) \<and>
        decided_by (cs_recovery cs) (im_project_id i) ''recovery.assessment_completed''
          (sm_assessed_by s) ''assessment_id'' (sm_id s))"

definition approval_ok :: "hashing \<Rightarrow> control_db \<Rightarrow> RollbackApprovalModel \<Rightarrow> bool" where
  "approval_ok hs cs v \<longleftrightarrow>
     (\<exists>s i r reason now. get_row sm_id (vm_recovery_assessment_id v) (db_assessments (cs_recovery cs)) = Some s \<and>
        get_row im_id (sm_incident_id s) (cs_incidents cs) = Some i \<and>
        get_row rm_id (vm_rollback_record_id v) (db_rollbacks (cs_recovery cs)) = Some r \<and>
        sm_rollback_record_id s = rm_id r \<and> sm_direct_revert_possible s \<and>
        v\<lparr>vm_status := ACTIVE, vm_consumed_at := None\<rparr> =
          new_approval hs (vm_id v) now s i r (vm_approver_subject v) reason \<and>
        decided_by (cs_recovery cs) (im_project_id i) ''recovery.rollback_approval_granted''
          (vm_approver_subject v) ''approval_id'' (vm_id v))"

definition attempt_ok :: "control_db \<Rightarrow> RecoveryAttemptModel \<Rightarrow> bool" where
  "attempt_ok cs a \<longleftrightarrow>
     (\<exists>v c subject. get_row vm_id (at_rollback_approval_id a) (db_approvals (cs_recovery cs)) = Some v \<and>
        vm_status v = CONSUMED \<and> same_order (new_recovery_attempt (at_id a) c v) a \<and>
        decided_by (cs_recovery cs) (at_project_id a) ''recovery.attempt_created'' subject
          ''attempt_id'' (at_id a))"

definition authority_inv :: "hashing \<Rightarrow> control_db \<Rightarrow> bool" where
  "authority_inv hs cs \<longleftrightarrow>
     distinct (map rm_id (db_rollbacks (cs_recovery cs))) \<and>
     distinct (map vm_id (db_approvals (cs_recovery cs))) \<and>
     distinct (map at_id (db_attempts (cs_recovery cs))) \<and>
     distinct (map at_rollback_approval_id (db_attempts (cs_recovery cs))) \<and>
     (\<forall>i\<in>set (cs_incidents cs). incident_ok cs i) \<and>
     (\<forall>s\<in>set (db_assessments (cs_recovery cs)). assessment_ok cs s) \<and>
     (\<forall>v\<in>set (db_approvals (cs_recovery cs)). approval_ok hs cs v) \<and>
     (\<forall>a\<in>set (db_attempts (cs_recovery cs)). attempt_ok cs a)"

section \<open>What every step keeps\<close>

definition grows :: "control_db \<Rightarrow> control_db \<Rightarrow> bool" where
  "grows cs cs' \<longleftrightarrow>
     prefix (cs_incidents cs) (cs_incidents cs') \<and>
     prefix (db_assessments (cs_recovery cs)) (db_assessments (cs_recovery cs')) \<and>
     prefix (db_rollbacks (cs_recovery cs)) (db_rollbacks (cs_recovery cs')) \<and>
     prefix (events_of (cs_recovery cs)) (events_of (cs_recovery cs'))"

definition consumed_kept :: "control_db \<Rightarrow> control_db \<Rightarrow> bool" where
  "consumed_kept cs cs' \<longleftrightarrow>
     (\<forall>i v. get_row vm_id i (db_approvals (cs_recovery cs)) = Some v \<longrightarrow> vm_status v = CONSUMED \<longrightarrow>
        get_row vm_id i (db_approvals (cs_recovery cs')) = Some v)"

lemma decided_by_mono:
  "prefix (events_of db) (events_of db') \<Longrightarrow> decided_by db p ev subject key row \<Longrightarrow>
   decided_by db' p ev subject key row"
  unfolding decided_by_def by (blast dest: set_mono_prefix)

lemma incident_ok_mono: "grows cs cs' \<Longrightarrow> incident_ok cs i \<Longrightarrow> incident_ok cs' i"
  unfolding grows_def incident_ok_def by (blast intro: get_row_prefix decided_by_mono)

lemma assessment_ok_mono: "grows cs cs' \<Longrightarrow> assessment_ok cs s \<Longrightarrow> assessment_ok cs' s"
  unfolding grows_def assessment_ok_def by (blast intro: get_row_prefix decided_by_mono)

lemma approval_ok_mono: "grows cs cs' \<Longrightarrow> approval_ok hs cs v \<Longrightarrow> approval_ok hs cs' v"
  unfolding grows_def approval_ok_def by (blast intro: get_row_prefix decided_by_mono)

lemma attempt_ok_mono:
  "grows cs cs' \<Longrightarrow> consumed_kept cs cs' \<Longrightarrow> attempt_ok cs a \<Longrightarrow> attempt_ok cs' a"
  unfolding grows_def consumed_kept_def attempt_ok_def by (blast intro: decided_by_mono)

lemma attempt_ok_order: "attempt_ok cs a \<Longrightarrow> same_order a b \<Longrightarrow> attempt_ok cs b"
  unfolding attempt_ok_def by (auto simp: same_order_def new_recovery_attempt_def)

text \<open>The audit event of an operation of the service.\<close>

lemma service_audit_tables [simp]:
  "db_projects (service_audit hs e r p ev actor payload db) = db_projects db"
  "db_rollbacks (service_audit hs e r p ev actor payload db) = db_rollbacks db"
  "db_assessments (service_audit hs e r p ev actor payload db) = db_assessments db"
  "db_approvals (service_audit hs e r p ev actor payload db) = db_approvals db"
  "db_attempts (service_audit hs e r p ev actor payload db) = db_attempts db"
  by (simp_all add: service_audit_def)

lemma service_audit_events:
  "prefix (events_of db) (events_of (service_audit hs e r p ev actor payload db))"
  by (simp add: service_audit_def events_of_def append_project_event_def append_event_def Let_def)

lemma service_audit_decided:
  assumes "ac_type actor = ''human''" "map_of payload key = Some (uuid_json row)"
    "key \<noteq> ''audit_chain''"
  shows "decided_by (service_audit hs e r p ev actor payload db) p ev (ac_subject actor) key row"
  using assms
  by (auto simp: decided_by_def service_audit_def events_of_def append_project_event_def
      append_event_def Let_def dict_merge_def map_of_dict_put)

lemma require_human_roleD: "require_human_role actor role = Inr u \<Longrightarrow> ac_type actor = ''human''"
  by (simp add: require_human_role_def split: if_splits)

text \<open>The state each operation leaves.\<close>

lemma create_incident_cases:
  assumes "create_incident hs dr i actor request cs = Inr (x, cs')"
  obtains attempt r payload where "ac_type actor = ''human''"
    "get_row rm_integration_attempt_id i (db_rollbacks (cs_recovery cs)) = Some r"
    "gm_id attempt = i" "x = new_incident (dr_uuid dr 0) attempt r actor request"
    "map_of payload ''incident_id'' = Some (uuid_json (dr_uuid dr 0))"
    "cs' = cs\<lparr>cs_incidents := cs_incidents cs @ [x], cs_recovery := service_audit hs (dr_uuid dr 1)
       (dr_uuid dr 2) (im_project_id x) ''recovery.incident_created'' actor payload (cs_recovery cs)\<rparr>"
proof -
  obtain attempt r where a: "get_row gm_id i (cs_integrations cs) = Some attempt"
    and r: "get_row rm_integration_attempt_id i (db_rollbacks (cs_recovery cs)) = Some r"
    using assms by (auto simp: create_incident_def result_simps split: option.splits)
  have "ac_type actor = ''human''"
    using assms require_human_roleD by (auto simp: create_incident_def result_simps)
  moreover have "gm_id attempt = i" using get_row_SomeD [OF a] by simp
  ultimately show ?thesis
    using assms r
    by (intro that [of r attempt "[(''incident_id'', uuid_json (im_id x)),
            (''integration_attempt_id'', uuid_json (gm_id attempt)),
            (''rollback_record_id'', uuid_json (rm_id r)),
            (''severity'', JText (ir_severity request))]"])
      (auto simp: create_incident_def result_simps a Let_def new_incident_def)
qed

lemma assess_cases:
  assumes "assess hs dr i actor remote cs = Inr (x, cs')"
  obtains incident r payload where "ac_type actor = ''human''"
    "get_row im_id i (cs_incidents cs) = Some incident"
    "get_row rm_id (im_rollback_record_id incident) (db_rollbacks (cs_recovery cs)) = Some r"
    "x = new_assessment hs (dr_uuid dr 0) (dr_clock dr 0) incident r (ac_subject actor) remote"
    "map_of payload ''assessment_id'' = Some (uuid_json (dr_uuid dr 0))"
    "cs' = cs\<lparr>cs_recovery := service_audit hs (dr_uuid dr 1) (dr_uuid dr 2)
       (im_project_id incident) ''recovery.assessment_completed'' actor payload
       ((cs_recovery cs)\<lparr>db_assessments := db_assessments (cs_recovery cs) @ [x]\<rparr>)\<rparr>"
proof -
  obtain incident r where i: "get_row im_id i (cs_incidents cs) = Some incident"
    and r: "get_row rm_id (im_rollback_record_id incident) (db_rollbacks (cs_recovery cs)) = Some r"
    using assms by (auto simp: assess_def result_simps split: option.splits)
  have "ac_type actor = ''human''"
    using assms require_human_roleD by (auto simp: assess_def result_simps)
  then show ?thesis
    using assms i r
    by (intro that [of incident r "[(''assessment_id'', uuid_json (sm_id x)),
            (''incident_id'', uuid_json (im_id incident)),
            (''strategy'', JText (strategy_text (sm_recommended_strategy x))),
            (''binding_sha256'', JText (sm_assessment_binding_sha256 x))]"])
      (auto simp: assess_def result_simps Let_def new_assessment_def)
qed

lemma approve_cases:
  assumes "approve hs dr i actor reason cs = Inr (x, cs')"
  obtains s incident r payload where "ac_type actor = ''human''"
    "get_row sm_id i (db_assessments (cs_recovery cs)) = Some s" "sm_direct_revert_possible s"
    "get_row im_id (sm_incident_id s) (cs_incidents cs) = Some incident"
    "get_row rm_id (sm_rollback_record_id s) (db_rollbacks (cs_recovery cs)) = Some r"
    "x = new_approval hs (dr_uuid dr 0) (dr_clock dr 0) s incident r (ac_subject actor) reason"
    "map_of payload ''approval_id'' = Some (uuid_json (dr_uuid dr 0))"
    "cs' = cs\<lparr>cs_recovery := service_audit hs (dr_uuid dr 1) (dr_uuid dr 2)
       (im_project_id incident) ''recovery.rollback_approval_granted'' actor payload
       ((cs_recovery cs)\<lparr>db_approvals := db_approvals (cs_recovery cs) @ [x]\<rparr>)\<rparr>"
proof -
  obtain s incident r where s: "get_row sm_id i (db_assessments (cs_recovery cs)) = Some s"
    "sm_direct_revert_possible s"
    and i: "get_row im_id (sm_incident_id s) (cs_incidents cs) = Some incident"
    and r: "get_row rm_id (sm_rollback_record_id s) (db_rollbacks (cs_recovery cs)) = Some r"
    using assms by (auto simp: approve_def result_simps Let_def split: option.splits if_splits)
  have "ac_type actor = ''human''"
    using assms require_human_roleD by (auto simp: approve_def result_simps)
  then show ?thesis
    using assms s i r
    by (intro that [of s incident r "[(''approval_id'', uuid_json (vm_id x)),
            (''assessment_id'', uuid_json (sm_id s)),
            (''expected_remote_head_sha'', JText (vm_expected_remote_head_sha x)),
            (''binding_sha256'', JText (vm_approval_binding_sha256 x))]"])
      (auto simp: approve_def result_simps Let_def new_approval_def)
qed

lemma create_attempt_cases:
  assumes "create_attempt hs dr i actor cs = Inr (x, cs')"
  obtains v payload queue where "ac_type actor = ''human''"
    "get_row vm_id i (db_approvals (cs_recovery cs)) = Some v" "vm_status v = ACTIVE"
    "i \<notin> at_rollback_approval_id ` set (db_attempts (cs_recovery cs))"
    "x = new_recovery_attempt (dr_uuid dr 0) (dr_uuid dr 1) v"
    "map_of payload ''attempt_id'' = Some (uuid_json (dr_uuid dr 0))"
    "cs' = cs\<lparr>cs_queue := queue, cs_recovery := service_audit hs (dr_uuid dr 2) (dr_uuid dr 3)
       (vm_project_id v) ''recovery.attempt_created'' actor payload
       ((cs_recovery cs)\<lparr>db_attempts := db_attempts (cs_recovery cs) @ [x],
          db_approvals := alter (\<lambda>v. vm_id v = i) (consume (dr_clock dr 0))
            (db_approvals (cs_recovery cs))\<rparr>)\<rparr>"
proof -
  obtain v where v: "get_row vm_id i (db_approvals (cs_recovery cs)) = Some v"
    "\<not> approval_inactive (dr_clock dr 0) v"
    "\<not> list_ex (\<lambda>a. at_rollback_approval_id a = i) (db_attempts (cs_recovery cs))"
    using assms by (auto simp: create_attempt_def result_simps Let_def split: option.splits if_splits)
  have "ac_type actor = ''human''"
    using assms require_human_roleD by (auto simp: create_attempt_def result_simps)
  moreover have "vm_status v = ACTIVE" using v(2) by (simp add: approval_inactive_def)
  moreover have "i \<notin> at_rollback_approval_id ` set (db_attempts (cs_recovery cs))"
    using v(3) by (auto simp: list_ex_iff)
  ultimately show ?thesis
    using assms v
    by (intro that [of v "[(''attempt_id'', uuid_json (at_id x)),
            (''approval_id'', uuid_json (vm_id v)),
            (''correlation_id'', uuid_json (at_correlation_id x))]" "cs_queue cs'"])
      (auto simp: create_attempt_def result_simps Let_def new_recovery_attempt_def)
qed

section \<open>The invariant\<close>

lemma authority_invI:
  assumes inv: "authority_inv hs cs" and grows: "grows cs cs'" and kept: "consumed_kept cs cs'"
    and ids: "distinct (map rm_id (db_rollbacks (cs_recovery cs')))"
      "distinct (map vm_id (db_approvals (cs_recovery cs')))"
      "distinct (map at_id (db_attempts (cs_recovery cs')))"
      "distinct (map at_rollback_approval_id (db_attempts (cs_recovery cs')))"
    and incidents: "\<And>i. i \<in> set (cs_incidents cs') \<Longrightarrow> i \<in> set (cs_incidents cs) \<or> incident_ok cs' i"
    and assessments: "\<And>s. s \<in> set (db_assessments (cs_recovery cs')) \<Longrightarrow>
      s \<in> set (db_assessments (cs_recovery cs)) \<or> assessment_ok cs' s"
    and approvals: "\<And>v. v \<in> set (db_approvals (cs_recovery cs')) \<Longrightarrow>
      v \<in> set (db_approvals (cs_recovery cs)) \<or> approval_ok hs cs' v"
    and attempts: "\<And>a. a \<in> set (db_attempts (cs_recovery cs')) \<Longrightarrow>
      (\<exists>b\<in>set (db_attempts (cs_recovery cs)). same_order b a) \<or> attempt_ok cs' a"
  shows "authority_inv hs cs'"
proof -
  have "incident_ok cs' i" if "i \<in> set (cs_incidents cs')" for i
    using incidents [OF that] inv incident_ok_mono [OF grows] unfolding authority_inv_def by blast
  moreover have "assessment_ok cs' s" if "s \<in> set (db_assessments (cs_recovery cs'))" for s
    using assessments [OF that] inv assessment_ok_mono [OF grows] unfolding authority_inv_def by blast
  moreover have "approval_ok hs cs' v" if "v \<in> set (db_approvals (cs_recovery cs'))" for v
    using approvals [OF that] inv approval_ok_mono [OF grows] unfolding authority_inv_def by blast
  moreover have "attempt_ok cs' a" if "a \<in> set (db_attempts (cs_recovery cs'))" for a
    using attempts [OF that] inv attempt_ok_mono [OF grows kept] attempt_ok_order
    unfolding authority_inv_def by blast
  ultimately show ?thesis using ids unfolding authority_inv_def by blast
qed

lemma authority_inv_ids:
  assumes "authority_inv hs cs"
  shows "distinct (map rm_id (db_rollbacks (cs_recovery cs)))"
    "distinct (map vm_id (db_approvals (cs_recovery cs)))"
    "distinct (map at_id (db_attempts (cs_recovery cs)))"
    "distinct (map at_rollback_approval_id (db_attempts (cs_recovery cs)))"
  using assms unfolding authority_inv_def by blast+

lemma incident_inv:
  assumes inv: "authority_inv hs cs" and step: "create_incident hs dr i actor request cs = Inr (x, cs')"
  shows "authority_inv hs cs'"
  using step
proof (cases rule: create_incident_cases)
  case (1 attempt r payload)
  note facts = 1
  have r: "get_row rm_id (rm_id r) (db_rollbacks (cs_recovery cs)) = Some r"
    using get_row_distinct [OF authority_inv_ids(1) [OF inv]] get_row_SomeD [OF facts(2)] by blast
  have x: "im_rollback_record_id x = rm_id r" "im_integration_attempt_id x = i"
    "im_id x = dr_uuid dr 0" "im_reported_by x = ac_subject actor"
    using facts(3,4) by (simp_all add: new_incident_def)
  have "incident_ok cs' x"
    unfolding incident_ok_def x facts(6)
    using r get_row_SomeD [OF facts(2)] service_audit_decided [OF facts(1) facts(5)] by simp
  moreover have "grows cs cs'"
    unfolding grows_def facts(6) by (simp add: service_audit_events)
  ultimately show ?thesis
    using authority_inv_ids [OF inv]
    by (intro authority_invI [OF inv]) (auto simp: consumed_kept_def facts(6) intro: own_order)
qed

lemma determine_revert:
  assumes "rd_direct_revert_possible (determine record remote)"
  shows "rd_strategy (determine record remote) = REVERT_COMMIT \<and>
    rs_integration_commit_is_ancestor remote \<and> \<not> rr_database_change_detected record \<and>
    \<not> rr_deployment_change_detected record \<and> \<not> rr_external_side_effects_declared record"
  using assms by (auto simp: determine_def Let_def split: if_splits)

lemma to_domain_changes:
  "rr_database_change_detected (to_domain r) = rm_database_change_detected r"
  "rr_deployment_change_detected (to_domain r) = rm_deployment_change_detected r"
  "rr_external_side_effects_declared (to_domain r) = rm_external_side_effects_declared r"
  by (simp_all add: to_domain_def)

lemma new_assessment_revertible:
  "sm_direct_revert_possible (new_assessment hs i now incident r subject remote) \<Longrightarrow>
   revertible (new_assessment hs i now incident r subject remote) r"
  using determine_revert [of "to_domain r" remote]
  unfolding to_domain_changes by (simp add: new_assessment_def revertible_def Let_def)

lemma assessment_inv:
  assumes inv: "authority_inv hs cs" and step: "assess hs dr i actor remote cs = Inr (x, cs')"
  shows "authority_inv hs cs'"
  using step
proof (cases rule: assess_cases)
  case (1 incident r payload)
  note facts = 1
  have x: "sm_incident_id x = i" "sm_rollback_record_id x = im_rollback_record_id incident"
    "sm_id x = dr_uuid dr 0" "sm_assessed_by x = ac_subject actor"
    "sm_required_test_commands x = rm_approved_test_commands r"
    using get_row_SomeD [OF facts(2)] get_row_SomeD [OF facts(3)]
    by (simp_all add: facts(4) new_assessment_def Let_def)
  have rev: "sm_direct_revert_possible x \<longrightarrow> revertible x r"
    using new_assessment_revertible unfolding facts(4) by blast
  have "assessment_ok cs' x"
    unfolding assessment_ok_def x facts(6)
    using facts(2,3) rev service_audit_decided [OF facts(1) facts(5)] by simp
  moreover have "grows cs cs'"
    unfolding grows_def facts(6)
    using service_audit_events [of "cs_recovery cs\<lparr>db_assessments := db_assessments (cs_recovery cs) @ [x]\<rparr>"]
    by (simp add: events_of_def)
  ultimately show ?thesis
    using authority_inv_ids [OF inv]
    by (intro authority_invI [OF inv]) (auto simp: consumed_kept_def facts(6) intro: own_order)
qed

lemma approval_inv:
  assumes inv: "authority_inv hs cs" and step: "approve hs dr i actor reason cs = Inr (x, cs')"
    and fresh: "dr_uuid dr 0 \<notin> vm_id ` set (db_approvals (cs_recovery cs))"
  shows "authority_inv hs cs'"
  using step
proof (cases rule: approve_cases)
  case (1 s incident r payload)
  note facts = 1
  have x: "vm_recovery_assessment_id x = i" "vm_rollback_record_id x = sm_rollback_record_id s"
    "vm_id x = dr_uuid dr 0" "vm_approver_subject x = ac_subject actor"
    using get_row_SomeD [OF facts(2)] get_row_SomeD [OF facts(5)]
    by (simp_all add: facts(6) new_approval_def Let_def)
  have same: "x\<lparr>vm_status := ACTIVE, vm_consumed_at := None\<rparr> =
      new_approval hs (dr_uuid dr 0) (dr_clock dr 0) s incident r (ac_subject actor) reason"
    by (simp add: facts(6) new_approval_def Let_def)
  have "sm_rollback_record_id s = rm_id r" using get_row_SomeD [OF facts(5)] by simp
  moreover have "decided_by (cs_recovery cs') (im_project_id incident)
      ''recovery.rollback_approval_granted'' (ac_subject actor) ''approval_id'' (dr_uuid dr 0)"
    unfolding facts(8) using service_audit_decided [OF facts(1) facts(7)] by simp
  ultimately have "approval_ok hs cs' x"
    unfolding approval_ok_def x using facts(2,3,4,5) same
    by (intro exI [of _ s] exI [of _ incident] exI [of _ r] exI [of _ reason] exI [of _ "dr_clock dr 0"])
      (auto simp: facts(8))
  moreover have "grows cs cs'"
    unfolding grows_def facts(8)
    using service_audit_events [of "cs_recovery cs\<lparr>db_approvals := db_approvals (cs_recovery cs) @ [x]\<rparr>"]
    by (simp add: events_of_def)
  moreover have "distinct (map vm_id (db_approvals (cs_recovery cs) @ [x]))"
    using authority_inv_ids(2) [OF inv] fresh x(3) by auto
  ultimately show ?thesis
    using authority_inv_ids [OF inv]
    by (intro authority_invI [OF inv])
      (auto simp: consumed_kept_def facts(8) get_row_append intro: own_order)
qed

lemma attempt_inv:
  assumes inv: "authority_inv hs cs" and step: "create_attempt hs dr i actor cs = Inr (x, cs')"
    and fresh: "dr_uuid dr 0 \<notin> at_id ` set (db_attempts (cs_recovery cs))"
  shows "authority_inv hs cs'"
  using step
proof (cases rule: create_attempt_cases)
  case (1 v payload queue)
  note facts = 1
  let ?f = "consume (dr_clock dr 0)"
  let ?rows = "alter (\<lambda>v. vm_id v = i) ?f (db_approvals (cs_recovery cs))"
  have approvals: "db_approvals (cs_recovery cs') = ?rows"
    and attempts: "db_attempts (cs_recovery cs') = db_attempts (cs_recovery cs) @ [x]"
    by (simp_all add: facts(7))
  have f [simp]: "vm_id (?f w) = vm_id w" for w by (simp add: consume_def)
  have row: "get_row vm_id j ?rows = map_option (\<lambda>w. if j = i then ?f w else w)
      (get_row vm_id j (db_approvals (cs_recovery cs)))" for j
    by (rule get_row_alter) simp
  have vid: "vm_id v = i" using get_row_SomeD [OF facts(2)] by simp
  have x: "at_rollback_approval_id x = i" "at_id x = dr_uuid dr 0" "at_project_id x = vm_project_id v"
    by (simp_all add: facts(5) new_recovery_attempt_def vid)
  have grows: "grows cs cs'"
    unfolding grows_def facts(7)
    using service_audit_events [of "cs_recovery cs\<lparr>db_attempts := db_attempts (cs_recovery cs) @ [x],
      db_approvals := ?rows\<rparr>"]
    by (simp add: events_of_def)
  have "attempt_ok cs' x"
    unfolding attempt_ok_def approvals x
  proof (intro exI conjI)
    show "get_row vm_id i ?rows = Some (?f v)" by (simp add: row facts(2))
    show "vm_status (?f v) = CONSUMED" by (simp add: consume_def)
    show "same_order (new_recovery_attempt (dr_uuid dr 0) (dr_uuid dr 1) (?f v)) x"
      by (simp add: facts(5) same_order_def new_recovery_attempt_def consume_def)
    show "decided_by (cs_recovery cs') (vm_project_id v) ''recovery.attempt_created''
        (ac_subject actor) ''attempt_id'' (dr_uuid dr 0)"
      unfolding facts(7) using service_audit_decided [OF facts(1) facts(6)] by simp
  qed
  moreover have "consumed_kept cs cs'"
    unfolding consumed_kept_def approvals row using facts(2,3) by auto
  moreover have "approval_ok hs cs' w" if w: "w \<in> set ?rows" for w
  proof -
    obtain u where u: "u \<in> set (db_approvals (cs_recovery cs))" "w = (if vm_id u = i then ?f u else u)"
      using w by (auto simp: set_alter)
    have "approval_ok hs cs' u"
      using inv u(1) approval_ok_mono [OF grows] unfolding authority_inv_def by blast
    then have "approval_ok hs cs' (?f u)"
      unfolding approval_ok_def by (simp add: consume_def)
    then show ?thesis using u(2) \<open>approval_ok hs cs' u\<close> by simp
  qed
  moreover have "distinct (map vm_id ?rows)"
    using authority_inv_ids(2) [OF inv] by (simp add: map_alter_same)
  ultimately show ?thesis
    using authority_inv_ids [OF inv] fresh facts(4) x
    by (intro authority_invI [OF inv grows])
      (auto simp: approvals attempts facts(7) intro: own_order)
qed

lemma order_columns:
  assumes "list_all2 same_order xs ys"
  shows "map at_id ys = map at_id xs \<and>
    map at_rollback_approval_id ys = map at_rollback_approval_id xs \<and>
    (\<forall>y\<in>set ys. \<exists>x\<in>set xs. same_order x y)"
  using assms by (induction rule: list_all2_induct) (auto simp: same_order_def)

lemma work_inv:
  assumes inv: "authority_inv hs cs" and work: "works (cs_recovery cs) db'"
  shows "authority_inv hs (cs\<lparr>cs_recovery := db'\<rparr>)"
proof -
  have tables: "db_rollbacks db' = db_rollbacks (cs_recovery cs)"
    "db_assessments db' = db_assessments (cs_recovery cs)"
    "db_approvals db' = db_approvals (cs_recovery cs)"
    "list_all2 same_order (db_attempts (cs_recovery cs)) (db_attempts db')"
    "prefix (events_of (cs_recovery cs)) (events_of db')"
    using work unfolding works_def by blast+
  note columns = order_columns [OF tables(4)]
  have grows: "grows cs (cs\<lparr>cs_recovery := db'\<rparr>)"
    unfolding grows_def using tables(5) by (simp add: tables)
  have kept: "consumed_kept cs (cs\<lparr>cs_recovery := db'\<rparr>)"
    unfolding consumed_kept_def by (simp add: tables)
  show ?thesis
    using authority_inv_ids [OF inv] columns
    by (intro authority_invI [OF inv grows kept]) (auto simp: tables)
qed

lemma platform_inv:
  assumes inv: "authority_inv hs cs"
    and events: "prefix (au_events (db_audit (cs_recovery cs))) (au_events trail)"
    and ids: "distinct (map rm_id (db_rollbacks (cs_recovery cs) @ rollbacks))"
  shows "authority_inv hs (cs\<lparr>cs_integrations := integrations, cs_queue := queue,
      cs_recovery := (cs_recovery cs)\<lparr>db_projects := projects, db_artifacts := artifacts,
        db_rollbacks := db_rollbacks (cs_recovery cs) @ rollbacks, db_audit := trail\<rparr>\<rparr>)"
    (is "authority_inv hs ?cs")
proof -
  have grows: "grows cs ?cs" unfolding grows_def using events by (simp add: events_of_def)
  have kept: "consumed_kept cs ?cs" unfolding consumed_kept_def by simp
  show ?thesis
    using authority_inv_ids [OF inv] ids
    by (intro authority_invI [OF inv grows kept]) (auto intro: own_order)
qed

theorem authority_step: "control_step hs cs cs' \<Longrightarrow> authority_inv hs cs \<Longrightarrow> authority_inv hs cs'"
proof (induction rule: control_step.induct)
  case (incident dr i actor request cs x cs')
  show ?case by (rule incident_inv [OF incident(3,1)])
next
  case (assessment dr i actor remote cs x cs')
  show ?case by (rule assessment_inv [OF assessment(3,1)])
next
  case (approval dr i actor reason cs x cs')
  show ?case by (rule approval_inv [OF approval(3,1,2)])
next
  case (attempt dr i actor cs x cs')
  show ?case by (rule attempt_inv [OF attempt(3,1,2)])
next
  case (work dr q cs ss a db' ss')
  show ?case by (rule work_inv [OF work(2) store_works [OF work(1)]])
next
  case (platform cs trail rollbacks integrations queue projects artifacts)
  show ?case by (rule platform_inv [OF platform(3,1,2)])
qed

theorem authority_reachable: "control_reachable hs cs \<Longrightarrow> authority_inv hs cs"
proof (induction rule: control_reachable.induct)
  case (initially cs)
  then show ?case by (simp add: initial_control_def authority_inv_def)
qed (use authority_step in blast)

end
