(* ===== verification/Authority_Guarantees.thy ===== *)
theory Authority_Guarantees
  imports Recovery_Authority
begin

text \<open>
  What the chain of authority gives: every recovery was ordered by people on a consistent
  record, and the bindings the control plane writes are the ones the workers check.
\<close>

section \<open>Who ordered a recovery\<close>

text \<open>The rows behind an attempt.\<close>

definition traced ::
  "hashing \<Rightarrow> control_db \<Rightarrow> RecoveryAttemptModel \<Rightarrow> RollbackApprovalModel \<Rightarrow> RecoveryAssessmentModel \<Rightarrow>
   RecoveryIncidentModel \<Rightarrow> RollbackRecordModel \<Rightarrow> string \<Rightarrow> bool" where
  "traced hs cs a v s i r operator \<longleftrightarrow>
     get_row vm_id (at_rollback_approval_id a) (db_approvals (cs_recovery cs)) = Some v \<and>
     vm_status v = CONSUMED \<and> (\<exists>c. same_order (new_recovery_attempt (at_id a) c v) a) \<and>
     decided_by (cs_recovery cs) (at_project_id a) ''recovery.attempt_created'' operator
       ''attempt_id'' (at_id a) \<and>
     get_row sm_id (vm_recovery_assessment_id v) (db_assessments (cs_recovery cs)) = Some s \<and>
     get_row im_id (sm_incident_id s) (cs_incidents cs) = Some i \<and>
     get_row rm_id (vm_rollback_record_id v) (db_rollbacks (cs_recovery cs)) = Some r \<and>
     sm_rollback_record_id s = rm_id r \<and> sm_direct_revert_possible s \<and>
     (\<exists>reason now. v\<lparr>vm_status := ACTIVE, vm_consumed_at := None\<rparr> =
        new_approval hs (vm_id v) now s i r (vm_approver_subject v) reason) \<and>
     decided_by (cs_recovery cs) (im_project_id i) ''recovery.rollback_approval_granted''
       (vm_approver_subject v) ''approval_id'' (vm_id v) \<and>
     incident_ok cs i \<and> assessment_ok cs s"

lemma authorityE:
  assumes "control_reachable hs cs" and "a \<in> set (db_attempts (cs_recovery cs))"
  obtains v s i r operator where "traced hs cs a v s i r operator"
proof -
  note inv = authority_reachable [OF assms(1), unfolded authority_inv_def]
  have "attempt_ok cs a" using inv assms(2) by blast
  then obtain v c operator where v:
    "get_row vm_id (at_rollback_approval_id a) (db_approvals (cs_recovery cs)) = Some v"
    "vm_status v = CONSUMED" "same_order (new_recovery_attempt (at_id a) c v) a"
    "decided_by (cs_recovery cs) (at_project_id a) ''recovery.attempt_created'' operator
       ''attempt_id'' (at_id a)"
    unfolding attempt_ok_def by blast
  have "approval_ok hs cs v" using inv get_row_SomeD [OF v(1)] by blast
  then obtain s i r reason now where w:
    "get_row sm_id (vm_recovery_assessment_id v) (db_assessments (cs_recovery cs)) = Some s"
    "get_row im_id (sm_incident_id s) (cs_incidents cs) = Some i"
    "get_row rm_id (vm_rollback_record_id v) (db_rollbacks (cs_recovery cs)) = Some r"
    "sm_rollback_record_id s = rm_id r" "sm_direct_revert_possible s"
    "v\<lparr>vm_status := ACTIVE, vm_consumed_at := None\<rparr> =
       new_approval hs (vm_id v) now s i r (vm_approver_subject v) reason"
    "decided_by (cs_recovery cs) (im_project_id i) ''recovery.rollback_approval_granted''
       (vm_approver_subject v) ''approval_id'' (vm_id v)"
    unfolding approval_ok_def by blast
  have "incident_ok cs i" "assessment_ok cs s"
    using inv get_row_SomeD [OF w(1)] get_row_SomeD [OF w(2)] by blast+
  with v w have "traced hs cs a v s i r operator" unfolding traced_def by blast
  then show ?thesis by (rule that)
qed

text \<open>The columns an approval copies.\<close>

lemma approval_columns:
  assumes "v\<lparr>vm_status := ACTIVE, vm_consumed_at := None\<rparr> = new_approval hs x now s i r subject reason"
  shows "vm_recovery_assessment_id v = sm_id s" "vm_rollback_record_id v = rm_id r"
    "vm_project_id v = im_project_id i" "vm_target_branch v = rm_target_branch r"
    "vm_recovery_strategy v = sm_recommended_strategy s"
    "vm_expected_remote_head_sha v = sm_expected_remote_head_sha s"
    "vm_integration_commit_sha v = rm_integration_commit_sha r"
    "vm_required_test_commands v = sm_required_test_commands s"
    "vm_required_test_commands_sha256 v = hash_json hs (commands_json (sm_required_test_commands s))"
    "vm_approval_binding_sha256 v = approval_binding_hash (hash_json hs)
       (uuid_text (sm_id s)) (uuid_text (rm_id r)) (uuid_text (im_project_id i)) (rm_target_branch r)
       (sm_recommended_strategy s) (sm_expected_remote_head_sha s) (rm_integration_commit_sha r)
       (hash_json hs (commands_json (sm_required_test_commands s)))
       (sm_assessment_policy_version s) (rm_recovery_policy_version r)"
  using assms
  by (cases v; simp add: new_approval_def Let_def hash_commands_def commands_json_def)+

text \<open>The columns an attempt copies.\<close>

lemma order_of_approval:
  assumes "same_order (new_recovery_attempt (at_id a) c v) a"
  shows "at_rollback_approval_id a = vm_id v"
    "at_recovery_assessment_id a = vm_recovery_assessment_id v"
    "at_rollback_record_id a = vm_rollback_record_id v" "at_project_id a = vm_project_id v"
    "at_target_branch a = vm_target_branch v"
    "at_expected_remote_head_sha a = vm_expected_remote_head_sha v"
    "at_integration_commit_sha a = vm_integration_commit_sha v"
    "at_recovery_strategy a = vm_recovery_strategy v"
  using assms by (simp_all add: same_order_def new_recovery_attempt_def)

lemma tracedD:
  assumes "traced hs cs a v s i r operator"
  shows "get_row vm_id (at_rollback_approval_id a) (db_approvals (cs_recovery cs)) = Some v"
    "vm_status v = CONSUMED"
    "get_row sm_id (vm_recovery_assessment_id v) (db_assessments (cs_recovery cs)) = Some s"
    "get_row im_id (sm_incident_id s) (cs_incidents cs) = Some i"
    "get_row rm_id (vm_rollback_record_id v) (db_rollbacks (cs_recovery cs)) = Some r"
    "sm_rollback_record_id s = rm_id r" "sm_direct_revert_possible s"
  using assms unfolding traced_def by blast+

lemma traced_columns:
  assumes "traced hs cs a v s i r operator"
  obtains reason now c where "same_order (new_recovery_attempt (at_id a) c v) a"
    "v\<lparr>vm_status := ACTIVE, vm_consumed_at := None\<rparr> =
       new_approval hs (vm_id v) now s i r (vm_approver_subject v) reason"
  using assms unfolding traced_def by blast

lemma traced_people:
  assumes "traced hs cs a v s i r operator"
  shows "decided_by (cs_recovery cs) (im_project_id i) ''recovery.incident_created''
      (im_reported_by i) ''incident_id'' (im_id i)"
    "decided_by (cs_recovery cs) (im_project_id i) ''recovery.assessment_completed''
      (sm_assessed_by s) ''assessment_id'' (sm_id s)"
    "decided_by (cs_recovery cs) (im_project_id i) ''recovery.rollback_approval_granted''
       (vm_approver_subject v) ''approval_id'' (vm_id v)"
    "decided_by (cs_recovery cs) (at_project_id a) ''recovery.attempt_created'' operator
       ''attempt_id'' (at_id a)"
    and "assessment_ok cs s"
proof -
  have ok: "incident_ok cs i" "assessment_ok cs s" using assms unfolding traced_def by blast+
  show "decided_by (cs_recovery cs) (im_project_id i) ''recovery.incident_created''
      (im_reported_by i) ''incident_id'' (im_id i)"
    using ok(1) unfolding incident_ok_def by blast
  show "decided_by (cs_recovery cs) (im_project_id i) ''recovery.assessment_completed''
      (sm_assessed_by s) ''assessment_id'' (sm_id s)"
    using ok(2) tracedD(4) [OF assms] unfolding assessment_ok_def by auto
  show "assessment_ok cs s" by (fact ok(2))
qed (use assms in \<open>unfold traced_def, blast\<close>)+

lemma traced_revertible:
  assumes "traced hs cs a v s i r operator"
  shows "revertible s r" "sm_required_test_commands s = rm_approved_test_commands r"
proof -
  obtain reason now c where
    "v\<lparr>vm_status := ACTIVE, vm_consumed_at := None\<rparr> =
       new_approval hs (vm_id v) now s i r (vm_approver_subject v) reason"
    by (rule traced_columns [OF assms])
  from approval_columns(2) [OF this]
  have r: "get_row rm_id (sm_rollback_record_id s) (db_rollbacks (cs_recovery cs)) = Some r"
    using tracedD(5,6) [OF assms] by simp
  show "revertible s r" "sm_required_test_commands s = rm_approved_test_commands r"
    using traced_people(5) [OF assms] tracedD(7) [OF assms] r unfolding assessment_ok_def by auto
qed

text \<open>
  C5: In every state the platform reaches, every recovery attempt can be traced to people: one
  approval, consumed by this attempt alone, of one assessment of one incident of the same
  project, each decision audited under the name of the person who took it. The attempt reverts
  the commit of the rollback record the assessment judged, at the branch head it saw, with the
  tests of that record; the commit was in the history of the branch and the record declares no
  change of a database, of a deployment or outside.
\<close>

theorem recoveries_are_ordered_by_people:
  assumes "control_reachable hs cs" and "a \<in> set (db_attempts (cs_recovery cs))"
  shows "\<exists>v\<in>set (db_approvals (cs_recovery cs)). \<exists>s\<in>set (db_assessments (cs_recovery cs)).
    \<exists>i\<in>set (cs_incidents cs). \<exists>r\<in>set (db_rollbacks (cs_recovery cs)). \<exists>operator.
      at_rollback_approval_id a = vm_id v \<and> vm_status v = CONSUMED \<and>
      vm_recovery_assessment_id v = sm_id s \<and> sm_incident_id s = im_id i \<and>
      sm_rollback_record_id s = rm_id r \<and> at_project_id a = im_project_id i \<and>
      at_recovery_strategy a = REVERT_COMMIT \<and>
      at_integration_commit_sha a = rm_integration_commit_sha r \<and>
      at_target_branch a = rm_target_branch r \<and>
      at_expected_remote_head_sha a = sm_expected_remote_head_sha s \<and>
      vm_required_test_commands v = rm_approved_test_commands r \<and>
      sm_integration_commit_is_ancestor s \<and> \<not> rm_database_change_detected r \<and>
      \<not> rm_deployment_change_detected r \<and> \<not> rm_external_side_effects_declared r \<and>
      decided_by (cs_recovery cs) (at_project_id a) ''recovery.incident_created''
        (im_reported_by i) ''incident_id'' (im_id i) \<and>
      decided_by (cs_recovery cs) (at_project_id a) ''recovery.assessment_completed''
        (sm_assessed_by s) ''assessment_id'' (sm_id s) \<and>
      decided_by (cs_recovery cs) (at_project_id a) ''recovery.rollback_approval_granted''
        (vm_approver_subject v) ''approval_id'' (vm_id v) \<and>
      decided_by (cs_recovery cs) (at_project_id a) ''recovery.attempt_created''
        operator ''attempt_id'' (at_id a) \<and>
      (\<forall>b\<in>set (db_attempts (cs_recovery cs)). at_rollback_approval_id b = vm_id v \<longrightarrow> b = a)"
proof -
  obtain v s i r operator where t: "traced hs cs a v s i r operator" by (rule authorityE [OF assms])
  obtain reason now c where order: "same_order (new_recovery_attempt (at_id a) c v) a"
    and new: "v\<lparr>vm_status := ACTIVE, vm_consumed_at := None\<rparr> =
       new_approval hs (vm_id v) now s i r (vm_approver_subject v) reason"
    by (rule traced_columns [OF t])
  note copied = order_of_approval [OF order] approval_columns [OF new]
  have rows: "v \<in> set (db_approvals (cs_recovery cs))" "s \<in> set (db_assessments (cs_recovery cs))"
    "i \<in> set (cs_incidents cs)" "r \<in> set (db_rollbacks (cs_recovery cs))" "im_id i = sm_incident_id s"
    using get_row_SomeD [OF tracedD(1) [OF t]] get_row_SomeD [OF tracedD(3) [OF t]]
      get_row_SomeD [OF tracedD(4) [OF t]] get_row_SomeD [OF tracedD(5) [OF t]] by blast+
  have "b = a" if "b \<in> set (db_attempts (cs_recovery cs))" "at_rollback_approval_id b = vm_id v" for b
    using distinct_key_eq [OF authority_inv_ids(4) [OF authority_reachable [OF assms(1)]] that(1) assms(2)]
      that(2) copied(1) by simp
  then show ?thesis
    using tracedD(2,6) [OF t] traced_people(1-4) [OF t] traced_revertible [OF t] copied rows(5)
    unfolding revertible_def
    by (intro bexI [OF _ rows(1)] bexI [OF _ rows(2)] bexI [OF _ rows(3)] bexI [OF _ rows(4)]
        exI [of _ operator]) simp
qed

section \<open>What a worker accepts\<close>

lemma bindings_hold:
  assumes "control_reachable hs cs" and "a \<in> set (db_attempts (cs_recovery cs))"
    and "get_row pm_id (at_project_id a) (db_projects (cs_recovery cs)) = Some p"
  obtains v s r where
    "get_row vm_id (at_rollback_approval_id a) (db_approvals (cs_recovery cs)) = Some v"
    "get_row sm_id (at_recovery_assessment_id a) (db_assessments (cs_recovery cs)) = Some s"
    "get_row rm_id (at_rollback_record_id a) (db_rollbacks (cs_recovery cs)) = Some r"
    "validate_bindings hs a v s r p =
       (if (pm_repository_url p = None \<or> pm_repository_url p = Some [])
           \<or> at_target_branch a \<noteq> pm_default_branch p
        then Inl (RecoveryAttemptStoreError ''RECOVERY_REPOSITORY_BINDING_MISMATCH'') else Inr ())"
proof -
  obtain v s i r operator where t: "traced hs cs a v s i r operator"
    by (rule authorityE [OF assms(1,2)])
  obtain reason now c where order: "same_order (new_recovery_attempt (at_id a) c v) a"
    and new: "v\<lparr>vm_status := ACTIVE, vm_consumed_at := None\<rparr> =
       new_approval hs (vm_id v) now s i r (vm_approver_subject v) reason"
    by (rule traced_columns [OF t])
  note copied = order_of_approval [OF order] approval_columns [OF new]
  have s: "get_row sm_id (at_recovery_assessment_id a) (db_assessments (cs_recovery cs)) = Some s"
    and r: "get_row rm_id (at_rollback_record_id a) (db_rollbacks (cs_recovery cs)) = Some r"
    using tracedD(3,5) [OF t] copied(2,3) by simp_all
  have rev: "sm_recommended_strategy s = REVERT_COMMIT"
    using traced_revertible(1) [OF t] unfolding revertible_def by blast
  have p: "pm_id p = im_project_id i" using get_row_SomeD [OF assms(3)] copied(4,11) by simp
  have "validate_bindings hs a v s r p =
       (if (pm_repository_url p = None \<or> pm_repository_url p = Some [])
           \<or> at_target_branch a \<noteq> pm_default_branch p
        then Inl (RecoveryAttemptStoreError ''RECOVERY_REPOSITORY_BINDING_MISMATCH'') else Inr ())"
    by (simp add: validate_bindings_def Let_def tracedD(2,6,7) [OF t] copied rev p)
  then show ?thesis by (rule that [OF tracedD(1) [OF t] s r])
qed

lemma attempt_row:
  assumes "control_reachable hs cs" and "a \<in> set (db_attempts (cs_recovery cs))"
  shows "get_row at_id (at_id a) (db_attempts (cs_recovery cs)) = Some a"
  by (rule get_row_distinct [OF authority_inv_ids(3) [OF authority_reachable [OF assms(1)]] assms(2)])

lemma load_claim_row:
  assumes "get_row at_id (at_id a) (db_attempts db) = Some a"
    and "get_row vm_id (at_rollback_approval_id a) (db_approvals db) = Some v"
    and "get_row sm_id (at_recovery_assessment_id a) (db_assessments db) = Some s"
    and "get_row rm_id (at_rollback_record_id a) (db_rollbacks db) = Some r"
  shows "succeeds (load_claim hs held now (at_id a) db) \<longleftrightarrow>
    at_id a \<notin> set held \<and>
    (\<forall>run. latest_run (at_id a) db = Some run \<longrightarrow>
       rn_completed_at run \<noteq> None \<or> rn_claim_expires_at run \<le> now) \<and>
    succeeds (initial_status a) \<and>
    (\<exists>p. get_row pm_id (at_project_id a) (db_projects db) = Some p \<and>
       validate_bindings hs a v s r p = Inr ())"
proof (cases "at_id a \<in> set held")
  case True
  then have "List.find (\<lambda>x. at_id x = at_id a \<and> at_id a \<notin> set held) (db_attempts db) = None"
    by (simp add: find_None_iff)
  then show ?thesis using True by (simp add: load_claim_def)
next
  case False
  have a: "List.find (\<lambda>x. at_id x = at_id a) (db_attempts db) = Some a"
    using assms(1) unfolding get_row_def .
  show ?thesis
    unfolding load_claim_def
    using False
    by (cases "get_row pm_id (at_project_id a) (db_projects db)"; cases "initial_status a";
        cases "latest_run (at_id a) db")
      (auto simp: a assms(2-4) succeeds_iff result_simps Let_def)
qed

text \<open>
  C36: The bindings the control plane writes are the ones the workers check: in every state the
  platform reaches, an attempt can be claimed exactly when its row is free, its last claim has
  ended, its status can be claimed, and its project still has a repository whose default branch
  is the branch of the attempt. No attempt is ever refused for its approval, its assessment, its
  rollback record or its hashes.
\<close>

theorem orders_can_be_claimed:
  assumes "control_reachable hs cs" and "a \<in> set (db_attempts (cs_recovery cs))"
  shows "succeeds (load_claim hs held now (at_id a) (cs_recovery cs)) \<longleftrightarrow>
    at_id a \<notin> set held \<and>
    (\<forall>run. latest_run (at_id a) (cs_recovery cs) = Some run \<longrightarrow>
       rn_completed_at run \<noteq> None \<or> rn_claim_expires_at run \<le> now) \<and>
    succeeds (initial_status a) \<and>
    (\<exists>p url. get_row pm_id (at_project_id a) (db_projects (cs_recovery cs)) = Some p \<and>
       pm_repository_url p = Some url \<and> url \<noteq> [] \<and> pm_default_branch p = at_target_branch a)"
proof (cases "get_row pm_id (at_project_id a) (db_projects (cs_recovery cs))")
  case None
  obtain v s i r operator where t: "traced hs cs a v s i r operator" by (rule authorityE [OF assms])
  obtain c where order: "same_order (new_recovery_attempt (at_id a) c v) a"
    by (rule traced_columns [OF t])
  show ?thesis
    using load_claim_row [OF attempt_row [OF assms] tracedD(1) [OF t]] tracedD(3,5) [OF t] None
    by (simp add: order_of_approval [OF order])
next
  case (Some p)
  obtain v s r where rows:
    "get_row vm_id (at_rollback_approval_id a) (db_approvals (cs_recovery cs)) = Some v"
    "get_row sm_id (at_recovery_assessment_id a) (db_assessments (cs_recovery cs)) = Some s"
    "get_row rm_id (at_rollback_record_id a) (db_rollbacks (cs_recovery cs)) = Some r"
    and valid: "validate_bindings hs a v s r p =
       (if (pm_repository_url p = None \<or> pm_repository_url p = Some [])
           \<or> at_target_branch a \<noteq> pm_default_branch p
        then Inl (RecoveryAttemptStoreError ''RECOVERY_REPOSITORY_BINDING_MISMATCH'') else Inr ())"
    by (rule bindings_hold [OF assms Some])
  have "validate_bindings hs a v s r p = Inr () \<longleftrightarrow> (\<exists>url. pm_repository_url p = Some url \<and>
      url \<noteq> [] \<and> pm_default_branch p = at_target_branch a)"
    unfolding valid by auto
  then show ?thesis
    unfolding load_claim_row [OF attempt_row [OF assms] rows] Some by simp
qed

section \<open>Witnesses\<close>

definition plain_hashing :: hashing where
  "plain_hashing = \<lparr>hs_canonical_json = (\<lambda>_. ''{}''), hs_sha256 = (\<lambda>_. ''{}'')\<rparr>"

definition sample_draws :: draws where
  "sample_draws = \<lparr>dr_uuid = (\<lambda>n. of_nat (10 + n)), dr_clock = (\<lambda>n. 100), dr_held = []\<rparr>"

definition sample_actor :: "string \<Rightarrow> actor" where
  "sample_actor role = \<lparr>ac_subject = ''ann'', ac_type = ''human'', ac_role = role\<rparr>"

definition sample_request :: incident_request where
  "sample_request = \<lparr>ir_severity = ''high'', ir_summary = ''s'', ir_details = ''d'',
     ir_affected_environment = ''e'', ir_detected_at = 50, ir_external_reference = None\<rparr>"

definition sample_rollback_record :: RollbackRecordModel where
  "sample_rollback_record = \<lparr>rm_id = 2, rm_integration_attempt_id = 1, rm_integration_commit_id = 5,
     rm_project_id = 3, rm_target_branch = ''main'', rm_integration_commit_sha = ''bad'',
     rm_parent_commit_sha = ''p'', rm_integration_tree_sha = ''t'', rm_parent_tree_sha = ''u'',
     rm_changed_paths = [], rm_changed_paths_sha256 = [], rm_inverse_diff_artifact_id = 6,
     rm_inverse_diff_sha256 = [], rm_original_patch_sha256 = [], rm_approved_test_commands = [],
     rm_approved_test_commands_sha256 = [], rm_external_side_effects_declared = False,
     rm_database_change_detected = False, rm_deployment_change_detected = False,
     rm_recovery_policy_version = ''r1'', rm_rollback_binding_sha256 = [], rm_created_at = 0\<rparr>"

definition sample_integration :: IntegrationAttemptModel where
  "sample_integration = \<lparr>gm_id = 1, gm_execution_run_id = 7, gm_integration_approval_id = 8,
     gm_attempt_number = 1, gm_status = ''completed'', gm_project_id = 3,
     gm_target_branch = ''main'', gm_expected_patch_sha256 = [], gm_expected_base_commit_sha = ''p'',
     gm_expected_base_tree_sha = ''u'', gm_actual_base_commit_sha = None,
     gm_actual_base_tree_sha = None, gm_resulting_tree_sha = None, gm_failure_code = None,
     gm_failure_message = None, gm_worker_id = None, gm_correlation_id = 9, gm_started_at = None,
     gm_completed_at = None, gm_created_at = 0\<rparr>"

definition sample_control :: control_db where
  "sample_control = \<lparr>cs_recovery = \<lparr>db_projects = [\<lparr>pm_id = 3, pm_repository_url = Some ''url'',
       pm_default_branch = ''main''\<rparr>], db_rollbacks = [sample_rollback_record],
     db_assessments = [], db_approvals = [], db_attempts = [], db_runs = [], db_stages = [],
     db_tests = [], db_commits = [], db_remotes = [], db_artifacts = [],
     db_audit = \<lparr>au_events = [], au_chain = []\<rparr>\<rparr>,
     cs_integrations = [sample_integration], cs_incidents = [],
     cs_queue = \<lparr>qt_jobs = [], qt_attempts = [], qt_workers = [], qt_cycles = []\<rparr>\<rparr>"

definition sample_incident where
  "sample_incident = projr (create_incident plain_hashing sample_draws 1
     (sample_actor ''incident_reporter'') sample_request sample_control)"

definition sample_assessed where
  "sample_assessed = projr (assess plain_hashing sample_draws 10
     (sample_actor ''recovery_assessor'')
     \<lparr>rs_head_sha = ''head'', rs_head_tree_sha = ''tree'', rs_integration_commit_is_ancestor = True\<rparr>
     (snd sample_incident))"

definition sample_approved where
  "sample_approved = projr (approve plain_hashing sample_draws 10
     (sample_actor ''rollback_approver'') ''broken'' (snd sample_assessed))"

definition sample_ordered where
  "sample_ordered = projr (create_attempt plain_hashing sample_draws 10
     (sample_actor ''recovery_operator'') (snd sample_approved))"

lemmas sample_service_defs = sample_actor_def sample_draws_def require_human_role_def result_simps
  Let_def get_row_def

lemma sample_incident_facts:
  "create_incident plain_hashing sample_draws 1 (sample_actor ''incident_reporter'') sample_request
     sample_control = Inr (fst sample_incident, snd sample_incident)"
  "cs_incidents (snd sample_incident) = [fst sample_incident]" "im_id (fst sample_incident) = 10"
  "im_rollback_record_id (fst sample_incident) = 2" "im_project_id (fst sample_incident) = 3"
  "db_rollbacks (cs_recovery (snd sample_incident)) = [sample_rollback_record]"
  "db_projects (cs_recovery (snd sample_incident)) = db_projects (cs_recovery sample_control)"
  "db_assessments (cs_recovery (snd sample_incident)) = []"
  "db_approvals (cs_recovery (snd sample_incident)) = []"
  "db_attempts (cs_recovery (snd sample_incident)) = []"
  "db_runs (cs_recovery (snd sample_incident)) = []"
  by (simp_all add: sample_incident_def create_incident_def sample_service_defs sample_control_def
      sample_integration_def sample_rollback_record_def new_incident_def service_audit_def)

lemma sample_assessed_facts:
  "assess plain_hashing sample_draws 10 (sample_actor ''recovery_assessor'')
     \<lparr>rs_head_sha = ''head'', rs_head_tree_sha = ''tree'', rs_integration_commit_is_ancestor = True\<rparr>
     (snd sample_incident) = Inr (fst sample_assessed, snd sample_assessed)"
  "cs_incidents (snd sample_assessed) = [fst sample_incident]"
  "db_assessments (cs_recovery (snd sample_assessed)) = [fst sample_assessed]"
  "sm_id (fst sample_assessed) = 10" "sm_incident_id (fst sample_assessed) = 10"
  "sm_rollback_record_id (fst sample_assessed) = 2" "sm_direct_revert_possible (fst sample_assessed)"
  "db_rollbacks (cs_recovery (snd sample_assessed)) = [sample_rollback_record]"
  "db_projects (cs_recovery (snd sample_assessed)) = db_projects (cs_recovery sample_control)"
  "db_approvals (cs_recovery (snd sample_assessed)) = []"
  "db_attempts (cs_recovery (snd sample_assessed)) = []"
  "db_runs (cs_recovery (snd sample_assessed)) = []"
  by (simp_all add: sample_assessed_def assess_def sample_service_defs sample_incident_facts
      sample_rollback_record_def new_assessment_def determine_def to_domain_def service_audit_def)

lemma sample_approved_facts:
  "approve plain_hashing sample_draws 10 (sample_actor ''rollback_approver'') ''broken''
     (snd sample_assessed) = Inr (fst sample_approved, snd sample_approved)"
  "db_approvals (cs_recovery (snd sample_approved)) = [fst sample_approved]"
  "vm_id (fst sample_approved) = 10" "vm_status (fst sample_approved) = ACTIVE"
  "vm_expires_at (fst sample_approved) = Some (100 + seconds 3600)"
  "vm_project_id (fst sample_approved) = 3" "vm_target_branch (fst sample_approved) = ''main''"
  "db_projects (cs_recovery (snd sample_approved)) = db_projects (cs_recovery sample_control)"
  "db_attempts (cs_recovery (snd sample_approved)) = []"
  "db_runs (cs_recovery (snd sample_approved)) = []"
  by (simp_all add: sample_approved_def approve_def sample_service_defs sample_incident_facts
      sample_assessed_facts sample_rollback_record_def new_approval_def service_audit_def)

lemma sample_ordered_facts:
  "create_attempt plain_hashing sample_draws 10 (sample_actor ''recovery_operator'')
     (snd sample_approved) = Inr (fst sample_ordered, snd sample_ordered)"
  "db_attempts (cs_recovery (snd sample_ordered)) = [fst sample_ordered]"
  "at_id (fst sample_ordered) = 10" "at_project_id (fst sample_ordered) = 3"
  "at_target_branch (fst sample_ordered) = ''main''"
  "at_status (fst sample_ordered) = RecoveryAttemptStatus.QUEUED"
  "at_push_started_at (fst sample_ordered) = None"
  "db_projects (cs_recovery (snd sample_ordered)) = db_projects (cs_recovery sample_control)"
  "db_runs (cs_recovery (snd sample_ordered)) = []"
  by (simp_all add: sample_ordered_def create_attempt_def sample_service_defs sample_approved_facts
      approval_inactive_def seconds_def new_recovery_attempt_def service_audit_def)

lemma sample_ordered_reachable: "control_reachable plain_hashing (snd sample_ordered)"
proof -
  have "control_reachable plain_hashing sample_control"
    by (rule control_reachable.initially)
      (simp add: initial_control_def sample_control_def sample_rollback_record_def)
  moreover have "control_step plain_hashing sample_control (snd sample_incident)"
    by (rule control_step.incident [OF sample_incident_facts(1)]) (simp add: sample_control_def)
  moreover have "control_step plain_hashing (snd sample_incident) (snd sample_assessed)"
    by (rule control_step.assessment [OF sample_assessed_facts(1)]) (simp add: sample_incident_facts)
  moreover have "control_step plain_hashing (snd sample_assessed) (snd sample_approved)"
    by (rule control_step.approval [OF sample_approved_facts(1)]) (simp add: sample_assessed_facts)
  moreover have "control_step plain_hashing (snd sample_approved) (snd sample_ordered)"
    by (rule control_step.attempt [OF sample_ordered_facts(1)]) (simp add: sample_approved_facts)
  ultimately show ?thesis by (blast intro: control_reachable.later)
qed

lemma recoveries_are_ordered_by_people_witness:
  "\<exists>v\<in>set (db_approvals (cs_recovery (snd sample_ordered))). vm_status v = CONSUMED \<and>
     at_rollback_approval_id (fst sample_ordered) = vm_id v"
proof -
  have "fst sample_ordered \<in> set (db_attempts (cs_recovery (snd sample_ordered)))"
    by (simp add: sample_ordered_facts)
  from recoveries_are_ordered_by_people [OF sample_ordered_reachable this] show ?thesis by blast
qed

lemma orders_can_be_claimed_witness:
  "succeeds (load_claim plain_hashing [] 200 10 (cs_recovery (snd sample_ordered)))"
proof -
  have "fst sample_ordered \<in> set (db_attempts (cs_recovery (snd sample_ordered)))"
    by (simp add: sample_ordered_facts)
  from orders_can_be_claimed [OF sample_ordered_reachable this, of "[]" 200] show ?thesis
    by (simp add: sample_ordered_facts latest_run_def first_by_def initial_status_def
        safe_restart_statuses_def sample_control_def get_row_def)
qed

end
