(* ===== verification/Resilience_Domain.thy ===== *)
theory Resilience_Domain
  imports Json_Value
begin

text \<open>
  \<^verbatim>\<open>domain/resilience/enums.py\<close>, \<^verbatim>\<open>entities.py\<close> and \<^verbatim>\<open>policies.py\<close>: what the platform may still
  do when a part of it is down. A frozen set is a set, a dictionary a map. A policy that raises
  \<^verbatim>\<open>ResiliencePolicyError\<close> returns it on the left of a sum. Differences of timestamps are
  compared exactly, in microseconds, where the source compares the float \<^verbatim>\<open>total_seconds()\<close>.
\<close>

section \<open>Enumerations\<close>

datatype CriticalityTier = TIER_0 | TIER_1 | TIER_2 | TIER_3

datatype DependencyRequirement = MANDATORY | REPLACEABLE | OPTIONAL | CACHED | MANUAL

datatype GovernanceAvailabilityClass =
  NON_CRITICAL | STANDARD | HIGH | MISSION_CRITICAL | SAFETY_CRITICAL | CONTINUITY_MANDATORY

datatype GovernanceDependencyCriticality =
  HARD_REQUIRED | SAFETY_REQUIRED | AUTHORITY_REQUIRED | ASSURANCE_REQUIRED | DEGRADABLE | OPTIONAL

datatype GovernanceDependencyState =
  AVAILABLE | DEGRADED | STALE | PARTITIONED | RATE_LIMITED | OVERLOADED | UNAVAILABLE | UNKNOWN

datatype ContinuityMode =
  NORMAL | READ_ONLY_GOVERNANCE | NO_EXTERNAL_ACTION | AUDIT_PRESERVATION | INCIDENT_ONLY
  | FAIL_CLOSED | QUEUE_ONLY | PREAUTHORIZED_ONLY | CACHED_GOVERNANCE | SAFE_OPERATION_ONLY
  | EMERGENCY_OPERATION | DEGRADED_AUTONOMY | MANUAL_GOVERNANCE | RECOVERY_MODE

datatype GovernanceContinuityEffect =
  CONTINUE_NORMAL | CONTINUE_DEGRADED | QUEUE | READ_ONLY | SAFE_OPERATION_ONLY | EMERGENCY_MODE
  | BLOCK

datatype GovernanceAdmissionEffect = ADMIT | ADMIT_DEGRADED | QUEUE | DEFER | REJECT | EMERGENCY_ONLY

datatype GovernanceDeadlineClass = HARD | FIRM | SOFT | OBSERVATIONAL

datatype Capability =
  READ_GOVERNANCE | CREATE_PROJECT | START_AGENT_WORK | GRANT_APPROVAL | INTEGRATE_PATCH
  | EXECUTE_RECOVERY | DISPATCH_EXTERNAL_COMMAND | APPEND_AUDIT

datatype BackupStatus = CREATED | VERIFYING | RECOVERABLE | FAILED

datatype RestoreStatus = QUEUED | RESTORING | VERIFYING | PASSED | FAILED

datatype DisasterRecoveryStatus =
  DECLARED | WRITES_FROZEN | AUTHORITY_VERIFIED | RECOVERY_POINT_SELECTED | RESTORING | VERIFYING
  | DEGRADED | RECONCILING | EXIT_REVIEW | COMPLETED | FAILED

fun dr_status_text :: "DisasterRecoveryStatus \<Rightarrow> string" where
  "dr_status_text DECLARED = ''declared''"
| "dr_status_text WRITES_FROZEN = ''writes_frozen''"
| "dr_status_text AUTHORITY_VERIFIED = ''authority_verified''"
| "dr_status_text RECOVERY_POINT_SELECTED = ''recovery_point_selected''"
| "dr_status_text RESTORING = ''restoring''"
| "dr_status_text VERIFYING = ''verifying''"
| "dr_status_text DEGRADED = ''degraded''"
| "dr_status_text RECONCILING = ''reconciling''"
| "dr_status_text EXIT_REVIEW = ''exit_review''"
| "dr_status_text COMPLETED = ''completed''"
| "dr_status_text FAILED = ''failed''"

section \<open>Entities\<close>

record RecoveryObjective =
  ro_service_id :: uuid
  ro_tier :: CriticalityTier
  ro_rto_seconds :: int
  ro_rpo_seconds :: int
  ro_mtpd_seconds :: int
  ro_work_recovery_time_seconds :: int
  ro_primary_owner :: string
  ro_deputy_owner :: string
  ro_policy_version :: int
  ro_approved_by :: "string option"
  ro_approved_at :: "timestamp option"

record GovernanceDependencyAvailability =
  da_dependency_id :: string
  da_state :: GovernanceDependencyState
  da_criticality :: GovernanceDependencyCriticality
  da_observed_at :: timestamp

record GovernanceStalenessEnvelope =
  sv_capability :: Capability
  sv_maximum_age_by_dimension_seconds :: "string \<rightharpoonup> int"

record GovernanceCachedAuthority =
  ca_authority_id :: string
  ca_subject_id :: string
  ca_capability :: Capability
  ca_captured_at :: timestamp
  ca_valid_until :: timestamp
  ca_revocation_sensitive :: bool
  ca_dimensions :: "string set"

record GovernanceAvailabilityBudget =
  gb_maximum_duration_seconds :: int
  gb_maximum_executions :: "int option"
  gb_maximum_external_effects :: "int option"
  gb_maximum_ai_tool_calls :: "int option"

record GovernanceAvailabilityBudgetUsage =
  bu_started_at :: timestamp
  bu_executions :: int
  bu_external_effects :: int
  bu_ai_tool_calls :: int

record GovernanceContinuityLease =
  cl_id :: uuid
  cl_capability :: Capability
  cl_mode :: ContinuityMode
  cl_issued_at :: timestamp
  cl_expires_at :: timestamp
  cl_authority :: string
  cl_issued_to :: string
  cl_self_renewal_prohibited :: bool

record ContinuityPolicy =
  cp_mode :: ContinuityMode
  cp_allowed :: "Capability set"
  cp_prohibited :: "Capability set"
  cp_maximum_duration_seconds :: int
  cp_policy_version :: int

record GovernanceAvailabilityContract =
  ac_id :: string
  ac_capability :: Capability
  ac_availability_class :: GovernanceAvailabilityClass
  ac_dependency_behaviors :: "string \<rightharpoonup> ContinuityMode"
  ac_fail_open_allowed :: bool
  ac_cached_authority_allowed :: bool
  ac_queue_allowed :: bool
  ac_emergency_capabilities :: "Capability set"
  ac_required_evidence :: bool
  ac_policy_version :: int

record GovernanceContinuityDecision =
  cd_capability :: Capability
  cd_effect :: GovernanceContinuityEffect
  cd_mode :: ContinuityMode
  cd_reason :: string
  cd_policy_version :: int
  cd_dependency_states :: "string \<rightharpoonup> GovernanceDependencyState"
  cd_lease_id :: "uuid option"

record ContinuityActivation =
  ca_id :: uuid
  ca_policy :: ContinuityPolicy
  ca_activated_at :: timestamp
  ca_expires_at :: timestamp
  ca_activated_by :: string
  ca_reason :: string
  ca_closed_at :: "timestamp option"
  ca_exit_reviewed_by :: "string option"

record CapabilityDecision =
  pd_capability :: Capability
  pd_allowed :: bool
  pd_reason :: string
  pd_policy_versions :: "int list"
  pd_activation_ids :: "uuid list"

record BackupManifest =
  bm_id :: uuid
  bm_backup_type :: string
  bm_content_hash :: string
  bm_object_count :: int
  bm_total_bytes :: int
  bm_encryption_profile :: string
  bm_schema_version :: string
  bm_audit_checkpoint_hash :: string
  bm_storage_locations :: "string list"
  bm_status :: BackupStatus

record RestoreVerification =
  rv_id :: uuid
  rv_backup_id :: uuid
  rv_status :: RestoreStatus
  rv_isolated_environment :: bool
  rv_production_credentials_disabled :: bool
  rv_external_dispatch_blocked :: bool
  rv_checks :: "string \<rightharpoonup> bool"

record DisasterRecoveryRun =
  dr_id :: uuid
  dr_plan_version :: int
  dr_status :: DisasterRecoveryStatus
  dr_commander :: string
  dr_recovery_site :: string
  dr_selected_recovery_point :: "string option"
  dr_unresolved_workflows :: int
  dr_unresolved_external_effects :: int
  dr_missing_artifacts :: int
  dr_exit_reviewed_by :: "string option"

record ReadinessResult =
  rz_ready :: bool
  rz_failures :: "string list"

record GovernanceDeadline =
  gd_id :: string
  gd_capability :: Capability
  gd_deadline_class :: GovernanceDeadlineClass
  gd_due_at :: timestamp
  gd_miss_behavior :: GovernanceContinuityEffect

record GovernanceLatencyBudget =
  lb_capability :: Capability
  lb_end_to_end_milliseconds :: int
  lb_evaluation_milliseconds :: int
  lb_authorization_milliseconds :: int
  lb_evidence_milliseconds :: int
  lb_revocation_milliseconds :: int

record GovernancePerformanceEvidence =
  pe_capability :: Capability
  pe_started_at :: timestamp
  pe_completed_at :: timestamp
  pe_elapsed_milliseconds :: int
  pe_budget_milliseconds :: int
  pe_deadline_met :: bool
  pe_reason :: string

section \<open>Policies\<close>

datatype resilience_error =
    ResiliencePolicyError string
  | ResilienceValueError string
  | ResilienceTypeError string

text \<open>The truth value of an optional string.\<close>

definition given :: "string option \<Rightarrow> bool" where
  "given t \<longleftrightarrow> t \<noteq> None \<and> t \<noteq> Some []"

definition tier_unapproved :: "RecoveryObjective \<Rightarrow> bool" where
  "tier_unapproved objective \<longleftrightarrow>
     ro_tier objective \<in> {TIER_0, TIER_1} \<and>
     \<not> (given (ro_approved_by objective) \<and> ro_approved_at objective \<noteq> None)"

definition validate_objective :: "RecoveryObjective \<Rightarrow> resilience_error + unit" where
  "validate_objective objective =
     (if list_ex (\<lambda>value. value \<le> 0)
           [ro_rto_seconds objective, ro_mtpd_seconds objective, ro_policy_version objective]
      then Inl (ResiliencePolicyError ''Positive objectives and policy version are required'')
      else if ro_rpo_seconds objective < 0 \<or> ro_work_recovery_time_seconds objective < 0
      then Inl (ResiliencePolicyError ''RPO and work recovery time cannot be negative'')
      else if ro_rpo_seconds objective > ro_mtpd_seconds objective
      then Inl (ResiliencePolicyError ''RPO cannot exceed MTPD'')
      else if ro_rto_seconds objective + ro_work_recovery_time_seconds objective
              > ro_mtpd_seconds objective
      then Inl (ResiliencePolicyError ''RTO plus work recovery time cannot exceed MTPD'')
      else if ro_primary_owner objective = ro_deputy_owner objective
      then Inl (ResiliencePolicyError ''Primary and deputy must be distinct'')
      else if tier_unapproved objective
      then Inl (ResiliencePolicyError ''Tier 0 and Tier 1 objectives require approval'')
      else Inr ())"

text \<open>\<^verbatim>\<open>CapabilityGate.decide\<close>.\<close>

definition invalid_activation :: "ContinuityActivation \<Rightarrow> bool" where
  "invalid_activation item \<longleftrightarrow>
     ca_expires_at item \<le> ca_activated_at item \<or>
     ca_expires_at item - ca_activated_at item > seconds (cp_maximum_duration_seconds (ca_policy item)) \<or>
     cp_allowed (ca_policy item) \<inter> cp_prohibited (ca_policy item) \<noteq> {}"

definition decide_capability ::
  "Capability \<Rightarrow> ContinuityActivation list option \<Rightarrow> timestamp \<Rightarrow> CapabilityDecision" where
  "decide_capability capability activations now =
     (case activations of
        None \<Rightarrow> \<lparr>pd_capability = capability, pd_allowed = False,
          pd_reason = ''POLICY_STATE_UNAVAILABLE'', pd_policy_versions = [], pd_activation_ids = []\<rparr>
      | Some items \<Rightarrow>
          (let active = filter (\<lambda>item. ca_closed_at item = None) items;
               versions = map (\<lambda>item. cp_policy_version (ca_policy item)) active;
               ids = map ca_id active;
               decision = (\<lambda>allowed reason. \<lparr>pd_capability = capability, pd_allowed = allowed,
                 pd_reason = reason, pd_policy_versions = versions, pd_activation_ids = ids\<rparr>)
           in if list_ex invalid_activation active
              then decision False ''INVALID_CONTINUITY_POLICY_STATE''
              else if list_ex (\<lambda>item. ca_expires_at item \<le> now) active
              then decision (capability = READ_GOVERNANCE) ''ACTIVATION_EXPIRED_REVIEW_REQUIRED''
              else if list_ex (\<lambda>item. capability \<in> cp_prohibited (ca_policy item)) active
              then decision False ''EXPLICITLY_PROHIBITED''
              else if active = []
              then decision True ''NORMAL_OPERATION''
              else if list_ex (\<lambda>item. capability \<in> cp_allowed (ca_policy item)) active
              then decision True ''ALLOWED_BY_CONTINUITY_POLICY''
              else decision False ''NOT_ALLOWED_IN_MODE''))"

text \<open>\<^verbatim>\<open>GovernanceAvailabilityPolicy\<close>.\<close>

definition failing_state :: "GovernanceDependencyState \<Rightarrow> bool" where
  "failing_state s \<longleftrightarrow> s \<in> {STALE, PARTITIONED, RATE_LIMITED, OVERLOADED, UNAVAILABLE, UNKNOWN}"

definition hard_criticality :: "GovernanceDependencyCriticality \<Rightarrow> bool" where
  "hard_criticality c \<longleftrightarrow> c \<in> {HARD_REQUIRED, AUTHORITY_REQUIRED, SAFETY_REQUIRED}"

definition validate_contract :: "GovernanceAvailabilityContract \<Rightarrow> resilience_error + unit" where
  "validate_contract contract =
     (if ac_policy_version contract \<le> 0
      then Inl (ResiliencePolicyError ''Availability contract requires a policy version'')
      else if ac_fail_open_allowed contract \<and> \<not> ac_required_evidence contract
      then Inl (ResiliencePolicyError ''Fail-open continuity requires evidence'')
      else if ac_capability contract \<in> ac_emergency_capabilities contract
              \<and> \<not> ac_required_evidence contract
      then Inl (ResiliencePolicyError ''Emergency operation requires evidence'')
      else Inr ())"

definition lease_valid ::
  "Capability \<Rightarrow> ContinuityMode \<Rightarrow> GovernanceContinuityLease option \<Rightarrow> timestamp \<Rightarrow> bool" where
  "lease_valid capability mode lease now = (case lease of
     None \<Rightarrow> False
   | Some l \<Rightarrow> cl_capability l = capability \<and> cl_mode l = mode \<and>
       cl_issued_at l \<le> now \<and> now < cl_expires_at l \<and> cl_authority l \<noteq> [] \<and>
       cl_self_renewal_prohibited l)"

definition below_limit :: "int option \<Rightarrow> int \<Rightarrow> bool" where
  "below_limit limit value = (case limit of None \<Rightarrow> True | Some n \<Rightarrow> value < n)"

definition budget_available ::
  "GovernanceAvailabilityBudget option \<Rightarrow> GovernanceAvailabilityBudgetUsage option \<Rightarrow> timestamp \<Rightarrow>
   bool" where
  "budget_available budget usage now = (case (budget, usage) of
     (Some b, Some u) \<Rightarrow>
       if gb_maximum_duration_seconds b \<le> 0 then False
       else if now - bu_started_at u > seconds (gb_maximum_duration_seconds b) then False
       else below_limit (gb_maximum_executions b) (bu_executions u) \<and>
            below_limit (gb_maximum_external_effects b) (bu_external_effects u) \<and>
            below_limit (gb_maximum_ai_tool_calls b) (bu_ai_tool_calls u)
   | _ \<Rightarrow> False)"

definition get_default :: "('k \<rightharpoonup> 'v) \<Rightarrow> 'k \<Rightarrow> 'v \<Rightarrow> 'v" where
  "get_default m k d = (case m k of None \<Rightarrow> d | Some v \<Rightarrow> v)"

definition decide_continuity ::
  "GovernanceAvailabilityContract \<Rightarrow> GovernanceDependencyAvailability list \<Rightarrow>
   GovernanceContinuityLease option \<Rightarrow> GovernanceAvailabilityBudget option \<Rightarrow>
   GovernanceAvailabilityBudgetUsage option \<Rightarrow> timestamp \<Rightarrow>
   resilience_error + GovernanceContinuityDecision" where
  "decide_continuity contract dependencies lease budget usage now =
     bind_result (validate_contract contract) (\<lambda>_.
       let behaviors = ac_dependency_behaviors contract;
           states = map_of (rev (map (\<lambda>d. (da_dependency_id d, da_state d)) dependencies));
           failing = filter (\<lambda>d. failing_state (da_state d)) dependencies;
           hard_failure = List.find (\<lambda>d. hard_criticality (da_criticality d)) failing;
           lease_id = map_option cl_id lease;
           decision = (\<lambda>effect mode reason lid. Inr
             \<lparr>cd_capability = ac_capability contract, cd_effect = effect, cd_mode = mode,
              cd_reason = reason, cd_policy_version = ac_policy_version contract,
              cd_dependency_states = states, cd_lease_id = lid\<rparr>);
           default_mode = get_default behaviors ''default'' ContinuityMode.FAIL_CLOSED
       in if failing = []
          then decision CONTINUE_NORMAL (get_default behaviors ''normal'' NORMAL)
                 ''DEPENDENCIES_AVAILABLE'' None
          else if (case hard_failure of None \<Rightarrow> False | Some d \<Rightarrow> behaviors (da_dependency_id d) = None)
          then decision BLOCK default_mode ''HARD_REQUIRED_DEPENDENCY_UNAVAILABLE'' None
          else
            (let mode = (case List.find (\<lambda>d. behaviors (da_dependency_id d) \<noteq> None) failing of
                           None \<Rightarrow> default_mode
                         | Some d \<Rightarrow> the (behaviors (da_dependency_id d)))
             in if mode = ContinuityMode.FAIL_CLOSED
                then decision BLOCK mode ''CONTINUITY_MODE_FAIL_CLOSED'' lease_id
                else if mode = QUEUE_ONLY \<and> ac_queue_allowed contract
                then decision GovernanceContinuityEffect.QUEUE mode ''QUEUED_BY_CONTINUITY_CONTRACT''
                       lease_id
                else if mode = EMERGENCY_OPERATION \<and>
                        ac_capability contract \<in> ac_emergency_capabilities contract
                then decision EMERGENCY_MODE mode ''EMERGENCY_OPERATION_AUTHORIZED'' lease_id
                else if \<not> lease_valid (ac_capability contract) mode lease now
                then decision BLOCK ContinuityMode.FAIL_CLOSED ''CONTINUITY_LEASE_INVALID'' None
                else if \<not> budget_available budget usage now
                then decision BLOCK ContinuityMode.FAIL_CLOSED ''CONTINUITY_BUDGET_EXHAUSTED'' lease_id
                else decision CONTINUE_DEGRADED mode
                       ''CONTINUE_DEGRADED_WITH_BOUNDED_AUTHORITY'' lease_id))"

definition cached_authority_valid ::
  "GovernanceCachedAuthority \<Rightarrow> GovernanceStalenessEnvelope \<Rightarrow> string \<Rightarrow> timestamp \<Rightarrow> bool \<Rightarrow> bool" where
  "cached_authority_valid authority envelope dimension now revocation_state_available =
     (if ca_capability authority \<noteq> sv_capability envelope \<or> ca_valid_until authority \<le> now then False
      else if ca_revocation_sensitive authority \<and> \<not> revocation_state_available then False
      else (case sv_maximum_age_by_dimension_seconds envelope dimension of
              None \<Rightarrow> False
            | Some maximum_age \<Rightarrow> now - ca_captured_at authority \<le> seconds maximum_age))"

text \<open>\<^verbatim>\<open>GovernancePerformancePolicy\<close>; milliseconds are truncated toward zero.\<close>

definition validate_latency_budget :: "GovernanceLatencyBudget \<Rightarrow> resilience_error + unit" where
  "validate_latency_budget b =
     (let parts = [lb_evaluation_milliseconds b, lb_authorization_milliseconds b,
                   lb_evidence_milliseconds b, lb_revocation_milliseconds b]
      in if list_ex (\<lambda>v. v < 0) (lb_end_to_end_milliseconds b # parts)
         then Inl (ResiliencePolicyError ''Latency budgets cannot be negative'')
         else if sum_list parts > lb_end_to_end_milliseconds b
         then Inl (ResiliencePolicyError ''Latency allocation exceeds end-to-end budget'')
         else Inr ())"

definition milliseconds_of :: "duration \<Rightarrow> int" where
  "milliseconds_of d = (if d \<ge> 0 then d div 1000 else - ((- d) div 1000))"

definition evaluate_deadline ::
  "GovernanceDeadline \<Rightarrow> timestamp \<Rightarrow> timestamp \<Rightarrow> int \<Rightarrow> GovernancePerformanceEvidence" where
  "evaluate_deadline deadline started_at completed_at budget_milliseconds =
     (let elapsed = milliseconds_of (completed_at - started_at);
          met = completed_at \<le> gd_due_at deadline \<and> elapsed \<le> budget_milliseconds
      in \<lparr>pe_capability = gd_capability deadline, pe_started_at = started_at,
          pe_completed_at = completed_at, pe_elapsed_milliseconds = elapsed,
          pe_budget_milliseconds = budget_milliseconds, pe_deadline_met = met,
          pe_reason = (if met then ''DEADLINE_MET''
                       else if gd_deadline_class deadline = HARD then ''HARD_DEADLINE_MISSED''
                       else if gd_deadline_class deadline = FIRM then ''FIRM_DEADLINE_MISSED''
                       else ''DEADLINE_OBSERVED_LATE'')\<rparr>)"

definition REQUIRED_CHECKS :: "string list" where
  "REQUIRED_CHECKS =
     [''schema'', ''references'', ''artifacts'', ''audit_chain'', ''git_reachability'', ''jobs'']"

definition mark_recoverable ::
  "BackupManifest \<Rightarrow> RestoreVerification \<Rightarrow> resilience_error + BackupManifest" where
  "mark_recoverable backup verification =
     (if rv_backup_id verification \<noteq> bm_id backup \<or> rv_status verification \<noteq> PASSED
      then Inl (ResiliencePolicyError ''A successful matching restore is required'')
      else if \<not> (rv_isolated_environment verification
                 \<and> rv_production_credentials_disabled verification
                 \<and> rv_external_dispatch_blocked verification)
      then Inl (ResiliencePolicyError ''Restore isolation controls are incomplete'')
      else if \<not> list_all (\<lambda>name. rv_checks verification name = Some True) REQUIRED_CHECKS
      then Inl (ResiliencePolicyError ''Restore integrity checks are incomplete'')
      else Inr (backup\<lparr>bm_status := RECOVERABLE\<rparr>))"

text \<open>\<^verbatim>\<open>DisasterRecoveryStateMachine\<close>.\<close>

fun dr_next :: "DisasterRecoveryStatus \<Rightarrow> DisasterRecoveryStatus option" where
  "dr_next DECLARED = Some WRITES_FROZEN"
| "dr_next WRITES_FROZEN = Some AUTHORITY_VERIFIED"
| "dr_next AUTHORITY_VERIFIED = Some RECOVERY_POINT_SELECTED"
| "dr_next RECOVERY_POINT_SELECTED = Some RESTORING"
| "dr_next RESTORING = Some VERIFYING"
| "dr_next VERIFYING = Some DEGRADED"
| "dr_next DEGRADED = Some RECONCILING"
| "dr_next RECONCILING = Some EXIT_REVIEW"
| "dr_next EXIT_REVIEW = Some COMPLETED"
| "dr_next COMPLETED = None"
| "dr_next FAILED = None"

definition dr_transition ::
  "DisasterRecoveryRun \<Rightarrow> DisasterRecoveryStatus \<Rightarrow> resilience_error + DisasterRecoveryRun" where
  "dr_transition run target =
     (if target = FAILED then Inr (run\<lparr>dr_status := target\<rparr>)
      else if dr_next (dr_status run) \<noteq> Some target
      then Inl (ResiliencePolicyError (''Invalid DR transition '' @ dr_status_text (dr_status run)
                  @ '' -> '' @ dr_status_text target))
      else if target = RECOVERY_POINT_SELECTED \<and>
              \<not> (dr_commander run \<noteq> [] \<and> given (dr_selected_recovery_point run))
      then Inl (ResiliencePolicyError ''Authority and recovery point are required'')
      else if target = COMPLETED \<and>
              (dr_unresolved_workflows run \<noteq> 0 \<or> dr_unresolved_external_effects run \<noteq> 0
               \<or> dr_missing_artifacts run \<noteq> 0 \<or> \<not> given (dr_exit_reviewed_by run))
      then Inl (ResiliencePolicyError
                  ''DR reconciliation and independent exit review are required'')
      else Inr (run\<lparr>dr_status := target\<rparr>))"

definition evaluate_readiness ::
  "RecoveryObjective option \<Rightarrow> BackupManifest option \<Rightarrow> int option \<Rightarrow> bool \<Rightarrow> ReadinessResult" where
  "evaluate_readiness objective backup plan_version mandatory_dependencies_ready =
     (let failures =
            (case objective of
               None \<Rightarrow> [''RECOVERY_OBJECTIVE_MISSING'']
             | Some ob \<Rightarrow> if tier_unapproved ob then [''RECOVERY_OBJECTIVE_UNAPPROVED''] else []) @
            (if map_option bm_status backup \<noteq> Some RECOVERABLE then [''VERIFIED_BACKUP_MISSING'']
             else []) @
            (if plan_version = None \<or> plan_version = Some 0 then [''RECOVERY_PLAN_MISSING''] else []) @
            (if \<not> mandatory_dependencies_ready then [''MANDATORY_DEPENDENCY_NOT_READY''] else [])
      in \<lparr>rz_ready = (failures = []), rz_failures = failures\<rparr>)"

end
