(* ===== verification/Resilience_Extended.thy ===== *)
theory Resilience_Extended
  imports Resilience_Domain
begin

text \<open>
  \<^verbatim>\<open>domain/resilience/extended.py\<close>, the validator of \<^verbatim>\<open>application/resilience/extended_service.py\<close>
  and the reading of the active continuity activations in
  \<^verbatim>\<open>infrastructure/resilience/repository.py\<close>.
\<close>

section \<open>Entities\<close>

record RegionOwnershipLease =
  rl_resource_id :: uuid
  rl_region :: string
  rl_fencing_token :: int
  rl_acquired_at :: timestamp
  rl_expires_at :: timestamp
  rl_witness_verified :: bool

record ResidencyContext =
  rx_data_classification :: string
  rx_jurisdiction :: string
  rx_processing_region :: string
  rx_provider_id :: "uuid option"
  rx_telemetry_region :: "string option"

record ResidencyPolicy =
  rp_classification :: string
  rp_jurisdiction :: string
  rp_storage_regions :: "string set"
  rp_processing_regions :: "string set"
  rp_provider_ids :: "uuid set"
  rp_cross_border_allowed :: bool

record ModelCandidate =
  mc_model_id :: uuid
  mc_provider_id :: uuid
  mc_status :: string
  mc_approved_use_cases :: "string set"
  mc_prohibited_data_classes :: "string set"
  mc_hosting_region :: string
  mc_evaluation_passed :: bool

record CryptoKeyVersion =
  kv_key_id :: uuid
  kv_version :: int
  kv_algorithm :: string
  kv_status :: string
  kv_valid_from :: timestamp
  kv_revoked_at :: "timestamp option"

record EmergencyAuthorityGrant =
  eg_id :: uuid
  eg_principal_id :: string
  eg_capabilities :: "Capability set"
  eg_valid_from :: timestamp
  eg_valid_until :: timestamp
  eg_issued_by :: string
  eg_second_approver :: string
  eg_revoked_at :: "timestamp option"

record RehearsalEvidence =
  re_status :: string
  re_executed_at :: timestamp
  re_evidence_hash :: string
  re_observed_duration_seconds :: int

record ChaosExperiment =
  ce_id :: uuid
  ce_status :: string
  ce_hypothesis :: string
  ce_safety_limits :: "string \<rightharpoonup> int"
  ce_abort_conditions :: "string list"
  ce_approved_by :: "string option"
  ce_provider_evidence_hash :: "string option"

record CrisisActivation =
  cr_id :: uuid
  cr_status :: string
  cr_declared_by :: string
  cr_second_approver :: string
  cr_prohibited_capabilities :: "Capability set"
  cr_integrity_reviewed_by :: "string option"
  cr_authority_reviewed_by :: "string option"

section \<open>Policies\<close>

definition acquire_region ::
  "RegionOwnershipLease \<Rightarrow> RegionOwnershipLease option \<Rightarrow> timestamp \<Rightarrow>
   resilience_error + RegionOwnershipLease" where
  "acquire_region proposed previous now =
     (if \<not> rl_witness_verified proposed
      then Inl (ResiliencePolicyError ''External witness verification is required'')
      else if rl_expires_at proposed \<le> now \<or> rl_acquired_at proposed > now
      then Inl (ResiliencePolicyError ''Ownership lease time bounds are invalid'')
      else if (case previous of None \<Rightarrow> False
               | Some p \<Rightarrow> rl_fencing_token proposed \<le> rl_fencing_token p)
      then Inl (ResiliencePolicyError ''Fencing token must increase monotonically'')
      else Inr proposed)"

definition authorize_write :: "RegionOwnershipLease option \<Rightarrow> int \<Rightarrow> timestamp \<Rightarrow> bool" where
  "authorize_write lease token now = (case lease of
     None \<Rightarrow> False
   | Some l \<Rightarrow> rl_witness_verified l \<and> rl_expires_at l > now \<and> rl_fencing_token l = token)"

definition authorize_residency :: "ResidencyPolicy option \<Rightarrow> ResidencyContext \<Rightarrow> bool" where
  "authorize_residency policy context = (case policy of
     None \<Rightarrow> False
   | Some p \<Rightarrow>
       if (rp_classification p, rp_jurisdiction p)
          \<noteq> (rx_data_classification context, rx_jurisdiction context) then False
       else if rx_processing_region context \<notin> rp_processing_regions p then False
       else if (case rx_provider_id context of None \<Rightarrow> False | Some i \<Rightarrow> i \<notin> rp_provider_ids p)
       then False
       else if given (rx_telemetry_region context) \<and> \<not> rp_cross_border_allowed p \<and>
               (case rx_telemetry_region context of None \<Rightarrow> False
                | Some r \<Rightarrow> r \<notin> rp_storage_regions p)
       then False
       else True)"

definition eligible_model ::
  "string \<Rightarrow> string \<Rightarrow> uuid set \<Rightarrow> string set \<Rightarrow> ModelCandidate \<Rightarrow> bool" where
  "eligible_model use_case data_classification permitted_providers permitted_regions v \<longleftrightarrow>
     mc_status v = ''approved'' \<and> mc_evaluation_passed v \<and> use_case \<in> mc_approved_use_cases v \<and>
     data_classification \<notin> mc_prohibited_data_classes v \<and>
     mc_provider_id v \<in> permitted_providers \<and> mc_hosting_region v \<in> permitted_regions"

definition select_model ::
  "ModelCandidate list \<Rightarrow> string \<Rightarrow> string \<Rightarrow> uuid set \<Rightarrow> string set \<Rightarrow>
   resilience_error + ModelCandidate" where
  "select_model candidates use_case data_classification permitted_providers permitted_regions =
     (case first_by (\<lambda>v. uuid_text (mc_model_id v))
             (filter (eligible_model use_case data_classification permitted_providers
                        permitted_regions) candidates) of
        None \<Rightarrow> Inl (ResiliencePolicyError ''No compliant approved model is available'')
      | Some v \<Rightarrow> Inr v)"

definition authorize_signing :: "CryptoKeyVersion option \<Rightarrow> timestamp \<Rightarrow> resilience_error + unit" where
  "authorize_signing key now = (case key of
     None \<Rightarrow> Inl (ResiliencePolicyError ''No active signing key version is available'')
   | Some k \<Rightarrow>
       if kv_status k \<noteq> ''active'' \<or> kv_valid_from k > now \<or> kv_revoked_at k \<noteq> None
       then Inl (ResiliencePolicyError ''No active signing key version is available'')
       else Inr ())"

definition historical_verification_allowed :: "CryptoKeyVersion \<Rightarrow> timestamp \<Rightarrow> bool" where
  "historical_verification_allowed key signed_at \<longleftrightarrow>
     kv_valid_from key \<le> signed_at \<and>
     (case kv_revoked_at key of None \<Rightarrow> True | Some r \<Rightarrow> signed_at < r)"

definition validate_emergency_grant ::
  "EmergencyAuthorityGrant \<Rightarrow> timestamp \<Rightarrow> resilience_error + unit" where
  "validate_emergency_grant grant now =
     (if eg_issued_by grant = eg_second_approver grant \<or>
         eg_principal_id grant \<in> {eg_issued_by grant, eg_second_approver grant}
      then Inl (ResiliencePolicyError ''Break-glass issuance requires independent dual control'')
      else if eg_valid_until grant \<le> now \<or> eg_valid_until grant \<le> eg_valid_from grant
      then Inl (ResiliencePolicyError ''Emergency authority is expired or invalid'')
      else if eg_revoked_at grant \<noteq> None
      then Inl (ResiliencePolicyError ''Emergency authority is revoked'')
      else Inr ())"

definition tested_status :: "RehearsalEvidence option \<Rightarrow> resilience_error + string" where
  "tested_status evidence = (case evidence of
     None \<Rightarrow> Inl (ResiliencePolicyError ''Successful provider evidence is required'')
   | Some e \<Rightarrow>
       if re_status e \<noteq> ''passed'' \<or> re_evidence_hash e = []
       then Inl (ResiliencePolicyError ''Successful provider evidence is required'')
       else Inr ''tested'')"

definition migrate_artifact :: "uuid \<Rightarrow> uuid \<Rightarrow> string \<Rightarrow> resilience_error + unit" where
  "migrate_artifact source_id target_id transformation_hash =
     (if source_id = target_id \<or> transformation_hash = []
      then Inl (ResiliencePolicyError ''Artifact migration must preserve the original'')
      else Inr ())"

definition complete_experiment :: "ChaosExperiment \<Rightarrow> resilience_error + ChaosExperiment" where
  "complete_experiment experiment =
     (if ce_status experiment \<noteq> ''approved'' \<or> \<not> given (ce_provider_evidence_hash experiment)
      then Inl (ResiliencePolicyError ''Approved experiment and provider evidence are required'')
      else Inr (experiment\<lparr>ce_status := ''completed''\<rparr>))"

definition activate_crisis :: "CrisisActivation \<Rightarrow> resilience_error + CrisisActivation" where
  "activate_crisis crisis =
     (if cr_declared_by crisis = cr_second_approver crisis
      then Inl (ResiliencePolicyError ''Crisis declaration requires dual control'')
      else if cr_prohibited_capabilities crisis = {}
      then Inl (ResiliencePolicyError ''Crisis mode must restrict capabilities'')
      else Inr (crisis\<lparr>cr_status := ''active''\<rparr>))"

definition close_crisis :: "CrisisActivation \<Rightarrow> resilience_error + CrisisActivation" where
  "close_crisis crisis =
     (if \<not> given (cr_integrity_reviewed_by crisis) \<or> \<not> given (cr_authority_reviewed_by crisis)
      then Inl (ResiliencePolicyError ''Integrity and authority exit reviews are required'')
      else if cr_integrity_reviewed_by crisis = Some (cr_declared_by crisis)
      then Inl (ResiliencePolicyError ''Integrity review must be independent'')
      else Inr (crisis\<lparr>cr_status := ''closed''\<rparr>))"

section \<open>Institutional records\<close>

definition RECORD_TYPES :: "string list" where
  "RECORD_TYPES =
     [''region_site'', ''region_ownership_lease'', ''residency_policy'', ''execution_zone'',
      ''model_provider'', ''model_definition'', ''model_evaluation'', ''model_substitution'',
      ''crypto_profile'', ''crypto_key_version'', ''crypto_rotation'', ''key_revocation'',
      ''signature_record'', ''authority_succession'', ''emergency_grant'', ''knowledge_assessment'',
      ''institutional_runbook'', ''runbook_rehearsal'', ''vendor_exit_plan'',
      ''vendor_exit_rehearsal'', ''technology_substitution'', ''archive_verification'',
      ''backup_archive_replication'', ''resilience_experiment'', ''artifact_migration'',
      ''audit_checkpoint'', ''crisis_activation'', ''crisis_exit_review'']"

definition EVIDENCE_STATUSES :: "string list" where
  "EVIDENCE_STATUSES = [''tested'', ''verified'', ''completed'', ''passed'']"

definition SECRET_KEYS :: "string list" where
  "SECRET_KEYS = [''private_key'', ''secret'', ''token'', ''credential'']"

text \<open>
  \<^verbatim>\<open>payload.get(key)\<close>. The rules compare payload values only with each other and with the
  actor; a list or an object among the parties of a grant is not hashable and raises.
\<close>

definition payload_get :: "(string \<times> json) list \<Rightarrow> string \<Rightarrow> json" where
  "payload_get payload key = (case map_of payload key of None \<Rightarrow> JNull | Some v \<Rightarrow> v)"

text \<open>
  Python compares numbers and booleans by value and objects without regard to the order of their
  keys: two values are equal when their normal forms are.
\<close>

fun py_norm :: "json \<Rightarrow> json" where
  "py_norm (JBool b) = JFloat (if b then 1 else 0)"
| "py_norm (JInt n) = JFloat (of_int n)"
| "py_norm (JList xs) = JList (map py_norm xs)"
| "py_norm (JObject kvs) = JObject (sort_key fst (map (\<lambda>(k, v). (k, py_norm v)) kvs))"
| "py_norm v = v"

fun hashable :: "json \<Rightarrow> bool" where
  "hashable (JList xs) = False"
| "hashable (JObject kvs) = False"
| "hashable _ = True"

definition fenced_lease_record :: "(string \<times> json) list \<Rightarrow> resilience_error + bool" where
  "fenced_lease_record payload =
     (if \<not> truthy (payload_get payload ''witness_evidence_hash'') then Inr False
      else
        (let token = (case map_of payload ''fencing_token'' of None \<Rightarrow> JInt 0 | Some v \<Rightarrow> v)
         in case json_int token of
              None \<Rightarrow> Inl (case token of JText s \<Rightarrow> ResilienceValueError s
                                         | _ \<Rightarrow> ResilienceTypeError ''int'')
            | Some n \<Rightarrow> Inr (n > 0)))"

definition independent_parties ::
  "string \<Rightarrow> (string \<times> json) list \<Rightarrow> resilience_error + bool" where
  "independent_parties actor payload =
     (let principal = payload_get payload ''principal_id'';
          approver = payload_get payload ''second_approver''
      in if \<not> hashable principal \<or> \<not> hashable approver
         then Inl (ResilienceTypeError ''unhashable type'')
         else Inr (distinct (map py_norm [JText actor, principal, approver])))"

definition require_policy :: "bool \<Rightarrow> string \<Rightarrow> resilience_error + unit" where
  "require_policy ok message = (if ok then Inr () else Inl (ResiliencePolicyError message))"

definition validate_record ::
  "string \<Rightarrow> string \<Rightarrow> (string \<times> json) list \<Rightarrow> string option \<Rightarrow> string \<Rightarrow> resilience_error + unit" where
  "validate_record record_type status payload evidence_hash actor =
     (let entry = payload_get payload;
          differ = (\<lambda>a b. py_norm (entry a) \<noteq> py_norm (entry b))
      in bind_result (require_policy (record_type \<in> set RECORD_TYPES)
             ''Unknown institutional governance record type'') (\<lambda>_.
         bind_result (require_policy (status \<in> set EVIDENCE_STATUSES \<longrightarrow> given evidence_hash)
             ''Provider or rehearsal evidence is required'') (\<lambda>_.
         bind_result (require_policy (\<not> list_ex (\<lambda>(k, v). lower k \<in> set SECRET_KEYS) payload)
             ''Secret material cannot be persisted'') (\<lambda>_.
         bind_result (if record_type = ''region_ownership_lease'' then fenced_lease_record payload
                      else Inr True) (\<lambda>fenced.
         bind_result (require_policy fenced ''Witnessed positive fencing token is required'') (\<lambda>_.
         bind_result (require_policy (record_type = ''residency_policy'' \<longrightarrow>
               truthy (entry ''processing_regions'') \<and> truthy (entry ''storage_regions''))
             ''Residency regions are required'') (\<lambda>_.
         bind_result (require_policy (record_type = ''model_definition'' \<longrightarrow> status = ''approved'' \<longrightarrow>
               given evidence_hash)
             ''Model approval requires evaluation evidence'') (\<lambda>_.
         bind_result (if record_type = ''emergency_grant'' then independent_parties actor payload
                      else Inr True) (\<lambda>independent.
         bind_result (require_policy independent
             ''Emergency grant requires independent dual control'') (\<lambda>_.
         bind_result (require_policy
               (record_type \<in> {''institutional_runbook'', ''authority_succession''} \<longrightarrow>
                differ ''owner'' ''deputy'' \<and> differ ''primary_subject'' ''deputy_subject'')
             ''Primary owner and backup authority must differ'') (\<lambda>_.
         bind_result (require_policy (record_type = ''artifact_migration'' \<longrightarrow>
               differ ''source_artifact_id'' ''target_artifact_id'')
             ''Artifact migration cannot overwrite its source'') (\<lambda>_.
         bind_result (require_policy (record_type = ''crisis_activation'' \<longrightarrow>
               JText actor \<noteq> entry ''second_approver'' \<and> truthy (entry ''prohibited_capabilities''))
             ''Crisis activation requires dual control and restrictions'') (\<lambda>_.
         require_policy (record_type = ''crisis_exit_review'' \<longrightarrow>
               truthy (entry ''integrity_reviewer'') \<and> truthy (entry ''authority_reviewer''))
             ''Crisis exit requires integrity and authority reviews'')))))))))))))"

section \<open>Stored activations\<close>

record ContinuityActivationModel =
  am_id :: uuid
  am_mode :: ContinuityMode
  am_allowed_capabilities :: "Capability list"
  am_prohibited_capabilities :: "Capability list"
  am_policy_version :: int
  am_activated_at :: timestamp
  am_expires_at :: timestamp
  am_activated_by :: string
  am_reason :: string
  am_closed_at :: "timestamp option"
  am_exit_reviewed_by :: "string option"

definition seconds_of :: "duration \<Rightarrow> int" where
  "seconds_of d = (if d \<ge> 0 then d div 1000000 else - ((- d) div 1000000))"

definition activation_of :: "ContinuityActivationModel \<Rightarrow> ContinuityActivation" where
  "activation_of row =
     \<lparr>ca_id = am_id row,
      ca_policy =
        \<lparr>cp_mode = am_mode row, cp_allowed = set (am_allowed_capabilities row),
         cp_prohibited = set (am_prohibited_capabilities row),
         cp_maximum_duration_seconds = seconds_of (am_expires_at row - am_activated_at row),
         cp_policy_version = am_policy_version row\<rparr>,
      ca_activated_at = am_activated_at row, ca_expires_at = am_expires_at row,
      ca_activated_by = am_activated_by row, ca_reason = am_reason row,
      ca_closed_at = am_closed_at row, ca_exit_reviewed_by = am_exit_reviewed_by row\<rparr>"

definition active_continuity :: "ContinuityActivationModel list \<Rightarrow> ContinuityActivation list" where
  "active_continuity rows = map activation_of (filter (\<lambda>r. am_closed_at r = None) rows)"

end
