(* ===== verification/Resilience_Guarantees.thy ===== *)
theory Resilience_Guarantees
  imports Resilience_Extended Machine
begin

text \<open>
  What the resilience policies promise: the capability gate fails closed and prohibitions
  dominate, degraded operation is always covered by a lease and a budget, a disaster recovery
  completes only through all its stages, and a region that lost its ownership cannot write.
\<close>

section \<open>The capability gate\<close>

definition open_activations :: "ContinuityActivation list \<Rightarrow> ContinuityActivation list" where
  "open_activations items = filter (\<lambda>item. ca_closed_at item = None) items"

definition in_force :: "timestamp \<Rightarrow> ContinuityActivation \<Rightarrow> bool" where
  "in_force now item \<longleftrightarrow> \<not> invalid_activation item \<and> now < ca_expires_at item"


definition sample_activation :: ContinuityActivation where
  "sample_activation = \<lparr>ca_id = 1, ca_policy = \<lparr>cp_mode = READ_ONLY_GOVERNANCE, cp_allowed = {READ_GOVERNANCE},
     cp_prohibited = {}, cp_maximum_duration_seconds = 60, cp_policy_version = 1\<rparr>, ca_activated_at = 0,
     ca_expires_at = 60000000, ca_activated_by = ''ada'', ca_reason = ''outage'', ca_closed_at = None,
     ca_exit_reviewed_by = None\<rparr>"


section \<open>Degraded operation\<close>

lemma lease_validD:
  assumes "lease_valid capability mode lease now"
  obtains l where "lease = Some l" "cl_capability l = capability" "cl_mode l = mode"
    "cl_issued_at l \<le> now" "now < cl_expires_at l"
  using assms by (auto simp: lease_valid_def split: option.splits)

lemma below_limit_iff: "below_limit limit v \<longleftrightarrow> (\<forall>m. limit = Some m \<longrightarrow> v < m)"
  by (simp add: below_limit_def split: option.split)

lemma budget_availableD:
  assumes "budget_available budget usage now"
  obtains b u where "budget = Some b" "usage = Some u"
    "now \<le> bu_started_at u + seconds (gb_maximum_duration_seconds b)"
    "\<forall>m. gb_maximum_executions b = Some m \<longrightarrow> bu_executions u < m"
    "\<forall>m. gb_maximum_external_effects b = Some m \<longrightarrow> bu_external_effects u < m"
    "\<forall>m. gb_maximum_ai_tool_calls b = Some m \<longrightarrow> bu_ai_tool_calls u < m"
  using assms by (auto simp: budget_available_def below_limit_iff split: option.splits if_splits)

text \<open>The effects of a decision while a dependency fails.\<close>

lemma continuity_effects:
  assumes "decide_continuity contract dependencies lease budget usage now = Inr d"
    and "filter (\<lambda>d. failing_state (da_state d)) dependencies \<noteq> []"
  shows "cd_effect d = BLOCK \<or>
    cd_effect d = GovernanceContinuityEffect.QUEUE \<and> ac_queue_allowed contract \<or>
    cd_effect d = EMERGENCY_MODE \<and>
      ac_capability contract \<in> ac_emergency_capabilities contract \<or>
    cd_effect d = CONTINUE_DEGRADED \<and> cd_lease_id d = map_option cl_id lease \<and>
      lease_valid (ac_capability contract) (cd_mode d) lease now \<and> budget_available budget usage now"
proof -
  have ok: "validate_contract contract = Inr ()"
    using assms(1) by (auto simp: decide_continuity_def result_simps)
  show ?thesis
    using assms(1) unfolding decide_continuity_def ok bind_result.simps Let_def if_not_P [OF assms(2)]
    by (simp only: split: if_splits) (drule Inr_inject, drule sym, simp)+
qed


section \<open>Disaster recovery\<close>

text \<open>
  A recovery run in time: the run is edited between the transitions, all but its identity and
  status, and a transition that raises leaves it where it is.
\<close>

fun dr_history ::
  "DisasterRecoveryRun \<Rightarrow> (DisasterRecoveryRun \<times> DisasterRecoveryStatus) list \<Rightarrow>
   DisasterRecoveryRun list" where
  "dr_history run [] = []"
| "dr_history run ((edited, target) # es) =
     (let current = edited\<lparr>dr_id := dr_id run, dr_status := dr_status run\<rparr>
      in case dr_transition current target of
           Inl e \<Rightarrow> dr_history current es
         | Inr run' \<Rightarrow> run' # dr_history run' es)"

definition dr_legal :: "DisasterRecoveryStatus \<Rightarrow> DisasterRecoveryStatus \<Rightarrow> bool" where
  "dr_legal s t \<longleftrightarrow> t = FAILED \<or> dr_next s = Some t"

definition dr_stages :: "DisasterRecoveryStatus list" where
  "dr_stages =
     [DECLARED, WRITES_FROZEN, AUTHORITY_VERIFIED, RECOVERY_POINT_SELECTED, RESTORING, VERIFYING,
      DEGRADED, RECONCILING, EXIT_REVIEW, COMPLETED]"

fun dr_stage :: "DisasterRecoveryStatus \<Rightarrow> nat" where
  "dr_stage WRITES_FROZEN = 1"
| "dr_stage AUTHORITY_VERIFIED = 2"
| "dr_stage RECOVERY_POINT_SELECTED = 3"
| "dr_stage RESTORING = 4"
| "dr_stage VERIFYING = 5"
| "dr_stage DEGRADED = 6"
| "dr_stage RECONCILING = 7"
| "dr_stage EXIT_REVIEW = 8"
| "dr_stage COMPLETED = 9"
| "dr_stage _ = 0"

interpretation disaster: staged_lifecycle dr_legal "\<lambda>_. False" dr_stage "\<lambda>i. dr_stages ! i"
proof
  fix s t
  show "dr_legal s t \<Longrightarrow> dr_stage t \<le> dr_stage s \<or>
      dr_stage t = Suc (dr_stage s) \<and> dr_stages ! dr_stage t = t"
    by (cases s) (auto simp: dr_legal_def dr_stages_def)
qed simp

text \<open>What holds of a run in the status it has just entered.\<close>

definition entered :: "DisasterRecoveryRun \<Rightarrow> bool" where
  "entered run \<longleftrightarrow>
     (dr_status run = RECOVERY_POINT_SELECTED \<longrightarrow>
        dr_commander run \<noteq> [] \<and> given (dr_selected_recovery_point run)) \<and>
     (dr_status run = COMPLETED \<longrightarrow>
        dr_unresolved_workflows run = 0 \<and> dr_unresolved_external_effects run = 0 \<and>
        dr_missing_artifacts run = 0 \<and> given (dr_exit_reviewed_by run))"

lemma dr_transition_Inr:
  assumes "dr_transition run target = Inr run'"
  shows "dr_legal (dr_status run) (dr_status run')" "entered run'"
  using assms by (auto simp: dr_transition_def dr_legal_def entered_def split: if_splits)

lemma dr_history_legal: "legal_run dr_legal (dr_status run) (map dr_status (dr_history run es))"
proof (induction es arbitrary: run)
  case (Cons e es)
  obtain edited target where e: "e = (edited, target)" by (cases e)
  show ?case
  proof (cases "dr_transition (edited\<lparr>dr_id := dr_id run, dr_status := dr_status run\<rparr>) target")
    case (Inl x)
    then show ?thesis
      using Cons.IH [of "edited\<lparr>dr_id := dr_id run, dr_status := dr_status run\<rparr>"] by (simp add: e)
  next
    case (Inr run')
    then show ?thesis using Cons.IH [of run'] dr_transition_Inr(1) [OF Inr] by (simp add: e)
  qed
qed simp

lemma dr_history_entered: "r \<in> set (dr_history run es) \<Longrightarrow> entered r"
  by (induction run es rule: dr_history.induct)
    (auto simp: Let_def intro: dr_transition_Inr(2) split: sum.splits)

lemma dr_milestones: "map ((!) dr_stages) [Suc 0..<Suc 9] = tl dr_stages"
  by code_simp

text \<open>
  C34: A disaster recovery that was declared completes only through all its stages in order, with
  a commander and a recovery point when the point is selected, and with nothing unresolved,
  nothing missing and an exit review when it completes, however often the run is edited and
  however many transitions are refused or attempted out of order on the way.
\<close>

theorem disaster_recovery_completes_in_order:
  assumes "dr_status run = DECLARED" and "dr_history run es \<noteq> []"
    and "dr_status (last (dr_history run es)) = COMPLETED"
  shows "subseq (tl dr_stages) (map dr_status (dr_history run es)) \<and>
    (\<exists>r\<in>set (dr_history run es). dr_status r = RECOVERY_POINT_SELECTED \<and> dr_commander r \<noteq> [] \<and>
       given (dr_selected_recovery_point r)) \<and>
    dr_unresolved_workflows (last (dr_history run es)) = 0 \<and>
    dr_unresolved_external_effects (last (dr_history run es)) = 0 \<and>
    dr_missing_artifacts (last (dr_history run es)) = 0 \<and>
    given (dr_exit_reviewed_by (last (dr_history run es)))"
proof -
  let ?h = "dr_history run es"
  have last: "last (DECLARED # map dr_status ?h) = COMPLETED"
    using assms(2,3) by (simp add: last_map)
  have legal: "legal_run dr_legal DECLARED (map dr_status ?h)"
    using dr_history_legal [of run es] assms(1) by simp
  have sub: "subseq (tl dr_stages) (map dr_status ?h)"
    using disaster.milestones_visited [OF legal] unfolding last dr_stage.simps dr_milestones .
  moreover have "RECOVERY_POINT_SELECTED \<in> set (map dr_status ?h)"
    using list_emb_set [OF sub, of RECOVERY_POINT_SELECTED] by (auto simp: dr_stages_def)
  then obtain r where "r \<in> set ?h" "dr_status r = RECOVERY_POINT_SELECTED" by auto
  moreover have "entered (last ?h)" using assms(2) dr_history_entered last_in_set by blast
  ultimately show ?thesis using assms(3) dr_history_entered [of r] unfolding entered_def by blast
qed

section \<open>Region ownership\<close>

text \<open>The lease in force after a history of acquisitions; a refused one changes nothing.\<close>

fun region_owner ::
  "RegionOwnershipLease option \<Rightarrow> (RegionOwnershipLease \<times> timestamp) list \<Rightarrow>
   RegionOwnershipLease option" where
  "region_owner lease [] = lease"
| "region_owner lease ((proposed, now) # es) =
     (case acquire_region proposed lease now of
        Inl e \<Rightarrow> region_owner lease es
      | Inr l \<Rightarrow> region_owner (Some l) es)"

lemma region_owner_append: "region_owner lease (es @ fs) = region_owner (region_owner lease es) fs"
  by (induction lease es rule: region_owner.induct) (auto split: sum.split)

lemma acquire_regionD:
  "acquire_region proposed (Some l) now = Inr l' \<Longrightarrow> l' = proposed \<and> rl_fencing_token l < rl_fencing_token l'"
  by (auto simp: acquire_region_def split: if_splits)

lemma region_owner_later:
  "region_owner (Some l) es = Some l' \<Longrightarrow> l' = l \<or> rl_fencing_token l < rl_fencing_token l'"
proof (induction es arbitrary: l)
  case (Cons e es)
  obtain proposed now where e: "e = (proposed, now)" by (cases e)
  show ?case
  proof (cases "acquire_region proposed (Some l) now")
    case (Inl x)
    then show ?thesis using Cons by (simp add: e)
  next
    case (Inr m)
    then have "rl_fencing_token l < rl_fencing_token m" by (blast dest: acquire_regionD)
    moreover have "l' = m \<or> rl_fencing_token m < rl_fencing_token l'"
      using Cons.IH [of m] Cons.prems Inr by (simp add: e)
    ultimately show ?thesis by auto
  qed
qed simp

text \<open>
  C35: Along any history of acquisitions a region that lost its ownership never writes again: if
  the token of a lease that was in force at some time still authorizes a write later, the lease
  in force is that lease itself, its witness was verified and it has not ended.
\<close>

theorem superseded_region_cannot_write:
  assumes "region_owner None es = Some l"
    and "authorize_write (region_owner None (es @ fs)) (rl_fencing_token l) now"
  shows "region_owner None (es @ fs) = Some l \<and> rl_witness_verified l \<and> now < rl_expires_at l"
proof -
  obtain l' where l': "region_owner None (es @ fs) = Some l'" "rl_witness_verified l'"
    "now < rl_expires_at l'" "rl_fencing_token l' = rl_fencing_token l"
    using assms(2) by (auto simp: authorize_write_def split: option.splits)
  have "region_owner (Some l) fs = Some l'" using l'(1) assms(1) by (simp add: region_owner_append)
  then have "l' = l" using region_owner_later l'(4) by fastforce
  then show ?thesis using l' by simp
qed

section \<open>Witnesses\<close>

definition sample_dr_run :: DisasterRecoveryRun where
  "sample_dr_run = \<lparr>dr_id = 1, dr_plan_version = 1, dr_status = DECLARED, dr_commander = ''ann'',
     dr_recovery_site = ''west'', dr_selected_recovery_point = Some ''p1'',
     dr_unresolved_workflows = 0, dr_unresolved_external_effects = 0, dr_missing_artifacts = 0,
     dr_exit_reviewed_by = Some ''bob''\<rparr>"

definition sample_dr_events :: "(DisasterRecoveryRun \<times> DisasterRecoveryStatus) list" where
  "sample_dr_events = (sample_dr_run, RESTORING) # map (\<lambda>t. (sample_dr_run, t)) (tl dr_stages)"

lemma disaster_recovery_completes_in_order_witness:
  "subseq (tl dr_stages) (map dr_status (dr_history sample_dr_run sample_dr_events))"
proof -
  have "dr_status sample_dr_run = DECLARED" by code_simp
  moreover have "dr_history sample_dr_run sample_dr_events \<noteq> []" by code_simp
  moreover have "dr_status (last (dr_history sample_dr_run sample_dr_events)) = COMPLETED"
    by code_simp
  ultimately show ?thesis using disaster_recovery_completes_in_order by blast
qed

definition sample_lease :: "int \<Rightarrow> RegionOwnershipLease" where
  "sample_lease n = \<lparr>rl_resource_id = 1, rl_region = ''east'', rl_fencing_token = n,
     rl_acquired_at = 0, rl_expires_at = 100, rl_witness_verified = True\<rparr>"

lemma superseded_region_cannot_write_witness:
  "region_owner None ([(sample_lease 1, 5), (sample_lease 3, 6)] @ [(sample_lease 2, 7)]) =
     Some (sample_lease 3)"
proof -
  have "region_owner None [(sample_lease 1, 5), (sample_lease 3, 6)] = Some (sample_lease 3)"
    by code_simp
  moreover have "authorize_write
      (region_owner None ([(sample_lease 1, 5), (sample_lease 3, 6)] @ [(sample_lease 2, 7)]))
      (rl_fencing_token (sample_lease 3)) 10"
    by code_simp
  ultimately show ?thesis using superseded_region_cannot_write by blast
qed

definition sample_contract :: "(string \<rightharpoonup> ContinuityMode) \<Rightarrow> GovernanceAvailabilityContract" where
  "sample_contract behaviors = \<lparr>ac_id = ''c'', ac_capability = START_AGENT_WORK,
     ac_availability_class = STANDARD, ac_dependency_behaviors = behaviors,
     ac_fail_open_allowed = False, ac_cached_authority_allowed = False, ac_queue_allowed = False,
     ac_emergency_capabilities = {}, ac_required_evidence = False, ac_policy_version = 1\<rparr>"

definition sample_dependency ::
  "string \<Rightarrow> GovernanceDependencyCriticality \<Rightarrow> GovernanceDependencyAvailability" where
  "sample_dependency i c = \<lparr>da_dependency_id = i, da_state = UNAVAILABLE, da_criticality = c,
     da_observed_at = 0\<rparr>"

definition sample_continuity_lease :: GovernanceContinuityLease where
  "sample_continuity_lease = \<lparr>cl_id = 9, cl_capability = START_AGENT_WORK,
     cl_mode = DEGRADED_AUTONOMY, cl_issued_at = 0, cl_expires_at = 100, cl_authority = ''ann'',
     cl_issued_to = ''worker'', cl_self_renewal_prohibited = True\<rparr>"

definition sample_budget :: GovernanceAvailabilityBudget where
  "sample_budget = \<lparr>gb_maximum_duration_seconds = 60, gb_maximum_executions = Some 3,
     gb_maximum_external_effects = None, gb_maximum_ai_tool_calls = None\<rparr>"

definition sample_usage :: GovernanceAvailabilityBudgetUsage where
  "sample_usage = \<lparr>bu_started_at = 0, bu_executions = 1, bu_external_effects = 0,
     bu_ai_tool_calls = 0\<rparr>"

definition sample_decision ::
  "(string \<rightharpoonup> ContinuityMode) \<Rightarrow> GovernanceDependencyAvailability list \<Rightarrow>
   resilience_error + GovernanceContinuityDecision" where
  "sample_decision behaviors dependencies = decide_continuity (sample_contract behaviors)
     dependencies (Some sample_continuity_lease) (Some sample_budget) (Some sample_usage) 10"


text \<open>
  The mode is the one the contract gives for the first failing dependency. A degradable
  dependency listed first hides that the contract blocks without a later, required one.
\<close>

lemma first_failure_masks_required_dependency:
  "\<exists>d. sample_decision [''cache'' \<mapsto> DEGRADED_AUTONOMY, ''authority'' \<mapsto> ContinuityMode.FAIL_CLOSED]
       [sample_dependency ''cache'' DEGRADABLE, sample_dependency ''authority'' AUTHORITY_REQUIRED] =
     Inr d \<and> cd_effect d = CONTINUE_DEGRADED"
  by (simp add: sample_decision_def decide_continuity_def validate_contract_def sample_contract_def
      sample_dependency_def sample_continuity_lease_def sample_budget_def sample_usage_def
      failing_state_def hard_criticality_def lease_valid_def budget_available_def below_limit_def
      seconds_def Let_def)

end
