(* ===== verification/Integration_Service.thy ===== *)
theory Integration_Service
  imports Workflow_Store
begin

text \<open>
  The tables of the integration of reviewed work (\<^verbatim>\<open>infrastructure/database/models.py\<close>), the
  policies of \<^verbatim>\<open>domain/integration/policies.py\<close> and the control plane of
  \<^verbatim>\<open>application/integration/service.py\<close>: the eligibility of a patch is evaluated, a person
  approves its integration, and an attempt is created from the approval. Each operation is one
  transaction; an exception rolls it back, so it returns its row and the new tables or its
  exception. Rows it refers to cannot disappear: every foreign key restricts deletion.

  The columns are those the operations read or write. A column whose enumeration is stored as
  text holds the text. The exceptions of the package are \<open>OtherException\<close> with their type, code
  and message.
\<close>

section \<open>Tables\<close>

record ExecutionRunModel =
  xe_id :: uuid
  xe_project_id :: uuid
  xe_work_package_id :: uuid
  xe_status :: string
  xe_base_commit :: string
  xe_base_tree_sha :: "string option"
  xe_patch_status :: string
  xe_patch_artifact_id :: "uuid option"
  xe_patch_sha256 :: "digest option"

record PatchReviewRunModel =
  rw_id :: uuid
  rw_execution_run_id :: uuid
  rw_work_package_id :: uuid
  rw_status :: string
  rw_actual_patch_sha256 :: "digest option"
  rw_finished_at :: "timestamp option"

record PatchReviewFindingModel =
  fi_id :: uuid
  fi_patch_review_run_id :: uuid
  fi_status :: string

record ExecutionTestResultModel =
  xt_id :: uuid
  xt_execution_run_id :: uuid
  xt_status :: string

record WorkPackageModel =
  wq_id :: uuid
  wq_base_commit_sha :: string
  wq_contract :: "(string \<times> json) list"

record IntegrationEligibilityModel =
  el_id :: uuid
  el_execution_run_id :: uuid
  el_eligible :: bool
  el_evaluated_at :: timestamp
  el_policy_version :: string
  el_patch_sha256 :: digest
  el_base_commit_sha :: string
  el_base_tree_sha :: string
  el_accepted_review_id :: "uuid option"
  el_failure_reasons :: "json list"
  el_evidence :: "(string \<times> json) list"

record IntegrationApprovalModel =
  ga_id :: uuid
  ga_execution_run_id :: uuid
  ga_eligibility_id :: uuid
  ga_approver_subject :: string
  ga_approver_role :: string
  ga_project_id :: uuid
  ga_repository_url :: string
  ga_target_branch :: string
  ga_approved_patch_sha256 :: digest
  ga_approved_base_commit_sha :: string
  ga_approved_base_tree_sha :: string
  ga_approved_test_commands :: "(string \<times> json) list list"
  ga_approved_test_commands_sha256 :: digest
  ga_decision :: string
  ga_reason :: string
  ga_policy_version :: string
  ga_approved_at :: "timestamp option"
  ga_created_at :: timestamp

record integration_db =
  ig_projects :: "Recovery_Store.ProjectModel list"
  ig_packages :: "WorkPackageModel list"
  ig_executions :: "ExecutionRunModel list"
  ig_reviews :: "PatchReviewRunModel list"
  ig_findings :: "PatchReviewFindingModel list"
  ig_tests :: "ExecutionTestResultModel list"
  ig_artifacts :: "Recovery_Store.ArtifactModel list"
  ig_eligibilities :: "IntegrationEligibilityModel list"
  ig_approvals :: "IntegrationApprovalModel list"
  ig_attempts :: "IntegrationAttemptModel list"
  ig_commits :: "IntegrationCommitModel list"
  ig_rollbacks :: "RollbackRecordModel list"
  ig_queue :: queue_tables
  ig_audit :: audit_tables

datatype PatchStatus =
    GENERATED | CHANGES_REQUESTED | REJECTED | ACCEPTED | INTEGRATION_ELIGIBLE | INTEGRATION_APPROVED
  | INTEGRATING | INTEGRATION_FAILED | INTEGRATED | SUPERSEDED

fun patch_status_text :: "PatchStatus \<Rightarrow> string" where
  "patch_status_text GENERATED = ''generated''"
| "patch_status_text CHANGES_REQUESTED = ''changes_requested''"
| "patch_status_text REJECTED = ''rejected''"
| "patch_status_text ACCEPTED = ''accepted''"
| "patch_status_text INTEGRATION_ELIGIBLE = ''integration_eligible''"
| "patch_status_text INTEGRATION_APPROVED = ''integration_approved''"
| "patch_status_text INTEGRATING = ''integrating''"
| "patch_status_text INTEGRATION_FAILED = ''integration_failed''"
| "patch_status_text INTEGRATED = ''integrated''"
| "patch_status_text SUPERSEDED = ''superseded''"

text \<open>\<^verbatim>\<open>domain/integration/exceptions.py\<close>.\<close>

definition IntegrationNotFoundError :: "string \<Rightarrow> py_exception" where
  "IntegrationNotFoundError m = OtherException ''IntegrationNotFoundError'' None m"

definition PatchNotEligibleError :: "string \<Rightarrow> py_exception" where
  "PatchNotEligibleError m = OtherException ''PatchNotEligibleError'' (Some ''PATCH_NOT_ELIGIBLE'') m"

definition HumanApprovalRequiredError :: "string \<Rightarrow> py_exception" where
  "HumanApprovalRequiredError m =
     OtherException ''HumanApprovalRequiredError'' (Some ''HUMAN_APPROVAL_REQUIRED'') m"

definition IntegrationApprovalNotActiveError :: "string \<Rightarrow> py_exception" where
  "IntegrationApprovalNotActiveError m =
     OtherException ''IntegrationApprovalNotActiveError'' (Some ''INTEGRATION_APPROVAL_NOT_ACTIVE'') m"

definition IntegrationBindingMismatchError :: "string \<Rightarrow> py_exception" where
  "IntegrationBindingMismatchError m =
     OtherException ''IntegrationBindingMismatchError'' (Some ''INTEGRATION_BINDING_MISMATCH'') m"

definition TargetBranchNotAllowedError :: "string \<Rightarrow> py_exception" where
  "TargetBranchNotAllowedError m =
     OtherException ''TargetBranchNotAllowedError'' (Some ''TARGET_BRANCH_NOT_ALLOWED'') m"

section \<open>Policies\<close>

text \<open>The text of a branch is quoted in a message as Python quotes a text without quotes in it.\<close>

record EligibilityFailure =
  ef_code :: string
  ef_message :: string

record EligibilityDecision =
  ed_eligible :: bool
  ed_failures :: "EligibilityFailure list"
  ed_policy_version :: string

definition ELIGIBILITY_POLICY_VERSION :: string where
  "ELIGIBILITY_POLICY_VERSION = ''integration-eligibility-v1''"

definition evaluate ::
  "bool \<Rightarrow> bool \<Rightarrow> bool \<Rightarrow> bool \<Rightarrow> bool \<Rightarrow> bool \<Rightarrow> bool \<Rightarrow> bool \<Rightarrow> bool \<Rightarrow> bool \<Rightarrow> EligibilityDecision" where
  "evaluate execution_succeeded patch_hash_present accepted_review review_independent
     work_package_matches base_commit_matches base_tree_present scope_validation_passed
     required_tests_passed unresolved_findings =
     (let checks =
            [(execution_succeeded, ''EXECUTION_NOT_SUCCESSFUL''),
             (patch_hash_present, ''PATCH_HASH_MISSING''),
             (accepted_review, ''ACCEPTED_REVIEW_MISSING''),
             (review_independent, ''REVIEW_NOT_INDEPENDENT''),
             (work_package_matches, ''WORK_PACKAGE_MISMATCH''),
             (base_commit_matches, ''BASE_COMMIT_MISMATCH''),
             (base_tree_present, ''BASE_TREE_MISSING''),
             (scope_validation_passed, ''SCOPE_VALIDATION_FAILED''),
             (required_tests_passed, ''REQUIRED_TESTS_FAILED''),
             (\<not> unresolved_findings, ''OPEN_REVIEW_FINDINGS'')];
          failures = map (\<lambda>(passed, code). \<lparr>ef_code = code,
              ef_message = title_from False (replace_char (CHR ''_'') (CHR '' '') code)\<rparr>)
            (filter (\<lambda>(passed, code). \<not> passed) checks)
      in \<lparr>ed_eligible = (failures = []), ed_failures = failures,
          ed_policy_version = ELIGIBILITY_POLICY_VERSION\<rparr>)"

definition APPROVAL_POLICY_VERSION :: string where
  "APPROVAL_POLICY_VERSION = ''integration-approval-v1''"

definition require_human :: "string \<Rightarrow> py_exception + unit" where
  "require_human actor_type =
     (if actor_type \<noteq> ''human''
      then Inl (HumanApprovalRequiredError ''Only an authenticated human may approve integration'')
      else Inr ())"

definition require_allowed_branch :: "string \<Rightarrow> string list \<Rightarrow> py_exception + unit" where
  "require_allowed_branch target_branch allowed_branches =
     (if target_branch \<notin> set allowed_branches
      then Inl (TargetBranchNotAllowedError (''Target branch '' @ [CHR 0x27] @ target_branch @
       [CHR 0x27] @ '' is not allowed''))
      else Inr ())"

section \<open>Evaluating eligibility\<close>

text \<open>The reviews of an execution, the latest first; PostgreSQL puts missing values first.\<close>

definition reviews_of :: "uuid \<Rightarrow> integration_db \<Rightarrow> PatchReviewRunModel list" where
  "reviews_of execution_id db = sort_key (\<lambda>r. map_option uminus (rw_finished_at r))
     (filter (\<lambda>r. rw_execution_run_id r = execution_id) (ig_reviews db))"

definition accepted_review :: "uuid \<Rightarrow> integration_db \<Rightarrow> PatchReviewRunModel option" where
  "accepted_review execution_id db =
     List.find (\<lambda>r. rw_status r = ''accepted'') (reviews_of execution_id db)"

definition open_findings :: "PatchReviewRunModel \<Rightarrow> integration_db \<Rightarrow> bool" where
  "open_findings review db \<longleftrightarrow>
     list_ex (\<lambda>f. fi_patch_review_run_id f = rw_id review \<and> fi_status f = ''open'') (ig_findings db)"

definition tests_of :: "uuid \<Rightarrow> integration_db \<Rightarrow> ExecutionTestResultModel list" where
  "tests_of execution_id db = filter (\<lambda>t. xt_execution_run_id t = execution_id) (ig_tests db)"

definition eligibility_decision :: "ExecutionRunModel \<Rightarrow> integration_db \<Rightarrow> EligibilityDecision" where
  "eligibility_decision execution db =
     (let accepted = accepted_review (xe_id execution) db;
          tests = tests_of (xe_id execution) db;
          work_package = get_row wq_id (xe_work_package_id execution) (ig_packages db)
      in evaluate (xe_status execution = ''succeeded'')
           (xe_patch_sha256 execution \<notin> {None, Some []} \<and> xe_patch_artifact_id execution \<noteq> None)
           (accepted \<noteq> None) (accepted \<noteq> None)
           (case accepted of None \<Rightarrow> False
            | Some review \<Rightarrow> rw_work_package_id review = xe_work_package_id execution)
           (case work_package of None \<Rightarrow> False
            | Some w \<Rightarrow> wq_base_commit_sha w = xe_base_commit execution)
           (xe_base_tree_sha execution \<notin> {None, Some []}) (xe_status execution = ''succeeded'')
           (tests \<noteq> [] \<and> list_all (\<lambda>t. xt_status t = ''passed'') tests)
           (case accepted of None \<Rightarrow> False | Some review \<Rightarrow> open_findings review db))"

definition set_patch_status :: "uuid \<Rightarrow> PatchStatus \<Rightarrow> integration_db \<Rightarrow> integration_db" where
  "set_patch_status execution_id status db = db\<lparr>ig_executions :=
     alter (\<lambda>x. xe_id x = execution_id) (\<lambda>x. x\<lparr>xe_patch_status := patch_status_text status\<rparr>)
       (ig_executions db)\<rparr>"

definition integration_audit ::
  "hashing \<Rightarrow> draws \<Rightarrow> nat \<Rightarrow> uuid \<Rightarrow> string \<Rightarrow> string \<Rightarrow> string \<Rightarrow> (string \<times> json) list \<Rightarrow>
   integration_db \<Rightarrow> integration_db" where
  "integration_audit hs dr n project_id event_type actor_type actor_id payload db =
     db\<lparr>ig_audit := append_project_event (hash_json hs) (dr_uuid dr n) (dr_uuid dr (n + 1)) project_id
          event_type actor_type actor_id payload (ig_audit db)\<rparr>"

definition eligibility_row ::
  "uuid \<Rightarrow> timestamp \<Rightarrow> ExecutionRunModel \<Rightarrow> EligibilityDecision \<Rightarrow> integration_db \<Rightarrow>
   IntegrationEligibilityModel" where
  "eligibility_row new_id now execution decision db =
     (let accepted = accepted_review (xe_id execution) db
      in \<lparr>el_id = new_id, el_execution_run_id = xe_id execution, el_eligible = ed_eligible decision,
          el_evaluated_at = now, el_policy_version = ed_policy_version decision,
          el_patch_sha256 = (case xe_patch_sha256 execution of None \<Rightarrow> [] | Some h \<Rightarrow> h),
          el_base_commit_sha = xe_base_commit execution,
          el_base_tree_sha = (case xe_base_tree_sha execution of None \<Rightarrow> [] | Some t \<Rightarrow> t),
          el_accepted_review_id = map_option rw_id accepted,
          el_failure_reasons = map (\<lambda>f. JObject [(''code'', JText (ef_code f)),
            (''message'', JText (ef_message f))]) (ed_failures decision),
          el_evidence = [(''execution_status'', JText (xe_status execution)),
            (''review_status'', text_or_null (map_option rw_status accepted)),
            (''test_count'', JInt (int (length (tests_of (xe_id execution) db))))]\<rparr>)"

text \<open>The column \<^verbatim>\<open>execution_run_id\<close> of the eligibilities is unique; the row is created or updated.\<close>

definition evaluate_eligibility ::
  "hashing \<Rightarrow> draws \<Rightarrow> uuid \<Rightarrow> integration_db \<Rightarrow> py_exception + (IntegrationEligibilityModel \<times> integration_db)"
where
  "evaluate_eligibility hs dr execution_run_id db =
     (case get_row xe_id execution_run_id (ig_executions db) of
        None \<Rightarrow> Inl (IntegrationNotFoundError ''Candidate patch not found'')
      | Some execution \<Rightarrow>
          (let decision = eligibility_decision execution db;
               existing = get_row el_execution_run_id (xe_id execution) (ig_eligibilities db);
               row = eligibility_row (case existing of None \<Rightarrow> dr_uuid dr 0 | Some e \<Rightarrow> el_id e)
                 (dr_clock dr 0) execution decision db;
               rows = (case existing of
                   None \<Rightarrow> ig_eligibilities db @ [row]
                 | Some e \<Rightarrow> alter (\<lambda>e'. el_id e' = el_id e) (\<lambda>_. row) (ig_eligibilities db));
               db1 = (if ed_eligible decision then set_patch_status (xe_id execution) INTEGRATION_ELIGIBLE db
                      else db)
           in Inr (row, integration_audit hs dr 1 (xe_project_id execution)
                ''patch.integration_eligibility_evaluated'' ''system'' ''control-plane''
                [(''execution_run_id'', uuid_json (xe_id execution)),
                 (''eligible'', JBool (ed_eligible decision)),
                 (''failure_reasons'', JList (el_failure_reasons row))]
                (db1\<lparr>ig_eligibilities := rows\<rparr>))))"

section \<open>Approving the integration\<close>

text \<open>
  The test commands of the contract. \<^verbatim>\<open>get\<close> of a value that is not a dictionary raises
  \<^verbatim>\<open>AttributeError\<close>; a text or a dictionary in the place of the list is refused here, where
  Python would take its characters or keys.
\<close>

definition contract_test_commands :: "(string \<times> json) list \<Rightarrow> py_exception + json list" where
  "contract_test_commands contract =
     (case map_of contract ''command_policy'' of
        None \<Rightarrow> Inr []
      | Some (JObject policy) \<Rightarrow>
          (case map_of policy ''test_commands'' of
             None \<Rightarrow> Inr []
           | Some (JList commands) \<Rightarrow> Inr commands
           | Some _ \<Rightarrow> Inl (PyTypeError ''test_commands''))
      | Some _ \<Rightarrow> Inl (OtherException ''AttributeError'' None ''get''))"

definition new_integration_approval ::
  "hashing \<Rightarrow> uuid \<Rightarrow> timestamp \<Rightarrow> ExecutionRunModel \<Rightarrow> IntegrationEligibilityModel \<Rightarrow> uuid \<Rightarrow> string \<Rightarrow>
   actor \<Rightarrow> string \<Rightarrow> string \<Rightarrow> json list \<Rightarrow> IntegrationApprovalModel" where
  "new_integration_approval hs new_id now execution eligibility project_id repository_url actor
     target_branch reason commands =
     (let normalized = map (\<lambda>command. [(''argv'', command)]) commands
      in \<lparr>ga_id = new_id, ga_execution_run_id = xe_id execution, ga_eligibility_id = el_id eligibility,
          ga_approver_subject = ac_subject actor, ga_approver_role = ac_role actor,
          ga_project_id = project_id, ga_repository_url = repository_url,
          ga_target_branch = target_branch, ga_approved_patch_sha256 = el_patch_sha256 eligibility,
          ga_approved_base_commit_sha = el_base_commit_sha eligibility,
          ga_approved_base_tree_sha = el_base_tree_sha eligibility,
          ga_approved_test_commands = normalized,
          ga_approved_test_commands_sha256 = hash_json hs (commands_json normalized),
          ga_decision = ''approved'', ga_reason = reason,
          ga_policy_version = APPROVAL_POLICY_VERSION, ga_approved_at = Some now,
          ga_created_at = now\<rparr>)"

definition approve_integration ::
  "hashing \<Rightarrow> draws \<Rightarrow> uuid \<Rightarrow> actor \<Rightarrow> string \<Rightarrow> string \<Rightarrow> integration_db \<Rightarrow>
   py_exception + (IntegrationApprovalModel \<times> integration_db)" where
  "approve_integration hs dr execution_run_id actor target_branch reason db =
     bind_result (require_human (ac_type actor)) (\<lambda>_.
     if ac_role actor \<noteq> ''integration_approver''
     then Inl (HumanApprovalRequiredError ''The integration_approver role is required'')
     else case get_row xe_id execution_run_id (ig_executions db) of
       None \<Rightarrow> Inl (IntegrationNotFoundError ''Candidate patch not found'')
     | Some execution \<Rightarrow>
         (case (get_row pm_id (xe_project_id execution) (ig_projects db),
                get_row el_execution_run_id (xe_id execution) (ig_eligibilities db)) of
            (Some project, Some eligibility) \<Rightarrow>
              if \<not> el_eligible eligibility
              then Inl (PatchNotEligibleError ''Candidate patch is not integration-eligible'')
              else bind_result (require_allowed_branch target_branch [pm_default_branch project]) (\<lambda>_.
                case pm_repository_url project of
                  None \<Rightarrow> Inl (IntegrationBindingMismatchError ''Authoritative repository URL is required'')
                | Some url \<Rightarrow>
                    if url = []
                    then Inl (IntegrationBindingMismatchError ''Authoritative repository URL is required'')
                    else bind_result
                      (case get_row wq_id (xe_work_package_id execution) (ig_packages db) of
                         None \<Rightarrow> Inr [] | Some w \<Rightarrow> contract_test_commands (wq_contract w)) (\<lambda>commands.
                      let approval = new_integration_approval hs (dr_uuid dr 0) (dr_clock dr 0)
                            execution eligibility (pm_id project) url actor target_branch reason commands
                      in if list_ex (\<lambda>a. ga_id a = ga_id approval) (ig_approvals db)
                         then Inl (IntegrityError ''integration_approvals_pkey'')
                         else Inr (approval, integration_audit hs dr 1 (pm_id project)
                           ''patch.integration_approval_granted'' (ac_type actor) (ac_subject actor)
                           [(''approval_id'', uuid_json (ga_id approval)),
                            (''execution_run_id'', uuid_json (xe_id execution)),
                            (''patch_sha256'', JText (ga_approved_patch_sha256 approval)),
                            (''target_branch'', JText target_branch)]
                           (set_patch_status (xe_id execution) INTEGRATION_APPROVED
                             (db\<lparr>ig_approvals := ig_approvals db @ [approval]\<rparr>)))))
          | _ \<Rightarrow> Inl (PatchNotEligibleError ''Candidate patch is not integration-eligible'')))"

section \<open>Creating the attempt\<close>

definition new_integration_attempt ::
  "uuid \<Rightarrow> uuid \<Rightarrow> timestamp \<Rightarrow> int \<Rightarrow> IntegrationApprovalModel \<Rightarrow> IntegrationAttemptModel" where
  "new_integration_attempt new_id correlation_id now number approval =
     \<lparr>gm_id = new_id, gm_execution_run_id = ga_execution_run_id approval,
      gm_integration_approval_id = ga_id approval, gm_attempt_number = number,
      gm_status = ''queued'', gm_project_id = ga_project_id approval,
      gm_target_branch = ga_target_branch approval,
      gm_expected_patch_sha256 = ga_approved_patch_sha256 approval,
      gm_expected_base_commit_sha = ga_approved_base_commit_sha approval,
      gm_expected_base_tree_sha = ga_approved_base_tree_sha approval,
      gm_actual_base_commit_sha = None, gm_actual_base_tree_sha = None, gm_resulting_tree_sha = None,
      gm_failure_code = None, gm_failure_message = None, gm_worker_id = None,
      gm_correlation_id = correlation_id, gm_started_at = None, gm_completed_at = None,
      gm_created_at = now\<rparr>"

definition consume_approval :: "uuid \<Rightarrow> integration_db \<Rightarrow> integration_db" where
  "consume_approval approval_id db = db\<lparr>ig_approvals :=
     alter (\<lambda>a. ga_id a = approval_id) (\<lambda>a. a\<lparr>ga_decision := ''consumed''\<rparr>) (ig_approvals db)\<rparr>"

text \<open>The identifier, the approval and the number of an attempt are unique.\<close>

definition add_integration_attempt ::
  "IntegrationAttemptModel \<Rightarrow> integration_db \<Rightarrow> py_exception + integration_db" where
  "add_integration_attempt attempt db =
     (if list_ex (\<lambda>a. gm_id a = gm_id attempt \<or>
           gm_integration_approval_id a = gm_integration_approval_id attempt \<or>
           gm_execution_run_id a = gm_execution_run_id attempt \<and>
           gm_attempt_number a = gm_attempt_number attempt) (ig_attempts db)
      then Inl (IntegrityError ''uq_integration_attempt_number'')
      else Inr (db\<lparr>ig_attempts := ig_attempts db @ [attempt]\<rparr>))"

definition create_integration_attempt ::
  "hashing \<Rightarrow> draws \<Rightarrow> uuid \<Rightarrow> integration_db \<Rightarrow> py_exception + (IntegrationAttemptModel \<times> integration_db)"
where
  "create_integration_attempt hs dr approval_id db =
     (case get_row ga_id approval_id (ig_approvals db) of
        None \<Rightarrow> Inl (IntegrationNotFoundError ''Integration approval not found'')
      | Some approval \<Rightarrow>
          if ga_decision approval \<noteq> ''approved''
          then Inl (IntegrationApprovalNotActiveError ''Integration approval is not active'')
          else case (get_row xe_id (ga_execution_run_id approval) (ig_executions db),
                     get_row el_id (ga_eligibility_id approval) (ig_eligibilities db)) of
            (Some execution, Some eligibility) \<Rightarrow>
              if \<not> el_eligible eligibility
              then Inl (PatchNotEligibleError ''Candidate patch is no longer eligible'')
              else if xe_patch_sha256 execution \<noteq> Some (ga_approved_patch_sha256 approval)
                \<or> xe_base_commit execution \<noteq> ga_approved_base_commit_sha approval
                \<or> xe_base_tree_sha execution \<noteq> Some (ga_approved_base_tree_sha approval)
              then Inl (IntegrationBindingMismatchError ''Approval binding no longer matches candidate patch'')
              else
                (let attempt = new_integration_attempt (dr_uuid dr 0) (dr_uuid dr 1) (dr_clock dr 0)
                       (max_or_zero (map gm_attempt_number
                          (filter (\<lambda>a. gm_execution_run_id a = xe_id execution) (ig_attempts db))) + 1)
                       approval
                 in bind_result (add_integration_attempt attempt db) (\<lambda>db1.
                      Inr (attempt, (integration_audit hs dr 3 (ga_project_id approval)
                        ''integration.attempt_created'' ''system'' ''control-plane''
                        [(''attempt_id'', uuid_json (gm_id attempt)),
                         (''approval_id'', uuid_json (ga_id approval)),
                         (''correlation_id'', uuid_json (gm_correlation_id attempt))]
                        (set_patch_status (xe_id execution) INTEGRATING
                          (consume_approval (ga_id approval) db1)))
                        \<lparr>ig_queue := enqueue (dr_uuid dr 2) (dr_clock dr 1) (ga_project_id approval) None
                          ''integrate_approved_patch''
                          [''integration_attempt_id'' \<mapsto> uuid_text (gm_id attempt),
                           ''correlation_id'' \<mapsto> uuid_text (gm_correlation_id attempt)]
                          50 1 (ig_queue db1)\<rparr>)))
          | _ \<Rightarrow> Inl (PatchNotEligibleError ''Candidate patch is no longer eligible''))"

end
