(* ===== verification/Integration_Store.thy ===== *)
theory Integration_Store
  imports Integration_Service
begin

text \<open>
  The durable state of an integration attempt: \<^verbatim>\<open>infrastructure/integration/attempt_store.py\<close>.
  An operation returns the new tables or its exception; it holds the row of the attempt until it
  commits. An operation that raises writes nothing, and the rows an attempt refers to cannot
  disappear. The parts of the evidence the store copies into columns are texts.
\<close>

section \<open>Commands\<close>

record IntegrationBinding =
  bn_patch_id :: string
  bn_patch_sha256 :: digest
  bn_artifact_sha256 :: digest
  bn_audit_patch_sha256 :: digest
  bn_approved_patch_sha256 :: digest
  bn_base_commit_sha :: string
  bn_base_tree_sha :: string
  bn_approval_id :: string
  bn_attempt_id :: string

record IntegrationCommand =
  ik_attempt_id :: uuid
  ik_project_id :: uuid
  ik_worker_id :: string
  ik_policy :: RepositoryPolicy
  ik_binding :: IntegrationBinding
  ik_patch_bytes :: string
  ik_scope :: ExecutionScope
  ik_tests :: "ApprovedTestCommand list"
  ik_commit_message :: string
  ik_commit_timestamp :: timestamp

datatype IntegrationAttemptStatus =
    QUEUED | VERIFYING | VERIFICATION_FAILED | SNAPSHOT_READY | APPLYING_PATCH | PATCH_APPLY_FAILED
  | PATCH_APPLIED | TESTING | TESTS_FAILED | COMMIT_CREATING | COMMIT_FAILED | COMMIT_CREATED
  | PUSHING | PUSH_FAILED | INTEGRATED

fun attempt_status_text :: "IntegrationAttemptStatus \<Rightarrow> string" where
  "attempt_status_text QUEUED = ''queued''"
| "attempt_status_text VERIFYING = ''verifying''"
| "attempt_status_text VERIFICATION_FAILED = ''verification_failed''"
| "attempt_status_text SNAPSHOT_READY = ''snapshot_ready''"
| "attempt_status_text APPLYING_PATCH = ''applying_patch''"
| "attempt_status_text PATCH_APPLY_FAILED = ''patch_apply_failed''"
| "attempt_status_text PATCH_APPLIED = ''patch_applied''"
| "attempt_status_text TESTING = ''testing''"
| "attempt_status_text TESTS_FAILED = ''tests_failed''"
| "attempt_status_text COMMIT_CREATING = ''commit_creating''"
| "attempt_status_text COMMIT_FAILED = ''commit_failed''"
| "attempt_status_text COMMIT_CREATED = ''commit_created''"
| "attempt_status_text PUSHING = ''pushing''"
| "attempt_status_text PUSH_FAILED = ''push_failed''"
| "attempt_status_text INTEGRATED = ''integrated''"

definition load_error :: "string \<Rightarrow> py_exception" where
  "load_error code = OtherException ''IntegrationAttemptLoadError'' None code"

section \<open>Claiming\<close>

text \<open>\<^verbatim>\<open>_validate_bindings\<close>; a set of texts with one element holds equal texts.\<close>

definition validate_integration ::
  "hashing \<Rightarrow> IntegrationAttemptModel \<Rightarrow> IntegrationApprovalModel \<Rightarrow> ExecutionRunModel \<Rightarrow>
   IntegrationEligibilityModel \<Rightarrow> Recovery_Store.ProjectModel \<Rightarrow> Recovery_Store.ArtifactModel \<Rightarrow>
   PatchReviewRunModel \<Rightarrow> py_exception + unit" where
  "validate_integration hs attempt approval execution eligibility project a review =
     (let hashes = [Some (gm_expected_patch_sha256 attempt), Some (ga_approved_patch_sha256 approval),
            Some (el_patch_sha256 eligibility), xe_patch_sha256 execution, Some (am_content_hash a),
            rw_actual_patch_sha256 review, Some (hash_text hs (am_content a))]
      in if None \<in> set hashes \<or> \<not> list_all (\<lambda>h. h = hd hashes) hashes
         then Inl (load_error ''PATCH_ARTIFACT_MISMATCH'')
         else if ga_decision approval \<noteq> ''consumed''
         then Inl (load_error ''INTEGRATION_APPROVAL_NOT_ACTIVE'')
         else if \<not> el_eligible eligibility \<or> rw_status review \<noteq> ''accepted''
         then Inl (load_error ''PATCH_NOT_ELIGIBLE'')
         else if ga_execution_run_id approval \<noteq> xe_id execution
           \<or> el_execution_run_id eligibility \<noteq> xe_id execution
         then Inl (load_error ''EXECUTION_BINDING_MISMATCH'')
         else if \<not> list_all (\<lambda>c. c = gm_expected_base_commit_sha attempt)
           [ga_approved_base_commit_sha approval, el_base_commit_sha eligibility, xe_base_commit execution]
         then Inl (load_error ''BASE_COMMIT_BINDING_MISMATCH'')
         else if \<not> list_all (\<lambda>t. t = Some (gm_expected_base_tree_sha attempt))
           [Some (ga_approved_base_tree_sha approval), Some (el_base_tree_sha eligibility),
            xe_base_tree_sha execution]
         then Inl (load_error ''BASE_TREE_BINDING_MISMATCH'')
         else if Some (ga_repository_url approval) \<noteq> pm_repository_url project
         then Inl (load_error ''REPOSITORY_BINDING_MISMATCH'')
         else if ga_target_branch approval \<noteq> pm_default_branch project
           \<or> gm_target_branch attempt \<noteq> pm_default_branch project
         then Inl (load_error ''TARGET_BRANCH_NOT_ALLOWED'')
         else if hash_json hs (commands_json (ga_approved_test_commands approval))
           \<noteq> ga_approved_test_commands_sha256 approval
         then Inl (load_error ''TEST_COMMAND_BINDING_MISMATCH'')
         else Inr ())"

text \<open>Recovery reads its approved commands in the same way, with an exception of its own.\<close>

definition integration_command_of :: "(string \<times> json) list \<Rightarrow> py_exception + ApprovedTestCommand" where
  "integration_command_of item = (case approved_command item of
     Inl (RecoveryAttemptStoreError m) \<Rightarrow> Inl (load_error ''INVALID_APPROVED_TEST_COMMAND'')
   | r \<Rightarrow> r)"

text \<open>The entry of a file scope: a list of texts, missing when it has a default.\<close>

definition scope_entry :: "(string \<times> json) list \<Rightarrow> string \<Rightarrow> bool \<Rightarrow> py_exception + string list" where
  "scope_entry file_scope key required =
     (case map_of file_scope key of
        None \<Rightarrow> (if required then Inl (PyKeyError key) else Inr [])
      | Some (JList items) \<Rightarrow> traverse (\<lambda>v. case v of JText s \<Rightarrow> Inr s | _ \<Rightarrow> Inl (PyTypeError key)) items
      | Some _ \<Rightarrow> Inl (PyTypeError key))"

definition integration_scope :: "(string \<times> json) list \<Rightarrow> py_exception + ExecutionScope" where
  "integration_scope contract =
     (case map_of contract ''file_scope'' of
        None \<Rightarrow> Inl (PyKeyError ''file_scope'')
      | Some (JObject file_scope) \<Rightarrow>
          bind_result (scope_entry file_scope ''allowed_files'' True) (\<lambda>allowed_files.
          bind_result (scope_entry file_scope ''allowed_directories'' False) (\<lambda>allowed_directories.
          bind_result (scope_entry file_scope ''forbidden_files'' False) (\<lambda>forbidden_files.
          bind_result (scope_entry file_scope ''forbidden_directories'' False) (\<lambda>forbidden_directories.
            Inr \<lparr>xs_allowed_paths = allowed_files @ allowed_directories,
              xs_forbidden_paths = forbidden_files @ forbidden_directories @ DEFAULT_FORBIDDEN_PATHS\<rparr>))))
      | Some _ \<Rightarrow> Inl (PyTypeError ''file_scope''))"

definition integration_message ::
  "uuid \<Rightarrow> uuid \<Rightarrow> uuid \<Rightarrow> digest \<Rightarrow> uuid \<Rightarrow> uuid \<Rightarrow> uuid \<Rightarrow> string" where
  "integration_message project_id work_package_id execution_id patch_sha256 review_id approval_id attempt_id =
     ''integrate(work-package): apply approved patch'' @ newline @ newline @
     ''Project: '' @ uuid_text project_id @ newline @
     ''Work package: '' @ uuid_text work_package_id @ newline @
     ''Execution attempt: '' @ uuid_text execution_id @ newline @
     ''Patch SHA-256: '' @ patch_sha256 @ newline @
     ''Review: '' @ uuid_text review_id @ newline @
     ''Integration approval: '' @ uuid_text approval_id @ newline @
     ''Integration attempt: '' @ uuid_text attempt_id @ newline"

definition attempt_audit ::
  "hashing \<Rightarrow> draws \<Rightarrow> IntegrationAttemptModel \<Rightarrow> string \<Rightarrow> (string \<times> json) list \<Rightarrow> integration_db \<Rightarrow>
   integration_db" where
  "attempt_audit hs dr attempt event_type payload db =
     integration_audit hs dr 0 (gm_project_id attempt) event_type ''integration_worker''
       (case gm_worker_id attempt of None \<Rightarrow> ''unclaimed'' | Some w \<Rightarrow> if w = [] then ''unclaimed'' else w)
       (dict_merge [(''attempt_id'', uuid_json (gm_id attempt)),
          (''correlation_id'', uuid_json (gm_correlation_id attempt))] payload) db"

definition update_integration ::
  "uuid \<Rightarrow> (IntegrationAttemptModel \<Rightarrow> IntegrationAttemptModel) \<Rightarrow> integration_db \<Rightarrow> integration_db" where
  "update_integration attempt_id f db =
     db\<lparr>ig_attempts := alter (\<lambda>a. gm_id a = attempt_id) f (ig_attempts db)\<rparr>"

text \<open>The rows a claim reads.\<close>

record integration_rows =
  iq_attempt :: IntegrationAttemptModel
  iq_approval :: IntegrationApprovalModel
  iq_execution :: ExecutionRunModel
  iq_eligibility :: IntegrationEligibilityModel
  iq_project :: "Recovery_Store.ProjectModel"
  iq_package :: WorkPackageModel
  iq_artifact :: "Recovery_Store.ArtifactModel"
  iq_review :: PatchReviewRunModel

definition load_integration ::
  "hashing \<Rightarrow> uuid list \<Rightarrow> uuid \<Rightarrow> integration_db \<Rightarrow> py_exception + integration_rows" where
  "load_integration hs held attempt_id db =
     (case (if attempt_id \<in> set held then None else get_row gm_id attempt_id (ig_attempts db)) of
        None \<Rightarrow> Inl (load_error ''INTEGRATION_ATTEMPT_NOT_FOUND_OR_CLAIMED'')
      | Some attempt \<Rightarrow>
          if gm_status attempt \<noteq> attempt_status_text QUEUED
          then Inl (load_error ''INTEGRATION_ATTEMPT_NOT_QUEUED'')
          else case (get_row ga_id (gm_integration_approval_id attempt) (ig_approvals db),
                     get_row xe_id (gm_execution_run_id attempt) (ig_executions db)) of
            (Some approval, Some execution) \<Rightarrow>
              (case get_row el_id (ga_eligibility_id approval) (ig_eligibilities db) of
                 None \<Rightarrow> Inl (load_error ''INTEGRATION_EVIDENCE_MISSING'')
               | Some eligibility \<Rightarrow>
                   (case (get_row pm_id (gm_project_id attempt) (ig_projects db),
                          get_row wq_id (xe_work_package_id execution) (ig_packages db),
                          Option.bind (xe_patch_artifact_id execution) (\<lambda>i. get_row am_id i (ig_artifacts db)),
                          Option.bind (el_accepted_review_id eligibility) (\<lambda>i. get_row rw_id i (ig_reviews db))) of
                      (Some project, Some work_package, Some a, Some review) \<Rightarrow>
                        bind_result (validate_integration hs attempt approval execution eligibility project a review)
                          (\<lambda>_. Inr \<lparr>iq_attempt = attempt, iq_approval = approval, iq_execution = execution,
                            iq_eligibility = eligibility, iq_project = project, iq_package = work_package,
                            iq_artifact = a, iq_review = review\<rparr>)
                    | _ \<Rightarrow> Inl (load_error ''INTEGRATION_EVIDENCE_MISSING'')))
          | _ \<Rightarrow> Inl (load_error ''INTEGRATION_BINDING_MISSING''))"

definition integration_command ::
  "string \<Rightarrow> integration_rows \<Rightarrow> ApprovedTestCommand list \<Rightarrow> ExecutionScope \<Rightarrow> IntegrationCommand" where
  "integration_command worker_id rows commands scope =
     (let attempt = iq_attempt rows; approval = iq_approval rows; execution = iq_execution rows
      in \<lparr>ik_attempt_id = gm_id attempt, ik_project_id = gm_project_id attempt, ik_worker_id = worker_id,
          ik_policy = repository_policy (uuid_text (pm_id (iq_project rows))) (ga_repository_url approval)
            (ga_target_branch approval) [pm_default_branch (iq_project rows)],
          ik_binding = \<lparr>bn_patch_id = uuid_text (xe_id execution),
            bn_patch_sha256 = (case xe_patch_sha256 execution of None \<Rightarrow> [] | Some h \<Rightarrow> h),
            bn_artifact_sha256 = am_content_hash (iq_artifact rows),
            bn_audit_patch_sha256 = el_patch_sha256 (iq_eligibility rows),
            bn_approved_patch_sha256 = ga_approved_patch_sha256 approval,
            bn_base_commit_sha = ga_approved_base_commit_sha approval,
            bn_base_tree_sha = ga_approved_base_tree_sha approval,
            bn_approval_id = uuid_text (ga_id approval), bn_attempt_id = uuid_text (gm_id attempt)\<rparr>,
          ik_patch_bytes = utf8 (am_content (iq_artifact rows)), ik_scope = scope, ik_tests = commands,
          ik_commit_message = integration_message (pm_id (iq_project rows)) (wq_id (iq_package rows))
            (xe_id execution) (ga_approved_patch_sha256 approval) (rw_id (iq_review rows)) (ga_id approval)
            (gm_id attempt),
          ik_commit_timestamp = (case ga_approved_at approval of
            None \<Rightarrow> ga_created_at approval | Some t \<Rightarrow> t)\<rparr>)"

definition claim_integration ::
  "hashing \<Rightarrow> draws \<Rightarrow> uuid \<Rightarrow> string \<Rightarrow> integration_db \<Rightarrow> py_exception + (IntegrationCommand \<times> integration_db)"
where
  "claim_integration hs dr attempt_id worker_id db =
     bind_result (load_integration hs (dr_held dr) attempt_id db) (\<lambda>rows.
     bind_result (traverse integration_command_of (ga_approved_test_commands (iq_approval rows))) (\<lambda>commands.
     bind_result (integration_scope (wq_contract (iq_package rows))) (\<lambda>scope.
       let attempt = (iq_attempt rows)\<lparr>gm_status := attempt_status_text VERIFYING,
             gm_worker_id := Some worker_id, gm_started_at := Some (dr_clock dr 0),
             gm_failure_code := None, gm_failure_message := None\<rparr>
       in Inr (integration_command worker_id rows commands scope,
            attempt_audit hs dr attempt ''integration.verifying''
              [(''worker_id'', JText worker_id), (''approval_id'', uuid_json (ga_id (iq_approval rows))),
               (''patch_sha256'', JText (ga_approved_patch_sha256 (iq_approval rows)))]
              (update_integration attempt_id (\<lambda>_. attempt) db)))))"

section \<open>The operations on a claimed attempt\<close>

definition locked_integration :: "uuid \<Rightarrow> integration_db \<Rightarrow> py_exception + IntegrationAttemptModel" where
  "locked_integration attempt_id db = (case get_row gm_id attempt_id (ig_attempts db) of
     None \<Rightarrow> Inl (load_error ''INTEGRATION_ATTEMPT_NOT_FOUND'') | Some attempt \<Rightarrow> Inr attempt)"

text \<open>\<^verbatim>\<open>evidence.get(key)\<close>, when it is true.\<close>

definition evidence_text :: "(string \<times> json) list \<Rightarrow> string \<Rightarrow> string option" where
  "evidence_text evidence key = (case map_of evidence key of
     Some (JText s) \<Rightarrow> if s = [] then None else Some s | _ \<Rightarrow> None)"

definition or_else :: "'a option \<Rightarrow> 'a option \<Rightarrow> 'a option" where
  "or_else a b = (case a of None \<Rightarrow> b | Some x \<Rightarrow> Some x)"

definition moved_integration ::
  "IntegrationAttemptStatus \<Rightarrow> (string \<times> json) list \<Rightarrow> IntegrationAttemptModel \<Rightarrow> IntegrationAttemptModel" where
  "moved_integration status evidence a = a\<lparr>gm_status := attempt_status_text status,
     gm_actual_base_commit_sha := or_else (evidence_text evidence ''actual_base_commit_sha'')
       (gm_actual_base_commit_sha a),
     gm_actual_base_tree_sha := or_else (evidence_text evidence ''actual_base_tree_sha'')
       (gm_actual_base_tree_sha a),
     gm_resulting_tree_sha := or_else (or_else (evidence_text evidence ''candidate_tree_sha'')
       (evidence_text evidence ''tested_tree_sha'')) (gm_resulting_tree_sha a)\<rparr>"

definition transition_integration ::
  "hashing \<Rightarrow> draws \<Rightarrow> uuid \<Rightarrow> IntegrationAttemptStatus \<Rightarrow> string \<Rightarrow> (string \<times> json) list \<Rightarrow> integration_db \<Rightarrow>
   py_exception + integration_db" where
  "transition_integration hs dr attempt_id status event_type evidence db =
     bind_result (locked_integration attempt_id db) (\<lambda>attempt.
       Inr (attempt_audit hs dr attempt event_type evidence
         (update_integration attempt_id (moved_integration status evidence) db)))"

definition failed_integration ::
  "IntegrationAttemptStatus \<Rightarrow> string \<Rightarrow> string \<Rightarrow> timestamp \<Rightarrow> IntegrationAttemptModel \<Rightarrow> IntegrationAttemptModel"
where
  "failed_integration status code message now a = a\<lparr>gm_status := attempt_status_text status,
     gm_failure_code := Some code, gm_failure_message := Some message, gm_completed_at := Some now\<rparr>"

definition fail_integration ::
  "hashing \<Rightarrow> draws \<Rightarrow> uuid \<Rightarrow> IntegrationAttemptStatus \<Rightarrow> string \<Rightarrow> string \<Rightarrow> integration_db \<Rightarrow>
   py_exception + integration_db" where
  "fail_integration hs dr attempt_id status code message db =
     bind_result (locked_integration attempt_id db) (\<lambda>attempt.
       Inr (attempt_audit hs dr attempt ''integration.attempt_failed''
         [(''status'', JText (attempt_status_text status)), (''failure_code'', JText code),
          (''failure_message'', JText message)]
         (set_patch_status (gm_execution_run_id attempt) INTEGRATION_FAILED
           (update_integration attempt_id (failed_integration status code message (dr_clock dr 0)) db))))"

definition test_run_json :: "TestRunEvidence \<Rightarrow> json" where
  "test_run_json item = JObject
     [(''command_index'', JInt (te_command_index item)), (''command_sha256'', JText (te_command_sha256 item)),
      (''status'', JText (te_status item)), (''exit_code'', json_int_or_null (te_exit_code item)),
      (''duration_ms'', JInt (te_duration_ms item))]"

definition completed_integration :: "RemoteEvidence \<Rightarrow> timestamp \<Rightarrow> IntegrationAttemptModel \<Rightarrow> IntegrationAttemptModel"
where
  "completed_integration remote now a = a\<lparr>gm_status := attempt_status_text INTEGRATED,
     gm_resulting_tree_sha := Some (re_tree_sha remote), gm_completed_at := Some now\<rparr>"

definition complete_integration ::
  "hashing \<Rightarrow> draws \<Rightarrow> IntegrationCommand \<Rightarrow> CandidateCommit \<Rightarrow> RemoteEvidence \<Rightarrow> TestRunEvidence list \<Rightarrow>
   integration_db \<Rightarrow> py_exception + integration_db" where
  "complete_integration hs dr command candidate remote tests db =
     bind_result (locked_integration (ik_attempt_id command) db) (\<lambda>attempt.
       if gm_status attempt \<noteq> attempt_status_text PUSHING
       then Inl (load_error ''INVALID_INTEGRATION_COMPLETION_STATE'')
       else if get_row xe_id (gm_execution_run_id attempt) (ig_executions db) = None
       then Inl (load_error ''EXECUTION_NOT_FOUND'')
       else Inr (attempt_audit hs dr attempt ''integration.completed''
         [(''commit_sha'', JText (re_commit_sha remote)), (''tree_sha'', JText (re_tree_sha remote)),
          (''parent_sha'', JText (re_parent_sha remote)), (''branch'', JText (re_branch remote)),
          (''author_identity'', JText (cc_author_identity candidate)),
          (''committer_identity'', JText (cc_committer_identity candidate)),
          (''test_runs'', JList (map test_run_json tests))]
         (set_patch_status (gm_execution_run_id attempt) Integration_Service.INTEGRATED
           (update_integration (ik_attempt_id command) (completed_integration remote (dr_clock dr 0)) db))))"

end
