(* ===== verification/Rollback_Metadata.thy ===== *)
theory Rollback_Metadata
  imports Integration_Store
begin

text \<open>
  \<^verbatim>\<open>infrastructure/recovery/rollback_metadata.py\<close>: the hook of the integration that records, once
  the remote branch is verified, what a later recovery needs: the inverse diff, the commit and
  the rollback record, in one transaction. Git is a parameter: what a command with its arguments
  answers in a repository, or the exception it raises.
\<close>

type_synonym git_runner = "string \<Rightarrow> string list \<Rightarrow> py_exception + git_result"

definition metadata_error :: "string \<Rightarrow> py_exception" where
  "metadata_error code = OtherException ''RollbackMetadataError'' None code"

section \<open>Reading the repository\<close>

text \<open>\<^verbatim>\<open>base64.b64encode\<close>.\<close>

definition base64_char :: "nat \<Rightarrow> char" where
  "base64_char n = ''ABCDEFGHIJKLMNOPQRSTUVWXYZabcdefghijklmnopqrstuvwxyz0123456789+/'' ! n"

fun base64 :: "string \<Rightarrow> string" where
  "base64 (a # b # c # r) = (let x = of_char a :: nat; y = of_char b; z = of_char c
     in [base64_char (x div 4), base64_char (x mod 4 * 16 + y div 16),
         base64_char (y mod 16 * 4 + z div 64), base64_char (z mod 64)]) @ base64 r"
| "base64 [a, b] = (let x = of_char a :: nat; y = of_char b
     in [base64_char (x div 4), base64_char (x mod 4 * 16 + y div 16), base64_char (y mod 16 * 4), CHR ''=''])"
| "base64 [a] = (let x = of_char a :: nat
     in [base64_char (x div 4), base64_char (x mod 4 * 16), CHR ''='', CHR ''=''])"
| "base64 [] = []"

definition git_output :: "git_runner \<Rightarrow> string \<Rightarrow> string list \<Rightarrow> py_exception + string" where
  "git_output git repository arguments = bind_result (git repository arguments) (\<lambda>r.
     if gr_returncode r \<noteq> 0 \<or> strip (gr_stdout r) = []
     then Inl (metadata_error ''ROLLBACK_GIT_EVIDENCE_FAILED'')
     else Inr (strip (gr_stdout r)))"

definition git_bytes :: "git_runner \<Rightarrow> string \<Rightarrow> string list \<Rightarrow> py_exception + string" where
  "git_bytes git repository arguments = bind_result (git repository arguments) (\<lambda>r.
     if gr_returncode r \<noteq> 0 then Inl (metadata_error ''ROLLBACK_INVERSE_DIFF_FAILED'')
     else Inr (utf8 (gr_stdout r)))"

definition safe_change :: "string \<Rightarrow> py_exception + unit" where
  "safe_change path = (let candidate = posix_path path
     in if pp_absolute candidate \<or> ''..'' \<in> set (pp_parts candidate) \<or> path = ''.git''
        then Inl (metadata_error ''ROLLBACK_CHANGED_PATH_UNSAFE'') else Inr ())"

definition git_mode :: "git_runner \<Rightarrow> string \<Rightarrow> string \<Rightarrow> string \<Rightarrow> py_exception + string option" where
  "git_mode git repository commit_sha path =
     bind_result (git repository [''ls-tree'', commit_sha, ''--'', path]) (\<lambda>r.
       Inr (if gr_returncode r \<noteq> 0 \<or> strip (gr_stdout r) = [] then None
            else Some (hd (words (gr_stdout r)))))"

definition changed_path ::
  "git_runner \<Rightarrow> string \<Rightarrow> string \<Rightarrow> string \<Rightarrow> string \<Rightarrow> string option \<Rightarrow> string \<Rightarrow>
   py_exception + ChangedPath" where
  "changed_path git repository parent_sha commit_sha status old_path path =
     bind_result (safe_change path) (\<lambda>_.
     bind_result (case old_path of None \<Rightarrow> Inr () | Some old \<Rightarrow> safe_change old) (\<lambda>_.
     bind_result (git_mode git repository parent_sha
       (case old_path of None \<Rightarrow> path | Some old \<Rightarrow> if old = [] then path else old)) (\<lambda>old_mode.
     bind_result (git_mode git repository commit_sha path) (\<lambda>new_mode.
       Inr \<lparr>cp_path = path, cp_change_type = status, cp_old_mode = old_mode,
         cp_new_mode = new_mode, cp_old_path = old_path\<rparr>))))"

text \<open>The tokens of \<^verbatim>\<open>--name-status -z -M\<close>: a status, the old path of a rename or copy, a path.\<close>

fun changes_from ::
  "git_runner \<Rightarrow> string \<Rightarrow> string \<Rightarrow> string \<Rightarrow> string list \<Rightarrow> py_exception + ChangedPath list" where
  "changes_from git repository parent_sha commit_sha [] = Inr []"
| "changes_from git repository parent_sha commit_sha [status] =
     Inl (metadata_error ''ROLLBACK_CHANGED_PATHS_INVALID'')"
| "changes_from git repository parent_sha commit_sha (status # path # tokens) =
     (if starts_with status ''R'' \<or> starts_with status ''C''
      then (case tokens of
              [] \<Rightarrow> Inl (metadata_error ''ROLLBACK_CHANGED_PATHS_INVALID'')
            | target # remaining \<Rightarrow>
                bind_result (changed_path git repository parent_sha commit_sha status (Some path) target) (\<lambda>change.
                bind_result (changes_from git repository parent_sha commit_sha remaining) (\<lambda>changes.
                  Inr (change # changes))))
      else bind_result (changed_path git repository parent_sha commit_sha status None path) (\<lambda>change.
           bind_result (changes_from git repository parent_sha commit_sha tokens) (\<lambda>changes.
             Inr (change # changes))))"

definition changed_paths ::
  "git_runner \<Rightarrow> string \<Rightarrow> string \<Rightarrow> string \<Rightarrow> py_exception + ChangedPath list" where
  "changed_paths git repository parent_sha commit_sha =
     bind_result (git repository [''diff'', ''--name-status'', ''-z'', ''-M'', parent_sha, commit_sha]) (\<lambda>r.
       if gr_returncode r \<noteq> 0 then Inl (metadata_error ''ROLLBACK_CHANGED_PATHS_FAILED'')
       else bind_result (changes_from git repository parent_sha commit_sha
              (filter (\<lambda>token. token \<noteq> []) (split_on (CHR 0x00) (gr_stdout r))))
              (\<lambda>changes. Inr (sort_key cp_path changes)))"

definition has_prefix :: "ChangedPath list \<Rightarrow> string list \<Rightarrow> bool" where
  "has_prefix paths starts \<longleftrightarrow> list_ex (\<lambda>item. list_ex (starts_with (cp_path item)) starts) paths"

section \<open>Recording\<close>

definition METADATA_POLICY_VERSION :: string where
  "METADATA_POLICY_VERSION = ''recovery-v1''"

definition verify_pushed :: "CandidateCommit \<Rightarrow> RemoteEvidence \<Rightarrow> py_exception + unit" where
  "verify_pushed candidate remote =
     (if cc_commit_sha candidate \<noteq> re_commit_sha remote \<or> cc_tree_sha candidate \<noteq> re_tree_sha remote
       \<or> cc_parent_sha candidate \<noteq> re_parent_sha remote
      then Inl (metadata_error ''REMOTE_COMMIT_BINDING_MISMATCH'') else Inr ())"

definition verify_existing ::
  "RollbackRecordModel \<Rightarrow> IntegrationCommand \<Rightarrow> CandidateCommit \<Rightarrow> RemoteEvidence \<Rightarrow> py_exception + unit" where
  "verify_existing existing command candidate remote =
     (if rm_integration_commit_sha existing \<noteq> re_commit_sha remote
       \<or> rm_integration_tree_sha existing \<noteq> re_tree_sha remote
       \<or> rm_parent_commit_sha existing \<noteq> re_parent_sha remote
       \<or> rm_original_patch_sha256 existing \<noteq> bn_approved_patch_sha256 (ik_binding command)
       \<or> cc_commit_sha candidate \<noteq> re_commit_sha remote
      then Inl (metadata_error ''ROLLBACK_METADATA_REPLAY_MISMATCH'') else Inr ())"

text \<open>What the hook reads from git: the tree of the parent, the inverse diff, the changed paths.\<close>

definition read_evidence ::
  "git_runner \<Rightarrow> string \<Rightarrow> CandidateCommit \<Rightarrow> py_exception + (string \<times> string \<times> ChangedPath list)" where
  "read_evidence git repository candidate =
     bind_result (git_output git repository
       [''rev-parse'', cc_parent_sha candidate @ ''^{tree}'']) (\<lambda>parent_tree.
     bind_result (git_bytes git repository
       [''diff'', ''--binary'', ''--full-index'', cc_commit_sha candidate, cc_parent_sha candidate]) (\<lambda>inverse_diff.
     bind_result (changed_paths git repository (cc_parent_sha candidate) (cc_commit_sha candidate)) (\<lambda>paths.
       Inr (parent_tree, inverse_diff, paths))))"

definition inverse_artifact :: "hashing \<Rightarrow> uuid \<Rightarrow> uuid \<Rightarrow> string \<Rightarrow> Recovery_Store.ArtifactModel" where
  "inverse_artifact hs new_id project_id inverse_diff =
     \<lparr>am_id = new_id, am_project_id = project_id, am_run_id = None,
      am_artifact_type = ''integration_inverse_diff'',
      am_media_type = ''application/octet-stream;base64'', am_content = base64 inverse_diff,
      am_content_hash = hs_sha256 hs inverse_diff\<rparr>"

definition new_integration_commit :: "uuid \<Rightarrow> uuid \<Rightarrow> RemoteEvidence \<Rightarrow> IntegrationCommitModel" where
  "new_integration_commit new_id attempt_id remote =
     \<lparr>ic_id = new_id, ic_integration_attempt_id = attempt_id, ic_commit_sha = re_commit_sha remote,
      ic_tree_sha = re_tree_sha remote, ic_parent_commit_sha = re_parent_sha remote,
      ic_remote_verified = True\<rparr>"

definition new_rollback ::
  "hashing \<Rightarrow> uuid \<Rightarrow> timestamp \<Rightarrow> IntegrationAttemptModel \<Rightarrow> IntegrationApprovalModel \<Rightarrow> IntegrationCommand \<Rightarrow>
   RemoteEvidence \<Rightarrow> uuid \<Rightarrow> uuid \<Rightarrow> string \<Rightarrow> digest \<Rightarrow> ChangedPath list \<Rightarrow> RollbackRecordModel" where
  "new_rollback hs new_id now attempt approval command remote commit_id artifact_id parent_tree
     inverse_hash paths =
     (let patch = bn_approved_patch_sha256 (ik_binding command);
          changed_hash = hash_changed_paths (hash_json hs) paths;
          commands_hash = ga_approved_test_commands_sha256 approval
      in \<lparr>rm_id = new_id, rm_integration_attempt_id = gm_id attempt, rm_integration_commit_id = commit_id,
          rm_project_id = gm_project_id attempt, rm_target_branch = re_branch remote,
          rm_integration_commit_sha = re_commit_sha remote, rm_parent_commit_sha = re_parent_sha remote,
          rm_integration_tree_sha = re_tree_sha remote, rm_parent_tree_sha = parent_tree,
          rm_changed_paths = paths, rm_changed_paths_sha256 = changed_hash,
          rm_inverse_diff_artifact_id = artifact_id, rm_inverse_diff_sha256 = inverse_hash,
          rm_original_patch_sha256 = patch,
          rm_approved_test_commands = ga_approved_test_commands approval,
          rm_approved_test_commands_sha256 = commands_hash,
          rm_external_side_effects_declared = False,
          rm_database_change_detected = has_prefix paths
            [''alembic/versions/'', ''migrations/'', ''db/migrations/'', ''schema/''],
          rm_deployment_change_detected = has_prefix paths
            [''terraform/'', ''helm/'', ''k8s/'', ''deploy/''],
          rm_recovery_policy_version = METADATA_POLICY_VERSION,
          rm_rollback_binding_sha256 = rollback_binding_hash (hash_json hs) (uuid_text (gm_id attempt))
            (re_commit_sha remote) (re_parent_sha remote) (re_tree_sha remote) parent_tree changed_hash
            inverse_hash patch commands_hash METADATA_POLICY_VERSION,
          rm_created_at = now\<rparr>)"

text \<open>The commit of an attempt, the hash of a commit and the rollback record of an attempt are unique.\<close>

definition add_recovery_evidence ::
  "Recovery_Store.ArtifactModel \<Rightarrow> IntegrationCommitModel \<Rightarrow> RollbackRecordModel \<Rightarrow> integration_db \<Rightarrow>
   py_exception + integration_db" where
  "add_recovery_evidence a commit rollback db =
     (if list_ex (\<lambda>c. ic_integration_attempt_id c = ic_integration_attempt_id commit
           \<or> ic_commit_sha c = ic_commit_sha commit) (ig_commits db)
       \<or> list_ex (\<lambda>r. rm_integration_attempt_id r = rm_integration_attempt_id rollback) (ig_rollbacks db)
      then Inl (IntegrityError ''integration_commits_commit_sha_key'')
      else Inr (db\<lparr>ig_artifacts := ig_artifacts db @ [a], ig_commits := ig_commits db @ [commit],
             ig_rollbacks := ig_rollbacks db @ [rollback]\<rparr>))"

definition record_metadata ::
  "hashing \<Rightarrow> draws \<Rightarrow> git_runner \<Rightarrow> IntegrationCommand \<Rightarrow> CandidateCommit \<Rightarrow> RemoteEvidence \<Rightarrow> string \<Rightarrow>
   integration_db \<Rightarrow> py_exception + integration_db" where
  "record_metadata hs dr git command candidate remote repository db =
     bind_result (verify_pushed candidate remote) (\<lambda>_.
     case get_row gm_id (ik_attempt_id command) (ig_attempts db) of
       None \<Rightarrow> Inl (metadata_error ''INTEGRATION_ATTEMPT_NOT_FOUND'')
     | Some attempt \<Rightarrow>
         (case get_row ga_id (gm_integration_approval_id attempt) (ig_approvals db) of
            None \<Rightarrow> Inl (metadata_error ''INTEGRATION_APPROVAL_NOT_FOUND'')
          | Some approval \<Rightarrow>
              (case get_row rm_integration_attempt_id (gm_id attempt) (ig_rollbacks db) of
                 Some existing \<Rightarrow> bind_result (verify_existing existing command candidate remote) (\<lambda>_. Inr db)
               | None \<Rightarrow> bind_result (read_evidence git repository candidate)
                   (\<lambda>(parent_tree, inverse_diff, paths).
                   let a = inverse_artifact hs (dr_uuid dr 0) (gm_project_id attempt) inverse_diff;
                       commit = new_integration_commit (dr_uuid dr 1) (gm_id attempt) remote;
                       rollback = new_rollback hs (dr_uuid dr 2) (dr_clock dr 0) attempt approval command
                         remote (ic_id commit) (am_id a) parent_tree (am_content_hash a) paths
                   in add_recovery_evidence a commit rollback
                        (integration_audit hs dr 3 (gm_project_id attempt)
                          ''integration.rollback_metadata_created'' ''integration_worker''
                          (ik_worker_id command)
                          [(''attempt_id'', uuid_json (gm_id attempt)),
                           (''commit_sha'', JText (re_commit_sha remote)),
                           (''tree_sha'', JText (re_tree_sha remote)),
                           (''parent_sha'', JText (re_parent_sha remote)),
                           (''inverse_diff_sha256'', JText (am_content_hash a)),
                           (''changed_paths_sha256'', JText (rm_changed_paths_sha256 rollback)),
                           (''rollback_binding_sha256'', JText (rm_rollback_binding_sha256 rollback)),
                           (''artifact_id'', uuid_json (am_id a))] db)))))"

end
