(* ===== verification/Integration_Processor.thy ===== *)
theory Integration_Processor
  imports Rollback_Metadata Process
begin

text \<open>
  \<^verbatim>\<open>application/integration/processor.py\<close>. The processor talks to the attempt store, the hook for
  the recovery evidence, seven collaborators that are protocols in the source and the file
  system; it is a \<open>process\<close>. The local variable \<^verbatim>\<open>failure_status\<close>, which the source sets before
  each part of the \<^verbatim>\<open>try\<close> block for the benefit of its \<^verbatim>\<open>except\<close> clause, travels with the
  exception. Only \<^verbatim>\<open>Exception\<close> is modelled, not the cancellation of a task.
\<close>

section \<open>Requests\<close>

datatype integration_request =
    claim_attempt uuid string
  | transition_attempt uuid IntegrationAttemptStatus string "(string \<times> json) list"
  | fail_attempt uuid IntegrationAttemptStatus string string
  | complete_attempt IntegrationCommand CandidateCommit RemoteEvidence "TestRunEvidence list"
  | record_rollback IntegrationCommand CandidateCommit RemoteEvidence "TestRunEvidence list" string
  | prepare_snapshot RepositoryPolicy string string
  | cleanup_snapshot SnapshotEvidence
  | make_parents string
  | make_temporary string string
  | remove_temporary string
  | make_directory string
  | write_bytes string string
  | apply_patch string string IntegrationBinding ExecutionScope
  | verify_workspace string ExecutionScope "string list option"
  | run_tests string "ApprovedTestCommand list" string string
  | create_commit string RepositoryPolicy string string string timestamp
  | push_commit string RepositoryPolicy CandidateCommit string
  | verify_remote string RepositoryPolicy CandidateCommit

datatype integration_answer =
    Raised py_exception
  | Unit_Answer
  | Text_Answer string
  | Command_Answer IntegrationCommand
  | Snapshot_Answer SnapshotEvidence
  | Workspace_Answer WorkspaceEvidence
  | Tests_Answer "TestRunEvidence list"
  | Commit_Answer CandidateCommit
  | Remote_Answer RemoteEvidence

type_synonym ('e, 'a) integration_process = "(integration_request, integration_answer, 'e, 'a) process"

text \<open>
  The collaborators are typed: an answer is the exception or a value of the request's type. An
  answer of another type is answered with a \<^verbatim>\<open>TypeError\<close>.
\<close>

definition expect ::
  "integration_request \<Rightarrow> (integration_answer \<Rightarrow> 'a option) \<Rightarrow> (py_exception, 'a) integration_process" where
  "expect q view = Ask q (\<lambda>a. Done (case a of Raised e \<Rightarrow> Inl e
     | _ \<Rightarrow> (case view a of None \<Rightarrow> Inl (PyTypeError ''answer'') | Some x \<Rightarrow> Inr x)))"

definition do_request :: "integration_request \<Rightarrow> (py_exception, unit) integration_process" where
  "do_request q = expect q (\<lambda>a. case a of Unit_Answer \<Rightarrow> Some () | _ \<Rightarrow> None)"

definition get_text :: "integration_request \<Rightarrow> (py_exception, string) integration_process" where
  "get_text q = expect q (\<lambda>a. case a of Text_Answer s \<Rightarrow> Some s | _ \<Rightarrow> None)"

definition get_command :: "integration_request \<Rightarrow> (py_exception, IntegrationCommand) integration_process" where
  "get_command q = expect q (\<lambda>a. case a of Command_Answer c \<Rightarrow> Some c | _ \<Rightarrow> None)"

definition get_snapshot :: "integration_request \<Rightarrow> (py_exception, SnapshotEvidence) integration_process" where
  "get_snapshot q = expect q (\<lambda>a. case a of Snapshot_Answer s \<Rightarrow> Some s | _ \<Rightarrow> None)"

definition get_workspace :: "integration_request \<Rightarrow> (py_exception, WorkspaceEvidence) integration_process" where
  "get_workspace q = expect q (\<lambda>a. case a of Workspace_Answer w \<Rightarrow> Some w | _ \<Rightarrow> None)"

definition get_tests :: "integration_request \<Rightarrow> (py_exception, TestRunEvidence list) integration_process" where
  "get_tests q = expect q (\<lambda>a. case a of Tests_Answer ts \<Rightarrow> Some ts | _ \<Rightarrow> None)"

definition get_commit :: "integration_request \<Rightarrow> (py_exception, CandidateCommit) integration_process" where
  "get_commit q = expect q (\<lambda>a. case a of Commit_Answer c \<Rightarrow> Some c | _ \<Rightarrow> None)"

definition get_remote :: "integration_request \<Rightarrow> (py_exception, RemoteEvidence) integration_process" where
  "get_remote q = expect q (\<lambda>a. case a of Remote_Answer r \<Rightarrow> Some r | _ \<Rightarrow> None)"

section \<open>Failures\<close>

text \<open>\<^verbatim>\<open>str.isalnum\<close> on the first 256 characters of Unicode.\<close>

definition is_alnum_char :: "char \<Rightarrow> bool" where
  "is_alnum_char c = (let n = of_char c :: nat
     in 48 \<le> n \<and> n \<le> 57 \<or> 65 \<le> n \<and> n \<le> 90 \<or> 97 \<le> n \<and> n \<le> 122
        \<or> n \<in> {170, 178, 179, 181, 185, 186, 188, 189, 190}
        \<or> 192 \<le> n \<and> n \<noteq> 215 \<and> n \<noteq> 247)"

definition is_alnum :: "string \<Rightarrow> bool" where
  "is_alnum s \<longleftrightarrow> s \<noteq> [] \<and> list_all is_alnum_char s"

definition failure_code :: "py_exception \<Rightarrow> string" where
  "failure_code e = (let t = strip (exception_text e)
     in if t \<noteq> [] \<and> is_alnum (remove_char (CHR ''_'') t) \<and> CHR '' '' \<notin> set t then take 128 t
        else take 128 (upper (exception_type_name e)))"

text \<open>The \<^verbatim>\<open>except\<close> clause of \<^verbatim>\<open>execute\<close>.\<close>

definition failing ::
  "uuid \<Rightarrow> (py_exception \<times> IntegrationAttemptStatus, 'a) integration_process \<Rightarrow>
   (py_exception, 'a) integration_process" where
  "failing attempt_id p = handle p (\<lambda>(e, failure_status).
     bind_process (do_request (fail_attempt attempt_id failure_status (failure_code e)
       (take 2000 (exception_text e)))) (\<lambda>_. raise_error e))"

section \<open>The stages\<close>

definition take_snapshot ::
  "hashing \<Rightarrow> uuid \<Rightarrow> IntegrationCommand \<Rightarrow>
   (py_exception \<times> IntegrationAttemptStatus, SnapshotEvidence) integration_process" where
  "take_snapshot hs attempt_id command = under VERIFICATION_FAILED
     (if hs_sha256 hs (ik_patch_bytes command) \<noteq> bn_approved_patch_sha256 (ik_binding command)
      then raise_error (PyValueError ''PATCH_ARTIFACT_MISMATCH'')
      else get_snapshot (prepare_snapshot (ik_policy command)
        (bn_base_commit_sha (ik_binding command)) (bn_base_tree_sha (ik_binding command))))"

definition announce_snapshot ::
  "hashing \<Rightarrow> string \<Rightarrow> uuid \<Rightarrow> IntegrationCommand \<Rightarrow> SnapshotEvidence \<Rightarrow>
   (py_exception \<times> IntegrationAttemptStatus, string) integration_process" where
  "announce_snapshot hs temp_root attempt_id command snapshot =
     bind_process (under VERIFICATION_FAILED (do_request (transition_attempt attempt_id SNAPSHOT_READY
         ''integration.snapshot_prepared''
         [(''actual_base_commit_sha'', JText (se_commit_sha snapshot)),
          (''actual_base_tree_sha'', JText (se_tree_sha snapshot)),
          (''remote_url'', JText (se_remote_url snapshot)),
          (''git_config_sha256'', JText (se_git_config_sha256 snapshot))]))) (\<lambda>_.
     under PATCH_APPLY_FAILED
       (bind_process (do_request (transition_attempt attempt_id APPLYING_PATCH ''integration.patch_applying''
          [(''patch_sha256'', JText (hs_sha256 hs (ik_patch_bytes command)))])) (\<lambda>_.
        bind_process (do_request (make_parents temp_root)) (\<lambda>_.
        get_text (make_temporary ''integration-input-'' temp_root)))))"

definition apply_approved ::
  "string \<Rightarrow> uuid \<Rightarrow> IntegrationCommand \<Rightarrow> SnapshotEvidence \<Rightarrow>
   (py_exception \<times> IntegrationAttemptStatus, WorkspaceEvidence) integration_process" where
  "apply_approved temp attempt_id command snapshot = under PATCH_APPLY_FAILED
     (let patch_path = temp @ ''/approved.patch''
      in bind_process (do_request (write_bytes patch_path (ik_patch_bytes command))) (\<lambda>_.
         bind_process (get_text (apply_patch (se_path snapshot) patch_path (ik_binding command)
           (ik_scope command))) (\<lambda>_.
         bind_process (get_workspace (verify_workspace (se_path snapshot) (ik_scope command) None)) (\<lambda>workspace.
         bind_process (do_request (transition_attempt attempt_id PATCH_APPLIED ''integration.patch_applied''
           [(''changed_paths'', JList (map JText (we_changed_paths workspace))),
            (''candidate_tree_sha'', JText (we_tree_sha workspace))])) (\<lambda>_.
         return_value workspace)))))"

definition tests_evidence :: "string \<Rightarrow> TestRunEvidence list \<Rightarrow> (string \<times> json) list" where
  "tests_evidence tree tests =
     [(''tested_tree_sha'', JText tree), (''test_runs'', JList (map test_run_json tests))]"

definition test_applied ::
  "string \<Rightarrow> uuid \<Rightarrow> IntegrationCommand \<Rightarrow> SnapshotEvidence \<Rightarrow> WorkspaceEvidence \<Rightarrow>
   (py_exception \<times> IntegrationAttemptStatus, string \<times> TestRunEvidence list) integration_process" where
  "test_applied temp attempt_id command snapshot workspace = under TESTS_FAILED
     (let home = temp @ ''/home''; temporary = temp @ ''/tmp''
      in bind_process (do_request (transition_attempt attempt_id TESTING ''integration.tests_started''
           [(''command_count'', JInt (int (length (ik_tests command))))])) (\<lambda>_.
         bind_process (do_request (make_directory home)) (\<lambda>_.
         bind_process (do_request (make_directory temporary)) (\<lambda>_.
         bind_process (get_tests (run_tests (se_path snapshot) (ik_tests command) home temporary)) (\<lambda>tests.
         bind_process (get_workspace (verify_workspace (se_path snapshot) (ik_scope command)
           (Some (we_changed_paths workspace)))) (\<lambda>tested.
         if we_tree_sha tested \<noteq> we_tree_sha workspace
         then raise_error (PyValueError ''TESTED_TREE_MISMATCH'')
         else bind_process (do_request (transition_attempt attempt_id TESTING ''integration.tests_completed''
           (tests_evidence (we_tree_sha tested) tests))) (\<lambda>_.
         return_value (we_tree_sha tested, tests))))))))"

definition commit_tested ::
  "uuid \<Rightarrow> IntegrationCommand \<Rightarrow> SnapshotEvidence \<Rightarrow> string \<Rightarrow>
   (py_exception \<times> IntegrationAttemptStatus, CandidateCommit) integration_process" where
  "commit_tested attempt_id command snapshot tree = under COMMIT_FAILED
     (bind_process (do_request (transition_attempt attempt_id COMMIT_CREATING ''integration.commit_creating''
        [(''tested_tree_sha'', JText tree)])) (\<lambda>_.
      get_commit (create_commit (se_path snapshot) (ik_policy command) tree
        (bn_base_commit_sha (ik_binding command)) (ik_commit_message command) (ik_commit_timestamp command))))"

text \<open>
  The outcome of a block as a value, and the block in the temporary directory, which is removed whether or not
  the block raises.
\<close>

definition attempted :: "('q, 'r, 'e, 'a) process \<Rightarrow> ('q, 'r, 'd, 'e + 'a) process" where
  "attempted p = handle (bind_process p (\<lambda>x. return_value (Inr x))) (\<lambda>e. return_value (Inl e))"

definition build_candidate ::
  "string \<Rightarrow> uuid \<Rightarrow> IntegrationCommand \<Rightarrow> SnapshotEvidence \<Rightarrow>
   (py_exception \<times> IntegrationAttemptStatus, CandidateCommit \<times> TestRunEvidence list) integration_process" where
  "build_candidate temp attempt_id command snapshot =
     bind_process (apply_approved temp attempt_id command snapshot) (\<lambda>workspace.
     bind_process (test_applied temp attempt_id command snapshot workspace) (\<lambda>(tree, tests).
     bind_process (commit_tested attempt_id command snapshot tree) (\<lambda>candidate.
     return_value (candidate, tests))))"

definition in_temporary ::
  "string \<Rightarrow> (py_exception \<times> IntegrationAttemptStatus, 'a) integration_process \<Rightarrow>
   (py_exception \<times> IntegrationAttemptStatus, 'a) integration_process" where
  "in_temporary temp p =
     bind_process (attempted p) (\<lambda>result.
     bind_process (under (case result of Inl (e, failure_status) \<Rightarrow> failure_status | Inr _ \<Rightarrow> COMMIT_FAILED)
       (do_request (remove_temporary temp))) (\<lambda>_.
     Done result))"

definition candidate_evidence :: "CandidateCommit \<Rightarrow> (string \<times> json) list" where
  "candidate_evidence candidate =
     [(''commit_sha'', JText (cc_commit_sha candidate)), (''tree_sha'', JText (cc_tree_sha candidate)),
      (''parent_sha'', JText (cc_parent_sha candidate)),
      (''author_identity'', JText (cc_author_identity candidate)),
      (''committer_identity'', JText (cc_committer_identity candidate))]"

definition announce_push ::
  "uuid \<Rightarrow> IntegrationCommand \<Rightarrow> CandidateCommit \<Rightarrow>
   (py_exception \<times> IntegrationAttemptStatus, unit) integration_process" where
  "announce_push attempt_id command candidate =
     bind_process (under COMMIT_FAILED (do_request (transition_attempt attempt_id COMMIT_CREATED
       ''integration.commit_created'' (candidate_evidence candidate)))) (\<lambda>_.
     under PUSH_FAILED (do_request (transition_attempt attempt_id PUSHING ''integration.push_started''
       [(''target_branch'', JText (po_target_branch (ik_policy command)))])))"

definition push_candidate ::
  "uuid \<Rightarrow> IntegrationCommand \<Rightarrow> SnapshotEvidence \<Rightarrow> CandidateCommit \<Rightarrow> TestRunEvidence list \<Rightarrow>
   (py_exception \<times> IntegrationAttemptStatus, unit) integration_process" where
  "push_candidate attempt_id command snapshot candidate tests = under PUSH_FAILED
     (bind_process (do_request (push_commit (se_path snapshot) (ik_policy command) candidate
        (bn_base_commit_sha (ik_binding command)))) (\<lambda>_.
      bind_process (do_request (transition_attempt attempt_id PUSHING ''integration.push_completed''
        [(''commit_sha'', JText (cc_commit_sha candidate))])) (\<lambda>_.
      bind_process (get_remote (verify_remote (se_path snapshot) (ik_policy command) candidate)) (\<lambda>remote.
      bind_process (do_request (transition_attempt attempt_id PUSHING ''integration.remote_verified''
        [(''commit_sha'', JText (re_commit_sha remote)), (''tree_sha'', JText (re_tree_sha remote)),
         (''parent_sha'', JText (re_parent_sha remote)), (''branch'', JText (re_branch remote))])) (\<lambda>_.
      bind_process (do_request (record_rollback command candidate remote tests (se_path snapshot))) (\<lambda>_.
      do_request (complete_attempt command candidate remote tests)))))))"

definition with_snapshot ::
  "hashing \<Rightarrow> string \<Rightarrow> uuid \<Rightarrow> IntegrationCommand \<Rightarrow> SnapshotEvidence \<Rightarrow>
   (py_exception \<times> IntegrationAttemptStatus, unit) integration_process" where
  "with_snapshot hs temp_root attempt_id command snapshot =
     bind_process (announce_snapshot hs temp_root attempt_id command snapshot) (\<lambda>temp.
     bind_process (in_temporary temp (build_candidate temp attempt_id command snapshot)) (\<lambda>(candidate, tests).
     bind_process (announce_push attempt_id command candidate) (\<lambda>_.
     push_candidate attempt_id command snapshot candidate tests)))"

definition execute_integration ::
  "hashing \<Rightarrow> string \<Rightarrow> uuid \<Rightarrow> string \<Rightarrow> (py_exception, unit) integration_process" where
  "execute_integration hs temp_root attempt_id worker_id =
     bind_process (get_command (claim_attempt attempt_id worker_id)) (\<lambda>command.
     bind_process (failing attempt_id (take_snapshot hs attempt_id command)) (\<lambda>snapshot.
       finally_do (failing attempt_id (with_snapshot hs temp_root attempt_id command snapshot))
         (do_request (cleanup_snapshot snapshot))))"

end
