(* ===== verification/Integration_Protocol.thy ===== *)
theory Integration_Protocol
  imports Integration_Processor "HOL-Library.Sublist"
begin

text \<open>
  The protocol the processor of an integration keeps. The state of the automaton is the history:
  the requests with their answers, the latest first. A transition or failure concerns the claimed
  attempt, which is not completed; the push is the only one, and is the push of a commit made of
  the tree the approved tests were run on, after the approved patch was applied to the approved
  base; the evidence is recorded of a commit whose push succeeded; the completion follows the
  evidence. \<open>execute_integration_keeps_protocol\<close> is the one fact about the processor the system
  needs.
\<close>

type_synonym integration_history = "(integration_request \<times> integration_answer) list"

fun claimed :: "integration_history \<Rightarrow> (uuid \<times> IntegrationCommand) option" where
  "claimed [] = None"
| "claimed [e] = (case e of (claim_attempt a w, Command_Answer c) \<Rightarrow> Some (a, c) | _ \<Rightarrow> None)"
| "claimed (e # f # h) = claimed (f # h)"

fun is_push_request :: "integration_request \<Rightarrow> bool" where
  "is_push_request (push_commit repository policy candidate base) = True"
| "is_push_request _ = False"

fun is_completion :: "integration_request \<times> integration_answer \<Rightarrow> bool" where
  "is_completion (complete_attempt c candidate remote tests, a) \<longleftrightarrow> a = Unit_Answer"
| "is_completion _ \<longleftrightarrow> False"

definition pushed_once :: "integration_history \<Rightarrow> bool" where
  "pushed_once h \<longleftrightarrow> (\<exists>e\<in>set h. is_push_request (fst e))"

text \<open>The claimed attempt of a history, as long as it is not completed.\<close>

definition owns :: "uuid \<Rightarrow> IntegrationCommand \<Rightarrow> integration_history \<Rightarrow> bool" where
  "owns a c h \<longleftrightarrow> claimed h = Some (a, c) \<and> (\<forall>e\<in>set h. \<not> is_completion e)"

text \<open>The steps that lead to a commit, the latest first.\<close>

definition tested_steps ::
  "IntegrationCommand \<Rightarrow> SnapshotEvidence \<Rightarrow> string \<Rightarrow> string \<Rightarrow> string \<Rightarrow> string \<Rightarrow> string list \<Rightarrow>
   TestRunEvidence list \<Rightarrow> WorkspaceEvidence \<Rightarrow> CandidateCommit \<Rightarrow> integration_history" where
  "tested_steps c snapshot patch_path tree home temporary paths tests tested candidate =
     [(create_commit (se_path snapshot) (ik_policy c) (we_tree_sha tested) (bn_base_commit_sha (ik_binding c))
         (ik_commit_message c) (ik_commit_timestamp c), Commit_Answer candidate),
      (verify_workspace (se_path snapshot) (ik_scope c) (Some paths), Workspace_Answer tested),
      (run_tests (se_path snapshot) (ik_tests c) home temporary, Tests_Answer tests),
      (apply_patch (se_path snapshot) patch_path (ik_binding c) (ik_scope c), Text_Answer tree),
      (write_bytes patch_path (ik_patch_bytes c), Unit_Answer),
      (prepare_snapshot (ik_policy c) (bn_base_commit_sha (ik_binding c)) (bn_base_tree_sha (ik_binding c)),
       Snapshot_Answer snapshot)]"

definition tested_commit ::
  "hashing \<Rightarrow> IntegrationCommand \<Rightarrow> integration_history \<Rightarrow> string \<Rightarrow> CandidateCommit \<Rightarrow> bool" where
  "tested_commit hs c h repository candidate \<longleftrightarrow>
     hs_sha256 hs (ik_patch_bytes c) = bn_approved_patch_sha256 (ik_binding c) \<and>
     (\<exists>snapshot patch_path tree home temporary paths tests tested.
        se_path snapshot = repository \<and>
        subseq (tested_steps c snapshot patch_path tree home temporary paths tests tested candidate) h)"

fun permits :: "hashing \<Rightarrow> integration_history \<Rightarrow> integration_request \<Rightarrow> bool" where
  "permits hs h (claim_attempt a w) \<longleftrightarrow> h = []"
| "permits hs h (transition_attempt a status event evidence) \<longleftrightarrow>
     status \<noteq> QUEUED \<and> status \<noteq> IntegrationAttemptStatus.INTEGRATED \<and> (\<exists>c. owns a c h)"
| "permits hs h (fail_attempt a status code message) \<longleftrightarrow>
     status \<noteq> QUEUED \<and> status \<noteq> IntegrationAttemptStatus.INTEGRATED \<and> (\<exists>c. owns a c h)"
| "permits hs h (push_commit repository policy candidate base) \<longleftrightarrow>
     \<not> pushed_once h \<and> (\<exists>a c. owns a c h \<and> policy = ik_policy c \<and>
       base = bn_base_commit_sha (ik_binding c) \<and> tested_commit hs c h repository candidate)"
| "permits hs h (record_rollback c candidate remote tests repository) \<longleftrightarrow>
     (\<exists>a. owns a c h) \<and>
     (push_commit repository (ik_policy c) candidate (bn_base_commit_sha (ik_binding c)), Unit_Answer) \<in> set h \<and>
     (verify_remote repository (ik_policy c) candidate, Remote_Answer remote) \<in> set h"
| "permits hs h (complete_attempt c candidate remote tests) \<longleftrightarrow>
     (\<exists>a. owns a c h) \<and>
     (\<exists>repository. (record_rollback c candidate remote tests repository, Unit_Answer) \<in> set h)"
| "permits hs h _ \<longleftrightarrow> True"

definition noted :: "integration_history \<Rightarrow> integration_request \<Rightarrow> integration_answer \<Rightarrow> integration_history" where
  "noted h q a = (q, a) # h"

abbreviation integrates ::
  "hashing \<Rightarrow> ('e, 'a) integration_process \<Rightarrow> integration_history \<Rightarrow>
   ('e + 'a \<Rightarrow> integration_history \<Rightarrow> bool) \<Rightarrow> bool" where
  "integrates hs \<equiv> wp (permits hs) noted"

section \<open>Rules\<close>

lemma claimed_more: "claimed h = Some x \<Longrightarrow> claimed (e # h) = Some x"
  by (cases h) simp_all

lemma owns_more: "owns a c h \<Longrightarrow> \<not> is_completion e \<Longrightarrow> owns a c (e # h)"
  by (simp add: owns_def claimed_more)

lemma owns_some: "owns a c h \<Longrightarrow> h \<noteq> []"
  by (auto simp: owns_def)

lemma owns_cons: "h \<noteq> [] \<Longrightarrow> owns a c (e # h) \<longleftrightarrow> \<not> is_completion e \<and> owns a c h"
  by (cases h) (auto simp: owns_def)

lemma pushed_once_more [simp]: "pushed_once (e # h) \<longleftrightarrow> is_push_request (fst e) \<or> pushed_once h"
  by (auto simp: pushed_once_def)

text \<open>A block that leaves the attempt its own, whose failure has a status.\<close>

definition value_of ::
  "uuid \<Rightarrow> IntegrationCommand \<Rightarrow> ('a \<Rightarrow> integration_history \<Rightarrow> bool) \<Rightarrow> 'e + 'a \<Rightarrow> integration_history \<Rightarrow> bool" where
  "value_of a c Q r h \<longleftrightarrow> owns a c h \<and> (case r of Inl e \<Rightarrow> True | Inr x \<Rightarrow> Q x h)"

definition staged ::
  "uuid \<Rightarrow> IntegrationCommand \<Rightarrow> ('a \<Rightarrow> integration_history \<Rightarrow> bool) \<Rightarrow>
   (py_exception \<times> IntegrationAttemptStatus) + 'a \<Rightarrow> integration_history \<Rightarrow> bool" where
  "staged a c Q r h \<longleftrightarrow> owns a c h \<and> (case r of
     Inl (e, status) \<Rightarrow> status \<noteq> QUEUED \<and> status \<noteq> IntegrationAttemptStatus.INTEGRATED | Inr x \<Rightarrow> Q x h)"

lemma wp_expect [wp_simps]:
  "integrates hs (expect q view) h Q \<longleftrightarrow> permits hs h q \<and>
     (\<forall>ans. Q (case ans of Raised e \<Rightarrow> Inl e
        | _ \<Rightarrow> (case view ans of None \<Rightarrow> Inl (PyTypeError ''answer'') | Some x \<Rightarrow> Inr x)) ((q, ans) # h))"
  by (simp add: expect_def noted_def)

lemma value_expect:
  assumes "owns a c h" and "permits hs h q" and "\<And>ans. \<not> is_completion (q, ans)"
    and "\<And>ans x. view ans = Some x \<Longrightarrow> Q x ((q, ans) # h)"
  shows "integrates hs (expect q view) h (value_of a c Q)"
  unfolding wp_expect value_of_def
  using assms by (auto intro!: owns_more split: integration_answer.split option.split)

lemma value_bind:
  assumes "integrates hs p h (value_of a c Q)"
    and "\<And>x h'. owns a c h' \<Longrightarrow> Q x h' \<Longrightarrow> integrates hs (f x) h' (value_of a c R)"
  shows "integrates hs (bind_process p f) h (value_of a c R)"
  unfolding wp_bind
  by (rule wp_mono [OF assms(1)]) (auto simp: assms(2) value_of_def split: sum.splits)

lemma staged_bind:
  assumes "integrates hs p h (staged a c Q)"
    and "\<And>x h'. owns a c h' \<Longrightarrow> Q x h' \<Longrightarrow> integrates hs (f x) h' (staged a c R)"
  shows "integrates hs (bind_process p f) h (staged a c R)"
  unfolding wp_bind
  by (rule wp_mono [OF assms(1)]) (auto simp: assms(2) staged_def split: sum.splits)

lemma staged_under:
  assumes "integrates hs p h (value_of a c Q)"
    and "status \<noteq> QUEUED" and "status \<noteq> IntegrationAttemptStatus.INTEGRATED"
  shows "integrates hs (under status p) h (staged a c Q)"
  unfolding wp_under
  by (rule wp_mono [OF assms(1)]) (auto simp: assms(2,3) value_of_def staged_def split: sum.splits)

lemma value_return: "owns a c h \<Longrightarrow> Q x h \<Longrightarrow> integrates hs (return_value x) h (value_of a c Q)"
  by (simp add: wp_return value_of_def)

lemma value_raise: "owns a c h \<Longrightarrow> integrates hs (raise_error e) h (value_of a c Q)"
  by (simp add: wp_raise value_of_def)

lemma value_if:
  "(b \<Longrightarrow> integrates hs p h R) \<Longrightarrow> (\<not> b \<Longrightarrow> integrates hs q h R) \<Longrightarrow>
   integrates hs (if b then p else q) h R"
  by simp

lemma staged_return: "owns a c h \<Longrightarrow> Q x h \<Longrightarrow> integrates hs (return_value x) h (staged a c Q)"
  by (simp add: wp_return staged_def)

lemma failing_value:
  assumes "integrates hs p h (staged a c Q)"
  shows "integrates hs (failing a p) h (value_of a c Q)"
  unfolding failing_def wp_handle
  by (rule wp_mono [OF assms])
     (auto simp: staged_def value_of_def wp_simps do_request_def intro!: owns_more
       split: sum.splits integration_answer.split)

section \<open>The stages\<close>

text \<open>The steps taken so far, before the push.\<close>

definition taken :: "integration_history \<Rightarrow> integration_history \<Rightarrow> bool" where
  "taken steps h \<longleftrightarrow> subseq steps h \<and> \<not> pushed_once h"

lemma taken_more: "taken steps h \<Longrightarrow> \<not> is_push_request (fst e) \<Longrightarrow> taken steps (e # h)"
  by (auto simp: taken_def)

lemma taken_step: "taken steps h \<Longrightarrow> \<not> is_push_request (fst e) \<Longrightarrow> taken (e # steps) (e # h)"
  by (auto simp: taken_def)

lemma value_plain:
  assumes "owns a c h" and "taken steps h" and "permits hs h q"
    and "\<And>ans. \<not> is_completion (q, ans)" and "\<not> is_push_request q"
  shows "integrates hs (expect q view) h (value_of a c (\<lambda>_. taken steps))"
  using assms by (intro value_expect) (auto intro: taken_more)

lemma value_step:
  assumes "owns a c h" and "taken steps h" and "permits hs h q"
    and "\<And>ans. \<not> is_completion (q, ans)" and "\<not> is_push_request q"
    and "\<And>ans x. view ans = Some x \<Longrightarrow> ans = answer_of x"
  shows "integrates hs (expect q view) h (value_of a c (\<lambda>x. taken ((q, answer_of x) # steps)))"
  using assms by (intro value_expect) (auto intro: taken_step)

lemmas request_defs = do_request_def get_text_def get_command_def get_snapshot_def get_workspace_def
  get_tests_def get_commit_def get_remote_def

lemma value_transition:
  assumes "owns a c h" and "taken steps h"
    and "status \<noteq> QUEUED" and "status \<noteq> IntegrationAttemptStatus.INTEGRATED"
  shows "integrates hs (do_request (transition_attempt a status event evidence)) h
    (value_of a c (\<lambda>_. taken steps))"
  unfolding do_request_def using assms by (intro value_plain) auto

lemma value_directory:
  assumes "owns a c h" and "taken steps h"
  shows "integrates hs (do_request (make_directory path)) h (value_of a c (\<lambda>_. taken steps))"
    and "integrates hs (do_request (make_parents path)) h (value_of a c (\<lambda>_. taken steps))"
    and "integrates hs (do_request (remove_temporary path)) h (value_of a c (\<lambda>_. taken steps))"
    and "integrates hs (get_text (make_temporary start path)) h (value_of a c (\<lambda>_. taken steps))"
    and "integrates hs (get_workspace (verify_workspace path scope paths)) h (value_of a c (\<lambda>_. taken steps))"
  unfolding request_defs using assms by (auto intro!: value_plain)

lemma value_write:
  assumes "owns a c h" and "taken steps h"
  shows "integrates hs (do_request (write_bytes path bytes)) h
    (value_of a c (\<lambda>_. taken ((write_bytes path bytes, Unit_Answer) # steps)))"
  unfolding do_request_def using assms
  by (intro value_step [where answer_of = "\<lambda>_. Unit_Answer"]) (auto split: integration_answer.splits)

lemma value_apply:
  assumes "owns a c h" and "taken steps h"
  shows "integrates hs (get_text (apply_patch repository path binding scope)) h
    (value_of a c (\<lambda>tree. taken ((apply_patch repository path binding scope, Text_Answer tree) # steps)))"
  unfolding get_text_def using assms by (intro value_step) (auto split: integration_answer.splits)

lemma value_tests:
  assumes "owns a c h" and "taken steps h"
  shows "integrates hs (get_tests (run_tests repository commands home temporary)) h
    (value_of a c (\<lambda>tests. taken ((run_tests repository commands home temporary, Tests_Answer tests) # steps)))"
  unfolding get_tests_def using assms by (intro value_step) (auto split: integration_answer.splits)

lemma value_verify:
  assumes "owns a c h" and "taken steps h"
  shows "integrates hs (get_workspace (verify_workspace path scope paths)) h
    (value_of a c (\<lambda>w. taken ((verify_workspace path scope paths, Workspace_Answer w) # steps)))"
  unfolding get_workspace_def using assms by (intro value_step) (auto split: integration_answer.splits)

lemma value_create:
  assumes "owns a c h" and "taken steps h"
  shows "integrates hs (get_commit (create_commit repository policy tree parent message at_time)) h
    (value_of a c (\<lambda>candidate. taken ((create_commit repository policy tree parent message at_time,
        Commit_Answer candidate) # steps)))"
  unfolding get_commit_def using assms by (intro value_step) (auto split: integration_answer.splits)

abbreviation snapshot_step :: "IntegrationCommand \<Rightarrow> SnapshotEvidence \<Rightarrow> integration_request \<times> integration_answer" where
  "snapshot_step c snapshot \<equiv> (prepare_snapshot (ik_policy c) (bn_base_commit_sha (ik_binding c))
     (bn_base_tree_sha (ik_binding c)), Snapshot_Answer snapshot)"

lemma staged_take_snapshot:
  assumes "owns a c h" and "taken [] h"
  shows "integrates hs (take_snapshot hs a c) h (staged a c (\<lambda>snapshot h'.
    hs_sha256 hs (ik_patch_bytes c) = bn_approved_patch_sha256 (ik_binding c) \<and>
    taken [snapshot_step c snapshot] h'))"
  unfolding take_snapshot_def
proof (intro staged_under value_if value_raise)
  assume "\<not> hs_sha256 hs (ik_patch_bytes c) \<noteq> bn_approved_patch_sha256 (ik_binding c)"
  with assms show "integrates hs (get_snapshot (prepare_snapshot (ik_policy c) (bn_base_commit_sha (ik_binding c))
        (bn_base_tree_sha (ik_binding c)))) h
     (value_of a c (\<lambda>snapshot h'. hs_sha256 hs (ik_patch_bytes c) = bn_approved_patch_sha256 (ik_binding c) \<and>
       taken [snapshot_step c snapshot] h'))"
    unfolding get_snapshot_def
    by (intro value_expect) (auto intro!: taken_step split: integration_answer.splits)
qed (use assms in simp_all)

lemma staged_announce_snapshot:
  assumes "owns a c h" and "taken steps h"
  shows "integrates hs (announce_snapshot hs temp_root a c snapshot) h (staged a c (\<lambda>_. taken steps))"
  unfolding announce_snapshot_def using assms
  by (auto intro!: staged_bind [OF staged_under [OF value_transition]] staged_under
      value_bind [OF value_transition] value_bind [OF value_directory(2)] value_directory(4))

lemma staged_apply_approved:
  assumes "owns a c h" and "taken steps h"
  shows "integrates hs (apply_approved temp a c snapshot) h (staged a c (\<lambda>_ h'. \<exists>patch_path tree.
    taken ((apply_patch (se_path snapshot) patch_path (ik_binding c) (ik_scope c), Text_Answer tree) #
           (write_bytes patch_path (ik_patch_bytes c), Unit_Answer) # steps) h'))"
  unfolding apply_approved_def Let_def
  by (rule staged_under, rule value_bind [OF value_write [OF assms]],
      rule value_bind [OF value_apply], assumption+)
     (auto intro!: value_bind [OF value_directory(5)] value_bind [OF value_transition] value_return)

lemma staged_test_applied:
  assumes "owns a c h" and "taken steps h"
  shows "integrates hs (test_applied temp a c snapshot workspace) h (staged a c
    (\<lambda>(tree, tests) h'. \<exists>home temporary paths tested. we_tree_sha tested = tree \<and>
      taken ((verify_workspace (se_path snapshot) (ik_scope c) (Some paths), Workspace_Answer tested) #
        (run_tests (se_path snapshot) (ik_tests c) home temporary, Tests_Answer tests) # steps) h'))"
  unfolding test_applied_def Let_def
  by (rule staged_under, rule value_bind [OF value_transition [OF assms]], simp, simp,
      rule value_bind [OF value_directory(1)], assumption+, rule value_bind [OF value_directory(1)], assumption+,
      rule value_bind [OF value_tests], assumption+, rule value_bind [OF value_verify], assumption+)
     (auto intro!: value_if value_raise value_bind [OF value_transition] value_return)

lemma staged_commit_tested:
  assumes "owns a c h" and "taken steps h"
  shows "integrates hs (commit_tested a c snapshot tree) h (staged a c (\<lambda>candidate.
    taken ((create_commit (se_path snapshot) (ik_policy c) tree (bn_base_commit_sha (ik_binding c))
      (ik_commit_message c) (ik_commit_timestamp c), Commit_Answer candidate) # steps)))"
  unfolding commit_tested_def using assms
  by (auto intro!: staged_under value_bind [OF value_transition] value_create)

definition ready_to_push ::
  "hashing \<Rightarrow> IntegrationCommand \<Rightarrow> SnapshotEvidence \<Rightarrow> CandidateCommit \<Rightarrow> integration_history \<Rightarrow> bool" where
  "ready_to_push hs c snapshot candidate h \<longleftrightarrow>
     \<not> pushed_once h \<and> tested_commit hs c h (se_path snapshot) candidate"

lemma ready_more: "ready_to_push hs c snapshot candidate h \<Longrightarrow> \<not> is_push_request (fst e) \<Longrightarrow>
    ready_to_push hs c snapshot candidate (e # h)"
  unfolding ready_to_push_def tested_commit_def pushed_once_more by (blast intro: list_emb_Cons)

lemma staged_build_candidate:
  assumes "owns a c h" and "taken [snapshot_step c snapshot] h"
    and "hs_sha256 hs (ik_patch_bytes c) = bn_approved_patch_sha256 (ik_binding c)"
  shows "integrates hs (build_candidate temp a c snapshot) h
    (staged a c (\<lambda>(candidate, tests). ready_to_push hs c snapshot candidate))"
  unfolding build_candidate_def
proof (rule staged_bind [OF staged_apply_approved [OF assms(1,2)]], elim exE, rule staged_bind [OF staged_test_applied],
    assumption+, clarify)
  fix h1 h2 patch_path tree tests home temporary paths tested
  assume owner: "owns a c h2" and steps: "taken
      [(verify_workspace (se_path snapshot) (ik_scope c) (Some paths), Workspace_Answer tested),
       (run_tests (se_path snapshot) (ik_tests c) home temporary, Tests_Answer tests),
       (apply_patch (se_path snapshot) patch_path (ik_binding c) (ik_scope c), Text_Answer tree),
       (write_bytes patch_path (ik_patch_bytes c), Unit_Answer), snapshot_step c snapshot] h2"
  have "ready_to_push hs c snapshot candidate h'"
    if "taken (tested_steps c snapshot patch_path tree home temporary paths tests tested candidate) h'" for candidate h'
    using that assms(3) unfolding ready_to_push_def tested_commit_def taken_def by blast
  with owner steps show "integrates hs
      (bind_process (commit_tested a c snapshot (we_tree_sha tested)) (\<lambda>candidate. return_value (candidate, tests))) h2
      (staged a c (\<lambda>(candidate, tests). ready_to_push hs c snapshot candidate))"
    by (intro staged_bind [OF staged_commit_tested] staged_return) (auto simp: tested_steps_def)
qed

lemma staged_in_temporary:
  assumes "integrates hs p h (staged a c Q)"
    and "\<And>x h' ans. Q x h' \<Longrightarrow> Q x ((remove_temporary temp, ans) # h')"
  shows "integrates hs (in_temporary temp p) h (staged a c Q)"
  unfolding in_temporary_def attempted_def wp_simps
  by (rule wp_mono [OF assms(1)])
     (auto simp: staged_def do_request_def wp_simps assms(2) intro!: owns_more
       split: sum.splits integration_answer.split)

lemma staged_announce_push:
  assumes "owns a c h" and "ready_to_push hs c snapshot candidate h"
  shows "integrates hs (announce_push a c candidate) h (staged a c (\<lambda>_. ready_to_push hs c snapshot candidate))"
proof -
  have "integrates hs (do_request (transition_attempt a status event evidence)) h'
      (value_of a c (\<lambda>_. ready_to_push hs c snapshot candidate))"
    if "owns a c h'" "ready_to_push hs c snapshot candidate h'"
      "status \<noteq> QUEUED" "status \<noteq> IntegrationAttemptStatus.INTEGRATED" for h' status event evidence
    unfolding do_request_def using that by (intro value_expect) (auto intro: ready_more)
  with assms show ?thesis
    unfolding announce_push_def by (auto intro!: staged_bind [OF staged_under] staged_under)
qed

text \<open>A failure that can still be recorded.\<close>

definition recordable ::
  "uuid \<Rightarrow> IntegrationCommand \<Rightarrow> (py_exception \<times> IntegrationAttemptStatus) + 'a \<Rightarrow> integration_history \<Rightarrow> bool" where
  "recordable a c r h \<longleftrightarrow> (case r of Inl (e, status) \<Rightarrow> owns a c h \<and> status \<noteq> QUEUED \<and>
     status \<noteq> IntegrationAttemptStatus.INTEGRATED | Inr _ \<Rightarrow> True)"

lemma push_candidate_keeps:
  assumes "owns a c h" and "ready_to_push hs c snapshot candidate h"
  shows "integrates hs (push_candidate a c snapshot candidate tests) h
    (recordable a c)"
  using assms owns_some [OF assms(1)] unfolding push_candidate_def
  by (auto simp: wp_simps request_defs ready_to_push_def owns_cons recordable_def
      split: sum.splits integration_answer.split)

lemma with_snapshot_keeps:
  assumes "owns a c h" and "taken [snapshot_step c snapshot] h"
    and "hs_sha256 hs (ik_patch_bytes c) = bn_approved_patch_sha256 (ik_binding c)"
  shows "integrates hs (with_snapshot hs temp_root a c snapshot) h
    (recordable a c)"
proof -
  have build: "integrates hs (in_temporary temp (build_candidate temp a c snapshot)) h'
      (staged a c (\<lambda>(candidate, tests). ready_to_push hs c snapshot candidate))"
    if "owns a c h'" "taken [snapshot_step c snapshot] h'" for temp h'
    using that assms(3) by (intro staged_in_temporary staged_build_candidate) (auto intro: ready_more)
  have "integrates hs (bind_process (announce_push a c candidate) (\<lambda>_. push_candidate a c snapshot candidate tests)) h'
      (recordable a c)"
    if "owns a c h'" "ready_to_push hs c snapshot candidate h'" for candidate tests h'
    unfolding wp_bind
    by (rule wp_mono [OF staged_announce_push [OF that]])
       (auto simp: staged_def push_candidate_keeps recordable_def [of _ _ "Inl _"] split: sum.splits)
  then have "integrates hs (bind_process (in_temporary temp (build_candidate temp a c snapshot))
        (\<lambda>(candidate, tests). bind_process (announce_push a c candidate)
          (\<lambda>_. push_candidate a c snapshot candidate tests))) h'
      (recordable a c)"
    if "owns a c h'" "taken [snapshot_step c snapshot] h'" for temp h'
    unfolding wp_bind [of _ _ "in_temporary temp (build_candidate temp a c snapshot)"]
    by (intro wp_mono [OF build [OF that]]) (auto simp: staged_def recordable_def [of _ _ "Inl _"] split: sum.splits)
  then show ?thesis
    unfolding with_snapshot_def wp_bind [of _ _ "announce_snapshot hs temp_root a c snapshot"]
    by (intro wp_mono [OF staged_announce_snapshot [OF assms(1,2)]])
       (auto simp: staged_def recordable_def [of _ _ "Inl _"] split: sum.splits)
qed

theorem execute_integration_keeps_protocol:
  "integrates hs (execute_integration hs temp_root a w) [] (\<lambda>_ _. True)"
proof -
  have body: "integrates hs (finally_do (failing a (with_snapshot hs temp_root a c snapshot))
      (do_request (cleanup_snapshot snapshot))) h (\<lambda>_ _. True)"
    if "owns a c h" "taken [snapshot_step c snapshot] h"
      "hs_sha256 hs (ik_patch_bytes c) = bn_approved_patch_sha256 (ik_binding c)" for c snapshot h
    unfolding wp_finally failing_def wp_handle
    by (rule wp_mono [OF with_snapshot_keeps [OF that]])
       (auto simp: wp_simps do_request_def recordable_def split: sum.splits integration_answer.split)
  have claimed: "integrates hs (bind_process (failing a (take_snapshot hs a c)) (\<lambda>snapshot.
      finally_do (failing a (with_snapshot hs temp_root a c snapshot))
        (do_request (cleanup_snapshot snapshot)))) h (\<lambda>_ _. True)"
    if "owns a c h" "taken [] h" for c h
    unfolding wp_bind [of _ _ "failing a (take_snapshot hs a c)"]
    by (rule wp_mono [OF failing_value [OF staged_take_snapshot [OF that]]])
       (auto simp: value_of_def intro!: body split: sum.splits)
  show ?thesis
    unfolding execute_integration_def wp_bind [of _ _ "get_command (claim_attempt a w)"]
    by (auto simp: get_command_def wp_expect owns_def taken_def pushed_once_def intro!: claimed
        split: integration_answer.split)
qed

end
