(* ===== verification/Integration_System.thy ===== *)
theory Integration_System
  imports Integration_Protocol
begin

text \<open>
  Workers that integrate patches side by side on one database, with the operations of the control
  plane and the rest of the platform. \<open>integration_step\<close> interleaves the workers one request at a
  time; a worker may crash at any moment. The history of an execution is kept with the worker,
  and a push is noted with the history before it when it is asked for, whether or not it succeeds.
\<close>

section \<open>The answers of the store\<close>

text \<open>
  A session that waits for a rollback answers nothing else; a violated constraint makes it wait.
\<close>

definition session_reply ::
  "('a \<Rightarrow> integration_answer) \<Rightarrow> py_exception + ('a \<times> integration_db) \<Rightarrow> integration_db \<times> bool \<Rightarrow>
   integration_answer \<times> integration_db \<times> bool" where
  "session_reply view r s = (case s of (db, broken) \<Rightarrow>
     if broken then (Raised (PendingRollbackError ''This Session's transaction has been rolled back''), db, True)
     else (case r of
        Inl (IntegrityError m) \<Rightarrow> (Raised (IntegrityError m), db, True)
      | Inl e \<Rightarrow> (Raised e, db, False)
      | Inr (x, db') \<Rightarrow> (view x, db', False)))"

definition unit_reply ::
  "py_exception + integration_db \<Rightarrow> integration_db \<times> bool \<Rightarrow> integration_answer \<times> integration_db \<times> bool" where
  "unit_reply r = session_reply (\<lambda>_. Unit_Answer) (bind_result r (\<lambda>db. Inr ((), db)))"

text \<open>The answers of the store and of the hook; the other requests go to the collaborators.\<close>

fun integration_reply ::
  "hashing \<Rightarrow> draws \<Rightarrow> git_runner \<Rightarrow> integration_request \<Rightarrow> integration_db \<times> bool \<Rightarrow>
   (integration_answer \<times> integration_db \<times> bool) option" where
  "integration_reply hs dr git (claim_attempt a w) s =
     Some (session_reply Command_Answer (claim_integration hs dr a w (fst s)) s)"
| "integration_reply hs dr git (transition_attempt a status event evidence) s =
     Some (unit_reply (transition_integration hs dr a status event evidence (fst s)) s)"
| "integration_reply hs dr git (fail_attempt a status code message) s =
     Some (unit_reply (fail_integration hs dr a status code message (fst s)) s)"
| "integration_reply hs dr git (complete_attempt c candidate remote tests) s =
     Some (unit_reply (complete_integration hs dr c candidate remote tests (fst s)) s)"
| "integration_reply hs dr git (record_rollback c candidate remote tests repository) s =
     Some (unit_reply (record_metadata hs dr git c candidate remote repository (fst s)) s)"
| "integration_reply hs dr git _ s = None"

section \<open>The system\<close>

record integration_worker =
  iw_broken :: bool
  iw_history :: integration_history
  iw_process :: "(py_exception, unit) integration_process"

record integration_system =
  in_db :: integration_db
  in_workers :: "nat \<Rightarrow> integration_worker"
  in_pushes :: "(integration_history \<times> integration_request) list"

definition set_worker :: "nat \<Rightarrow> integration_worker \<Rightarrow> integration_system \<Rightarrow> integration_system" where
  "set_worker w wk sys = sys\<lparr>in_workers := (in_workers sys)(w := wk)\<rparr>"

definition audit_of :: "integration_db \<Rightarrow> AuditEventModel list" where
  "audit_of db = au_events (ig_audit db)"

text \<open>
  What the rest of the platform does meanwhile: it leaves the five tables of integration alone and
  adds to the audit trail.
\<close>

definition elsewhere :: "integration_db \<Rightarrow> integration_db \<Rightarrow> bool" where
  "elsewhere db db' \<longleftrightarrow>
     ig_eligibilities db' = ig_eligibilities db \<and> ig_approvals db' = ig_approvals db \<and>
     ig_attempts db' = ig_attempts db \<and> ig_commits db' = ig_commits db \<and>
     ig_rollbacks db' = ig_rollbacks db \<and> prefix (audit_of db) (audit_of db')"

inductive integration_step ::
  "hashing \<Rightarrow> string \<Rightarrow> integration_system \<Rightarrow> integration_system \<Rightarrow> bool" for hs temp_root where
  start: "iw_process (in_workers sys w) = Done r \<Longrightarrow>
    integration_step hs temp_root sys (set_worker w \<lparr>iw_broken = iw_broken (in_workers sys w),
      iw_history = [], iw_process = execute_integration hs temp_root a name\<rparr> sys)"
| store: "iw_process (in_workers sys w) = Ask q k \<Longrightarrow>
    integration_reply hs dr git q (in_db sys, iw_broken (in_workers sys w)) = Some (ans, db', broken') \<Longrightarrow>
    integration_step hs temp_root sys (set_worker w \<lparr>iw_broken = broken',
      iw_history = (q, ans) # iw_history (in_workers sys w), iw_process = k ans\<rparr> (sys\<lparr>in_db := db'\<rparr>))"
| collaborator: "iw_process (in_workers sys w) = Ask q k \<Longrightarrow>
    (\<And>dr git s. integration_reply hs dr git q s = None) \<Longrightarrow>
    integration_step hs temp_root sys (set_worker w \<lparr>iw_broken = iw_broken (in_workers sys w),
      iw_history = (q, ans) # iw_history (in_workers sys w), iw_process = k ans\<rparr>
      (sys\<lparr>in_pushes := (if is_push_request q then [(iw_history (in_workers sys w), q)] else []) @ in_pushes sys\<rparr>))"
| crash: "integration_step hs temp_root sys
    (set_worker w \<lparr>iw_broken = False, iw_history = [], iw_process = Done (Inr ())\<rparr> sys)"
| evaluation: "evaluate_eligibility hs dr execution_id (in_db sys) = Inr (e, db') \<Longrightarrow>
    integration_step hs temp_root sys (sys\<lparr>in_db := db'\<rparr>)"
| approval: "approve_integration hs dr execution_id actor branch reason (in_db sys) = Inr (g, db') \<Longrightarrow>
    integration_step hs temp_root sys (sys\<lparr>in_db := db'\<rparr>)"
| creation: "create_integration_attempt hs dr approval_id (in_db sys) = Inr (t, db') \<Longrightarrow>
    integration_step hs temp_root sys (sys\<lparr>in_db := db'\<rparr>)"
| platform: "elsewhere (in_db sys) db' \<Longrightarrow> integration_step hs temp_root sys (sys\<lparr>in_db := db'\<rparr>)"

text \<open>The systems that start with no approvals, attempts, commits or records and idle workers.\<close>

definition initial_integration :: "integration_system \<Rightarrow> bool" where
  "initial_integration sys \<longleftrightarrow>
     ig_approvals (in_db sys) = [] \<and> ig_attempts (in_db sys) = [] \<and> ig_commits (in_db sys) = [] \<and>
     ig_rollbacks (in_db sys) = [] \<and> in_pushes sys = [] \<and>
     (\<forall>w. in_workers sys w = \<lparr>iw_broken = False, iw_history = [], iw_process = Done (Inr ())\<rparr>)"

inductive integration_reachable :: "hashing \<Rightarrow> string \<Rightarrow> integration_system \<Rightarrow> bool" for hs temp_root where
  initially: "initial_integration sys \<Longrightarrow> integration_reachable hs temp_root sys"
| later: "integration_reachable hs temp_root sys \<Longrightarrow> integration_step hs temp_root sys sys' \<Longrightarrow>
    integration_reachable hs temp_root sys'"

end
