(* ===== verification/Spec2Isabelle.thy ===== *)
theory Spec2Isabelle
  imports Workflow_Engine_Guarantees Project_Guarantees Broker_Auth Job_Guarantees Decomposition_Guarantees
    Audit_Guarantees Recovery_Lifecycle Recovery_Guarantees Authority_Guarantees Resilience_Guarantees
    Integration_System
begin

text \<open>
  Verification development for the control plane of an AI-run software organization. The code is
  the Python package under \<^verbatim>\<open>src/apps/api/src/ai_enterprise\<close>; every path below is relative to it.

  \<^bold>\<open>The program.\<close> A project is created from a manifest. A crew of language models writes its
  requirements, a person approves them, a crew draws up an architecture from them, a person
  approves it, and a planner turns both into a work package: a contract about the files, commands
  and resources an agent may use. The work package is executed in a sandbox, its patch reviewed
  and, once more with an approval, pushed to the repository. A push that turns out to be wrong is
  reverted by a controlled recovery. Long-running work goes through a durable job queue, every
  decision into a hash-chained audit trail, and a workflow on top binds the evidence of the
  phases together. What the development shows is that the language models and the workers cannot
  get around the control plane: nothing moves on without its approvals, nothing is pushed twice,
  and the record of what happened is complete and in order.

  \<^bold>\<open>The theories and the code they model.\<close>

  \<^item> Shared: \<open>Prelude\<close> (results with an error branch, the operations of lists and strings the
    components share, the collections of simplification rules), \<open>Py_Text\<close> and \<open>Uuid_Text\<close>
    (Python's text, path and identifier functions; the text of an identifier parses back to it),
    \<open>Json_Value\<close> (JSON values, \<^verbatim>\<open>domain/hashing.py\<close>), \<open>Machine\<close> (what lifecycles promise),
    \<open>Process\<close> (processes that ask requests, and what they keep of a protocol).
  \<^item> Project delivery, \<^verbatim>\<open>application/project_workflow.py\<close> and the requirements revisions of
    \<^verbatim>\<open>application/requirements_revision/service.py\<close> and \<^verbatim>\<open>domain/requirements_revision\<close>:
    \<open>Project_Store\<close> (tables and helpers), \<open>Requirements_Revision\<close>, \<open>Project_Workflow\<close> (creation
    and requirements), \<open>Project_Delivery\<close> (architecture and the queueing of the planning),
    \<open>Project_Planning\<close>. \<open>Project_System\<close> puts persons, workers, crashes and the queue side by side;
    \<open>Project_Provenance\<close> and \<open>Project_Steps\<close> show where rows come from, \<open>Project_Authority\<close> and
    \<open>Project_Lawful\<close> what statuses and approvals rest on; \<open>Project_Guarantees\<close> states both, and two
    ways in which a project gets stuck. \<open>Project_Sample\<close> plays a delivery to its end.
  \<^item> Work packages: \<open>Work_Package\<close> is \<^verbatim>\<open>domain/work_package.py\<close> and
    \<^verbatim>\<open>domain/work_package_validation.py\<close>.
  \<^item> Decomposition into packages, \<^verbatim>\<open>domain/decomposition\<close>: \<open>Decomposition_Core\<close> (states and
    canonical forms), \<open>Topological_Sort\<close>, \<open>Decomposition\<close> (normalizer and graph builder),
    \<open>Decomposition_Validation\<close> (the validators); \<open>Decomposition_Paths\<close>, \<open>Decomposition_Graph\<close> and
    \<open>Decomposition_Guarantees\<close> hold the results.
  \<^item> Delivery workflow: \<open>Workflow\<close> is \<^verbatim>\<open>domain/workflow/enums.py\<close> and \<^verbatim>\<open>state_machine.py\<close>,
    \<open>Workflow_Context\<close> the evidence and its completeness check, \<open>Workflow_Store\<close>, \<open>Workflow_Engine\<close>
    and \<open>Workflow_Advance\<close> the service of \<^verbatim>\<open>application/workflow\<close>; \<open>Workflow_History\<close>,
    \<open>Workflow_Moves\<close> and \<open>Workflow_System\<close> prove its record correct under concurrency,
    \<open>Workflow_Sample\<close> and \<open>Workflow_Engine_Guarantees\<close> hold the witness and the results.
  \<^item> Job queue, \<^verbatim>\<open>infrastructure/jobs\<close>: \<open>Job_Queue\<close>, \<open>Job_Leases\<close>, \<open>Job_Guarantees\<close>.
  \<^item> Audit trail, \<^verbatim>\<open>application/audit\<close> and \<^verbatim>\<open>infrastructure/audit\<close>: \<open>Audit_Chain\<close>,
    \<open>Audit_Guarantees\<close>.
  \<^item> Integration of reviewed work: \<open>Integration_Service\<close> is \<^verbatim>\<open>application/integration/service.py\<close>
    and \<^verbatim>\<open>domain/integration\<close>, \<open>Integration_Store\<close> \<^verbatim>\<open>infrastructure/integration/attempt_store.py\<close>,
    \<open>Rollback_Metadata\<close> \<^verbatim>\<open>infrastructure/recovery/rollback_metadata.py\<close>, \<open>Integration_Processor\<close>
    \<^verbatim>\<open>application/integration/processor.py\<close>. \<open>Integration_Protocol\<close> shows what the processor
    keeps to whatever it is answered, \<open>Integration_System\<close> runs any number of workers beside the
    control plane.
  \<^item> Controlled recovery: \<open>Recovery_Domain\<close> is \<^verbatim>\<open>domain/recovery\<close>, \<open>Integration_Models\<close> the values
    it shares with integration, \<open>Recovery_Store\<close> is \<^verbatim>\<open>infrastructure/recovery/attempt_store.py\<close>,
    \<open>Recovery_Processor\<close> and \<open>Recovery_Service\<close> are \<^verbatim>\<open>application/recovery\<close>. \<open>Recovery_System\<close> runs
    any number of workers; \<open>Recovery_Protocol\<close>, \<open>Recovery_Views\<close>, \<open>Recovery_Fencing\<close> and
    \<open>Recovery_Contract\<close> lead to \<open>Recovery_Guarantees\<close>, \<open>Recovery_Authority\<close> to
    \<open>Authority_Guarantees\<close>; \<open>Recovery_Sample\<close> is a played recovery.
  \<^item> Broker authentication: \<open>Broker_Auth\<close> is \<^verbatim>\<open>infrastructure/execution_broker/auth.py\<close>.
  \<^item> Resilience: \<open>Resilience_Domain\<close>, \<open>Resilience_Extended\<close> and \<open>Resilience_Guarantees\<close> are
    \<^verbatim>\<open>domain/resilience\<close> and the services on top of it.

  \<^bold>\<open>How the code is represented.\<close> A table is a list of records in the order of insertion, with a
  field for every column the operations read or write; an enumeration is a datatype, or its text
  where the code stores a text. An operation is a function from the tables to an error or a result
  with the new tables, with a branch for every early return and exception of the code; an error
  leaves the tables as the rollback leaves them. Clock readings, fresh identifiers and the answers
  of git, crews and services are arguments. Hash functions and the canonical JSON text are the
  fields of \<open>hashing\<close>; the claims hold for any of them, the detection of tampering under the
  hypothesis that the chain has no collision. Identifiers are 128-bit words, other Python integers
  are unbounded. A query that orders its rows picks by a stable sort, so equal keys come in the
  order of the table.

  \<^bold>\<open>Concurrency.\<close> Each part is a transition system over its operations. In integration and in
  recovery the processor is a process that asks requests, and workers interleave request by request, with crashes and any
  answers. In the workflow engine a decision is read under a lock that ends with the next commit,
  so a read may be written late, never or twice. In project delivery an operation of a person is
  one transaction and the execution of a run is two, with any number of executions under way and
  crashes between. Two transactions that overlap without a lock (two reviewers of one artifact)
  are not modelled; what may follow is noted with the findings of the manifest.

  \<^bold>\<open>Contracts between parts.\<close> \<open>nonce_store\<close> states what the authenticator needs of a store of
  nonces; both stores of the code are interpretations, and their equivalence is a refinement.
  \<open>lifecycle\<close>, \<open>staged_lifecycle\<close> and \<open>ranked_lifecycle\<close> are interpreted for the workflow, the
  decomposition, the recovery attempts and the disaster recoveries. \<open>attempt_store\<close> is what the
  processor of recovery relies on; its laws are proved of the SQL store, and the safety of
  recovery is proved from them.

  \<^bold>\<open>Bounds.\<close> The sort by Kahn's algorithm and its greedy reference run with as much fuel as there
  are nodes, the grouping of packages with as many rounds as there are keys, the replacement in a
  text with the length of the text; each uses up one unit per node, key or character, so the fuel
  is enough. A recovery asks at most 25 requests.

  \<^bold>\<open>Not modelled.\<close> Within the modelled parts: rounding of floating-point numbers (clock readings
  are exact), the bracket expressions of path patterns that begin with a negation inside a range,
  the lengths of text columns, the order of keys in stored JSON, characters beyond Latin-1 in
  identifiers and paths, columns that only record when a row was updated, the identity map of the
  database session, and the cancellation of a task. Left out, as the components of the manifest
  say one by one: the HTTP interface and the dashboard; the read side; crews, sandboxes, agents
  and workers, whose behaviour is that of language models and processes outside the repository;
  the calls of git; the roadmap runtimes and verification runtimes, which build documents in
  memory or on disk beside the delivery path; the registry and the compilers of engineering
  documents; and the parts for knowledge, evolution, organization, change management,
  specification, architecture derivation, review and the enterprise kernel, which are independent
  of the delivery path or reach it through a service that is a parameter here.
\<close>

end
